(* ===== verification/Orcinus_Prelude.thy ===== *)
theory Orcinus_Prelude
  imports
    Main
    "HOL-Library.AList"
    "HOL-Library.Char_ord"
    "HOL-Library.List_Lexorder"
    "HOL-Library.Product_Lexorder"
    "HOL-Library.Multiset"
begin

text \<open>
  Shared vocabulary of the development: the result type of fallible Go functions and its
  sequencing, the functions of Go's \<^verbatim>\<open>strings\<close>, \<^verbatim>\<open>fmt\<close> and \<^verbatim>\<open>sort\<close> packages that the
  sources call, and Go maps.

  A Go \<^verbatim>\<open>string\<close> is a byte string, here \<open>string = char list\<close>; the case and white-space
  functions act on the ASCII range. A Go \<^verbatim>\<open>map[string]V\<close> is an association list: the order
  of the list is the iteration order the runtime happens to choose, so a theorem that holds
  for every list holds for every iteration order. The named collections \<open>go_defs\<close> and
  \<open>res_simps\<close> carry the unfoldings and the sequencing rules the component proofs use.
\<close>

named_theorems go_defs "definitions of the Go library functions"
named_theorems res_simps "rules for sequencing fallible steps"

type_synonym 'v gomap = "(string \<times> 'v) list"

section \<open>Results of fallible functions\<close>

text \<open>
  Every \<^verbatim>\<open>fmt.Errorf\<close> of the modelled code is one constructor with the values the message
  carries; a function \<^verbatim>\<open>(T, error)\<close> returns \<open>error + T\<close>.
\<close>

datatype error =
    NoComposeFiles
  | ReadFileError string
  | ParseDocumentError
  | MarshalError
  | InvalidExtension string string string
  | VMNeedsSSHSecret string
  | VMAndRollout string
  | VMAndAutoscale string
  | EnvFileNotFound string string string
  | InvalidConstraint string
  | UnsupportedConstraintKey string
  | UnsupportedSpread string
  | ServiceError string error
  | FileError string error
  | LoadError string
  | TransformError string
  | RolloutNoSpec string
  | RolloutNeedsService string
  | RolloutUnknownKind string string
  | ToUnstructuredError
  | VMNoDeployment string
  | VMReplicas string int
  | VMNoImage string
  | VMImageRequired string
  | InvalidMode string
  | UnclassifiedDocument
  | NothingFound
  | NeedsACMEEmail
  | KubeVirtMissing
  | PluginError string
  | NoKubeconfig
  | MapError string
  | ApplyError string string
  | PruneError error
  | WaitTimeout string string
  | ProjectRequired
  | ApiError string
  | WriteError string
  | NoWorkload string string
  | CmdError string
  | NotRunning string
  | VersionUnknown string
  | NotSupported string
  | Restored error
  | UnknownName string
  | Excluded string string
  | Missing string
  | Panic string

definition rbind :: "'e + 'a \<Rightarrow> ('a \<Rightarrow> 'e + 'b) \<Rightarrow> 'e + 'b" where
  "rbind m f = (case m of Inl e \<Rightarrow> Inl e | Inr x \<Rightarrow> f x)"

text \<open>A loop whose body may return an error: the first error ends the loop.\<close>

fun foldM :: "('a \<Rightarrow> 's \<Rightarrow> 'e + 's) \<Rightarrow> 'a list \<Rightarrow> 's \<Rightarrow> 'e + 's" where
  "foldM f [] s = Inr s"
| "foldM f (x # xs) s = rbind (f x s) (foldM f xs)"

fun mapM :: "('a \<Rightarrow> 'e + 'b) \<Rightarrow> 'a list \<Rightarrow> 'e + 'b list" where
  "mapM f [] = Inr []"
| "mapM f (x # xs) = rbind (f x) (\<lambda>y. rbind (mapM f xs) (\<lambda>ys. Inr (y # ys)))"

lemma rbind_simps [simp, res_simps]:
  "rbind (Inl e) f = Inl e"
  "rbind (Inr x) f = f x"
  by (simp_all add: rbind_def)

lemma rbind_Inr_iff [res_simps]: "rbind m f = Inr y \<longleftrightarrow> (\<exists>x. m = Inr x \<and> f x = Inr y)"
  by (cases m) auto

lemma case_prod_Inr_iff [res_simps]:
  "(case p of (a, b) \<Rightarrow> f a b) = Inr y \<longleftrightarrow> (\<exists>a b. p = (a, b) \<and> f a b = Inr y)"
  by (cases p) auto

lemma rbind_Inl_iff [res_simps]:
  "rbind m f = Inl e \<longleftrightarrow> m = Inl e \<or> (\<exists>x. m = Inr x \<and> f x = Inl e)"
  by (cases m) auto

lemma rbind_cong [fundef_cong]:
  "m = m' \<Longrightarrow> (\<And>x. m' = Inr x \<Longrightarrow> f x = g x) \<Longrightarrow> rbind m f = rbind m' g"
  by (cases m') auto

text \<open>An invariant of the loop state: kept by each step, it holds of the final state.\<close>

lemma foldM_invariant:
  assumes "foldM f xs s = Inr s'" and "P s"
    and "\<And>x s t. x \<in> set xs \<Longrightarrow> P s \<Longrightarrow> f x s = Inr t \<Longrightarrow> P t"
  shows "P s'"
  using assms
proof (induction xs arbitrary: s)
  case (Cons x xs)
  then obtain t where t: "f x s = Inr t" and "foldM f xs t = Inr s'"
    by (auto simp: rbind_Inr_iff)
  moreover from Cons.prems(2) t have "P t" using Cons.prems(3) [of x s t] by simp
  ultimately show ?case
    by (rule_tac Cons.IH) (auto intro: Cons.prems(3))
qed simp

text \<open>Some step of a failing loop fails.\<close>

lemma foldM_error:
  "foldM f xs s = Inl e \<Longrightarrow> \<exists>x \<in> set xs. \<exists>t. f x t = Inl e"
proof (induction xs arbitrary: s)
  case (Cons x xs)
  then show ?case by (fastforce simp: rbind_Inl_iff)
qed simp

lemma foldM_append: "foldM f (xs @ ys) s = rbind (foldM f xs s) (foldM f ys)"
  by (induction xs arbitrary: s) (auto simp: rbind_def split: sum.splits)

lemma mapM_Inr_iff: "mapM f xs = Inr ys \<longleftrightarrow> list_all2 (\<lambda>x y. f x = Inr y) xs ys"
proof (induction xs arbitrary: ys)
  case Nil
  then show ?case by auto
next
  case (Cons x xs)
  then show ?case by (cases ys) (auto simp: rbind_Inr_iff)
qed

section \<open>Strings\<close>

definition HasPrefix :: "string \<Rightarrow> string \<Rightarrow> bool" where
  [go_defs]: "HasPrefix s p \<longleftrightarrow> take (length p) s = p"

definition TrimPrefix :: "string \<Rightarrow> string \<Rightarrow> string" where
  [go_defs]: "TrimPrefix s p = (if HasPrefix s p then drop (length p) s else s)"

definition CutPrefix :: "string \<Rightarrow> string \<Rightarrow> string option" where
  [go_defs]: "CutPrefix s p = (if HasPrefix s p then Some (drop (length p) s) else None)"

definition HasSuffix :: "string \<Rightarrow> string \<Rightarrow> bool" where
  [go_defs]: "HasSuffix s p \<longleftrightarrow> length p \<le> length s \<and> drop (length s - length p) s = p"

definition TrimSuffix :: "string \<Rightarrow> string \<Rightarrow> string" where
  [go_defs]: "TrimSuffix s p = (if HasSuffix s p then take (length s - length p) s else s)"

text \<open>
  The first occurrence of a non-empty separator: \<^verbatim>\<open>strings.SplitN(s, sep, 2)\<close> has two parts
  exactly when \<open>Cut\<close> finds it, and \<^verbatim>\<open>strings.Contains\<close> asks whether it does.
\<close>

fun Cut :: "string \<Rightarrow> string \<Rightarrow> (string \<times> string) option" where
  "Cut [] sep = (if sep = [] then Some ([], []) else None)"
| "Cut (c # s) sep =
     (if HasPrefix (c # s) sep then Some ([], drop (length sep) (c # s))
      else map_option (apfst ((#) c)) (Cut s sep))"

definition Contains :: "string \<Rightarrow> string \<Rightarrow> bool" where
  [go_defs]: "Contains s sep \<longleftrightarrow> Cut s sep \<noteq> None"

fun SplitChar :: "char \<Rightarrow> string \<Rightarrow> string list" where
  "SplitChar x [] = [[]]"
| "SplitChar x (c # s) =
     (if c = x then [] # SplitChar x s
      else case SplitChar x s of [] \<Rightarrow> [[c]] | p # ps \<Rightarrow> (c # p) # ps)"

fun Join :: "string list \<Rightarrow> string \<Rightarrow> string" where
  "Join [] sep = []"
| "Join [s] sep = s"
| "Join (s # t # ts) sep = s @ sep @ Join (t # ts) sep"

definition trim :: "(char \<Rightarrow> bool) \<Rightarrow> string \<Rightarrow> string" where
  [go_defs]: "trim P s = rev (dropWhile P (rev (dropWhile P s)))"

definition isSpace :: "char \<Rightarrow> bool" where
  [go_defs]: "isSpace c \<longleftrightarrow> c \<in> {CHR 0x09, CHR 0x0A, CHR 0x0B, CHR 0x0C, CHR 0x0D, CHR '' ''}"

definition TrimSpace :: "string \<Rightarrow> string" where
  [go_defs]: "TrimSpace s = trim isSpace s"

definition lower :: "char \<Rightarrow> char" where
  "lower c = (let n = of_char c :: nat in if 65 \<le> n \<and> n \<le> 90 then char_of (n + 32) else c)"

definition ToLower :: "string \<Rightarrow> string" where
  [go_defs]: "ToLower s = map lower s"

definition EqualFold :: "string \<Rightarrow> string \<Rightarrow> bool" where
  [go_defs]: "EqualFold s t \<longleftrightarrow> ToLower s = ToLower t"

subsection \<open>Their laws\<close>

lemma HasPrefix_iff: "HasPrefix s p \<longleftrightarrow> (\<exists>r. s = p @ r)"
  by (metis HasPrefix_def append_eq_conv_conj append_take_drop_id)

lemma CutPrefix_Some: "CutPrefix s p = Some r \<longleftrightarrow> s = p @ r"
  by (auto simp: CutPrefix_def HasPrefix_iff)

lemma HasPrefix_append [simp]: "HasPrefix (p @ r) p"
  by (simp add: HasPrefix_def)

lemma TrimPrefix_append [simp]: "TrimPrefix (p @ r) p = r"
  by (simp add: TrimPrefix_def)

lemma TrimPrefix_suffix: "\<exists>p'. s = p' @ TrimPrefix s p"
  by (metis TrimPrefix_def append_Nil append_take_drop_id)

lemma Cut_Some: "Cut s sep = Some (a, b) \<Longrightarrow> s = a @ sep @ b"
proof (induction s arbitrary: a b)
  case (Cons c s)
  show ?case
  proof (cases "HasPrefix (c # s) sep")
    case True
    with Cons.prems show ?thesis
      by (metis Cut.simps(2) HasPrefix_def append_Nil append_take_drop_id option.inject prod.inject)
  next
    case False
    with Cons.prems obtain a' where "Cut s sep = Some (a', b)" and "a = c # a'" by auto
    with Cons.IH show ?thesis by simp
  qed
qed (auto split: if_splits)

lemma Cut_None: "Cut s sep = None \<longleftrightarrow> (\<nexists>a b. s = a @ sep @ b)"
proof (induction s)
  case Nil
  then show ?case by auto
next
  case (Cons c s)
  show ?case
  proof (cases "HasPrefix (c # s) sep")
    case True
    then show ?thesis by (metis Cut.simps(2) HasPrefix_iff append_Nil option.distinct(1))
  next
    case False
    then have "(\<exists>a b. c # s = a @ sep @ b) \<longleftrightarrow> (\<exists>a b. s = a @ sep @ b)"
      unfolding HasPrefix_iff by (metis append_Cons append_Nil neq_Nil_conv list.inject)
    with False Cons.IH show ?thesis by auto
  qed
qed

lemma Contains_iff: "Contains s sep \<longleftrightarrow> (\<exists>a b. s = a @ sep @ b)"
  using Cut_None by (auto simp: Contains_def)

text \<open>\<open>Cut\<close> finds the \<^emph>\<open>first\<close> occurrence: none ends strictly inside the part before it.\<close>

lemma Cut_first: "Cut s sep = Some (a, b) \<Longrightarrow> sep \<noteq> [] \<Longrightarrow> \<not> Contains a sep"
proof (induction s arbitrary: a b)
  case (Cons c s)
  show ?case
  proof (cases "HasPrefix (c # s) sep")
    case True
    with Cons.prems show ?thesis by (auto simp: Contains_iff)
  next
    case False
    with Cons.prems obtain a' where a': "Cut s sep = Some (a', b)" and a: "a = c # a'" by auto
    with Cons.IH Cons.prems(2) have no: "\<not> Contains a' sep" by simp
    have s: "c # s = c # a' @ sep @ b" using Cut_Some [OF a'] by simp
    show ?thesis
    proof
      assume "Contains a sep"
      then obtain u v where uv: "c # a' = u @ sep @ v" using a by (auto simp: Contains_iff)
      show False
      proof (cases u)
        case Nil
        with uv s have "c # s = sep @ (v @ sep @ b)" by simp
        with False show False by (auto simp: HasPrefix_iff)
      next
        case (Cons w ws)
        with uv no show False by (auto simp: Contains_iff)
      qed
    qed
  qed
qed (auto split: if_splits)

lemma SplitChar_nonempty [simp]: "SplitChar x s \<noteq> []"
  by (cases s) (auto split: list.splits)

lemma SplitChar_no_sep: "p \<in> set (SplitChar x s) \<Longrightarrow> x \<notin> set p"
  by (induction s arbitrary: p) (auto split: if_splits list.splits)

lemma Join_SplitChar: "Join (SplitChar x s) [x] = s"
proof (induction s)
  case (Cons c s)
  obtain p ps where ps: "SplitChar x s = p # ps" by (meson SplitChar_nonempty list.exhaust)
  with Cons.IH show ?case by (cases ps) auto
qed simp

lemma SplitChar_Join:
  "ps \<noteq> [] \<Longrightarrow> (\<And>p. p \<in> set ps \<Longrightarrow> x \<notin> set p) \<Longrightarrow> SplitChar x (Join ps [x]) = ps"
proof (induction ps)
  case (Cons s ps)
  have s: "x \<notin> set s" using Cons.prems by simp
  show ?case
  proof (cases ps)
    case Nil
    from s show ?thesis unfolding Nil by (induction s) auto
  next
    case (Cons t ts)
    then have IH: "SplitChar x (Join ps [x]) = ps" using Cons.IH Cons.prems by simp
    from s have "SplitChar x (s @ x # Join ps [x]) = s # ps"
      by (induction s) (auto simp: IH)
    then show ?thesis using Cons by simp
  qed
qed simp

lemma trim_decomp: "\<exists>a b. s = a @ trim P s @ b \<and> list_all P a \<and> list_all P b"
proof -
  let ?m = "dropWhile P s"
  have "s = takeWhile P s @ ?m" by simp
  moreover have "?m = trim P s @ rev (takeWhile P (rev ?m))"
    unfolding trim_def by (metis rev_append rev_rev_ident takeWhile_dropWhile_id)
  ultimately have "s = takeWhile P s @ trim P s @ rev (takeWhile P (rev ?m))" by metis
  then show ?thesis
    by (metis (no_types, lifting) list_all_iff set_rev set_takeWhileD)
qed

lemma dropWhile_idem_hd: "(s \<noteq> [] \<Longrightarrow> \<not> P (hd s)) \<Longrightarrow> dropWhile P s = s"
  by (cases s) auto

lemma trim_id:
  assumes "s \<noteq> [] \<Longrightarrow> \<not> P (hd s)" and "s \<noteq> [] \<Longrightarrow> \<not> P (last s)"
  shows "trim P s = s"
proof -
  have "dropWhile P s = s" using assms(1) by (rule dropWhile_idem_hd)
  moreover have "dropWhile P (rev s) = rev s"
    using assms(2) by (intro dropWhile_idem_hd) (simp add: hd_rev)
  ultimately show ?thesis by (simp add: trim_def)
qed

lemma set_trim: "c \<in> set (trim P s) \<Longrightarrow> c \<in> set s"
  using trim_decomp [of s P] by (metis Un_iff set_append)

section \<open>Decimal numerals\<close>

definition digit_char :: "nat \<Rightarrow> char" where
  "digit_char d = char_of (48 + d)"

definition digit_val :: "char \<Rightarrow> nat" where
  "digit_val c = of_char c - 48"

definition isDigit :: "char \<Rightarrow> bool" where
  "isDigit c \<longleftrightarrow> 48 \<le> (of_char c :: nat) \<and> (of_char c :: nat) \<le> 57"

fun nat_digits :: "nat \<Rightarrow> string" where
  "nat_digits n =
     (if n < 10 then [digit_char n] else nat_digits (n div 10) @ [digit_char (n mod 10)])"

declare nat_digits.simps [simp del]

definition Itoa :: "int \<Rightarrow> string" where
  "Itoa i = (if i < 0 then CHR ''-'' # nat_digits (nat (- i)) else nat_digits (nat i))"

definition digits_val :: "string \<Rightarrow> nat" where
  "digits_val s = fold (\<lambda>c n. 10 * n + digit_val c) s 0"

lemma digit_char_val [simp]: "d < 10 \<Longrightarrow> digit_val (digit_char d) = d"
  by (simp add: digit_val_def digit_char_def)

lemma isDigit_digit_char [simp]: "d < 10 \<Longrightarrow> isDigit (digit_char d)"
  by (simp add: isDigit_def digit_char_def)

lemma digits_val_snoc [simp]: "digits_val (s @ [c]) = 10 * digits_val s + digit_val c"
  by (simp add: digits_val_def)

lemma digits_val_nat_digits [simp]: "digits_val (nat_digits n) = n"
proof (induction n rule: nat_digits.induct)
  case (1 n)
  show ?case
  proof (cases "n < 10")
    case True
    then show ?thesis by (simp add: nat_digits.simps [of n] digits_val_def)
  next
    case False
    with 1 show ?thesis by (simp add: nat_digits.simps [of n])
  qed
qed

lemma nat_digits_isDigit: "list_all isDigit (nat_digits n)"
proof (induction n rule: nat_digits.induct)
  case (1 n)
  then show ?case by (cases "n < 10") (simp_all add: nat_digits.simps [of n])
qed

lemma nat_digits_nonempty [simp]: "nat_digits n \<noteq> []"
  by (simp add: nat_digits.simps [of n])

lemma nat_digits_inj [simp]: "nat_digits m = nat_digits n \<longleftrightarrow> m = n"
  by (metis digits_val_nat_digits)

lemma nat_digits_not_minus: "nat_digits n \<noteq> CHR ''-'' # s"
  using nat_digits_isDigit [of n] by (auto simp: isDigit_def)

lemma Itoa_inj [simp]: "Itoa i = Itoa j \<longleftrightarrow> i = j"
proof -
  have "nat (- i) = nat (- j) \<Longrightarrow> i < 0 \<Longrightarrow> j < 0 \<Longrightarrow> i = j" by simp
  moreover have "nat i = nat j \<Longrightarrow> \<not> i < 0 \<Longrightarrow> \<not> j < 0 \<Longrightarrow> i = j" by simp
  ultimately show ?thesis
    using nat_digits_not_minus by (auto simp: Itoa_def split: if_splits) (metis nat_digits_not_minus)+
qed

section \<open>Go maps\<close>

text \<open>
  The interface the sources use of a Go map: reading a key, storing under a key, deleting a
  key. \<open>put_all\<close> is the loop \<^verbatim>\<open>for k, v := range src { dst[k] = v }\<close>.
\<close>

lemma map_of_eq_rev: "distinct (map fst kvs) \<Longrightarrow> map_of (rev kvs) = map_of kvs"
proof (rule ext)
  fix k assume d: "distinct (map fst kvs)"
  then have d': "distinct (map fst (rev kvs))" by (simp add: rev_map [symmetric])
  show "map_of (rev kvs) k = map_of kvs k"
    using d d' map_of_eq_Some_iff [of kvs k] map_of_eq_Some_iff [of "rev kvs" k]
    by (metis option.exhaust set_rev)
qed

locale go_map =
  fixes get :: "'m \<Rightarrow> string \<Rightarrow> 'v option"
    and put :: "string \<Rightarrow> 'v \<Rightarrow> 'm \<Rightarrow> 'm"
    and del :: "string \<Rightarrow> 'm \<Rightarrow> 'm"
  assumes get_put: "get (put k v m) = (get m)(k \<mapsto> v)"
    and get_del: "get (del k m) = (get m)(k := None)"
begin

lemma get_put_same: "get (put k v m) k = Some v"
  by (simp add: get_put)

lemma get_put_other: "k \<noteq> k' \<Longrightarrow> get (put k v m) k' = get m k'"
  by (simp add: get_put)

lemma put_all_get: "get (fold (\<lambda>(k, v). put k v) kvs m) = get m ++ map_of (rev kvs)"
proof (induction kvs arbitrary: m)
  case (Cons kv kvs)
  obtain k v where kv: "kv = (k, v)" by force
  show ?case
    by (simp add: kv Cons.IH get_put map_add_def fun_eq_iff split: option.splits)
qed simp

lemma put_all_distinct:
  "distinct (map fst kvs) \<Longrightarrow> get (fold (\<lambda>(k, v). put k v) kvs m) = get m ++ map_of kvs"
  by (simp add: put_all_get map_of_eq_rev)

lemma del_all_get:
  "get (fold del ks m) k = (if k \<in> set ks then None else get m k)"
  by (induction ks arbitrary: m) (auto simp: get_del)

end

interpretation gm: go_map map_of AList.update AList.delete
  by unfold_locales (simp_all add: update_conv' delete_conv')

definition put_all :: "'v gomap \<Rightarrow> 'v gomap \<Rightarrow> 'v gomap" where
  "put_all src dst = fold (\<lambda>(k, v). AList.update k v) src dst"

definition gomap_ok :: "'v gomap \<Rightarrow> bool" where
  "gomap_ok m \<longleftrightarrow> distinct (map fst m)"

lemma gomap_ok_simps [simp]:
  "gomap_ok []"
  "gomap_ok m \<Longrightarrow> gomap_ok (AList.update k v m)"
  "gomap_ok m \<Longrightarrow> gomap_ok (AList.delete k m)"
  by (simp_all add: gomap_ok_def distinct_update distinct_delete)

lemma put_all_lookup: "gomap_ok src \<Longrightarrow> map_of (put_all src dst) = map_of dst ++ map_of src"
  by (simp add: put_all_def gomap_ok_def gm.put_all_distinct)

lemma put_all_ok: "gomap_ok dst \<Longrightarrow> gomap_ok (put_all src dst)"
  by (induction src arbitrary: dst) (auto simp: put_all_def)

lemma put_all_simps [simp]:
  "put_all [] dst = dst"
  "put_all ((k, v) # src) dst = put_all src (AList.update k v dst)"
  by (simp_all add: put_all_def)

lemma map_of_update [simp]: "map_of (AList.update k v m) = (map_of m)(k \<mapsto> v)"
  by (rule update_conv')

lemma map_of_delete_key [simp]: "map_of (AList.delete k m) = (map_of m)(k := None)"
  by (rule delete_conv')

lemma update_not_Nil [simp]: "AList.update k v m \<noteq> []"
  by (cases m) auto

end
