(* ===== verification/Iface.thy ===== *)
theory Iface
  imports Orcinus_Prelude
begin

text \<open>
  The values \<^verbatim>\<open>interface{}\<close> a decoded YAML document holds, and the readers of
  \<^verbatim>\<open>pkg/compose/extensions.go\<close> that accept them leniently: \<open>stringExt\<close>, \<open>intExt\<close>,
  \<open>stringSliceExt\<close>, \<open>stringMapExt\<close>, \<open>normalizeLabels\<close>.

  \<open>JFloat m e\<close> is the \<^verbatim>\<open>float64\<close> whose shortest decimal form is \<open>m \<cdot> 10\<^sup>e\<close> (the decoder makes
  every YAML number one); \<open>JInt\<close> is an \<^verbatim>\<open>int64\<close>, which only values built by the program hold.
  A map is an association list in iteration order.
\<close>

datatype iface =
    JNull
  | JBool bool
  | JInt int
  | JFloat int int
  | JStr string
  | JArr "iface list"
  | JObj "(string \<times> iface) list"

type_synonym obj = "iface gomap"

text \<open>Type assertions \<^verbatim>\<open>v.(T)\<close> with the comma-ok form, and indexing a map that may lack the key.\<close>

fun as_obj :: "iface option \<Rightarrow> obj option" where
  "as_obj (Some (JObj m)) = Some m"
| "as_obj _ = None"

fun as_arr :: "iface option \<Rightarrow> iface list option" where
  "as_arr (Some (JArr xs)) = Some xs"
| "as_arr _ = None"

fun as_str :: "iface option \<Rightarrow> string option" where
  "as_str (Some (JStr s)) = Some s"
| "as_str _ = None"

fun as_bool :: "iface option \<Rightarrow> bool option" where
  "as_bool (Some (JBool b)) = Some b"
| "as_bool _ = None"

section \<open>Numbers\<close>

definition int64_min :: int where "int64_min = - (2 ^ 63)"
definition int64_max :: int where "int64_max = 2 ^ 63 - 1"

definition in_int64 :: "int \<Rightarrow> bool" where
  "in_int64 i \<longleftrightarrow> int64_min \<le> i \<and> i \<le> int64_max"

text \<open>The integer a decimal denotes, when it denotes one, and its truncation towards zero.\<close>

definition dec_int :: "int \<Rightarrow> int \<Rightarrow> int option" where
  "dec_int m e = (if 0 \<le> e then Some (m * 10 ^ nat e)
     else if m mod (10 ^ nat (- e)) = 0 then Some (m div 10 ^ nat (- e)) else None)"

definition dec_trunc :: "int \<Rightarrow> int \<Rightarrow> int" where
  "dec_trunc m e = (if 0 \<le> e then m * 10 ^ nat e else sgn m * (\<bar>m\<bar> div 10 ^ nat (- e)))"

text \<open>
  \<^verbatim>\<open>int(t)\<close> on a \<^verbatim>\<open>float64\<close>: truncation; out of the range of \<^verbatim>\<open>int64\<close> the result is the
  indefinite integer \<open>-2\<^sup>6\<^sup>3\<close>, as on amd64.
\<close>

definition float_to_int :: "int \<Rightarrow> int \<Rightarrow> int" where
  "float_to_int m e = (let t = dec_trunc m e in if in_int64 t then t else int64_min)"

text \<open>\<^verbatim>\<open>%g\<close> with the shortest precision, from the significant digits and the point's position.\<close>

fun strip_zeros :: "string \<Rightarrow> string" where
  "strip_zeros s = rev (dropWhile (\<lambda>c. c = CHR ''0'') (rev s))"

definition fmt_exp :: "int \<Rightarrow> string" where
  "fmt_exp x = (let d = nat_digits (nat \<bar>x\<bar>)
     in (if x < 0 then ''e-'' else ''e+'') @ (if length d < 2 then ''0'' @ d else d))"

definition fmt_g :: "int \<Rightarrow> int \<Rightarrow> string" where
  "fmt_g m e =
     (let all = nat_digits (nat \<bar>m\<bar>);
          ds = (if m = 0 then ''0'' else strip_zeros all);
          dp = (if m = 0 then 1 else int (length all) + e);
          x = dp - 1;
          body =
            (if x < -4 \<or> 6 \<le> x then
               take 1 ds @ (if length ds > 1 then ''.'' @ drop 1 ds else []) @ fmt_exp x
             else if dp \<le> 0 then ''0.'' @ replicate (nat (- dp)) (CHR ''0'') @ ds
             else if int (length ds) \<le> dp then ds @ replicate (nat dp - length ds) (CHR ''0'')
             else take (nat dp) ds @ ''.'' @ drop (nat dp) ds)
      in (if m < 0 then ''-'' @ body else body))"

text \<open>
  \<^verbatim>\<open>fmt.Sscanf(s, "%d", &n)\<close>: blanks other than a newline are skipped, then an optional sign
  and at least one digit are read; the rest of the string is ignored; a value outside
  \<^verbatim>\<open>int64\<close> is an error.
\<close>

definition isBlank :: "char \<Rightarrow> bool" where
  "isBlank c \<longleftrightarrow> c \<in> {CHR 0x09, CHR 0x0B, CHR 0x0C, CHR 0x0D, CHR '' ''}"

definition sscan_int :: "string \<Rightarrow> int option" where
  "sscan_int s =
     (let t = dropWhile isBlank s;
          neg = (t \<noteq> [] \<and> hd t = CHR ''-'');
          u = (if t \<noteq> [] \<and> (hd t = CHR ''-'' \<or> hd t = CHR ''+'') then tl t else t);
          ds = takeWhile isDigit u;
          n = (if neg then - int (digits_val ds) else int (digits_val ds))
      in if ds = [] \<or> \<not> in_int64 n then None else Some n)"

text \<open>\<^verbatim>\<open>strconv.Atoi\<close>.\<close>

definition Atoi :: "string \<Rightarrow> int option" where
  "Atoi s =
     (let neg = HasPrefix s ''-''; ds = (if neg \<or> HasPrefix s ''+'' then drop 1 s else s);
          v = (if neg then - int (digits_val ds) else int (digits_val ds))
      in if ds = [] \<or> \<not> list_all isDigit ds \<or> \<not> in_int64 v then None else Some v)"

section \<open>The lenient readers\<close>

fun stringExt :: "iface option \<Rightarrow> string option" where
  "stringExt (Some (JStr t)) = (if t = [] then None else Some t)"
| "stringExt (Some (JBool t)) = Some (if t then ''true'' else ''false'')"
| "stringExt (Some (JInt t)) = Some (Itoa t)"
| "stringExt (Some (JFloat m e)) =
     (case dec_int m e of
        Some i \<Rightarrow> if in_int64 i then Some (Itoa i) else Some (fmt_g m e)
      | None \<Rightarrow> Some (fmt_g m e))"
| "stringExt _ = None"

text \<open>\<^verbatim>\<open>v, _ := stringExt(x)\<close>: the zero value where the reader declines.\<close>

definition stringExt0 :: "iface option \<Rightarrow> string" where
  "stringExt0 v = (case stringExt v of Some s \<Rightarrow> s | None \<Rightarrow> [])"

fun intExt :: "iface option \<Rightarrow> int option" where
  "intExt (Some (JInt t)) = Some t"
| "intExt (Some (JFloat m e)) = Some (float_to_int m e)"
| "intExt (Some (JStr t)) = sscan_int t"
| "intExt _ = None"

fun stringSliceExt :: "iface option \<Rightarrow> string list" where
  "stringSliceExt (Some (JStr t)) = (if t = [] then [] else [t])"
| "stringSliceExt (Some (JArr xs)) =
     List.map_filter (\<lambda>x. case x of JStr s \<Rightarrow> if s \<noteq> [] then Some s else None | _ \<Rightarrow> None) xs"
| "stringSliceExt _ = []"

definition stringMapExt :: "iface option \<Rightarrow> string gomap" where
  "stringMapExt v = (case as_obj v of None \<Rightarrow> []
     | Some m \<Rightarrow> fold (\<lambda>(k, x) out. case stringExt (Some x) of
          Some s \<Rightarrow> AList.update k s out | None \<Rightarrow> out) m [])"

text \<open>One \<^verbatim>\<open>"k=v"\<close> entry of a label list is split at its first \<^verbatim>\<open>=\<close>; without one it is dropped.\<close>

definition label_entry :: "iface \<Rightarrow> obj \<Rightarrow> obj" where
  "label_entry item m = (case item of
     JStr s \<Rightarrow> (case Cut s ''='' of Some (k, v) \<Rightarrow> AList.update k (JStr v) m | None \<Rightarrow> m)
   | _ \<Rightarrow> m)"

fun normalizeLabels :: "iface option \<Rightarrow> obj" where
  "normalizeLabels (Some (JObj t)) = t"
| "normalizeLabels (Some (JArr xs)) = fold label_entry xs []"
| "normalizeLabels _ = []"

definition containsFold :: "string list \<Rightarrow> string \<Rightarrow> bool" where
  "containsFold xs want \<longleftrightarrow> (\<exists>s \<in> set xs. EqualFold s want)"

section \<open>Laws of the readers\<close>

lemma Itoa_nonempty: "Itoa i \<noteq> []" by (simp add: Itoa_def nat_digits_nonempty del: nat_digits.simps)

lemma fmt_exp_nonempty: "fmt_exp x \<noteq> []" by (simp add: fmt_exp_def Let_def)

lemma fmt_g_nonempty: "fmt_g m e \<noteq> []"
proof (cases "m < 0")
  case False
  have "(if p then take 1 ds @ q @ fmt_exp x else if dp \<le> 0 then ''0.'' @ l
      else if int (length ds) \<le> dp then ds @ replicate (nat dp - length ds) z else take k ds @ ''.'' @ u) \<noteq> []"
    for p ds q x dp l z k u by (auto simp: fmt_exp_nonempty)
  with False show ?thesis unfolding fmt_g_def Let_def by simp
qed (simp add: fmt_g_def Let_def)

lemma stringExt_nonempty: "stringExt v = Some s \<Longrightarrow> s \<noteq> []"
  by (cases v rule: stringExt.cases) (auto simp: Itoa_nonempty fmt_g_nonempty simp del: nat_digits.simps split: if_splits option.splits)

lemma stringSliceExt_nonempty: "s \<in> set (stringSliceExt v) \<Longrightarrow> s \<noteq> []"
  by (cases v rule: stringSliceExt.cases)
     (auto simp: List.map_filter_def split: if_splits iface.splits)

lemma sscan_int_range: "sscan_int s = Some n \<Longrightarrow> in_int64 n"
  by (auto simp: sscan_int_def Let_def split: if_splits)

lemma takeWhile_digits [simp]: "takeWhile isDigit (nat_digits n @ CHR ''x'' # s) = nat_digits n"
  using nat_digits_isDigit [of n] by (simp add: list_all_iff takeWhile_append2 isDigit_def)

lemma takeWhile_digits_only: "takeWhile isDigit (nat_digits n) = nat_digits n"
  using nat_digits_isDigit [of n] by (simp add: list_all_iff)

lemma hd_nat_digits: "isDigit (hd (nat_digits n))"
  using nat_digits_isDigit [of n] by (cases "nat_digits n") (auto simp: list_all_iff)

lemma isDigit_not:
  "isDigit c \<Longrightarrow> \<not> isBlank c" "isDigit c \<Longrightarrow> c \<noteq> CHR ''-''" "isDigit c \<Longrightarrow> c \<noteq> CHR ''+''"
  by (auto simp: isDigit_def isBlank_def)

text \<open>Printing an \<^verbatim>\<open>int64\<close> and scanning it back gives it again.\<close>

lemma sscan_int_Itoa:
  assumes "in_int64 i"
  shows "sscan_int (Itoa i) = Some i"
proof -
  have nb: "\<not> isBlank (hd (nat_digits n))" "hd (nat_digits n) \<noteq> CHR ''-''"
    "hd (nat_digits n) \<noteq> CHR ''+''" for n
    using hd_nat_digits isDigit_not by blast+
  have dw: "dropWhile isBlank (nat_digits n) = nat_digits n" for n
    by (rule dropWhile_idem_hd) (rule nb(1))
  have mb: "\<not> isBlank (CHR ''-'')" by (simp add: isBlank_def)
  show ?thesis
  proof (cases "i < 0")
    case True
    then show ?thesis using assms mb
      by (simp add: sscan_int_def Itoa_def Let_def takeWhile_digits_only)
  next
    case False
    then show ?thesis using assms nb [of "nat i"]
      by (simp add: sscan_int_def Itoa_def Let_def dw takeWhile_digits_only)
  qed
qed

lemma fold_stringMapExt:
  "gomap_ok out \<Longrightarrow> gomap_ok (fold (\<lambda>(k, x) out. case stringExt (Some x) of
          Some s \<Rightarrow> AList.update k s out | None \<Rightarrow> out) m out)"
  by (induction m arbitrary: out) (auto split: option.splits)

lemma gomap_ok_stringMapExt [simp]: "gomap_ok (stringMapExt v)"
  by (simp add: stringMapExt_def fold_stringMapExt split: option.splits)

lemma fold_label_entry_ok: "gomap_ok m \<Longrightarrow> gomap_ok (fold label_entry xs m)"
  by (induction xs arbitrary: m) (auto simp: label_entry_def split: iface.splits option.splits)

end
