(* ===== verification/Go_Path.thy ===== *)
theory Go_Path
  imports Orcinus_Prelude
begin

text \<open>
  The part of Go's \<^verbatim>\<open>path/filepath\<close> the sources use, on a Unix host: lexical cleaning,
  joining, base name, directory and absolute paths; and the host a conversion runs on
  (working directory, home directory, files), as a record of what the process can observe.
  The lemmas say where a cleaned path can point: an absolute one has no \<^verbatim>\<open>..\<close> segment, a
  relative one only leading \<^verbatim>\<open>..\<close> segments.
\<close>

record host =
  h_home :: "string option"  \<comment> \<open>os.UserHomeDir\<close>
  h_cwd :: "string option"   \<comment> \<open>os.Getwd\<close>
  h_stat :: "string \<Rightarrow> bool"  \<comment> \<open>os.Stat succeeds\<close>
  h_read :: "string \<Rightarrow> string option"  \<comment> \<open>os.ReadFile\<close>
  h_mkdir :: "string \<Rightarrow> bool"  \<comment> \<open>os.MkdirAll succeeds\<close>
  h_write :: "string \<Rightarrow> bool"  \<comment> \<open>os.WriteFile succeeds\<close>

abbreviation slash :: char where "slash \<equiv> CHR ''/''"

definition IsAbs :: "string \<Rightarrow> bool" where
  [go_defs]: "IsAbs p \<longleftrightarrow> HasPrefix p ''/''"

text \<open>\<^verbatim>\<open>filepath.Clean\<close> on the segments between slashes; \<open>st\<close> is the output, last segment first.\<close>

fun clean_segs :: "bool \<Rightarrow> string list \<Rightarrow> string list \<Rightarrow> string list" where
  "clean_segs rooted st [] = rev st"
| "clean_segs rooted st (x # xs) =
     (if x = [] \<or> x = ''.'' then clean_segs rooted st xs
      else if x = ''..'' then
        (case st of
           t # ts \<Rightarrow> if t \<noteq> ''..'' then clean_segs rooted ts xs
                     else clean_segs rooted (''..'' # st) xs
         | [] \<Rightarrow> if rooted then clean_segs rooted [] xs
                  else clean_segs rooted [''..''] xs)
      else clean_segs rooted (x # st) xs)"

definition path_segs :: "string \<Rightarrow> string list" where
  "path_segs p = clean_segs (IsAbs p) [] (SplitChar slash p)"

definition Clean :: "string \<Rightarrow> string" where
  "Clean p = (if IsAbs p then slash # Join (path_segs p) ''/''
     else if path_segs p = [] then ''.'' else Join (path_segs p) ''/'')"

definition JoinPath :: "string list \<Rightarrow> string" where
  "JoinPath es = (case dropWhile (\<lambda>e. e = []) es of [] \<Rightarrow> [] | es' \<Rightarrow> Clean (Join es' ''/''))"

definition Base :: "string \<Rightarrow> string" where
  "Base p = (if p = [] then ''.'' else
     let b = last (SplitChar slash (rev (dropWhile (\<lambda>c. c = slash) (rev p))))
     in if b = [] then ''/'' else b)"

definition Dir :: "string \<Rightarrow> string" where
  "Dir p = Clean (rev (dropWhile (\<lambda>c. c \<noteq> slash) (rev p)))"

definition Abs :: "host \<Rightarrow> string \<Rightarrow> string option" where
  "Abs h p = (if IsAbs p then Some (Clean p)
     else map_option (\<lambda>wd. JoinPath [wd, p]) (h_cwd h))"

text \<open>A path that names something below the directory it is joined to.\<close>

definition inside :: "string \<Rightarrow> bool" where
  "inside p \<longleftrightarrow> \<not> IsAbs p \<and> ''..'' \<notin> set (SplitChar slash p)"

section \<open>Where cleaned paths point\<close>

lemma clean_segs_proper:
  assumes "s \<in> set (clean_segs r st xs)"
    and "\<And>t. t \<in> set st \<Longrightarrow> t \<noteq> [] \<and> t \<noteq> ''.'' \<and> slash \<notin> set t"
    and "\<And>t. t \<in> set xs \<Longrightarrow> slash \<notin> set t"
  shows "s \<noteq> [] \<and> s \<noteq> ''.'' \<and> slash \<notin> set s"
  using assms
proof (induction r st xs rule: clean_segs.induct)
  case (2 r st x xs)
  show ?case
  proof (cases "x = [] \<or> x = ''.''")
    case True
    with 2 show ?thesis by auto
  next
    case nt: False
    show ?thesis
    proof (cases "x = ''..''")
      case dd: True
      show ?thesis
        using 2 nt dd by (cases st) (auto split: if_splits)
    next
      case False
      with 2 nt show ?thesis by auto
    qed
  qed
qed auto

lemma clean_segs_rooted:
  assumes "''..'' \<notin> set st"
  shows "''..'' \<notin> set (clean_segs True st xs)"
  using assms
proof (induction "True" st xs rule: clean_segs.induct)
  case (2 st x xs)
  then show ?case by (cases st) auto
qed auto

text \<open>The shape of a relative result: parents first, then plain segments.\<close>

definition parents_first :: "string list \<Rightarrow> bool" where
  "parents_first ss \<longleftrightarrow> (\<forall>i j. i \<le> j \<and> j < length ss \<and> ss ! j = ''..'' \<longrightarrow> ss ! i = ''..'')"

lemma parents_first_Nil [simp]: "parents_first []"
  by (simp add: parents_first_def)

lemma parents_first_snoc:
  "parents_first (ss @ [s]) \<longleftrightarrow> parents_first ss \<and> (s = ''..'' \<longrightarrow> set ss \<subseteq> {''..''})"
proof -
  have "parents_first (ss @ [s]) \<Longrightarrow> parents_first ss"
    unfolding parents_first_def by (metis (no_types, lifting) length_append_singleton
        less_Suc_eq nth_append order_le_less_trans)
  moreover have "parents_first (ss @ [s]) \<Longrightarrow> s = ''..'' \<Longrightarrow> set ss \<subseteq> {''..''}"
    unfolding parents_first_def
    by (metis (no_types, lifting) in_set_conv_nth insertI1 length_append_singleton lessI
        less_imp_le_nat nth_append nth_append_length subsetI)
  moreover have "parents_first (ss @ [s])"
    if "parents_first ss" and "s = ''..'' \<longrightarrow> set ss \<subseteq> {''..''}"
    unfolding parents_first_def
  proof (intro allI impI)
    fix i j assume a: "i \<le> j \<and> j < length (ss @ [s]) \<and> (ss @ [s]) ! j = ''..''"
    show "(ss @ [s]) ! i = ''..''"
    proof (cases "j = length ss")
      case True
      with a that(2) have "i < length ss \<Longrightarrow> ss ! i = ''..''"
        by (auto simp: nth_append dest: nth_mem)
      with a True show ?thesis by (cases "i = j") (auto simp: nth_append)
    next
      case False
      with a have "j < length ss" by simp
      with a that(1) show ?thesis by (auto simp: nth_append parents_first_def)
    qed
  qed
  ultimately show ?thesis by blast
qed

lemma parents_first_all: "set ss \<subseteq> {''..''} \<Longrightarrow> parents_first ss"
  by (auto simp: parents_first_def) (metis insertE nth_mem order_le_less_trans singletonD subsetD)

lemma clean_segs_relative: "parents_first (rev st) \<Longrightarrow> parents_first (clean_segs False st xs)"
proof (induction "False" st xs rule: clean_segs.induct)
  case (2 st x xs)
  show ?case
  proof (cases "x = [] \<or> x = ''.''")
    case True
    with 2 show ?thesis by auto
  next
    case nt: False
    show ?thesis
    proof (cases "x = ''..''")
      case dd: True
      show ?thesis
      proof (cases st)
        case Nil
        have "parents_first [''..'']" by (simp add: parents_first_all)
        with 2 nt dd Nil show ?thesis by auto
      next
        case (Cons t ts)
        have ts: "parents_first (rev ts)" using "2.prems" Cons by (simp add: parents_first_snoc)
        show ?thesis
        proof (cases "t = ''..''")
          case True
          have "parents_first (rev (''..'' # st))"
            using "2.prems" Cons True by (intro parents_first_all) (simp add: parents_first_snoc)
          with 2 nt dd Cons True show ?thesis by auto
        next
          case False
          with 2 nt dd Cons ts show ?thesis by auto
        qed
      qed
    next
      case False
      have "parents_first (rev (x # st))" using "2.prems" False by (simp add: parents_first_snoc)
      with 2 nt False show ?thesis by auto
    qed
  qed
qed auto

lemma path_segs_proper:
  "s \<in> set (path_segs p) \<Longrightarrow> s \<noteq> [] \<and> s \<noteq> ''.'' \<and> slash \<notin> set s"
  unfolding path_segs_def
  by (erule clean_segs_proper) (auto dest: SplitChar_no_sep)

lemma IsAbs_Cons: "IsAbs p \<longleftrightarrow> (\<exists>q. p = slash # q)"
  by (auto simp: IsAbs_def HasPrefix_iff)

lemma Join_hd: "ss \<noteq> [] \<Longrightarrow> hd ss \<noteq> [] \<Longrightarrow> \<exists>r. Join ss sep = hd ss @ r"
  by (cases "(ss, sep)" rule: Join.cases) auto

lemma not_IsAbs_Join_segs: "\<not> IsAbs (Join (path_segs p) ''/'')"
proof (cases "path_segs p")
  case Nil
  then show ?thesis by (simp add: IsAbs_Cons)
next
  case (Cons s ss)
  have s: "s \<noteq> [] \<and> slash \<notin> set s" using path_segs_proper [of s p] Cons by simp
  obtain r where "Join (path_segs p) ''/'' = s @ r"
    using Join_hd [of "path_segs p" "''/''"] Cons s by auto
  with s show ?thesis by (cases s) (auto simp: IsAbs_Cons)
qed

lemma Clean_abs [simp]: "IsAbs (Clean p) \<longleftrightarrow> IsAbs p"
  using not_IsAbs_Join_segs by (auto simp: Clean_def) (auto simp: IsAbs_Cons)

lemma SplitChar_Join_segs:
  "path_segs p \<noteq> [] \<Longrightarrow> SplitChar slash (Join (path_segs p) ''/'') = path_segs p"
  by (rule SplitChar_Join) (auto dest: path_segs_proper)

text \<open>A cleaned absolute path has no parent segment.\<close>

lemma Clean_abs_no_parent:
  assumes "IsAbs p"
  shows "''..'' \<notin> set (SplitChar slash (Clean p))"
proof -
  have "''..'' \<notin> set (path_segs p)"
    using assms by (simp add: path_segs_def clean_segs_rooted)
  then show ?thesis
    using assms SplitChar_Join_segs [of p] by (cases "path_segs p = []") (auto simp: Clean_def)
qed

text \<open>A cleaned relative path that is not \<^verbatim>\<open>..\<close> and does not start with \<^verbatim>\<open>../\<close> stays inside.\<close>

lemma Clean_relative_inside:
  assumes "\<not> IsAbs p" and "Clean p \<noteq> ''..''" and "\<not> HasPrefix (Clean p) ''../''"
  shows "inside (Clean p)"
proof (cases "path_segs p")
  case Nil
  with assms show ?thesis by (simp add: Clean_def inside_def IsAbs_Cons)
next
  case (Cons s ss)
  have eq: "Clean p = Join (path_segs p) ''/''" using assms(1) Cons by (simp add: Clean_def)
  have pf: "parents_first (path_segs p)"
    using assms(1) by (simp add: path_segs_def clean_segs_relative)
  have "s \<noteq> ''..''"
  proof
    assume "s = ''..''"
    with assms(2,3) eq Cons show False
      by (cases ss) (auto simp: HasPrefix_iff)
  qed
  with pf Cons have "''..'' \<notin> set (path_segs p)"
    unfolding parents_first_def by (metis in_set_conv_nth le0 nth_Cons_0)
  then show ?thesis
    using Cons SplitChar_Join_segs [of p] assms(1) by (simp add: inside_def flip: eq) (simp add: eq)
qed

lemma Abs_is_abs: "Abs h p = Some q \<Longrightarrow> (\<And>wd. h_cwd h = Some wd \<Longrightarrow> IsAbs wd) \<Longrightarrow> IsAbs q"
proof -
  assume q: "Abs h p = Some q" and wd: "\<And>wd. h_cwd h = Some wd \<Longrightarrow> IsAbs wd"
  show "IsAbs q"
  proof (cases "IsAbs p")
    case True
    with q show ?thesis by (auto simp: Abs_def)
  next
    case False
    then obtain w where w: "h_cwd h = Some w" "q = JoinPath [w, p]" using q by (auto simp: Abs_def)
    with wd have "IsAbs w" by simp
    then show ?thesis using w by (auto simp: JoinPath_def IsAbs_Cons intro: Clean_abs [THEN iffD2, unfolded IsAbs_Cons])
  qed
qed

lemma JoinPath_abs: "IsAbs d \<Longrightarrow> IsAbs (JoinPath (d # ps))"
proof -
  assume "IsAbs d"
  then obtain d' where d: "d = slash # d'" by (auto simp: IsAbs_Cons)
  have "IsAbs (Join (d # ps) ''/'')" by (cases ps) (auto simp: d IsAbs_Cons)
  then show ?thesis by (simp add: JoinPath_def d)
qed

end
