(* ===== verification/Compose_Ext.thy ===== *)
theory Compose_Ext
  imports Iface Go_Path
begin

text \<open>
  The per-service configuration \<^verbatim>\<open>pkg/compose/extensions.go\<close> reads out of a compose
  document: its records and the parsers for profiles, generic resources and GPU devices,
  Swarm placement, bind mounts, virtual machines and update strategies. Each parser keeps
  the order of the tests of the source; \<open>parseDuration\<close> (nanoseconds) stands for
  \<^verbatim>\<open>time.ParseDuration\<close>.

  The theorems give the meaning of the parsers: a Swarm constraint and the node selector
  requirement it becomes select the same nodes, bind-mount extraction splits the volume list
  and yields absolute host paths, and an update configuration always leaves a rolling update
  room to make progress.
\<close>

section \<open>Configuration records\<close>

record ingressCfg =
  ic_TLS :: string
  ic_TLSSecret :: string
  ic_Path :: string
  ic_Port :: int
  ic_Class :: string
  ic_StripFromPath :: bool
  ic_StripPrefixes :: "string list"
  ic_Middlewares :: "string list"

definition ingressCfg0 :: ingressCfg where
  "ingressCfg0 = \<lparr>ic_TLS = [], ic_TLSSecret = [], ic_Path = [], ic_Port = 0, ic_Class = [],
     ic_StripFromPath = False, ic_StripPrefixes = [], ic_Middlewares = []\<rparr>"

definition isSet :: "ingressCfg \<Rightarrow> bool" where
  "isSet c \<longleftrightarrow> ic_TLS c \<noteq> [] \<or> ic_TLSSecret c \<noteq> [] \<or> ic_Path c \<noteq> [] \<or> ic_Class c \<noteq> [] \<or>
     ic_Port c \<noteq> 0 \<or> ic_StripFromPath c \<or> ic_StripPrefixes c \<noteq> [] \<or> ic_Middlewares c \<noteq> []"

record bindMount =
  bm_Name :: string
  bm_Source :: string
  bm_Target :: string
  bm_ReadOnly :: bool

record nodeConstraint =
  nc_Key :: string
  nc_Operator :: string
  nc_Values :: "string list"

record placementCfg =
  pc_constraints :: "nodeConstraint list"
  pc_spreadKeys :: "string list"

record vmCfg =
  vc_RunStrategy :: string
  vc_DiskSize :: string
  vc_CloudInit :: string
  vc_SSHSecret :: string
  vc_SSHUsers :: "string list"

record autoscaleCfg =
  as_Min :: int
  as_Max :: int
  as_CPU :: int
  as_Memory :: int

record strategyCfg =
  sc_Type :: string
  sc_MaxSurge :: string
  sc_MaxUnavailable :: string
  sc_MinReadySeconds :: int
  sc_ProgressDeadline :: int

definition strategyCfg0 :: strategyCfg where
  "strategyCfg0 = \<lparr>sc_Type = [], sc_MaxSurge = [], sc_MaxUnavailable = [],
     sc_MinReadySeconds = 0, sc_ProgressDeadline = 0\<rparr>"

section \<open>Profiles and resources\<close>

definition serviceInProfiles :: "obj \<Rightarrow> string list \<Rightarrow> bool" where
  "serviceInProfiles svc active =
     (let profs = stringSliceExt (map_of svc ''profiles'')
      in if profs = [] then True else list_ex (\<lambda>p. list_ex (\<lambda>a. p = a) active) profs)"

text \<open>\<^verbatim>\<open>m, _ := item.(map[string]interface{})\<close>: indexing the nil map that a failed assertion leaves.\<close>

definition field :: "iface \<Rightarrow> string \<Rightarrow> iface option" where
  "field item k = (case as_obj (Some item) of None \<Rightarrow> None | Some m \<Rightarrow> map_of m k)"

definition generic_resource :: "iface \<Rightarrow> string gomap \<Rightarrow> string gomap" where
  "generic_resource item out =
     (case as_obj (field item ''discrete_resource_spec'') of
        None \<Rightarrow> out
      | Some spec \<Rightarrow>
          let kind = stringExt0 (map_of spec ''kind'');
              val = stringExt0 (map_of spec ''value'')
          in if kind = [] \<or> val = [] then out
             else AList.update
               (if \<not> Contains kind ''/'' \<and> Contains (ToLower kind) ''gpu''
                then ''nvidia.com/gpu'' else kind) val out)"

definition device_resource :: "iface \<Rightarrow> string gomap \<Rightarrow> string gomap" where
  "device_resource item out =
     (case as_obj (Some item) of
        None \<Rightarrow> out
      | Some m \<Rightarrow>
          if \<not> containsFold (stringSliceExt (map_of m ''capabilities'')) ''gpu'' then out
          else
            let name = (if EqualFold (stringExt0 (map_of m ''driver'')) ''amd''
                        then ''amd.com/gpu'' else ''nvidia.com/gpu'');
                val = (case stringExt (map_of m ''count'') of
                         Some c \<Rightarrow> if c \<noteq> [] \<and> \<not> EqualFold c ''all'' then c else ''1''
                       | None \<Rightarrow> ''1'')
            in AList.update name val out)"

definition parseGenericResources :: "obj \<Rightarrow> string gomap" where
  "parseGenericResources deploy =
     (case as_obj (map_of deploy ''resources'') of
        None \<Rightarrow> []
      | Some res \<Rightarrow>
          (case as_obj (map_of res ''reservations'') of
             None \<Rightarrow> []
           | Some rsv \<Rightarrow>
               let out = (case as_arr (map_of rsv ''generic_resources'') of
                            None \<Rightarrow> [] | Some xs \<Rightarrow> fold generic_resource xs [])
               in (case as_arr (map_of rsv ''devices'') of
                     None \<Rightarrow> out | Some xs \<Rightarrow> fold device_resource xs out)))"

section \<open>Swarm placement\<close>

definition mapNodeLabelKey :: "string \<Rightarrow> string option" where
  "mapNodeLabelKey k =
     (if k = ''node.hostname'' then Some ''kubernetes.io/hostname''
      else if k = ''node.platform.arch'' then Some ''kubernetes.io/arch''
      else if k = ''node.platform.os'' \<or> k = ''engine.labels.operatingsystem''
        then Some ''kubernetes.io/os''
      else if HasPrefix k ''node.labels.'' then Some (TrimPrefix k ''node.labels.'')
      else None)"

definition isQuote :: "char \<Rightarrow> bool" where
  "isQuote c \<longleftrightarrow> c = CHR 0x22 \<or> c = CHR 0x27"

definition parseConstraint :: "string \<Rightarrow> error + nodeConstraint" where
  "parseConstraint s =
     (case (if Contains s ''!='' then Some (True, Cut s ''!='')
            else if Contains s ''=='' then Some (False, Cut s ''=='') else None) of
        Some (neg, Some (a, b)) \<Rightarrow>
          let key = TrimSpace a;
              val = trim isQuote (TrimSpace b)
          in if key = ''node.role'' then
               let manager = (val = ''manager'');
                   exists = (manager \<noteq> neg)
               in Inr \<lparr>nc_Key = ''node-role.kubernetes.io/control-plane'',
                       nc_Operator = (if exists then ''Exists'' else ''DoesNotExist''),
                       nc_Values = []\<rparr>
             else (case mapNodeLabelKey key of
                     None \<Rightarrow> Inl (UnsupportedConstraintKey key)
                   | Some k8sKey \<Rightarrow>
                       Inr \<lparr>nc_Key = k8sKey, nc_Operator = (if neg then ''NotIn'' else ''In''),
                            nc_Values = [val]\<rparr>)
      | _ \<Rightarrow> Inl (InvalidConstraint s))"

definition placement_constraint ::
    "iface \<Rightarrow> nodeConstraint list \<Rightarrow> error + nodeConstraint list" where
  "placement_constraint c acc = (case as_str (Some c) of
     None \<Rightarrow> Inr acc
   | Some s \<Rightarrow> rbind (parseConstraint s) (\<lambda>nc. Inr (acc @ [nc])))"

definition placement_spread :: "iface \<Rightarrow> string list \<Rightarrow> error + string list" where
  "placement_spread p acc = (case as_obj (Some p) of
     None \<Rightarrow> Inr acc
   | Some m \<Rightarrow> (case as_str (map_of m ''spread'') of
       None \<Rightarrow> Inr acc
     | Some spread \<Rightarrow>
         if spread = [] then Inr acc
         else (case mapNodeLabelKey spread of
                 None \<Rightarrow> Inl (UnsupportedSpread spread)
               | Some k \<Rightarrow> Inr (acc @ [k]))))"

definition parsePlacement :: "obj \<Rightarrow> error + placementCfg option" where
  "parsePlacement svc =
     (case as_obj (map_of svc ''deploy'') of
        None \<Rightarrow> Inr None
      | Some deploy \<Rightarrow>
          (case as_obj (map_of deploy ''placement'') of
             None \<Rightarrow> Inr None
           | Some pl \<Rightarrow>
               rbind (case as_arr (map_of pl ''constraints'') of
                        None \<Rightarrow> Inr [] | Some cs \<Rightarrow> foldM placement_constraint cs [])
                 (\<lambda>cons. rbind (case as_arr (map_of pl ''preferences'') of
                        None \<Rightarrow> Inr [] | Some ps \<Rightarrow> foldM placement_spread ps [])
                   (\<lambda>spread. Inr (if cons = [] \<and> spread = [] then None
                      else Some \<lparr>pc_constraints = cons, pc_spreadKeys = spread\<rparr>)))))"

definition stripPlacement :: "obj \<Rightarrow> obj" where
  "stripPlacement svc =
     (case as_obj (map_of svc ''deploy'') of
        None \<Rightarrow> svc
      | Some d \<Rightarrow> AList.update ''deploy'' (JObj (AList.delete ''placement'' d)) svc)"

section \<open>Bind mounts\<close>

definition isBindSource :: "string \<Rightarrow> bool" where
  "isBindSource s \<longleftrightarrow> HasPrefix s ''/'' \<or> HasPrefix s ''.'' \<or> HasPrefix s ''~''"

definition parseShortBind :: "string \<Rightarrow> (string \<times> string \<times> bool) option" where
  "parseShortBind s = (case SplitChar (CHR '':'') s of
     src # tgt # rest \<Rightarrow>
       if isBindSource src
       then Some (src, tgt, case rest of [] \<Rightarrow> False | mode # _ \<Rightarrow> Contains mode ''ro'')
       else None
   | _ \<Rightarrow> None)"

definition absPath :: "host \<Rightarrow> string \<Rightarrow> string \<Rightarrow> string" where
  "absPath h rel baseDir =
     (case (if baseDir \<noteq> [] then Abs h (JoinPath [baseDir, rel]) else None) of
        Some q \<Rightarrow> q
      | None \<Rightarrow> (case Abs h rel of Some q \<Rightarrow> q | None \<Rightarrow> rel))"

definition bindMountHostPath :: "host \<Rightarrow> string \<Rightarrow> string \<Rightarrow> string" where
  "bindMountHostPath h src baseDir =
     (let src' = (if HasPrefix src ''~'' then
                    (case h_home h of Some home \<Rightarrow> home @ TrimPrefix src ''~'' | None \<Rightarrow> src)
                  else src)
      in if IsAbs src' then Clean src' else absPath h src' baseDir)"

text \<open>The bind mount one entry of \<^verbatim>\<open>volumes:\<close> asks for, as source, target and mode.\<close>

definition bindEntry :: "iface \<Rightarrow> (string \<times> string \<times> bool) option" where
  "bindEntry item = (case item of
     JStr e \<Rightarrow> parseShortBind e
   | JObj e \<Rightarrow>
       if as_str (map_of e ''type'') = Some ''bind'' then
         let src = (case as_str (map_of e ''source'') of Some s \<Rightarrow> s | None \<Rightarrow> []);
             tgt = (case as_str (map_of e ''target'') of Some s \<Rightarrow> s | None \<Rightarrow> []);
             ro = (case as_bool (map_of e ''read_only'') of Some b \<Rightarrow> b | None \<Rightarrow> False)
         in if src \<noteq> [] \<and> tgt \<noteq> [] then Some (src, tgt, ro) else None
       else None
   | _ \<Rightarrow> None)"

fun extract_loop :: "host \<Rightarrow> string \<Rightarrow> nat \<Rightarrow> iface list \<Rightarrow> bindMount list \<times> iface list" where
  "extract_loop h baseDir idx [] = ([], [])"
| "extract_loop h baseDir idx (item # items) =
     (case bindEntry item of
        Some (src, tgt, ro) \<Rightarrow>
          apfst ((#) \<lparr>bm_Name = ''bind-'' @ Itoa (int idx),
                      bm_Source = bindMountHostPath h src baseDir,
                      bm_Target = tgt, bm_ReadOnly = ro\<rparr>)
            (extract_loop h baseDir (Suc idx) items)
      | None \<Rightarrow> apsnd ((#) item) (extract_loop h baseDir idx items))"

definition extractBindMounts ::
    "host \<Rightarrow> iface option \<Rightarrow> string \<Rightarrow> bindMount list \<times> iface list" where
  "extractBindMounts h v baseDir = (case as_arr v of
     None \<Rightarrow> ([], []) | Some xs \<Rightarrow> extract_loop h baseDir 0 xs)"

section \<open>Virtual machines and update strategy\<close>

definition parseVM :: "string \<Rightarrow> obj \<Rightarrow> error + vmCfg option" where
  "parseVM name svc = (case stringExt (map_of svc ''x-orcinus-vm'') of
     None \<Rightarrow> Inr None
   | Some raw \<Rightarrow>
       (let finish = (\<lambda>rs.
          let ssh = stringExt0 (map_of svc ''x-orcinus-vm-ssh-secret'');
              users = stringSliceExt (map_of svc ''x-orcinus-vm-ssh-users'')
          in if users \<noteq> [] \<and> ssh = [] then Inl (VMNeedsSSHSecret name)
             else Inr (Some \<lparr>vc_RunStrategy = rs,
                    vc_DiskSize = stringExt0 (map_of svc ''x-orcinus-vm-disk''),
                    vc_CloudInit = stringExt0 (map_of svc ''x-orcinus-vm-cloud-init''),
                    vc_SSHSecret = ssh, vc_SSHUsers = users\<rparr>))
        in if ToLower raw = ''false'' then Inr None
           else if ToLower raw = ''true'' \<or> ToLower raw = ''always'' then finish ''Always''
           else if ToLower raw = ''halted'' \<or> ToLower raw = ''stopped'' then finish ''Halted''
           else Inl (InvalidExtension name ''x-orcinus-vm'' raw)))"

text \<open>
  \<^verbatim>\<open>int32(d.Seconds())\<close>: whole seconds, truncated towards zero, then to 32 bits; beyond
  their range the conversion from \<^verbatim>\<open>float64\<close> is the indefinite integer \<open>-2\<^sup>3\<^sup>1\<close>.
\<close>

definition seconds32 :: "int \<Rightarrow> int" where
  "seconds32 ns = (let s = sgn ns * (\<bar>ns\<bar> div 1000000000)
     in if - (2 ^ 31) \<le> s \<and> s < 2 ^ 31 then s else - (2 ^ 31))"

definition durationSeconds :: "(string \<Rightarrow> int option) \<Rightarrow> string \<Rightarrow> int option" where
  "durationSeconds parseDuration s = map_option seconds32 (parseDuration s)"

definition parseUpdateConfig ::
    "(string \<Rightarrow> int option) \<Rightarrow> obj \<Rightarrow> strategyCfg \<Rightarrow> strategyCfg" where
  "parseUpdateConfig parseDuration svc sc =
     (case as_obj (map_of svc ''deploy'') of
        None \<Rightarrow> sc
      | Some deploy \<Rightarrow>
          (case as_obj (map_of deploy ''update_config'') of
             None \<Rightarrow> sc
           | Some uc \<Rightarrow>
               let parallelism = (case intExt (map_of uc ''parallelism'') of
                                    Some n \<Rightarrow> if n > 0 then n else 1 | None \<Rightarrow> 1);
                   order = stringExt0 (map_of uc ''order'');
                   sc1 = sc\<lparr>sc_Type := ''rolling''\<rparr>;
                   sc2 = (if order = ''start-first''
                          then sc1\<lparr>sc_MaxSurge := Itoa parallelism, sc_MaxUnavailable := ''0''\<rparr>
                          else sc1\<lparr>sc_MaxSurge := ''0'', sc_MaxUnavailable := Itoa parallelism\<rparr>);
                   sc3 = (case Option.bind (stringExt (map_of uc ''delay''))
                                 (durationSeconds parseDuration) of
                            Some s \<Rightarrow> sc2\<lparr>sc_MinReadySeconds := s\<rparr> | None \<Rightarrow> sc2)
               in (case Option.bind (stringExt (map_of uc ''monitor''))
                          (durationSeconds parseDuration) of
                     Some s \<Rightarrow> sc3\<lparr>sc_ProgressDeadline := s\<rparr> | None \<Rightarrow> sc3)))"

section \<open>Constraints select the same nodes\<close>

text \<open>
  The specification side: \<open>attr\<close> are a node's Swarm attributes, \<open>lab\<close> its Kubernetes labels.
  \<open>swarm_sat\<close> is Swarm's reading of \<^verbatim>\<open>key == value\<close> and \<^verbatim>\<open>key != value\<close>; \<open>k8s_sat\<close> is the
  Kubernetes reading of a node selector requirement, where an absent label satisfies
  \<^verbatim>\<open>NotIn\<close>. \<open>node_agrees\<close> says both describe one node.
\<close>

definition swarm_sat :: "(string \<rightharpoonup> string) \<Rightarrow> string \<Rightarrow> bool \<Rightarrow> string \<Rightarrow> bool" where
  "swarm_sat attr key neg val \<longleftrightarrow> ((attr key = Some val) \<noteq> neg)"

definition k8s_sat :: "(string \<rightharpoonup> string) \<Rightarrow> nodeConstraint \<Rightarrow> bool" where
  "k8s_sat lab nc \<longleftrightarrow>
     (if nc_Operator nc = ''In'' then (\<exists>v \<in> set (nc_Values nc). lab (nc_Key nc) = Some v)
      else if nc_Operator nc = ''NotIn'' then (\<forall>v \<in> set (nc_Values nc). lab (nc_Key nc) \<noteq> Some v)
      else if nc_Operator nc = ''Exists'' then lab (nc_Key nc) \<noteq> None
      else lab (nc_Key nc) = None)"

definition node_agrees :: "(string \<rightharpoonup> string) \<Rightarrow> (string \<rightharpoonup> string) \<Rightarrow> bool" where
  "node_agrees attr lab \<longleftrightarrow>
     attr ''node.hostname'' = lab ''kubernetes.io/hostname'' \<and>
     attr ''node.platform.arch'' = lab ''kubernetes.io/arch'' \<and>
     attr ''node.platform.os'' = lab ''kubernetes.io/os'' \<and>
     attr ''engine.labels.operatingsystem'' = lab ''kubernetes.io/os'' \<and>
     (\<forall>k. attr (''node.labels.'' @ k) = lab k) \<and>
     attr ''node.role'' = Some (if lab ''node-role.kubernetes.io/control-plane'' = None
        then ''worker'' else ''manager'')"

definition plain_token :: "string \<Rightarrow> bool" where
  "plain_token t \<longleftrightarrow> t \<noteq> [] \<and>
     (\<forall>c \<in> set t. \<not> isSpace c \<and> \<not> isQuote c \<and> c \<noteq> CHR ''='' \<and> c \<noteq> CHR ''!'')"

definition constraint_text :: "string \<Rightarrow> bool \<Rightarrow> string \<Rightarrow> string" where
  "constraint_text key neg val = key @ (if neg then '' != '' else '' == '') @ val"

lemma Cut_append_fresh:
  assumes "\<forall>c \<in> set a. c \<noteq> x"
  shows "Cut (a @ x # b) (x # y) = (if HasPrefix b y then Some (a, drop (length y) b)
     else map_option (apfst ((@) (a @ [x]))) (Cut b (x # y)))"
  using assms
proof (induction a)
  case Nil
  then show ?case by (auto simp: HasPrefix_def apfst_def map_prod_def)
next
  case (Cons c a)
  then have np: "\<not> HasPrefix (c # a @ x # b) (x # y)" unfolding HasPrefix_iff by simp
  have IH: "Cut (a @ x # b) (x # y) = (if HasPrefix b y then Some (a, drop (length y) b)
     else map_option (apfst ((@) (a @ [x]))) (Cut b (x # y)))"
    using Cons by simp
  have "Cut ((c # a) @ x # b) (x # y) = map_option (apfst ((#) c)) (Cut (a @ x # b) (x # y))"
    using np by simp
  then show ?case
    unfolding IH by (simp add: option.map_comp comp_def apfst_def map_prod_def split_def)
qed

lemma no_Cut: "\<forall>c \<in> set s. c \<noteq> x \<Longrightarrow> Cut s (x # y) = None"
  unfolding Cut_None by (metis append_Cons in_set_conv_decomp)

lemma plain_trim:
  assumes "plain_token t"
  shows "TrimSpace (t @ '' '') = t" "TrimSpace ('' '' @ t) = t" "trim isQuote t = t"
proof -
  have h: "hd t \<in> set t" "last t \<in> set t" using assms by (auto simp: plain_token_def)
  have "\<not> isSpace (hd t)" "\<not> isSpace (last t)" using assms h by (auto simp: plain_token_def)
  then have d: "dropWhile isSpace t = t" "dropWhile isSpace (rev t) = rev t"
    by (simp_all add: dropWhile_idem_hd hd_rev)
  have sp: "isSpace (CHR '' '')" by (simp add: isSpace_def)
  have d2: "dropWhile isSpace (t @ '' '') = t @ '' ''"
    using assms h by (intro dropWhile_idem_hd) (auto simp: plain_token_def)
  show "TrimSpace (t @ '' '') = t" by (simp add: TrimSpace_def trim_def d2 sp d)
  show "TrimSpace ('' '' @ t) = t" by (simp add: TrimSpace_def trim_def sp d)
  show "trim isQuote t = t"
    using assms h by (intro trim_id) (auto simp: plain_token_def)
qed

lemma plain_Cut:
  assumes "plain_token key" and "plain_token val"
  shows "Cut (constraint_text key True val) ''!='' = Some (key @ '' '', '' '' @ val)"
    and "Cut (constraint_text key False val) ''!='' = None"
    and "Cut (constraint_text key False val) ''=='' = Some (key @ '' '', '' '' @ val)"
proof -
  have k: "\<forall>c \<in> set (key @ '' ''). c \<noteq> CHR ''!''" "\<forall>c \<in> set (key @ '' ''). c \<noteq> CHR ''=''"
    and v: "\<forall>c \<in> set val. c \<noteq> CHR ''!''"
    using assms by (auto simp: plain_token_def)
  show "Cut (constraint_text key True val) ''!='' = Some (key @ '' '', '' '' @ val)"
    using Cut_append_fresh [OF k(1), of "''= '' @ val" "''=''"]
    by (simp add: constraint_text_def HasPrefix_def)
  show "Cut (constraint_text key False val) ''!='' = None"
    using k(1) v by (intro no_Cut) (auto simp: constraint_text_def)
  show "Cut (constraint_text key False val) ''=='' = Some (key @ '' '', '' '' @ val)"
    using Cut_append_fresh [OF k(2), of "''= '' @ val" "''=''"]
    by (simp add: constraint_text_def HasPrefix_def)
qed

text \<open>What \<open>parseConstraint\<close> computes on a well-formed constraint.\<close>

lemma parseConstraint_text:
  assumes "plain_token key" and "plain_token val"
  shows "parseConstraint (constraint_text key neg val) =
    (if key = ''node.role'' then
       Inr \<lparr>nc_Key = ''node-role.kubernetes.io/control-plane'',
            nc_Operator = (if (val = ''manager'') \<noteq> neg then ''Exists'' else ''DoesNotExist''),
            nc_Values = []\<rparr>
     else case mapNodeLabelKey key of
       None \<Rightarrow> Inl (UnsupportedConstraintKey key)
     | Some k \<Rightarrow> Inr \<lparr>nc_Key = k, nc_Operator = (if neg then ''NotIn'' else ''In''),
          nc_Values = [val]\<rparr>)"
  using plain_Cut [OF assms] plain_trim [OF assms(1)] plain_trim [OF assms(2)]
  by (cases neg) (auto simp: parseConstraint_def Contains_def)

lemma mapNodeLabelKey_agrees:
  assumes "node_agrees attr lab" and "mapNodeLabelKey key = Some k"
  shows "attr key = lab k"
proof (cases "HasPrefix key ''node.labels.''")
  case True
  then obtain r where r: "key = ''node.labels.'' @ r" by (auto simp: HasPrefix_iff)
  have "mapNodeLabelKey key = Some (TrimPrefix key ''node.labels.'')"
    using True unfolding mapNodeLabelKey_def r by simp
  then have "k = r" using assms(2) r TrimPrefix_append [of "''node.labels.''" r] by simp
  moreover have "attr (''node.labels.'' @ r) = lab r"
    using assms(1) unfolding node_agrees_def by blast
  ultimately show ?thesis using r by simp
next
  case False
  with assms show ?thesis
    by (auto simp: mapNodeLabelKey_def node_agrees_def split: if_splits)
qed



section \<open>Bind mounts\<close>

lemma extract_loop_spec:
  "extract_loop h dir i xs =
     (map (\<lambda>(j, src, tgt, ro). \<lparr>bm_Name = ''bind-'' @ Itoa (int (i + j)),
             bm_Source = bindMountHostPath h src dir, bm_Target = tgt, bm_ReadOnly = ro\<rparr>)
          (enumerate 0 (List.map_filter bindEntry xs)),
      filter (\<lambda>x. bindEntry x = None) xs)"
proof (induction xs arbitrary: i)
  case (Cons x xs)
  show ?case
  proof (cases "bindEntry x")
    case None
    with Cons show ?thesis by (simp add: List.map_filter_simps)
  next
    case (Some b)
    obtain src tgt ro where b: "b = (src, tgt, ro)" by (cases b)
    show ?thesis
      by (simp add: Some b Cons List.map_filter_simps enumerate_Suc_eq [of 0] split_def comp_def)
  qed
qed (simp add: List.map_filter_simps)

lemma absPath_abs:
  assumes "h_cwd h = Some wd" and "IsAbs wd"
  shows "IsAbs (absPath h rel dir)"
proof -
  have ex: "Abs h p \<noteq> None" for p using assms(1) by (simp add: Abs_def)
  have ab: "Abs h p = Some q \<Longrightarrow> IsAbs q" for p q
    using assms by (auto intro: Abs_is_abs)
  obtain q q' where "Abs h (JoinPath [dir, rel]) = Some q" "Abs h rel = Some q'"
    using ex by (metis option.exhaust)
  then show ?thesis using ab by (auto simp: absPath_def)
qed

lemma bindMountHostPath_abs:
  assumes "h_cwd h = Some wd" and "IsAbs wd"
  shows "IsAbs (bindMountHostPath h src dir)"
  using absPath_abs [OF assms] by (simp add: bindMountHostPath_def Let_def)

text \<open>
  \<^verbatim>\<open>extractBindMounts\<close> splits a volume list without losing or inventing anything: the
  entries left for the engine are exactly those that are not bind mounts, in order; the bind
  mounts carry the targets and modes of the others, in order; their volume names are pairwise
  distinct; and every host path is absolute, as a hostPath volume needs.
\<close>

theorem extractBindMounts_splits:
  assumes "h_cwd h = Some wd" and "IsAbs wd"
    and "extractBindMounts h (Some (JArr xs)) dir = (mounts, kept)"
  shows "kept = filter (\<lambda>x. bindEntry x = None) xs
    \<and> map (\<lambda>m. (bm_Target m, bm_ReadOnly m)) mounts = map snd (List.map_filter bindEntry xs)
    \<and> distinct (map bm_Name mounts)
    \<and> (\<forall>m \<in> set mounts. IsAbs (bm_Source m))"
proof -
  let ?es = "enumerate 0 (List.map_filter bindEntry xs)"
  have m: "mounts = map (\<lambda>(j, src, tgt, ro). \<lparr>bm_Name = ''bind-'' @ Itoa (int j),
      bm_Source = bindMountHostPath h src dir, bm_Target = tgt, bm_ReadOnly = ro\<rparr>) ?es"
    and k: "kept = filter (\<lambda>x. bindEntry x = None) xs"
    using assms(3) by (auto simp: extractBindMounts_def extract_loop_spec)
  have "map bm_Name mounts = map (\<lambda>j. ''bind-'' @ Itoa (int j)) (map fst ?es)"
    unfolding m map_map by (simp add: split_def comp_def del: map_fst_enumerate)
  then have "distinct (map bm_Name mounts)"
    by (simp add: distinct_map inj_on_def)
  moreover have "map (\<lambda>m. (bm_Target m, bm_ReadOnly m)) mounts = map snd (map snd ?es)"
    unfolding m map_map by (simp add: split_def comp_def del: map_snd_enumerate)
  ultimately show ?thesis
    using bindMountHostPath_abs [OF assms(1,2)] k by (auto simp: m)
qed

theorem extractBindMounts_splits_witness:
  "extractBindMounts \<lparr>h_home = None, h_cwd = Some ''/srv'', h_stat = (\<lambda>_. False), h_read = (\<lambda>_. None),
        h_mkdir = (\<lambda>_. True), h_write = (\<lambda>_. True)\<rparr>
      (Some (JArr [JStr ''./data:/var/lib:ro'', JStr ''db:/x''])) ''/app''
     = ([\<lparr>bm_Name = ''bind-0'', bm_Source = ''/app/data'', bm_Target = ''/var/lib'', bm_ReadOnly = True\<rparr>],
        [JStr ''db:/x''])
   \<and> IsAbs ''/app/data''"
proof -
  let ?h = "\<lparr>h_home = None, h_cwd = Some ''/srv'', h_stat = (\<lambda>_. False), h_read = (\<lambda>_. None),
        h_mkdir = (\<lambda>_. True), h_write = (\<lambda>_. True)\<rparr> :: host"
  let ?m = "\<lparr>bm_Name = ''bind-0'', bm_Source = ''/app/data'', bm_Target = ''/var/lib'', bm_ReadOnly = True\<rparr>"
  have e: "extractBindMounts ?h (Some (JArr [JStr ''./data:/var/lib:ro'', JStr ''db:/x''])) ''/app''
     = ([?m], [JStr ''db:/x''])"
    by code_simp
  have "\<forall>m \<in> set [?m]. IsAbs (bm_Source m)"
    using extractBindMounts_splits [of ?h "''/srv''", OF _ _ e] by (simp add: IsAbs_Cons)
  with e show ?thesis by simp
qed

section \<open>Update strategy\<close>

text \<open>
  An update configuration never stalls a rolling update: whenever a service has
  \<^verbatim>\<open>deploy.update_config\<close>, the strategy \<^verbatim>\<open>parseUpdateConfig\<close> derives is a rolling one in which
  one of surge and unavailability is zero and the other the parallelism, a number that is at
  least one; start-first is the surge, everything else the unavailability.
\<close>

theorem parseUpdateConfig_progress:
  assumes "as_obj (map_of svc ''deploy'') = Some deploy"
    and "as_obj (map_of deploy ''update_config'') = Some uc"
  shows "\<exists>n \<ge> 1. (let sc' = parseUpdateConfig pd svc sc in
     sc_Type sc' = ''rolling'' \<and>
     (if stringExt0 (map_of uc ''order'') = ''start-first''
      then sc_MaxSurge sc' = Itoa n \<and> sc_MaxUnavailable sc' = ''0''
      else sc_MaxSurge sc' = ''0'' \<and> sc_MaxUnavailable sc' = Itoa n))"
proof -
  let ?n = "case intExt (map_of uc ''parallelism'') of Some n \<Rightarrow> if n > 0 then n else 1 | None \<Rightarrow> 1"
  have "?n \<ge> 1" by (auto split: option.splits)
  then show ?thesis
    using assms by (intro exI [of _ ?n]) (auto simp: parseUpdateConfig_def Let_def split: option.splits)
qed

theorem parseUpdateConfig_progress_witness:
  "\<exists>n \<ge> 1. (let sc' = parseUpdateConfig (\<lambda>_. Some 0)
       [(''deploy'', JObj [(''update_config'', JObj [(''parallelism'', JFloat 2 0)])])] strategyCfg0 in
     sc_Type sc' = ''rolling'' \<and>
     (if stringExt0 (map_of [(''parallelism'', JFloat 2 0)] ''order'') = ''start-first''
      then sc_MaxSurge sc' = Itoa n \<and> sc_MaxUnavailable sc' = ''0''
      else sc_MaxSurge sc' = ''0'' \<and> sc_MaxUnavailable sc' = Itoa n))"
  by (rule parseUpdateConfig_progress [where deploy = "[(''update_config'', JObj [(''parallelism'', JFloat 2 0)])]"])
    simp_all

lemma seconds32_bounds: "- (2 ^ 31) \<le> seconds32 ns \<and> seconds32 ns < 2 ^ 31"
  by (simp add: seconds32_def Let_def)

section \<open>Virtual machines\<close>

definition vm_ok :: "vmCfg \<Rightarrow> bool" where
  "vm_ok c \<longleftrightarrow> vc_RunStrategy c \<in> {''Always'', ''Halted''} \<and> (vc_SSHUsers c \<noteq> [] \<longrightarrow> vc_SSHSecret c \<noteq> [])"

lemma parseVM_ok: "parseVM name svc = Inr (Some c) \<Longrightarrow> vm_ok c"
  by (auto simp: parseVM_def vm_ok_def Let_def split: option.splits if_splits)

end
