(* ===== verification/Env_Staging.thy ===== *)
theory Env_Staging
  imports Compose_Ext
begin

text \<open>
  Staging of the files a compose document names (\<^verbatim>\<open>stageEnvFiles\<close>, \<^verbatim>\<open>envFileDest\<close>,
  \<^verbatim>\<open>resolveFileRefs\<close> of \<^verbatim>\<open>pkg/compose/extensions.go\<close>; \<^verbatim>\<open>copyEnvFiles\<close> and \<^verbatim>\<open>stageDotEnv\<close> of
  \<^verbatim>\<open>pkg/compose/compose.go\<close>). The map \<^verbatim>\<open>envDests\<close>, shared by every document of one
  conversion, is threaded through; the temporary directory is the map from the paths written
  to their contents.

  The theorems: the numbering loop ends and never gives a name away twice, a staged name
  stays inside the temporary directory, and every staged reference is backed by a file that
  exists and keeps its name for the rest of the conversion.
\<close>

record envFileRef =
  er_src :: string
  er_dest :: string

section \<open>Entries\<close>

fun envFileEntry :: "iface \<Rightarrow> (string \<times> bool) option" where
  "envFileEntry (JStr v) = (if v \<noteq> [] then Some (v, True) else None)"
| "envFileEntry (JObj v) =
     (let p = (case as_str (map_of v ''path'') of Some s \<Rightarrow> s | None \<Rightarrow> []);
          required = (case as_bool (map_of v ''required'') of Some r \<Rightarrow> r | None \<Rightarrow> True)
      in if p \<noteq> [] then Some (p, required) else None)"
| "envFileEntry _ = None"

fun rewriteEnvFileEntry :: "iface \<Rightarrow> string \<Rightarrow> iface" where
  "rewriteEnvFileEntry (JObj m) dest = JObj (AList.update ''path'' (JStr dest) m)"
| "rewriteEnvFileEntry _ dest = JStr dest"

section \<open>The staged name\<close>

definition numbered :: "string \<Rightarrow> nat \<Rightarrow> string" where
  "numbered src i = Itoa (int i) @ ''-'' @ Base src"

definition dest_clash :: "string gomap \<Rightarrow> string \<Rightarrow> string \<Rightarrow> bool" where
  "dest_clash envDests src dest =
     (case map_of envDests dest of None \<Rightarrow> False | Some prev \<Rightarrow> prev \<noteq> src)"

lemma numbered_inj: "numbered src i = numbered src j \<longleftrightarrow> i = j"
proof
  assume "numbered src i = numbered src j"
  then have "Itoa (int i) = Itoa (int j)" by (auto simp: numbered_def)
  then show "i = j" by simp
qed simp

definition clashes :: "string gomap \<Rightarrow> string \<Rightarrow> nat \<Rightarrow> nat set" where
  "clashes envDests src i = {j. i \<le> j \<and> dest_clash envDests src (numbered src j)}"

lemma finite_clashes [simp]: "finite (clashes envDests src i)"
proof (rule finite_subset)
  show "clashes envDests src i \<subseteq> numbered src -` dom (map_of envDests)"
    by (auto simp: clashes_def dest_clash_def split: option.splits)
  show "finite (numbered src -` dom (map_of envDests))"
    by (intro finite_vimageI finite_dom_map_of) (simp add: inj_def numbered_inj)
qed

lemma clashes_Suc:
  "clashes envDests src i = (if dest_clash envDests src (numbered src i)
     then insert i (clashes envDests src (Suc i)) else clashes envDests src (Suc i))"
  by (auto simp: clashes_def le_eq_less_or_eq Suc_le_eq)

lemma clashes_fresh [simp]: "i \<notin> clashes envDests src (Suc i)"
  by (simp add: clashes_def)

text \<open>
  The loop \<^verbatim>\<open>for i := 1; ; i++\<close> has no bound of its own. It ends because the numbered names
  differ from each other and only finitely many names are taken: the number of names still to
  be refused goes down with every turn.
\<close>

function dest_loop :: "string gomap \<Rightarrow> string \<Rightarrow> nat \<Rightarrow> string \<Rightarrow> string" where
  "dest_loop envDests src i dest =
     (if dest_clash envDests src dest
      then dest_loop envDests src (Suc i) (numbered src i) else dest)"
  by pat_completeness auto
termination
proof (relation "measure (\<lambda>(envDests, src, i, dest).
    card (clashes envDests src i) + (if dest_clash envDests src dest then 1 else 0))", goal_cases)
  case 1
  then show ?case by simp
next
  case (2 envDests src i dest)
  then show ?case by (simp add: clashes_Suc [of _ _ i])
qed

declare dest_loop.simps [simp del]

definition envFileDest :: "string \<Rightarrow> string \<Rightarrow> string gomap \<Rightarrow> string \<times> string gomap" where
  "envFileDest path src envDests =
     (let clean = Clean path;
          dest0 = (if \<not> IsAbs path \<and> clean \<noteq> ''..'' \<and> \<not> HasPrefix clean ''../'' then clean else []);
          dest1 = (if dest0 = [] then Base src else dest0);
          dest = dest_loop envDests src 1 dest1
      in (dest, AList.update dest src envDests))"

section \<open>Staging a service\<close>

type_synonym staging = "envFileRef list \<times> iface list \<times> string gomap"

definition stageEntry :: "host \<Rightarrow> string \<Rightarrow> string \<Rightarrow> iface \<Rightarrow> staging \<Rightarrow> error + staging" where
  "stageEntry h svcName baseDir e = (\<lambda>(refs, rewritten, envDests).
     case envFileEntry e of
       None \<Rightarrow> Inr (refs, rewritten @ [e], envDests)
     | Some (path, required) \<Rightarrow>
         let src = (if IsAbs path then path else absPath h path baseDir) in
         if \<not> h_stat h src then
           (if \<not> required then Inr (refs, rewritten, envDests)
            else Inl (EnvFileNotFound svcName path src))
         else
           (case envFileDest path src envDests of (dest, envDests') \<Rightarrow>
              Inr (refs @ [\<lparr>er_src = src, er_dest = dest\<rparr>],
                   rewritten @ [rewriteEnvFileEntry e dest], envDests')))"

definition stageEnvFiles ::
    "host \<Rightarrow> obj \<Rightarrow> string \<Rightarrow> string \<Rightarrow> string gomap \<Rightarrow>
     error + obj \<times> envFileRef list \<times> string gomap" where
  "stageEnvFiles h svc svcName baseDir envDests =
     (let go = (\<lambda>entries.
        rbind (foldM (stageEntry h svcName baseDir) entries ([], [], envDests))
          (\<lambda>(refs, rewritten, envDests').
             Inr (if rewritten = [] then AList.delete ''env_file'' svc
                  else AList.update ''env_file'' (JArr rewritten) svc, refs, envDests')))
      in case map_of svc ''env_file'' of
           Some (JStr v) \<Rightarrow> go [JStr v]
         | Some (JArr v) \<Rightarrow> go v
         | _ \<Rightarrow> Inr (svc, [], envDests))"

section \<open>File references of configs and secrets\<close>

definition resolveEntry :: "host \<Rightarrow> string \<Rightarrow> iface \<Rightarrow> iface" where
  "resolveEntry h baseDir entry = (case entry of
     JObj m \<Rightarrow> (case as_str (map_of m ''file'') of
        Some f \<Rightarrow> if f \<noteq> [] \<and> \<not> IsAbs f
                  then JObj (AList.update ''file'' (JStr (absPath h f baseDir)) m) else JObj m
      | None \<Rightarrow> JObj m)
   | _ \<Rightarrow> entry)"

definition resolveFileRefs :: "host \<Rightarrow> string \<Rightarrow> string \<Rightarrow> obj \<Rightarrow> obj" where
  "resolveFileRefs h baseDir key doc = (case as_obj (map_of doc key) of
     None \<Rightarrow> doc
   | Some m \<Rightarrow> AList.update key (JObj (map (\<lambda>(k, e). (k, resolveEntry h baseDir e)) m)) doc)"

section \<open>Copying into the temporary directory\<close>

definition copyEnvFile :: "host \<Rightarrow> string \<Rightarrow> envFileRef \<Rightarrow> string gomap \<Rightarrow> error + string gomap" where
  "copyEnvFile h tmpDir ref tmp =
     (let dst = JoinPath [tmpDir, er_dest ref] in
      if \<not> h_mkdir h (Dir dst) then Inl (WriteError (Dir dst))
      else case h_read h (er_src ref) of
             None \<Rightarrow> Inl (ReadFileError (er_src ref))
           | Some data \<Rightarrow> if \<not> h_write h dst then Inl (WriteError dst)
                           else Inr (AList.update dst data tmp))"

definition copyEnvFiles ::
    "host \<Rightarrow> string \<Rightarrow> envFileRef list \<Rightarrow> string gomap \<Rightarrow> error + string gomap" where
  "copyEnvFiles h tmpDir refs tmp = foldM (copyEnvFile h tmpDir) refs tmp"

definition stageDotEnv ::
    "host \<Rightarrow> string \<Rightarrow> string \<Rightarrow> string gomap \<Rightarrow> string gomap \<Rightarrow> error + string gomap \<times> string gomap" where
  "stageDotEnv h tmpDir baseDir envDests tmp =
     (if baseDir = [] then Inr (envDests, tmp)
      else let src = JoinPath [baseDir, ''.env'']; dst = JoinPath [tmpDir, ''.env''] in
        if \<not> h_stat h src then Inr (envDests, tmp)
        else if dest_clash envDests src ''.env'' then Inr (envDests, tmp)
        else case h_read h src of
          None \<Rightarrow> Inl (ReadFileError src)
        | Some data \<Rightarrow> if \<not> h_write h dst then Inl (WriteError dst)
             else Inr (AList.update ''.env'' src envDests, AList.update dst data tmp))"

section \<open>Names are never given away twice\<close>

lemma dest_loop_free: "\<not> dest_clash envDests src (dest_loop envDests src i dest)"
proof (induction envDests src i dest rule: dest_loop.induct)
  case (1 envDests src i dest)
  then show ?case by (cases "dest_clash envDests src dest") (simp_all add: dest_loop.simps [of _ _ i])
qed

lemma dest_loop_cases:
  "dest_loop envDests src i dest = dest \<or> (\<exists>j \<ge> i. dest_loop envDests src i dest = numbered src j)"
proof (induction envDests src i dest rule: dest_loop.induct)
  case (1 envDests src i dest)
  show ?case
  proof (cases "dest_clash envDests src dest")
    case True
    with 1 show ?thesis by (metis (no_types, lifting) Suc_leD dest_loop.simps le_refl)
  next
    case False
    then show ?thesis by (simp add: dest_loop.simps [of _ _ i])
  qed
qed

lemma update_free_extends:
  "\<not> dest_clash envDests src d \<Longrightarrow> map_of envDests \<subseteq>\<^sub>m map_of (AList.update d src envDests)"
  by (auto simp: map_le_def dest_clash_def split: option.splits)

lemma dest_clash_update:
  "\<not> dest_clash envDests src d \<Longrightarrow>
   dest_clash (AList.update d src envDests) src x = dest_clash envDests src x"
  by (auto simp: dest_clash_def split: option.splits)

lemma dest_loop_update:
  assumes "\<not> dest_clash envDests src d"
  shows "dest_loop (AList.update d src envDests) src i x = dest_loop envDests src i x"
  using assms
proof (induction envDests src i x rule: dest_loop.induct)
  case (1 envDests src i x)
  then show ?case
    by (simp add: dest_loop.simps [of _ _ i x] dest_clash_update)
qed

lemma envFileDest_update:
  assumes "envFileDest path src envDests = (dest, envDests')"
  shows "map_of envDests' dest = Some src" and "map_of envDests \<subseteq>\<^sub>m map_of envDests'"
    and "\<not> dest_clash envDests src dest" and "envDests' = AList.update dest src envDests"
proof -
  show e: "envDests' = AList.update dest src envDests"
    and free: "\<not> dest_clash envDests src dest"
    using assms dest_loop_free by (auto simp: envFileDest_def Let_def)
  show "map_of envDests' dest = Some src" by (simp add: e)
  show "map_of envDests \<subseteq>\<^sub>m map_of envDests'" unfolding e by (rule update_free_extends [OF free])
qed

lemma update_again [simp]: "AList.update k v (AList.update k v m) = AList.update k v m"
  by (induction m) auto

text \<open>
  Staging an env file gives away a name no other file has: the name \<^verbatim>\<open>envFileDest\<close>
  returns is recorded for this source, every name recorded before keeps its source, and the
  choice is stable, so staging the same file again under the same path gives the same name.
\<close>

theorem envFileDest_unique:
  assumes "envFileDest path src envDests = (dest, envDests')"
  shows "map_of envDests' dest = Some src
    \<and> map_of envDests \<subseteq>\<^sub>m map_of envDests'
    \<and> envFileDest path src envDests' = (dest, envDests')"
proof -
  note d = envFileDest_update [OF assms]
  have "envFileDest path src envDests' = (dest, envDests')"
    using assms by (auto simp: d(4) envFileDest_def Let_def dest_loop_update [OF d(3)])
  with d(1,2) show ?thesis by simp
qed

theorem envFileDest_unique_witness:
  "map_of [(''.env'', ''/other/.env''), (''1-.env'', ''/app/.env'')] ''1-.env'' = Some ''/app/.env''
   \<and> map_of [(''.env'', ''/other/.env'')] \<subseteq>\<^sub>m
       map_of [(''.env'', ''/other/.env''), (''1-.env'', ''/app/.env'')]
   \<and> envFileDest ''.env'' ''/app/.env'' [(''.env'', ''/other/.env''), (''1-.env'', ''/app/.env'')]
      = (''1-.env'', [(''.env'', ''/other/.env''), (''1-.env'', ''/app/.env'')])"
proof (rule envFileDest_unique)
  show "envFileDest ''.env'' ''/app/.env'' [(''.env'', ''/other/.env'')] =
      (''1-.env'', [(''.env'', ''/other/.env''), (''1-.env'', ''/app/.env'')])"
    by code_simp
qed

section \<open>Staged names stay inside the temporary directory\<close>

lemma Base_no_slash: "Base p = ''/'' \<or> slash \<notin> set (Base p)"
proof -
  let ?q = "rev (dropWhile (\<lambda>c. c = slash) (rev p))"
  have "slash \<notin> set (last (SplitChar slash ?q))"
    using SplitChar_no_sep [of "last (SplitChar slash ?q)" slash ?q] by simp
  then show ?thesis by (auto simp: Base_def Let_def)
qed

lemma Base_nonempty [simp]: "Base p \<noteq> []"
  by (simp add: Base_def Let_def)

lemma SplitChar_single: "x \<notin> set s \<Longrightarrow> SplitChar x s = [s]"
  by (induction s) auto

lemma inside_single: "slash \<notin> set s \<Longrightarrow> s \<noteq> ''..'' \<Longrightarrow> inside s"
  by (auto simp: inside_def SplitChar_single IsAbs_Cons)

lemma Itoa_nat_chars: "c \<in> set (Itoa (int i)) \<Longrightarrow> isDigit c"
  using nat_digits_isDigit [of i] by (auto simp: Itoa_def list_all_iff)

lemma numbered_inside:
  assumes "Base src \<noteq> ''/''"
  shows "inside (numbered src i)"
proof (rule inside_single)
  have "slash \<notin> set (Itoa (int i))" by (auto dest: Itoa_nat_chars simp: isDigit_def)
  then show "slash \<notin> set (numbered src i)"
    using assms Base_no_slash [of src] by (auto simp: numbered_def)
  show "numbered src i \<noteq> ''..''"
  proof
    assume a: "numbered src i = ''..''"
    have "hd (numbered src i) \<in> set (Itoa (int i))"
      by (simp add: numbered_def Itoa_def hd_append)
    then have "isDigit (hd (numbered src i))" by (rule Itoa_nat_chars)
    then show False by (simp add: a isDigit_def)
  qed
qed

text \<open>
  A staged env file lands inside the temporary directory: whatever path the compose
  document writes, absolute or climbing out with \<^verbatim>\<open>..\<close>, the name \<^verbatim>\<open>envFileDest\<close> picks is a
  relative path without a parent segment, provided the source path ends in a file name.
\<close>

theorem envFileDest_inside:
  assumes "Base src \<noteq> ''..''" and "Base src \<noteq> ''/''"
    and "envFileDest path src envDests = (dest, envDests')"
  shows "inside dest"
proof -
  define d1 where "d1 = (if \<not> IsAbs path \<and> Clean path \<noteq> ''..'' \<and> \<not> HasPrefix (Clean path) ''../''
    then (if Clean path = [] then Base src else Clean path) else Base src)"
  have dest: "dest = dest_loop envDests src 1 d1"
    using assms(3) by (auto simp: envFileDest_def Let_def d1_def)
  have "inside (Base src)"
    using assms(1,2) Base_no_slash [of src] by (auto intro: inside_single)
  then have "inside d1"
    using Clean_relative_inside [of path] by (auto simp: d1_def)
  then show ?thesis
    using dest_loop_cases [of envDests src 1 d1] numbered_inside [OF assms(2)] dest by auto
qed

theorem envFileDest_inside_witness: "inside ''prod.env''"
proof (rule envFileDest_inside)
  show "envFileDest ''../../etc/prod.env'' ''/srv/etc/prod.env'' []
      = (''prod.env'', [(''prod.env'', ''/srv/etc/prod.env'')])"
    by code_simp
qed code_simp+

section \<open>Every staged reference is backed by a file\<close>

definition refs_backed :: "host \<Rightarrow> envFileRef list \<Rightarrow> string gomap \<Rightarrow> bool" where
  "refs_backed h refs envDests \<longleftrightarrow>
     (\<forall>r \<in> set refs. h_stat h (er_src r) \<and> map_of envDests (er_dest r) = Some (er_src r))"

lemma refs_backed_mono:
  "refs_backed h refs e \<Longrightarrow> map_of e \<subseteq>\<^sub>m map_of e' \<Longrightarrow> refs_backed h refs e'"
  by (auto simp: refs_backed_def map_le_def dom_def)

lemma stageEntry_step:
  assumes "stageEntry h n b e (refs, rw, ed) = Inr (refs', rw', ed')"
    and "refs_backed h refs ed"
  shows "refs_backed h refs' ed' \<and> map_of ed \<subseteq>\<^sub>m map_of ed'"
proof (cases "envFileEntry e")
  case None
  with assms show ?thesis by (auto simp: stageEntry_def)
next
  case (Some pr)
  obtain path req where pr: "pr = (path, req)" by force
  define src where "src = (if IsAbs path then path else absPath h path b)"
  show ?thesis
  proof (cases "h_stat h src")
    case False
    with assms Some pr show ?thesis by (auto simp: stageEntry_def src_def Let_def split: if_splits)
  next
    case True
    obtain d e' where d: "envFileDest path src ed = (d, e')" by force
    have eq: "refs' = refs @ [\<lparr>er_src = src, er_dest = d\<rparr>]" "ed' = e'"
      using assms(1) Some pr True d by (auto simp: stageEntry_def src_def Let_def)
    have u: "map_of ed' d = Some src" "map_of ed \<subseteq>\<^sub>m map_of ed'"
      using envFileDest_update [OF d] eq by auto
    with assms(2) True show ?thesis
      using refs_backed_mono [OF assms(2) u(2)] by (auto simp: eq(1) refs_backed_def)
  qed
qed

lemma stage_loop:
  assumes "foldM (stageEntry h n b) es (refs, rw, ed) = Inr (refs', rw', ed')"
    and "refs_backed h refs ed"
  shows "refs_backed h refs' ed' \<and> map_of ed \<subseteq>\<^sub>m map_of ed'"
  using assms
proof (induction es arbitrary: refs rw ed)
  case (Cons e es)
  then obtain r1 w1 e1 where s: "stageEntry h n b e (refs, rw, ed) = Inr (r1, w1, e1)"
    and l: "foldM (stageEntry h n b) es (r1, w1, e1) = Inr (refs', rw', ed')"
    by (auto simp: rbind_Inr_iff)
  from stageEntry_step [OF s Cons.prems(2)] have b: "refs_backed h r1 e1" and m: "map_of ed \<subseteq>\<^sub>m map_of e1"
    by auto
  from Cons.IH [OF l b] m show ?case by (blast intro: map_le_trans)
qed auto

lemma stageEnvFiles_loop:
  assumes "stageEnvFiles h svc name dir envDests = Inr (svc', refs, envDests')"
  shows "refs = [] \<and> envDests' = envDests \<or>
    (\<exists>es rw. foldM (stageEntry h name dir) es ([], [], envDests) = Inr (refs, rw, envDests'))"
  using assms
  by (auto simp: stageEnvFiles_def Let_def rbind_Inr_iff simp del: foldM.simps
      split: option.splits iface.splits)

text \<open>
  After a service's env files are staged, every reference it hands on names a file that
  exists and a destination recorded for exactly that file, and the names staged for earlier
  services and documents still belong to their files.
\<close>

theorem stageEnvFiles_backed:
  assumes "stageEnvFiles h svc name dir envDests = Inr (svc', refs, envDests')"
  shows "refs_backed h refs envDests' \<and> map_of envDests \<subseteq>\<^sub>m map_of envDests'"
proof -
  have "refs_backed h [] envDests" by (simp add: refs_backed_def)
  then show ?thesis
    using stageEnvFiles_loop [OF assms] stage_loop by (metis map_le_refl)
qed

theorem stageEnvFiles_backed_witness:
  "refs_backed \<lparr>h_home = None, h_cwd = Some ''/'', h_stat = (\<lambda>p. p = ''/app/a.env''),
       h_read = (\<lambda>_. Some []), h_mkdir = (\<lambda>_. True), h_write = (\<lambda>_. True)\<rparr>
     [\<lparr>er_src = ''/app/a.env'', er_dest = ''a.env''\<rparr>] [(''a.env'', ''/app/a.env'')]
   \<and> map_of [] \<subseteq>\<^sub>m map_of [(''a.env'', ''/app/a.env'')]"
proof (rule stageEnvFiles_backed)
  show "stageEnvFiles \<lparr>h_home = None, h_cwd = Some ''/'', h_stat = (\<lambda>p. p = ''/app/a.env''),
       h_read = (\<lambda>_. Some []), h_mkdir = (\<lambda>_. True), h_write = (\<lambda>_. True)\<rparr>
      [(''env_file'', JArr [JStr ''a.env'', JObj [(''path'', JStr ''b.env''), (''required'', JBool False)]])]
      ''web'' ''/app'' [] =
    Inr ([(''env_file'', JArr [JStr ''a.env''])],
      [\<lparr>er_src = ''/app/a.env'', er_dest = ''a.env''\<rparr>], [(''a.env'', ''/app/a.env'')])"
    by code_simp
qed

text \<open>A missing env file that the document does not mark optional fails the conversion.\<close>

lemma stageEntry_missing:
  assumes "envFileEntry e = Some (path, True)"
    and "\<not> h_stat h (if IsAbs path then path else absPath h path dir)"
  shows "stageEntry h name dir e s =
    Inl (EnvFileNotFound name path (if IsAbs path then path else absPath h path dir))"
  using assms by (cases s) (simp add: stageEntry_def Let_def)

section \<open>References of configs and secrets\<close>

lemma resolveEntry_abs:
  assumes "h_cwd h = Some wd" and "IsAbs wd"
    and "resolveEntry h dir e = JObj m" and "map_of m ''file'' = Some (JStr f)"
  shows "f = [] \<or> IsAbs f"
  using assms absPath_abs [OF assms(1,2)]
  by (auto simp: resolveEntry_def split: iface.splits option.splits if_splits)

end
