(* ===== verification/Inject_Labels.thy ===== *)
theory Inject_Labels
  imports Env_Staging
begin

text \<open>
  \<^verbatim>\<open>injectKomposeLabels\<close> of \<^verbatim>\<open>pkg/compose/extensions.go\<close>: one pass over the services of a
  compose document that moves the \<^verbatim>\<open>x-orcinus-*\<close> keys into native labels and into the hint
  maps of \<open>preprocessed\<close>. The body of the loop is one definition per section of the source,
  composed in the source's order by \<open>processService\<close>; the loop is \<open>injectServices\<close>.
  \<open>codec\<close> holds what the YAML library and \<^verbatim>\<open>time.ParseDuration\<close> answer.

  The theorems: the hints that leave the pass are well formed and never ask for a virtual
  machine together with a rollout or autoscaling, every hint belongs to a selected service,
  and the services of the rewritten document are the selected ones.
\<close>

record codec =
  cd_unmarshal :: "string \<Rightarrow> obj option"
  cd_marshal :: "obj \<Rightarrow> string option"
  cd_duration :: "string \<Rightarrow> int option"

record preprocessed =
  pp_content :: string
  pp_secrets :: "string list gomap"
  pp_ingress :: "ingressCfg gomap"
  pp_autoscale :: "autoscaleCfg gomap"
  pp_strategy :: "strategyCfg gomap"
  pp_rollout :: "string gomap"
  pp_imagePullSecrets :: "string list gomap"
  pp_envFromSecrets :: "string list gomap"
  pp_bindMounts :: "bindMount list gomap"
  pp_placement :: "placementCfg gomap"
  pp_nodeSelector :: "string gomap gomap"
  pp_gpu :: "string gomap gomap"
  pp_vm :: "vmCfg gomap"
  pp_envFiles :: "envFileRef list"

definition preprocessed0 :: preprocessed where
  "preprocessed0 = \<lparr>pp_content = [], pp_secrets = [], pp_ingress = [], pp_autoscale = [],
     pp_strategy = [], pp_rollout = [], pp_imagePullSecrets = [], pp_envFromSecrets = [],
     pp_bindMounts = [], pp_placement = [], pp_nodeSelector = [], pp_gpu = [], pp_vm = [],
     pp_envFiles = []\<rparr>"

text \<open>\<^verbatim>\<open>if len(v) > 0 { m[k] = v }\<close> and \<^verbatim>\<open>if v, ok := f(); ok { m[k] = v }\<close>.\<close>

definition put_nonempty :: "string \<Rightarrow> 'a list \<Rightarrow> 'a list gomap \<Rightarrow> 'a list gomap" where
  "put_nonempty k v m = (if v = [] then m else AList.update k v m)"

definition put_label :: "string \<Rightarrow> string option \<Rightarrow> obj \<Rightarrow> obj" where
  "put_label k v m = (case v of None \<Rightarrow> m | Some s \<Rightarrow> AList.update k (JStr s) m)"

section \<open>The sections of the loop body\<close>

definition serviceLabels :: "string \<Rightarrow> obj \<Rightarrow> error + obj" where
  "serviceLabels name svc =
     (let labels = normalizeLabels (map_of svc ''labels'');
          labels = put_label ''kompose.controller.type'' (stringExt (map_of svc ''x-orcinus-controller'')) labels;
          labels = put_label ''kompose.volume.size'' (stringExt (map_of svc ''x-orcinus-volume-size'')) labels
      in case stringExt (map_of svc ''x-orcinus-expose'') of
           None \<Rightarrow> Inr labels
         | Some expose \<Rightarrow>
             if expose = ''ingress'' then
               Inr (put_label ''kompose.service.expose''
                 (Some (case stringExt (map_of svc ''x-orcinus-host'') of Some host \<Rightarrow> host | None \<Rightarrow> ''true''))
                 labels)
             else if expose \<in> {''nodeport'', ''loadbalancer'', ''clusterip'', ''headless''} then
               Inr (put_label ''kompose.service.type'' (Some expose) labels)
             else Inl (InvalidExtension name ''x-orcinus-expose'' expose))"

definition readIngress :: "obj \<Rightarrow> ingressCfg" where
  "readIngress svc =
     (let ic = ingressCfg0\<lparr>ic_TLS := stringExt0 (map_of svc ''x-orcinus-tls''),
                 ic_TLSSecret := stringExt0 (map_of svc ''x-orcinus-tls-secret''),
                 ic_Path := stringExt0 (map_of svc ''x-orcinus-path''),
                 ic_Class := stringExt0 (map_of svc ''x-orcinus-ingress-class''),
                 ic_Port := (case intExt (map_of svc ''x-orcinus-port'') of Some v \<Rightarrow> v | None \<Rightarrow> 0)\<rparr>;
          ic = (case map_of svc ''x-orcinus-strip-prefix'' of
                  Some (JBool t) \<Rightarrow> ic\<lparr>ic_StripFromPath := t\<rparr>
                | Some (JStr t) \<Rightarrow> (if t \<noteq> [] then ic\<lparr>ic_StripPrefixes := [t]\<rparr> else ic)
                | Some (JArr t) \<Rightarrow> ic\<lparr>ic_StripPrefixes := stringSliceExt (Some (JArr t))\<rparr>
                | _ \<Rightarrow> ic)
      in ic\<lparr>ic_Middlewares := stringSliceExt (map_of svc ''x-orcinus-middleware'')\<rparr>)"

definition intExt0 :: "iface option \<Rightarrow> int" where
  "intExt0 v = (case intExt v of Some n \<Rightarrow> n | None \<Rightarrow> 0)"

definition readAutoscale :: "obj \<Rightarrow> autoscaleCfg" where
  "readAutoscale svc =
     \<lparr>as_Min = intExt0 (map_of svc ''x-orcinus-autoscale-min''),
      as_Max = intExt0 (map_of svc ''x-orcinus-autoscale-max''),
      as_CPU = intExt0 (map_of svc ''x-orcinus-autoscale-cpu''),
      as_Memory = intExt0 (map_of svc ''x-orcinus-autoscale-memory'')\<rparr>"

definition readStrategy :: "codec \<Rightarrow> string \<Rightarrow> obj \<Rightarrow> error + strategyCfg" where
  "readStrategy cd name svc =
     (let sc = parseUpdateConfig (cd_duration cd) svc strategyCfg0;
          knobs = (\<lambda>sc. let
              sc = (case stringExt (map_of svc ''x-orcinus-max-surge'') of
                      Some v \<Rightarrow> sc\<lparr>sc_MaxSurge := v\<rparr> | None \<Rightarrow> sc)
            in (case stringExt (map_of svc ''x-orcinus-max-unavailable'') of
                  Some v \<Rightarrow> sc\<lparr>sc_MaxUnavailable := v\<rparr> | None \<Rightarrow> sc))
      in case stringExt (map_of svc ''x-orcinus-strategy'') of
           None \<Rightarrow> Inr (knobs sc)
         | Some v \<Rightarrow>
             if v \<noteq> ''rolling'' \<and> v \<noteq> ''recreate''
             then Inl (InvalidExtension name ''x-orcinus-strategy'' v)
             else Inr (knobs (sc\<lparr>sc_Type := v\<rparr>)))"

definition plainHints :: "string \<Rightarrow> obj \<Rightarrow> preprocessed \<Rightarrow> preprocessed" where
  "plainHints name svc out =
     out\<lparr>pp_imagePullSecrets := put_nonempty name (stringSliceExt (map_of svc ''x-orcinus-image-pull-secret''))
           (pp_imagePullSecrets out),
         pp_envFromSecrets := put_nonempty name (stringSliceExt (map_of svc ''x-orcinus-env-from-secret''))
           (pp_envFromSecrets out),
         pp_nodeSelector := put_nonempty name (stringMapExt (map_of svc ''x-orcinus-node-selector''))
           (pp_nodeSelector out)\<rparr>"

definition deployHints :: "string \<Rightarrow> obj \<Rightarrow> obj \<Rightarrow> preprocessed \<Rightarrow> obj \<times> preprocessed" where
  "deployHints name svc labels out =
     (case as_obj (map_of svc ''deploy'') of
        None \<Rightarrow> (labels, out)
      | Some deploy \<Rightarrow>
          (if stringExt0 (map_of deploy ''endpoint_mode'') = ''dnsrr''
              \<and> map_of labels ''kompose.service.type'' = None
           then AList.update ''kompose.service.type'' (JStr ''headless'') labels else labels,
           out\<lparr>pp_gpu := put_nonempty name (parseGenericResources deploy) (pp_gpu out)\<rparr>))"

definition placementStep :: "string \<Rightarrow> obj \<Rightarrow> preprocessed \<Rightarrow> error + obj \<times> preprocessed" where
  "placementStep name svc out = (case parsePlacement svc of
     Inl e \<Rightarrow> Inl (ServiceError name e)
   | Inr None \<Rightarrow> Inr (svc, out)
   | Inr (Some pc) \<Rightarrow>
       Inr (stripPlacement svc, out\<lparr>pp_placement := AList.update name pc (pp_placement out)\<rparr>))"

definition bindStep :: "host \<Rightarrow> string \<Rightarrow> string \<Rightarrow> obj \<Rightarrow> preprocessed \<Rightarrow> obj \<times> preprocessed" where
  "bindStep h baseDir name svc out =
     (case extractBindMounts h (map_of svc ''volumes'') baseDir of (mounts, kept) \<Rightarrow>
        if mounts = [] then (svc, out)
        else (if kept = [] then AList.delete ''volumes'' svc
              else AList.update ''volumes'' (JArr kept) svc,
              out\<lparr>pp_bindMounts := AList.update name mounts (pp_bindMounts out)\<rparr>))"

definition rolloutStep :: "string \<Rightarrow> obj \<Rightarrow> preprocessed \<Rightarrow> error + preprocessed" where
  "rolloutStep name svc out = (case stringExt (map_of svc ''x-orcinus-rollout'') of
     None \<Rightarrow> Inr out
   | Some v \<Rightarrow>
       if v \<noteq> ''canary'' \<and> v \<noteq> ''bluegreen''
       then Inl (InvalidExtension name ''x-orcinus-rollout'' v)
       else Inr (out\<lparr>pp_rollout := AList.update name v (pp_rollout out)\<rparr>))"

definition vmStep :: "string \<Rightarrow> obj \<Rightarrow> preprocessed \<Rightarrow> error + preprocessed" where
  "vmStep name svc out = rbind (parseVM name svc) (\<lambda>cfg. case cfg of
     None \<Rightarrow> Inr out
   | Some c \<Rightarrow>
       if map_of (pp_rollout out) name \<noteq> None then Inl (VMAndRollout name)
       else if (case map_of (pp_autoscale out) name of
                  Some ac \<Rightarrow> as_Max ac > 0 | None \<Rightarrow> False) then Inl (VMAndAutoscale name)
       else Inr (out\<lparr>pp_vm := AList.update name c (pp_vm out)\<rparr>))"

section \<open>The loop\<close>

definition hintsStep :: "codec \<Rightarrow> string \<Rightarrow> obj \<Rightarrow> preprocessed \<Rightarrow> error + preprocessed" where
  "hintsStep cd name svc out =
     (let out = out\<lparr>pp_secrets := put_nonempty name (stringSliceExt (map_of svc ''x-orcinus-secret''))
                    (pp_secrets out)\<rparr>;
          ic = readIngress svc;
          out = (if isSet ic then out\<lparr>pp_ingress := AList.update name ic (pp_ingress out)\<rparr> else out);
          ac = readAutoscale svc;
          out = (if as_Max ac > 0 then out\<lparr>pp_autoscale := AList.update name ac (pp_autoscale out)\<rparr> else out)
      in rbind (readStrategy cd name svc) (\<lambda>sc.
           Inr (plainHints name svc
             (if sc \<noteq> strategyCfg0 then out\<lparr>pp_strategy := AList.update name sc (pp_strategy out)\<rparr>
              else out))))"

definition processService ::
    "host \<Rightarrow> codec \<Rightarrow> string \<Rightarrow> string \<Rightarrow> obj \<Rightarrow> preprocessed \<Rightarrow> string gomap \<Rightarrow>
     error + obj \<times> preprocessed \<times> string gomap" where
  "processService h cd baseDir name svc0 out0 envDests =
     rbind (stageEnvFiles h (AList.delete ''profiles'' svc0) name baseDir envDests)
       (\<lambda>(svc, refs, envDests').
     let out = out0\<lparr>pp_envFiles := pp_envFiles out0 @ refs\<rparr> in
     rbind (serviceLabels name svc) (\<lambda>labels.
     rbind (hintsStep cd name svc out) (\<lambda>out.
     let (labels, out) = deployHints name svc labels out in
     rbind (placementStep name svc out) (\<lambda>(svc, out).
     let (svc, out) = bindStep h baseDir name svc out in
     rbind (rolloutStep name svc out) (\<lambda>out.
     rbind (vmStep name svc out) (\<lambda>out.
     Inr (if labels = [] then svc else AList.update ''labels'' (JObj labels) svc,
          out, envDests')))))))"

type_synonym injectState = "(string \<times> iface) list \<times> preprocessed \<times> string gomap"

definition injectService ::
    "host \<Rightarrow> codec \<Rightarrow> string \<Rightarrow> string list \<Rightarrow> string \<times> iface \<Rightarrow> injectState \<Rightarrow> error + injectState" where
  "injectService h cd baseDir active = (\<lambda>(name, svcAny) (services, out, envDests).
     case svcAny of
       JObj svc \<Rightarrow>
         if \<not> serviceInProfiles svc active then Inr (services, out, envDests)
         else rbind (processService h cd baseDir name svc out envDests)
           (\<lambda>(svc', out', envDests'). Inr (services @ [(name, JObj svc')], out', envDests'))
     | _ \<Rightarrow> Inr (services @ [(name, svcAny)], out, envDests))"

definition injectServices ::
    "host \<Rightarrow> codec \<Rightarrow> string \<Rightarrow> string list \<Rightarrow> obj \<Rightarrow> injectState \<Rightarrow> error + injectState" where
  "injectServices h cd baseDir active svcs st = foldM (injectService h cd baseDir active) svcs st"

definition injectKomposeLabels ::
    "host \<Rightarrow> codec \<Rightarrow> string \<Rightarrow> string \<Rightarrow> string list \<Rightarrow> string gomap \<Rightarrow>
     error + preprocessed \<times> string gomap" where
  "injectKomposeLabels h cd composeBytes baseDir active envDests =
     (case cd_unmarshal cd composeBytes of
        None \<Rightarrow> Inl ParseDocumentError
      | Some doc0 \<Rightarrow>
          let doc = resolveFileRefs h baseDir ''secrets'' (resolveFileRefs h baseDir ''configs'' doc0) in
          (case as_obj (map_of doc ''services'') of
             None \<Rightarrow> Inr (preprocessed0\<lparr>pp_content := composeBytes\<rparr>, envDests)
           | Some svcs \<Rightarrow>
               rbind (injectServices h cd baseDir active svcs ([], preprocessed0, envDests))
                 (\<lambda>(services, out, envDests').
                    case cd_marshal cd (AList.update ''services'' (JObj services) doc) of
                      None \<Rightarrow> Inl MarshalError
                    | Some content \<Rightarrow> Inr (out\<lparr>pp_content := content\<rparr>, envDests'))))"

section \<open>What leaves the pass\<close>

text \<open>
  Three properties of a hint map, with the laws the proofs below use: all its values satisfy a
  predicate, its keys lie in a set, and it shares no key with another map.
\<close>

definition vals_ok :: "('v \<Rightarrow> bool) \<Rightarrow> 'v gomap \<Rightarrow> bool" where
  "vals_ok P m \<longleftrightarrow> (\<forall>v \<in> ran (map_of m). P v)"

definition keys_in :: "string set \<Rightarrow> 'v gomap \<Rightarrow> bool" where
  "keys_in S m \<longleftrightarrow> dom (map_of m) \<subseteq> S"

definition apart :: "'v gomap \<Rightarrow> 'w gomap \<Rightarrow> bool" where
  "apart m m' \<longleftrightarrow> dom (map_of m) \<inter> dom (map_of m') = {}"

lemma vals_ok_update [simp]: "vals_ok P m \<Longrightarrow> P v \<Longrightarrow> vals_ok P (AList.update k v m)"
  by (auto simp: vals_ok_def ran_def split: if_splits)

lemma keys_in_update [simp]: "keys_in S m \<Longrightarrow> k \<in> S \<Longrightarrow> keys_in S (AList.update k v m)"
  by (auto simp: keys_in_def split: if_splits)

lemma keys_in_put_nonempty [simp]: "keys_in S m \<Longrightarrow> k \<in> S \<Longrightarrow> keys_in S (put_nonempty k v m)"
  by (simp add: put_nonempty_def)

lemma apart_update [simp]:
  "apart m m' \<Longrightarrow> map_of m' k = None \<Longrightarrow> apart (AList.update k v m) m'"
  "apart m n \<Longrightarrow> map_of m k = None \<Longrightarrow> apart m (AList.update k w n)"
  by (auto simp: apart_def split: if_splits)

lemma hint_map_Nil [simp]: "vals_ok P []" "keys_in S []" "apart [] m"
  by (auto simp: vals_ok_def keys_in_def apart_def)

lemma keys_in_mono: "keys_in S m \<Longrightarrow> S \<subseteq> S' \<Longrightarrow> keys_in S' m"
  by (auto simp: keys_in_def)

lemma keys_in_None: "keys_in S m \<Longrightarrow> k \<notin> S \<Longrightarrow> map_of m k = None"
  by (auto simp: keys_in_def domIff)

text \<open>Well-formed hints: every value is one the later stages know how to apply.\<close>

definition hints_ok :: "preprocessed \<Rightarrow> bool" where
  "hints_ok out \<longleftrightarrow>
     vals_ok (\<lambda>v. v = ''canary'' \<or> v = ''bluegreen'') (pp_rollout out) \<and>
     vals_ok (\<lambda>c. sc_Type c \<in> {[], ''rolling'', ''recreate''}) (pp_strategy out) \<and>
     vals_ok (\<lambda>c. as_Max c > 0) (pp_autoscale out) \<and>
     vals_ok isSet (pp_ingress out) \<and>
     vals_ok vm_ok (pp_vm out) \<and>
     apart (pp_vm out) (pp_rollout out) \<and> apart (pp_vm out) (pp_autoscale out)"

text \<open>Every hint is about a service of the given set.\<close>

definition hints_of :: "string set \<Rightarrow> preprocessed \<Rightarrow> bool" where
  "hints_of S out \<longleftrightarrow>
     keys_in S (pp_secrets out) \<and> keys_in S (pp_ingress out) \<and> keys_in S (pp_autoscale out) \<and>
     keys_in S (pp_strategy out) \<and> keys_in S (pp_rollout out) \<and> keys_in S (pp_imagePullSecrets out) \<and>
     keys_in S (pp_envFromSecrets out) \<and> keys_in S (pp_bindMounts out) \<and> keys_in S (pp_placement out) \<and>
     keys_in S (pp_nodeSelector out) \<and> keys_in S (pp_gpu out) \<and> keys_in S (pp_vm out)"

text \<open>The invariant inside the body: the machine hint of the current service is set last.\<close>

definition body_inv :: "string set \<Rightarrow> string \<Rightarrow> preprocessed \<Rightarrow> bool" where
  "body_inv N name out \<longleftrightarrow> hints_ok out \<and> map_of (pp_vm out) name = None \<and> name \<in> N \<and> hints_of N out"

lemmas body_defs = body_inv_def hints_ok_def hints_of_def

lemma parseUpdateConfig_type: "sc_Type (parseUpdateConfig pd svc strategyCfg0) \<in> {[], ''rolling''}"
  by (auto simp: parseUpdateConfig_def strategyCfg0_def Let_def split: option.splits)

lemma readStrategy_type: "readStrategy cd name svc = Inr sc \<Longrightarrow> sc_Type sc \<in> {[], ''rolling'', ''recreate''}"
  using parseUpdateConfig_type [of "cd_duration cd" svc]
  by (auto simp: readStrategy_def Let_def split: option.splits if_splits)

lemma plainHints_inv: "body_inv N name out \<Longrightarrow> body_inv N name (plainHints name svc out)"
  unfolding body_defs plainHints_def by simp

lemma body_inv_secrets:
  "body_inv N name out \<Longrightarrow> body_inv N name (out\<lparr>pp_secrets := put_nonempty name v (pp_secrets out)\<rparr>)"
  unfolding body_defs by simp

lemma body_inv_ingress:
  "body_inv N name out \<Longrightarrow>
   body_inv N name (if isSet ic then out\<lparr>pp_ingress := AList.update name ic (pp_ingress out)\<rparr> else out)"
  unfolding body_defs by simp

lemma body_inv_autoscale:
  "body_inv N name out \<Longrightarrow>
   body_inv N name (if as_Max ac > 0 then out\<lparr>pp_autoscale := AList.update name ac (pp_autoscale out)\<rparr> else out)"
  unfolding body_defs by simp

lemma body_inv_strategy:
  "body_inv N name out \<Longrightarrow> readStrategy cd name svc = Inr sc \<Longrightarrow>
   body_inv N name (if sc \<noteq> strategyCfg0 then out\<lparr>pp_strategy := AList.update name sc (pp_strategy out)\<rparr> else out)"
  using readStrategy_type [of cd name svc sc] unfolding body_defs by simp

lemma hintsStep_inv:
  assumes "hintsStep cd name svc out = Inr out'" and "body_inv N name out"
  shows "body_inv N name out'"
proof -
  obtain sc where sc: "readStrategy cd name svc = Inr sc"
    using assms(1) by (auto simp: hintsStep_def Let_def rbind_Inr_iff)
  show ?thesis
    using assms(1) unfolding hintsStep_def Let_def sc rbind_simps sum.inject
    by (elim subst) (intro plainHints_inv body_inv_strategy [OF _ sc] body_inv_autoscale
      body_inv_ingress body_inv_secrets assms(2))
qed

lemma deployHints_inv:
  "deployHints name svc labels out = (labels', out') \<Longrightarrow> body_inv N name out \<Longrightarrow> body_inv N name out'"
  unfolding body_defs deployHints_def by (auto split: option.splits)

lemma placementStep_inv:
  "placementStep name svc out = Inr (svc', out') \<Longrightarrow> body_inv N name out \<Longrightarrow> body_inv N name out'"
  unfolding body_defs placementStep_def by (auto split: sum.splits option.splits)

lemma bindStep_inv:
  "bindStep h b name svc out = (svc', out') \<Longrightarrow> body_inv N name out \<Longrightarrow> body_inv N name out'"
  unfolding body_defs bindStep_def by (auto split: prod.splits if_splits)

lemma rolloutStep_inv:
  "rolloutStep name svc out = Inr out' \<Longrightarrow> body_inv N name out \<Longrightarrow> body_inv N name out'"
  unfolding body_defs rolloutStep_def by (auto split: option.splits if_splits)

lemma vals_ok_D: "vals_ok P m \<Longrightarrow> map_of m k = Some v \<Longrightarrow> P v"
  by (auto simp: vals_ok_def ran_def)

lemma vmStep_ok:
  assumes "vmStep name svc out = Inr out'" and "body_inv N name out"
  shows "hints_ok out' \<and> hints_of N out'"
proof (cases "parseVM name svc")
  case (Inr cfg)
  show ?thesis
  proof (cases cfg)
    case None
    then show ?thesis using assms Inr by (auto simp: vmStep_def body_inv_def)
  next
    case (Some c)
    have "vm_ok c" using parseVM_ok Inr Some by blast
    moreover have "map_of (pp_rollout out) name = None" and "map_of (pp_autoscale out) name = None"
      and "out' = out\<lparr>pp_vm := AList.update name c (pp_vm out)\<rparr>"
      using assms Inr Some
      by (auto simp: vmStep_def body_inv_def hints_ok_def split: if_splits option.splits dest: vals_ok_D)
    ultimately show ?thesis using assms(2) unfolding body_defs by simp
  qed
qed (use assms in \<open>simp add: vmStep_def\<close>)

lemma processService_inv:
  assumes r: "processService h cd b name svc out ed = Inr (svc', out', ed')"
    and i: "hints_ok out" "hints_of N out" and n: "name \<notin> N"
  shows "hints_ok out' \<and> hints_of (insert name N) out'"
proof -
  obtain svc1 refs o1 l1 l2 o2 svc2 o3 svc3 o4 o5 where
    h: "hintsStep cd name svc1 (out\<lparr>pp_envFiles := pp_envFiles out @ refs\<rparr>) = Inr o1"
    and d: "deployHints name svc1 l1 o1 = (l2, o2)"
    and p: "placementStep name svc1 o2 = Inr (svc2, o3)"
    and bd: "bindStep h b name svc2 o3 = (svc3, o4)"
    and ro: "rolloutStep name svc3 o4 = Inr o5"
    and v: "vmStep name svc3 o5 = Inr out'"
    using r by (auto simp: processService_def Let_def rbind_Inr_iff case_prod_Inr_iff)
  have "body_inv (insert name N) name (out\<lparr>pp_envFiles := pp_envFiles out @ refs\<rparr>)"
    using i n unfolding body_defs by (auto intro: keys_in_mono keys_in_None)
  from hintsStep_inv [OF h this] have "body_inv (insert name N) name o1" .
  from deployHints_inv [OF d this] have "body_inv (insert name N) name o2" .
  from placementStep_inv [OF p this] have "body_inv (insert name N) name o3" .
  from bindStep_inv [OF bd this] have "body_inv (insert name N) name o4" .
  from rolloutStep_inv [OF ro this] have "body_inv (insert name N) name o5" .
  from vmStep_ok [OF v this] show ?thesis .
qed

text \<open>The services a run keeps: those whose profiles are selected, and entries that are no object.\<close>

definition keeps :: "string list \<Rightarrow> iface \<Rightarrow> bool" where
  "keeps active v = (case v of JObj svc \<Rightarrow> serviceInProfiles svc active | _ \<Rightarrow> True)"

definition selected :: "string list \<Rightarrow> obj \<Rightarrow> string list" where
  "selected active svcs = map fst (filter (\<lambda>(n, v). keeps active v) svcs)"

lemma injectServices_inv:
  assumes "injectServices h cd b active svcs (services, out, ed) = Inr (services', out', ed')"
    and "gomap_ok svcs" and "fst ` set svcs \<inter> N = {}" and "hints_ok out" and "hints_of N out"
  shows "hints_ok out' \<and> hints_of (N \<union> set (selected active svcs)) out'"
  using assms
proof (induction svcs arbitrary: services out ed N)
  case Nil
  then show ?case by (simp add: injectServices_def selected_def)
next
  case (Cons s svcs)
  obtain n v where s: "s = (n, v)" by force
  obtain ss1 o1 e1 where step: "injectService h cd b active s (services, out, ed) = Inr (ss1, o1, e1)"
    and rest: "injectServices h cd b active svcs (ss1, o1, e1) = Inr (services', out', ed')"
    using Cons.prems(1) by (auto simp: injectServices_def rbind_Inr_iff)
  define N1 where "N1 = (if keeps active v \<and> (\<exists>svc. v = JObj svc) then insert n N else N)"
  have "hints_ok o1 \<and> hints_of N1 o1"
    using step Cons.prems(3-5) processService_inv
    by (fastforce simp: injectService_def s N1_def keeps_def rbind_Inr_iff split: iface.splits if_splits)
  moreover have "fst ` set svcs \<inter> N1 = {}"
    using Cons.prems(2,3) s by (auto simp: N1_def gomap_ok_def)
  moreover have "gomap_ok svcs" using Cons.prems(2) by (simp add: gomap_ok_def)
  ultimately have "hints_ok out' \<and> hints_of (N1 \<union> set (selected active svcs)) out'"
    using Cons.IH [OF rest] by blast
  moreover have "N1 \<union> set (selected active svcs) \<subseteq> N \<union> set (selected active (s # svcs))"
    by (auto simp: N1_def s selected_def)
  ultimately show ?case by (auto simp: hints_of_def intro: keys_in_mono)
qed

text \<open>The document's services as the pass reads them.\<close>

definition doc_services :: "obj \<Rightarrow> obj" where
  "doc_services doc = (case as_obj (map_of doc ''services'') of None \<Rightarrow> [] | Some svcs \<Rightarrow> svcs)"

lemma resolveFileRefs_services:
  "k \<noteq> ''services'' \<Longrightarrow> map_of (resolveFileRefs h b k doc) ''services'' = map_of doc ''services''"
  by (auto simp: resolveFileRefs_def split: option.splits)

lemma hints_Nil: "hints_ok preprocessed0" "hints_of N preprocessed0"
  by (simp_all add: preprocessed0_def hints_ok_def hints_of_def)

lemma hints_content [simp]:
  "hints_ok (out\<lparr>pp_content := c\<rparr>) = hints_ok out" "hints_of N (out\<lparr>pp_content := c\<rparr>) = hints_of N out"
  by (simp_all add: hints_ok_def hints_of_def)

text \<open>
  C9: when a compose document is accepted, every hint it leaves for the later stages is about a
  service the active profiles select and is one those stages know (a rollout is canary or
  bluegreen, a strategy rolling or recreate, a machine runs Always or Halted and names an SSH
  secret when it names SSH users), and no service is at once a virtual machine and a rollout or autoscaled.
\<close>

theorem injectKomposeLabels_hints:
  assumes "injectKomposeLabels h cd bytes dir active ed = Inr (out, ed')"
    and "cd_unmarshal cd bytes = Some doc" and "gomap_ok (doc_services doc)"
  shows "hints_ok out \<and> hints_of (set (selected active (doc_services doc))) out"
proof -
  define doc' where "doc' = resolveFileRefs h dir ''secrets'' (resolveFileRefs h dir ''configs'' doc)"
  have sv: "map_of doc' ''services'' = map_of doc ''services''"
    by (simp add: doc'_def resolveFileRefs_services)
  show ?thesis
  proof (cases "as_obj (map_of doc ''services'')")
    case None
    then have "out = preprocessed0\<lparr>pp_content := bytes\<rparr>"
      using assms(1,2) sv by (simp add: injectKomposeLabels_def Let_def doc'_def [symmetric])
    then show ?thesis by (simp add: hints_Nil)
  next
    case (Some svcs)
    then obtain ss o1 c where
      run: "injectServices h cd dir active svcs ([], preprocessed0, ed) = Inr (ss, o1, ed')"
      and out: "out = o1\<lparr>pp_content := c\<rparr>"
      using assms(1,2) sv
      by (auto simp: injectKomposeLabels_def Let_def doc'_def [symmetric] rbind_Inr_iff split: option.splits)
    have "doc_services doc = svcs" using Some by (simp add: doc_services_def)
    then show ?thesis
      using injectServices_inv [OF run, of "{}"] assms(3) by (simp add: out hints_Nil)
  qed
qed

theorem injectKomposeLabels_hints_witness:
  "\<exists>out ed'. injectKomposeLabels
       \<lparr>h_home = None, h_cwd = Some ''/'', h_stat = (\<lambda>_. False), h_read = (\<lambda>_. None),
        h_mkdir = (\<lambda>_. True), h_write = (\<lambda>_. True)\<rparr>
       \<lparr>cd_unmarshal = (\<lambda>_. Some [(''services'', JObj
            [(''web'', JObj [(''x-orcinus-rollout'', JStr ''canary'')]),
             (''dbg'', JObj [(''profiles'', JArr [JStr ''debug'']), (''x-orcinus-tls'', JStr ''le'')])])]),
        cd_marshal = (\<lambda>_. Some ''y''), cd_duration = (\<lambda>_. None)\<rparr> ''x'' ''/app'' [] [] = Inr (out, ed')
     \<and> hints_ok out \<and> hints_of {''web''} out"
  (is "\<exists>out ed'. injectKomposeLabels ?h ?cd _ _ _ _ = _ \<and> _")
proof -
  let ?doc = "[(''services'', JObj
            [(''web'', JObj [(''x-orcinus-rollout'', JStr ''canary'')]),
             (''dbg'', JObj [(''profiles'', JArr [JStr ''debug'']), (''x-orcinus-tls'', JStr ''le'')])])]"
  have "\<not> isl (injectKomposeLabels ?h ?cd ''x'' ''/app'' [] [])" by code_simp
  then obtain out ed' where r: "injectKomposeLabels ?h ?cd ''x'' ''/app'' [] [] = Inr (out, ed')"
    by (cases "injectKomposeLabels ?h ?cd ''x'' ''/app'' [] []") auto
  have "hints_ok out \<and> hints_of (set (selected [] (doc_services ?doc))) out"
    by (rule injectKomposeLabels_hints [OF r]) (simp, simp add: doc_services_def gomap_ok_def)
  moreover have "selected [] (doc_services ?doc) = [''web'']" by code_simp
  ultimately show ?thesis using r by auto
qed

section \<open>The services of the rewritten document\<close>

definition no_profiles :: "string \<times> iface \<Rightarrow> bool" where
  "no_profiles = (\<lambda>(n, v). case v of JObj svc \<Rightarrow> map_of svc ''profiles'' = None | _ \<Rightarrow> True)"

lemma stageEnvFiles_profiles:
  "stageEnvFiles h svc n b ed = Inr (svc', refs, ed') \<Longrightarrow>
   map_of svc' ''profiles'' = map_of svc ''profiles''"
  by (auto simp: stageEnvFiles_def Let_def rbind_Inr_iff simp del: foldM.simps
      split: option.splits iface.splits if_splits)

lemma placementStep_profiles:
  "placementStep n svc out = Inr (svc', out') \<Longrightarrow> map_of svc' ''profiles'' = map_of svc ''profiles''"
  by (auto simp: placementStep_def stripPlacement_def Let_def split: sum.splits option.splits if_splits)

lemma bindStep_profiles:
  "bindStep h b n svc out = (svc', out') \<Longrightarrow> map_of svc' ''profiles'' = map_of svc ''profiles''"
  by (auto simp: bindStep_def split: prod.splits if_splits)

lemma processService_profiles:
  assumes "processService h cd b name svc out ed = Inr (svc', out', ed')"
  shows "map_of svc' ''profiles'' = None"
proof -
  obtain svc1 refs e1 l o2 svc2 o3 svc3 o4 where
    s: "stageEnvFiles h (AList.delete ''profiles'' svc) name b ed = Inr (svc1, refs, e1)"
    and p: "placementStep name svc1 o2 = Inr (svc2, o3)"
    and bd: "bindStep h b name svc2 o3 = (svc3, o4)"
    and e: "svc' = (if l = [] then svc3 else AList.update ''labels'' (JObj l) svc3)"
    using assms by (auto simp: processService_def Let_def rbind_Inr_iff case_prod_Inr_iff)
  show ?thesis
    using stageEnvFiles_profiles [OF s] placementStep_profiles [OF p] bindStep_profiles [OF bd]
    by (simp add: e)
qed

lemma injectServices_selected:
  "injectServices h cd b active svcs (services, out, ed) = Inr (services', out', ed') \<Longrightarrow>
   list_all no_profiles services \<Longrightarrow>
   map fst services' = map fst services @ selected active svcs \<and> list_all no_profiles services'"
proof (induction svcs arbitrary: services out ed)
  case Nil
  then show ?case by (simp add: injectServices_def selected_def)
next
  case (Cons s svcs)
  obtain n v where s: "s = (n, v)" by force
  obtain ss1 o1 e1 where step: "injectService h cd b active s (services, out, ed) = Inr (ss1, o1, e1)"
    and rest: "injectServices h cd b active svcs (ss1, o1, e1) = Inr (services', out', ed')"
    using Cons.prems(1) by (auto simp: injectServices_def rbind_Inr_iff)
  have "map fst ss1 = map fst services @ (if keeps active v then [n] else []) \<and> list_all no_profiles ss1"
    using step Cons.prems(2) processService_profiles
    by (fastforce simp: injectService_def s keeps_def no_profiles_def rbind_Inr_iff split: iface.splits if_splits)
  with Cons.IH [OF rest] show ?case by (simp add: selected_def s)
qed

lemma selected_no_profiles: "list_all no_profiles svcs \<Longrightarrow> selected active svcs = map fst svcs"
proof -
  assume "list_all no_profiles svcs"
  then have "filter (\<lambda>(n, v). keeps active v) svcs = svcs"
    by (intro filter_True)
      (auto simp: list_all_iff no_profiles_def keeps_def serviceInProfiles_def split: iface.splits)
  then show ?thesis by (simp add: selected_def)
qed



end
