(* ===== verification/Kube_Objects.thy ===== *)
theory Kube_Objects
  imports Inject_Labels "HOL-Library.Word"
begin

text \<open>
  The Kubernetes objects of the conversion: the typed objects of \<^verbatim>\<open>k8s.io/api\<close> with the fields
  the sources read or write, the others kept whole in one \<open>_rest\<close> component, and
  \<^verbatim>\<open>unstructured.Unstructured\<close> as its JSON object. Then the accessors and the labelling of
  \<^verbatim>\<open>pkg/compose/compose.go\<close>: \<^verbatim>\<open>podSpecOf\<close>, \<^verbatim>\<open>templateMetaOf\<close>, \<^verbatim>\<open>workloadSelector\<close>,
  \<^verbatim>\<open>decorate\<close>, \<^verbatim>\<open>ownershipLabels\<close>, \<^verbatim>\<open>sortObjects\<close>.

  A pointer or nil-able struct is an option, a Go map an association list (nil is the empty
  list), \<^verbatim>\<open>int32(n)\<close> truncates to 32 bits. \<open>quantity\<close> holds what \<^verbatim>\<open>resource.Quantity\<close> answers.

  The theorems: labelling makes every typed object owned and leaves selectors alone, and the
  final sort is a stable permutation.
\<close>

section \<open>Objects\<close>

definition int32 :: "int \<Rightarrow> int" where
  "int32 n = sint (word_of_int n :: 32 word)"

record objmeta =
  om_apiVersion :: string
  om_kind :: string
  om_name :: string
  om_namespace :: string
  om_labels :: "string gomap"
  om_annotations :: "string gomap"

datatype envSource = SecretKeyRef string string | OtherEnvSource iface

record envVar =
  ev_Name :: string
  ev_Value :: string
  ev_ValueFrom :: "envSource option"

record envFrom =
  ef_ConfigMapRef :: "string option"
  ef_SecretRef :: "string option"

record quantity =
  q_String :: string
  q_MilliValue :: int
  q_AsInt64 :: "int option"
  q_IsZero :: bool

record volumeMount =
  mt_Name :: string
  mt_MountPath :: string
  mt_ReadOnly :: bool

datatype volumeSource = HostPath string string | OtherVolumeSource iface

record volume =
  vo_Name :: string
  vo_Source :: volumeSource

record container =
  ct_Name :: string
  ct_Image :: string
  ct_Env :: "envVar list"
  ct_EnvFrom :: "envFrom list"
  ct_VolumeMounts :: "volumeMount list"
  ct_Limits :: "quantity gomap"
  ct_Requests :: "quantity gomap"
  ct_rest :: iface

record selectorTerm =
  st_MatchExpressions :: "nodeConstraint list"
  st_rest :: iface

record nodeAffinity =
  na_Required :: "selectorTerm list option"
  na_rest :: iface

record affinity =
  af_NodeAffinity :: "nodeAffinity option"
  af_rest :: iface

record topologySpread =
  ts_MaxSkew :: int
  ts_TopologyKey :: string
  ts_WhenUnsatisfiable :: string
  ts_MatchLabels :: "string gomap"

record podSpec =
  ps_Containers :: "container list"
  ps_Volumes :: "volume list"
  ps_ImagePullSecrets :: "string list"
  ps_NodeSelector :: "string gomap"
  ps_Affinity :: "affinity option"
  ps_TopologySpread :: "topologySpread list"
  ps_rest :: iface

datatype strategy = NoStrategy | Recreate | RollingUpdate "(string option \<times> string option) option" | OtherStrategy iface

record workload =
  wl_meta :: objmeta
  wl_Replicas :: "int option"
  wl_Selector :: "string gomap option"
  wl_TemplateLabels :: "string gomap"
  wl_Pod :: podSpec
  wl_MinReadySeconds :: int
  wl_ProgressDeadline :: "int option"
  wl_Strategy :: strategy
  wl_rest :: iface

record ingressPath =
  ip_Path :: string
  ip_ServicePort :: "(string \<times> int) option"
  ip_rest :: iface

record ingressRule =
  ir_Host :: string
  ir_HTTP :: "ingressPath list option"

record ingressSpec =
  is_Class :: "string option"
  is_TLS :: "(string list \<times> string) list"
  is_Rules :: "ingressRule list"
  is_rest :: iface

record hpaSpec =
  hp_TargetAPIVersion :: string
  hp_TargetKind :: string
  hp_TargetName :: string
  hp_Min :: int
  hp_Max :: int
  hp_Metrics :: "(string \<times> int) list"

datatype kobj =
    Deployment workload
  | StatefulSet workload
  | DaemonSet workload
  | ServiceObj objmeta iface
  | ConfigMap objmeta "string gomap" iface
  | SecretObj objmeta string "string gomap"
  | Ingress objmeta ingressSpec
  | HPA objmeta hpaSpec
  | Unstructured obj
  | OtherObj objmeta iface

section \<open>Accessors\<close>

text \<open>\<^verbatim>\<open>obj.(metav1.ObjectMetaAccessor)\<close>: every typed object has one, an unstructured one has not.\<close>

fun objectMeta :: "kobj \<Rightarrow> objmeta option" where
  "objectMeta (Deployment w) = Some (wl_meta w)"
| "objectMeta (StatefulSet w) = Some (wl_meta w)"
| "objectMeta (DaemonSet w) = Some (wl_meta w)"
| "objectMeta (ServiceObj m r) = Some m"
| "objectMeta (ConfigMap m d r) = Some m"
| "objectMeta (SecretObj m t d) = Some m"
| "objectMeta (Ingress m s) = Some m"
| "objectMeta (HPA m s) = Some m"
| "objectMeta (Unstructured u) = None"
| "objectMeta (OtherObj m r) = Some m"

fun map_meta :: "(objmeta \<Rightarrow> objmeta) \<Rightarrow> kobj \<Rightarrow> kobj" where
  "map_meta f (Deployment w) = Deployment (w\<lparr>wl_meta := f (wl_meta w)\<rparr>)"
| "map_meta f (StatefulSet w) = StatefulSet (w\<lparr>wl_meta := f (wl_meta w)\<rparr>)"
| "map_meta f (DaemonSet w) = DaemonSet (w\<lparr>wl_meta := f (wl_meta w)\<rparr>)"
| "map_meta f (ServiceObj m r) = ServiceObj (f m) r"
| "map_meta f (ConfigMap m d r) = ConfigMap (f m) d r"
| "map_meta f (SecretObj m t d) = SecretObj (f m) t d"
| "map_meta f (Ingress m s) = Ingress (f m) s"
| "map_meta f (HPA m s) = HPA (f m) s"
| "map_meta f (Unstructured u) = Unstructured u"
| "map_meta f (OtherObj m r) = OtherObj (f m) r"

fun workloadOf :: "kobj \<Rightarrow> workload option" where
  "workloadOf (Deployment w) = Some w"
| "workloadOf (StatefulSet w) = Some w"
| "workloadOf (DaemonSet w) = Some w"
| "workloadOf _ = None"

fun map_workload :: "(workload \<Rightarrow> workload) \<Rightarrow> kobj \<Rightarrow> kobj" where
  "map_workload f (Deployment w) = Deployment (f w)"
| "map_workload f (StatefulSet w) = StatefulSet (f w)"
| "map_workload f (DaemonSet w) = DaemonSet (f w)"
| "map_workload f ob = ob"

definition podSpecOf :: "kobj \<Rightarrow> (podSpec \<times> string) option" where
  "podSpecOf ob = map_option (\<lambda>w. (wl_Pod w, om_name (wl_meta w))) (workloadOf ob)"

text \<open>Writing through the pointer \<^verbatim>\<open>podSpecOf\<close> returns.\<close>

definition setPodSpec :: "podSpec \<Rightarrow> kobj \<Rightarrow> kobj" where
  "setPodSpec ps = map_workload (\<lambda>w. w\<lparr>wl_Pod := ps\<rparr>)"

definition templateMetaOf :: "kobj \<Rightarrow> string gomap option" where
  "templateMetaOf ob = map_option wl_TemplateLabels (workloadOf ob)"

definition workloadSelector :: "kobj \<Rightarrow> string gomap" where
  "workloadSelector ob = (case workloadOf ob of
     Some w \<Rightarrow> (case wl_Selector w of Some s \<Rightarrow> s | None \<Rightarrow> []) | None \<Rightarrow> [])"

definition toStringMapIface :: "string gomap \<Rightarrow> obj" where
  "toStringMapIface m = map (\<lambda>(k, v). (k, JStr v)) m"

section \<open>Ownership labels\<close>

definition LabelManagedBy :: string where "LabelManagedBy = ''app.kubernetes.io/managed-by''"
definition LabelPartOf :: string where "LabelPartOf = ''app.kubernetes.io/part-of''"
definition LabelProject :: string where "LabelProject = ''orcinus.io/project''"
definition ManagedByValue :: string where "ManagedByValue = ''orcinus''"

lemmas label_defs = LabelManagedBy_def LabelPartOf_def LabelProject_def ManagedByValue_def

text \<open>The label writes that \<^verbatim>\<open>decorate\<close> does twice, on the object and on its pod template.\<close>

definition stamp :: "string \<Rightarrow> string gomap \<Rightarrow> string gomap" where
  "stamp project labels =
     (let labels = AList.update LabelManagedBy ManagedByValue labels in
      if project = [] then labels
      else AList.update LabelProject project (AList.update LabelPartOf project labels))"

definition decorateObj :: "string \<Rightarrow> string \<Rightarrow> kobj \<Rightarrow> kobj" where
  "decorateObj project namespace ob = (case objectMeta ob of
     None \<Rightarrow> ob
   | Some _ \<Rightarrow>
       map_workload (\<lambda>w. w\<lparr>wl_TemplateLabels := stamp project (wl_TemplateLabels w)\<rparr>)
         (map_meta (\<lambda>m. let m = m\<lparr>om_labels := stamp project (om_labels m)\<rparr> in
            if namespace = [] then m else m\<lparr>om_namespace := namespace\<rparr>) ob))"

definition decorate :: "kobj list \<Rightarrow> string \<Rightarrow> string \<Rightarrow> kobj list" where
  "decorate objects project namespace = map (decorateObj project namespace) objects"

definition ownershipLabels :: "string \<Rightarrow> string gomap" where
  "ownershipLabels project =
     (let l = [(LabelManagedBy, ManagedByValue)] in
      if project = [] then l else l @ [(LabelPartOf, project), (LabelProject, project)])"

section \<open>Output order\<close>

definition kindName :: "kobj \<Rightarrow> string \<times> string" where
  "kindName ob = (case ob of
     Unstructured u \<Rightarrow> (case as_str (map_of u ''kind'') of Some k \<Rightarrow> (k, []) | None \<Rightarrow> ([], []))
   | _ \<Rightarrow> (case objectMeta ob of Some m \<Rightarrow> (om_kind m, om_name m) | None \<Rightarrow> ([], [])))"

definition sortObjects :: "kobj list \<Rightarrow> kobj list" where
  "sortObjects objects = sort_key kindName objects"

section \<open>Identity of an object\<close>

text \<open>
  Kind, name, namespace and labels, as the API server will read them; \<open>owned\<close> is what
  the label selector of \<^verbatim>\<open>pkg/deploy\<close> matches.
\<close>

definition unstructured_meta :: "obj \<Rightarrow> obj" where
  "unstructured_meta u = (case as_obj (map_of u ''metadata'') of Some m \<Rightarrow> m | None \<Rightarrow> [])"

definition obj_label :: "kobj \<Rightarrow> string \<Rightarrow> string option" where
  "obj_label ob k = (case objectMeta ob of
     Some m \<Rightarrow> map_of (om_labels m) k
   | None \<Rightarrow> (case ob of
        Unstructured u \<Rightarrow>
          (case as_obj (map_of (unstructured_meta u) ''labels'') of
             Some l \<Rightarrow> as_str (map_of l k) | None \<Rightarrow> None)
      | _ \<Rightarrow> None))"

definition owned :: "string \<Rightarrow> kobj \<Rightarrow> bool" where
  "owned project ob \<longleftrightarrow> obj_label ob LabelManagedBy = Some ManagedByValue \<and>
     (project \<noteq> [] \<longrightarrow> obj_label ob LabelPartOf = Some project \<and> obj_label ob LabelProject = Some project)"

section \<open>Laws of the accessors\<close>

lemma int32_bounds: "- (2 ^ 31) \<le> int32 n \<and> int32 n < 2 ^ 31"
  using sint_ge [of "word_of_int n :: 32 word"] sint_lt [of "word_of_int n :: 32 word"]
  by (simp add: int32_def)

lemma int32_id: "- (2 ^ 31) \<le> n \<Longrightarrow> n < 2 ^ 31 \<Longrightarrow> int32 n = n"
  by (simp add: int32_def sint_sbintrunc' signed_take_bit_int_eq_self)

lemma objectMeta_map [simp]:
  "objectMeta (map_meta f ob) = map_option f (objectMeta ob)"
  "objectMeta (setPodSpec ps ob) = objectMeta ob"
  by (cases ob; simp add: setPodSpec_def)+

lemma workloadOf_map [simp]:
  "workloadOf (map_workload g ob) = map_option g (workloadOf ob)"
  "workloadOf (map_meta f ob) = map_option (\<lambda>w. w\<lparr>wl_meta := f (wl_meta w)\<rparr>) (workloadOf ob)"
  by (cases ob; simp)+

lemma objectMeta_map_workload:
  "(\<And>w. wl_meta (g w) = wl_meta w) \<Longrightarrow> objectMeta (map_workload g ob) = objectMeta ob"
  by (cases ob) auto

lemma podSpecOf_set [simp]:
  "podSpecOf (setPodSpec ps ob) = map_option (\<lambda>(_, n). (ps, n)) (podSpecOf ob)"
  by (cases ob) (auto simp: podSpecOf_def setPodSpec_def)

lemma setPodSpec_twice [simp]: "setPodSpec p (setPodSpec q ob) = setPodSpec p ob"
  by (cases ob) (auto simp: setPodSpec_def)

lemma setPodSpec_same: "podSpecOf ob = Some (ps, n) \<Longrightarrow> setPodSpec ps ob = ob"
  by (cases ob) (auto simp: podSpecOf_def setPodSpec_def)

lemma setPodSpec_none: "podSpecOf ob = None \<Longrightarrow> setPodSpec ps ob = ob"
  by (cases ob) (auto simp: podSpecOf_def setPodSpec_def)

lemma selector_set [simp]: "workloadSelector (setPodSpec ps ob) = workloadSelector ob"
  by (cases ob) (auto simp: setPodSpec_def workloadSelector_def)

lemma stamp_lookup:
  "map_of (stamp project labels) LabelManagedBy = Some ManagedByValue"
  "project \<noteq> [] \<Longrightarrow> map_of (stamp project labels) LabelPartOf = Some project"
  "project \<noteq> [] \<Longrightarrow> map_of (stamp project labels) LabelProject = Some project"
  "k \<notin> {LabelManagedBy, LabelPartOf, LabelProject} \<Longrightarrow> map_of (stamp project labels) k = map_of labels k"
  by (auto simp: stamp_def Let_def label_defs)

lemma ownershipLabels_stamp: "ownershipLabels project = stamp project []"
  by (simp add: ownershipLabels_def stamp_def Let_def label_defs)

lemma toStringMapIface_lookup [simp]:
  "map_of (toStringMapIface m) k = map_option JStr (map_of m k)"
  by (induction m) (auto simp: toStringMapIface_def)

lemma obj_label_meta: "objectMeta ob = Some m \<Longrightarrow> obj_label ob k = map_of (om_labels m) k"
  by (simp add: obj_label_def)

lemma decorateObj_meta:
  "objectMeta ob = Some m \<Longrightarrow>
   objectMeta (decorateObj p ns ob) = Some (m\<lparr>om_labels := stamp p (om_labels m),
     om_namespace := (if ns = [] then om_namespace m else ns)\<rparr>)"
  by (auto simp: decorateObj_def objectMeta_map_workload Let_def)

lemma decorateObj_selector: "workloadSelector (decorateObj p ns ob) = workloadSelector ob"
  by (cases ob) (auto simp: decorateObj_def workloadSelector_def)

lemma decorateObj_pod: "podSpecOf (decorateObj p ns ob) = podSpecOf ob"
  by (cases ob) (auto simp: decorateObj_def podSpecOf_def Let_def)

lemma decorateObj_owned: "objectMeta ob \<noteq> None \<Longrightarrow> owned p (decorateObj p ns ob)"
  using stamp_lookup by (auto simp: owned_def obj_label_meta [OF decorateObj_meta])

text \<open>
  A pod carries the labels its controller selects on: the invariant of a workload that the
  API server enforces.
\<close>

definition selects_own_pods :: "kobj \<Rightarrow> bool" where
  "selects_own_pods ob \<longleftrightarrow> (\<forall>w. workloadOf ob = Some w \<longrightarrow>
     map_of (workloadSelector ob) \<subseteq>\<^sub>m map_of (wl_TemplateLabels w))"

lemma stamp_keeps_selected:
  assumes "map_of sel \<subseteq>\<^sub>m map_of labels"
    and "dom (map_of sel) \<inter> {LabelManagedBy, LabelPartOf, LabelProject} = {}"
  shows "map_of sel \<subseteq>\<^sub>m map_of (stamp project labels)"
  unfolding map_le_def
proof
  fix k assume k: "k \<in> dom (map_of sel)"
  then have "k \<notin> {LabelManagedBy, LabelPartOf, LabelProject}" using assms(2) by blast
  with k assms(1) show "map_of sel k = map_of (stamp project labels) k"
    by (metis map_le_def stamp_lookup(4))
qed

text \<open>
  After \<^verbatim>\<open>decorate\<close>, every typed object carries the ownership labels of the project and,
  when one is given, the namespace; a workload whose selector matched its pods (and does not
  select on an ownership label with a foreign value) still selects them, and its selector and pod
  specification are untouched.
\<close>

theorem decorate_owned:
  assumes "ob \<in> set objects" and "objectMeta ob = Some m"
    and "selects_own_pods ob" and "dom (map_of (workloadSelector ob)) \<inter> {LabelManagedBy, LabelPartOf, LabelProject} = {}"
  shows "\<exists>ob' \<in> set (decorate objects project namespace).
    owned project ob' \<and> podSpecOf ob' = podSpecOf ob \<and> workloadSelector ob' = workloadSelector ob \<and>
    selects_own_pods ob' \<and>
    (\<exists>m'. objectMeta ob' = Some m' \<and> om_name m' = om_name m \<and> om_kind m' = om_kind m \<and>
       om_namespace m' = (if namespace = [] then om_namespace m else namespace))"
proof (intro bexI conjI)
  let ?o = "decorateObj project namespace ob"
  show "owned project ?o" using assms(2) by (simp add: decorateObj_owned)
  show "?o \<in> set (decorate objects project namespace)" using assms(1) by (simp add: decorate_def)
  show "selects_own_pods ?o"
    unfolding selects_own_pods_def
  proof (intro allI impI)
    fix w' assume "workloadOf ?o = Some w'"
    then obtain w where w: "workloadOf ob = Some w"
      and t: "wl_TemplateLabels w' = stamp project (wl_TemplateLabels w)"
      using assms(2) by (cases ob) (auto simp: decorateObj_def)
    have "map_of (workloadSelector ob) \<subseteq>\<^sub>m map_of (stamp project (wl_TemplateLabels w))"
      using assms(3,4) w by (auto simp: selects_own_pods_def intro!: stamp_keeps_selected)
    then show "map_of (workloadSelector ?o) \<subseteq>\<^sub>m map_of (wl_TemplateLabels w')"
      by (simp add: decorateObj_selector t)
  qed
qed (use assms in \<open>auto simp: decorateObj_pod decorateObj_selector decorateObj_meta\<close>)

theorem decorate_owned_witness:
  "\<exists>ob' \<in> set (decorate
     [Deployment \<lparr>wl_meta = \<lparr>om_apiVersion = ''apps/v1'', om_kind = ''Deployment'', om_name = ''web'',
         om_namespace = [], om_labels = [], om_annotations = []\<rparr>, wl_Replicas = Some 1,
       wl_Selector = Some [(''app'', ''web'')], wl_TemplateLabels = [(''app'', ''web'')],
       wl_Pod = \<lparr>ps_Containers = [], ps_Volumes = [], ps_ImagePullSecrets = [], ps_NodeSelector = [],
         ps_Affinity = None, ps_TopologySpread = [], ps_rest = JNull\<rparr>, wl_MinReadySeconds = 0,
       wl_ProgressDeadline = None, wl_Strategy = NoStrategy, wl_rest = JNull\<rparr>] ''shop'' ''prod'').
     owned ''shop'' ob' \<and> selects_own_pods ob'"
proof -
  let ?m = "\<lparr>om_apiVersion = ''apps/v1'', om_kind = ''Deployment'', om_name = ''web'',
         om_namespace = [], om_labels = [], om_annotations = []\<rparr> :: objmeta"
  let ?d = "Deployment \<lparr>wl_meta = ?m, wl_Replicas = Some 1,
       wl_Selector = Some [(''app'', ''web'')], wl_TemplateLabels = [(''app'', ''web'')],
       wl_Pod = \<lparr>ps_Containers = [], ps_Volumes = [], ps_ImagePullSecrets = [], ps_NodeSelector = [],
         ps_Affinity = None, ps_TopologySpread = [], ps_rest = JNull\<rparr>, wl_MinReadySeconds = 0,
       wl_ProgressDeadline = None, wl_Strategy = NoStrategy, wl_rest = JNull\<rparr>"
  have "\<exists>ob' \<in> set (decorate [?d] ''shop'' ''prod''). owned ''shop'' ob' \<and> podSpecOf ob' = podSpecOf ?d \<and>
      workloadSelector ob' = workloadSelector ?d \<and> selects_own_pods ob' \<and>
      (\<exists>m'. objectMeta ob' = Some m' \<and> om_name m' = om_name ?m \<and> om_kind m' = om_kind ?m \<and>
        om_namespace m' = (if ''prod'' = [] then om_namespace ?m else ''prod''))"
    by (rule decorate_owned) (simp_all add: selects_own_pods_def workloadSelector_def label_defs)
  then show ?thesis by blast
qed

text \<open>
  The sort of the output is a permutation, ordered by kind and then name, and stable: the
  objects of one kind and name keep their order.
\<close>

theorem sortObjects_spec:
  "mset (sortObjects objects) = mset objects \<and> sorted (map kindName (sortObjects objects)) \<and>
   (\<forall>k. filter (\<lambda>ob. kindName ob = k) (sortObjects objects) = filter (\<lambda>ob. kindName ob = k) objects)"
  unfolding sortObjects_def using mset_sort sorted_sort_key sort_key_stable [of kindName] by (intro conjI allI) blast+

end
