(* ===== verification/Workload_Passes.thy ===== *)
theory Workload_Passes
  imports Kube_Objects
begin

text \<open>
  The passes of \<^verbatim>\<open>pkg/compose/compose.go\<close> that edit the pod template of each workload:
  \<^verbatim>\<open>applyImagePullSecrets\<close>, \<^verbatim>\<open>applyEnvFromSecrets\<close>, \<^verbatim>\<open>applyBindMounts\<close>, \<^verbatim>\<open>applyPlacement\<close>,
  \<^verbatim>\<open>applyNodeSelector\<close> and \<^verbatim>\<open>applyGPUResources\<close>. They mutate the objects in place; here each
  returns the new list. \<^verbatim>\<open>resource.ParseQuantity\<close> is an argument.

  The locale \<open>pod_pass\<close> is the contract the pipeline relies on: a pass edits pod
  specifications only, keeps what each container runs, and leaves a service without
  configuration alone. Every pass is interpreted. The theorems say what each pass achieves:
  a named Secret wins over an env file, a placed pod runs exactly on the nodes its
  constraints allow, every mount has its volume.
\<close>

section \<open>The passes\<close>

text \<open>The loop the passes share: skip what has no pod specification, write the new one back.\<close>

definition on_pods :: "(string \<Rightarrow> kobj \<Rightarrow> podSpec \<Rightarrow> podSpec) \<Rightarrow> kobj list \<Rightarrow> kobj list" where
  "on_pods f objects = map (\<lambda>ob. case podSpecOf ob of
     None \<Rightarrow> ob | Some (ps, name) \<Rightarrow> setPodSpec (f name ob ps) ob) objects"

definition map_containers :: "(container \<Rightarrow> container) \<Rightarrow> podSpec \<Rightarrow> podSpec" where
  "map_containers f ps = ps\<lparr>ps_Containers := map f (ps_Containers ps)\<rparr>"

definition applyImagePullSecrets :: "kobj list \<Rightarrow> string list gomap \<Rightarrow> kobj list" where
  "applyImagePullSecrets objects cfgs =
     (if cfgs = [] then objects
      else on_pods (\<lambda>name ob ps. case map_of cfgs name of
             None \<Rightarrow> ps
           | Some names \<Rightarrow> ps\<lparr>ps_ImagePullSecrets := ps_ImagePullSecrets ps @
               filter (\<lambda>n. n \<notin> set (ps_ImagePullSecrets ps)) names\<rparr>) objects)"

definition addEnvFrom :: "string list \<Rightarrow> container \<Rightarrow> container" where
  "addEnvFrom names c =
     (let have_names = List.map_filter ef_SecretRef (ct_EnvFrom c) in
      c\<lparr>ct_EnvFrom := ct_EnvFrom c @
          map (\<lambda>n. \<lparr>ef_ConfigMapRef = None, ef_SecretRef = Some n\<rparr>)
            (filter (\<lambda>n. n \<notin> set have_names) names)\<rparr>)"

definition applyEnvFromSecrets :: "kobj list \<Rightarrow> string list gomap \<Rightarrow> kobj list" where
  "applyEnvFromSecrets objects cfgs =
     (if cfgs = [] then objects
      else on_pods (\<lambda>svc ob ps. case map_of cfgs svc of
             None \<Rightarrow> ps | Some names \<Rightarrow> map_containers (addEnvFrom names) ps) objects)"

definition addBindMount :: "bindMount \<Rightarrow> podSpec \<Rightarrow> podSpec" where
  "addBindMount bm ps =
     map_containers (\<lambda>c. c\<lparr>ct_VolumeMounts := ct_VolumeMounts c @
         [\<lparr>mt_Name = bm_Name bm, mt_MountPath = bm_Target bm, mt_ReadOnly = bm_ReadOnly bm\<rparr>]\<rparr>)
       (ps\<lparr>ps_Volumes := ps_Volumes ps @
         [\<lparr>vo_Name = bm_Name bm, vo_Source = HostPath (bm_Source bm) ''DirectoryOrCreate''\<rparr>]\<rparr>)"

definition applyBindMounts :: "kobj list \<Rightarrow> bindMount list gomap \<Rightarrow> kobj list" where
  "applyBindMounts objects cfgs =
     (if cfgs = [] then objects
      else on_pods (\<lambda>name ob ps.
             fold addBindMount (case map_of cfgs name of Some bms \<Rightarrow> bms | None \<Rightarrow> []) ps) objects)"

text \<open>The requirements go to the first term of the required node affinity, created when missing.\<close>

definition addConstraints :: "nodeConstraint list \<Rightarrow> podSpec \<Rightarrow> podSpec" where
  "addConstraints reqs ps =
     (let af = (case ps_Affinity ps of Some a \<Rightarrow> a | None \<Rightarrow> \<lparr>af_NodeAffinity = None, af_rest = JNull\<rparr>);
          na = (case af_NodeAffinity af of Some n \<Rightarrow> n | None \<Rightarrow> \<lparr>na_Required = None, na_rest = JNull\<rparr>);
          emptyTerm = \<lparr>st_MatchExpressions = [], st_rest = JNull\<rparr>;
          terms = (case na_Required na of None \<Rightarrow> [emptyTerm] | Some ts \<Rightarrow> if ts = [] then [emptyTerm] else ts);
          t = hd terms;
          terms = t\<lparr>st_MatchExpressions := st_MatchExpressions t @ reqs\<rparr> # tl terms
      in ps\<lparr>ps_Affinity := Some (af\<lparr>af_NodeAffinity := Some (na\<lparr>na_Required := Some terms\<rparr>)\<rparr>)\<rparr>)"

definition placePod :: "placementCfg \<Rightarrow> kobj \<Rightarrow> podSpec \<Rightarrow> podSpec" where
  "placePod cfg ob ps =
     (let ps = (if pc_constraints cfg = [] then ps else addConstraints (pc_constraints cfg) ps)
      in ps\<lparr>ps_TopologySpread := ps_TopologySpread ps @
          map (\<lambda>key. \<lparr>ts_MaxSkew = 1, ts_TopologyKey = key, ts_WhenUnsatisfiable = ''ScheduleAnyway'',
            ts_MatchLabels = workloadSelector ob\<rparr>) (pc_spreadKeys cfg)\<rparr>)"

definition applyPlacement :: "kobj list \<Rightarrow> placementCfg gomap \<Rightarrow> kobj list" where
  "applyPlacement objects cfgs =
     (if cfgs = [] then objects
      else on_pods (\<lambda>name ob ps. case map_of cfgs name of
             None \<Rightarrow> ps | Some cfg \<Rightarrow> placePod cfg ob ps) objects)"

definition addLimits :: "(string \<Rightarrow> quantity option) \<Rightarrow> string gomap \<Rightarrow> container \<Rightarrow> container" where
  "addLimits parseQuantity res c = c\<lparr>ct_Limits :=
     fold (\<lambda>(rname, qty) l. case parseQuantity qty of Some q \<Rightarrow> AList.update rname q l | None \<Rightarrow> l)
       res (ct_Limits c)\<rparr>"

definition applyGPUResources ::
    "(string \<Rightarrow> quantity option) \<Rightarrow> kobj list \<Rightarrow> string gomap gomap \<Rightarrow> kobj list" where
  "applyGPUResources parseQuantity objects cfgs =
     (if cfgs = [] then objects
      else on_pods (\<lambda>name ob ps. case map_of cfgs name of
             None \<Rightarrow> ps
           | Some res \<Rightarrow> if res = [] then ps else map_containers (addLimits parseQuantity res) ps) objects)"

definition applyNodeSelector :: "kobj list \<Rightarrow> string gomap gomap \<Rightarrow> kobj list" where
  "applyNodeSelector objects cfgs =
     (if cfgs = [] then objects
      else on_pods (\<lambda>name ob ps. case map_of cfgs name of
             None \<Rightarrow> ps
           | Some sel \<Rightarrow> if sel = [] then ps
                         else ps\<lparr>ps_NodeSelector := put_all sel (ps_NodeSelector ps)\<rparr>) objects)"

section \<open>The contract of a pass\<close>

text \<open>What a pod runs: the containers with their images and the flds no pass knows.\<close>

definition runs :: "podSpec \<Rightarrow> (string \<times> string \<times> iface) list" where
  "runs ps = map (\<lambda>c. (ct_Name c, ct_Image c, ct_rest c)) (ps_Containers ps)"

definition pod_edit :: "kobj \<Rightarrow> kobj \<Rightarrow> bool" where
  "pod_edit ob ob' \<longleftrightarrow> (case podSpecOf ob of
     None \<Rightarrow> ob' = ob
   | Some (ps, n) \<Rightarrow> \<exists>ps'. ob' = setPodSpec ps' ob \<and> runs ps' = runs ps \<and> ps_rest ps' = ps_rest ps)"

lemma pod_edit_refl [simp]: "pod_edit ob ob"
  by (auto simp: pod_edit_def setPodSpec_same split: option.splits intro!: exI)

lemma pod_edit_trans: "pod_edit a b \<Longrightarrow> pod_edit b c \<Longrightarrow> pod_edit a c"
  by (auto simp: pod_edit_def split: option.splits)

lemma pod_edit_identity:
  "pod_edit ob ob' \<Longrightarrow>
   objectMeta ob' = objectMeta ob \<and> workloadSelector ob' = workloadSelector ob \<and>
   templateMetaOf ob' = templateMetaOf ob \<and> kindName ob' = kindName ob"
  by (cases ob) (auto simp: pod_edit_def podSpecOf_def setPodSpec_def kindName_def
      workloadSelector_def templateMetaOf_def)

lemma pod_edit_label: "pod_edit ob ob' \<Longrightarrow> obj_label ob' k = obj_label ob k"
  by (cases ob) (auto simp: pod_edit_def podSpecOf_def setPodSpec_def obj_label_def)

locale pod_pass =
  fixes pass :: "kobj list \<Rightarrow> 'c gomap \<Rightarrow> kobj list"
  assumes pass_edit: "list_all2 pod_edit objs (pass objs cfgs)"
    and pass_frame: "i < length objs \<Longrightarrow> podSpecOf (objs ! i) = Some (ps, n) \<Longrightarrow> map_of cfgs n = None \<Longrightarrow>
      pass objs cfgs ! i = objs ! i"
begin

lemma pass_length: "length (pass objs cfgs) = length objs"
  using pass_edit list_all2_lengthD by metis

lemma pass_nth: "i < length objs \<Longrightarrow> pod_edit (objs ! i) (pass objs cfgs ! i)"
  using pass_edit list_all2_nthD by blast

lemma pass_owned: "list_all (owned p) objs \<Longrightarrow> list_all (owned p) (pass objs cfgs)"
  using pass_nth pod_edit_label unfolding list_all_length owned_def pass_length by metis

lemma pass_identities: "map objectMeta (pass objs cfgs) = map objectMeta objs"
  using pass_nth pod_edit_identity by (intro nth_equalityI) (auto simp: pass_length)

lemma pass_others: "i < length objs \<Longrightarrow> podSpecOf (objs ! i) = None \<Longrightarrow> pass objs cfgs ! i = objs ! i"
  using pass_nth [of i objs cfgs] by (simp add: pod_edit_def)

lemma pass_no_cfg: "pass objs [] = objs"
proof (intro nth_equalityI)
  fix i assume "i < length (pass objs [])"
  then show "pass objs [] ! i = objs ! i"
    using pass_frame [of i objs _ _ "[]"] pass_others [of i objs "[]"]
    by (cases "podSpecOf (objs ! i)") (auto simp: pass_length)
qed (simp add: pass_length)

end

lemma on_pods_edit:
  assumes "\<And>n ob ps. runs (f n ob ps) = runs ps \<and> ps_rest (f n ob ps) = ps_rest ps"
  shows "list_all2 pod_edit objs (on_pods f objs)"
  using assms by (auto simp: on_pods_def list_all2_conv_all_nth pod_edit_def split: option.splits)

lemma on_pods_nth:
  "i < length objs \<Longrightarrow> podSpecOf (objs ! i) = Some (ps, n) \<Longrightarrow>
   on_pods f objs ! i = setPodSpec (f n (objs ! i) ps) (objs ! i)"
  by (simp add: on_pods_def)

lemma on_pods_frame:
  "i < length objs \<Longrightarrow> podSpecOf (objs ! i) = Some (ps, n) \<Longrightarrow> f n (objs ! i) ps = ps \<Longrightarrow>
   on_pods f objs ! i = objs ! i"
  by (simp add: on_pods_def setPodSpec_same)

lemma list_all2_pod_edit_refl [simp]: "list_all2 pod_edit objs objs"
  by (simp add: list_all2_refl)

lemma runs_simps [simp]:
  "(\<And>c. ct_Name (g c) = ct_Name c \<and> ct_Image (g c) = ct_Image c \<and> ct_rest (g c) = ct_rest c) \<Longrightarrow>
   runs (map_containers g ps) = runs ps"
  "ps_rest (map_containers g ps) = ps_rest ps"
  by (auto simp: runs_def map_containers_def)

lemma runs_fold_bind: "runs (fold addBindMount bms ps) = runs ps \<and> ps_rest (fold addBindMount bms ps) = ps_rest ps"
  by (induction bms arbitrary: ps) (auto simp: addBindMount_def runs_def map_containers_def)

lemma runs_place: "runs (placePod cfg ob ps) = runs ps \<and> ps_rest (placePod cfg ob ps) = ps_rest ps"
  by (simp add: placePod_def addConstraints_def runs_def Let_def)

interpretation pull_secrets: pod_pass applyImagePullSecrets
  by unfold_locales
    (auto simp: applyImagePullSecrets_def runs_def intro!: on_pods_edit on_pods_frame split: option.splits)

interpretation env_from: pod_pass applyEnvFromSecrets
  by unfold_locales
    (auto simp: applyEnvFromSecrets_def addEnvFrom_def Let_def intro!: on_pods_edit on_pods_frame split: option.splits)

interpretation bind_mounts: pod_pass applyBindMounts
  by unfold_locales
    (auto simp: applyBindMounts_def runs_fold_bind intro!: on_pods_edit on_pods_frame)

interpretation placement: pod_pass applyPlacement
  by unfold_locales
    (auto simp: applyPlacement_def runs_place intro!: on_pods_edit on_pods_frame split: option.splits)

interpretation node_selector: pod_pass applyNodeSelector
  by unfold_locales
    (auto simp: applyNodeSelector_def runs_def intro!: on_pods_edit on_pods_frame split: option.splits)

interpretation gpu: pod_pass "applyGPUResources parseQuantity"
  by unfold_locales
    (auto simp: applyGPUResources_def addLimits_def intro!: on_pods_edit on_pods_frame split: option.splits)

section \<open>A small deployment for the examples\<close>

definition sample_meta :: "string \<Rightarrow> string \<Rightarrow> objmeta" where
  "sample_meta kind name = \<lparr>om_apiVersion = ''v1'', om_kind = kind, om_name = name, om_namespace = [],
     om_labels = [], om_annotations = []\<rparr>"

definition sample_container :: container where
  "sample_container = \<lparr>ct_Name = ''web'', ct_Image = ''nginx'', ct_Env = [],
     ct_EnvFrom = [\<lparr>ef_ConfigMapRef = Some ''env'', ef_SecretRef = None\<rparr>],
     ct_VolumeMounts = [], ct_Limits = [], ct_Requests = [], ct_rest = JNull\<rparr>"

definition sample_pod :: podSpec where
  "sample_pod = \<lparr>ps_Containers = [sample_container], ps_Volumes = [], ps_ImagePullSecrets = [],
     ps_NodeSelector = [], ps_Affinity = None, ps_TopologySpread = [], ps_rest = JNull\<rparr>"

definition sample_workload :: workload where
  "sample_workload = \<lparr>wl_meta = sample_meta ''Deployment'' ''web'', wl_Replicas = Some 1,
     wl_Selector = Some [(''app'', ''web'')], wl_TemplateLabels = [(''app'', ''web'')], wl_Pod = sample_pod,
     wl_MinReadySeconds = 0, wl_ProgressDeadline = None, wl_Strategy = NoStrategy, wl_rest = JNull\<rparr>"

lemmas sample_defs = sample_meta_def sample_container_def sample_pod_def sample_workload_def

lemma sample_podSpec: "podSpecOf ([Deployment sample_workload] ! 0) = Some (sample_pod, ''web'')"
  by (simp add: podSpecOf_def sample_defs)

section \<open>Secrets in the environment\<close>

text \<open>
  The value a variable gets from \<^verbatim>\<open>envFrom\<close> when \<open>cms\<close> and \<open>secs\<close> are the ConfigMaps and Secrets
  of the namespace: of the sources that have the key, the last one wins.
\<close>

definition env_source :: "(string \<Rightarrow> string \<rightharpoonup> string) \<Rightarrow> (string \<Rightarrow> string \<rightharpoonup> string) \<Rightarrow> envFrom \<Rightarrow> string \<Rightarrow> string option" where
  "env_source cms secs ef k = (case ef_SecretRef ef of Some n \<Rightarrow> secs n k
     | None \<Rightarrow> (case ef_ConfigMapRef ef of Some n \<Rightarrow> cms n k | None \<Rightarrow> None))"

definition env_from_value ::
    "(string \<Rightarrow> string \<rightharpoonup> string) \<Rightarrow> (string \<Rightarrow> string \<rightharpoonup> string) \<Rightarrow> envFrom list \<Rightarrow> string \<Rightarrow> string option" where
  "env_from_value cms secs efs k =
     fold (\<lambda>ef acc. case env_source cms secs ef k of Some v \<Rightarrow> Some v | None \<Rightarrow> acc) efs None"

lemma env_from_value_append:
  "env_from_value cms secs (efs @ efs') k =
   (case env_from_value cms secs efs' k of Some v \<Rightarrow> Some v | None \<Rightarrow> env_from_value cms secs efs k)"
proof -
  have "fold (\<lambda>ef acc. case env_source cms secs ef k of Some v \<Rightarrow> Some v | None \<Rightarrow> acc) efs' acc =
    (case env_from_value cms secs efs' k of Some v \<Rightarrow> Some v | None \<Rightarrow> acc)" for acc
    unfolding env_from_value_def
  proof (induction efs' rule: rev_induct)
    case (snoc x xs)
    then show ?case by (cases "env_source cms secs x k") simp_all
  qed simp
  then show ?thesis
    by (simp only: env_from_value_def [of cms secs "efs @ efs'"] env_from_value_def [of cms secs efs] fold_append comp_apply)
qed

lemma env_from_value_single [simp]: "env_from_value cms secs [ef] k = env_source cms secs ef k"
  by (cases "env_source cms secs ef k") (simp_all add: env_from_value_def)

lemma env_from_value_secrets:
  assumes "n \<in> set names" and "secs n k = Some v" and "\<forall>m \<in> set names. m \<noteq> n \<longrightarrow> secs m k = None"
  shows "env_from_value cms secs (map (\<lambda>n. \<lparr>ef_ConfigMapRef = None, ef_SecretRef = Some n\<rparr>) names) k = Some v"
  using assms
proof (induction names rule: rev_induct)
  case (snoc x xs)
  show ?case
  proof (cases "x = n")
    case True
    then show ?thesis using snoc.prems(2) by (simp add: env_from_value_append env_source_def)
  next
    case False
    then have "secs x k = None" "n \<in> set xs" using snoc.prems by auto
    moreover have "\<forall>m \<in> set xs. m \<noteq> n \<longrightarrow> secs m k = None" using snoc.prems(3) by simp
    ultimately show ?thesis
      using snoc.IH [OF _ snoc.prems(2)] by (simp add: env_from_value_append env_source_def)
  qed
qed simp

text \<open>
  A Secret named by \<^verbatim>\<open>x-orcinus-env-from-secret\<close> decides its variables: in every container of
  the service, a key that this Secret holds (and no other Secret named beside it) has the Secret's
  value, whatever the env files of the container say.
\<close>

theorem applyEnvFromSecrets_wins:
  assumes "i < length objs" and "podSpecOf (objs ! i) = Some (ps, svc)" and "map_of cfgs svc = Some names"
    and "n \<in> set names" and "secs n k = Some v" and "\<forall>m \<in> set names. m \<noteq> n \<longrightarrow> secs m k = None"
    and "\<forall>c \<in> set (ps_Containers ps). \<forall>ef \<in> set (ct_EnvFrom c). ef_SecretRef ef \<noteq> Some n"
  shows "\<exists>ps'. podSpecOf (applyEnvFromSecrets objs cfgs ! i) = Some (ps', svc) \<and>
    length (ps_Containers ps') = length (ps_Containers ps) \<and>
    (\<forall>c \<in> set (ps_Containers ps'). env_from_value cms secs (ct_EnvFrom c) k = Some v)"
proof (intro exI conjI)
  let ?ps = "map_containers (addEnvFrom names) ps"
  have ne: "cfgs \<noteq> []" using assms(3) by auto
  show "podSpecOf (applyEnvFromSecrets objs cfgs ! i) = Some (?ps, svc)"
    using assms(1-3) ne by (simp add: applyEnvFromSecrets_def on_pods_nth)
  show "\<forall>c \<in> set (ps_Containers ?ps). env_from_value cms secs (ct_EnvFrom c) k = Some v"
  proof
    fix c' assume "c' \<in> set (ps_Containers ?ps)"
    then obtain c where c: "c \<in> set (ps_Containers ps)" and c': "c' = addEnvFrom names c"
      by (auto simp: map_containers_def)
    define old where "old = List.map_filter ef_SecretRef (ct_EnvFrom c)"
    have "n \<notin> set old" using assms(7) c by (auto simp: old_def map_filter_def)
    then have "env_from_value cms secs
        (map (\<lambda>n. \<lparr>ef_ConfigMapRef = None, ef_SecretRef = Some n\<rparr>) (filter (\<lambda>n. n \<notin> set old) names)) k = Some v"
      using assms(4-6) by (intro env_from_value_secrets) auto
    then show "env_from_value cms secs (ct_EnvFrom c') k = Some v"
      by (simp add: c' addEnvFrom_def Let_def env_from_value_append old_def)
  qed
qed (simp add: map_containers_def)

theorem applyEnvFromSecrets_wins_witness:
  "\<exists>ps'. podSpecOf (applyEnvFromSecrets [Deployment sample_workload] [(''web'', [''db''])] ! 0) = Some (ps', ''web'') \<and>
    length (ps_Containers ps') = length (ps_Containers sample_pod) \<and>
    (\<forall>c \<in> set (ps_Containers ps').
       env_from_value (\<lambda>_ _. Some ''file'') (\<lambda>_ _. Some ''secret'') (ct_EnvFrom c) ''PW'' = Some ''secret'')"
  by (rule applyEnvFromSecrets_wins [OF _ sample_podSpec, where n = "''db''" and names = "[''db'']"])
    (simp_all add: sample_defs)

section \<open>Placement\<close>

text \<open>
  When the scheduler may put a pod on a node with labels \<open>lab\<close>: some required term matches, an
  empty term matching nothing. \<open>flds\<close> decides the parts of a term that are not expressions.
\<close>

definition required_terms :: "podSpec \<Rightarrow> selectorTerm list option" where
  "required_terms ps = Option.bind (ps_Affinity ps) (\<lambda>a. Option.bind (af_NodeAffinity a) na_Required)"

definition term_matches :: "(iface \<Rightarrow> bool) \<Rightarrow> (string \<rightharpoonup> string) \<Rightarrow> selectorTerm \<Rightarrow> bool" where
  "term_matches flds lab t \<longleftrightarrow> (st_MatchExpressions t \<noteq> [] \<or> st_rest t \<noteq> JNull) \<and>
     (\<forall>nc \<in> set (st_MatchExpressions t). k8s_sat lab nc) \<and> (st_rest t = JNull \<or> flds (st_rest t))"

definition may_run_on :: "(iface \<Rightarrow> bool) \<Rightarrow> (string \<rightharpoonup> string) \<Rightarrow> podSpec \<Rightarrow> bool" where
  "may_run_on flds lab ps \<longleftrightarrow> (case required_terms ps of
     None \<Rightarrow> True | Some ts \<Rightarrow> \<exists>t \<in> set ts. term_matches flds lab t)"

definition single_term :: "podSpec \<Rightarrow> bool" where
  "single_term ps = (case required_terms ps of None \<Rightarrow> True
     | Some ts \<Rightarrow> (case ts of [t] \<Rightarrow> st_MatchExpressions t \<noteq> [] \<or> st_rest t \<noteq> JNull | _ \<Rightarrow> False))"

lemma addConstraints_terms:
  assumes "single_term ps" and "reqs \<noteq> []"
  shows "may_run_on flds lab (addConstraints reqs ps) \<longleftrightarrow>
    may_run_on flds lab ps \<and> (\<forall>nc \<in> set reqs. k8s_sat lab nc)"
proof -
  have "required_terms (addConstraints reqs ps) =
    (case required_terms ps of
       None \<Rightarrow> Some [\<lparr>st_MatchExpressions = reqs, st_rest = JNull\<rparr>]
     | Some ts \<Rightarrow> (case ts of
          [] \<Rightarrow> Some [\<lparr>st_MatchExpressions = reqs, st_rest = JNull\<rparr>]
        | t # r \<Rightarrow> Some (t\<lparr>st_MatchExpressions := st_MatchExpressions t @ reqs\<rparr> # r)))"
    by (auto simp: required_terms_def addConstraints_def Let_def split: option.splits list.splits)
  then show ?thesis
    using assms by (auto simp: may_run_on_def single_term_def term_matches_def split: option.splits list.splits)
qed

text \<open>
  C35: a pod of a service with placement constraints may run exactly on the nodes it could run on
  before and that satisfy every constraint (the workload has no node affinity yet, or one
  non-empty term of it).
\<close>

theorem applyPlacement_nodes:
  assumes "i < length objs" and "podSpecOf (objs ! i) = Some (ps, svc)" and "map_of cfgs svc = Some cfg"
    and "single_term ps"
  shows "\<exists>ps'. podSpecOf (applyPlacement objs cfgs ! i) = Some (ps', svc) \<and>
    (may_run_on flds lab ps' \<longleftrightarrow>
       may_run_on flds lab ps \<and> (\<forall>nc \<in> set (pc_constraints cfg). k8s_sat lab nc))"
proof (intro exI conjI)
  have ne: "cfgs \<noteq> []" using assms(3) by auto
  show "podSpecOf (applyPlacement objs cfgs ! i) = Some (placePod cfg (objs ! i) ps, svc)"
    using assms(1-3) ne by (simp add: applyPlacement_def on_pods_nth)
  have "may_run_on flds lab (placePod cfg (objs ! i) ps) \<longleftrightarrow>
      may_run_on flds lab (if pc_constraints cfg = [] then ps else addConstraints (pc_constraints cfg) ps)"
    by (simp add: placePod_def may_run_on_def required_terms_def Let_def)
  then show "may_run_on flds lab (placePod cfg (objs ! i) ps) \<longleftrightarrow>
       may_run_on flds lab ps \<and> (\<forall>nc \<in> set (pc_constraints cfg). k8s_sat lab nc)"
    using addConstraints_terms [OF assms(4)] by simp
qed

theorem applyPlacement_nodes_witness:
  "\<exists>ps'. podSpecOf (applyPlacement [Deployment sample_workload]
        [(''web'', \<lparr>pc_constraints = [\<lparr>nc_Key = ''disk'', nc_Operator = ''In'', nc_Values = [''ssd'']\<rparr>],
           pc_spreadKeys = []\<rparr>)] ! 0) = Some (ps', ''web'') \<and>
    (may_run_on (\<lambda>_. True) Map.empty ps' \<longleftrightarrow>
       may_run_on (\<lambda>_. True) Map.empty sample_pod \<and>
       (\<forall>nc \<in> set [\<lparr>nc_Key = ''disk'', nc_Operator = ''In'', nc_Values = [''ssd'']\<rparr>]. k8s_sat Map.empty nc))"
  using applyPlacement_nodes [OF _ sample_podSpec, where flds = "\<lambda>_. True" and lab = Map.empty and
      cfgs = "[(''web'', \<lparr>pc_constraints = [\<lparr>nc_Key = ''disk'', nc_Operator = ''In'', nc_Values = [''ssd'']\<rparr>],
           pc_spreadKeys = []\<rparr>)]"]
  by (simp add: single_term_def required_terms_def sample_pod_def)

section \<open>Bind mounts\<close>

definition mounts_ok :: "podSpec \<Rightarrow> bool" where
  "mounts_ok ps \<longleftrightarrow> (\<forall>c \<in> set (ps_Containers ps). \<forall>m \<in> set (ct_VolumeMounts c).
     \<exists>v \<in> set (ps_Volumes ps). vo_Name v = mt_Name m)"

definition mounted :: "bindMount \<Rightarrow> podSpec \<Rightarrow> bool" where
  "mounted bm ps \<longleftrightarrow>
     \<lparr>vo_Name = bm_Name bm, vo_Source = HostPath (bm_Source bm) ''DirectoryOrCreate''\<rparr> \<in> set (ps_Volumes ps) \<and>
     (\<forall>c \<in> set (ps_Containers ps).
        \<lparr>mt_Name = bm_Name bm, mt_MountPath = bm_Target bm, mt_ReadOnly = bm_ReadOnly bm\<rparr> \<in> set (ct_VolumeMounts c))"

lemma addBindMount_props:
  "mounts_ok ps \<Longrightarrow> mounts_ok (addBindMount bm ps)"
  "mounted bm (addBindMount bm ps)"
  "mounted b ps \<Longrightarrow> mounted b (addBindMount bm ps)"
  by (auto simp: mounts_ok_def mounted_def addBindMount_def map_containers_def)

lemma fold_addBindMount_ok: "mounts_ok ps \<Longrightarrow> mounts_ok (fold addBindMount bms ps)"
  by (induction bms arbitrary: ps) (auto simp: addBindMount_props)

lemma fold_addBindMount_keeps: "mounted b ps \<Longrightarrow> mounted b (fold addBindMount bms ps)"
  by (induction bms arbitrary: ps) (auto simp: addBindMount_props)

lemma fold_addBindMount_mounted: "b \<in> set bms \<Longrightarrow> mounted b (fold addBindMount bms ps)"
  by (induction bms arbitrary: ps) (auto simp: addBindMount_props fold_addBindMount_keeps)

lemma fold_addBindMount_names:
  "map vo_Name (ps_Volumes (fold addBindMount bms ps)) = map vo_Name (ps_Volumes ps) @ map bm_Name bms"
  by (induction bms arbitrary: ps) (auto simp: addBindMount_def map_containers_def)

text \<open>
  Every bind mount of a service reaches each of its containers through a hostPath volume of the
  same name; mounts that named a volume of the pod still do; and when the bind mounts have names of
  their own, the pod's volume names stay distinct.
\<close>

theorem applyBindMounts_mounted:
  assumes "i < length objs" and "podSpecOf (objs ! i) = Some (ps, svc)" and "map_of cfgs svc = Some bms"
    and "mounts_ok ps" and "distinct (map vo_Name (ps_Volumes ps) @ map bm_Name bms)"
  shows "\<exists>ps'. podSpecOf (applyBindMounts objs cfgs ! i) = Some (ps', svc) \<and>
    mounts_ok ps' \<and> distinct (map vo_Name (ps_Volumes ps')) \<and> (\<forall>bm \<in> set bms. mounted bm ps')"
proof (intro exI conjI)
  have ne: "cfgs \<noteq> []" using assms(3) by auto
  show "podSpecOf (applyBindMounts objs cfgs ! i) = Some (fold addBindMount bms ps, svc)"
    using assms(1-3) ne by (simp add: applyBindMounts_def on_pods_nth)
qed (use assms(4,5) in \<open>auto simp: fold_addBindMount_names fold_addBindMount_ok fold_addBindMount_mounted\<close>)

theorem applyBindMounts_mounted_witness:
  "\<exists>ps'. podSpecOf (applyBindMounts [Deployment sample_workload]
        [(''web'', [\<lparr>bm_Name = ''bind-0'', bm_Source = ''/srv'', bm_Target = ''/data'', bm_ReadOnly = True\<rparr>])] ! 0)
      = Some (ps', ''web'') \<and>
    mounts_ok ps' \<and> distinct (map vo_Name (ps_Volumes ps')) \<and>
    (\<forall>bm \<in> set [\<lparr>bm_Name = ''bind-0'', bm_Source = ''/srv'', bm_Target = ''/data'', bm_ReadOnly = True\<rparr>].
       mounted bm ps')"
  by (rule applyBindMounts_mounted [OF _ sample_podSpec]) (simp_all add: sample_defs mounts_ok_def)

end
