(* ===== verification/Secrets_Pass.thy ===== *)
theory Secrets_Pass
  imports Workload_Passes
begin

text \<open>
  \<^verbatim>\<open>applySecrets\<close> of \<^verbatim>\<open>pkg/compose/compose.go\<close>: for each service with \<^verbatim>\<open>x-orcinus-secret\<close>, the
  named variables leave the containers of its workload and the ConfigMaps these read from,
  and go to one Secret per service. The source mutates the workloads and the ConfigMaps of one
  slice through pointers; here a position in the object list stands for the pointer and the
  list is threaded through every step.

  The theorems: no marked value stays readable, every reference the pass writes is backed by the
  Secret it creates, and two cases in which the variable a container sees is not the one the
  compose file asks for.
\<close>

section \<open>The pass\<close>

definition secretEnvVar :: "string \<Rightarrow> string \<Rightarrow> envVar" where
  "secretEnvVar secretName n = \<lparr>ev_Name = n, ev_Value = [], ev_ValueFrom = Some (SecretKeyRef secretName n)\<rparr>"

definition hasEnvVar :: "envVar list \<Rightarrow> string \<Rightarrow> bool" where
  "hasEnvVar envs name = list_ex (\<lambda>e. ev_Name e = name) envs"

definition sortedKeys :: "string list \<Rightarrow> string list" where
  "sortedKeys names = sort (remdups names)"

text \<open>The position of the first ConfigMap with a name.\<close>

fun configMapByName :: "kobj list \<Rightarrow> string \<Rightarrow> nat option" where
  "configMapByName [] name = None"
| "configMapByName (ob # objects) name =
     (case ob of
        ConfigMap m d r \<Rightarrow> if om_name m = name then Some 0 else map_option Suc (configMapByName objects name)
      | _ \<Rightarrow> map_option Suc (configMapByName objects name))"

fun moveEnv :: "string list \<Rightarrow> string \<Rightarrow> envVar list \<Rightarrow> string gomap \<Rightarrow> envVar list \<times> string gomap" where
  "moveEnv names secretName [] data = ([], data)"
| "moveEnv names secretName (e # es) data =
     (if ev_Name e \<in> set names \<and> ev_ValueFrom e = None
      then case moveEnv names secretName es (AList.update (ev_Name e) (ev_Value e) data) of
             (kept, data') \<Rightarrow> (secretEnvVar secretName (ev_Name e) # kept, data')
      else case moveEnv names secretName es data of (kept, data') \<Rightarrow> (e # kept, data'))"

type_synonym secretState = "envVar list \<times> kobj list \<times> string gomap"

definition moveKey :: "string \<Rightarrow> nat \<Rightarrow> string \<Rightarrow> secretState \<Rightarrow> secretState" where
  "moveKey secretName ci n = (\<lambda>(env, objects, data). case objects ! ci of
     ConfigMap m d r \<Rightarrow>
       (case map_of d n of
          None \<Rightarrow> (env, objects, data)
        | Some v \<Rightarrow> (if hasEnvVar env n then env else env @ [secretEnvVar secretName n],
                     objects[ci := ConfigMap m (AList.delete n d) r], AList.update n v data))
   | _ \<Rightarrow> (env, objects, data))"

definition moveFrom :: "string list \<Rightarrow> string \<Rightarrow> envFrom \<Rightarrow> secretState \<Rightarrow> secretState" where
  "moveFrom names secretName ef = (\<lambda>(env, objects, data). case ef_ConfigMapRef ef of
     None \<Rightarrow> (env, objects, data)
   | Some cm \<Rightarrow> (case configMapByName objects cm of
        None \<Rightarrow> (env, objects, data)
      | Some ci \<Rightarrow> fold (moveKey secretName ci) (sortedKeys names) (env, objects, data)))"

definition secretContainer ::
    "string list \<Rightarrow> string \<Rightarrow> container \<Rightarrow> kobj list \<times> string gomap \<Rightarrow> container \<times> kobj list \<times> string gomap" where
  "secretContainer names secretName c = (\<lambda>(objects, data).
     case moveEnv names secretName (ct_Env c) data of (env, data) \<Rightarrow>
     case fold (moveFrom names secretName) (ct_EnvFrom c) (env, objects, data) of (env, objects, data) \<Rightarrow>
       (c\<lparr>ct_Env := env\<rparr>, objects, data))"

fun secretContainers ::
    "string list \<Rightarrow> string \<Rightarrow> container list \<Rightarrow> kobj list \<times> string gomap \<Rightarrow> container list \<times> kobj list \<times> string gomap" where
  "secretContainers names secretName [] (objects, data) = ([], objects, data)"
| "secretContainers names secretName (c # cs) (objects, data) =
     (case secretContainer names secretName c (objects, data) of (c', objects, data) \<Rightarrow>
      case secretContainers names secretName cs (objects, data) of (cs', objects, data) \<Rightarrow>
        (c' # cs', objects, data))"

definition secretObject ::
    "string \<Rightarrow> string list \<Rightarrow> nat \<Rightarrow> kobj list \<times> string gomap \<Rightarrow> kobj list \<times> string gomap" where
  "secretObject svc names i = (\<lambda>(objects, data). case podSpecOf (objects ! i) of
     None \<Rightarrow> (objects, data)
   | Some (ps, name) \<Rightarrow>
       if name \<noteq> svc then (objects, data)
       else case secretContainers names (svc @ ''-secret'') (ps_Containers ps) (objects, data) of
              (cs, objects, data) \<Rightarrow>
                (objects[i := setPodSpec (ps\<lparr>ps_Containers := cs\<rparr>) (objects ! i)], data))"

definition secretService ::
    "string \<times> string list \<Rightarrow> kobj list \<times> kobj list \<Rightarrow> kobj list \<times> kobj list" where
  "secretService = (\<lambda>(svc, names) (objects, created).
     case fold (secretObject svc names) [0..<length objects] (objects, []) of (objects, data) \<Rightarrow>
       (objects,
        if data = [] then created
        else created @ [SecretObj \<lparr>om_apiVersion = ''v1'', om_kind = ''Secret'', om_name = svc @ ''-secret'',
               om_namespace = [], om_labels = [], om_annotations = []\<rparr> ''Opaque'' data]))"

definition applySecrets ::
    "kobj list \<Rightarrow> string list gomap \<Rightarrow> string \<Rightarrow> string \<Rightarrow> kobj list \<times> kobj list" where
  "applySecrets objects secrets project namespace =
     (if secrets = [] then (objects, [])
      else case fold secretService secrets (objects, []) of (objects, created) \<Rightarrow>
             (objects, decorate created project namespace))"

section \<open>What the pass may change\<close>

text \<open>
  An object after some steps of the pass: a ConfigMap has lost keys, a workload has other
  environments, everything else is as it was.
\<close>

definition env_edit :: "podSpec \<Rightarrow> podSpec \<Rightarrow> bool" where
  "env_edit ps ps' \<longleftrightarrow> ps' = ps\<lparr>ps_Containers := ps_Containers ps'\<rparr> \<and>
     list_all2 (\<lambda>c c'. c' = c\<lparr>ct_Env := ct_Env c'\<rparr>) (ps_Containers ps) (ps_Containers ps')"

definition shrinks :: "kobj \<Rightarrow> kobj \<Rightarrow> bool" where
  "shrinks ob ob' \<longleftrightarrow> (case ob of
     ConfigMap m d r \<Rightarrow> \<exists>d'. ob' = ConfigMap m d' r \<and> map_of d' \<subseteq>\<^sub>m map_of d
   | _ \<Rightarrow> (case podSpecOf ob of None \<Rightarrow> ob' = ob
           | Some (ps, n) \<Rightarrow> \<exists>ps'. ob' = setPodSpec ps' ob \<and> env_edit ps ps'))"

abbreviation shrunk :: "kobj list \<Rightarrow> kobj list \<Rightarrow> bool" where
  "shrunk \<equiv> list_all2 shrinks"

lemma env_edit_refl [simp]: "env_edit ps ps"
  by (simp add: env_edit_def list_all2_refl)

lemma env_edit_trans: "env_edit a b \<Longrightarrow> env_edit b c \<Longrightarrow> env_edit a c"
  unfolding env_edit_def list_all2_conv_all_nth
  by (smt (verit) container.surjective container.update_convs(3) podSpec.surjective podSpec.update_convs(1))

lemma wl_Pod_same [simp]: "w\<lparr>wl_Pod := wl_Pod w\<rparr> = w"
  by simp

lemma shrinks_refl [simp]: "shrinks ob ob"
proof -
  have "\<exists>ps'. w = w\<lparr>wl_Pod := ps'\<rparr> \<and> env_edit (wl_Pod w) ps'" for w :: workload
    by (rule exI [of _ "wl_Pod w"]) simp
  then show ?thesis by (cases ob) (auto simp: shrinks_def podSpecOf_def setPodSpec_def)
qed

lemma shrinks_trans: "shrinks a b \<Longrightarrow> shrinks b c \<Longrightarrow> shrinks a c"
proof -
  have "env_edit p q \<Longrightarrow> env_edit q r \<Longrightarrow> \<exists>ps'. w\<lparr>wl_Pod := r\<rparr> = w\<lparr>wl_Pod := ps'\<rparr> \<and> env_edit p ps'"
    for p q r and w :: workload
    using env_edit_trans by blast
  then show "shrinks a b \<Longrightarrow> shrinks b c \<Longrightarrow> shrinks a c"
    by (cases a) (auto simp: shrinks_def podSpecOf_def setPodSpec_def, meson map_le_trans)
qed

lemma shrunk_refl [simp]: "shrunk objs objs"
  by (simp add: list_all2_refl)

lemma shrunk_trans: "shrunk a b \<Longrightarrow> shrunk b c \<Longrightarrow> shrunk a c"
  using list_all2_trans [of shrinks shrinks shrinks] shrinks_trans by blast

lemma shrinks_meta: "shrinks ob ob' \<Longrightarrow> objectMeta ob' = objectMeta ob \<and> kindName ob' = kindName ob"
  by (cases ob) (auto simp: shrinks_def podSpecOf_def setPodSpec_def kindName_def)

lemma shrinks_label: "shrinks ob ob' \<Longrightarrow> obj_label ob' k = obj_label ob k"
  by (cases ob) (auto simp: shrinks_def podSpecOf_def setPodSpec_def obj_label_def)

lemma shrunk_update:
  "shrunk objs objs' \<Longrightarrow> i < length objs' \<Longrightarrow> shrinks (objs' ! i) ob \<Longrightarrow> shrunk objs (objs'[i := ob])"
  by (auto simp: list_all2_conv_all_nth nth_list_update intro: shrinks_trans)

text \<open>The keys of the ConfigMap a container reads.\<close>

definition cm_keys :: "kobj list \<Rightarrow> string \<Rightarrow> string set" where
  "cm_keys objs cm = (case configMapByName objs cm of None \<Rightarrow> {}
     | Some i \<Rightarrow> (case objs ! i of ConfigMap m d r \<Rightarrow> dom (map_of d) | _ \<Rightarrow> {}))"

lemma configMapByName_shrunk: "shrunk objs objs' \<Longrightarrow> configMapByName objs' cm = configMapByName objs cm"
  by (induction rule: list_all2_induct)
    (auto simp: shrinks_def podSpecOf_def setPodSpec_def split: kobj.splits)

lemma configMapByName_some:
  "configMapByName objs cm = Some i \<Longrightarrow> i < length objs \<and> (\<exists>m d r. objs ! i = ConfigMap m d r)"
  by (induction objs arbitrary: i) (auto split: kobj.splits if_splits)

lemma cm_keys_shrunk: "shrunk objs objs' \<Longrightarrow> cm_keys objs' cm \<subseteq> cm_keys objs cm"
proof -
  assume s: "shrunk objs objs'"
  show ?thesis
  proof (cases "configMapByName objs cm")
    case (Some i)
    then obtain m d r where o: "i < length objs" "objs ! i = ConfigMap m d r"
      using configMapByName_some by blast
    then have "shrinks (ConfigMap m d r) (objs' ! i)" using s list_all2_nthD by metis
    then show ?thesis
      using o Some configMapByName_shrunk [OF s]
      by (auto simp: cm_keys_def shrinks_def) (metis domI map_le_def)
  qed (simp add: cm_keys_def configMapByName_shrunk [OF s])
qed

section \<open>A sealed container\<close>

text \<open>
  No marked variable is written out in the environment, no ConfigMap the container reads holds
  one, and every reference to the service's Secret names a key of \<open>data\<close>.
\<close>

definition env_sealed :: "string list \<Rightarrow> string \<Rightarrow> string gomap \<Rightarrow> envVar list \<Rightarrow> bool" where
  "env_sealed names secretName data env \<longleftrightarrow>
     (\<forall>e \<in> set env. (ev_Name e \<in> set names \<longrightarrow> ev_ValueFrom e \<noteq> None) \<and>
        (\<forall>k. ev_ValueFrom e = Some (SecretKeyRef secretName k) \<longrightarrow> k \<in> dom (map_of data)))"

definition cms_sealed :: "string list \<Rightarrow> kobj list \<Rightarrow> envFrom list \<Rightarrow> bool" where
  "cms_sealed names objs efs \<longleftrightarrow>
     (\<forall>ef \<in> set efs. \<forall>cm. ef_ConfigMapRef ef = Some cm \<longrightarrow> cm_keys objs cm \<inter> set names = {})"

definition sealed :: "string list \<Rightarrow> string \<Rightarrow> kobj list \<Rightarrow> string gomap \<Rightarrow> container \<Rightarrow> bool" where
  "sealed names secretName objs data c \<longleftrightarrow>
     env_sealed names secretName data (ct_Env c) \<and> cms_sealed names objs (ct_EnvFrom c)"

definition no_refs :: "string \<Rightarrow> envVar list \<Rightarrow> bool" where
  "no_refs secretName env \<longleftrightarrow> (\<forall>e \<in> set env. \<forall>k. ev_ValueFrom e \<noteq> Some (SecretKeyRef secretName k))"

abbreviation grown :: "string gomap \<Rightarrow> string gomap \<Rightarrow> bool" where
  "grown data data' \<equiv> dom (map_of data) \<subseteq> dom (map_of data')"

lemma env_sealed_mono: "env_sealed names sn data env \<Longrightarrow> grown data data' \<Longrightarrow> env_sealed names sn data' env"
  by (fastforce simp: env_sealed_def)

lemma cms_sealed_mono: "cms_sealed names objs efs \<Longrightarrow> shrunk objs objs' \<Longrightarrow> cms_sealed names objs' efs"
  using cm_keys_shrunk by (fastforce simp: cms_sealed_def)

lemma sealed_mono:
  "sealed names sn objs data c \<Longrightarrow> shrunk objs objs' \<Longrightarrow> grown data data' \<Longrightarrow> sealed names sn objs' data' c"
  by (auto simp: sealed_def intro: env_sealed_mono cms_sealed_mono)

lemma env_sealed_snoc:
  "env_sealed names sn data env \<Longrightarrow> k \<in> dom (map_of data) \<Longrightarrow> env_sealed names sn data (env @ [secretEnvVar sn k])"
  by (auto simp: env_sealed_def secretEnvVar_def)

lemma moveEnv_sealed:
  "moveEnv names sn env data = (env', data') \<Longrightarrow> no_refs sn env \<Longrightarrow>
   env_sealed names sn data' env' \<and> grown data data'"
proof (induction env arbitrary: data env')
  case Nil
  then show ?case by (simp add: env_sealed_def)
next
  case (Cons e es)
  have nr: "no_refs sn es" using Cons.prems(2) by (simp add: no_refs_def)
  show ?case
  proof (cases "ev_Name e \<in> set names \<and> ev_ValueFrom e = None")
    case True
    then obtain kept where k: "moveEnv names sn es (AList.update (ev_Name e) (ev_Value e) data) = (kept, data')"
      and e: "env' = secretEnvVar sn (ev_Name e) # kept"
      using Cons.prems(1) by (auto split: prod.splits)
    have "grown data (AList.update (ev_Name e) (ev_Value e) data)"
      and "ev_Name e \<in> dom (map_of (AList.update (ev_Name e) (ev_Value e) data))" by auto
    with Cons.IH [OF k nr] have "grown data data'" "ev_Name e \<in> dom (map_of data')" by blast+
    with Cons.IH [OF k nr] show ?thesis by (simp add: e env_sealed_def secretEnvVar_def)
  next
    case False
    then obtain kept where k: "moveEnv names sn es data = (kept, data')" and e: "env' = e # kept"
      using Cons.prems(1) by (auto split: prod.splits)
    from Cons.IH [OF k nr] False Cons.prems(2) show ?thesis by (auto simp: e env_sealed_def no_refs_def)
  qed
qed

text \<open>One step of the pass on a state \<open>(env, objects, data)\<close>, and what it keeps.\<close>

definition step_ok :: "string list \<Rightarrow> string \<Rightarrow> secretState \<Rightarrow> secretState \<Rightarrow> bool" where
  "step_ok names sn = (\<lambda>(env, objs, data) (env', objs', data').
     shrunk objs objs' \<and> grown data data' \<and> (\<forall>i. podSpecOf (objs' ! i) = podSpecOf (objs ! i)) \<and>
     (env_sealed names sn data env \<longrightarrow> env_sealed names sn data' env'))"

lemma step_ok_refl [simp]: "step_ok names sn s s"
  by (cases s) (simp add: step_ok_def)

lemma step_ok_trans: "step_ok names sn s t \<Longrightarrow> step_ok names sn t u \<Longrightarrow> step_ok names sn s u"
  by (auto simp: step_ok_def intro: shrunk_trans)

lemma step_ok_fold: "(\<And>x s. x \<in> set xs \<Longrightarrow> step_ok names sn s (f x s)) \<Longrightarrow> step_ok names sn s (fold f xs s)"
proof (induction xs arbitrary: s)
  case (Cons x xs)
  have "step_ok names sn s (f x s)" by (rule Cons.prems) simp
  moreover have "step_ok names sn (f x s) (fold f xs (f x s))" by (rule Cons.IH) (simp add: Cons.prems)
  ultimately show ?case by (simp add: step_ok_trans)
qed simp

lemma moveKey_ok: "step_ok names sn s (moveKey sn ci n s)"
proof -
  obtain env objs data where s: "s = (env, objs, data)" by (cases s)
  show ?thesis
  proof (cases "\<exists>m d r v. objs ! ci = ConfigMap m d r \<and> map_of d n = Some v")
    case True
    then obtain m d r v where o: "objs ! ci = ConfigMap m d r" "map_of d n = Some v" by blast
    let ?objs = "objs[ci := ConfigMap m (AList.delete n d) r]"
    have "map_of (AList.delete n d) \<subseteq>\<^sub>m map_of d" by (auto simp: map_le_def)
    then have "shrunk objs ?objs"
      using o by (cases "ci < length objs") (auto intro!: shrunk_update simp: shrinks_def list_update_beyond)
    moreover have "podSpecOf (?objs ! i) = podSpecOf (objs ! i)" for i
      using o by (cases "i = ci"; cases "ci < length objs") (auto simp: podSpecOf_def list_update_beyond)
    moreover have "env_sealed names sn data env \<Longrightarrow>
        env_sealed names sn (AList.update n v data) (if hasEnvVar env n then env else env @ [secretEnvVar sn n])"
      using env_sealed_mono [of names sn data env "AList.update n v data"] by (auto intro!: env_sealed_snoc)
    ultimately show ?thesis using o by (auto simp: s moveKey_def step_ok_def)
  next
    case False
    then show ?thesis by (auto simp: s moveKey_def split: kobj.splits option.splits)
  qed
qed

lemma moveFrom_ok: "step_ok names sn s (moveFrom names' sn ef s)"
  by (cases s) (auto simp: moveFrom_def intro!: step_ok_fold moveKey_ok split: option.splits)

lemma set_sortedKeys [simp]: "set (sortedKeys names) = set names"
  by (simp add: sortedKeys_def)

lemma moveKey_removes:
  assumes "configMapByName objs cm = Some ci" and "moveKey sn ci n (env, objs, data) = (env', objs', data')"
  shows "cm_keys objs' cm \<subseteq> cm_keys objs cm - {n}"
proof -
  obtain m d r where o: "ci < length objs" "objs ! ci = ConfigMap m d r"
    using configMapByName_some [OF assms(1)] by blast
  have "shrunk objs objs'" using moveKey_ok [of "[]" sn "(env, objs, data)" ci n] assms(2) by (simp add: step_ok_def)
  note c = configMapByName_shrunk [OF this, of cm]
  show ?thesis
    using assms o c by (auto simp: moveKey_def cm_keys_def split: option.splits if_splits)
qed

lemma fold_moveKey_removes:
  assumes "fold (moveKey sn ci) ns (env, objs, data) = (env', objs', data')"
    and "configMapByName objs cm = Some ci"
  shows "cm_keys objs' cm \<inter> set ns = {}"
  using assms
proof (induction ns arbitrary: env objs data)
  case (Cons n ns)
  obtain e1 o1 d1 where m: "moveKey sn ci n (env, objs, data) = (e1, o1, d1)" by (metis prod_cases3)
  have "shrunk objs o1" using moveKey_ok [of "[]" sn "(env, objs, data)" ci n] m by (simp add: step_ok_def)
  then have c: "configMapByName o1 cm = Some ci" using configMapByName_shrunk Cons.prems(2) by simp
  have f: "fold (moveKey sn ci) ns (e1, o1, d1) = (env', objs', data')" using Cons.prems(1) m by simp
  have "shrunk o1 objs'"
    using step_ok_fold [of ns "[]" sn "moveKey sn ci" "(e1, o1, d1)"] moveKey_ok f by (simp add: step_ok_def)
  then have "cm_keys objs' cm \<subseteq> cm_keys objs cm - {n}"
    using cm_keys_shrunk moveKey_removes [OF Cons.prems(2) m] by blast
  with Cons.IH [OF f c] show ?case by auto
qed simp

lemma moveFrom_seals:
  assumes "moveFrom names sn ef (env, objs, data) = (env', objs', data')"
  shows "cms_sealed names objs' [ef]"
proof (cases "ef_ConfigMapRef ef")
  case (Some cm)
  show ?thesis
  proof (cases "configMapByName objs cm")
    case None
    then show ?thesis using assms Some by (simp add: moveFrom_def cms_sealed_def cm_keys_def)
  next
    case (Some ci)
    then show ?thesis
      using assms \<open>ef_ConfigMapRef ef = Some cm\<close> fold_moveKey_removes [OF _ Some, of sn "sortedKeys names"]
      by (simp add: moveFrom_def cms_sealed_def)
  qed
qed (simp add: cms_sealed_def)

lemma fold_moveFrom_seals:
  assumes "fold (moveFrom names sn) efs (env, objs, data) = (env', objs', data')"
  shows "cms_sealed names objs' efs"
  using assms
proof (induction efs arbitrary: env objs data)
  case (Cons ef efs)
  obtain e1 o1 d1 where m: "moveFrom names sn ef (env, objs, data) = (e1, o1, d1)" by (metis prod_cases3)
  have f: "fold (moveFrom names sn) efs (e1, o1, d1) = (env', objs', data')" using Cons.prems m by simp
  have "shrunk o1 objs'"
    using step_ok_fold [of efs names sn "moveFrom names sn" "(e1, o1, d1)"] moveFrom_ok f by (simp add: step_ok_def)
  then have "cms_sealed names objs' [ef]" using moveFrom_seals [OF m] cms_sealed_mono by blast
  with Cons.IH [OF f] show ?case by (simp add: cms_sealed_def)
qed (simp add: cms_sealed_def)

lemma secretContainer_sealed:
  assumes "secretContainer names sn c (objs, data) = (c', objs', data')" and "no_refs sn (ct_Env c)"
  shows "sealed names sn objs' data' c'" and "c' = c\<lparr>ct_Env := ct_Env c'\<rparr>"
    and "shrunk objs objs'" and "grown data data'" and "podSpecOf (objs' ! i) = podSpecOf (objs ! i)"
proof -
  obtain e1 d1 where m: "moveEnv names sn (ct_Env c) data = (e1, d1)" by force
  obtain e2 where f: "fold (moveFrom names sn) (ct_EnvFrom c) (e1, objs, d1) = (e2, objs', data')"
    and c': "c' = c\<lparr>ct_Env := e2\<rparr>"
    using assms(1) m by (auto simp: secretContainer_def split: prod.splits)
  have "step_ok names sn (e1, objs, d1) (e2, objs', data')"
    using step_ok_fold [of "ct_EnvFrom c" names sn "moveFrom names sn" "(e1, objs, d1)"] moveFrom_ok f by simp
  with moveEnv_sealed [OF m assms(2)] fold_moveFrom_seals [OF f]
  show "sealed names sn objs' data' c'" and "shrunk objs objs'" and "grown data data'"
    and "podSpecOf (objs' ! i) = podSpecOf (objs ! i)"
    by (auto simp: step_ok_def sealed_def c')
  show "c' = c\<lparr>ct_Env := ct_Env c'\<rparr>" by (simp add: c')
qed

lemma secretContainers_sealed:
  assumes "secretContainers names sn cs (objs, data) = (cs', objs', data')"
    and "\<forall>c \<in> set cs. no_refs sn (ct_Env c)"
  shows "(\<forall>c \<in> set cs'. sealed names sn objs' data' c) \<and>
    list_all2 (\<lambda>c c'. c' = c\<lparr>ct_Env := ct_Env c'\<rparr>) cs cs' \<and>
    shrunk objs objs' \<and> grown data data' \<and> (\<forall>i. podSpecOf (objs' ! i) = podSpecOf (objs ! i))"
  using assms
proof (induction cs arbitrary: objs data cs')
  case (Cons c cs)
  obtain c1 o1 d1 where m: "secretContainer names sn c (objs, data) = (c1, o1, d1)" by (metis prod_cases3)
  obtain cs1 where r: "secretContainers names sn cs (o1, d1) = (cs1, objs', data')" and cs': "cs' = c1 # cs1"
    using Cons.prems(1) m by (auto split: prod.splits)
  have nr: "no_refs sn (ct_Env c)" and nrs: "\<forall>c \<in> set cs. no_refs sn (ct_Env c)" using Cons.prems(2) by auto
  note s1 = secretContainer_sealed [OF m nr]
  note ih = Cons.IH [OF r nrs]
  have "sealed names sn objs' data' c1" using s1(1) ih sealed_mono by blast
  moreover have "shrunk objs objs'" using s1(3) ih shrunk_trans by blast
  moreover have "grown data data'" using s1(4) ih by blast
  ultimately show ?case using ih s1(2,5) by (simp add: cs')
qed simp

text \<open>All pods of a service at one position of the list are sealed.\<close>

definition pods_sealed :: "string \<Rightarrow> string list \<Rightarrow> kobj list \<Rightarrow> string gomap \<Rightarrow> nat \<Rightarrow> bool" where
  "pods_sealed svc names objs data i \<longleftrightarrow> (\<forall>ps. podSpecOf (objs ! i) = Some (ps, svc) \<longrightarrow>
     (\<forall>c \<in> set (ps_Containers ps). sealed names (svc @ ''-secret'') objs data c))"

definition pods_fresh :: "string \<Rightarrow> kobj list \<Rightarrow> nat \<Rightarrow> bool" where
  "pods_fresh svc objs i \<longleftrightarrow> (\<forall>ps. podSpecOf (objs ! i) = Some (ps, svc) \<longrightarrow>
     (\<forall>c \<in> set (ps_Containers ps). no_refs (svc @ ''-secret'') (ct_Env c)))"

lemma pods_sealed_mono:
  "pods_sealed svc names objs data i \<Longrightarrow> shrunk objs objs' \<Longrightarrow> grown data data' \<Longrightarrow>
   podSpecOf (objs' ! i) = podSpecOf (objs ! i) \<Longrightarrow> pods_sealed svc names objs' data' i"
  unfolding pods_sealed_def using sealed_mono by metis

lemma secretObject_step:
  assumes r: "secretObject svc names i (objs, data) = (objs', data')"
    and i: "i < length objs" and fr: "pods_fresh svc objs i"
  shows "shrunk objs objs' \<and> grown data data' \<and> pods_sealed svc names objs' data' i \<and>
    (\<forall>j. j \<noteq> i \<or> (\<forall>ps. podSpecOf (objs ! j) \<noteq> Some (ps, svc)) \<longrightarrow> podSpecOf (objs' ! j) = podSpecOf (objs ! j))"
proof (cases "\<exists>ps. podSpecOf (objs ! i) = Some (ps, svc)")
  case True
  then obtain ps where ps: "podSpecOf (objs ! i) = Some (ps, svc)" by blast
  obtain cs o1 where cs: "secretContainers names (svc @ ''-secret'') (ps_Containers ps) (objs, data) = (cs, o1, data')"
    and o': "objs' = o1[i := setPodSpec (ps\<lparr>ps_Containers := cs\<rparr>) (o1 ! i)]"
    using r ps by (auto simp: secretObject_def split: prod.splits)
  have "\<forall>c \<in> set (ps_Containers ps). no_refs (svc @ ''-secret'') (ct_Env c)"
    using fr ps by (auto simp: pods_fresh_def)
  note s = secretContainers_sealed [OF cs this]
  have l: "length o1 = length objs" using s list_all2_lengthD by metis
  have ps1: "podSpecOf (o1 ! i) = Some (ps, svc)" using s ps by simp
  have "env_edit ps (ps\<lparr>ps_Containers := cs\<rparr>)" using s by (simp add: env_edit_def)
  then have "shrinks (o1 ! i) (setPodSpec (ps\<lparr>ps_Containers := cs\<rparr>) (o1 ! i))"
    using ps1 by (cases "o1 ! i") (auto simp: shrinks_def podSpecOf_def)
  then have sh: "shrunk o1 objs'" using i l by (simp add: o' shrunk_update)
  have "podSpecOf (objs' ! i) = Some (ps\<lparr>ps_Containers := cs\<rparr>, svc)" using i l ps1 by (simp add: o')
  then have "pods_sealed svc names objs' data' i"
    using s sh sealed_mono by (fastforce simp: pods_sealed_def)
  moreover have "podSpecOf (objs' ! j) = podSpecOf (objs ! j)" if "j \<noteq> i" for j
    using that s by (simp add: o')
  ultimately show ?thesis using s sh ps shrunk_trans by metis
next
  case False
  then show ?thesis using r
    by (auto simp: secretObject_def pods_sealed_def split: option.splits if_splits)
qed

lemma secretObject_fold:
  assumes "fold (secretObject svc names) [0..<k] (objs, []) = (objs', data')"
    and "k \<le> length objs" and "\<forall>i < length objs. pods_fresh svc objs i"
  shows "shrunk objs objs' \<and> (\<forall>i < k. pods_sealed svc names objs' data' i) \<and>
    (\<forall>j. j \<ge> k \<or> (\<forall>ps. podSpecOf (objs ! j) \<noteq> Some (ps, svc)) \<longrightarrow> podSpecOf (objs' ! j) = podSpecOf (objs ! j))"
  using assms
proof (induction k arbitrary: objs' data')
  case (Suc k)
  obtain o1 d1 where f: "fold (secretObject svc names) [0..<k] (objs, []) = (o1, d1)" by force
  have r: "secretObject svc names k (o1, d1) = (objs', data')" using Suc.prems(1) f by simp
  note ih = Suc.IH [OF f Suc_leD [OF Suc.prems(2)] Suc.prems(3)]
  have l: "length o1 = length objs" using ih list_all2_lengthD by metis
  have "pods_fresh svc o1 k" using ih Suc.prems(2,3) by (simp add: pods_fresh_def Suc_le_eq)
  note s = secretObject_step [OF r _ this]
  have sh: "shrunk o1 objs'" "grown d1 data'" and k: "pods_sealed svc names objs' data' k"
    and same: "\<And>j. j \<noteq> k \<or> (\<forall>ps. podSpecOf (o1 ! j) \<noteq> Some (ps, svc)) \<Longrightarrow> podSpecOf (objs' ! j) = podSpecOf (o1 ! j)"
    using s Suc.prems(2) l by auto
  have "pods_sealed svc names objs' data' i" if "i < Suc k" for i
    using that k ih sh same pods_sealed_mono by (metis less_antisym nat_neq_iff)
  moreover have "shrunk objs objs'" using ih sh shrunk_trans by blast
  moreover have "podSpecOf (objs' ! j) = podSpecOf (objs ! j)"
    if "j \<ge> Suc k \<or> (\<forall>ps. podSpecOf (objs ! j) \<noteq> Some (ps, svc))" for j
    using that ih same [of j] by (metis Suc_leD Suc_n_not_le_n)
  ultimately show ?case by blast
qed (simp add: list_all2_refl)

definition backed :: "kobj list \<Rightarrow> string \<Rightarrow> string gomap \<Rightarrow> bool" where
  "backed created svc data \<longleftrightarrow> data = [] \<or>
     (\<exists>m. SecretObj m ''Opaque'' data \<in> set created \<and> om_name m = svc @ ''-secret'')"

lemma secretService_step:
  assumes "secretService (svc, names) (objs, created) = (objs', created')"
    and "\<forall>i < length objs. pods_fresh svc objs i"
  shows "shrunk objs objs' \<and> set created \<subseteq> set created' \<and>
    (\<exists>data. backed created' svc data \<and> (\<forall>i < length objs. pods_sealed svc names objs' data i)) \<and>
    (\<forall>j. (\<forall>ps. podSpecOf (objs ! j) \<noteq> Some (ps, svc)) \<longrightarrow> podSpecOf (objs' ! j) = podSpecOf (objs ! j))"
proof -
  obtain data where f: "fold (secretObject svc names) [0..<length objs] (objs, []) = (objs', data)"
    and c: "created' = (if data = [] then created
        else created @ [SecretObj \<lparr>om_apiVersion = ''v1'', om_kind = ''Secret'', om_name = svc @ ''-secret'',
               om_namespace = [], om_labels = [], om_annotations = []\<rparr> ''Opaque'' data])"
    using assms(1) by (auto simp: secretService_def split: prod.splits)
  have "backed created' svc data"
  proof (cases "data = []")
    case False
    then show ?thesis unfolding backed_def c by (intro disjI2 exI conjI) (simp, rule disjI1, rule refl, simp)
  qed (simp add: backed_def)
  moreover have "set created \<subseteq> set created'" by (auto simp: c)
  ultimately show ?thesis using secretObject_fold [OF f le_refl assms(2)] by meson
qed

lemma podSpecOf_shrinks: "shrinks ob ob' \<Longrightarrow> map_option snd (podSpecOf ob') = map_option snd (podSpecOf ob)"
  by (cases ob) (auto simp: shrinks_def podSpecOf_def setPodSpec_def)

lemma shrunk_name:
  assumes "shrunk objs objs'" and "i < length objs"
  shows "(\<exists>ps. podSpecOf (objs' ! i) = Some (ps, n)) \<longleftrightarrow> (\<exists>ps. podSpecOf (objs ! i) = Some (ps, n))"
proof -
  have "map_option snd (podSpecOf (objs' ! i)) = map_option snd (podSpecOf (objs ! i))"
    using assms list_all2_nthD podSpecOf_shrinks by metis
  then show ?thesis by (cases "podSpecOf (objs ! i)"; cases "podSpecOf (objs' ! i)") auto
qed

text \<open>The whole loop: a service's pods are sealed by its own round and not reopened by another.\<close>

lemma secretService_fold:
  assumes "fold secretService secrets (objs, created) = (objs', created')"
    and "distinct (map fst secrets)" and "\<forall>svc \<in> fst ` set secrets. \<forall>i < length objs. pods_fresh svc objs i"
  shows "shrunk objs objs' \<and> set created \<subseteq> set created' \<and>
    (\<forall>(svc, names) \<in> set secrets. \<exists>data. backed created' svc data \<and>
       (\<forall>i < length objs. pods_sealed svc names objs' data i)) \<and>
    (\<forall>j < length objs. (\<forall>ps. \<forall>svc \<in> fst ` set secrets. podSpecOf (objs ! j) \<noteq> Some (ps, svc)) \<longrightarrow>
       podSpecOf (objs' ! j) = podSpecOf (objs ! j))"
  using assms
proof (induction secrets arbitrary: objs created)
  case (Cons x secrets)
  obtain svc names where x: "x = (svc, names)" by force
  obtain o1 c1 where m: "secretService (svc, names) (objs, created) = (o1, c1)" by force
  have f: "fold secretService secrets (o1, c1) = (objs', created')" using Cons.prems(1) m x by simp
  have "\<forall>i < length objs. pods_fresh svc objs i" using Cons.prems(3) x by simp
  note s = secretService_step [OF m this]
  have l: "length o1 = length objs" using s list_all2_lengthD by metis
  have "pods_fresh svc' o1 i" if "svc' \<in> fst ` set secrets" "i < length o1" for svc' i
  proof (cases "\<exists>ps. podSpecOf (o1 ! i) = Some (ps, svc')")
    case True
    then have "\<nexists>ps. podSpecOf (objs ! i) = Some (ps, svc)"
      using Cons.prems(2) that x s l shrunk_name [of objs o1 i] by (metis distinct.simps(2) fst_conv list.set_map list.simps(9) option.inject prod.inject)
    then have "podSpecOf (o1 ! i) = podSpecOf (objs ! i)" using s by blast
    moreover have "pods_fresh svc' objs i" using Cons.prems(3) that l by auto
    ultimately show ?thesis by (simp add: pods_fresh_def)
  qed (simp add: pods_fresh_def)
  then have ih: "shrunk o1 objs'" "set c1 \<subseteq> set created'"
    "\<forall>(svc, names) \<in> set secrets. \<exists>data. backed created' svc data \<and> (\<forall>i < length objs. pods_sealed svc names objs' data i)"
    "\<And>j. j < length objs \<Longrightarrow> (\<forall>ps. \<forall>svc \<in> fst ` set secrets. podSpecOf (o1 ! j) \<noteq> Some (ps, svc)) \<Longrightarrow>
       podSpecOf (objs' ! j) = podSpecOf (o1 ! j)"
    using Cons.IH [OF f] Cons.prems(2) l by auto
  obtain data where d: "backed c1 svc data" "\<forall>i < length objs. pods_sealed svc names o1 data i" using s by blast
  have "pods_sealed svc names objs' data i" if "i < length objs" for i
  proof (cases "\<exists>ps. podSpecOf (o1 ! i) = Some (ps, svc)")
    case True
    then have "podSpecOf (objs' ! i) = podSpecOf (o1 ! i)"
      using ih(4) that Cons.prems(2) x by force
    then show ?thesis using pods_sealed_mono [of svc names o1 data i objs' data] d(2) that ih(1) by simp
  next
    case False
    then show ?thesis using shrunk_name [OF ih(1), of i] that l by (auto simp: pods_sealed_def)
  qed
  moreover have "backed created' svc data" using d(1) ih(2) by (auto simp: backed_def)
  moreover have "podSpecOf (objs' ! j) = podSpecOf (objs ! j)"
    if "j < length objs" "\<forall>ps. \<forall>svc \<in> fst ` set (x # secrets). podSpecOf (objs ! j) \<noteq> Some (ps, svc)" for j
  proof -
    have "podSpecOf (o1 ! j) = podSpecOf (objs ! j)" using s that x by simp
    then show ?thesis using ih(4) [OF that(1)] that(2) by simp
  qed
  ultimately show ?case using ih s x shrunk_trans by (auto 0 3)
qed simp

text \<open>Without any hypothesis, the pass only shrinks ConfigMaps and edits environments.\<close>

lemma secretContainer_shrunk:
  assumes "secretContainer names sn c (objs, data) = (c', objs', data')"
  shows "shrunk objs objs' \<and> c' = c\<lparr>ct_Env := ct_Env c'\<rparr> \<and> (\<forall>i. podSpecOf (objs' ! i) = podSpecOf (objs ! i))"
proof -
  obtain e1 d1 where m: "moveEnv names sn (ct_Env c) data = (e1, d1)" by force
  obtain e2 where f: "fold (moveFrom names sn) (ct_EnvFrom c) (e1, objs, d1) = (e2, objs', data')"
    and c': "c' = c\<lparr>ct_Env := e2\<rparr>"
    using assms(1) m by (auto simp: secretContainer_def split: prod.splits)
  show ?thesis
    using step_ok_fold [of "ct_EnvFrom c" names sn "moveFrom names sn" "(e1, objs, d1)"] moveFrom_ok f
    by (simp add: step_ok_def c')
qed

lemma secretContainers_shrunk:
  assumes "secretContainers names sn cs (objs, data) = (cs', objs', data')"
  shows "shrunk objs objs' \<and> list_all2 (\<lambda>c c'. c' = c\<lparr>ct_Env := ct_Env c'\<rparr>) cs cs' \<and>
    (\<forall>i. podSpecOf (objs' ! i) = podSpecOf (objs ! i))"
  using assms
proof (induction cs arbitrary: objs data cs')
  case (Cons c cs)
  obtain c1 o1 d1 where m: "secretContainer names sn c (objs, data) = (c1, o1, d1)" by (metis prod_cases3)
  obtain cs1 where r: "secretContainers names sn cs (o1, d1) = (cs1, objs', data')" and cs': "cs' = c1 # cs1"
    using Cons.prems(1) m by (auto split: prod.splits)
  show ?case using secretContainer_shrunk [OF m] Cons.IH [OF r] shrunk_trans by (simp add: cs') blast
qed simp

lemma secretObject_shrunk: "shrunk objs (fst (secretObject svc names i (objs, data)))"
proof (cases "\<exists>ps. podSpecOf (objs ! i) = Some (ps, svc)")
  case True
  then obtain ps where ps: "podSpecOf (objs ! i) = Some (ps, svc)" by blast
  obtain cs o1 d1 where cs: "secretContainers names (svc @ ''-secret'') (ps_Containers ps) (objs, data) = (cs, o1, d1)"
    by (metis prod_cases3)
  note s = secretContainers_shrunk [OF cs]
  have ps1: "podSpecOf (o1 ! i) = Some (ps, svc)" using s ps by simp
  have "env_edit ps (ps\<lparr>ps_Containers := cs\<rparr>)" using s by (simp add: env_edit_def)
  then have "shrinks (o1 ! i) (setPodSpec (ps\<lparr>ps_Containers := cs\<rparr>) (o1 ! i))"
    using ps1 by (cases "o1 ! i") (auto simp: shrinks_def podSpecOf_def)
  then have "shrunk objs (o1[i := setPodSpec (ps\<lparr>ps_Containers := cs\<rparr>) (o1 ! i)])"
    using s by (cases "i < length o1") (auto intro: shrunk_update simp: list_update_beyond)
  then show ?thesis using ps cs by (simp add: secretObject_def)
qed (auto simp: secretObject_def split: option.splits)

lemma secretService_shrunk: "shrunk (fst s) (fst (secretService x s))"
proof -
  obtain objs created svc names where e: "s = (objs, created)" "x = (svc, names)" by force
  have "shrunk (fst st) (fst (fold (secretObject svc names) is st))" for "is" st
  proof (induction "is" arbitrary: st)
    case (Cons i "is")
    show ?case using Cons [of "secretObject svc names i st"] secretObject_shrunk [of "fst st" svc names i "snd st"]
        shrunk_trans by auto
  qed simp
  from this [of "(objs, [])" "[0..<length objs]"] show ?thesis
    by (auto simp: e secretService_def split: prod.splits)
qed

lemma applySecrets_frame: "shrunk objs (fst (applySecrets objs secrets project ns))"
proof -
  have "shrunk (fst s) (fst (fold secretService secrets s))" for s
  proof (induction secrets arbitrary: s)
    case (Cons x secrets)
    show ?case using Cons [of "secretService x s"] secretService_shrunk [of s x] shrunk_trans by auto
  qed simp
  from this [of "(objs, [])"] show ?thesis by (auto simp: applySecrets_def split: prod.splits)
qed

lemma applySecrets_created:
  assumes "ob \<in> set (snd (applySecrets objs secrets project ns))"
  shows "owned project ob \<and> (\<exists>m t d. ob = SecretObj m t d)"
proof -
  have sec: "\<forall>ob \<in> set (snd (fold secretService secrets s)). \<exists>m t d. ob = SecretObj m t d"
    if "\<forall>ob \<in> set (snd s). \<exists>m t d. ob = SecretObj m t d" for s
    using that
  proof (induction secrets arbitrary: s)
    case (Cons x secrets)
    have "\<forall>ob \<in> set (snd (secretService x s)). \<exists>m t d. ob = SecretObj m t d"
      using Cons.prems by (auto simp: secretService_def split: prod.splits if_splits)
    from Cons.IH [OF this] show ?case by simp
  qed simp
  obtain o1 c1 where f: "fold secretService secrets (objs, []) = (o1, c1)" by force
  obtain m t d where "SecretObj m t d \<in> set c1" "ob = decorateObj project ns (SecretObj m t d)"
    using assms f sec [of "(objs, [])"] by (auto simp: applySecrets_def decorate_def split: if_splits)
  then show ?thesis using decorateObj_owned [of "SecretObj m t d"] by (auto simp: decorateObj_def)
qed

section \<open>What the pass achieves\<close>

lemma decorate_secret:
  assumes "SecretObj m t d \<in> set created"
  shows "\<exists>m'. SecretObj m' t d \<in> set (decorate created p ns) \<and> om_name m' = om_name m"
proof -
  have "decorateObj p ns (SecretObj m t d) \<in> set (decorate created p ns)" using assms by (simp add: decorate_def)
  then show ?thesis by (auto simp: decorateObj_def Let_def split: if_splits)
qed

text \<open>
  C2: after \<^verbatim>\<open>applySecrets\<close>, in every container of a service with marked variables, no marked variable
  has its value written out, no ConfigMap the container loads holds a marked key, and every reference
  to the service's Secret names a key of a Secret the pass creates under that name, for every order in
  which the services are visited.
\<close>

theorem applySecrets_sealed:
  assumes "applySecrets objs secrets project ns = (objs', created)"
    and "gomap_ok secrets" and "(svc, names) \<in> set secrets"
    and "\<forall>s \<in> fst ` set secrets. \<forall>i < length objs. pods_fresh s objs i"
    and "i < length objs" and "podSpecOf (objs' ! i) = Some (ps, svc)" and "c \<in> set (ps_Containers ps)"
  shows "(\<forall>e \<in> set (ct_Env c). ev_Name e \<in> set names \<longrightarrow> ev_ValueFrom e \<noteq> None) \<and>
    (\<forall>ef \<in> set (ct_EnvFrom c). \<forall>cm. ef_ConfigMapRef ef = Some cm \<longrightarrow> cm_keys objs' cm \<inter> set names = {}) \<and>
    (\<forall>e \<in> set (ct_Env c). \<forall>k. ev_ValueFrom e = Some (SecretKeyRef (svc @ ''-secret'') k) \<longrightarrow>
       (\<exists>m d. SecretObj m ''Opaque'' d \<in> set created \<and> om_name m = svc @ ''-secret'' \<and> k \<in> dom (map_of d)))"
proof -
  obtain c0 where f: "fold secretService secrets (objs, []) = (objs', c0)" and cr: "created = decorate c0 project ns"
    using assms(1,3) by (auto simp: applySecrets_def split: if_splits prod.splits)
  have "distinct (map fst secrets)" using assms(2) by (simp add: gomap_ok_def)
  from secretService_fold [OF f this assms(4)] assms(3)
  obtain data where b: "backed c0 svc data" and "\<forall>i < length objs. pods_sealed svc names objs' data i" by blast
  then have se: "sealed names (svc @ ''-secret'') objs' data c" using assms(5-7) by (auto simp: pods_sealed_def)
  have "\<exists>m d. SecretObj m ''Opaque'' d \<in> set created \<and> om_name m = svc @ ''-secret'' \<and> k \<in> dom (map_of d)"
    if "e \<in> set (ct_Env c)" "ev_ValueFrom e = Some (SecretKeyRef (svc @ ''-secret'') k)" for e k
  proof -
    have k: "k \<in> dom (map_of data)" using se that by (auto simp: sealed_def env_sealed_def)
    then have "data \<noteq> []" by auto
    with b obtain m where "SecretObj m ''Opaque'' data \<in> set c0" "om_name m = svc @ ''-secret''"
      by (auto simp: backed_def)
    from decorate_secret [OF this(1), of project ns] this(2) k show ?thesis unfolding cr by metis
  qed
  with se show ?thesis by (auto simp: sealed_def env_sealed_def cms_sealed_def)
qed

text \<open>Shared by the examples: a deployment that reads the ConfigMap \<^verbatim>\<open>env\<close> and writes a variable out.\<close>

definition sample_env :: "string \<Rightarrow> envVar list \<Rightarrow> kobj" where
  "sample_env name env = Deployment (sample_workload\<lparr>wl_meta := sample_meta ''Deployment'' name,
     wl_Pod := sample_pod\<lparr>ps_Containers := [sample_container\<lparr>ct_Env := env\<rparr>]\<rparr>\<rparr>)"

theorem applySecrets_sealed_witness:
  "\<exists>objs' created ps c.
     applySecrets [sample_env ''web'' [\<lparr>ev_Name = ''PW'', ev_Value = ''s3'', ev_ValueFrom = None\<rparr>],
         ConfigMap (sample_meta ''ConfigMap'' ''env'') [(''PW'', ''s4'')] JNull] [(''web'', [''PW''])] ''p'' ''n'' =
       (objs', created) \<and> podSpecOf (objs' ! 0) = Some (ps, ''web'') \<and> c \<in> set (ps_Containers ps) \<and>
     (\<forall>e \<in> set (ct_Env c). ev_Name e \<in> set [''PW''] \<longrightarrow> ev_ValueFrom e \<noteq> None)"
  (is "\<exists>objs' created ps c. applySecrets ?objs ?sec _ _ = _ \<and> _")
proof -
  obtain objs' created where r: "applySecrets ?objs ?sec ''p'' ''n'' = (objs', created)" by force
  have "(case applySecrets ?objs ?sec ''p'' ''n'' of (objs', _) \<Rightarrow>
      (case podSpecOf (objs' ! 0) of Some (ps, n) \<Rightarrow> n = ''web'' \<and> ps_Containers ps \<noteq> [] | None \<Rightarrow> False))"
    by code_simp
  then obtain ps c where p: "podSpecOf (objs' ! 0) = Some (ps, ''web'')" and c: "c \<in> set (ps_Containers ps)"
    using r by (auto split: option.splits simp: neq_Nil_conv) (metis list.set_intros(1))
  have "\<forall>s \<in> fst ` set ?sec. \<forall>i < length ?objs. pods_fresh s ?objs i"
    by (auto simp: pods_fresh_def no_refs_def podSpecOf_def sample_env_def sample_defs less_Suc_eq)
  from applySecrets_sealed [OF r _ _ this _ p c, of "[''PW'']"] r p c show ?thesis
    by (auto simp: gomap_ok_def)
qed

section \<open>Two surprises\<close>

text \<open>
  A variable that the service sets itself and that its env file also holds ends up with the env
  file's value: before the pass the container's own value \<^verbatim>\<open>own\<close> wins over \<^verbatim>\<open>envFrom\<close>, afterwards
  the Secret it refers to holds \<^verbatim>\<open>file\<close>.
\<close>

theorem applySecrets_inverts_precedence:
  "map (\<lambda>ob. case ob of SecretObj m t d \<Rightarrow> (om_name m, map_of d ''PW'') | _ \<Rightarrow> ([], None))
     (snd (applySecrets [sample_env ''web'' [\<lparr>ev_Name = ''PW'', ev_Value = ''own'', ev_ValueFrom = None\<rparr>],
         ConfigMap (sample_meta ''ConfigMap'' ''env'') [(''PW'', ''file'')] JNull] [(''web'', [''PW''])] ''p'' ''n''))
   = [(''web-secret'', Some ''file'')]"
  by code_simp

text \<open>
  When two services mark the same key of an env file they share, only the service visited first
  keeps the variable: the key leaves the ConfigMap in its round, and the second service ends up with
  no Secret and no variable of that name.
\<close>

theorem applySecrets_shared_key_lost:
  "(case applySecrets [sample_env ''a'' [], sample_env ''b'' [],
         ConfigMap (sample_meta ''ConfigMap'' ''env'') [(''PW'', ''x'')] JNull]
        [(''a'', [''PW'']), (''b'', [''PW''])] ''p'' ''n'' of
      (objs, created) \<Rightarrow> (map (\<lambda>ob. case podSpecOf ob of
           Some (ps, n) \<Rightarrow> map (\<lambda>c. map ev_Name (ct_Env c)) (ps_Containers ps) | None \<Rightarrow> []) objs,
         map (map_option om_name \<circ> objectMeta) created))
   = ([[[''PW'']], [[]], []], [Some ''a-secret''])"
  by code_simp

end
