(* ===== verification/Ingress_Pass.thy ===== *)
theory Ingress_Pass
  imports Secrets_Pass
begin

text \<open>
  \<^verbatim>\<open>applyIngressConfig\<close> of \<^verbatim>\<open>pkg/compose/compose.go\<close> with \<^verbatim>\<open>allIngressHosts\<close>,
  \<^verbatim>\<open>stripPrefixesFor\<close> and \<^verbatim>\<open>traefikStripPrefix\<close>: the TLS, class, path, port and middleware hints
  of a service reach the Ingress the transformer named after it, and a StripPrefix middleware is
  generated where one is asked for.

  The theorems: the certificate covers every host exactly once and a certificate of the user's own is
  never handed to cert-manager; the middlewares the Ingress names start with the generated one, which
  exists in that namespace, is owned by the project and never strips the bare root.
\<close>

section \<open>The pass\<close>

definition allIngressHosts :: "ingressSpec \<Rightarrow> string list" where
  "allIngressHosts spec =
     foldl (\<lambda>hosts r. if ir_Host r \<noteq> [] \<and> ir_Host r \<notin> set hosts then hosts @ [ir_Host r] else hosts)
       [] (is_Rules spec)"

definition rulePaths :: "ingressRule \<Rightarrow> ingressPath list" where
  "rulePaths r = (case ir_HTTP r of None \<Rightarrow> [] | Some ps \<Rightarrow> ps)"

definition stripPrefixesFor :: "ingressCfg \<Rightarrow> ingressSpec \<Rightarrow> string list" where
  "stripPrefixesFor cfg spec =
     (if ic_StripPrefixes cfg \<noteq> [] then ic_StripPrefixes cfg
      else if \<not> ic_StripFromPath cfg then []
      else foldl (\<lambda>out p. if ip_Path p = [] \<or> ip_Path p = ''/'' \<or> ip_Path p \<in> set out then out
                          else out @ [ip_Path p])
             [] (concat (map rulePaths (is_Rules spec))))"

definition traefikStripPrefix :: "string \<Rightarrow> string \<Rightarrow> string gomap \<Rightarrow> string list \<Rightarrow> kobj" where
  "traefikStripPrefix name namespace labels prefixes =
     Unstructured
       [(''apiVersion'', JStr ''traefik.io/v1alpha1''),
        (''kind'', JStr ''Middleware''),
        (''metadata'', JObj [(''name'', JStr name), (''namespace'', JStr namespace),
                             (''labels'', JObj (toStringMapIface labels))]),
        (''spec'', JObj [(''stripPrefix'', JObj [(''prefixes'', JArr (map JStr prefixes))])])]"

definition issuerAnnotation :: string where
  "issuerAnnotation = ''cert-manager.io/cluster-issuer''"

definition middlewaresAnnotation :: string where
  "middlewaresAnnotation = ''traefik.ingress.kubernetes.io/router.middlewares''"

definition ingressTLS :: "ingressCfg \<Rightarrow> objmeta \<Rightarrow> ingressSpec \<Rightarrow> objmeta \<times> ingressSpec" where
  "ingressTLS cfg m spec =
     (if ic_TLSSecret cfg \<noteq> [] then (m, spec\<lparr>is_TLS := [(allIngressHosts spec, ic_TLSSecret cfg)]\<rparr>)
      else if ic_TLS cfg \<noteq> [] then
        (m\<lparr>om_annotations := AList.update issuerAnnotation (ic_TLS cfg) (om_annotations m)\<rparr>,
         spec\<lparr>is_TLS := [(allIngressHosts spec, om_name m @ ''-tls'')]\<rparr>)
      else (m, spec))"

definition ingressPathStep :: "ingressCfg \<Rightarrow> ingressPath \<Rightarrow> ingressPath" where
  "ingressPathStep cfg p =
     (let p = (if ic_Path cfg \<noteq> [] then p\<lparr>ip_Path := ic_Path cfg\<rparr> else p)
      in if ic_Port cfg \<noteq> 0 \<and> ip_ServicePort p \<noteq> None
         then p\<lparr>ip_ServicePort := Some ([], int32 (ic_Port cfg))\<rparr> else p)"

definition ingressRules :: "ingressCfg \<Rightarrow> ingressSpec \<Rightarrow> ingressSpec" where
  "ingressRules cfg spec = spec\<lparr>is_Rules :=
     map (\<lambda>r. r\<lparr>ir_HTTP := map_option (map (ingressPathStep cfg)) (ir_HTTP r)\<rparr>) (is_Rules spec)\<rparr>"

definition middlewareRef :: "string \<Rightarrow> string \<Rightarrow> string" where
  "middlewareRef ns name = ns @ ''-'' @ name @ ''@kubernetescrd''"

definition ingressMiddlewares ::
    "ingressCfg \<Rightarrow> string \<Rightarrow> string \<Rightarrow> objmeta \<Rightarrow> ingressSpec \<Rightarrow> string list \<times> kobj list" where
  "ingressMiddlewares cfg project namespace m spec =
     (let ns = (if namespace = [] then ''default'' else namespace);
          prefixes = stripPrefixesFor cfg spec;
          name = om_name m @ ''-stripprefix'';
          strip = (if prefixes = [] then ([], [])
                   else ([middlewareRef ns name], [traefikStripPrefix name ns (ownershipLabels project) prefixes]))
      in (fst strip @ map (middlewareRef ns) (ic_Middlewares cfg), snd strip))"

definition configureIngress ::
    "ingressCfg \<Rightarrow> string \<Rightarrow> string \<Rightarrow> objmeta \<Rightarrow> ingressSpec \<Rightarrow> (objmeta \<times> ingressSpec) \<times> kobj list" where
  "configureIngress cfg project namespace m spec =
     (let spec = (if ic_Class cfg \<noteq> [] then spec\<lparr>is_Class := Some (ic_Class cfg)\<rparr> else spec);
          (m, spec) = ingressTLS cfg m spec;
          spec = ingressRules cfg spec;
          (refs, generated) = ingressMiddlewares cfg project namespace m spec;
          m = (if refs = [] then m
               else m\<lparr>om_annotations := AList.update middlewaresAnnotation (Join refs '','') (om_annotations m)\<rparr>)
      in ((m, spec), generated))"

definition ingressStep :: "ingressCfg gomap \<Rightarrow> string \<Rightarrow> string \<Rightarrow> kobj \<Rightarrow> kobj \<times> kobj list" where
  "ingressStep cfgs project namespace ob = (case ob of
     Ingress m spec \<Rightarrow> (case map_of cfgs (om_name m) of
        None \<Rightarrow> (ob, [])
      | Some cfg \<Rightarrow> (case configureIngress cfg project namespace m spec of
           ((m', spec'), generated) \<Rightarrow> (Ingress m' spec', generated)))
   | _ \<Rightarrow> (ob, []))"

definition applyIngressConfig ::
    "kobj list \<Rightarrow> ingressCfg gomap \<Rightarrow> string \<Rightarrow> string \<Rightarrow> kobj list \<times> kobj list" where
  "applyIngressConfig objects cfgs project namespace =
     (if cfgs = [] then (objects, [])
      else (map (fst \<circ> ingressStep cfgs project namespace) objects,
            concat (map (snd \<circ> ingressStep cfgs project namespace) objects)))"

section \<open>Collecting without duplicates\<close>

lemma collect_distinct:
  assumes "distinct acc"
  shows "distinct (foldl (\<lambda>out x. if P (g x) \<and> g x \<notin> set out then out @ [g x] else out) acc xs) \<and>
    set (foldl (\<lambda>out x. if P (g x) \<and> g x \<notin> set out then out @ [g x] else out) acc xs) =
      set acc \<union> {y \<in> g ` set xs. P y}"
  using assms by (induction xs arbitrary: acc) auto

lemma allIngressHosts_set:
  "distinct (allIngressHosts spec) \<and> set (allIngressHosts spec) = {h \<in> ir_Host ` set (is_Rules spec). h \<noteq> []}"
  using collect_distinct [of "[]" "\<lambda>h. h \<noteq> []" ir_Host "is_Rules spec"] by (simp add: allIngressHosts_def)

lemma stripPrefixesFor_path:
  assumes "ic_StripPrefixes cfg = []" and "ic_StripFromPath cfg"
  shows "distinct (stripPrefixesFor cfg spec) \<and>
    set (stripPrefixesFor cfg spec) = {p \<in> ip_Path ` (\<Union>r \<in> set (is_Rules spec). set (rulePaths r)). p \<noteq> [] \<and> p \<noteq> ''/''}"
proof -
  have "stripPrefixesFor cfg spec =
    foldl (\<lambda>out x. if (ip_Path x \<noteq> [] \<and> ip_Path x \<noteq> ''/'') \<and> ip_Path x \<notin> set out then out @ [ip_Path x] else out)
      [] (concat (map rulePaths (is_Rules spec)))"
    unfolding stripPrefixesFor_def using assms by (auto intro!: foldl_cong)
  then show ?thesis
    using collect_distinct [of "[]" "\<lambda>h. h \<noteq> [] \<and> h \<noteq> ''/''" ip_Path "concat (map rulePaths (is_Rules spec))"]
    by simp
qed

section \<open>Identities\<close>

lemma ingressTLS_meta: "ingressTLS cfg m spec = (m', spec') \<Longrightarrow>
   om_name m' = om_name m \<and> om_labels m' = om_labels m \<and> om_kind m' = om_kind m \<and> om_namespace m' = om_namespace m \<and>
   is_Rules spec' = is_Rules spec"
  by (auto simp: ingressTLS_def split: if_splits)

lemma configureIngress_meta: "configureIngress cfg p ns m spec = ((m', spec'), g) \<Longrightarrow>
   om_name m' = om_name m \<and> om_labels m' = om_labels m \<and> om_kind m' = om_kind m \<and> om_namespace m' = om_namespace m"
  using ingressTLS_meta by (fastforce simp: configureIngress_def Let_def split: prod.splits if_splits)

lemma ingressStep_label: "obj_label (fst (ingressStep cfgs p ns ob)) k = obj_label ob k"
proof (cases ob)
  case (Ingress m spec)
  then show ?thesis
    using configureIngress_meta
    by (auto simp: ingressStep_def obj_label_def split: option.splits prod.splits)
qed (auto simp: ingressStep_def)

lemma traefik_owned: "owned project (traefikStripPrefix name ns (ownershipLabels project) prefixes)"
  using stamp_lookup [of project]
  by (auto simp: owned_def obj_label_def traefikStripPrefix_def unstructured_meta_def ownershipLabels_stamp)

lemma ingressStep_generated: "g \<in> set (snd (ingressStep cfgs p ns ob)) \<Longrightarrow> owned p g"
  using traefik_owned
  by (auto simp: ingressStep_def configureIngress_def ingressMiddlewares_def Let_def
      split: kobj.splits option.splits prod.splits if_splits)

lemma applyIngressConfig_owned:
  assumes "list_all (owned p) objs"
  shows "list_all (owned p) (fst (applyIngressConfig objs cfgs p ns)) \<and>
    list_all (owned p) (snd (applyIngressConfig objs cfgs p ns))"
  using assms ingressStep_label ingressStep_generated
  by (auto simp: applyIngressConfig_def list_all_iff owned_def)

section \<open>What reaches the Ingress\<close>

lemma configureIngress_tls:
  assumes "configureIngress cfg p ns m spec = ((m', spec'), g)"
  shows "is_TLS spec' = (if ic_TLSSecret cfg \<noteq> [] then [(allIngressHosts spec, ic_TLSSecret cfg)]
      else if ic_TLS cfg \<noteq> [] then [(allIngressHosts spec, om_name m @ ''-tls'')] else is_TLS spec)"
    and "map_of (om_annotations m') issuerAnnotation =
      (if ic_TLSSecret cfg = [] \<and> ic_TLS cfg \<noteq> [] then Some (ic_TLS cfg)
       else map_of (om_annotations m) issuerAnnotation)"
  using assms
  by (auto simp: configureIngress_def ingressTLS_def ingressRules_def allIngressHosts_def Let_def
      issuerAnnotation_def middlewaresAnnotation_def split: prod.splits if_splits)



text \<open>
  When an Ingress asks for its path to be stripped and some rule has a path of its own, the
  middleware list of the Ingress starts with the generated StripPrefix middleware, the middlewares the
  user names follow in order, and that middleware is among the generated objects, under that name and in the
  namespace the reference spells, owned by the project, stripping only paths the rules really have and
  never the bare root.
\<close>

theorem applyIngressConfig_strips:
  assumes "Ingress m spec \<in> set objs" and "map_of cfgs (om_name m) = Some cfg"
    and "ic_StripFromPath cfg" and "ic_StripPrefixes cfg = []"
    and "stripPrefixesFor cfg (ingressRules cfg spec) \<noteq> []"
  shows "\<exists>m' spec' prefixes. let ns' = (if ns = [] then ''default'' else ns); mw = om_name m @ ''-stripprefix'' in
    Ingress m' spec' \<in> set (fst (applyIngressConfig objs cfgs project ns)) \<and> om_name m' = om_name m \<and>
    map_of (om_annotations m') middlewaresAnnotation =
      Some (Join (map (middlewareRef ns') (mw # ic_Middlewares cfg)) '','') \<and>
    traefikStripPrefix mw ns' (ownershipLabels project) prefixes \<in> set (snd (applyIngressConfig objs cfgs project ns)) \<and>
    owned project (traefikStripPrefix mw ns' (ownershipLabels project) prefixes) \<and>
    prefixes \<noteq> [] \<and> distinct prefixes \<and>
    (\<forall>p \<in> set prefixes. p \<noteq> [] \<and> p \<noteq> ''/'' \<and>
       (\<exists>r \<in> set (is_Rules spec'). \<exists>q \<in> set (rulePaths r). ip_Path q = p))"
proof -
  define ns' where "ns' = (if ns = [] then ''default'' else ns)"
  obtain m' spec' g where c: "configureIngress cfg project ns m spec = ((m', spec'), g)" by (metis surj_pair)
  have step: "ingressStep cfgs project ns (Ingress m spec) = (Ingress m' spec', g)"
    using assms(2) c by (simp add: ingressStep_def)
  then have in1: "Ingress m' spec' \<in> set (fst (applyIngressConfig objs cfgs project ns))"
    using assms(1,2) by (force simp: applyIngressConfig_def)
  have in2: "set g \<subseteq> set (snd (applyIngressConfig objs cfgs project ns))"
    using assms(1,2) step by (force simp: applyIngressConfig_def)
  have rules: "is_Rules spec' = is_Rules (ingressRules cfg spec)"
    using c by (auto simp: configureIngress_def ingressRules_def ingressTLS_def Let_def split: prod.splits if_splits)
  have st: "stripPrefixesFor cfg spec' = stripPrefixesFor cfg (ingressRules cfg spec)"
    by (simp add: stripPrefixesFor_def rules)
  have g: "g = [traefikStripPrefix (om_name m @ ''-stripprefix'') ns' (ownershipLabels project) (stripPrefixesFor cfg spec')]"
    and an: "map_of (om_annotations m') middlewaresAnnotation =
      Some (Join (map (middlewareRef ns') ((om_name m @ ''-stripprefix'') # ic_Middlewares cfg)) '','')"
    using c assms(5) st unfolding ns'_def
    by (auto simp: configureIngress_def ingressTLS_def ingressMiddlewares_def ingressRules_def stripPrefixesFor_def
        Let_def split: prod.splits if_splits)
  have "om_name m' = om_name m" using configureIngress_meta [OF c] by simp
  moreover have "distinct (stripPrefixesFor cfg spec')" "\<forall>p \<in> set (stripPrefixesFor cfg spec'). p \<noteq> [] \<and> p \<noteq> ''/'' \<and>
       (\<exists>r \<in> set (is_Rules spec'). \<exists>q \<in> set (rulePaths r). ip_Path q = p)"
    using stripPrefixesFor_path [OF assms(4,3), of spec'] by auto
  ultimately show ?thesis
    using in1 in2 g an traefik_owned assms(5) st by (auto simp: Let_def ns'_def [symmetric] intro!: exI)
qed

theorem applyIngressConfig_strips_witness:
  "\<exists>m' spec' prefixes. Ingress m' spec' \<in> set (fst (applyIngressConfig
      [Ingress (sample_meta ''Ingress'' ''web'') \<lparr>is_Class = None, is_TLS = [],
         is_Rules = [\<lparr>ir_Host = ''a.io'', ir_HTTP = Some [\<lparr>ip_Path = ''/'', ip_ServicePort = None, ip_rest = JNull\<rparr>]\<rparr>],
         is_rest = JNull\<rparr>]
      [(''web'', ingressCfg0\<lparr>ic_Path := ''/api'', ic_StripFromPath := True, ic_Middlewares := [''auth'']\<rparr>)] ''p'' [])) \<and>
    map_of (om_annotations m') middlewaresAnnotation =
      Some ''default-web-stripprefix@kubernetescrd,default-auth@kubernetescrd'' \<and> prefixes \<noteq> []"
proof -
  let ?m = "sample_meta ''Ingress'' ''web''"
  let ?spec = "\<lparr>is_Class = None, is_TLS = [],
         is_Rules = [\<lparr>ir_Host = ''a.io'', ir_HTTP = Some [\<lparr>ip_Path = ''/'', ip_ServicePort = None, ip_rest = JNull\<rparr>]\<rparr>],
         is_rest = JNull\<rparr>"
  let ?cfg = "ingressCfg0\<lparr>ic_Path := ''/api'', ic_StripFromPath := True, ic_Middlewares := [''auth'']\<rparr>"
  have ne: "stripPrefixesFor ?cfg (ingressRules ?cfg ?spec) \<noteq> []" by code_simp
  have j: "Join (map (middlewareRef ''default'') ((om_name ?m @ ''-stripprefix'') # ic_Middlewares ?cfg)) '','' =
      ''default-web-stripprefix@kubernetescrd,default-auth@kubernetescrd''" by code_simp
  have "Ingress ?m ?spec \<in> set [Ingress ?m ?spec]" "map_of [(''web'', ?cfg)] (om_name ?m) = Some ?cfg"
    by (simp_all add: sample_meta_def)
  from applyIngressConfig_strips [OF this _ _ ne, of "[]" "''p''"] j show ?thesis
    unfolding Let_def by (simp only: if_True simp_thms) (auto simp: ingressCfg0_def)
qed

end
