(* ===== verification/Progressive.thy ===== *)
theory Progressive
  imports Ingress_Pass
begin

text \<open>
  Progressive delivery in \<^verbatim>\<open>pkg/compose/compose.go\<close>: \<^verbatim>\<open>convertRollouts\<close> and
  \<^verbatim>\<open>deploymentToRollout\<close> (Argo Rollouts), \<^verbatim>\<open>applyStrategy\<close>, \<^verbatim>\<open>buildAutoscalers\<close> and
  \<^verbatim>\<open>autoscaleMetrics\<close>. The typed-to-JSON converter \<^verbatim>\<open>ToUnstructured\<close> is an argument; an
  \<^verbatim>\<open>intstr\<close> value is kept as the text it is parsed from.

  The theorems: a rollout replaces its Deployment one for one and keeps its name, namespace,
  labels, selector and template; every autoscaler targets the workload the service really has,
  with bounds the API accepts.
\<close>

section \<open>Rollouts\<close>

definition jget :: "obj \<Rightarrow> string \<Rightarrow> iface" where
  "jget m k = (case map_of m k of Some v \<Rightarrow> v | None \<Rightarrow> JNull)"

definition dropTemplateTimestamp :: "obj \<Rightarrow> obj" where
  "dropTemplateTimestamp spec = (case as_obj (map_of spec ''template'') of
     None \<Rightarrow> spec
   | Some tmpl \<Rightarrow> (case as_obj (map_of tmpl ''metadata'') of
        None \<Rightarrow> spec
      | Some md \<Rightarrow> AList.update ''template''
          (JObj (AList.update ''metadata'' (JObj (AList.delete ''creationTimestamp'' md)) tmpl)) spec))"

definition rolloutStrategy :: "string \<Rightarrow> string \<Rightarrow> bool \<Rightarrow> error + obj" where
  "rolloutStrategy name kind hasService =
     (if kind = ''canary'' then
        Inr [(''canary'', JObj [(''steps'', JArr
          [JObj [(''setWeight'', JInt 50)],
           JObj [(''pause'', JObj [(''duration'', JInt 15)])]])])]
      else if kind = ''bluegreen'' then
        (if \<not> hasService then Inl (RolloutNeedsService name)
         else Inr [(''blueGreen'', JObj [(''activeService'', JStr name), (''autoPromotionEnabled'', JBool True)])])
      else Inl (RolloutUnknownKind name kind))"

definition deploymentToRollout ::
    "(workload \<Rightarrow> obj option) \<Rightarrow> workload \<Rightarrow> string \<Rightarrow> bool \<Rightarrow> error + kobj" where
  "deploymentToRollout toUnstructured dep kind hasService =
     (case toUnstructured dep of
        None \<Rightarrow> Inl ToUnstructuredError
      | Some m \<Rightarrow> (case as_obj (map_of m ''spec'') of
           None \<Rightarrow> Inl (RolloutNoSpec (om_name (wl_meta dep)))
         | Some spec0 \<Rightarrow>
             let spec = dropTemplateTimestamp spec0 in
             rbind (rolloutStrategy (om_name (wl_meta dep)) kind hasService) (\<lambda>strategy.
               Inr (Unstructured
                 [(''apiVersion'', JStr ''argoproj.io/v1alpha1''),
                  (''kind'', JStr ''Rollout''),
                  (''metadata'', JObj
                     [(''name'', JStr (om_name (wl_meta dep))),
                      (''namespace'', JStr (om_namespace (wl_meta dep))),
                      (''labels'', JObj (toStringMapIface (om_labels (wl_meta dep))))]),
                  (''spec'', JObj
                     [(''replicas'', jget spec ''replicas''), (''selector'', jget spec ''selector''),
                      (''template'', jget spec ''template''), (''strategy'', JObj strategy)])]))))"

definition hasServiceNamed :: "string \<Rightarrow> kobj list \<Rightarrow> bool" where
  "hasServiceNamed n objects =
     list_ex (\<lambda>ob. case ob of ServiceObj m r \<Rightarrow> om_name m = n | _ \<Rightarrow> False) objects"

definition rolloutObject ::
    "(workload \<Rightarrow> obj option) \<Rightarrow> kobj list \<Rightarrow> string gomap \<Rightarrow> kobj \<Rightarrow> error + kobj" where
  "rolloutObject toUnstructured objects cfgs ob = (case ob of
     Deployment dep \<Rightarrow> (case map_of cfgs (om_name (wl_meta dep)) of
        None \<Rightarrow> Inr ob
      | Some kind \<Rightarrow> deploymentToRollout toUnstructured dep kind (hasServiceNamed (om_name (wl_meta dep)) objects))
   | _ \<Rightarrow> Inr ob)"

definition rolloutNames :: "string gomap \<Rightarrow> kobj list \<Rightarrow> string list" where
  "rolloutNames cfgs objects = concat (map (\<lambda>ob. case ob of
     Deployment dep \<Rightarrow> (case map_of cfgs (om_name (wl_meta dep)) of None \<Rightarrow> [] | Some _ \<Rightarrow> [om_name (wl_meta dep)])
   | _ \<Rightarrow> []) objects)"

definition convertRollouts ::
    "(workload \<Rightarrow> obj option) \<Rightarrow> kobj list \<Rightarrow> string gomap \<Rightarrow> error + kobj list \<times> string list" where
  "convertRollouts toUnstructured objects cfgs =
     (if cfgs = [] then Inr (objects, [])
      else rbind (mapM (rolloutObject toUnstructured objects cfgs) objects)
             (\<lambda>out. Inr (out, rolloutNames cfgs objects)))"

section \<open>Update strategy\<close>

definition strategyStep :: "strategyCfg \<Rightarrow> workload \<Rightarrow> workload" where
  "strategyStep cfg dep =
     (let dep = (if sc_MinReadySeconds cfg > 0 then dep\<lparr>wl_MinReadySeconds := sc_MinReadySeconds cfg\<rparr> else dep);
          dep = (if sc_ProgressDeadline cfg > 0 then dep\<lparr>wl_ProgressDeadline := Some (sc_ProgressDeadline cfg)\<rparr> else dep)
      in if sc_Type cfg = ''recreate'' then dep\<lparr>wl_Strategy := Recreate\<rparr>
         else let surge = (if sc_MaxSurge cfg \<noteq> [] then Some (sc_MaxSurge cfg) else None);
                  unavailable = (if sc_MaxUnavailable cfg \<noteq> [] then Some (sc_MaxUnavailable cfg) else None)
              in dep\<lparr>wl_Strategy := RollingUpdate
                   (if surge \<noteq> None \<or> unavailable \<noteq> None then Some (surge, unavailable) else None)\<rparr>)"

definition applyStrategy :: "kobj list \<Rightarrow> strategyCfg gomap \<Rightarrow> kobj list" where
  "applyStrategy objects cfgs = map (\<lambda>ob. case ob of
     Deployment dep \<Rightarrow> (case map_of cfgs (om_name (wl_meta dep)) of
        None \<Rightarrow> ob | Some cfg \<Rightarrow> Deployment (strategyStep cfg dep))
   | _ \<Rightarrow> ob) objects"

section \<open>Autoscalers\<close>

definition autoscaleMetrics :: "int \<Rightarrow> int \<Rightarrow> (string \<times> int) list" where
  "autoscaleMetrics cpu mem =
     (if cpu > 0 then [(''cpu'', cpu)] else []) @ (if mem > 0 then [(''memory'', mem)] else [])"

definition kindStep :: "kobj \<Rightarrow> string gomap \<Rightarrow> string gomap" where
  "kindStep ob kindOf = (case ob of
     Deployment w \<Rightarrow> AList.update (om_name (wl_meta w)) ''Deployment'' kindOf
   | StatefulSet w \<Rightarrow> (if map_of kindOf (om_name (wl_meta w)) = None
       then AList.update (om_name (wl_meta w)) ''StatefulSet'' kindOf else kindOf)
   | _ \<Rightarrow> kindOf)"

definition buildHPA :: "string gomap \<Rightarrow> string list \<Rightarrow> string \<Rightarrow> autoscaleCfg \<Rightarrow> kobj" where
  "buildHPA kindOf rolloutSvcs svc cfg =
     (let kind = (case map_of kindOf svc of Some k \<Rightarrow> k | None \<Rightarrow> ''Deployment'');
          (apiVersion, kind) = (if svc \<in> set rolloutSvcs then (''argoproj.io/v1alpha1'', ''Rollout'') else (''apps/v1'', kind));
          mn = int32 (as_Min cfg);
          mn = (if mn < 1 then 1 else mn);
          cpu = int32 (as_CPU cfg); mem = int32 (as_Memory cfg);
          cpu = (if cpu = 0 \<and> mem = 0 then 80 else cpu)
      in HPA \<lparr>om_apiVersion = ''autoscaling/v2'', om_kind = ''HorizontalPodAutoscaler'', om_name = svc,
              om_namespace = [], om_labels = [], om_annotations = []\<rparr>
            \<lparr>hp_TargetAPIVersion = apiVersion, hp_TargetKind = kind, hp_TargetName = svc,
             hp_Min = mn, hp_Max = int32 (as_Max cfg), hp_Metrics = autoscaleMetrics cpu mem\<rparr>)"

definition buildAutoscalers ::
    "kobj list \<Rightarrow> autoscaleCfg gomap \<Rightarrow> string \<Rightarrow> string \<Rightarrow> string list \<Rightarrow> kobj list" where
  "buildAutoscalers objects cfgs project namespace rolloutSvcs =
     (if cfgs = [] then []
      else decorate (map (\<lambda>(svc, cfg). buildHPA (fold kindStep objects []) rolloutSvcs svc cfg) cfgs)
             project namespace)"

section \<open>Rollouts replace Deployments one for one\<close>

lemma deploymentToRollout_shape:
  assumes "deploymentToRollout toU dep kind hs = Inr ro" and "toU dep = Some m" and "as_obj (map_of m ''spec'') = Some spec"
  shows "\<exists>strategy. ro = Unstructured
    [(''apiVersion'', JStr ''argoproj.io/v1alpha1''), (''kind'', JStr ''Rollout''),
     (''metadata'', JObj [(''name'', JStr (om_name (wl_meta dep))), (''namespace'', JStr (om_namespace (wl_meta dep))),
        (''labels'', JObj (toStringMapIface (om_labels (wl_meta dep))))]),
     (''spec'', JObj [(''replicas'', jget (dropTemplateTimestamp spec) ''replicas''),
        (''selector'', jget (dropTemplateTimestamp spec) ''selector''),
        (''template'', jget (dropTemplateTimestamp spec) ''template''), (''strategy'', JObj strategy)])]"
  using assms by (auto simp: deploymentToRollout_def Let_def rbind_Inr_iff)

lemma deploymentToRollout_Inr:
  assumes "deploymentToRollout toU dep kind hs = Inr ro"
  obtains m spec where "toU dep = Some m" and "as_obj (map_of m ''spec'') = Some spec"
  using assms by (auto simp: deploymentToRollout_def split: option.splits)

lemma dropTemplateTimestamp_other:
  "k \<noteq> ''template'' \<Longrightarrow> jget (dropTemplateTimestamp spec) k = jget spec k"
  by (auto simp: jget_def dropTemplateTimestamp_def split: option.splits)

lemma jget_Cons [simp]: "jget ((k, v) # m) k' = (if k = k' then v else jget m k')"
  by (auto simp: jget_def)

lemma as_str_JStr [simp]: "as_str (map_option JStr v) = v"
  by (cases v) simp_all

lemma deploymentToRollout_label:
  assumes "deploymentToRollout toU dep kind hs = Inr ro"
  shows "obj_label ro k = map_of (om_labels (wl_meta dep)) k"
proof -
  obtain m spec where m: "toU dep = Some m" "as_obj (map_of m ''spec'') = Some spec"
    using deploymentToRollout_Inr [OF assms] .
  from deploymentToRollout_shape [OF assms m] show ?thesis
    by (auto simp: obj_label_def unstructured_meta_def)
qed

lemma rolloutObject_label: "rolloutObject toU objs cfgs ob = Inr ob' \<Longrightarrow> obj_label ob' k = obj_label ob k"
  by (auto simp: rolloutObject_def deploymentToRollout_label obj_label_meta split: kobj.splits option.splits)

lemma convertRollouts_owned:
  assumes "convertRollouts toU objs cfgs = Inr (objs', svcs)" and "list_all (owned p) objs"
  shows "list_all (owned p) objs'"
proof (cases "cfgs = []")
  case False
  then have "mapM (rolloutObject toU objs cfgs) objs = Inr objs'"
    using assms(1) by (auto simp: convertRollouts_def rbind_Inr_iff)
  then have "list_all2 (\<lambda>x y. rolloutObject toU objs cfgs x = Inr y) objs objs'" by (simp add: mapM_Inr_iff)
  then show ?thesis
    using assms(2) rolloutObject_label unfolding list_all_length list_all2_conv_all_nth owned_def by metis
qed (use assms in \<open>simp add: convertRollouts_def\<close>)

definition named_deployment :: "string \<Rightarrow> kobj \<Rightarrow> bool" where
  "named_deployment n ob = (case ob of Deployment w \<Rightarrow> om_name (wl_meta w) = n | _ \<Rightarrow> False)"

definition named_statefulset :: "string \<Rightarrow> kobj \<Rightarrow> bool" where
  "named_statefulset n ob = (case ob of StatefulSet w \<Rightarrow> om_name (wl_meta w) = n | _ \<Rightarrow> False)"

text \<open>\<open>u\<close> is the Rollout that stands for the Deployment \<open>dep\<close>, whose JSON specification is \<open>spec\<close>.\<close>

definition rollout_of :: "workload \<Rightarrow> obj \<Rightarrow> kobj \<Rightarrow> bool" where
  "rollout_of dep spec ob \<longleftrightarrow> (\<exists>u ro. ob = Unstructured u \<and> as_obj (map_of u ''spec'') = Some ro \<and>
     map_of u ''kind'' = Some (JStr ''Rollout'') \<and>
     map_of (unstructured_meta u) ''name'' = Some (JStr (om_name (wl_meta dep))) \<and>
     map_of (unstructured_meta u) ''namespace'' = Some (JStr (om_namespace (wl_meta dep))) \<and>
     (\<forall>k. obj_label ob k = map_of (om_labels (wl_meta dep)) k) \<and>
     jget ro ''replicas'' = jget spec ''replicas'' \<and> jget ro ''selector'' = jget spec ''selector'' \<and>
     jget ro ''template'' = jget (dropTemplateTimestamp spec) ''template'')"

lemma deploymentToRollout_of:
  assumes "deploymentToRollout toU dep kind hs = Inr ro" and "toU dep = Some m" and "as_obj (map_of m ''spec'') = Some spec"
  shows "rollout_of dep spec ro"
proof -
  obtain st where ro: "ro = Unstructured
    [(''apiVersion'', JStr ''argoproj.io/v1alpha1''), (''kind'', JStr ''Rollout''),
     (''metadata'', JObj [(''name'', JStr (om_name (wl_meta dep))), (''namespace'', JStr (om_namespace (wl_meta dep))),
        (''labels'', JObj (toStringMapIface (om_labels (wl_meta dep))))]),
     (''spec'', JObj [(''replicas'', jget (dropTemplateTimestamp spec) ''replicas''),
        (''selector'', jget (dropTemplateTimestamp spec) ''selector''),
        (''template'', jget (dropTemplateTimestamp spec) ''template''), (''strategy'', JObj st)])]"
    using deploymentToRollout_shape [OF assms] by blast
  have "obj_label ro k = map_of (om_labels (wl_meta dep)) k" for k
    by (rule deploymentToRollout_label [OF assms(1)])
  then show ?thesis
    unfolding rollout_of_def by (auto simp: ro unstructured_meta_def dropTemplateTimestamp_other)
qed

lemma rolloutNames_set: "set (rolloutNames cfgs objs) = {n \<in> dom (map_of cfgs). list_ex (named_deployment n) objs}"
proof (induction objs)
  case (Cons ob objs)
  have "rolloutNames cfgs (ob # objs) = rolloutNames cfgs [ob] @ rolloutNames cfgs objs"
    by (simp add: rolloutNames_def)
  moreover have "set (rolloutNames cfgs [ob]) = {n \<in> dom (map_of cfgs). named_deployment n ob}"
  proof (cases ob)
    case (Deployment w)
    then show ?thesis by (cases "map_of cfgs (om_name (wl_meta w))") (auto simp: rolloutNames_def named_deployment_def)
  qed (simp_all add: rolloutNames_def named_deployment_def)
  ultimately show ?case using Cons by auto
qed (simp add: rolloutNames_def)

text \<open>
  C37: \<^verbatim>\<open>convertRollouts\<close> replaces, in place, exactly the Deployments of the services that ask for it:
  each becomes a Rollout with the Deployment's name, namespace, labels, replicas, selector and
  template (less the null timestamp the Rollout schema rejects), every other object is untouched, the
  reported names are the converted ones, and a blue-green service really has a Service.
\<close>

theorem convertRollouts_replaces:
  assumes "convertRollouts toU objs cfgs = Inr (objs', svcs)"
  shows "length objs' = length objs \<and>
    (\<forall>i < length objs. case objs ! i of
        Deployment dep \<Rightarrow>
          (case map_of cfgs (om_name (wl_meta dep)) of
             None \<Rightarrow> objs' ! i = objs ! i
           | Some kind \<Rightarrow> (\<exists>m spec. toU dep = Some m \<and> as_obj (map_of m ''spec'') = Some spec \<and> rollout_of dep spec (objs' ! i)) \<and>
               (kind = ''canary'' \<or> kind = ''bluegreen'' \<and> hasServiceNamed (om_name (wl_meta dep)) objs))
      | _ \<Rightarrow> objs' ! i = objs ! i) \<and>
    set svcs = {n \<in> dom (map_of cfgs). list_ex (named_deployment n) objs}"
proof (cases "cfgs = []")
  case True
  then show ?thesis using assms by (auto simp: convertRollouts_def split: kobj.splits)
next
  case False
  then have m: "mapM (rolloutObject toU objs cfgs) objs = Inr objs'" and sv: "svcs = rolloutNames cfgs objs"
    using assms by (auto simp: convertRollouts_def rbind_Inr_iff)
  then have l: "length objs' = length objs" and st: "\<And>i. i < length objs \<Longrightarrow> rolloutObject toU objs cfgs (objs ! i) = Inr (objs' ! i)"
    by (auto simp: mapM_Inr_iff list_all2_conv_all_nth)
  have kind: "kind = ''canary'' \<or> kind = ''bluegreen'' \<and> hs" if "deploymentToRollout toU dep kind hs = Inr ro" for dep kind hs ro
    using that by (auto simp: deploymentToRollout_def rolloutStrategy_def Let_def rbind_Inr_iff split: option.splits if_splits)
  have "case objs ! i of
        Deployment dep \<Rightarrow>
          (case map_of cfgs (om_name (wl_meta dep)) of
             None \<Rightarrow> objs' ! i = objs ! i
           | Some kind \<Rightarrow> (\<exists>m spec. toU dep = Some m \<and> as_obj (map_of m ''spec'') = Some spec \<and> rollout_of dep spec (objs' ! i)) \<and>
               (kind = ''canary'' \<or> kind = ''bluegreen'' \<and> hasServiceNamed (om_name (wl_meta dep)) objs))
      | _ \<Rightarrow> objs' ! i = objs ! i" if "i < length objs" for i
  proof (cases "objs ! i")
    case (Deployment dep)
    show ?thesis
    proof (cases "map_of cfgs (om_name (wl_meta dep))")
      case None
      then have "objs' ! i = Deployment dep" using st [OF that] Deployment by (simp add: rolloutObject_def)
      then show ?thesis using Deployment None by simp
    next
      case (Some kd)
      have r: "deploymentToRollout toU dep kd (hasServiceNamed (om_name (wl_meta dep)) objs) = Inr (objs' ! i)"
        using st [OF that] Deployment Some by (simp add: rolloutObject_def)
      obtain m spec where "toU dep = Some m" "as_obj (map_of m ''spec'') = Some spec"
        using deploymentToRollout_Inr [OF r] .
      with deploymentToRollout_of [OF r] kind [OF r] Deployment Some show ?thesis by auto
    qed
  qed (use st [OF that] in \<open>auto simp: rolloutObject_def split: kobj.splits\<close>)
  moreover have "set svcs = {n \<in> dom (map_of cfgs). list_ex (named_deployment n) objs}"
    unfolding sv by (rule rolloutNames_set)
  ultimately show ?thesis using l by blast
qed

section \<open>Autoscalers target what exists\<close>

lemma fold_kindStep:
  "map_of (fold kindStep objs k) n =
     (if list_ex (named_deployment n) objs then Some ''Deployment''
      else if map_of k n \<noteq> None then map_of k n
      else if list_ex (named_statefulset n) objs then Some ''StatefulSet'' else None)"
proof (induction objs arbitrary: k)
  case (Cons ob objs)
  have "map_of (kindStep ob k) n = (if named_deployment n ob then Some ''Deployment''
      else if map_of k n \<noteq> None then map_of k n else if named_statefulset n ob then Some ''StatefulSet'' else None)"
    by (cases ob) (simp_all add: kindStep_def named_deployment_def named_statefulset_def update_conv')
  then show ?case by (simp add: Cons.IH)
qed simp

text \<open>
  The autoscaler of a service carries the ownership labels, targets the Rollout when the service
  became one and otherwise the Deployment or StatefulSet that is really among the objects (a Deployment
  first), and has bounds the API accepts: at least one replica, no more than the maximum asked for.
\<close>

theorem buildAutoscalers_targets:
  assumes "(svc, cfg) \<in> set cfgs" and "0 < as_Max cfg" and "as_Max cfg < 2 ^ 31"
    and "- (2 ^ 31) \<le> as_Min cfg" and "as_Min cfg \<le> as_Max cfg"
    and "svc \<in> set rolloutSvcs \<or> list_ex (named_deployment svc) objs \<or> list_ex (named_statefulset svc) objs"
  shows "\<exists>m spec. HPA m spec \<in> set (buildAutoscalers objs cfgs project ns rolloutSvcs) \<and>
    om_name m = svc \<and> owned project (HPA m spec) \<and> hp_TargetName spec = svc \<and>
    hp_Max spec = as_Max cfg \<and> 1 \<le> hp_Min spec \<and> hp_Min spec \<le> hp_Max spec \<and>
    (if svc \<in> set rolloutSvcs then hp_TargetKind spec = ''Rollout''
     else if list_ex (named_deployment svc) objs then hp_TargetKind spec = ''Deployment''
     else hp_TargetKind spec = ''StatefulSet'' \<and> list_ex (named_statefulset svc) objs)"
proof -
  obtain m spec where h: "buildHPA (fold kindStep objs []) rolloutSvcs svc cfg = HPA m spec"
    by (cases "svc \<in> set rolloutSvcs") (auto simp: buildHPA_def Let_def)
  obtain m' where d: "decorateObj project ns (HPA m spec) = HPA m' spec" and n: "om_name m' = om_name m"
    by (auto simp: decorateObj_def Let_def)
  have "HPA m' spec \<in> set (buildAutoscalers objs cfgs project ns rolloutSvcs)"
    using assms(1) h d by (force simp: buildAutoscalers_def decorate_def)
  moreover have "owned project (HPA m' spec)" using decorateObj_owned [of "HPA m spec" project ns] d by simp
  moreover have "om_name m = svc" "hp_TargetName spec = svc" using h by (auto simp: buildHPA_def Let_def split: if_splits)
  moreover have "hp_Max spec = as_Max cfg" "1 \<le> hp_Min spec \<and> hp_Min spec \<le> as_Max cfg"
    using h assms(2-5) int32_id [of "as_Max cfg"] int32_id [of "as_Min cfg"] by (auto simp: buildHPA_def Let_def split: if_splits)
  moreover have "if svc \<in> set rolloutSvcs then hp_TargetKind spec = ''Rollout''
     else if list_ex (named_deployment svc) objs then hp_TargetKind spec = ''Deployment''
     else hp_TargetKind spec = ''StatefulSet'' \<and> list_ex (named_statefulset svc) objs"
    using h assms(6) by (auto simp: buildHPA_def Let_def fold_kindStep split: if_splits)
  ultimately show ?thesis by (intro exI [of _ m'] exI [of _ spec]) (simp add: n)
qed

theorem convertRollouts_replaces_witness:
  "\<exists>objs' svcs. convertRollouts (\<lambda>_. Some [(''spec'', JObj [(''replicas'', JInt 1)])])
       [Deployment sample_workload, ServiceObj (sample_meta ''Service'' ''web'') JNull] [(''web'', ''bluegreen'')] = Inr (objs', svcs) \<and>
     length objs' = 2 \<and> set svcs = {''web''}"
proof -
  let ?toU = "\<lambda>_. Some [(''spec'', JObj [(''replicas'', JInt 1)])]"
  let ?objs = "[Deployment sample_workload, ServiceObj (sample_meta ''Service'' ''web'') JNull]"
  obtain objs' svcs where r: "convertRollouts ?toU ?objs [(''web'', ''bluegreen'')] = Inr (objs', svcs)"
  proof -
    have "\<not> isl (convertRollouts ?toU ?objs [(''web'', ''bluegreen'')])" by code_simp
    then show thesis using that by (cases "convertRollouts ?toU ?objs [(''web'', ''bluegreen'')]") auto
  qed
  have "{n \<in> dom (map_of [(''web'', ''bluegreen'')]). list_ex (named_deployment n) ?objs} = {''web''}"
    by (auto simp: named_deployment_def sample_defs)
  with convertRollouts_replaces [OF r] r show ?thesis by auto
qed

theorem buildAutoscalers_targets_witness:
  "\<exists>m spec. HPA m spec \<in> set (buildAutoscalers [Deployment sample_workload]
       [(''web'', \<lparr>as_Min = 0, as_Max = 5, as_CPU = 0, as_Memory = 0\<rparr>)] ''p'' ''n'' []) \<and>
     hp_TargetKind spec = ''Deployment'' \<and> 1 \<le> hp_Min spec \<and> hp_Min spec \<le> hp_Max spec"
  using buildAutoscalers_targets [of "''web''" "\<lparr>as_Min = 0, as_Max = 5, as_CPU = 0, as_Memory = 0\<rparr>"
      "[(''web'', \<lparr>as_Min = 0, as_Max = 5, as_CPU = 0, as_Memory = 0\<rparr>)]" "[]" "[Deployment sample_workload]" "''p''" "''n''"]
  by (auto simp: named_deployment_def sample_defs)

end
