(* ===== verification/Virtual_Machines.thy ===== *)
theory Virtual_Machines
  imports Progressive
begin

text \<open>
  \<^verbatim>\<open>pkg/compose/vm.go\<close>: \<^verbatim>\<open>convertVMs\<close> replaces the Deployment of each \<^verbatim>\<open>x-orcinus-vm\<close> service by
  a KubeVirt VirtualMachine (and a CDI DataVolume when it has a disk size), with
  \<^verbatim>\<open>deploymentToVM\<close>, \<^verbatim>\<open>vmMeta\<close>, \<^verbatim>\<open>vmDataVolume\<close>, \<^verbatim>\<open>vmAccessCredentials\<close>, \<^verbatim>\<open>vmUserData\<close>,
  \<^verbatim>\<open>vmCores\<close> and \<^verbatim>\<open>vmMemory\<close>. The conversion of an affinity to JSON is an argument.

  The theorems: a machine is one instance, boots the image the service names and keeps the
  pod labels, so every Service that selected the pods selects the machine; cores round up
  without losing CPU; the memory text denotes the bytes of the limit.
\<close>

section \<open>Machine size\<close>

definition int64 :: "int \<Rightarrow> int" where
  "int64 n = sint (word_of_int n :: 64 word)"

text \<open>Go's integer division truncates towards zero.\<close>

definition quot :: "int \<Rightarrow> int \<Rightarrow> int" where
  "quot a b = sgn a * sgn b * (\<bar>a\<bar> div \<bar>b\<bar>)"

definition limitOrRequest :: "string \<Rightarrow> container \<Rightarrow> quantity option" where
  "limitOrRequest k c = (case map_of (ct_Limits c) k of Some q \<Rightarrow> Some q | None \<Rightarrow> map_of (ct_Requests c) k)"

definition vmCores :: "container \<Rightarrow> int" where
  "vmCores c = (case limitOrRequest ''cpu'' c of
     None \<Rightarrow> 1
   | Some q \<Rightarrow>
       let milli = q_MilliValue q in
       if milli \<le> 0 then 1
       else let cores = quot (int64 (milli + 999)) 1000 in if cores < 1 then 1 else cores)"

definition vmMemory :: "container \<Rightarrow> string" where
  "vmMemory c = (case limitOrRequest ''memory'' c of
     None \<Rightarrow> ''1Gi''
   | Some q \<Rightarrow>
       if q_IsZero q then ''1Gi''
       else (case q_AsInt64 q of
          None \<Rightarrow> q_String q
        | Some b \<Rightarrow>
            if b > 0 \<and> b mod (1024 * 1048576) = 0 then Itoa (b div (1024 * 1048576)) @ ''Gi''
            else if b > 0 \<and> b mod 1048576 = 0 then Itoa (b div 1048576) @ ''Mi''
            else q_String q))"

section \<open>Building the machine\<close>

definition vmMeta :: "string \<Rightarrow> string \<Rightarrow> string gomap \<Rightarrow> obj" where
  "vmMeta name namespace labels =
     (let md = [(''name'', JStr name), (''labels'', JObj (toStringMapIface labels))]
      in if namespace \<noteq> [] then md @ [(''namespace'', JStr namespace)] else md)"

definition vmDataVolume :: "string \<Rightarrow> string \<Rightarrow> string gomap \<Rightarrow> string \<Rightarrow> string \<Rightarrow> kobj" where
  "vmDataVolume name namespace labels img sz = Unstructured
     [(''apiVersion'', JStr ''cdi.kubevirt.io/v1beta1''),
      (''kind'', JStr ''DataVolume''),
      (''metadata'', JObj (vmMeta name namespace labels)),
      (''spec'', JObj
         [(''source'', JObj [(''registry'', JObj [(''url'', JStr (''docker://'' @ img))])]),
          (''storage'', JObj
             [(''accessModes'', JArr [JStr ''ReadWriteOnce'']),
              (''resources'', JObj [(''requests'', JObj [(''storage'', JStr sz)])])])])]"

definition vmAccessCredentials :: "vmCfg \<Rightarrow> iface list option" where
  "vmAccessCredentials cfg =
     (if vc_SSHSecret cfg = [] then None
      else let propagation =
             (if vc_SSHUsers cfg \<noteq> []
              then [(''qemuGuestAgent'', JObj [(''users'', JArr (map JStr (vc_SSHUsers cfg)))])]
              else [(''noCloud'', JObj [])])
           in Some [JObj [(''sshPublicKey'', JObj
                [(''source'', JObj [(''secret'', JObj [(''secretName'', JStr (vc_SSHSecret cfg))])]),
                 (''propagationMethod'', JObj propagation)])]])"

definition vmUserData :: "string \<Rightarrow> vmCfg \<Rightarrow> string" where
  "vmUserData name cfg =
     (if vc_CloudInit cfg \<noteq> [] then vc_CloudInit cfg
      else ''#cloud-config'' @ [CHR 0x0A] @ ''hostname: '' @ name @ [CHR 0x0A])"

definition vmVolumes :: "workload \<Rightarrow> vmCfg \<Rightarrow> string \<Rightarrow> iface list \<times> kobj option" where
  "vmVolumes dep cfg img =
     (let name = om_name (wl_meta dep);
          cloudinit = JObj [(''name'', JStr ''cloudinit''),
            (''cloudInitNoCloud'', JObj [(''userData'', JStr (vmUserData name cfg))])]
      in if vc_DiskSize cfg = []
         then ([JObj [(''name'', JStr ''rootdisk''), (''containerDisk'', JObj [(''image'', JStr img)])], cloudinit],
               None)
         else ([JObj [(''name'', JStr ''rootdisk''),
                      (''dataVolume'', JObj [(''name'', JStr (name @ ''-root''))])], cloudinit],
               Some (vmDataVolume (name @ ''-root'') (om_namespace (wl_meta dep)) (om_labels (wl_meta dep))
                       img (vc_DiskSize cfg))))"

definition vmDevices :: obj where
  "vmDevices =
     [(''rng'', JObj []),
      (''disks'', JArr
         [JObj [(''name'', JStr ''rootdisk''), (''disk'', JObj [(''bus'', JStr ''virtio'')])],
          JObj [(''name'', JStr ''cloudinit''), (''disk'', JObj [(''bus'', JStr ''virtio'')])]]),
      (''interfaces'', JArr [JObj [(''name'', JStr ''default''), (''masquerade'', JObj [])]])]"

definition vmiSpec :: "(affinity \<Rightarrow> iface option) \<Rightarrow> workload \<Rightarrow> vmCfg \<Rightarrow> container \<Rightarrow> iface list \<Rightarrow> obj" where
  "vmiSpec affinityJSON dep cfg c volumes =
     (let pod = wl_Pod dep;
          spec = [(''domain'', JObj
                     [(''cpu'', JObj [(''cores'', JInt (vmCores c))]),
                      (''memory'', JObj [(''guest'', JStr (vmMemory c))]),
                      (''devices'', JObj vmDevices)]),
                  (''networks'', JArr [JObj [(''name'', JStr ''default''), (''pod'', JObj [])]]),
                  (''volumes'', JArr volumes)];
          spec = (if ps_NodeSelector pod \<noteq> []
                  then AList.update ''nodeSelector'' (JObj (toStringMapIface (ps_NodeSelector pod))) spec else spec);
          spec = (case Option.bind (ps_Affinity pod) affinityJSON of
                    Some m \<Rightarrow> AList.update ''affinity'' m spec | None \<Rightarrow> spec)
      in case vmAccessCredentials cfg of
           Some creds \<Rightarrow> AList.update ''accessCredentials'' (JArr creds) spec | None \<Rightarrow> spec)"

text \<open>The labels of the machine: the pod template's, or the selector's when the template has none.\<close>

definition vmLabels :: "workload \<Rightarrow> string gomap" where
  "vmLabels dep =
     (if wl_TemplateLabels dep = []
      then (case wl_Selector dep of Some s \<Rightarrow> s | None \<Rightarrow> wl_TemplateLabels dep)
      else wl_TemplateLabels dep)"

definition deploymentToVM ::
    "(affinity \<Rightarrow> iface option) \<Rightarrow> workload \<Rightarrow> vmCfg \<Rightarrow> error + kobj \<times> kobj option" where
  "deploymentToVM affinityJSON dep cfg =
     (let name = om_name (wl_meta dep) in
      if (case wl_Replicas dep of Some r \<Rightarrow> r > 1 | None \<Rightarrow> False)
      then Inl (VMReplicas name (the (wl_Replicas dep)))
      else case ps_Containers (wl_Pod dep) of
        [] \<Rightarrow> Inl (VMNoImage name)
      | c # _ \<Rightarrow>
          if ct_Image c = [] then Inl (VMImageRequired name)
          else let (volumes, dataVolume) = vmVolumes dep cfg (ct_Image c) in
            Inr (Unstructured
              [(''apiVersion'', JStr ''kubevirt.io/v1''),
               (''kind'', JStr ''VirtualMachine''),
               (''metadata'', JObj (vmMeta name (om_namespace (wl_meta dep)) (om_labels (wl_meta dep)))),
               (''spec'', JObj
                  [(''runStrategy'', JStr (vc_RunStrategy cfg)),
                   (''template'', JObj
                      [(''metadata'', JObj [(''labels'', JObj (toStringMapIface (vmLabels dep)))]),
                       (''spec'', JObj (vmiSpec affinityJSON dep cfg c volumes))])])], dataVolume))"

definition vmObject ::
    "(affinity \<Rightarrow> iface option) \<Rightarrow> vmCfg gomap \<Rightarrow> kobj \<Rightarrow> error + kobj list \<times> string list" where
  "vmObject affinityJSON cfgs ob = (case ob of
     Deployment dep \<Rightarrow> (case map_of cfgs (om_name (wl_meta dep)) of
        None \<Rightarrow> Inr ([ob], [])
      | Some cfg \<Rightarrow> rbind (deploymentToVM affinityJSON dep cfg) (\<lambda>(vm, dv).
          Inr (vm # (case dv of Some d \<Rightarrow> [d] | None \<Rightarrow> []), [om_name (wl_meta dep)])))
   | _ \<Rightarrow> Inr ([ob], []))"

definition convertVMs ::
    "(affinity \<Rightarrow> iface option) \<Rightarrow> kobj list \<Rightarrow> vmCfg gomap \<Rightarrow> error + kobj list" where
  "convertVMs affinityJSON objects cfgs =
     (if cfgs = [] then Inr objects
      else rbind (mapM (vmObject affinityJSON cfgs) objects) (\<lambda>parts.
        let converted = concat (map snd parts) in
        case find (\<lambda>name. name \<notin> set converted) (map fst cfgs) of
          Some name \<Rightarrow> Inl (VMNoDeployment name)
        | None \<Rightarrow> Inr (concat (map fst parts))))"

section \<open>Size of the machine\<close>

lemma int64_id: "- (2 ^ 63) \<le> n \<Longrightarrow> n < 2 ^ 63 \<Longrightarrow> int64 n = n"
  by (simp add: int64_def sint_sbintrunc' signed_take_bit_int_eq_self)

text \<open>
  A machine has at least one core, and the least whole number of cores that covers the CPU limit
  (or request) of its service.
\<close>

theorem vmCores_ceiling:
  assumes "limitOrRequest ''cpu'' c = Some q" and "0 < q_MilliValue q" and "q_MilliValue q < 2 ^ 63 - 999"
  shows "1 \<le> vmCores c \<and> q_MilliValue q \<le> 1000 * vmCores c \<and> 1000 * (vmCores c - 1) < q_MilliValue q"
proof -
  define n where "n = q_MilliValue q"
  have b: "0 < n" "n < 2 ^ 63 - 999" using assms by (simp_all add: n_def)
  have "int64 (n + 999) = n + 999" using b by (intro int64_id) simp_all
  moreover have "quot (n + 999) 1000 = (n + 999) div 1000" using b by (simp add: quot_def)
  moreover have "1 \<le> (n + 999) div 1000" using b by simp
  ultimately have v: "vmCores c = (n + 999) div 1000"
    using assms(1) b by (simp add: vmCores_def Let_def n_def [symmetric])
  define d r where "d = (n + 999) div 1000" and "r = (n + 999) mod 1000"
  have "1000 * d + r = n + 999" "0 \<le> r" "r < 1000" by (simp_all add: d_def r_def)
  then have "n \<le> 1000 * d" and "1000 * (d - 1) < n" by simp_all
  moreover have "vmCores c = d" using v by (simp add: d_def)
  ultimately show ?thesis using b by (simp add: n_def [symmetric])
qed

theorem vmCores_ceiling_witness:
  "1 \<le> vmCores (sample_container\<lparr>ct_Limits := [(''cpu'', \<lparr>q_String = ''2500m'', q_MilliValue = 2500,
      q_AsInt64 = None, q_IsZero = False\<rparr>)]\<rparr>) \<and>
   2500 \<le> 1000 * vmCores (sample_container\<lparr>ct_Limits := [(''cpu'', \<lparr>q_String = ''2500m'', q_MilliValue = 2500,
      q_AsInt64 = None, q_IsZero = False\<rparr>)]\<rparr>)"
  using vmCores_ceiling [of "sample_container\<lparr>ct_Limits := [(''cpu'', \<lparr>q_String = ''2500m'', q_MilliValue = 2500,
      q_AsInt64 = None, q_IsZero = False\<rparr>)]\<rparr>"]
  by (auto simp: limitOrRequest_def)

text \<open>The bytes a memory text with a binary suffix stands for.\<close>

definition mem_bytes :: "string \<Rightarrow> int option" where
  "mem_bytes s =
     (if HasSuffix s ''Gi'' then map_option (\<lambda>n. n * 2 ^ 30) (sscan_int (TrimSuffix s ''Gi''))
      else if HasSuffix s ''Mi'' then map_option (\<lambda>n. n * 2 ^ 20) (sscan_int (TrimSuffix s ''Mi''))
      else None)"

lemma suffix_simps [simp]:
  "HasSuffix (s @ t) t" "TrimSuffix (s @ t) t = s" "\<not> HasSuffix (s @ ''Mi'') ''Gi''"
  by (auto simp: HasSuffix_def TrimSuffix_def)

lemma in_int64_div: "0 < b \<Longrightarrow> b < 2 ^ 63 \<Longrightarrow> 0 < k \<Longrightarrow> in_int64 (b div k)"
  using zdiv_mono2 [of b 1 k] pos_imp_zdiv_nonneg_iff [of k b] by (simp add: in_int64_def int64_min_def int64_max_def)

text \<open>
  The guest memory of a machine is one gibibyte without a limit or request, and otherwise denotes
  exactly the bytes of the limit whenever these are whole mebibytes; any other quantity is passed on
  as its own text.
\<close>

theorem vmMemory_bytes:
  assumes "limitOrRequest ''memory'' c = Some q" and "\<not> q_IsZero q" and "q_AsInt64 q = Some b"
    and "0 < b" and "b < 2 ^ 63"
  shows "(b mod 2 ^ 20 = 0 \<longrightarrow> mem_bytes (vmMemory c) = Some b) \<and>
    (b mod 2 ^ 20 \<noteq> 0 \<longrightarrow> vmMemory c = q_String q)"
proof (cases "b mod (1024 * 1048576) = 0")
  case True
  then have v: "vmMemory c = Itoa (b div (1024 * 1048576)) @ ''Gi''"
    using assms by (simp add: vmMemory_def)
  have "(1048576 :: int) dvd 1024 * 1048576" by simp
  with True have "b mod 1048576 = 0" using dvd_trans unfolding mod_eq_0_iff_dvd by blast
  moreover note v
  moreover have "sscan_int (Itoa (b div (1024 * 1048576))) = Some (b div (1024 * 1048576))"
    using assms by (intro sscan_int_Itoa in_int64_div) simp_all
  ultimately show ?thesis using True by (auto simp: mem_bytes_def)
next
  case False
  have "sscan_int (Itoa (b div 1048576)) = Some (b div 1048576)"
    using assms by (intro sscan_int_Itoa in_int64_div) simp_all
  moreover have "vmMemory c = (if b mod 1048576 = 0 then Itoa (b div 1048576) @ ''Mi'' else q_String q)"
    using assms False by (simp add: vmMemory_def)
  ultimately show ?thesis by (auto simp: mem_bytes_def)
qed

theorem vmMemory_bytes_witness:
  "mem_bytes (vmMemory (sample_container\<lparr>ct_Limits := [(''memory'', \<lparr>q_String = ''2147483648'',
      q_MilliValue = 2147483648000, q_AsInt64 = Some 2147483648, q_IsZero = False\<rparr>)]\<rparr>)) = Some 2147483648"
  using vmMemory_bytes [of "sample_container\<lparr>ct_Limits := [(''memory'', \<lparr>q_String = ''2147483648'',
      q_MilliValue = 2147483648000, q_AsInt64 = Some 2147483648, q_IsZero = False\<rparr>)]\<rparr>"]
  by (auto simp: limitOrRequest_def)

section \<open>Machines stand in for their Deployments\<close>

text \<open>The value at a path of keys.\<close>

fun jpath :: "iface \<Rightarrow> string list \<Rightarrow> iface option" where
  "jpath v [] = Some v"
| "jpath v (k # ks) = (case v of
     JObj m \<Rightarrow> (case map_of m k of Some w \<Rightarrow> jpath w ks | None \<Rightarrow> None)
   | _ \<Rightarrow> None)"

text \<open>
  \<open>u\<close> is the machine of the Deployment \<open>dep\<close>: its name and labels, a template that carries the labels
  the pods had, and a root disk with the image of the first container.
\<close>

definition root_disk :: "workload \<Rightarrow> vmCfg \<Rightarrow> container \<Rightarrow> iface list \<Rightarrow> kobj list \<Rightarrow> bool" where
  "root_disk dep cfg c vs objs \<longleftrightarrow>
     (if vc_DiskSize cfg = []
      then JObj [(''name'', JStr ''rootdisk''), (''containerDisk'', JObj [(''image'', JStr (ct_Image c))])] \<in> set vs
      else JObj [(''name'', JStr ''rootdisk''),
             (''dataVolume'', JObj [(''name'', JStr (om_name (wl_meta dep) @ ''-root''))])] \<in> set vs \<and>
           vmDataVolume (om_name (wl_meta dep) @ ''-root'') (om_namespace (wl_meta dep)) (om_labels (wl_meta dep))
             (ct_Image c) (vc_DiskSize cfg) \<in> set objs)"

definition machine_of :: "workload \<Rightarrow> vmCfg \<Rightarrow> kobj list \<Rightarrow> obj \<Rightarrow> bool" where
  "machine_of dep cfg objs u \<longleftrightarrow>
     jpath (JObj u) [''kind''] = Some (JStr ''VirtualMachine'') \<and>
     jpath (JObj u) [''metadata'', ''name''] = Some (JStr (om_name (wl_meta dep))) \<and>
     jpath (JObj u) [''spec'', ''runStrategy''] = Some (JStr (vc_RunStrategy cfg)) \<and>
     (\<forall>k. obj_label (Unstructured u) k = map_of (om_labels (wl_meta dep)) k) \<and>
     (\<forall>k v. map_of (vmLabels dep) k = Some v \<longrightarrow>
        jpath (JObj u) [''spec'', ''template'', ''metadata'', ''labels'', k] = Some (JStr v)) \<and>
     (\<exists>c cs vs. ps_Containers (wl_Pod dep) = c # cs \<and>
        jpath (JObj u) [''spec'', ''template'', ''spec'', ''volumes''] = Some (JArr vs) \<and>
        root_disk dep cfg c vs objs)"

lemma vmiSpec_volumes: "map_of (vmiSpec aff dep cfg c volumes) ''volumes'' = Some (JArr volumes)"
  by (auto simp: vmiSpec_def Let_def split: option.splits)

lemma vmMeta_labels: "map_of (vmMeta n ns labels) ''labels'' = Some (JObj (toStringMapIface labels))"
  "map_of (vmMeta n ns labels) ''name'' = Some (JStr n)"
  by (auto simp: vmMeta_def Let_def)

lemma deploymentToVM_machine:
  assumes "deploymentToVM aff dep cfg = Inr (vm, dv)"
  shows "\<exists>u. vm = Unstructured u \<and> machine_of dep cfg (case dv of Some d \<Rightarrow> [d] | None \<Rightarrow> []) u"
    and "(case wl_Replicas dep of Some r \<Rightarrow> r \<le> 1 | None \<Rightarrow> True)"
proof -
  obtain c cs where c: "ps_Containers (wl_Pod dep) = c # cs"
    using assms by (auto simp: deploymentToVM_def Let_def split: if_splits list.splits)
  obtain volumes where v: "vmVolumes dep cfg (ct_Image c) = (volumes, dv)"
    and vm: "vm = Unstructured
              [(''apiVersion'', JStr ''kubevirt.io/v1''),
               (''kind'', JStr ''VirtualMachine''),
               (''metadata'', JObj (vmMeta (om_name (wl_meta dep)) (om_namespace (wl_meta dep)) (om_labels (wl_meta dep)))),
               (''spec'', JObj
                  [(''runStrategy'', JStr (vc_RunStrategy cfg)),
                   (''template'', JObj
                      [(''metadata'', JObj [(''labels'', JObj (toStringMapIface (vmLabels dep)))]),
                       (''spec'', JObj (vmiSpec aff dep cfg c volumes))])])]"
    using assms c by (auto simp: deploymentToVM_def Let_def split: if_splits prod.splits)
  show "\<exists>u. vm = Unstructured u \<and> machine_of dep cfg (case dv of Some d \<Rightarrow> [d] | None \<Rightarrow> []) u"
    unfolding vm
    by (intro exI conjI, rule refl)
      (use v c in \<open>auto simp: machine_of_def root_disk_def vmiSpec_volumes vmMeta_labels obj_label_def unstructured_meta_def
         vmVolumes_def Let_def split: if_splits\<close>)
  show "(case wl_Replicas dep of Some r \<Rightarrow> r \<le> 1 | None \<Rightarrow> True)"
    using assms by (auto simp: deploymentToVM_def Let_def split: if_splits option.splits)
qed

lemma root_disk_mono: "root_disk dep cfg c vs objs \<Longrightarrow> set objs \<subseteq> set objs' \<Longrightarrow> root_disk dep cfg c vs objs'"
  by (auto simp: root_disk_def split: if_splits)

lemma machine_of_mono: "machine_of dep cfg objs u \<Longrightarrow> set objs \<subseteq> set objs' \<Longrightarrow> machine_of dep cfg objs' u"
  unfolding machine_of_def using root_disk_mono by blast

lemma vmObject_cases:
  assumes "vmObject aff cfgs ob = Inr (out, names)"
  shows "(out = [ob] \<and> names = [] \<and> (\<forall>n \<in> dom (map_of cfgs). \<not> named_deployment n ob)) \<or>
    (\<exists>dep cfg vm dv. ob = Deployment dep \<and> map_of cfgs (om_name (wl_meta dep)) = Some cfg \<and>
       deploymentToVM aff dep cfg = Inr (vm, dv) \<and> names = [om_name (wl_meta dep)] \<and>
       out = vm # (case dv of Some d \<Rightarrow> [d] | None \<Rightarrow> []))"
proof (cases ob)
  case (Deployment dep)
  then show ?thesis
    using assms
    by (cases "map_of cfgs (om_name (wl_meta dep))") (auto simp: vmObject_def rbind_Inr_iff named_deployment_def)
qed (use assms in \<open>auto simp: vmObject_def named_deployment_def\<close>)

lemma deploymentToVM_dv: "deploymentToVM aff dep cfg = Inr (vm, Some d) \<Longrightarrow> \<exists>u. d = Unstructured u"
  by (auto simp: deploymentToVM_def vmVolumes_def vmDataVolume_def Let_def split: if_splits list.splits)

lemma convertVMs_parts:
  assumes "convertVMs aff objs cfgs = Inr objs'" and "cfgs \<noteq> []"
  obtains parts where "list_all2 (\<lambda>x y. vmObject aff cfgs x = Inr y) objs parts"
    and "objs' = concat (map fst parts)" and "fst ` set cfgs \<subseteq> set (concat (map snd parts))"
proof -
  obtain parts where "mapM (vmObject aff cfgs) objs = Inr parts"
    and f: "find (\<lambda>name. name \<notin> set (concat (map snd parts))) (map fst cfgs) = None"
    and o: "objs' = concat (map fst parts)"
    using assms by (auto simp: convertVMs_def Let_def rbind_Inr_iff split: option.splits)
  then show thesis by (intro that [of parts]) (auto simp: mapM_Inr_iff find_None_iff)
qed

lemma list_all2_left: "list_all2 P xs ys \<Longrightarrow> x \<in> set xs \<Longrightarrow> \<exists>y \<in> set ys. P x y"
  by (induction rule: list_all2_induct) auto

lemma list_all2_right: "list_all2 P xs ys \<Longrightarrow> y \<in> set ys \<Longrightarrow> \<exists>x \<in> set xs. P x y"
  by (induction rule: list_all2_induct) auto

lemma convertVMs_had:
  assumes "convertVMs aff objs cfgs = Inr objs'" and "cfgs \<noteq> []" and that: "n \<in> dom (map_of cfgs)"
  shows "list_ex (named_deployment n) objs"
proof -
  obtain parts where p: "list_all2 (\<lambda>x y. vmObject aff cfgs x = Inr y) objs parts"
    and o': "objs' = concat (map fst parts)" and conv: "fst ` set cfgs \<subseteq> set (concat (map snd parts))"
    using convertVMs_parts [OF assms(1,2)] .
  have "n \<in> set (concat (map snd parts))" using that conv by (auto simp: dom_map_of_conv_image_fst)
  then obtain y where y: "y \<in> set parts" "n \<in> set (snd y)" by auto
  then obtain ob where ob: "ob \<in> set objs" "vmObject aff cfgs ob = Inr y" using list_all2_right [OF p] by blast
  have "named_deployment n ob"
    using vmObject_cases [of aff cfgs ob "fst y" "snd y"] ob(2) y(2) by (auto simp: named_deployment_def)
  then show ?thesis using ob(1) by (auto simp: list_ex_iff)
qed

lemma convertVMs_gone:
  assumes "convertVMs aff objs cfgs = Inr objs'" and "cfgs \<noteq> []" and that: "n \<in> dom (map_of cfgs)"
  shows "\<not> list_ex (named_deployment n) objs'"
proof
  assume "list_ex (named_deployment n) objs'"
  obtain parts where p: "list_all2 (\<lambda>x y. vmObject aff cfgs x = Inr y) objs parts"
    and o': "objs' = concat (map fst parts)"
    using convertVMs_parts [OF assms(1,2)] by metis
  from \<open>list_ex (named_deployment n) objs'\<close> obtain x y where x: "named_deployment n x" "x \<in> set (fst y)" "y \<in> set parts" by (auto simp: o' list_ex_iff)
  then obtain ob where ob: "ob \<in> set objs" "vmObject aff cfgs ob = Inr y" using list_all2_right [OF p] by blast
  from vmObject_cases [of aff cfgs ob "fst y" "snd y"] ob(2) x that
  obtain dep cfg vm dv where d: "deploymentToVM aff dep cfg = Inr (vm, dv)"
    and out: "fst y = vm # (case dv of Some d \<Rightarrow> [d] | None \<Rightarrow> [])" by auto
  have "\<exists>u. x = Unstructured u"
    using deploymentToVM_machine(1) [OF d] deploymentToVM_dv d x(2) by (auto simp: out split: option.splits)
  then show False using x(1) by (auto simp: named_deployment_def)
qed

lemma convertVMs_machine:
  assumes "convertVMs aff objs cfgs = Inr objs'" and "cfgs \<noteq> []"
    and dep: "Deployment dep \<in> set objs" "map_of cfgs (om_name (wl_meta dep)) = Some cfg"
  shows "(case wl_Replicas dep of Some r \<Rightarrow> r \<le> 1 | None \<Rightarrow> True) \<and>
    (\<exists>u. Unstructured u \<in> set objs' \<and> machine_of dep cfg objs' u)"
proof -
  obtain parts where p: "list_all2 (\<lambda>x y. vmObject aff cfgs x = Inr y) objs parts"
    and o': "objs' = concat (map fst parts)"
    using convertVMs_parts [OF assms(1,2)] by metis
  obtain y where y: "y \<in> set parts" "vmObject aff cfgs (Deployment dep) = Inr y"
    using list_all2_left [OF p dep(1)] by blast
  obtain vm dv where d: "deploymentToVM aff dep cfg = Inr (vm, dv)"
    and out: "fst y = vm # (case dv of Some d \<Rightarrow> [d] | None \<Rightarrow> [])"
    using y(2) dep(2) by (auto simp: vmObject_def rbind_Inr_iff)
  have sub: "set (fst y) \<subseteq> set objs'" using y(1) by (auto simp: o')
  obtain u where u: "vm = Unstructured u" "machine_of dep cfg (case dv of Some d \<Rightarrow> [d] | None \<Rightarrow> []) u"
    using deploymentToVM_machine(1) [OF d] by blast
  have "machine_of dep cfg objs' u" using u(2) sub out by (intro machine_of_mono [OF u(2)]) auto
  then show ?thesis using deploymentToVM_machine(2) [OF d] u(1) sub out by auto
qed

lemma machine_selected:
  assumes that: "machine_of dep cfg objs' u" "map_of sel \<subseteq>\<^sub>m map_of (wl_TemplateLabels dep)" "map_of sel k = Some v"
  shows "jpath (JObj u) [''spec'', ''template'', ''metadata'', ''labels'', k] = Some (JStr v)"
proof -
  have "map_of (wl_TemplateLabels dep) k = Some v" using that(2,3) by (metis domI map_le_def)
  then have "map_of (vmLabels dep) k = Some v" by (auto simp: vmLabels_def)
  then show ?thesis using that(1) unfolding machine_of_def by blast
qed

lemma convertVMs_stays:
  assumes "convertVMs aff objs cfgs = Inr objs'" and "cfgs \<noteq> []"
    and ob: "ob \<in> set objs" "\<forall>n \<in> dom (map_of cfgs). \<not> named_deployment n ob"
  shows "ob \<in> set objs'"
proof -
  obtain parts where p: "list_all2 (\<lambda>x y. vmObject aff cfgs x = Inr y) objs parts"
    and o': "objs' = concat (map fst parts)"
    using convertVMs_parts [OF assms(1,2)] by metis
  obtain y where y: "y \<in> set parts" "vmObject aff cfgs ob = Inr y" using list_all2_left [OF p ob(1)] by blast
  have "ob \<in> set (fst y)"
    using vmObject_cases [of aff cfgs ob "fst y" "snd y"] y(2) ob(2) by (auto simp: named_deployment_def)
  then show ?thesis using y(1) by (auto simp: o')
qed

text \<open>
  C38: when \<^verbatim>\<open>convertVMs\<close> succeeds, every service that asks for a machine had a Deployment; each such
  Deployment asks for at most one replica and is replaced by a machine that has its name and labels, boots the image of
  its first container and carries the labels of its pods, so that every selector that matched the
  pods matches the machine; no Deployment of such a service is left; and every other object stays.
\<close>

theorem convertVMs_machines:
  assumes "convertVMs aff objs cfgs = Inr objs'" and "cfgs \<noteq> []"
  shows "(\<forall>n \<in> dom (map_of cfgs). list_ex (named_deployment n) objs \<and> \<not> list_ex (named_deployment n) objs') \<and>
    (\<forall>dep cfg. Deployment dep \<in> set objs \<and> map_of cfgs (om_name (wl_meta dep)) = Some cfg \<longrightarrow>
       (case wl_Replicas dep of Some r \<Rightarrow> r \<le> 1 | None \<Rightarrow> True) \<and>
       (\<exists>u. Unstructured u \<in> set objs' \<and> machine_of dep cfg objs' u \<and>
          (\<forall>sel. map_of sel \<subseteq>\<^sub>m map_of (wl_TemplateLabels dep) \<longrightarrow>
             (\<forall>k v. map_of sel k = Some v \<longrightarrow>
                jpath (JObj u) [''spec'', ''template'', ''metadata'', ''labels'', k] = Some (JStr v))))) \<and>
    (\<forall>ob \<in> set objs. (\<forall>n \<in> dom (map_of cfgs). \<not> named_deployment n ob) \<longrightarrow> ob \<in> set objs')"
proof (intro conjI allI ballI impI)
  fix dep cfg assume "Deployment dep \<in> set objs \<and> map_of cfgs (om_name (wl_meta dep)) = Some cfg"
  then have dep: "Deployment dep \<in> set objs" "map_of cfgs (om_name (wl_meta dep)) = Some cfg" by simp_all
  then show "case wl_Replicas dep of Some r \<Rightarrow> r \<le> 1 | None \<Rightarrow> True" using convertVMs_machine [OF assms] by blast
  obtain u where u: "Unstructured u \<in> set objs'" "machine_of dep cfg objs' u" using convertVMs_machine [OF assms dep] by blast
  then show "\<exists>u. Unstructured u \<in> set objs' \<and> machine_of dep cfg objs' u \<and>
      (\<forall>sel. map_of sel \<subseteq>\<^sub>m map_of (wl_TemplateLabels dep) \<longrightarrow>
         (\<forall>k v. map_of sel k = Some v \<longrightarrow>
            jpath (JObj u) [''spec'', ''template'', ''metadata'', ''labels'', k] = Some (JStr v)))"
    using machine_selected [OF u(2)] by blast
qed (use convertVMs_had [OF assms] convertVMs_gone [OF assms] convertVMs_stays [OF assms] in \<open>blast+\<close>)

theorem convertVMs_machines_witness:
  "\<exists>objs'. convertVMs (\<lambda>_. None) [Deployment sample_workload] [(''web'',
       \<lparr>vc_RunStrategy = ''Always'', vc_DiskSize = ''10Gi'', vc_CloudInit = [], vc_SSHSecret = [], vc_SSHUsers = []\<rparr>)] = Inr objs' \<and>
     \<not> list_ex (named_deployment ''web'') objs'"
proof -
  let ?cfgs = "[(''web'',
       \<lparr>vc_RunStrategy = ''Always'', vc_DiskSize = ''10Gi'', vc_CloudInit = [], vc_SSHSecret = [], vc_SSHUsers = []\<rparr>)]"
  have "\<not> isl (convertVMs (\<lambda>_. None) [Deployment sample_workload] ?cfgs)" by code_simp
  then obtain objs' where r: "convertVMs (\<lambda>_. None) [Deployment sample_workload] ?cfgs = Inr objs'"
    by (cases "convertVMs (\<lambda>_. None) [Deployment sample_workload] ?cfgs") auto
  have "''web'' \<in> dom (map_of ?cfgs)" by simp
  then have "\<not> list_ex (named_deployment ''web'') objs'" using convertVMs_machines [OF r] by blast
  with r show ?thesis by blast
qed

section \<open>Ownership\<close>

lemma vmMeta_label: "as_obj (map_of (vmMeta n ns labels) ''labels'') = Some (toStringMapIface labels)"
  by (simp add: vmMeta_labels)

lemma deploymentToVM_labels:
  assumes "deploymentToVM aff dep cfg = Inr (vm, dv)" and "ob = vm \<or> dv = Some ob"
  shows "obj_label ob k = map_of (om_labels (wl_meta dep)) k"
  using assms
  by (auto simp: deploymentToVM_def vmVolumes_def vmDataVolume_def Let_def obj_label_def unstructured_meta_def
      vmMeta_labels split: if_splits list.splits)

lemma convertVMs_owned:
  assumes "convertVMs aff objs cfgs = Inr objs'" and "list_all (owned p) objs"
  shows "list_all (owned p) objs'"
proof (cases "cfgs = []")
  case False
  obtain parts where p: "list_all2 (\<lambda>x y. vmObject aff cfgs x = Inr y) objs parts"
    and o': "objs' = concat (map fst parts)"
    using convertVMs_parts [OF assms(1) False] by metis
  have "owned p x" if xy: "x \<in> set (fst y)" "y \<in> set parts" for x y
  proof -
    obtain ob where ob: "ob \<in> set objs" "vmObject aff cfgs ob = Inr y" using list_all2_right [OF p xy(2)] by blast
    have "owned p ob" using ob(1) assms(2) by (auto simp: list_all_iff)
    from vmObject_cases [of aff cfgs ob "fst y" "snd y"] ob(2)
    consider "fst y = [ob]" | dep cfg vm dv where "ob = Deployment dep" "deploymentToVM aff dep cfg = Inr (vm, dv)"
        "fst y = vm # (case dv of Some d \<Rightarrow> [d] | None \<Rightarrow> [])" by auto
    then show ?thesis
    proof cases
      case 2
      then have "x = vm \<or> dv = Some x" using xy(1) by (auto split: option.splits)
      from deploymentToVM_labels [OF 2(2) this] \<open>owned p ob\<close> 2(1) show ?thesis
        by (simp add: owned_def obj_label_meta)
    qed (use xy(1) \<open>owned p ob\<close> in simp)
  qed
  then show ?thesis by (auto simp: o' list_all_iff)
qed (use assms in \<open>simp add: convertVMs_def\<close>)

end
