(* ===== verification/Convert.thy ===== *)
theory Convert
  imports Virtual_Machines
begin

text \<open>
  \<^verbatim>\<open>Convert\<close> of \<^verbatim>\<open>pkg/compose/compose.go\<close>: every compose file is rewritten and staged
  (\<open>convertFile\<close>), the hints of the files are merged (\<open>mergeHints\<close>), the forked loader and
  transformer produce the objects, and the passes of the other theories run over them in the
  source's order (\<open>applyHints\<close>). The record \<open>tools\<close> stands for the code the sources only call:
  the temporary directory, the loader and transformer of the kompose fork, the quantity parser and
  the typed-to-JSON converter.

  The theorems: every object of a conversion is owned by the project and the output is ordered;
  hints of later files win while secrets accumulate; and the exclusion of machines and
  autoscaling, enforced in each file, does not survive the merge.
\<close>

section \<open>What the conversion calls\<close>

record Options =
  op_Files :: "string list"
  op_ProjectName :: string
  op_Namespace :: string
  op_Replicas :: int
  op_PVCSize :: string
  op_Profiles :: "string list"
  op_BaseDir :: string

text \<open>A \<^verbatim>\<open>kobject.KomposeObject\<close>: the env files of each service, and the rest of it.\<close>

record komposeObject =
  ko_EnvFiles :: "string list gomap"
  ko_rest :: iface

record convertOptions =
  co_Replicas :: int
  co_PVCRequestSize :: string
  co_Namespace :: string
  co_InputFiles :: "string list"

record tools =
  tl_MkdirTemp :: "string option"
  tl_LoadFile :: "string gomap \<Rightarrow> string list \<Rightarrow> komposeObject option"
  tl_Transform :: "string gomap \<Rightarrow> komposeObject \<Rightarrow> convertOptions \<Rightarrow> kobj list option"
  tl_ParseQuantity :: "string \<Rightarrow> quantity option"
  tl_ToUnstructured :: "workload \<Rightarrow> obj option"
  tl_AffinityJSON :: "affinity \<Rightarrow> iface option"

section \<open>Env file paths\<close>

fun strip_common :: "string list \<Rightarrow> string list \<Rightarrow> string list \<times> string list" where
  "strip_common (x # xs) (y # ys) = (if x = y then strip_common xs ys else (x # xs, y # ys))"
| "strip_common xs ys = (xs, ys)"

text \<open>\<^verbatim>\<open>filepath.Rel\<close> for a target that is absolute.\<close>

definition Rel :: "string \<Rightarrow> string \<Rightarrow> string option" where
  "Rel base targ =
     (if \<not> IsAbs base then None
      else case strip_common (path_segs base) (path_segs targ) of (up, down) \<Rightarrow>
        let segs = replicate (length up) ''..'' @ down in
        Some (if segs = [] then ''.'' else Join segs ''/''))"

definition relativizeEnvFile :: "string \<Rightarrow> string \<Rightarrow> string" where
  "relativizeEnvFile workDir envFile =
     (if \<not> IsAbs envFile then envFile
      else case Rel workDir envFile of None \<Rightarrow> envFile | Some r \<Rightarrow> r)"

definition relativizeEnvFiles :: "komposeObject \<Rightarrow> string \<Rightarrow> komposeObject" where
  "relativizeEnvFiles kobject workDir =
     kobject\<lparr>ko_EnvFiles := map (\<lambda>(svc, fs). (svc, map (relativizeEnvFile workDir) fs)) (ko_EnvFiles kobject)\<rparr>"

section \<open>Merging the hints of several files\<close>

definition appendSecrets :: "string list gomap \<Rightarrow> string list gomap \<Rightarrow> string list gomap" where
  "appendSecrets new acc = fold (\<lambda>(svc, names) m.
     AList.update svc ((case map_of m svc of Some old \<Rightarrow> old | None \<Rightarrow> []) @ names) m) new acc"

definition mergeHints :: "preprocessed \<Rightarrow> preprocessed \<Rightarrow> preprocessed" where
  "mergeHints acc pp = acc\<lparr>
     pp_secrets := appendSecrets (pp_secrets pp) (pp_secrets acc),
     pp_ingress := put_all (pp_ingress pp) (pp_ingress acc),
     pp_autoscale := put_all (pp_autoscale pp) (pp_autoscale acc),
     pp_strategy := put_all (pp_strategy pp) (pp_strategy acc),
     pp_rollout := put_all (pp_rollout pp) (pp_rollout acc),
     pp_imagePullSecrets := put_all (pp_imagePullSecrets pp) (pp_imagePullSecrets acc),
     pp_envFromSecrets := put_all (pp_envFromSecrets pp) (pp_envFromSecrets acc),
     pp_bindMounts := put_all (pp_bindMounts pp) (pp_bindMounts acc),
     pp_placement := put_all (pp_placement pp) (pp_placement acc),
     pp_nodeSelector := put_all (pp_nodeSelector pp) (pp_nodeSelector acc),
     pp_gpu := put_all (pp_gpu pp) (pp_gpu acc),
     pp_vm := put_all (pp_vm pp) (pp_vm acc)\<rparr>"

section \<open>One file\<close>

type_synonym convertState = "preprocessed \<times> string gomap \<times> string gomap \<times> string list"

definition tmpName :: "nat \<Rightarrow> string \<Rightarrow> string" where
  "tmpName i f = (if i < 10 then ''0'' else []) @ Itoa (int i) @ ''-'' @ Base f"

definition withFile :: "string \<Rightarrow> error + 'a \<Rightarrow> error + 'a" where
  "withFile f r = (case r of Inl e \<Rightarrow> Inl (FileError f e) | Inr x \<Rightarrow> Inr x)"

definition convertFile ::
    "host \<Rightarrow> codec \<Rightarrow> Options \<Rightarrow> string \<Rightarrow> nat \<times> string \<Rightarrow> convertState \<Rightarrow> error + convertState" where
  "convertFile h cd opts tmpDir = (\<lambda>(i, f) (hints, envDests, tmp, loaderFiles).
     case h_read h f of
       None \<Rightarrow> Inl (ReadFileError f)
     | Some raw \<Rightarrow>
         let baseDir = (if op_BaseDir opts = [] then Dir f else op_BaseDir opts) in
         rbind (withFile f (injectKomposeLabels h cd raw baseDir (op_Profiles opts) envDests)) (\<lambda>(pp, envDests).
         rbind (withFile f (copyEnvFiles h tmpDir (pp_envFiles pp) tmp)) (\<lambda>tmp.
         rbind (withFile f (stageDotEnv h tmpDir baseDir envDests tmp)) (\<lambda>(envDests, tmp).
         let path = JoinPath [tmpDir, tmpName i f] in
         if \<not> h_write h path then Inl (WriteError path)
         else Inr (mergeHints hints pp, envDests, AList.update path (pp_content pp) tmp, loaderFiles @ [path])))))"

section \<open>The passes after the transformation\<close>

definition applyPodPasses ::
    "(string \<Rightarrow> quantity option) \<Rightarrow> preprocessed \<Rightarrow> kobj list \<Rightarrow> kobj list" where
  "applyPodPasses parseQuantity hints objects =
     (let objects = applyImagePullSecrets objects (pp_imagePullSecrets hints);
          objects = applyEnvFromSecrets objects (pp_envFromSecrets hints);
          objects = applyBindMounts objects (pp_bindMounts hints);
          objects = applyPlacement objects (pp_placement hints);
          objects = applyNodeSelector objects (pp_nodeSelector hints)
      in applyGPUResources parseQuantity objects (pp_gpu hints))"

definition applyHints :: "tools \<Rightarrow> Options \<Rightarrow> preprocessed \<Rightarrow> kobj list \<Rightarrow> error + kobj list" where
  "applyHints kt opts hints objects =
     (let project = op_ProjectName opts; ns = op_Namespace opts;
          objects = decorate objects project ns;
          (objects, extra) = applySecrets objects (pp_secrets hints) project ns;
          objects = objects @ extra;
          (objects, generated) = applyIngressConfig objects (pp_ingress hints) project ns;
          objects = objects @ generated;
          objects = applyPodPasses (tl_ParseQuantity kt) hints objects
      in rbind (convertVMs (tl_AffinityJSON kt) objects (pp_vm hints)) (\<lambda>objects.
         rbind (convertRollouts (tl_ToUnstructured kt) objects (pp_rollout hints)) (\<lambda>(objects, rolloutSvcs).
         let objects = objects @ buildAutoscalers objects (pp_autoscale hints) project ns rolloutSvcs;
             objects = applyStrategy objects (pp_strategy hints)
         in Inr (sortObjects objects))))"

definition Convert :: "host \<Rightarrow> codec \<Rightarrow> tools \<Rightarrow> Options \<Rightarrow> error + kobj list" where
  "Convert h cd kt opts0 =
     (if op_Files opts0 = [] then Inl NoComposeFiles
      else let opts = (if op_Replicas opts0 \<le> 0 then opts0\<lparr>op_Replicas := 1\<rparr> else opts0);
               opts = (if op_PVCSize opts = [] then opts\<lparr>op_PVCSize := ''1Gi''\<rparr> else opts)
      in case tl_MkdirTemp kt of
        None \<Rightarrow> Inl (WriteError ''orcinus-compose-'')
      | Some tmpDir \<Rightarrow>
          rbind (foldM (convertFile h cd opts tmpDir) (enumerate 0 (op_Files opts)) (preprocessed0, [], [], []))
            (\<lambda>(hints, _, tmp, loaderFiles).
             case tl_LoadFile kt tmp loaderFiles of
               None \<Rightarrow> Inl (LoadError [])
             | Some loaded \<Rightarrow>
                 let kobject = relativizeEnvFiles loaded tmpDir in
                 (case tl_Transform kt tmp kobject
                    \<lparr>co_Replicas = op_Replicas opts, co_PVCRequestSize = op_PVCSize opts,
                     co_Namespace = op_Namespace opts, co_InputFiles = loaderFiles\<rparr> of
                   None \<Rightarrow> Inl (TransformError [])
                 | Some objects \<Rightarrow> applyHints kt opts hints objects)))"

section \<open>Ownership through the pipeline\<close>

lemma case_option_Inr_iff:
  "(case x of None \<Rightarrow> Inl e | Some v \<Rightarrow> f v) = Inr y \<longleftrightarrow> (\<exists>v. x = Some v \<and> f v = Inr y)"
  by (cases x) auto

lemma podPasses_owned: "list_all (owned p) objs \<Longrightarrow> list_all (owned p) (applyPodPasses pq hints objs)"
  by (simp add: applyPodPasses_def Let_def gpu.pass_owned node_selector.pass_owned placement.pass_owned
      bind_mounts.pass_owned env_from.pass_owned pull_secrets.pass_owned)

lemma applySecrets_owned:
  assumes "list_all (owned p) objs" and "applySecrets objs secrets p ns = (objs', extra)"
  shows "list_all (owned p) (objs' @ extra)"
proof -
  have "shrunk objs objs'" using applySecrets_frame [of objs secrets p ns] assms(2) by simp
  then have "list_all (owned p) objs'"
    using assms(1) shrinks_label unfolding list_all_length list_all2_conv_all_nth owned_def by metis
  moreover have "list_all (owned p) extra"
    using applySecrets_created [of _ objs secrets p ns] assms(2) by (auto simp: list_all_iff)
  ultimately show ?thesis by simp
qed

lemma strategy_label: "list_all (owned p) objs \<Longrightarrow> list_all (owned p) (applyStrategy objs cfgs)"
proof -
  have "obj_label (Deployment (strategyStep cfg w)) k = obj_label (Deployment w) k" for cfg w k
    by (simp add: obj_label_def strategyStep_def Let_def)
  then show "list_all (owned p) objs \<Longrightarrow> list_all (owned p) (applyStrategy objs cfgs)"
    by (auto simp: list_all_iff applyStrategy_def owned_def split: kobj.splits option.splits)
qed

lemma buildAutoscalers_owned: "list_all (owned p) (buildAutoscalers objs cfgs p ns svcs)"
proof -
  have "objectMeta (buildHPA k r svc cfg) \<noteq> None" for k r svc cfg
    by (cases "svc \<in> set r") (auto simp: buildHPA_def Let_def)
  then show ?thesis
    by (auto simp: list_all_iff buildAutoscalers_def decorate_def intro!: decorateObj_owned)
qed

lemma applyHints_owned:
  assumes "applyHints kt opts hints objs = Inr objs'" and "list_all (\<lambda>ob. objectMeta ob \<noteq> None) objs"
  shows "list_all (owned (op_ProjectName opts)) objs' \<and> sorted (map kindName objs')"
proof -
  let ?p = "op_ProjectName opts" and ?ns = "op_Namespace opts"
  define d where "d = decorate objs ?p ?ns"
  obtain s extra where s: "applySecrets d (pp_secrets hints) ?p ?ns = (s, extra)" by force
  obtain g mws where g: "applyIngressConfig (s @ extra) (pp_ingress hints) ?p ?ns = (g, mws)" by force
  define q where "q = applyPodPasses (tl_ParseQuantity kt) hints (g @ mws)"
  obtain v r svcs where v: "convertVMs (tl_AffinityJSON kt) q (pp_vm hints) = Inr v"
    and r: "convertRollouts (tl_ToUnstructured kt) v (pp_rollout hints) = Inr (r, svcs)"
    and o': "objs' = sortObjects (applyStrategy (r @ buildAutoscalers r (pp_autoscale hints) ?p ?ns svcs) (pp_strategy hints))"
    using assms(1) s g by (auto simp: applyHints_def Let_def d_def q_def rbind_Inr_iff)
  have "list_all (owned ?p) d" using assms(2) by (auto simp: d_def decorate_def list_all_iff intro!: decorateObj_owned)
  then have "list_all (owned ?p) (s @ extra)" using applySecrets_owned s by blast
  then have "list_all (owned ?p) (g @ mws)" using applyIngressConfig_owned [of ?p "s @ extra"] g by (metis fst_conv list_all_append snd_conv)
  then have "list_all (owned ?p) q" by (simp add: q_def podPasses_owned)
  then have "list_all (owned ?p) r" using convertVMs_owned [OF v] convertRollouts_owned [OF r] by blast
  then have "list_all (owned ?p) (applyStrategy (r @ buildAutoscalers r (pp_autoscale hints) ?p ?ns svcs) (pp_strategy hints))"
    by (intro strategy_label) (simp add: buildAutoscalers_owned)
  then show ?thesis unfolding o' sortObjects_def by (simp add: list_all_iff)
qed

text \<open>What the pipeline relies on in the forked transformer: it returns typed objects only.\<close>

definition typed_transform :: "tools \<Rightarrow> bool" where
  "typed_transform kt \<longleftrightarrow> (\<forall>tmp k co out. tl_Transform kt tmp k co = Some out \<longrightarrow>
     list_all (\<lambda>ob. objectMeta ob \<noteq> None) out)"

lemma Convert_applyHints:
  assumes "Convert h cd kt opts = Inr objs"
    and "typed_transform kt"
  obtains opts' hints out where "applyHints kt opts' hints out = Inr objs"
    and "op_ProjectName opts' = op_ProjectName opts" and "list_all (\<lambda>ob. objectMeta ob \<noteq> None) out"
proof -
  define opts' where "opts' = (let opts = (if op_Replicas opts \<le> 0 then opts\<lparr>op_Replicas := 1\<rparr> else opts)
      in if op_PVCSize opts = [] then opts\<lparr>op_PVCSize := ''1Gi''\<rparr> else opts)"
  have "op_ProjectName opts' = op_ProjectName opts" by (simp add: opts'_def Let_def)
  moreover obtain hints out where "applyHints kt opts' hints out = Inr objs" and "list_all (\<lambda>ob. objectMeta ob \<noteq> None) out"
    using assms
    by (auto simp: typed_transform_def Convert_def Let_def opts'_def rbind_Inr_iff case_option_Inr_iff split: if_splits)
  ultimately show thesis using that by blast
qed

text \<open>
  C1: every object a conversion returns carries the ownership labels of the project, those generated
  on the way (Secrets, middlewares, machines, data volumes, rollouts, autoscalers) included, and the
  output is ordered by kind and name. (The forked transformer returns typed objects.)
\<close>

theorem Convert_owned:
  assumes "Convert h cd kt opts = Inr objs"
    and "typed_transform kt"
  shows "list_all (owned (op_ProjectName opts)) objs \<and> sorted (map kindName objs)"
proof -
  obtain opts' hints out where "applyHints kt opts' hints out = Inr objs"
    and p: "op_ProjectName opts' = op_ProjectName opts" and "list_all (\<lambda>ob. objectMeta ob \<noteq> None) out"
    using Convert_applyHints [OF assms] by blast
  then show ?thesis using applyHints_owned by metis
qed

theorem Convert_owned_witness:
  "\<exists>objs. Convert \<lparr>h_home = None, h_cwd = Some ''/'', h_stat = (\<lambda>_. False), h_read = (\<lambda>_. Some ''x''),
        h_mkdir = (\<lambda>_. True), h_write = (\<lambda>_. True)\<rparr>
      \<lparr>cd_unmarshal = (\<lambda>_. Some [(''services'', JObj [(''web'', JObj [(''x-orcinus-rollout'', JStr ''canary'')])])]),
        cd_marshal = (\<lambda>_. Some ''y''), cd_duration = (\<lambda>_. None)\<rparr>
      \<lparr>tl_MkdirTemp = Some ''/tmp/o'', tl_LoadFile = (\<lambda>_ _. Some \<lparr>ko_EnvFiles = [], ko_rest = JNull\<rparr>),
       tl_Transform = (\<lambda>_ _ _. Some [Deployment sample_workload]), tl_ParseQuantity = (\<lambda>_. None),
       tl_ToUnstructured = (\<lambda>_. Some [(''spec'', JObj [])]), tl_AffinityJSON = (\<lambda>_. None)\<rparr>
      \<lparr>op_Files = [''/app/c.yml''], op_ProjectName = ''shop'', op_Namespace = [], op_Replicas = 0, op_PVCSize = [],
       op_Profiles = [], op_BaseDir = []\<rparr> = Inr objs \<and>
     list_all (owned ''shop'') objs \<and> sorted (map kindName objs)"
  (is "\<exists>objs. Convert ?h ?cd ?kt ?opts = _ \<and> _")
proof -
  have "\<not> isl (Convert ?h ?cd ?kt ?opts)" by code_simp
  then obtain objs where r: "Convert ?h ?cd ?kt ?opts = Inr objs" by (cases "Convert ?h ?cd ?kt ?opts") auto
  have "list_all (owned (op_ProjectName ?opts)) objs \<and> sorted (map kindName objs)"
    by (rule Convert_owned [OF r]) (simp add: typed_transform_def)
  with r show ?thesis by (intro exI [of _ objs]) simp
qed

section \<open>Services without hints\<close>

lemma podPasses_edit: "list_all2 pod_edit objs (applyPodPasses pq hints objs)"
proof -
  have t: "list_all2 pod_edit a b \<Longrightarrow> list_all2 pod_edit b c \<Longrightarrow> list_all2 pod_edit a c" for a b c
    using list_all2_trans [of pod_edit pod_edit pod_edit] pod_edit_trans by blast
  show ?thesis
    unfolding applyPodPasses_def Let_def
    by (rule t [OF t [OF t [OF t [OF t [OF pull_secrets.pass_edit env_from.pass_edit] bind_mounts.pass_edit]
        placement.pass_edit] node_selector.pass_edit] gpu.pass_edit])
qed

text \<open>
  The six pod passes only edit pod templates: every object keeps its position, kind, name,
  namespace, labels, selector and the containers and images it runs; and the workload of a service none of the
  hints is about comes out unchanged.
\<close>

theorem applyPodPasses_frame:
  assumes "i < length objs"
  shows "length (applyPodPasses pq hints objs) = length objs \<and> pod_edit (objs ! i) (applyPodPasses pq hints objs ! i) \<and>
    (\<forall>ps n N. podSpecOf (objs ! i) = Some (ps, n) \<and> hints_of N hints \<and> n \<notin> N \<longrightarrow>
       applyPodPasses pq hints objs ! i = objs ! i)"
proof (intro conjI allI impI)
  show "length (applyPodPasses pq hints objs) = length objs"
    using podPasses_edit list_all2_lengthD by metis
  show "pod_edit (objs ! i) (applyPodPasses pq hints objs ! i)"
    using podPasses_edit list_all2_nthD assms by metis
  fix ps n N assume n: "podSpecOf (objs ! i) = Some (ps, n) \<and> hints_of N hints \<and> n \<notin> N"
  then have none: "map_of (pp_imagePullSecrets hints) n = None" "map_of (pp_envFromSecrets hints) n = None"
    "map_of (pp_bindMounts hints) n = None" "map_of (pp_placement hints) n = None"
    "map_of (pp_nodeSelector hints) n = None" "map_of (pp_gpu hints) n = None"
    by (auto simp: hints_of_def intro: keys_in_None)
  have ps: "podSpecOf (objs ! i) = Some (ps, n)" using n by simp
  note [simp] = pull_secrets.pass_length env_from.pass_length bind_mounts.pass_length placement.pass_length
    node_selector.pass_length gpu.pass_length
  define o1 where "o1 = applyImagePullSecrets objs (pp_imagePullSecrets hints)"
  define o2 where "o2 = applyEnvFromSecrets o1 (pp_envFromSecrets hints)"
  define o3 where "o3 = applyBindMounts o2 (pp_bindMounts hints)"
  define o4 where "o4 = applyPlacement o3 (pp_placement hints)"
  define o5 where "o5 = applyNodeSelector o4 (pp_nodeSelector hints)"
  have l: "length o1 = length objs" "length o2 = length objs" "length o3 = length objs" "length o4 = length objs"
    "length o5 = length objs" by (simp_all add: o1_def o2_def o3_def o4_def o5_def)
  have 1: "o1 ! i = objs ! i" unfolding o1_def using pull_secrets.pass_frame assms ps none by metis
  have 2: "o2 ! i = objs ! i" unfolding o2_def using env_from.pass_frame assms ps none 1 l by metis
  have 3: "o3 ! i = objs ! i" unfolding o3_def using bind_mounts.pass_frame assms ps none 2 l by metis
  have 4: "o4 ! i = objs ! i" unfolding o4_def using placement.pass_frame assms ps none 3 l by metis
  have 5: "o5 ! i = objs ! i" unfolding o5_def using node_selector.pass_frame assms ps none 4 l by metis
  have "applyPodPasses pq hints objs = applyGPUResources pq o5 (pp_gpu hints)"
    by (simp add: applyPodPasses_def o1_def o2_def o3_def o4_def o5_def)
  then show "applyPodPasses pq hints objs ! i = objs ! i" using gpu.pass_frame assms ps none 5 l by metis
qed

theorem applyPodPasses_frame_witness:
  "applyPodPasses (\<lambda>_. None) (preprocessed0\<lparr>pp_imagePullSecrets := [(''db'', [''reg''])]\<rparr>) [Deployment sample_workload] ! 0
     = Deployment sample_workload"
proof -
  have "hints_of {''db''} (preprocessed0\<lparr>pp_imagePullSecrets := [(''db'', [''reg''])]\<rparr>)"
    by (simp add: hints_of_def preprocessed0_def keys_in_def)
  then show ?thesis
    using applyPodPasses_frame [of 0 "[Deployment sample_workload]" "\<lambda>_. None"
        "preprocessed0\<lparr>pp_imagePullSecrets := [(''db'', [''reg''])]\<rparr>"]
      sample_podSpec by (simp, blast)
qed

section \<open>Several files\<close>

lemma appendSecrets_lookup:
  assumes "gomap_ok new"
  shows "(case map_of (appendSecrets new acc) svc of Some l \<Rightarrow> l | None \<Rightarrow> []) =
    (case map_of acc svc of Some l \<Rightarrow> l | None \<Rightarrow> []) @ (case map_of new svc of Some l \<Rightarrow> l | None \<Rightarrow> [])"
  using assms
proof (induction new arbitrary: acc)
  case (Cons x new)
  obtain s names where x: "x = (s, names)" by force
  have "gomap_ok new" and "map_of new s = None"
    using Cons.prems x by (auto simp: gomap_ok_def map_of_eq_None_iff)
  then show ?case
    using Cons.IH [of "AList.update s ((case map_of acc s of Some old \<Rightarrow> old | None \<Rightarrow> []) @ names) acc"] x
    by (auto simp: appendSecrets_def)
qed (simp add: appendSecrets_def)

lemma mergeHints_later_wins:
  "gomap_ok (pp_rollout pp) \<Longrightarrow> map_of (pp_rollout (mergeHints acc pp)) = map_of (pp_rollout acc) ++ map_of (pp_rollout pp)"
  "gomap_ok (pp_vm pp) \<Longrightarrow> map_of (pp_vm (mergeHints acc pp)) = map_of (pp_vm acc) ++ map_of (pp_vm pp)"
  "gomap_ok (pp_ingress pp) \<Longrightarrow> map_of (pp_ingress (mergeHints acc pp)) = map_of (pp_ingress acc) ++ map_of (pp_ingress pp)"
  by (simp_all add: mergeHints_def put_all_lookup)

definition sample_vm_hint :: preprocessed where
  "sample_vm_hint = preprocessed0\<lparr>pp_vm := [(''web'', \<lparr>vc_RunStrategy = ''Always'', vc_DiskSize = [], vc_CloudInit = [],
     vc_SSHSecret = [], vc_SSHUsers = []\<rparr>)]\<rparr>"

definition sample_autoscale_hint :: preprocessed where
  "sample_autoscale_hint = preprocessed0\<lparr>pp_autoscale := [(''web'', \<lparr>as_Min = 1, as_Max = 3, as_CPU = 0, as_Memory = 0\<rparr>)]\<rparr>"

definition sample_tools :: tools where
  "sample_tools = \<lparr>tl_MkdirTemp = Some ''/tmp/o'', tl_LoadFile = (\<lambda>_ _. Some \<lparr>ko_EnvFiles = [], ko_rest = JNull\<rparr>),
     tl_Transform = (\<lambda>_ _ _. Some [Deployment sample_workload]), tl_ParseQuantity = (\<lambda>_. None),
     tl_ToUnstructured = (\<lambda>_. Some [(''spec'', JObj [])]), tl_AffinityJSON = (\<lambda>_. None)\<rparr>"

definition sample_options :: Options where
  "sample_options = \<lparr>op_Files = [''/app/c.yml''], op_ProjectName = ''shop'', op_Namespace = [], op_Replicas = 1,
     op_PVCSize = ''1Gi'', op_Profiles = [], op_BaseDir = []\<rparr>"

text \<open>
  The rule that a machine is not autoscaled holds in each file but not across files: one file
  makes a service a machine, another autoscales it, each is accepted, and the conversion returns an
  autoscaler whose target Deployment is not among the objects.
\<close>

theorem merge_autoscales_machine:
  "hints_ok sample_vm_hint \<and> hints_ok sample_autoscale_hint \<and>
   (case applyHints sample_tools sample_options (mergeHints sample_vm_hint sample_autoscale_hint) [Deployment sample_workload] of
      Inr objs \<Rightarrow>
        list_ex (\<lambda>ob. case ob of HPA m sp \<Rightarrow> hp_TargetKind sp = ''Deployment'' \<and> hp_TargetName sp = ''web'' | _ \<Rightarrow> False) objs \<and>
        \<not> list_ex (named_deployment ''web'') objs
    | Inl e \<Rightarrow> False)"
proof (intro conjI)
  show "hints_ok sample_vm_hint" "hints_ok sample_autoscale_hint"
    by (simp_all add: hints_ok_def sample_vm_hint_def sample_autoscale_hint_def preprocessed0_def vals_ok_def
        apart_def vm_ok_def ran_def)
  show "case applyHints sample_tools sample_options (mergeHints sample_vm_hint sample_autoscale_hint) [Deployment sample_workload] of
      Inr objs \<Rightarrow>
        list_ex (\<lambda>ob. case ob of HPA m sp \<Rightarrow> hp_TargetKind sp = ''Deployment'' \<and> hp_TargetName sp = ''web'' | _ \<Rightarrow> False) objs \<and>
        \<not> list_ex (named_deployment ''web'') objs
    | Inl e \<Rightarrow> False"
    by code_simp
qed

section \<open>Env files are found again\<close>

lemma strip_common_split:
  "strip_common xs ys = (up, down) \<Longrightarrow> \<exists>c. xs = c @ up \<and> ys = c @ down"
proof (induction xs ys rule: strip_common.induct)
  case (1 x xs y ys)
  show ?case
  proof (cases "x = y")
    case True
    then obtain c where "xs = c @ up" "ys = c @ down" using 1 by auto
    with True show ?thesis by (intro exI [of _ "x # c"]) simp
  qed (use 1 in auto)
qed auto

lemma SplitChar_append: "SplitChar x (s @ x # t) = SplitChar x s @ SplitChar x t"
  by (induction s) (auto split: list.splits)

lemma clean_segs_append: "clean_segs r st (xs @ ys) = clean_segs r (rev (clean_segs r st xs)) ys"
  by (induction r st xs rule: clean_segs.induct) (auto split: list.splits)

lemma clean_segs_up:
  assumes "''..'' \<notin> set (c @ up)"
  shows "clean_segs True (rev (c @ up)) (replicate (length up) ''..'' @ zs) = clean_segs True (rev c) zs"
  using assms
proof (induction up arbitrary: zs rule: rev_induct)
  case (snoc u up)
  then show ?case by auto
qed simp

lemma clean_segs_plain:
  "(\<And>s. s \<in> set xs \<Longrightarrow> s \<noteq> [] \<and> s \<noteq> ''.'' \<and> s \<noteq> ''..'') \<Longrightarrow> clean_segs r st xs = rev st @ xs"
  by (induction xs arbitrary: st) auto

text \<open>
  The relative path \<^verbatim>\<open>relativizeEnvFiles\<close> gives the transformer leads back to the file: joined to
  the working directory again, as the transformer does, it is the path the loader produced.
\<close>

theorem relativizeEnvFile_found:
  assumes "IsAbs workDir" and "IsAbs envFile"
  shows "\<not> IsAbs (relativizeEnvFile workDir envFile) \<and>
    JoinPath [workDir, relativizeEnvFile workDir envFile] = Clean envFile"
proof -
  obtain up down where sc: "strip_common (path_segs workDir) (path_segs envFile) = (up, down)" by force
  then obtain c where c: "path_segs workDir = c @ up" "path_segs envFile = c @ down" using strip_common_split by blast
  define segs where "segs = replicate (length up) ''..'' @ down"
  define rel where "rel = (if segs = [] then ''.'' else Join segs ''/'')"
  have r: "relativizeEnvFile workDir envFile = rel"
    using assms sc by (simp add: relativizeEnvFile_def Rel_def rel_def segs_def Let_def)
  have np: "''..'' \<notin> set (path_segs workDir)" "''..'' \<notin> set (path_segs envFile)"
    using assms by (simp_all add: path_segs_def clean_segs_rooted)
  have down: "s \<noteq> [] \<and> s \<noteq> ''.'' \<and> s \<noteq> ''..'' \<and> slash \<notin> set s" if "s \<in> set down" for s
    using that c np path_segs_proper [of s envFile] by auto
  have ok: "p \<noteq> [] \<and> slash \<notin> set p" if "p \<in> set segs" for p
    using that down by (auto simp: segs_def)
  have sp: "clean_segs True (rev (c @ up)) (SplitChar slash rel) = c @ down"
  proof (cases "segs = []")
    case True
    then show ?thesis by (simp add: rel_def segs_def)
  next
    case False
    then have "SplitChar slash rel = segs" unfolding rel_def using ok by (simp add: SplitChar_Join)
    then show ?thesis
      using clean_segs_up [of c up down] np(1) c(1) clean_segs_plain [of down True "rev c"] down
      by (simp add: segs_def)
  qed
  have abs: "\<not> IsAbs rel"
  proof (cases segs)
    case (Cons a l)
    then have a: "a \<noteq> []" "slash \<notin> set a" using ok [of a] by simp_all
    then obtain r where "Join segs ''/'' = a @ r" using Join_hd [of segs "''/''"] Cons by auto
    with a Cons show ?thesis by (cases a) (auto simp: rel_def IsAbs_Cons)
  qed (simp add: rel_def IsAbs_Cons)
  obtain w where w: "workDir = slash # w" using assms(1) by (auto simp: IsAbs_Cons)
  have "JoinPath [workDir, rel] = Clean (workDir @ slash # rel)" by (simp add: JoinPath_def w)
  moreover have "path_segs (workDir @ slash # rel) = c @ down"
  proof -
    have "IsAbs (workDir @ slash # rel)" by (simp add: w IsAbs_Cons)
    then have "path_segs (workDir @ slash # rel) = clean_segs True [] (SplitChar slash workDir @ SplitChar slash rel)"
      by (simp add: path_segs_def SplitChar_append)
    also have "\<dots> = clean_segs True (rev (path_segs workDir)) (SplitChar slash rel)"
      using assms(1) by (simp add: clean_segs_append path_segs_def)
    finally show ?thesis using sp c(1) by simp
  qed
  moreover have "IsAbs (workDir @ slash # rel)" by (simp add: w IsAbs_Cons)
  ultimately show ?thesis using r abs assms(2) c(2) by (simp add: Clean_def)
qed

theorem relativizeEnvFile_found_witness:
  "\<not> IsAbs (relativizeEnvFile ''/tmp/o'' ''/tmp/o/a/.env'') \<and>
    JoinPath [''/tmp/o'', relativizeEnvFile ''/tmp/o'' ''/tmp/o/a/.env''] = Clean ''/tmp/o/a/.env''"
  by (rule relativizeEnvFile_found) (simp_all add: IsAbs_Cons)

end
