(* ===== verification/Detect.thy ===== *)
theory Detect
  imports Iface Kube_Objects
begin

text \<open>
  \<^verbatim>\<open>pkg/detect/detect.go\<close>: splitting a YAML stream into documents and telling compose files from Kubernetes
  manifests. The YAML decoders are the record \<open>yaml\<close>, an argument of everything that reads YAML.
\<close>

datatype Kind = KindCompose | KindManifest

datatype Mode = ModeAuto | ModeCompose | ModeManifest

definition ParseMode :: "string \<Rightarrow> error + Mode" where
  "ParseMode s =
     (if s = [] then Inr ModeAuto
      else if s = ''compose'' then Inr ModeCompose
      else if s = ''manifest'' then Inr ModeManifest
      else Inl (InvalidMode s))"

text \<open>What the YAML libraries answer; \<open>y_probe\<close> decodes the three fields \<^verbatim>\<open>Classify\<close> looks at.\<close>

record yaml =
  y_documents :: "string \<Rightarrow> string list option"
  y_probe :: "string \<Rightarrow> (string \<times> string \<times> obj option) option"
  y_object :: "string \<Rightarrow> obj option"

definition SplitDocuments :: "yaml \<Rightarrow> string \<Rightarrow> error + string list" where
  "SplitDocuments y raw = (case y_documents y raw of
     None \<Rightarrow> Inl ParseDocumentError
   | Some docs \<Rightarrow> Inr (filter (\<lambda>d. TrimSpace d \<noteq> []) docs))"

definition Classify :: "yaml \<Rightarrow> string \<Rightarrow> Mode \<Rightarrow> error + Kind" where
  "Classify y doc force = (case force of
     ModeCompose \<Rightarrow> Inr KindCompose
   | ModeManifest \<Rightarrow> Inr KindManifest
   | ModeAuto \<Rightarrow> (case y_probe y doc of
        None \<Rightarrow> Inl ParseDocumentError
      | Some (apiVersion, kind, services) \<Rightarrow>
          if apiVersion \<noteq> [] \<and> kind \<noteq> [] then Inr KindManifest
          else if services \<noteq> None then Inr KindCompose
          else Inl UnclassifiedDocument))"

text \<open>A forced mode decides without looking; otherwise the manifest fields win over \<^verbatim>\<open>services\<close>.\<close>

lemma Classify_forced: "Classify y doc ModeCompose = Inr KindCompose" "Classify y doc ModeManifest = Inr KindManifest"
  by (simp_all add: Classify_def)

end
