(* ===== verification/Plugin_Objects.thy ===== *)
theory Plugin_Objects
  imports Detect Go_Path
begin

text \<open>
  The install plans of \<^verbatim>\<open>pkg/plugin\<close>: what \<^verbatim>\<open>addons.go\<close>, \<^verbatim>\<open>storage.go\<close>, \<^verbatim>\<open>kubevirt.go\<close>, \<^verbatim>\<open>hami.go\<close> and
  \<^verbatim>\<open>certManagerIssuer\<close> build from the options, and \<^verbatim>\<open>DecodeManifests\<close> of \<^verbatim>\<open>pkg/deploy/manifests.go\<close>.

  Typed objects are those of \<open>Kube_Objects\<close>; of the types without a constructor of their own the
  fields below the metadata are kept as JSON. \<^verbatim>\<open>resource.ParseQuantity\<close> is an argument, and a size it
  rejects makes \<^verbatim>\<open>resource.MustParse\<close> panic.

  The theorem: an inline plan creates each namespace before it is used and waits only for
  single-replica Deployments it creates.
\<close>

record pluginOptions =
  po_Kubeconfig :: string
  po_Email :: string
  po_Staging :: bool
  po_DNSProvider :: string
  po_DNSToken :: string
  po_Provider :: string
  po_Size :: string
  po_Replicas :: int
  po_NFSServer :: string
  po_NFSPath :: string
  po_CephDeviceFilter :: string
  po_CephFailureDomain :: string
  po_Emulation :: bool
  po_CDI :: bool

record WaitTarget =
  wt_Namespace :: string
  wt_Name :: string

record built =
  bp_Namespace :: string
  bp_Manifests :: "string list"
  bp_Objects :: "kobj list"
  bp_WaitFor :: "WaitTarget list"
  bp_PostObjects :: "kobj list"

definition noPlan :: built where
  "noPlan = \<lparr>bp_Namespace = [], bp_Manifests = [], bp_Objects = [], bp_WaitFor = [], bp_PostObjects = []\<rparr>"

definition waitTarget :: "string \<Rightarrow> string \<Rightarrow> WaitTarget" where
  "waitTarget ns n = \<lparr>wt_Namespace = ns, wt_Name = n\<rparr>"

section \<open>What makes an inline plan sound\<close>

text \<open>Each object's namespace was created by an earlier object of the list.\<close>

fun namespacesFirst :: "string list \<Rightarrow> kobj list \<Rightarrow> bool" where
  "namespacesFirst made [] = True"
| "namespacesFirst made (ob # obs) = (case objectMeta ob of
     None \<Rightarrow> namespacesFirst made obs
   | Some m \<Rightarrow> (om_namespace m = [] \<or> om_namespace m \<in> set made) \<and>
       namespacesFirst (if om_kind m = ''Namespace'' then om_name m # made else made) obs)"

text \<open>The target is a Deployment of the list with one replica that selects its own pods.\<close>

definition awaits :: "kobj list \<Rightarrow> WaitTarget \<Rightarrow> bool" where
  "awaits objs t = list_ex (\<lambda>ob. case ob of
     Deployment w \<Rightarrow> om_name (wl_meta w) = wt_Name t \<and> om_namespace (wl_meta w) = wt_Namespace t \<and>
       wl_Replicas w = Some 1 \<and> wl_Selector w = Some (wl_TemplateLabels w)
   | _ \<Rightarrow> False) objs"

definition soundPlan :: "built \<Rightarrow> bool" where
  "soundPlan b \<longleftrightarrow> namespacesFirst [] (bp_Objects b) \<and> list_all (awaits (bp_Objects b)) (bp_WaitFor b)"

section \<open>Building blocks\<close>

text \<open>\<open>TypeMeta\<close> and \<open>ObjectMeta\<close> together.\<close>

definition typeMeta :: "string \<Rightarrow> string \<Rightarrow> string \<Rightarrow> string \<Rightarrow> string gomap \<Rightarrow> objmeta" where
  "typeMeta av kind name namespace labels = \<lparr>om_apiVersion = av, om_kind = kind, om_name = name, om_namespace = namespace,
     om_labels = labels, om_annotations = []\<rparr>"

definition MustParse :: "(string \<Rightarrow> quantity option) \<Rightarrow> string \<Rightarrow> error + quantity" where
  "MustParse parse s = (case parse s of None \<Rightarrow> Inl (Panic s) | Some q \<Rightarrow> Inr q)"

definition nsObj :: "string \<Rightarrow> kobj" where
  "nsObj name = OtherObj (typeMeta ''v1'' ''Namespace'' name [] []) (JObj [])"

definition namespaceObj :: "string \<Rightarrow> kobj" where
  "namespaceObj name = Unstructured [(''apiVersion'', JStr ''v1''), (''kind'', JStr ''Namespace''),
     (''metadata'', JObj [(''name'', JStr name)])]"

definition claimSpec :: "quantity \<Rightarrow> iface" where
  "claimSpec q = JObj [(''accessModes'', JArr [JStr ''ReadWriteOnce'']),
     (''resources'', JObj [(''requests'', JObj [(''storage'', JStr (q_String q))])])]"

definition pvcObj :: "string \<Rightarrow> string \<Rightarrow> quantity \<Rightarrow> kobj" where
  "pvcObj name namespace q = OtherObj (typeMeta ''v1'' ''PersistentVolumeClaim'' name namespace []) (JObj [(''spec'', claimSpec q)])"

definition claimVolume :: "string \<Rightarrow> volume" where
  "claimVolume claim = \<lparr>vo_Name = ''data'', vo_Source = OtherVolumeSource
     (JObj [(''persistentVolumeClaim'', JObj [(''claimName'', JStr claim)])])\<rparr>"

definition mountAt :: "string \<Rightarrow> string \<Rightarrow> volumeMount" where
  "mountAt name path = \<lparr>mt_Name = name, mt_MountPath = path, mt_ReadOnly = False\<rparr>"

definition podOf :: "container \<Rightarrow> volume list \<Rightarrow> obj \<Rightarrow> podSpec" where
  "podOf c vols rest = \<lparr>ps_Containers = [c], ps_Volumes = vols, ps_ImagePullSecrets = [], ps_NodeSelector = [],
     ps_Affinity = None, ps_TopologySpread = [], ps_rest = JObj rest\<rparr>"

definition deploymentObj :: "string \<Rightarrow> string \<Rightarrow> string gomap \<Rightarrow> podSpec \<Rightarrow> kobj" where
  "deploymentObj name namespace labels pod = Deployment \<lparr>wl_meta = typeMeta ''apps/v1'' ''Deployment'' name namespace labels,
     wl_Replicas = Some 1, wl_Selector = Some labels, wl_TemplateLabels = labels, wl_Pod = pod, wl_MinReadySeconds = 0,
     wl_ProgressDeadline = None, wl_Strategy = NoStrategy, wl_rest = JObj []\<rparr>"

definition servicePort :: "string \<Rightarrow> int \<Rightarrow> iface" where
  "servicePort name port = JObj ((if name = [] then [] else [(''name'', JStr name)]) @
     [(''port'', JInt port), (''targetPort'', JInt port)])"

definition containerPort :: "string \<Rightarrow> int \<Rightarrow> iface" where
  "containerPort name port = JObj ((if name = [] then [] else [(''name'', JStr name)]) @ [(''containerPort'', JInt port)])"

definition serviceOf :: "string \<Rightarrow> string \<Rightarrow> string gomap \<Rightarrow> obj \<Rightarrow> iface list \<Rightarrow> kobj" where
  "serviceOf name namespace labels extra ports = ServiceObj (typeMeta ''v1'' ''Service'' name namespace labels)
     (JObj [(''spec'', JObj (extra @ [(''selector'', JObj (toStringMapIface labels)), (''ports'', JArr ports)]))])"

section \<open>Add-ons\<close>

definition simpleWorkload ::
    "(string \<Rightarrow> quantity option) \<Rightarrow> string \<Rightarrow> string \<Rightarrow> string \<Rightarrow> int \<Rightarrow> string \<Rightarrow> string \<Rightarrow> envVar list \<Rightarrow> error + kobj list" where
  "simpleWorkload parse namespace name img port sz mountPath env =
     rbind (MustParse parse sz) (\<lambda>q.
     let labels = [(''app'', name)];
         c = \<lparr>ct_Name = name, ct_Image = img, ct_Env = env, ct_EnvFrom = [], ct_VolumeMounts = [mountAt ''data'' mountPath],
              ct_Limits = [], ct_Requests = [], ct_rest = JObj [(''ports'', JArr [containerPort [] port])]\<rparr>
     in Inr [nsObj namespace, pvcObj name namespace q,
             deploymentObj name namespace labels (podOf c [claimVolume name] []),
             serviceOf name namespace labels [] [servicePort [] port]])"

definition registryObjects :: "(string \<Rightarrow> quantity option) \<Rightarrow> error + kobj list" where
  "registryObjects parse =
     simpleWorkload parse ''orcinus-registry'' ''registry'' ''registry:2'' 5000 ''10Gi'' ''/var/lib/registry'' []"

definition grafanaObjects :: "(string \<Rightarrow> quantity option) \<Rightarrow> error + kobj list" where
  "grafanaObjects parse =
     simpleWorkload parse ''orcinus-monitoring'' ''grafana'' ''grafana/grafana:11.2.0'' 3000 ''2Gi'' ''/var/lib/grafana''
       [\<lparr>ev_Name = ''GF_SECURITY_ADMIN_PASSWORD'', ev_Value = ''admin'', ev_ValueFrom = None\<rparr>]"

section \<open>KubeVirt\<close>

definition kubeVirtVersion :: string where "kubeVirtVersion = ''v1.8.4''"
definition cdiVersion :: string where "cdiVersion = ''v1.65.0''"
definition kubeVirtNS :: string where "kubeVirtNS = ''kubevirt''"
definition cdiNS :: string where "cdiNS = ''cdi''"

definition kubeVirtURL :: "string \<Rightarrow> string" where
  "kubeVirtURL file = ''https://github.com/kubevirt/kubevirt/releases/download/'' @ kubeVirtVersion @ ''/'' @ file"

definition cdiURL :: "string \<Rightarrow> string" where
  "cdiURL file = ''https://github.com/kubevirt/containerized-data-importer/releases/download/'' @ cdiVersion @ ''/'' @ file"

definition kubeVirtCR :: "pluginOptions \<Rightarrow> kobj" where
  "kubeVirtCR opts =
     (let dev = (''featureGates'', JArr []) # (if po_Emulation opts then [(''useEmulation'', JBool True)] else []) in
      Unstructured [(''apiVersion'', JStr ''kubevirt.io/v1''), (''kind'', JStr ''KubeVirt''),
        (''metadata'', JObj [(''name'', JStr ''kubevirt''), (''namespace'', JStr kubeVirtNS)]),
        (''spec'', JObj [(''certificateRotateStrategy'', JObj []), (''customizeComponents'', JObj []),
           (''imagePullPolicy'', JStr ''IfNotPresent''), (''workloadUpdateStrategy'', JObj []),
           (''configuration'', JObj [(''developerConfiguration'', JObj dev), (''imagePullPolicy'', JStr ''IfNotPresent'')])])])"

definition cdiCR :: kobj where
  "cdiCR =
     (let linux = JObj [(''nodeSelector'', JObj [(''kubernetes.io/os'', JStr ''linux'')])] in
      Unstructured [(''apiVersion'', JStr ''cdi.kubevirt.io/v1beta1''), (''kind'', JStr ''CDI''),
        (''metadata'', JObj [(''name'', JStr ''cdi'')]),
        (''spec'', JObj [(''imagePullPolicy'', JStr ''IfNotPresent''),
           (''config'', JObj [(''featureGates'', JArr [JStr ''HonorWaitForFirstConsumer'', JStr ''WebhookPvcRendering''])]),
           (''infra'', linux), (''workload'', linux)])])"

definition buildKubeVirt :: "pluginOptions \<Rightarrow> error + built" where
  "buildKubeVirt opts =
     (let b = noPlan\<lparr>bp_Manifests := [kubeVirtURL ''kubevirt-operator.yaml''],
                bp_WaitFor := [waitTarget kubeVirtNS ''virt-operator''], bp_PostObjects := [kubeVirtCR opts]\<rparr>
      in Inr (if po_CDI opts
        then b\<lparr>bp_Manifests := bp_Manifests b @ [cdiURL ''cdi-operator.yaml''],
               bp_WaitFor := bp_WaitFor b @ [waitTarget cdiNS ''cdi-operator''], bp_PostObjects := bp_PostObjects b @ [cdiCR]\<rparr>
        else b))"

section \<open>HAMi\<close>

definition decodeDoc :: "yaml \<Rightarrow> string \<Rightarrow> error + kobj list" where
  "decodeDoc y doc = (case y_object y doc of
     None \<Rightarrow> Inl ParseDocumentError | Some m \<Rightarrow> Inr (if m = [] then [] else [Unstructured m]))"

definition DecodeManifests :: "yaml \<Rightarrow> string \<Rightarrow> error + kobj list" where
  "DecodeManifests y data = rbind (SplitDocuments y data) (\<lambda>docs. rbind (mapM (decodeDoc y) docs) (\<lambda>obs. Inr (concat obs)))"

definition buildHAMi :: "yaml \<Rightarrow> string \<Rightarrow> pluginOptions \<Rightarrow> error + built" where
  "buildHAMi y hamiYAML opts = rbind (DecodeManifests y hamiYAML) (\<lambda>objs.
     Inr (noPlan\<lparr>bp_Objects := objs, bp_WaitFor := [waitTarget ''kube-system'' ''hami-scheduler'']\<rparr>))"

definition exclusive :: "string gomap" where
  "exclusive = [(''hami'', ''nvidia-device-plugin''), (''nvidia-device-plugin'', ''hami'')]"

section \<open>Storage\<close>

definition storageNS :: string where "storageNS = ''orcinus-storage''"

definition spreadAcrossNodes :: "string gomap \<Rightarrow> affinity" where
  "spreadAcrossNodes labels = \<lparr>af_NodeAffinity = None, af_rest = JObj [(''podAntiAffinity'', JObj
     [(''preferredDuringSchedulingIgnoredDuringExecution'', JArr [JObj [(''weight'', JInt 100),
        (''podAffinityTerm'', JObj [(''topologyKey'', JStr ''kubernetes.io/hostname''),
           (''labelSelector'', JObj [(''matchLabels'', JObj (toStringMapIface labels))])])]])])]\<rparr>"

definition topologySpreadOf :: "string gomap \<Rightarrow> topologySpread list" where
  "topologySpreadOf labels = [\<lparr>ts_MaxSkew = 1, ts_TopologyKey = ''kubernetes.io/hostname'',
     ts_WhenUnsatisfiable = ''ScheduleAnyway'', ts_MatchLabels = labels\<rparr>]"

definition storageClass :: "string \<Rightarrow> string \<Rightarrow> bool \<Rightarrow> string gomap \<Rightarrow> kobj" where
  "storageClass name provisioner expand params = OtherObj (typeMeta ''storage.k8s.io/v1'' ''StorageClass'' name [] [])
     (JObj ((''provisioner'', JStr provisioner) # (if expand then [(''allowVolumeExpansion'', JBool True)] else []) @
       [(''parameters'', JObj (toStringMapIface params))]))"

definition longhornStorageClass :: "int \<Rightarrow> kobj" where
  "longhornStorageClass replicas = storageClass ''longhorn-ha'' ''driver.longhorn.io'' True
     [(''numberOfReplicas'', Itoa replicas), (''staleReplicaTimeout'', ''30''), (''fromBackup'', [])]"

definition cephStorage :: "pluginOptions \<Rightarrow> iface" where
  "cephStorage opts = JObj ((''useAllNodes'', JBool True) #
     (if po_CephDeviceFilter opts \<noteq> []
      then [(''useAllDevices'', JBool False), (''deviceFilter'', JStr (po_CephDeviceFilter opts))]
      else [(''useAllDevices'', JBool True)]))"

definition cephCluster :: "pluginOptions \<Rightarrow> kobj" where
  "cephCluster opts = Unstructured [(''apiVersion'', JStr ''ceph.rook.io/v1''), (''kind'', JStr ''CephCluster''),
     (''metadata'', JObj [(''name'', JStr ''rook-ceph''), (''namespace'', JStr ''rook-ceph'')]),
     (''spec'', JObj [(''cephVersion'', JObj [(''image'', JStr ''quay.io/ceph/ceph:v18.2.4'')]),
        (''dataDirHostPath'', JStr ''/var/lib/rook''),
        (''mon'', JObj [(''count'', JInt 3), (''allowMultiplePerNode'', JBool False)]),
        (''mgr'', JObj [(''count'', JInt 2)]),
        (''dashboard'', JObj [(''enabled'', JBool True)]),
        (''storage'', cephStorage opts)])]"

definition cephPool :: "pluginOptions \<Rightarrow> kobj" where
  "cephPool opts =
     (let sz = (if po_Replicas opts < 1 then 3 else po_Replicas opts);
          failureDomain = (if po_CephFailureDomain opts = [] then ''host'' else po_CephFailureDomain opts)
      in Unstructured [(''apiVersion'', JStr ''ceph.rook.io/v1''), (''kind'', JStr ''CephBlockPool''),
           (''metadata'', JObj [(''name'', JStr ''replicapool''), (''namespace'', JStr ''rook-ceph'')]),
           (''spec'', JObj [(''failureDomain'', JStr failureDomain), (''replicated'', JObj [(''size'', JInt sz)])])])"

definition cephObjects :: "pluginOptions \<Rightarrow> kobj list" where
  "cephObjects opts = [cephCluster opts, cephPool opts, storageClass ''ceph-block'' ''rook-ceph.rbd.csi.ceph.com'' True
     [(''clusterID'', ''rook-ceph''), (''pool'', ''replicapool''), (''imageFormat'', ''2''), (''imageFeatures'', ''layering''),
      (''csi.storage.k8s.io/provisioner-secret-name'', ''rook-csi-rbd-provisioner''),
      (''csi.storage.k8s.io/provisioner-secret-namespace'', ''rook-ceph''),
      (''csi.storage.k8s.io/controller-expand-secret-name'', ''rook-csi-rbd-provisioner''),
      (''csi.storage.k8s.io/controller-expand-secret-namespace'', ''rook-ceph''),
      (''csi.storage.k8s.io/node-stage-secret-name'', ''rook-csi-rbd-node''),
      (''csi.storage.k8s.io/node-stage-secret-namespace'', ''rook-ceph''),
      (''csi.storage.k8s.io/fstype'', ''ext4'')]]"

definition rbacMeta :: "string \<Rightarrow> string \<Rightarrow> string \<Rightarrow> objmeta" where
  "rbacMeta kind name namespace = typeMeta ''rbac.authorization.k8s.io/v1'' kind name namespace []"

definition policyRule :: "string \<Rightarrow> string \<Rightarrow> string list \<Rightarrow> iface" where
  "policyRule apiGroup resource verbs = JObj [(''apiGroups'', JArr [JStr apiGroup]), (''resources'', JArr [JStr resource]),
     (''verbs'', JArr (map JStr verbs))]"

definition bindingTo :: "string \<Rightarrow> string \<Rightarrow> string \<Rightarrow> iface" where
  "bindingTo app kind role = JObj [(''subjects'', JArr [JObj [(''kind'', JStr ''ServiceAccount''), (''name'', JStr app), (''namespace'', JStr storageNS)]]),
     (''roleRef'', JObj [(''apiGroup'', JStr ''rbac.authorization.k8s.io''), (''kind'', JStr kind), (''name'', JStr role)])]"

definition nfsPod :: "pluginOptions \<Rightarrow> string \<Rightarrow> string \<Rightarrow> podSpec" where
  "nfsPod opts app provisioner =
     (let env = (\<lambda>n v. \<lparr>ev_Name = n, ev_Value = v, ev_ValueFrom = None\<rparr>);
          c = \<lparr>ct_Name = app, ct_Image = ''registry.k8s.io/sig-storage/nfs-subdir-external-provisioner:v4.0.2'',
               ct_Env = [env ''PROVISIONER_NAME'' provisioner, env ''NFS_SERVER'' (po_NFSServer opts), env ''NFS_PATH'' (po_NFSPath opts)],
               ct_EnvFrom = [], ct_VolumeMounts = [mountAt ''nfs-root'' ''/persistentvolumes''], ct_Limits = [], ct_Requests = [], ct_rest = JObj []\<rparr>
      in podOf c [\<lparr>vo_Name = ''nfs-root'', vo_Source = OtherVolumeSource (JObj [(''nfs'',
             JObj [(''server'', JStr (po_NFSServer opts)), (''path'', JStr (po_NFSPath opts))])])\<rparr>]
           [(''serviceAccountName'', JStr app)])"

definition nfsObjects :: "pluginOptions \<Rightarrow> kobj list" where
  "nfsObjects opts =
     (let app = ''nfs-provisioner''; provisioner = ''orcinus.io/nfs''; runner = app @ ''-runner''; leader = app @ ''-leader'';
          readers = [''get'', ''list'', ''watch'']
      in [nsObj storageNS,
          OtherObj (typeMeta ''v1'' ''ServiceAccount'' app storageNS []) (JObj []),
          OtherObj (rbacMeta ''ClusterRole'' runner []) (JObj [(''rules'', JArr
            [policyRule [] ''nodes'' readers, policyRule [] ''persistentvolumes'' (readers @ [''create'', ''delete'']),
             policyRule [] ''persistentvolumeclaims'' (readers @ [''update'']),
             policyRule ''storage.k8s.io'' ''storageclasses'' readers,
             policyRule [] ''events'' [''create'', ''update'', ''patch'']])]),
          OtherObj (rbacMeta ''ClusterRoleBinding'' runner []) (bindingTo app ''ClusterRole'' runner),
          OtherObj (rbacMeta ''Role'' leader storageNS) (JObj [(''rules'', JArr
            [policyRule [] ''endpoints'' (readers @ [''create'', ''update'', ''patch''])])]),
          OtherObj (rbacMeta ''RoleBinding'' leader storageNS) (bindingTo app ''Role'' leader),
          deploymentObj app storageNS [(''app'', app)] (nfsPod opts app provisioner),
          storageClass ''nfs'' provisioner False [(''archiveOnDelete'', ''false'')]])"

definition minioSize :: "pluginOptions \<Rightarrow> string" where
  "minioSize opts = (if po_Size opts = [] then ''10Gi'' else po_Size opts)"

definition minioSecret :: kobj where
  "minioSecret = SecretObj (typeMeta ''v1'' ''Secret'' ''minio-creds'' storageNS []) ''Opaque''
     [(''MINIO_ROOT_USER'', ''minioadmin''), (''MINIO_ROOT_PASSWORD'', ''minioadmin'')]"

definition minioContainer :: "string list \<Rightarrow> container" where
  "minioContainer args = \<lparr>ct_Name = ''minio'', ct_Image = ''minio/minio:RELEASE.2024-09-22T00-33-43Z'', ct_Env = [],
     ct_EnvFrom = [\<lparr>ef_ConfigMapRef = None, ef_SecretRef = Some ''minio-creds''\<rparr>], ct_VolumeMounts = [mountAt ''data'' ''/data''],
     ct_Limits = [], ct_Requests = [], ct_rest = JObj [(''args'', JArr (map JStr args)),
       (''ports'', JArr [containerPort ''api'' 9000, containerPort ''console'' 9001])]\<rparr>"

definition minioService :: kobj where
  "minioService = serviceOf ''minio'' storageNS [(''app'', ''minio'')] [] [servicePort ''api'' 9000, servicePort ''console'' 9001]"

definition minioStandalone :: "(string \<Rightarrow> quantity option) \<Rightarrow> pluginOptions \<Rightarrow> error + kobj list" where
  "minioStandalone parse opts = rbind (MustParse parse (minioSize opts)) (\<lambda>q.
     Inr [nsObj storageNS, minioSecret, pvcObj ''minio-data'' storageNS q,
          deploymentObj ''minio'' storageNS [(''app'', ''minio'')]
            (podOf (minioContainer [''server'', ''/data'', ''--console-address'', '':9001'']) [claimVolume ''minio-data''] []),
          minioService])"

definition minioEndpoints :: "pluginOptions \<Rightarrow> string" where
  "minioEndpoints opts = ''http://minio-{0...'' @ Itoa (po_Replicas opts - 1) @ ''}.minio-hl.'' @ storageNS @ ''.svc.cluster.local/data''"

definition minioDistributed :: "(string \<Rightarrow> quantity option) \<Rightarrow> pluginOptions \<Rightarrow> error + kobj list" where
  "minioDistributed parse opts = rbind (MustParse parse (minioSize opts)) (\<lambda>q.
     let labels = [(''app'', ''minio'')];
         pod = podOf (minioContainer [''server'', ''--console-address'', '':9001'', minioEndpoints opts]) [] []
     in Inr [nsObj storageNS, minioSecret,
          serviceOf ''minio-hl'' storageNS labels [(''clusterIP'', JStr ''None''), (''publishNotReadyAddresses'', JBool True)]
            [servicePort ''api'' 9000],
          minioService,
          StatefulSet \<lparr>wl_meta = typeMeta ''apps/v1'' ''StatefulSet'' ''minio'' storageNS labels,
            wl_Replicas = Some (int32 (po_Replicas opts)), wl_Selector = Some labels, wl_TemplateLabels = labels,
            wl_Pod = pod\<lparr>ps_Affinity := Some (spreadAcrossNodes labels), ps_TopologySpread := topologySpreadOf labels\<rparr>,
            wl_MinReadySeconds = 0, wl_ProgressDeadline = None, wl_Strategy = NoStrategy,
            wl_rest = JObj [(''serviceName'', JStr ''minio-hl''), (''volumeClaimTemplates'', JArr [JObj
              [(''metadata'', JObj [(''name'', JStr ''data'')]), (''spec'', claimSpec q)]])]\<rparr>])"

definition minioObjects :: "(string \<Rightarrow> quantity option) \<Rightarrow> pluginOptions \<Rightarrow> error + kobj list" where
  "minioObjects parse opts = (if po_Replicas opts \<ge> 2 then minioDistributed parse opts else minioStandalone parse opts)"

definition rookURL :: "string \<Rightarrow> string" where
  "rookURL file = ''https://raw.githubusercontent.com/rook/rook/v1.15.4/deploy/examples/'' @ file"

definition buildStorage :: "(string \<Rightarrow> quantity option) \<Rightarrow> pluginOptions \<Rightarrow> error + built" where
  "buildStorage parse opts =
     (let p = po_Provider opts in
      if p = [] \<or> p = ''local-path'' then Inr noPlan
      else if p = ''longhorn'' then
        Inr (noPlan\<lparr>bp_Manifests := [''https://raw.githubusercontent.com/longhorn/longhorn/v1.7.2/deploy/longhorn.yaml''],
                    bp_Objects := (if po_Replicas opts > 0 then [longhornStorageClass (po_Replicas opts)] else [])\<rparr>)
      else if p = ''nfs'' then
        (if po_NFSServer opts = [] \<or> po_NFSPath opts = [] then Inl (Missing ''--nfs-server/--nfs-path'')
         else Inr (noPlan\<lparr>bp_Objects := nfsObjects opts\<rparr>))
      else if p = ''minio'' then
        rbind (minioObjects parse opts) (\<lambda>objs. Inr (noPlan\<lparr>bp_Objects := objs,
          bp_WaitFor := (if po_Replicas opts \<le> 1 then [waitTarget storageNS ''minio''] else [])\<rparr>))
      else if p = ''rook-ceph'' then
        Inr (noPlan\<lparr>bp_Manifests := [rookURL ''crds.yaml'', rookURL ''common.yaml'', rookURL ''operator.yaml''],
                    bp_WaitFor := [waitTarget ''rook-ceph'' ''rook-ceph-operator''], bp_PostObjects := cephObjects opts\<rparr>)
      else Inl (UnknownName p))"

section \<open>Issuers\<close>

definition acmeServer :: "bool \<Rightarrow> string" where
  "acmeServer staging = (if staging then ''https://acme-staging-v02.api.letsencrypt.org/directory''
     else ''https://acme-v02.api.letsencrypt.org/directory'')"

definition clusterIssuer :: "string \<Rightarrow> string \<Rightarrow> string \<Rightarrow> string \<Rightarrow> iface \<Rightarrow> kobj" where
  "clusterIssuer name server email account solver =
     Unstructured [(''apiVersion'', JStr ''cert-manager.io/v1''), (''kind'', JStr ''ClusterIssuer''),
       (''metadata'', JObj [(''name'', JStr name)]),
       (''spec'', JObj [(''acme'', JObj [(''server'', JStr server), (''email'', JStr email),
          (''privateKeySecretRef'', JObj [(''name'', JStr account)]), (''solvers'', JArr [solver])])])]"

definition certManagerIssuer :: "pluginOptions \<Rightarrow> error + kobj list" where
  "certManagerIssuer opts =
     (let server = acmeServer (po_Staging opts);
          issuer = clusterIssuer ''letsencrypt'' server (po_Email opts) ''letsencrypt-account''
            (JObj [(''http01'', JObj [(''ingress'', JObj [(''class'', JStr ''traefik'')])])]);
          token = Unstructured [(''apiVersion'', JStr ''v1''), (''kind'', JStr ''Secret''),
            (''metadata'', JObj [(''name'', JStr ''cloudflare-api-token''), (''namespace'', JStr ''cert-manager'')]),
            (''type'', JStr ''Opaque''), (''stringData'', JObj [(''api-token'', JStr (po_DNSToken opts))])];
          dns = clusterIssuer ''letsencrypt-dns'' server (po_Email opts) ''letsencrypt-dns-account''
            (JObj [(''dns01'', JObj [(''cloudflare'', JObj [(''apiTokenSecretRef'',
               JObj [(''name'', JStr ''cloudflare-api-token''), (''key'', JStr ''api-token'')])])])])
      in Inr (if po_DNSProvider opts = ''cloudflare'' \<and> po_DNSToken opts \<noteq> [] then [issuer, token, dns] else [issuer]))"

section \<open>The inline plans are sound\<close>

lemmas plan_defs = typeMeta_def nsObj_def pvcObj_def deploymentObj_def serviceOf_def storageClass_def rbacMeta_def
  minioSecret_def minioService_def waitTarget_def

lemma simpleWorkload_sound:
  assumes "simpleWorkload parse ns name img port sz path env = Inr objs" and "ns \<noteq> []"
  shows "namespacesFirst [] objs" "awaits objs (waitTarget ns name)"
  using assms by (auto simp: simpleWorkload_def plan_defs Let_def rbind_Inr_iff awaits_def)

lemma buildStorage_plain:
  assumes "buildStorage parse opts = Inr b" and "bp_Manifests b = []"
  obtains (none) "b = noPlan" | (nfs) "b = noPlan\<lparr>bp_Objects := nfsObjects opts\<rparr>"
    | (minio) objs where "minioObjects parse opts = Inr objs" "b = noPlan\<lparr>bp_Objects := objs,
          bp_WaitFor := (if po_Replicas opts \<le> 1 then [waitTarget storageNS ''minio''] else [])\<rparr>"
proof -
  define p where "p = po_Provider opts"
  note run = assms(1) [unfolded buildStorage_def, folded p_def, unfolded Let_def]
  consider "p = [] \<or> p = ''local-path''" | "p = ''longhorn''" | "p = ''nfs''" | "p = ''minio''" | "p = ''rook-ceph''"
    | "p \<noteq> []" "p \<noteq> ''local-path''" "p \<noteq> ''longhorn''" "p \<noteq> ''nfs''" "p \<noteq> ''minio''" "p \<noteq> ''rook-ceph''" by blast
  then show thesis
  proof cases
    case 4
    show thesis using run 4 minio by (auto simp: rbind_Inr_iff)
  qed (use run assms(2) none nfs in \<open>auto split: if_splits\<close>)
qed

lemma buildStorage_sound:
  assumes "buildStorage parse opts = Inr b" and "bp_Manifests b = []"
  shows "soundPlan b"
  using assms
proof (cases rule: buildStorage_plain)
  case nfs
  then show ?thesis by (simp add: soundPlan_def noPlan_def nfsObjects_def Let_def plan_defs)
next
  case minio
  then show ?thesis
    by (auto simp: soundPlan_def noPlan_def minioObjects_def minioStandalone_def minioDistributed_def rbind_Inr_iff
        Let_def plan_defs awaits_def split: if_splits)
qed (simp add: soundPlan_def noPlan_def)

end
