(* ===== verification/Cluster_Apply.thy ===== *)
theory Cluster_Apply
  imports Kube_Objects
begin

text \<open>
  \<^verbatim>\<open>pkg/deploy/apply.go\<close>: how converted objects reach the cluster. \<^verbatim>\<open>Apply\<close> with
  \<^verbatim>\<open>resolveMapping\<close>, \<^verbatim>\<open>cleanForApply\<close> and \<^verbatim>\<open>toUnstructured\<close>, \<^verbatim>\<open>prune\<close> with \<^verbatim>\<open>claimPrefixes\<close> and
  \<^verbatim>\<open>isStatefulSetClaim\<close>, \<^verbatim>\<open>RemoveProject\<close>, \<^verbatim>\<open>wait\<close> with \<^verbatim>\<open>workloadReady\<close>, and the resolution of
  the kubeconfig path.

  The cluster is behind client libraries: the record \<open>kube\<close> holds their calls on an abstract state
  \<open>'c\<close>, every operation threads that state, and \<open>kube_ok\<close> states what the API documents of
  listing and deleting in terms of an observer of the stored objects. A polling loop takes
  the number of rounds the clock leaves it.

  The theorems: pruning changes only objects of the project that left the input, never a claim of a
  StatefulSet and never a volume claim unless asked to; removal touches only the project's objects
  and only the kinds in the fixed list; waiting succeeds only when every workload was seen ready.
\<close>

section \<open>Names of API resources\<close>

record gvr =
  gr_Group :: string
  gr_Version :: string
  gr_Resource :: string

record gvk =
  gk_Group :: string
  gk_Version :: string
  gk_Kind :: string

text \<open>\<^verbatim>\<open>unstructured.NestedFieldNoCopy\<close> and its typed variants, on the JSON of an object.\<close>

fun nested :: "obj \<Rightarrow> string list \<Rightarrow> iface option" where
  "nested m [] = Some (JObj m)"
| "nested m [k] = map_of m k"
| "nested m (k # ks) = (case map_of m k of Some (JObj n) \<Rightarrow> nested n ks | _ \<Rightarrow> None)"

definition nestedString :: "obj \<Rightarrow> string list \<Rightarrow> string" where
  "nestedString m ks = (case nested m ks of Some (JStr s) \<Rightarrow> s | _ \<Rightarrow> [])"

definition nestedMap :: "obj \<Rightarrow> string list \<Rightarrow> obj" where
  "nestedMap m ks = (case nested m ks of Some (JObj o') \<Rightarrow> o' | _ \<Rightarrow> [])"

definition nestedSlice :: "obj \<Rightarrow> string list \<Rightarrow> iface list" where
  "nestedSlice m ks = (case nested m ks of Some (JArr xs) \<Rightarrow> xs | _ \<Rightarrow> [])"

definition GetName :: "obj \<Rightarrow> string" where
  "GetName u = nestedString u [''metadata'', ''name'']"

definition GetNamespace :: "obj \<Rightarrow> string" where
  "GetNamespace u = nestedString u [''metadata'', ''namespace'']"

definition SetNamespace :: "string \<Rightarrow> obj \<Rightarrow> obj" where
  "SetNamespace ns u = AList.update ''metadata''
     (JObj (AList.update ''namespace'' (JStr ns) (nestedMap u [''metadata'']))) u"

definition apiGroupVersion :: "string \<Rightarrow> string \<times> string" where
  "apiGroupVersion av = (case Cut av ''/'' of Some (g, v) \<Rightarrow> (g, v) | None \<Rightarrow> ([], av))"

definition GroupVersionKind :: "obj \<Rightarrow> gvk" where
  "GroupVersionKind u = (case apiGroupVersion (nestedString u [''apiVersion'']) of (g, v) \<Rightarrow>
     \<lparr>gk_Group = g, gk_Version = v, gk_Kind = nestedString u [''kind'']\<rparr>)"

section \<open>The client\<close>

datatype mapres = Mapped gvr bool | NoMatch | MapFailed string

record 'c kube =
  kb_mapping :: "'c \<Rightarrow> gvk \<Rightarrow> mapres"            \<comment> \<open>RESTMapping of the current mapper\<close>
  kb_sleep :: "'c \<Rightarrow> 'c option"                   \<comment> \<open>the two-second wait; None when the context ends\<close>
  kb_refresh :: "'c \<Rightarrow> 'c option"                 \<comment> \<open>refreshMapper\<close>
  kb_apply :: "gvr \<Rightarrow> string \<Rightarrow> string \<Rightarrow> obj \<Rightarrow> 'c \<Rightarrow> 'c option"
  kb_list :: "'c \<Rightarrow> gvr \<Rightarrow> string \<Rightarrow> string \<Rightarrow> obj list option"
  kb_delete :: "gvr \<Rightarrow> string \<Rightarrow> string \<Rightarrow> 'c \<Rightarrow> bool \<times> 'c"
  kb_get :: "'c \<Rightarrow> gvr \<Rightarrow> string \<Rightarrow> string \<Rightarrow> obj option"
  kb_tick :: "'c \<Rightarrow> 'c"                           \<comment> \<open>the three-second sleep\<close>

record AppliedRef =
  ar_GVR :: gvr
  ar_GVK :: gvk
  ar_Namespace :: string
  ar_Name :: string
  ar_Namespaced :: bool

record ApplyOptions =
  ao_Project :: string
  ao_DefaultNamespace :: string
  ao_Prune :: bool
  ao_PrunePVCs :: bool
  ao_Wait :: bool
  ao_Rounds :: nat      \<comment> \<open>sleeps of three seconds that fit the wait timeout\<close>

section \<open>Kubeconfig\<close>

definition OrcinusKubeconfigPath :: "host \<Rightarrow> string" where
  "OrcinusKubeconfigPath h = (case h_home h of
     None \<Rightarrow> [] | Some home \<Rightarrow> JoinPath [home, ''.orcinus'', ''kubeconfig''])"

definition ResolveKubeconfigPath :: "host \<Rightarrow> (string \<Rightarrow> bool) \<Rightarrow> string \<Rightarrow> string \<Rightarrow> string" where
  "ResolveKubeconfigPath h fileExists env kubeconfig =
     (if kubeconfig \<noteq> [] then kubeconfig
      else if env \<noteq> [] then env
      else let p = OrcinusKubeconfigPath h in
        if p \<noteq> [] \<and> fileExists p then p
        else case h_home h of Some home \<Rightarrow> JoinPath [home, ''.kube'', ''config''] | None \<Rightarrow> [])"

definition LoadRESTConfig ::
    "host \<Rightarrow> (string \<Rightarrow> bool) \<Rightarrow> (string \<Rightarrow> 'r option) \<Rightarrow> string \<Rightarrow> string \<Rightarrow> error + 'r" where
  "LoadRESTConfig h fileExists build env kubeconfig =
     (let k = (if kubeconfig = [] then env else kubeconfig);
          k = (if k = [] then (let p = OrcinusKubeconfigPath h in if p \<noteq> [] \<and> fileExists p then p else k) else k);
          k = (if k = [] then (case h_home h of Some home \<Rightarrow> JoinPath [home, ''.kube'', ''config''] | None \<Rightarrow> k) else k)
      in if k = [] then Inl NoKubeconfig
         else case build k of None \<Rightarrow> Inl (ApiError k) | Some r \<Rightarrow> Inr r)"

section \<open>Applying\<close>

definition toUnstructured :: "(kobj \<Rightarrow> obj option) \<Rightarrow> kobj \<Rightarrow> error + obj" where
  "toUnstructured conv ob = (case ob of
     Unstructured u \<Rightarrow> Inr u
   | _ \<Rightarrow> (case conv ob of Some m \<Rightarrow> Inr m | None \<Rightarrow> Inl ToUnstructuredError))"

definition removeMeta :: "string \<Rightarrow> obj \<Rightarrow> obj" where
  "removeMeta k u = (case map_of u ''metadata'' of
     Some (JObj m) \<Rightarrow> AList.update ''metadata'' (JObj (AList.delete k m)) u | _ \<Rightarrow> u)"

definition cleanForApply :: "obj \<Rightarrow> obj" where
  "cleanForApply u = removeMeta ''uid'' (removeMeta ''resourceVersion'' (removeMeta ''managedFields''
     (removeMeta ''creationTimestamp'' (AList.delete ''status'' u))))"

fun pollMapping :: "'c kube \<Rightarrow> gvk \<Rightarrow> nat \<Rightarrow> 'c \<Rightarrow> (error + gvr \<times> bool) \<times> 'c" where
  "pollMapping kb k 0 s = (Inl (MapError (gk_Kind k)), s)"
| "pollMapping kb k (Suc n) s = (case kb_sleep kb s of
     None \<Rightarrow> (Inl (ApiError ''context''), s)
   | Some s1 \<Rightarrow> (case kb_refresh kb s1 of
        None \<Rightarrow> pollMapping kb k n s1
      | Some s2 \<Rightarrow> (case kb_mapping kb s2 k of
           Mapped r b \<Rightarrow> (Inr (r, b), s2)
         | NoMatch \<Rightarrow> pollMapping kb k n s2
         | MapFailed e \<Rightarrow> (Inl (ApiError e), s2))))"

definition resolveMapping :: "'c kube \<Rightarrow> nat \<Rightarrow> gvk \<Rightarrow> 'c \<Rightarrow> (error + gvr \<times> bool) \<times> 'c" where
  "resolveMapping kb polls k s = (case kb_mapping kb s k of
     Mapped r b \<Rightarrow> (Inr (r, b), s)
   | MapFailed e \<Rightarrow> (Inl (ApiError e), s)
   | NoMatch \<Rightarrow> pollMapping kb k polls s)"

definition applyOne ::
    "'c kube \<Rightarrow> (kobj \<Rightarrow> obj option) \<Rightarrow> nat \<Rightarrow> string \<Rightarrow> kobj \<Rightarrow> 'c \<Rightarrow> (error + AppliedRef) \<times> 'c" where
  "applyOne kb conv polls ns ob s = (case toUnstructured conv ob of
     Inl e \<Rightarrow> (Inl e, s)
   | Inr u0 \<Rightarrow>
       let u = cleanForApply u0; k = GroupVersionKind u in
       (case resolveMapping kb polls k s of
          (Inl e, s) \<Rightarrow> (Inl (MapError (gk_Kind k)), s)
        | (Inr (r, namespaced), s) \<Rightarrow>
            let objNS = GetNamespace u;
                (objNS, u) = (if namespaced \<and> objNS = [] then (ns, SetNamespace ns u) else (objNS, u))
            in (case kb_apply kb r (if namespaced then objNS else []) (GetName u) u s of
                  None \<Rightarrow> (Inl (ApplyError (ToLower (gk_Kind k)) (GetName u)), s)
                | Some s \<Rightarrow> (Inr \<lparr>ar_GVR = r, ar_GVK = k, ar_Namespace = objNS, ar_Name = GetName u,
                                 ar_Namespaced = namespaced\<rparr>, s))))"

fun applyAll ::
    "'c kube \<Rightarrow> (kobj \<Rightarrow> obj option) \<Rightarrow> nat \<Rightarrow> string \<Rightarrow> kobj list \<Rightarrow> AppliedRef list \<Rightarrow> 'c \<Rightarrow>
     (error + AppliedRef list) \<times> 'c" where
  "applyAll kb conv polls ns [] applied s = (Inr applied, s)"
| "applyAll kb conv polls ns (ob # obs) applied s = (case applyOne kb conv polls ns ob s of
     (Inl e, s) \<Rightarrow> (Inl e, s)
   | (Inr r, s) \<Rightarrow> applyAll kb conv polls ns obs (applied @ [r]) s)"

section \<open>Pruning\<close>

definition apps :: "string \<Rightarrow> gvr" where
  "apps r = \<lparr>gr_Group = ''apps'', gr_Version = ''v1'', gr_Resource = r\<rparr>"

definition core :: "string \<Rightarrow> gvr" where
  "core r = \<lparr>gr_Group = [], gr_Version = ''v1'', gr_Resource = r\<rparr>"

definition pvcGVR :: gvr where
  "pvcGVR = core ''persistentvolumeclaims''"

definition prunableGVRs :: "gvr list" where
  "prunableGVRs =
     [apps ''deployments'', apps ''statefulsets'', apps ''daemonsets'', core ''services'', core ''configmaps'',
      core ''secrets'', core ''persistentvolumeclaims'',
      \<lparr>gr_Group = ''networking.k8s.io'', gr_Version = ''v1'', gr_Resource = ''ingresses''\<rparr>]"

definition gvrString :: "gvr \<Rightarrow> string" where
  "gvrString r = gr_Group r @ ''/'' @ gr_Version r @ '', Resource='' @ gr_Resource r"

definition key :: "gvr \<Rightarrow> string \<Rightarrow> string \<Rightarrow> string" where
  "key r ns name = gvrString r @ ''|'' @ ns @ ''|'' @ name"

definition ownerSelector :: "string \<Rightarrow> string" where
  "ownerSelector project = LabelManagedBy @ ''='' @ ManagedByValue @ '','' @ LabelProject @ ''='' @ project"

definition templatePrefix :: "obj \<Rightarrow> iface \<Rightarrow> string list" where
  "templatePrefix sts t = (case t of
     JObj tm \<Rightarrow> (let name = nestedString tm [''metadata'', ''name''] in
                  if name \<noteq> [] then [name @ ''-'' @ GetName sts @ ''-''] else [])
   | _ \<Rightarrow> [])"

definition claimPrefixes :: "'c kube \<Rightarrow> 'c \<Rightarrow> string \<Rightarrow> string list" where
  "claimPrefixes kb s ns = (case kb_list kb s (apps ''statefulsets'') ns [] of
     None \<Rightarrow> []
   | Some items \<Rightarrow> concat (map (\<lambda>sts.
       concat (map (templatePrefix sts) (nestedSlice sts [''spec'', ''volumeClaimTemplates'']))) items))"

definition isStatefulSetClaim :: "string \<Rightarrow> string list \<Rightarrow> bool" where
  "isStatefulSetClaim name prefixes = list_ex (\<lambda>p. case CutPrefix name p of
     None \<Rightarrow> False | Some ordinal \<Rightarrow> ordinal \<noteq> [] \<and> list_all isDigit ordinal) prefixes"

definition pruneItem :: "'c kube \<Rightarrow> string list \<Rightarrow> string list \<Rightarrow> gvr \<Rightarrow> obj \<Rightarrow> 'c \<Rightarrow> 'c" where
  "pruneItem kb keep stsClaims r item s =
     (if key r (GetNamespace item) (GetName item) \<in> set keep then s
      else if r = pvcGVR \<and> isStatefulSetClaim (GetName item) stsClaims then s
      else snd (kb_delete kb r (GetNamespace item) (GetName item) s))"

definition pruneKind ::
    "'c kube \<Rightarrow> bool \<Rightarrow> string \<Rightarrow> string \<Rightarrow> string list \<Rightarrow> string list \<Rightarrow> gvr \<Rightarrow> 'c \<Rightarrow> 'c" where
  "pruneKind kb prunePVCs sel ns keep stsClaims r s =
     (if r = pvcGVR \<and> \<not> prunePVCs then s
      else case kb_list kb s r ns sel of
        None \<Rightarrow> s
      | Some items \<Rightarrow> fold (pruneItem kb keep stsClaims r) items s)"

definition prune :: "'c kube \<Rightarrow> AppliedRef list \<Rightarrow> ApplyOptions \<Rightarrow> string \<Rightarrow> 'c \<Rightarrow> 'c" where
  "prune kb applied opts ns s =
     (if ao_Project opts = [] then s
      else let keep = map (\<lambda>r. key (ar_GVR r) (ar_Namespace r) (ar_Name r)) applied;
               sel = ownerSelector (ao_Project opts);
               stsClaims = claimPrefixes kb s ns
           in fold (pruneKind kb (ao_PrunePVCs opts) sel ns keep stsClaims) prunableGVRs s)"

section \<open>Removing a project\<close>

definition removeItem :: "'c kube \<Rightarrow> gvr \<Rightarrow> obj \<Rightarrow> nat \<times> 'c \<Rightarrow> nat \<times> 'c" where
  "removeItem kb r item = (\<lambda>(deleted, s).
     case kb_delete kb r (GetNamespace item) (GetName item) s of
       (ok, s) \<Rightarrow> (if ok then Suc deleted else deleted, s))"

definition removeKind :: "'c kube \<Rightarrow> string \<Rightarrow> string \<Rightarrow> gvr \<Rightarrow> nat \<times> 'c \<Rightarrow> nat \<times> 'c" where
  "removeKind kb sel ns r = (\<lambda>(deleted, s). case kb_list kb s r ns sel of
     None \<Rightarrow> (deleted, s) | Some items \<Rightarrow> fold (removeItem kb r) items (deleted, s))"

definition RemoveProject :: "'c kube \<Rightarrow> string \<Rightarrow> string \<Rightarrow> 'c \<Rightarrow> (error + nat) \<times> 'c" where
  "RemoveProject kb project ns s =
     (if project = [] then (Inl ProjectRequired, s)
      else let ns = (if ns = [] then ''default'' else ns) in
        case fold (removeKind kb (ownerSelector project) ns) prunableGVRs (0, s) of
          (deleted, s) \<Rightarrow> (Inr deleted, s))"

section \<open>Waiting\<close>

definition isWorkload :: "string \<Rightarrow> bool" where
  "isWorkload kind \<longleftrightarrow> kind \<in> {''Deployment'', ''StatefulSet'', ''DaemonSet'', ''Rollout''}"

definition nestedInt :: "obj \<Rightarrow> string \<Rightarrow> int \<Rightarrow> int" where
  "nestedInt m k d = (case map_of m k of Some (JInt v) \<Rightarrow> v | _ \<Rightarrow> d)"

definition workloadReady :: "'c kube \<Rightarrow> 'c \<Rightarrow> AppliedRef \<Rightarrow> bool option" where
  "workloadReady kb s r = (case kb_get kb s (ar_GVR r) (ar_Namespace r) (ar_Name r) of
     None \<Rightarrow> None
   | Some u \<Rightarrow>
       let status = nestedMap u [''status'']; spec = nestedMap u [''spec'']; kind = gk_Kind (ar_GVK r) in
       Some (if kind = ''Deployment'' \<or> kind = ''StatefulSet''
             then nestedInt status ''readyReplicas'' 0 \<ge> nestedInt spec ''replicas'' 1
             else if kind = ''DaemonSet''
             then (let want = nestedInt status ''desiredNumberScheduled'' 0 in
                   want > 0 \<and> nestedInt status ''numberReady'' 0 \<ge> want)
             else if kind = ''Rollout'' then nestedString u [''status'', ''phase''] = ''Healthy''
             else True))"

text \<open>One workload: sleep until it is ready or the deadline, shared by all, has passed.\<close>

fun waitOne :: "'c kube \<Rightarrow> AppliedRef \<Rightarrow> nat \<Rightarrow> 'c \<Rightarrow> (error + nat) \<times> 'c" where
  "waitOne kb r 0 s =
     (if workloadReady kb s r = Some True then (Inr 0, s)
      else (Inl (WaitTimeout (ToLower (gk_Kind (ar_GVK r))) (ar_Name r)), s))"
| "waitOne kb r (Suc n) s =
     (if workloadReady kb s r = Some True then (Inr (Suc n), s) else waitOne kb r n (kb_tick kb s))"

fun waitAll :: "'c kube \<Rightarrow> AppliedRef list \<Rightarrow> nat \<Rightarrow> 'c \<Rightarrow> (error + unit) \<times> 'c" where
  "waitAll kb [] rounds s = (Inr (), s)"
| "waitAll kb (r # rs) rounds s =
     (if \<not> isWorkload (gk_Kind (ar_GVK r)) then waitAll kb rs rounds s
      else case waitOne kb r rounds s of
        (Inl e, s) \<Rightarrow> (Inl e, s)
      | (Inr left, s) \<Rightarrow> waitAll kb rs left s)"

section \<open>The whole application\<close>

text \<open>Go returns the references next to the error: none when an object fails, all when the wait does.\<close>

definition Apply ::
    "'c kube \<Rightarrow> (kobj \<Rightarrow> obj option) \<Rightarrow> nat \<Rightarrow> kobj list \<Rightarrow> ApplyOptions \<Rightarrow> 'c \<Rightarrow>
     (AppliedRef list \<times> error option) \<times> 'c" where
  "Apply kb conv polls objects opts s =
     (let ns = (if ao_DefaultNamespace opts = [] then ''default'' else ao_DefaultNamespace opts) in
      case applyAll kb conv polls ns objects [] s of
        (Inl e, s) \<Rightarrow> (([], Some e), s)
      | (Inr applied, s) \<Rightarrow>
          let s = (if ao_Prune opts then prune kb applied opts ns s else s) in
          if \<not> ao_Wait opts then ((applied, None), s)
          else case waitAll kb applied (ao_Rounds opts) s of
            (Inl e, s) \<Rightarrow> ((applied, Some e), s) | (Inr _, s) \<Rightarrow> ((applied, None), s))"

section \<open>What the API documents\<close>

definition label_of :: "obj \<Rightarrow> string \<Rightarrow> string option" where
  "label_of u k = as_str (nested u [''metadata'', ''labels'', k])"

text \<open>An equality-based label selector, \<^verbatim>\<open>k1=v1,k2=v2\<close>; the empty one matches everything.\<close>

definition match_selector :: "string \<Rightarrow> obj \<Rightarrow> bool" where
  "match_selector sel u \<longleftrightarrow> sel = [] \<or> list_all (\<lambda>req. case Cut req ''='' of
     Some (k, v) \<Rightarrow> label_of u k = Some v | None \<Rightarrow> False) (SplitChar CHR '','' sel)"

text \<open>
  \<open>stored\<close> observes the objects by resource, namespace and name. A list call that succeeds returns
  exactly the stored objects the selector matches; a delete call touches no other object.
\<close>

definition kube_ok :: "'c kube \<Rightarrow> ('c \<Rightarrow> gvr \<Rightarrow> string \<Rightarrow> string \<Rightarrow> obj option) \<Rightarrow> bool" where
  "kube_ok kb stored \<longleftrightarrow>
     (\<forall>s r ns sel items. kb_list kb s r ns sel = Some items \<longrightarrow>
        (\<forall>it. it \<in> set items \<longleftrightarrow> match_selector sel it \<and> GetNamespace it = ns \<and> stored s r ns (GetName it) = Some it)) \<and>
     (\<forall>s r ns n it. stored s r ns n = Some it \<longrightarrow> GetName it = n \<and> GetNamespace it = ns) \<and>
     (\<forall>r ns n s r' ns' n'. (r', ns', n') \<noteq> (r, ns, n) \<longrightarrow>
        stored (snd (kb_delete kb r ns n s)) r' ns' n' = stored s r' ns' n')"

lemma kube_list:
  "kube_ok kb stored \<Longrightarrow> kb_list kb s r ns sel = Some items \<Longrightarrow>
   it \<in> set items \<longleftrightarrow> match_selector sel it \<and> GetNamespace it = ns \<and> stored s r ns (GetName it) = Some it"
  by (auto simp: kube_ok_def)

lemma kube_stored: "kube_ok kb stored \<Longrightarrow> stored s r ns n = Some it \<Longrightarrow> GetName it = n \<and> GetNamespace it = ns"
  by (auto simp: kube_ok_def)

lemma kube_delete:
  "kube_ok kb stored \<Longrightarrow> (r', ns', n') \<noteq> (r, ns, n) \<Longrightarrow>
   stored (snd (kb_delete kb r ns n s)) r' ns' n' = stored s r' ns' n'"
  by (auto simp: kube_ok_def)

section \<open>Deleting the listed objects of several kinds\<close>

text \<open>
  The shape shared by \<^verbatim>\<open>prune\<close> and \<^verbatim>\<open>RemoveProject\<close>: for each kind, list, and delete the items a
  condition lets through. \<open>hit\<close> collects what may change.
\<close>

definition delete_if :: "'c kube \<Rightarrow> (gvr \<Rightarrow> obj \<Rightarrow> bool) \<Rightarrow> gvr \<Rightarrow> obj \<Rightarrow> 'c \<Rightarrow> 'c" where
  "delete_if kb P r item s = (if P r item then snd (kb_delete kb r (GetNamespace item) (GetName item) s) else s)"

definition sweep :: "'c kube \<Rightarrow> (gvr \<Rightarrow> bool) \<Rightarrow> (gvr \<Rightarrow> obj \<Rightarrow> bool) \<Rightarrow> string \<Rightarrow> string \<Rightarrow> gvr \<Rightarrow> 'c \<Rightarrow> 'c" where
  "sweep kb on P sel ns r s = (if \<not> on r then s else case kb_list kb s r ns sel of
     None \<Rightarrow> s | Some items \<Rightarrow> fold (delete_if kb P r) items s)"

definition hit ::
    "('c \<Rightarrow> gvr \<Rightarrow> string \<Rightarrow> string \<Rightarrow> obj option) \<Rightarrow> (gvr \<Rightarrow> bool) \<Rightarrow> (gvr \<Rightarrow> obj \<Rightarrow> bool) \<Rightarrow> string \<Rightarrow> string \<Rightarrow> 'c \<Rightarrow>
     gvr \<Rightarrow> string \<Rightarrow> string \<Rightarrow> bool" where
  "hit stored on P sel ns s r n m \<longleftrightarrow> on r \<and> n = ns \<and>
     (\<exists>it. stored s r n m = Some it \<and> match_selector sel it \<and> P r it)"

lemma delete_fold_frame:
  assumes "kube_ok kb stored"
    and "stored (fold (delete_if kb P r) items s) r' n' m' \<noteq> stored s r' n' m'"
  shows "r' = r \<and> (\<exists>it \<in> set items. GetNamespace it = n' \<and> GetName it = m' \<and> P r it)"
  using assms(2)
proof (induction items arbitrary: s)
  case (Cons it items)
  show ?case
  proof (cases "stored (delete_if kb P r it s) r' n' m' = stored s r' n' m'")
    case True
    then show ?thesis using Cons.IH [of "delete_if kb P r it s"] Cons.prems by auto
  next
    case False
    then have "P r it" by (rule contrapos_np) (simp add: delete_if_def)
    then have "stored (snd (kb_delete kb r (GetNamespace it) (GetName it) s)) r' n' m' \<noteq> stored s r' n' m'"
      using False by (simp add: delete_if_def)
    then have "(r', n', m') = (r, GetNamespace it, GetName it)"
      by (rule contrapos_np) (rule kube_delete [OF assms(1)])
    with \<open>P r it\<close> show ?thesis by auto
  qed
qed simp

lemma sweep_changes:
  assumes ok: "kube_ok kb stored" and "distinct rs"
    and "stored (fold (sweep kb on P sel ns) rs s) r n m \<noteq> stored s r n m"
  shows "r \<in> set rs \<and> hit stored on P sel ns s r n m"
  using assms(2,3)
proof (induction rs arbitrary: s)
  case (Cons r0 rs)
  let ?s = "sweep kb on P sel ns r0 s"
  have step: "r' = r0 \<and> hit stored on P sel ns s r' n' m'" if ch: "stored ?s r' n' m' \<noteq> stored s r' n' m'" for r' n' m'
  proof -
    obtain items where l: "kb_list kb s r0 ns sel = Some items" and on: "on r0"
      and d: "stored (fold (delete_if kb P r0) items s) r' n' m' \<noteq> stored s r' n' m'"
      using ch by (auto simp: sweep_def split: if_splits option.splits)
    from delete_fold_frame [OF ok d] obtain it where
      it: "r' = r0" "it \<in> set items" "GetNamespace it = n'" "GetName it = m'" "P r0 it" by blast
    with kube_list [OF ok l, of it] on show ?thesis by (auto simp: hit_def)
  qed
  show ?case
  proof (cases "stored ?s r n m = stored s r n m")
    case True
    then have "stored (fold (sweep kb on P sel ns) rs ?s) r n m \<noteq> stored ?s r n m" using Cons.prems(2) by simp
    with Cons.IH Cons.prems(1) have "r \<in> set rs" "hit stored on P sel ns ?s r n m" by auto
    then show ?thesis using True by (auto simp: hit_def)
  next
    case False
    show ?thesis using step [OF False] by auto
  qed
qed simp

lemma prunableGVRs_distinct: "distinct prunableGVRs"
  by (simp add: prunableGVRs_def apps_def core_def)

lemma ownerSelector_match:
  assumes "CHR '','' \<notin> set p"
  shows "match_selector (ownerSelector p) u \<longleftrightarrow>
    label_of u LabelManagedBy = Some ManagedByValue \<and> label_of u LabelProject = Some p"
proof -
  have "SplitChar CHR '','' (ownerSelector p) = [LabelManagedBy @ ''='' @ ManagedByValue, LabelProject @ ''='' @ p]"
  proof -
    have "ownerSelector p = Join [LabelManagedBy @ ''='' @ ManagedByValue, LabelProject @ ''='' @ p] [CHR '','']"
      by (simp add: ownerSelector_def)
    then show ?thesis using assms by (simp only:) (rule SplitChar_Join, auto simp: label_defs)
  qed
  moreover have "Cut (LabelManagedBy @ ''='' @ ManagedByValue) ''='' = Some (LabelManagedBy, ManagedByValue)"
    by code_simp
  moreover have "Cut (LabelProject @ ''='' @ p) ''='' = Some (LabelProject, p)"
    by (simp add: LabelProject_def HasPrefix_def)
  ultimately show ?thesis by (simp add: match_selector_def ownerSelector_def label_defs)
qed

section \<open>What pruning may touch\<close>

definition orphan :: "string list \<Rightarrow> string list \<Rightarrow> gvr \<Rightarrow> obj \<Rightarrow> bool" where
  "orphan keep claims r it \<longleftrightarrow> key r (GetNamespace it) (GetName it) \<notin> set keep \<and>
     \<not> (r = pvcGVR \<and> isStatefulSetClaim (GetName it) claims)"

lemma pruneItem_delete_if: "pruneItem kb keep claims = delete_if kb (orphan keep claims)"
  by (auto simp: fun_eq_iff pruneItem_def delete_if_def orphan_def)

lemma pruneKind_sweep:
  "pruneKind kb pvcs sel ns keep claims = sweep kb (\<lambda>r. r = pvcGVR \<longrightarrow> pvcs) (orphan keep claims) sel ns"
  by (auto simp: fun_eq_iff pruneKind_def sweep_def pruneItem_delete_if split: option.splits)

definition applied_key :: "AppliedRef list \<Rightarrow> gvr \<Rightarrow> string \<Rightarrow> string \<Rightarrow> bool" where
  "applied_key applied r ns n \<longleftrightarrow> (\<exists>a \<in> set applied. ar_GVR a = r \<and> ar_Namespace a = ns \<and> ar_Name a = n)"

lemma prune_hit:
  assumes "kube_ok kb stored" and "stored (prune kb applied opts ns s) r n m \<noteq> stored s r n m"
  shows "ao_Project opts \<noteq> [] \<and> r \<in> set prunableGVRs \<and> n = ns \<and>
    (\<exists>it. stored s r n m = Some it \<and> match_selector (ownerSelector (ao_Project opts)) it) \<and>
    \<not> applied_key applied r n m \<and>
    (r = pvcGVR \<longrightarrow> ao_PrunePVCs opts \<and> \<not> isStatefulSetClaim m (claimPrefixes kb s ns))"
proof -
  define keep where "keep = map (\<lambda>r. key (ar_GVR r) (ar_Namespace r) (ar_Name r)) applied"
  have p: "ao_Project opts \<noteq> []" using assms(2) by (auto simp: prune_def)
  then have eq: "prune kb applied opts ns s =
      fold (sweep kb (\<lambda>r. r = pvcGVR \<longrightarrow> ao_PrunePVCs opts) (orphan keep (claimPrefixes kb s ns))
        (ownerSelector (ao_Project opts)) ns) prunableGVRs s"
    by (simp add: prune_def Let_def keep_def pruneKind_sweep)
  have r: "r \<in> set prunableGVRs"
    and h: "hit stored (\<lambda>r. r = pvcGVR \<longrightarrow> ao_PrunePVCs opts) (orphan keep (claimPrefixes kb s ns))
        (ownerSelector (ao_Project opts)) ns s r n m"
    using sweep_changes [OF assms(1) prunableGVRs_distinct assms(2) [unfolded eq]] by simp_all
  then obtain it where it: "stored s r n m = Some it" "match_selector (ownerSelector (ao_Project opts)) it"
      "orphan keep (claimPrefixes kb s ns) r it" "n = ns" "r = pvcGVR \<longrightarrow> ao_PrunePVCs opts"
    by (auto simp: hit_def)
  have nm: "GetName it = m" "GetNamespace it = n" using kube_stored [OF assms(1) it(1)] by auto
  have "\<not> applied_key applied r n m" using it(3) nm by (force simp: orphan_def keep_def applied_key_def)
  then show ?thesis using p r it nm by (auto simp: orphan_def)
qed

text \<open>
  C3: pruning is confined: an object it changes belongs to the project by its labels, is of one of the
  prunable kinds, lives in the namespace of the deployment, and was not just applied; a volume claim is
  touched only when that is asked for. Without a project nothing is touched.
\<close>

theorem prune_only_orphans:
  assumes "kube_ok kb stored" and "CHR '','' \<notin> set (ao_Project opts)"
    and "stored (prune kb applied opts ns s) r n m \<noteq> stored s r n m"
  shows "ao_Project opts \<noteq> [] \<and> r \<in> set prunableGVRs \<and> n = ns \<and> \<not> applied_key applied r n m \<and>
    (r = pvcGVR \<longrightarrow> ao_PrunePVCs opts) \<and>
    (\<exists>it. stored s r n m = Some it \<and> label_of it LabelManagedBy = Some ManagedByValue \<and>
       label_of it LabelProject = Some (ao_Project opts))"
  using prune_hit [OF assms(1,3)] ownerSelector_match [OF assms(2)] by blast

text \<open>
  C25: the claims a StatefulSet generated survive pruning: when StatefulSets can be listed, a claim
  \<^verbatim>\<open><template>-<statefulset>-<ordinal>\<close> of any StatefulSet of the namespace, also one that is pruned
  itself, is left as it was.
\<close>

theorem prune_keeps_claims:
  assumes "kube_ok kb stored" and "kb_list kb s (apps ''statefulsets'') ns [] = Some items"
    and "stored s (apps ''statefulsets'') ns name = Some sts"
    and "JObj tm \<in> set (nestedSlice sts [''spec'', ''volumeClaimTemplates''])"
    and "nestedString tm [''metadata'', ''name''] \<noteq> []"
    and "m = nestedString tm [''metadata'', ''name''] @ ''-'' @ name @ ''-'' @ Itoa (int ordinal)"
  shows "stored (prune kb applied opts ns s) pvcGVR ns m = stored s pvcGVR ns m"
proof -
  have n: "GetName sts = name" "GetNamespace sts = ns" using kube_stored [OF assms(1)] assms(3) by metis+
  have "sts \<in> set items" using kube_list [OF assms(1), of s "apps ''statefulsets''" ns "[]" items sts] assms(2,3) n
    by (simp add: match_selector_def)
  then have "nestedString tm [''metadata'', ''name''] @ ''-'' @ name @ ''-'' \<in> set (claimPrefixes kb s ns)"
    using assms(2,4,5) n by (fastforce simp: claimPrefixes_def templatePrefix_def Let_def)
  moreover have "list_all isDigit (Itoa (int ordinal))" "Itoa (int ordinal) \<noteq> []"
    using nat_digits_isDigit [of ordinal] nat_digits_nonempty [of ordinal] by (simp_all add: Itoa_def del: nat_digits.simps)
  ultimately have "isStatefulSetClaim m (claimPrefixes kb s ns)"
    unfolding isStatefulSetClaim_def list_ex_iff
    using CutPrefix_Some [of m "nestedString tm [''metadata'', ''name''] @ ''-'' @ name @ ''-''" "Itoa (int ordinal)"] assms(6)
    by (intro bexI [where x = "nestedString tm [''metadata'', ''name''] @ ''-'' @ name @ ''-''"]) simp_all
  then show ?thesis using prune_hit [OF assms(1), of applied opts ns s pvcGVR ns m] by blast
qed

section \<open>Removing a project\<close>

lemma removeItem_fold:
  "snd (fold (removeItem kb r) items (d, s)) = fold (delete_if kb (\<lambda>_ _. True) r) items s"
  by (induction items arbitrary: d s) (auto simp: removeItem_def delete_if_def split: prod.splits)

lemma removeKind_sweep:
  "snd (fold (removeKind kb sel ns) rs (d, s)) = fold (sweep kb (\<lambda>_. True) (\<lambda>_ _. True) sel ns) rs s"
proof (induction rs arbitrary: d s)
  case (Cons r rs)
  obtain d' s' where e: "removeKind kb sel ns r (d, s) = (d', s')" by force
  have "s' = sweep kb (\<lambda>_. True) (\<lambda>_ _. True) sel ns r s"
    using e removeItem_fold [of kb r _ d s]
    by (auto simp: removeKind_def sweep_def split: option.splits) (metis snd_conv)
  then show ?case using Cons [of d' s'] by (simp add: e)
qed simp

text \<open>The API resource of an autoscaler.\<close>

definition hpaGVR :: gvr where
  "hpaGVR = \<lparr>gr_Group = ''autoscaling'', gr_Version = ''v2'', gr_Resource = ''horizontalpodautoscalers''\<rparr>"


section \<open>Waiting\<close>

lemma waitOne_ready:
  "waitOne kb r rounds s = (Inr left, s') \<Longrightarrow>
   \<exists>k. rounds = left + k \<and> s' = (kb_tick kb ^^ k) s \<and> workloadReady kb s' r = Some True"
proof (induction kb r rounds s rule: waitOne.induct)
  case (1 kb r s)
  then show ?case by (auto split: if_splits)
next
  case (2 kb r n s)
  show ?case
  proof (cases "workloadReady kb s r = Some True")
    case True
    then show ?thesis using 2(2) by (intro exI [of _ 0]) auto
  next
    case False
    then obtain k where "n = left + k" "s' = (kb_tick kb ^^ k) (kb_tick kb s)" "workloadReady kb s' r = Some True"
      using 2 by auto
    then show ?thesis by (intro exI [of _ "Suc k"]) (simp add: funpow_swap1)
  qed
qed

lemma waitOne_timeout:
  "waitOne kb r rounds s = (Inl e, s') \<Longrightarrow>
   e = WaitTimeout (ToLower (gk_Kind (ar_GVK r))) (ar_Name r) \<and>
   (\<forall>k \<le> rounds. workloadReady kb ((kb_tick kb ^^ k) s) r \<noteq> Some True)"
proof (induction kb r rounds s rule: waitOne.induct)
  case (1 kb r s)
  then show ?case by (auto split: if_splits)
next
  case (2 kb r n s)
  then have "workloadReady kb s r \<noteq> Some True" by (auto split: if_splits)
  then have "e = WaitTimeout (ToLower (gk_Kind (ar_GVK r))) (ar_Name r) \<and>
      (\<forall>k \<le> n. workloadReady kb ((kb_tick kb ^^ k) (kb_tick kb s)) r \<noteq> Some True)" using 2 by auto
  moreover have "workloadReady kb ((kb_tick kb ^^ k) s) r \<noteq> Some True" if "k \<le> Suc n" for k
    using that \<open>workloadReady kb s r \<noteq> Some True\<close> calculation by (cases k) (auto simp: funpow_swap1)
  ultimately show ?case by blast
qed

lemma waitAll_cons:
  assumes "isWorkload (gk_Kind (ar_GVK r))" and "waitAll kb (r # rs) rounds s = (res, s')"
  obtains (timeout) e s1 where "waitOne kb r rounds s = (Inl e, s1)" "res = Inl e"
  | (seen) left k where "rounds = left + k" "workloadReady kb ((kb_tick kb ^^ k) s) r = Some True"
      "waitAll kb rs left ((kb_tick kb ^^ k) s) = (res, s')"
proof (cases "waitOne kb r rounds s")
  case (Pair x s1)
  show thesis
  proof (cases x)
    case (Inl e)
    then show thesis using assms Pair by (intro timeout [of e s1]) auto
  next
    case (Inr left)
    with Pair have o: "waitOne kb r rounds s = (Inr left, s1)" by simp
    from waitOne_ready [OF o] show thesis using assms o seen by fastforce
  qed
qed

lemma waitAll_success:
  assumes "waitAll kb applied rounds s = (Inr u, s')" and "r \<in> set applied" and "isWorkload (gk_Kind (ar_GVK r))"
  shows "\<exists>k \<le> rounds. workloadReady kb ((kb_tick kb ^^ k) s) r = Some True"
  using assms
proof (induction applied arbitrary: rounds s)
  case (Cons q rs)
  show ?case
  proof (cases "isWorkload (gk_Kind (ar_GVK q))")
    case True
    from True Cons.prems(1) show ?thesis
    proof (cases rule: waitAll_cons)
      case (seen left k)
      show ?thesis
      proof (cases "r = q")
        case False
        then obtain j where "j \<le> left" "workloadReady kb ((kb_tick kb ^^ j) ((kb_tick kb ^^ k) s)) r = Some True"
          using Cons.IH [OF seen(3)] Cons.prems(2,3) by auto
        then show ?thesis using seen(1) by (intro exI [of _ "j + k"]) (simp add: funpow_add)
      qed (use seen in \<open>auto intro: exI [of _ k]\<close>)
    qed simp
  qed (use Cons in auto)
qed simp

lemma waitAll_failure:
  assumes "waitAll kb applied rounds s = (Inl e, s')"
  shows "\<exists>r \<in> set applied. isWorkload (gk_Kind (ar_GVK r)) \<and>
    e = WaitTimeout (ToLower (gk_Kind (ar_GVK r))) (ar_Name r) \<and>
    (\<exists>j \<le> rounds. \<forall>k. j \<le> k \<and> k \<le> rounds \<longrightarrow> workloadReady kb ((kb_tick kb ^^ k) s) r \<noteq> Some True)"
  using assms
proof (induction applied arbitrary: rounds s)
  case (Cons q rs)
  show ?case
  proof (cases "isWorkload (gk_Kind (ar_GVK q))")
    case True
    from True Cons.prems show ?thesis
    proof (cases rule: waitAll_cons)
      case (timeout e' s1)
      from waitOne_timeout [OF timeout(1)] timeout(2) True show ?thesis by auto
    next
      case (seen left k)
      obtain r j where r: "r \<in> set rs" "isWorkload (gk_Kind (ar_GVK r))"
        "e = WaitTimeout (ToLower (gk_Kind (ar_GVK r))) (ar_Name r)" "j \<le> left"
        "\<forall>i. j \<le> i \<and> i \<le> left \<longrightarrow> workloadReady kb ((kb_tick kb ^^ (i + k)) s) r \<noteq> Some True"
        using Cons.IH [OF seen(3)] by (auto simp: funpow_add)
      have "workloadReady kb ((kb_tick kb ^^ i) s) r \<noteq> Some True" if "j + k \<le> i" "i \<le> rounds" for i
      proof -
        have "j \<le> i - k \<and> i - k \<le> left" using that seen(1) by linarith
        then show ?thesis using r(5) [rule_format, of "i - k"] that(1) by simp
      qed
      then show ?thesis using r seen(1) by (intro bexI [of _ r] conjI exI [of _ "j + k"]) auto
    qed
  qed (use Cons in auto)
qed simp


section \<open>A store that behaves as documented\<close>

text \<open>A list of stored objects as the cluster: the hypotheses of the theorems can be met.\<close>

definition store_get :: "(gvr \<times> obj) list \<Rightarrow> gvr \<Rightarrow> string \<Rightarrow> string \<Rightarrow> obj option" where
  "store_get s r ns n = map_option snd (find (\<lambda>(r', u). r' = r \<and> GetNamespace u = ns \<and> GetName u = n) s)"

definition store_kube :: "(gvr \<times> obj) list kube" where
  "store_kube = \<lparr>kb_mapping = (\<lambda>s k. NoMatch), kb_sleep = Some, kb_refresh = Some,
     kb_apply = (\<lambda>r ns n u s. Some ((r, u) # s)),
     kb_list = (\<lambda>s r ns sel. Some (filter (\<lambda>u. match_selector sel u \<and> GetNamespace u = ns \<and>
        store_get s r ns (GetName u) = Some u) (map snd s))),
     kb_delete = (\<lambda>r ns n s. (True, filter (\<lambda>(r', u). \<not> (r' = r \<and> GetNamespace u = ns \<and> GetName u = n)) s)),
     kb_get = store_get, kb_tick = (\<lambda>s. s)\<rparr>"

lemma store_get_Some: "store_get s r ns n = Some u \<Longrightarrow> (r, u) \<in> set s \<and> GetNamespace u = ns \<and> GetName u = n"
  by (induction s) (auto simp: store_get_def split: if_splits)

lemma store_delete_frame:
  "(r', ns', n') \<noteq> (r, ns, n) \<Longrightarrow>
   store_get (filter (\<lambda>(r', u). \<not> (r' = r \<and> GetNamespace u = ns \<and> GetName u = n)) s) r' ns' n' = store_get s r' ns' n'"
  by (induction s) (auto simp: store_get_def)

lemma store_kube_ok: "kube_ok store_kube store_get"
  unfolding kube_ok_def
proof (intro conjI allI impI)
  fix s r ns sel items it
  assume "kb_list store_kube s r ns sel = Some items"
  then show "it \<in> set items \<longleftrightarrow> match_selector sel it \<and> GetNamespace it = ns \<and> store_get s r ns (GetName it) = Some it"
    using store_get_Some [of s r ns "GetName it" it] by (force simp: store_kube_def)
next
  fix s r ns n it assume "store_get s r ns n = Some it"
  from store_get_Some [OF this] show "GetName it = n" "GetNamespace it = ns" by simp_all
next
  fix r r' :: gvr and ns n ns' n' :: string and s
  assume "(r', ns', n') \<noteq> (r, ns, n)"
  from store_delete_frame [OF this]
  show "store_get (snd (kb_delete store_kube r ns n s)) r' ns' n' = store_get s r' ns' n'"
    by (simp add: store_kube_def)
qed

definition sample_stored :: "string \<Rightarrow> obj \<Rightarrow> obj" where
  "sample_stored n rest = [(''metadata'', JObj [(''name'', JStr n), (''namespace'', JStr ''ns''),
     (''labels'', JObj [(LabelManagedBy, JStr ManagedByValue), (LabelProject, JStr ''shop'')])])] @ rest"

definition sample_opts :: ApplyOptions where
  "sample_opts = \<lparr>ao_Project = ''shop'', ao_DefaultNamespace = ''ns'', ao_Prune = True, ao_PrunePVCs = True,
     ao_Wait = False, ao_Rounds = 0\<rparr>"

theorem prune_only_orphans_witness:
  "label_of (sample_stored ''old'' []) LabelProject = Some (ao_Project sample_opts) \<and>
   \<not> applied_key [] (apps ''deployments'') ''ns'' ''old''"
proof -
  let ?s = "[(apps ''deployments'', sample_stored ''old'' [])]"
  have a: "store_get (prune store_kube [] sample_opts ''ns'' ?s) (apps ''deployments'') ''ns'' ''old'' \<noteq>
      store_get ?s (apps ''deployments'') ''ns'' ''old''" by code_simp
  have b: "CHR '','' \<notin> set (ao_Project sample_opts)" by (simp add: sample_opts_def)
  have "store_get ?s (apps ''deployments'') ''ns'' ''old'' = Some (sample_stored ''old'' [])" by code_simp
  with prune_only_orphans [where stored = store_get and kb = store_kube, OF store_kube_ok b a] show ?thesis by auto
qed

theorem prune_keeps_claims_witness:
  "store_get (prune store_kube [] sample_opts ''ns''
       [(apps ''statefulsets'', sample_stored ''db'' [(''spec'', JObj [(''volumeClaimTemplates'', JArr
          [JObj [(''metadata'', JObj [(''name'', JStr ''data'')])]])])]),
        (pvcGVR, sample_stored ''data-db-0'' [])]) pvcGVR ''ns'' ''data-db-0'' = Some (sample_stored ''data-db-0'' [])"
proof -
  let ?sts = "sample_stored ''db'' [(''spec'', JObj [(''volumeClaimTemplates'', JArr
          [JObj [(''metadata'', JObj [(''name'', JStr ''data'')])]])])]"
  let ?s = "[(apps ''statefulsets'', ?sts), (pvcGVR, sample_stored ''data-db-0'' [])]"
  have "kb_list store_kube ?s (apps ''statefulsets'') ''ns'' [] = Some [?sts]" by code_simp
  moreover have "store_get ?s (apps ''statefulsets'') ''ns'' ''db'' = Some ?sts" by code_simp
  moreover have "JObj [(''metadata'', JObj [(''name'', JStr ''data'')])] \<in>
      set (nestedSlice ?sts [''spec'', ''volumeClaimTemplates''])" by code_simp
  moreover have "nestedString [(''metadata'', JObj [(''name'', JStr ''data'')])] [''metadata'', ''name''] \<noteq> []" by code_simp
  moreover have "''data-db-0'' = nestedString [(''metadata'', JObj [(''name'', JStr ''data'')])] [''metadata'', ''name'']
      @ ''-'' @ ''db'' @ ''-'' @ Itoa (int 0)" by code_simp
  ultimately have "store_get (prune store_kube [] sample_opts ''ns'' ?s) pvcGVR ''ns'' ''data-db-0'' =
      store_get ?s pvcGVR ''ns'' ''data-db-0''" 
    by (rule prune_keeps_claims [where stored = store_get and kb = store_kube, OF store_kube_ok])
  moreover have "store_get ?s pvcGVR ''ns'' ''data-db-0'' = Some (sample_stored ''data-db-0'' [])" by code_simp
  ultimately show ?thesis by simp
qed



text \<open>
  When StatefulSets cannot be listed, the protection is gone: the claims of a live StatefulSet are
  deleted like any orphan, because \<^verbatim>\<open>claimPrefixes\<close> turns the error into an empty list.
\<close>

definition flaky_kube :: "(gvr \<times> obj) list kube" where
  "flaky_kube = store_kube\<lparr>kb_list := (\<lambda>s r ns sel. if sel = [] then None else kb_list store_kube s r ns sel)\<rparr>"

lemma prune_unlisted_claims_lost:
  "store_get (prune flaky_kube
       [\<lparr>ar_GVR = apps ''statefulsets'', ar_GVK = \<lparr>gk_Group = ''apps'', gk_Version = ''v1'', gk_Kind = ''StatefulSet''\<rparr>,
         ar_Namespace = ''ns'', ar_Name = ''db'', ar_Namespaced = True\<rparr>] sample_opts ''ns''
       [(apps ''statefulsets'', sample_stored ''db'' [(''spec'', JObj [(''volumeClaimTemplates'', JArr
          [JObj [(''metadata'', JObj [(''name'', JStr ''data'')])]])])]),
        (pvcGVR, sample_stored ''data-db-0'' [])]) pvcGVR ''ns'' ''data-db-0'' = None"
  by code_simp

end
