(* ===== verification/Effects.thy ===== *)
theory Effects
  imports Orcinus_Prelude
begin

text \<open>
  Commands: functions on a state that may fail, with the sequencing the Go code spells out as
  \<^verbatim>\<open>if err != nil { return err }\<close>, \<^verbatim>\<open>_ = f()\<close> and loops over a slice.

  The locale \<open>frame\<close> is what proofs about long command sequences rely on: a preorder on states that
  single steps respect, and that every composition of them then respects too.
\<close>

named_theorems keeps_intros "rules for commands that stay in a frame"

type_synonym ('s, 'a) cmd = "'s \<Rightarrow> (error + 'a) \<times> 's"

definition ret :: "'a \<Rightarrow> ('s, 'a) cmd" where
  "ret x s = (Inr x, s)"

definition fail :: "error \<Rightarrow> ('s, 'a) cmd" where
  "fail e s = (Inl e, s)"

definition ebind :: "('s, 'a) cmd \<Rightarrow> ('a \<Rightarrow> ('s, 'b) cmd) \<Rightarrow> ('s, 'b) cmd" where
  "ebind m f s = (case m s of (Inl e, s') \<Rightarrow> (Inl e, s') | (Inr x, s') \<Rightarrow> f x s')"

definition andThen :: "('s, 'a) cmd \<Rightarrow> ('s, 'b) cmd \<Rightarrow> ('s, 'b) cmd" where
  "andThen m k = ebind m (\<lambda>_. k)"

text \<open>The error is dropped, or handed to a handler.\<close>

definition ignore :: "('s, 'a) cmd \<Rightarrow> ('s, unit) cmd" where
  "ignore m s = (Inr (), snd (m s))"

definition orElse :: "('s, 'a) cmd \<Rightarrow> (error \<Rightarrow> ('s, 'a) cmd) \<Rightarrow> ('s, 'a) cmd" where
  "orElse m h s = (case m s of (Inl e, s') \<Rightarrow> h e s' | (Inr x, s') \<Rightarrow> (Inr x, s'))"

definition optional :: "('s, 'a) cmd \<Rightarrow> ('s, 'a option) cmd" where
  "optional m s = (case m s of (Inl e, s') \<Rightarrow> (Inr None, s') | (Inr x, s') \<Rightarrow> (Inr (Some x), s'))"

definition doIf :: "bool \<Rightarrow> ('s, unit) cmd \<Rightarrow> ('s, unit) cmd" where
  "doIf b m = (if b then m else ret ())"

definition lift :: "error + 'a \<Rightarrow> ('s, 'a) cmd" where
  "lift r s = (r, s)"

fun each :: "('x \<Rightarrow> ('s, unit) cmd) \<Rightarrow> 'x list \<Rightarrow> ('s, unit) cmd" where
  "each f [] = ret ()"
| "each f (x # xs) = andThen (f x) (each f xs)"

section \<open>Runs\<close>

lemma ret_run [simp]: "ret x s = (Inr x, s)"
  by (simp add: ret_def)

lemma fail_run [simp]: "fail e s = (Inl e, s)"
  by (simp add: fail_def)

lemma lift_run [simp]: "lift r s = (r, s)"
  by (simp add: lift_def)

lemma ebind_Inr: "ebind m f s = (Inr y, s') \<longleftrightarrow> (\<exists>x t. m s = (Inr x, t) \<and> f x t = (Inr y, s'))"
  by (auto simp: ebind_def split: prod.splits sum.splits)

lemma ebind_Inl:
  "ebind m f s = (Inl e, s') \<longleftrightarrow> m s = (Inl e, s') \<or> (\<exists>x t. m s = (Inr x, t) \<and> f x t = (Inl e, s'))"
  by (auto simp: ebind_def split: prod.splits sum.splits)

lemma andThen_Inr: "andThen m k s = (Inr y, s') \<longleftrightarrow> (\<exists>x t. m s = (Inr x, t) \<and> k t = (Inr y, s'))"
  by (simp add: andThen_def ebind_Inr)

lemma andThen_Inl:
  "andThen m k s = (Inl e, s') \<longleftrightarrow> m s = (Inl e, s') \<or> (\<exists>x t. m s = (Inr x, t) \<and> k t = (Inl e, s'))"
  by (simp add: andThen_def ebind_Inl)

lemma ignore_run [simp]: "ignore m s = (r, s') \<longleftrightarrow> r = Inr () \<and> s' = snd (m s)"
  by (auto simp: ignore_def)

lemma orElse_Inr: "orElse m h s = (Inr y, s') \<longleftrightarrow> m s = (Inr y, s') \<or> (\<exists>e t. m s = (Inl e, t) \<and> h e t = (Inr y, s'))"
  by (auto simp: orElse_def split: prod.splits sum.splits)

lemma orElse_Inl: "orElse m h s = (Inl e', s') \<longleftrightarrow> (\<exists>e t. m s = (Inl e, t) \<and> h e t = (Inl e', s'))"
  by (auto simp: orElse_def split: prod.splits sum.splits)

lemma ebind_ret [simp]: "ebind (ret x) f = f x"
  by (rule ext) (simp add: ebind_def)

lemma andThen_assoc: "andThen (andThen a b) c = andThen a (andThen b c)"
  by (rule ext) (simp add: andThen_def ebind_def split: prod.splits sum.splits)

lemma doIf_simps [simp]: "doIf True m = m" "doIf False m = ret ()"
  by (simp_all add: doIf_def)

lemmas cmd_runs = ebind_Inr ebind_Inl andThen_Inr andThen_Inl orElse_Inr orElse_Inl

section \<open>Frames\<close>

definition keeps :: "('s \<Rightarrow> 's \<Rightarrow> bool) \<Rightarrow> ('s, 'a) cmd \<Rightarrow> bool" where
  "keeps R m \<longleftrightarrow> (\<forall>s. R s (snd (m s)))"

lemma keepsD: "keeps R m \<Longrightarrow> m s = (r, s') \<Longrightarrow> R s s'"
  unfolding keeps_def by (metis snd_conv)

locale frame =
  fixes R :: "'s \<Rightarrow> 's \<Rightarrow> bool"
  assumes frame_refl: "R s s"
    and frame_trans: "R s t \<Longrightarrow> R t u \<Longrightarrow> R s u"
begin

lemma keeps_ret: "keeps R (ret x)"
  by (simp add: keeps_def frame_refl)

lemma keeps_fail: "keeps R (fail e)"
  by (simp add: keeps_def frame_refl)

lemma keeps_lift: "keeps R (lift r)"
  by (simp add: keeps_def frame_refl)

lemma keeps_ebind: "keeps R m \<Longrightarrow> (\<And>x. keeps R (f x)) \<Longrightarrow> keeps R (ebind m f)"
  by (auto simp: keeps_def ebind_def split: prod.splits sum.splits) (metis snd_conv, metis frame_trans snd_conv)

lemma keeps_andThen: "keeps R m \<Longrightarrow> keeps R k \<Longrightarrow> keeps R (andThen m k)"
  unfolding andThen_def by (rule keeps_ebind)

lemma keeps_ignore: "keeps R m \<Longrightarrow> keeps R (ignore m)"
  by (simp add: keeps_def ignore_def)

lemma keeps_orElse: "keeps R m \<Longrightarrow> (\<And>e. keeps R (h e)) \<Longrightarrow> keeps R (orElse m h)"
  by (auto simp: keeps_def orElse_def split: prod.splits sum.splits) (metis frame_trans snd_conv, metis snd_conv)

lemma keeps_optional: "keeps R m \<Longrightarrow> keeps R (optional m)"
  by (auto simp: keeps_def optional_def split: prod.splits sum.splits) (metis snd_conv)+

lemma keeps_doIf: "keeps R m \<Longrightarrow> keeps R (doIf b m)"
  by (simp add: doIf_def keeps_ret)

lemma keeps_if: "(b \<Longrightarrow> keeps R m) \<Longrightarrow> (\<not> b \<Longrightarrow> keeps R k) \<Longrightarrow> keeps R (if b then m else k)"
  by simp

lemma keeps_each: "(\<And>x. x \<in> set xs \<Longrightarrow> keeps R (f x)) \<Longrightarrow> keeps R (each f xs)"
  by (induction xs) (simp_all add: keeps_ret keeps_andThen)

lemma keeps_option: "(\<And>x. x' = Some x \<Longrightarrow> keeps R (f x)) \<Longrightarrow> (x' = None \<Longrightarrow> keeps R k) \<Longrightarrow>
    keeps R (case x' of Some x \<Rightarrow> f x | None \<Rightarrow> k)"
  by (cases x') auto

lemmas keeps_rules = keeps_ret keeps_fail keeps_lift keeps_ebind keeps_andThen keeps_ignore keeps_orElse
  keeps_optional keeps_doIf keeps_if keeps_each keeps_option

end

text \<open>The frames of the development: what a view of the state shows does not change.\<close>

definition same_view :: "('s \<Rightarrow> 'v) \<Rightarrow> 's \<Rightarrow> 's \<Rightarrow> bool" where
  "same_view view s t \<longleftrightarrow> view t = view s"

interpretation viewed: frame "same_view view" for view :: "'s \<Rightarrow> 'v"
  by unfold_locales (simp_all add: same_view_def)

end
