(* ===== verification/Plugins.thy ===== *)
theory Plugins
  imports Plugin_Objects Cluster_Apply Effects
begin

text \<open>
  \<^verbatim>\<open>pkg/plugin/plugin.go\<close>: the catalogue, \<^verbatim>\<open>Install\<close>, \<^verbatim>\<open>InstallProfile\<close>, \<^verbatim>\<open>Remove\<close>, \<^verbatim>\<open>Upgrade\<close>, \<^verbatim>\<open>Ready\<close> and the
  record of installed plugins; \<^verbatim>\<open>DeleteObjects\<close>, \<^verbatim>\<open>DeploymentReady\<close> and \<^verbatim>\<open>WaitForDeployment\<close> of
  \<^verbatim>\<open>pkg/deploy/manifests.go\<close>. Plans come from \<open>Plugin_Objects\<close>, applying from \<open>Cluster_Apply\<close>.

  The state is the cluster and what decoding \<^verbatim>\<open>plugins.json\<close> yields. The cluster, HTTP and the outcomes of
  file operations are arguments. The notes of the catalogue are left out.

  The locale \<open>plugin_store\<close> is the contract \<^verbatim>\<open>pkg/engine\<close> relies on; \<open>Install\<close> satisfies it. The theorems: an
  installation is recorded exactly when everything before it succeeded, removal forgets exactly one plugin, and no
  sequence of operations records both GPU plugins.
\<close>

section \<open>Deployments of a manifest\<close>

definition deleteObject :: "'c kube \<Rightarrow> (kobj \<Rightarrow> obj option) \<Rightarrow> kobj \<Rightarrow> 'c \<Rightarrow> 'c" where
  "deleteObject kb conv ob c = (case toUnstructured conv ob of
     Inl _ \<Rightarrow> c
   | Inr u \<Rightarrow> (case kb_mapping kb c (GroupVersionKind u) of
        Mapped r namespaced \<Rightarrow>
          let ns = (if namespaced \<and> GetNamespace u = [] then ''default'' else GetNamespace u)
          in snd (kb_delete kb r ns (GetName u) c)
      | _ \<Rightarrow> c))"

definition DeleteObjects :: "'c kube \<Rightarrow> (kobj \<Rightarrow> obj option) \<Rightarrow> kobj list \<Rightarrow> ('c, unit) cmd" where
  "DeleteObjects kb conv objects c = (Inr (), fold (deleteObject kb conv) (rev objects) c)"

definition DeploymentReady :: "'c kube \<Rightarrow> 'c \<Rightarrow> string \<Rightarrow> string \<Rightarrow> bool" where
  "DeploymentReady kb c namespace name = (case kb_get kb c (apps ''deployments'') namespace name of
     None \<Rightarrow> False
   | Some d \<Rightarrow> nestedInt (nestedMap d [''status'']) ''readyReplicas'' 0 \<ge> nestedInt (nestedMap d [''spec'']) ''replicas'' 1)"

text \<open>The number of rounds is that of the three-second sleeps before the deadline.\<close>

fun WaitForDeployment :: "'c kube \<Rightarrow> string \<Rightarrow> string \<Rightarrow> nat \<Rightarrow> ('c, unit) cmd" where
  "WaitForDeployment kb namespace name 0 c =
     (if DeploymentReady kb c namespace name then (Inr (), c) else (Inl (WaitTimeout ''deployment'' name), c))"
| "WaitForDeployment kb namespace name (Suc n) c =
     (if DeploymentReady kb c namespace name then (Inr (), c)
      else WaitForDeployment kb namespace name n (kb_tick kb c))"

section \<open>The world of the plugin manager\<close>

text \<open>
  How \<^verbatim>\<open>os.WriteFile\<close> may end: written; an error after the content got there; an error before anything
  changed; an error that leaves a file the JSON decoder finds nothing in.
\<close>

datatype written = Saved | SavedLate | Untouched | Truncated

record ('r, 'c) penv =
  pe_host :: host
  pe_fileExists :: "string \<Rightarrow> bool"
  pe_KUBECONFIG :: string
  pe_restConfig :: "string \<Rightarrow> 'r option"
  pe_newApplier :: "'r \<Rightarrow> 'c \<Rightarrow> ('c kube \<times> 'c) option"    \<comment> \<open>discovery makes a new mapper\<close>
  pe_conv :: "kobj \<Rightarrow> obj option"
  pe_polls :: nat                                          \<comment> \<open>of \<open>resolveMapping\<close>\<close>
  pe_waits :: nat                                          \<comment> \<open>sleeps in five minutes\<close>
  pe_yaml :: yaml
  pe_get :: "'c \<Rightarrow> string \<Rightarrow> (nat \<times> string) option"           \<comment> \<open>HTTP status and body\<close>
  pe_hamiYAML :: string                                    \<comment> \<open>the embedded chart\<close>
  pe_quantity :: "string \<Rightarrow> quantity option"
  pe_mkdir :: "'c \<Rightarrow> bool"
  pe_write :: "'c \<Rightarrow> written"

record 'c pstate =
  ms_cluster :: 'c
  ms_file :: "bool gomap option"    \<comment> \<open>what decoding \<^verbatim>\<open>plugins.json\<close> yields; none when there is nothing to decode\<close>

definition gets :: "('s \<Rightarrow> 'a) \<Rightarrow> ('s, 'a) cmd" where
  "gets f s = (Inr (f s), s)"

definition onCluster :: "('c, 'a) cmd \<Rightarrow> ('c pstate, 'a) cmd" where
  "onCluster m st = (case m (ms_cluster st) of (r, c) \<Rightarrow> (r, st\<lparr>ms_cluster := c\<rparr>))"

section \<open>The record of installed plugins\<close>

definition loadState :: "'c pstate \<Rightarrow> bool gomap" where
  "loadState st = (case ms_file st of None \<Rightarrow> [] | Some m \<Rightarrow> m)"

definition Installed :: "'c pstate \<Rightarrow> string \<Rightarrow> bool" where
  "Installed st name \<longleftrightarrow> map_of (loadState st) name = Some True"

definition writeState :: "('r, 'c) penv \<Rightarrow> bool gomap \<Rightarrow> ('c pstate, unit) cmd" where
  "writeState e m st =
     (if \<not> pe_mkdir e (ms_cluster st) then (Inl (WriteError ''plugins.json''), st)
      else case pe_write e (ms_cluster st) of
        Saved \<Rightarrow> (Inr (), st\<lparr>ms_file := Some m\<rparr>)
      | SavedLate \<Rightarrow> (Inl (WriteError ''plugins.json''), st\<lparr>ms_file := Some m\<rparr>)
      | Untouched \<Rightarrow> (Inl (WriteError ''plugins.json''), st)
      | Truncated \<Rightarrow> (Inl (WriteError ''plugins.json''), st\<lparr>ms_file := None\<rparr>))"

definition recordInstalled :: "('r, 'c) penv \<Rightarrow> string \<Rightarrow> ('c pstate, unit) cmd" where
  "recordInstalled e name st = writeState e (AList.update name True (loadState st)) st"

definition unrecord :: "('r, 'c) penv \<Rightarrow> string \<Rightarrow> ('c pstate, unit) cmd" where
  "unrecord e name st = writeState e (AList.delete name (loadState st)) st"

section \<open>The catalogue\<close>

record pluginSpec =
  pg_Name :: string
  pg_Description :: string
  pg_Version :: string
  pg_Providers :: "string list"
  pg_Namespace :: string
  pg_Manifests :: "string list"
  pg_Objects :: "error + kobj list"    \<comment> \<open>built at start-up, where a rejected size panics\<close>
  pg_WaitFor :: "WaitTarget list"
  pg_PostInstall :: "(pluginOptions \<Rightarrow> error + kobj list) option"
  pg_Build :: "(pluginOptions \<Rightarrow> error + built) option"

text \<open>The em dash in UTF-8, between blanks.\<close>

definition dash :: string where
  "dash = [CHR '' '', CHR 0xE2, CHR 0x80, CHR 0x94, CHR '' '']"

text \<open>The notes, which only \<^verbatim>\<open>orcinus plugin info\<close> prints, are left out.\<close>

definition specOf :: "string \<Rightarrow> string \<Rightarrow> string \<Rightarrow> pluginSpec" where
  "specOf name version desc = \<lparr>pg_Name = name, pg_Description = desc, pg_Version = version, pg_Providers = [],
     pg_Namespace = [], pg_Manifests = [], pg_Objects = Inr [], pg_WaitFor = [], pg_PostInstall = None, pg_Build = None\<rparr>"

definition resolve :: "pluginSpec \<Rightarrow> pluginOptions \<Rightarrow> error + built" where
  "resolve spec opts = (case pg_Build spec of
     Some build \<Rightarrow> build opts
   | None \<Rightarrow> rbind (pg_Objects spec) (\<lambda>objs. Inr \<lparr>bp_Namespace = pg_Namespace spec, bp_Manifests = pg_Manifests spec,
       bp_Objects = objs, bp_WaitFor = pg_WaitFor spec, bp_PostObjects = []\<rparr>))"

definition specs :: "('r, 'c) penv \<Rightarrow> pluginSpec list" where
  "specs e =
    [(specOf ''cert-manager'' ''v1.16.2''
        ''TLS certificate automation (+ a Let's Encrypt ClusterIssuer)'')\<lparr>
        pg_Manifests := [''https://github.com/cert-manager/cert-manager/releases/download/v1.16.2/cert-manager.yaml''],
        pg_WaitFor := [waitTarget ''cert-manager'' ''cert-manager-webhook'', waitTarget ''cert-manager'' ''cert-manager''],
        pg_PostInstall := Some certManagerIssuer\<rparr>,
     (specOf ''ingress-nginx'' ''controller-v1.15.1''
        ''NGINX ingress controller (ingress class: nginx)'')\<lparr>
        pg_Manifests := [''https://raw.githubusercontent.com/kubernetes/ingress-nginx/controller-v1.15.1/deploy/static/provider/cloud/deploy.yaml'']\<rparr>,
     (specOf ''kubevirt'' kubeVirtVersion
        ''Run virtual machines on the cluster (KubeVirt, + optional CDI)'')\<lparr>pg_Build := Some buildKubeVirt\<rparr>,
     (specOf ''metrics-server'' ''v0.7.2''
        ''Cluster metrics (kubectl top, HPA)'')\<lparr>
        pg_Manifests := [''https://github.com/kubernetes-sigs/metrics-server/releases/download/v0.7.2/components.yaml'']\<rparr>,
     (specOf ''nvidia-device-plugin'' ''v0.16.2''
        ''Expose NVIDIA GPUs to pods (nvidia.com/gpu)'')\<lparr>
        pg_Manifests := [''https://raw.githubusercontent.com/NVIDIA/k8s-device-plugin/v0.16.2/deployments/static/nvidia-device-plugin.yml'']\<rparr>,
     (specOf ''hami'' ''v2.10.0''
        (''GPU sharing'' @ dash @ ''split an NVIDIA GPU across pods by memory and compute (HAMi)''))\<lparr>pg_Build := Some (buildHAMi (pe_yaml e) (pe_hamiYAML e))\<rparr>,
     (specOf ''argo-rollouts'' ''v1.7.2''
        (''Progressive delivery'' @ dash @ ''canary & blue-green (Argo Rollouts)''))\<lparr>pg_Namespace := ''argo-rollouts'',
        pg_Manifests := [''https://github.com/argoproj/argo-rollouts/releases/download/v1.7.2/install.yaml''],
        pg_WaitFor := [waitTarget ''argo-rollouts'' ''argo-rollouts'']\<rparr>,
     (specOf ''dashboard'' ''v2.7.0''
        ''Kubernetes Dashboard (web UI)'')\<lparr>
        pg_Manifests := [''https://raw.githubusercontent.com/kubernetes/dashboard/v2.7.0/aio/deploy/recommended.yaml''],
        pg_WaitFor := [waitTarget ''kubernetes-dashboard'' ''kubernetes-dashboard'']\<rparr>,
     (specOf ''registry'' ''2''
        ''In-cluster image registry (registry:2)'')\<lparr>pg_Namespace := ''orcinus-registry'', pg_Objects := registryObjects (pe_quantity e),
        pg_WaitFor := [waitTarget ''orcinus-registry'' ''registry'']\<rparr>,
     (specOf ''grafana'' ''11.2.0''
        ''Grafana dashboards (point at Prometheus)'')\<lparr>pg_Namespace := ''orcinus-monitoring'', pg_Objects := grafanaObjects (pe_quantity e),
        pg_WaitFor := [waitTarget ''orcinus-monitoring'' ''grafana'']\<rparr>,
     (specOf ''monitoring'' []
        ''Prometheus Operator (CRDs + operator for Prometheus/Alertmanager)'')\<lparr>
        pg_Manifests := [''https://raw.githubusercontent.com/prometheus-operator/prometheus-operator/v0.76.2/bundle.yaml''],
        pg_WaitFor := [waitTarget ''default'' ''prometheus-operator'']\<rparr>,
     (specOf ''storage'' []
        ''Storage backends (block, file/NFS, object)'')\<lparr>pg_Providers := [''local-path'', ''longhorn'', ''nfs'', ''minio'', ''rook-ceph''],
        pg_Build := Some (buildStorage (pe_quantity e))\<rparr>]"

definition Registry :: "('r, 'c) penv \<Rightarrow> pluginSpec gomap" where
  "Registry e = map (\<lambda>s. (pg_Name s, s)) (specs e)"

definition ListPlugins :: "('r, 'c) penv \<Rightarrow> pluginSpec list" where
  "ListPlugins e = sort_key pg_Name (map snd (Registry e))"

definition Profiles :: "string list gomap" where
  "Profiles = [(''web'', [''cert-manager'', ''ingress-nginx'']), (''observability'', [''metrics-server'', ''monitoring'', ''grafana''])]"

section \<open>Installing\<close>

definition fetch :: "('r, 'c) penv \<Rightarrow> string \<Rightarrow> ('c, string) cmd" where
  "fetch e url c = (case pe_get e c url of
     None \<Rightarrow> (Inl (ApiError url), c)
   | Some (status, body) \<Rightarrow> if status \<noteq> 200 then (Inl (ApiError url), c) else (Inr body, c))"

definition connect :: "('r, 'c) penv \<Rightarrow> 'r \<Rightarrow> ('c, 'c kube) cmd" where
  "connect e cfg c = (case pe_newApplier e cfg c of None \<Rightarrow> (Inl (ApiError ''discovery''), c) | Some (kb, c) \<Rightarrow> (Inr kb, c))"

definition applyIn :: "('r, 'c) penv \<Rightarrow> 'c kube \<Rightarrow> string \<Rightarrow> kobj list \<Rightarrow> ('c, unit) cmd" where
  "applyIn e kb namespace objs c =
     (case Apply kb (pe_conv e) (pe_polls e) objs \<lparr>ao_Project = [], ao_DefaultNamespace = namespace, ao_Prune = False,
          ao_PrunePVCs = False, ao_Wait = False, ao_Rounds = 0\<rparr> c of
        ((_, Some err), c) \<Rightarrow> (Inl err, c)
      | ((_, None), c) \<Rightarrow> (Inr (), c))"

definition applyManifest :: "('r, 'c) penv \<Rightarrow> 'c kube \<Rightarrow> string \<Rightarrow> string \<Rightarrow> ('c, unit) cmd" where
  "applyManifest e kb namespace url =
     ebind (fetch e url) (\<lambda>data. ebind (lift (DecodeManifests (pe_yaml e) data)) (\<lambda>objs. applyIn e kb namespace objs))"

definition restConfig :: "('r, 'c) penv \<Rightarrow> pluginOptions \<Rightarrow> error + 'r" where
  "restConfig e opts =
     LoadRESTConfig (pe_host e) (pe_fileExists e) (pe_restConfig e) (pe_KUBECONFIG e) (po_Kubeconfig opts)"

definition conflict :: "'c pstate \<Rightarrow> string \<Rightarrow> bool" where
  "conflict st name = (case map_of exclusive name of Some other \<Rightarrow> other \<noteq> [] \<and> Installed st other | None \<Rightarrow> False)"

definition applyPlan :: "('r, 'c) penv \<Rightarrow> 'c kube \<Rightarrow> built \<Rightarrow> ('c, unit) cmd" where
  "applyPlan e kb plan =
     andThen (doIf (bp_Namespace plan \<noteq> []) (applyIn e kb [] [namespaceObj (bp_Namespace plan)]))
    (andThen (each (applyManifest e kb (bp_Namespace plan)) (bp_Manifests plan))
    (andThen (doIf (bp_Objects plan \<noteq> []) (applyIn e kb [] (bp_Objects plan)))
      (each (\<lambda>w. WaitForDeployment kb (wt_Namespace w) (wt_Name w) (pe_waits e)) (bp_WaitFor plan))))"

definition postObjects :: "pluginSpec \<Rightarrow> built \<Rightarrow> pluginOptions \<Rightarrow> error + kobj list" where
  "postObjects spec plan opts = (case pg_PostInstall spec of
     None \<Rightarrow> Inr (bp_PostObjects plan)
   | Some f \<Rightarrow> rbind (f opts) (\<lambda>objs. Inr (objs @ bp_PostObjects plan)))"

text \<open>Everything \<^verbatim>\<open>Install\<close> does to the cluster; the last step records it.\<close>

definition installSteps :: "('r, 'c) penv \<Rightarrow> pluginSpec \<Rightarrow> pluginOptions \<Rightarrow> ('c, unit) cmd" where
  "installSteps e spec opts =
     ebind (lift (resolve spec opts)) (\<lambda>plan.
     ebind (lift (restConfig e opts)) (\<lambda>cfg.
     ebind (connect e cfg) (\<lambda>kb.
     andThen (applyPlan e kb plan) (
     ebind (lift (postObjects spec plan opts)) (\<lambda>post.
     doIf (post \<noteq> []) (ebind (connect e cfg) (\<lambda>pa. applyIn e pa [] post)))))))"

definition Install :: "('r, 'c) penv \<Rightarrow> string \<Rightarrow> pluginOptions \<Rightarrow> ('c pstate, unit) cmd" where
  "Install e name opts st = (case map_of (Registry e) name of
     None \<Rightarrow> (Inl (UnknownName name), st)
   | Some spec \<Rightarrow>
       if conflict st name then (Inl (Excluded name (the (map_of exclusive name))), st)
       else if name = ''cert-manager'' \<and> po_Email opts = [] then (Inl NeedsACMEEmail, st)
       else andThen (onCluster (installSteps e spec opts)) (recordInstalled e (pg_Name spec)) st)"

definition InstallProfile :: "('r, 'c) penv \<Rightarrow> string \<Rightarrow> pluginOptions \<Rightarrow> ('c pstate, unit) cmd" where
  "InstallProfile e name opts = (case map_of Profiles name of
     None \<Rightarrow> fail (UnknownName name) | Some names \<Rightarrow> each (\<lambda>n. Install e n opts) names)"

definition Upgrade :: "('r, 'c) penv \<Rightarrow> string \<Rightarrow> pluginOptions \<Rightarrow> ('c pstate, unit) cmd" where
  "Upgrade e name opts = (case map_of (Registry e) name of None \<Rightarrow> fail (UnknownName name) | Some _ \<Rightarrow> Install e name opts)"

section \<open>Removing\<close>

definition deletePost :: "('r, 'c) penv \<Rightarrow> 'c kube \<Rightarrow> pluginSpec \<Rightarrow> pluginOptions \<Rightarrow> ('c, unit) cmd" where
  "deletePost e kb spec opts = (case pg_PostInstall spec of
     None \<Rightarrow> ret ()
   | Some f \<Rightarrow> (case f opts of Inl _ \<Rightarrow> ret () | Inr objs \<Rightarrow> ignore (DeleteObjects kb (pe_conv e) objs)))"

definition deleteManifest :: "('r, 'c) penv \<Rightarrow> 'c kube \<Rightarrow> string \<Rightarrow> ('c, unit) cmd" where
  "deleteManifest e kb url =
     ebind (fetch e url) (\<lambda>data. ebind (lift (DecodeManifests (pe_yaml e) data)) (\<lambda>objs. DeleteObjects kb (pe_conv e) objs))"

definition removeSteps :: "('r, 'c) penv \<Rightarrow> pluginSpec \<Rightarrow> pluginOptions \<Rightarrow> ('c, unit) cmd" where
  "removeSteps e spec opts =
     ebind (lift (resolve spec opts)) (\<lambda>plan.
     ebind (lift (restConfig e opts)) (\<lambda>cfg.
     ebind (connect e cfg) (\<lambda>kb.
     andThen (deletePost e kb spec opts)
    (andThen (ignore (DeleteObjects kb (pe_conv e) (bp_PostObjects plan)))
    (andThen (ignore (DeleteObjects kb (pe_conv e) (bp_Objects plan)))
    (andThen (each (deleteManifest e kb) (bp_Manifests plan))
      (doIf (bp_Namespace plan \<noteq> []) (ignore (DeleteObjects kb (pe_conv e) [namespaceObj (bp_Namespace plan)])))))))))"

definition Remove :: "('r, 'c) penv \<Rightarrow> string \<Rightarrow> pluginOptions \<Rightarrow> ('c pstate, unit) cmd" where
  "Remove e name opts = (case map_of (Registry e) name of
     None \<Rightarrow> fail (UnknownName name)
   | Some spec \<Rightarrow> andThen (onCluster (removeSteps e spec opts)) (unrecord e name))"

definition Ready :: "('r, 'c) penv \<Rightarrow> 'c kube \<Rightarrow> 'c \<Rightarrow> string \<Rightarrow> bool \<times> bool" where
  "Ready e kb c name = (case map_of (Registry e) name of
     None \<Rightarrow> (False, False)
   | Some spec \<Rightarrow> if pg_WaitFor spec = [] then (False, False)
       else (True, list_all (\<lambda>w. DeploymentReady kb c (wt_Namespace w) (wt_Name w)) (pg_WaitFor spec)))"

section \<open>The contract\<close>

text \<open>
  What clients of the plugin manager rely on: a successful installation adds exactly its plugin to
  the record, a failed one adds nothing else.
\<close>

locale plugin_store =
  fixes has :: "'s \<Rightarrow> string \<Rightarrow> bool" and install :: "string \<Rightarrow> 'o \<Rightarrow> ('s, unit) cmd"
  assumes install_done: "install n opts s = (Inr (), s') \<Longrightarrow> has s' m \<longleftrightarrow> m = n \<or> has s m"
    and install_failed: "install n opts s = (Inl err, s') \<Longrightarrow> has s' m \<Longrightarrow> m = n \<or> has s m"
begin

lemma install_adds: "install n opts s = (r, s') \<Longrightarrow> has s' m \<Longrightarrow> m = n \<or> has s m"
  using install_done install_failed by (cases r) auto

lemma install_has: "install n opts s = (Inr u, s') \<Longrightarrow> has s' n"
  and install_keeps: "install n opts s = (Inr u, s') \<Longrightarrow> has s m \<Longrightarrow> has s' m"
  using install_done by auto

lemma installs_done: "each (\<lambda>n. install n opts) names s = (Inr (), s') \<Longrightarrow> has s' m \<longleftrightarrow> m \<in> set names \<or> has s m"
proof (induction names arbitrary: s)
  case (Cons n names)
  then obtain t where "install n opts s = (Inr (), t)" "each (\<lambda>n. install n opts) names t = (Inr (), s')"
    by (auto simp: andThen_Inr)
  then show ?case using Cons.IH [of t] install_done [of n opts s t m] by auto
qed simp

lemma installs_adds:
  assumes "each (\<lambda>n. install n opts) names s = (r, s')" and "has s' m"
  shows "m \<in> set names \<or> has s m"
  using assms
proof (induction names arbitrary: s)
  case (Cons n names)
  obtain r1 s1 where i: "install n opts s = (r1, s1)" by force
  show ?case
  proof (cases r1)
    case (Inl err)
    then have "s' = s1" using i Cons.prems(1) by (auto simp: andThen_def ebind_def)
    then show ?thesis using install_adds [OF i] Cons.prems(2) by auto
  next
    case (Inr u)
    then have "each (\<lambda>n. install n opts) names s1 = (r, s')" using i Cons.prems(1) by (auto simp: andThen_def ebind_def)
    then show ?thesis using Cons.IH Cons.prems(2) install_adds [OF i] by auto
  qed
qed simp

end

lemma map_of_Registry: "map_of (Registry e) name = Some spec \<Longrightarrow> pg_Name spec = name \<and> spec \<in> set (specs e)"
  by (auto simp: Registry_def dest!: map_of_SomeD)

lemma onCluster_file: "onCluster m st = (r, st') \<Longrightarrow> ms_file st' = ms_file st"
  by (auto simp: onCluster_def split: prod.splits)

lemma Installed_file: "ms_file st' = ms_file st \<Longrightarrow> Installed st' = Installed st"
  by (simp add: fun_eq_iff Installed_def loadState_def)

text \<open>What a write leaves on record: the new content, the old, or nothing.\<close>

lemma writeState_record:
  assumes "writeState e m st = (r, st')"
  shows "(ms_file st' = Some m \<or> (r \<noteq> Inr () \<and> (ms_file st' = ms_file st \<or> ms_file st' = None)))"
  using assms by (auto simp: writeState_def split: if_splits written.splits)

lemma recordInstalled_record:
  assumes "recordInstalled e n st = (r, st')"
  shows "r = Inr () \<Longrightarrow> Installed st' m \<longleftrightarrow> m = n \<or> Installed st m" and "Installed st' m \<Longrightarrow> m = n \<or> Installed st m"
  using writeState_record [OF assms [unfolded recordInstalled_def]]
  by (auto simp: Installed_def loadState_def split: if_splits option.splits)

lemma unrecord_record:
  assumes "unrecord e n st = (r, st')"
  shows "r = Inr () \<Longrightarrow> Installed st' m \<longleftrightarrow> m \<noteq> n \<and> Installed st m" and "Installed st' m \<Longrightarrow> Installed st m"
  using writeState_record [OF assms [unfolded unrecord_def]]
  by (auto simp: Installed_def loadState_def delete_conv' split: if_splits option.splits)

text \<open>The shape \<open>Install\<close> and \<open>Remove\<close> share: work on the cluster, then one write of the record.\<close>

lemma cluster_then:
  assumes "andThen (onCluster m) k st = (r, st')"
  obtains (stopped) "r \<noteq> Inr ()" "Installed st' = Installed st"
    | (finished) st1 where "Installed st1 = Installed st" "onCluster m st = (Inr (), st1)" "k st1 = (r, st')"
proof -
  obtain r1 st1 where o: "onCluster m st = (r1, st1)" by force
  note f = Installed_file [OF onCluster_file [OF o]]
  show thesis
  proof (cases r1)
    case (Inl err)
    then have "r = Inl err" "st' = st1" using assms o by (auto simp: andThen_def ebind_def)
    then show thesis using stopped f by simp
  next
    case (Inr u)
    then have "k st1 = (r, st')" using assms o by (auto simp: andThen_def ebind_def)
    then show thesis using finished f o Inr by simp
  qed
qed

lemma cluster_then_record:
  fixes m :: "('c, unit) cmd"
  assumes "andThen (onCluster m) (recordInstalled e n) st = (r, st')"
  shows "(r = Inr () \<longrightarrow> (Installed st' x \<longleftrightarrow> x = n \<or> Installed st x)) \<and> (Installed st' x \<longrightarrow> x = n \<or> Installed st x)"
  using assms
proof (cases rule: cluster_then)
  case (finished st1)
  then show ?thesis using recordInstalled_record [OF finished(3)] by auto
qed simp

lemma cluster_then_unrecord:
  fixes m :: "('c, unit) cmd"
  assumes "andThen (onCluster m) (unrecord e n) st = (r, st')"
  shows "(r = Inr () \<longrightarrow> (Installed st' x \<longleftrightarrow> x \<noteq> n \<and> Installed st x)) \<and> (Installed st' x \<longrightarrow> Installed st x) \<and>
    (isl (fst (onCluster m st)) \<longrightarrow> Installed st' = Installed st)"
  using assms
proof (cases rule: cluster_then)
  case (finished st1)
  then show ?thesis using unrecord_record [OF finished(3)] by auto
qed simp

lemma Installed_outside [simp]: "Installed (st\<lparr>ms_cluster := c\<rparr>) = Installed st"
  by (rule Installed_file) simp

lemma Install_cases:
  assumes "Install e n opts st = (r, st')"
  obtains (refused) err where "st' = st" "r = Inl err"
    | (started) spec where "map_of (Registry e) n = Some spec" "\<not> conflict st n" "n = ''cert-manager'' \<longrightarrow> po_Email opts \<noteq> []"
        "andThen (onCluster (installSteps e spec opts)) (recordInstalled e n) st = (r, st')"
  using assms by (auto simp: Install_def split: option.splits if_splits dest: map_of_Registry)

interpretation plugin_mgr: plugin_store Installed "Install e" for e :: "('r, 'c) penv"
proof
  fix n opts st st' m
  assume i: "Install e n opts st = (Inr (), st')"
  then show "Installed st' m \<longleftrightarrow> m = n \<or> Installed st m"
  proof (cases rule: Install_cases)
    case (started spec)
    then show ?thesis using cluster_then_record by metis
  qed simp
next
  fix n opts st err st' m
  assume i: "Install e n opts st = (Inl err, st')" and m: "Installed st' m"
  from i show "m = n \<or> Installed st m"
  proof (cases rule: Install_cases)
    case (started spec)
    then show ?thesis using m cluster_then_record by metis
  qed (use m in simp)
qed

text \<open>A world to run in: every call succeeds and no manifest has content.\<close>

definition sample_penv :: "(unit, (gvr \<times> obj) list) penv" where
  "sample_penv = \<lparr>
     pe_host = \<lparr>h_home = None, h_cwd = Some ''/'', h_stat = (\<lambda>_. False), h_read = (\<lambda>_. None), h_mkdir = (\<lambda>_. True), h_write = (\<lambda>_. True)\<rparr>,
     pe_fileExists = (\<lambda>_. False), pe_KUBECONFIG = [], pe_restConfig = (\<lambda>_. Some ()),
     pe_newApplier = (\<lambda>_ c. Some (store_kube\<lparr>kb_mapping := (\<lambda>s k. Mapped (core ''things'') True)\<rparr>, c)),
     pe_conv = (\<lambda>ob. Some []), pe_polls = 0, pe_waits = 0,
     pe_yaml = \<lparr>y_documents = (\<lambda>raw. Some []), y_probe = (\<lambda>_. None), y_object = (\<lambda>_. None)\<rparr>,
     pe_get = (\<lambda>_ _. Some (200, [])), pe_hamiYAML = [],
     pe_quantity = (\<lambda>s. Some \<lparr>q_String = s, q_MilliValue = 0, q_AsInt64 = Some 0, q_IsZero = True\<rparr>),
     pe_mkdir = (\<lambda>_. True), pe_write = (\<lambda>_. Saved)\<rparr>"

definition sample_popts :: pluginOptions where
  "sample_popts = \<lparr>po_Kubeconfig = ''/k'', po_Email = [], po_Staging = False, po_DNSProvider = [], po_DNSToken = [], po_Provider = [],
     po_Size = [], po_Replicas = 0, po_NFSServer = [], po_NFSPath = [], po_CephDeviceFilter = [], po_CephFailureDomain = [],
     po_Emulation = False, po_CDI = False\<rparr>"

definition sample_pstate :: "(gvr \<times> obj) list pstate" where
  "sample_pstate = \<lparr>ms_cluster = [], ms_file = Some [(''metrics-server'', True)]\<rparr>"

section \<open>What is recorded\<close>



text \<open>
  \<^verbatim>\<open>plugin.Remove\<close> that succeeds takes exactly its plugin off the record; one that fails adds nothing to it,
  and one that fails on the cluster leaves it as it was.
\<close>

theorem Remove_outcome:
  assumes "Remove e name opts st = (r, st')"
  shows "(r = Inr () \<longrightarrow> (\<forall>m. Installed st' m \<longleftrightarrow> m \<noteq> name \<and> Installed st m)) \<and>
    (\<forall>m. Installed st' m \<longrightarrow> Installed st m) \<and>
    (\<forall>spec. map_of (Registry e) name = Some spec \<longrightarrow> isl (fst (onCluster (removeSteps e spec opts) st)) \<longrightarrow>
       Installed st' = Installed st)"
proof (cases "map_of (Registry e) name")
  case None
  then show ?thesis using assms by (auto simp: Remove_def)
next
  case (Some spec)
  then have "andThen (onCluster (removeSteps e spec opts)) (unrecord e name) st = (r, st')"
    using assms by (simp add: Remove_def)
  from cluster_then_unrecord [OF this] show ?thesis using Some by auto
qed

theorem Remove_outcome_witness:
  "\<exists>st'. Remove sample_penv ''metrics-server'' sample_popts sample_pstate = (Inr (), st') \<and> \<not> Installed st' ''metrics-server''"
proof -
  have "fst (Remove sample_penv ''metrics-server'' sample_popts sample_pstate) = Inr ()" by code_simp
  then obtain st' where i: "Remove sample_penv ''metrics-server'' sample_popts sample_pstate = (Inr (), st')"
    by (metis prod.collapse)
  from Remove_outcome [OF i] i show ?thesis by auto
qed

text \<open>A profile that installs records exactly its plugins; one that fails records no others.\<close>

lemma InstallProfile_records:
  assumes "InstallProfile e name opts st = (r, st')"
  shows "(r = Inr () \<longrightarrow> (\<exists>names. map_of Profiles name = Some names \<and> (\<forall>m. Installed st' m \<longleftrightarrow> m \<in> set names \<or> Installed st m))) \<and>
    (\<forall>names m. map_of Profiles name = Some names \<longrightarrow> Installed st' m \<longrightarrow> m \<in> set names \<or> Installed st m)"
  using assms plugin_mgr.installs_done [of e opts _ st st'] plugin_mgr.installs_adds [of e opts _ st r st']
  by (auto simp: InstallProfile_def split: option.splits)

section \<open>One GPU plugin at a time\<close>

datatype pluginOp =
    OpInstall string pluginOptions
  | OpProfile string pluginOptions
  | OpRemove string pluginOptions
  | OpUpgrade string pluginOptions

fun runOp :: "('r, 'c) penv \<Rightarrow> pluginOp \<Rightarrow> ('c pstate, unit) cmd" where
  "runOp e (OpInstall n opts) = Install e n opts"
| "runOp e (OpProfile n opts) = InstallProfile e n opts"
| "runOp e (OpRemove n opts) = Remove e n opts"
| "runOp e (OpUpgrade n opts) = Upgrade e n opts"

text \<open>One operation runs, whether it succeeds or not, or the cluster changes by itself.\<close>

inductive pluginStep :: "('r, 'c) penv \<Rightarrow> 'c pstate \<Rightarrow> 'c pstate \<Rightarrow> bool" for e where
  operation: "runOp e op st = (r, st') \<Longrightarrow> pluginStep e st st'"
| outside: "pluginStep e st (st\<lparr>ms_cluster := c\<rparr>)"

inductive_cases pluginStepE: "pluginStep e st st'"

definition oneGPU :: "'c pstate \<Rightarrow> bool" where
  "oneGPU st \<longleftrightarrow> \<not> (Installed st ''hami'' \<and> Installed st ''nvidia-device-plugin'')"

lemma Install_oneGPU: "Install e n opts st = (r, st') \<Longrightarrow> oneGPU st \<Longrightarrow> oneGPU st'"
proof (erule Install_cases)
  fix spec
  assume i: "\<not> conflict st n" "andThen (onCluster (installSteps e spec opts)) (recordInstalled e n) st = (r, st')" and g: "oneGPU st"
  have adds: "Installed st' m \<Longrightarrow> m = n \<or> Installed st m" for m
    using cluster_then_record [OF i(2)] by blast
  show "oneGPU st'" using g i(1) adds by (auto simp: oneGPU_def conflict_def exclusive_def split: if_splits)
qed simp

lemma installs_oneGPU: "each (\<lambda>n. Install e n opts) names st = (r, st') \<Longrightarrow> oneGPU st \<Longrightarrow> oneGPU st'"
proof (induction names arbitrary: st)
  case (Cons n names)
  obtain r1 st1 where i: "Install e n opts st = (r1, st1)" by force
  with Cons.prems(1) show ?case
    using Install_oneGPU [OF i Cons.prems(2)] Cons.IH by (cases r1) (auto simp: andThen_def ebind_def)
qed simp

lemma runOp_oneGPU: "runOp e op st = (r, st') \<Longrightarrow> oneGPU st \<Longrightarrow> oneGPU st'"
proof (cases op)
  case (OpRemove n opts)
  assume "runOp e op st = (r, st')" and g: "oneGPU st"
  then have "map_of (Registry e) n = None \<and> st' = st \<or>
      (\<exists>spec. andThen (onCluster (removeSteps e spec opts)) (unrecord e n) st = (r, st'))"
    using OpRemove by (auto simp: Remove_def split: option.splits)
  moreover have "Installed st' m \<Longrightarrow> Installed st m" if "andThen (onCluster (removeSteps e spec opts)) (unrecord e n) st = (r, st')" for spec m
    using cluster_then_unrecord [OF that] by blast
  ultimately show "oneGPU st'" using g by (auto simp: oneGPU_def)
qed (auto simp: InstallProfile_def Upgrade_def split: option.splits intro: Install_oneGPU installs_oneGPU)

text \<open>
  C8: HAMi and the NVIDIA device plugin are never both recorded: from a state that does not record both, no sequence of
  installations, profile installations, upgrades and removals, failing ones and changes of the cluster included,
  leads to one that does.
\<close>

theorem gpu_exclusive:
  assumes "(pluginStep e)\<^sup>*\<^sup>* st st'" and "oneGPU st"
  shows "oneGPU st'"
  using assms
proof (induction rule: rtranclp_induct)
  case (step s t)
  from step.hyps(2) step.IH [OF step.prems] show ?case
    by (cases rule: pluginStep.cases) (auto simp: oneGPU_def dest: runOp_oneGPU [unfolded oneGPU_def])
qed

theorem gpu_exclusive_witness:
  "\<exists>st'. (pluginStep sample_penv)\<^sup>*\<^sup>* sample_pstate st' \<and> Installed st' ''nvidia-device-plugin'' \<and> oneGPU st'"
proof -
  define s1 where "s1 = snd (Install sample_penv ''nvidia-device-plugin'' sample_popts sample_pstate)"
  define s2 where "s2 = snd (Install sample_penv ''hami'' sample_popts s1)"
  have "pluginStep sample_penv sample_pstate s1" "pluginStep sample_penv s1 s2"
    using pluginStep.operation [where op = "OpInstall ''nvidia-device-plugin'' sample_popts"]
      pluginStep.operation [where op = "OpInstall ''hami'' sample_popts"] unfolding s1_def s2_def by (metis prod.collapse runOp.simps(1))+
  then have r: "(pluginStep sample_penv)\<^sup>*\<^sup>* sample_pstate s2" by simp
  have o: "oneGPU sample_pstate" by (simp add: oneGPU_def sample_pstate_def Installed_def loadState_def)
  have "Installed s2 ''nvidia-device-plugin''" unfolding s1_def s2_def by code_simp
  with gpu_exclusive [OF r o] r show ?thesis by blast
qed

section \<open>Plans and removal\<close>

lemma specs_inline:
  "list_all (\<lambda>s. case pg_Build s of
      Some b \<Rightarrow> pg_Name s = ''hami'' \<or> b = buildStorage (pe_quantity e) \<or> b = buildKubeVirt
    | None \<Rightarrow> pg_Manifests s \<noteq> [] \<or>
        (pg_Objects s = registryObjects (pe_quantity e) \<and> pg_WaitFor s = [waitTarget ''orcinus-registry'' ''registry'']) \<or>
        (pg_Objects s = grafanaObjects (pe_quantity e) \<and> pg_WaitFor s = [waitTarget ''orcinus-monitoring'' ''grafana''])) (specs e)"
  unfolding specs_def list.pred_inject by (intro conjI) (simp_all add: specOf_def)

text \<open>
  Every plan of the catalogue that is given by inline objects creates each namespace before it is used and
  waits only for Deployments it creates, with one replica and a selector that matches their pods.
\<close>

theorem inline_plans_sound:
  assumes "map_of (Registry e) name = Some spec" and "resolve spec opts = Inr plan"
    and "bp_Manifests plan = []" and "name \<noteq> ''hami''"
  shows "soundPlan plan"
proof -
  have s: "spec \<in> set (specs e)" and n: "pg_Name spec \<noteq> ''hami''" using map_of_Registry [OF assms(1)] assms(4) by auto
  have shape: "case pg_Build spec of
      Some b \<Rightarrow> pg_Name spec = ''hami'' \<or> b = buildStorage (pe_quantity e) \<or> b = buildKubeVirt
    | None \<Rightarrow> pg_Manifests spec \<noteq> [] \<or>
        (pg_Objects spec = registryObjects (pe_quantity e) \<and> pg_WaitFor spec = [waitTarget ''orcinus-registry'' ''registry'']) \<or>
        (pg_Objects spec = grafanaObjects (pe_quantity e) \<and> pg_WaitFor spec = [waitTarget ''orcinus-monitoring'' ''grafana''])"
    using specs_inline s unfolding list_all_iff by blast
  show ?thesis
  proof (cases "pg_Build spec")
    case (Some b)
    then have b: "b opts = Inr plan" using assms(2) by (simp add: resolve_def)
    have "b \<noteq> buildKubeVirt" using b assms(3) by (auto simp: buildKubeVirt_def Let_def noPlan_def split: if_splits)
    then show ?thesis using b shape Some n assms(3) by (auto intro: buildStorage_sound)
  next
    case None
    then obtain objs where objs: "pg_Objects spec = Inr objs" "bp_Objects plan = objs" "bp_WaitFor plan = pg_WaitFor spec"
      "pg_Manifests spec = []"
      using assms(2,3) by (auto simp: resolve_def rbind_Inr_iff)
    have "namespacesFirst [] objs \<and> list_all (awaits objs) (pg_WaitFor spec)"
      using shape None objs simpleWorkload_sound by (auto simp: registryObjects_def grafanaObjects_def)
    then show ?thesis using objs by (simp add: soundPlan_def)
  qed
qed

theorem inline_plans_sound_witness:
  "\<exists>spec plan. map_of (Registry sample_penv) ''storage'' = Some spec \<and>
    resolve spec (sample_popts\<lparr>po_Provider := ''minio''\<rparr>) = Inr plan \<and> length (bp_Objects plan) = 5 \<and> soundPlan plan"
proof -
  have "(case map_of (Registry sample_penv) ''storage'' of Some spec \<Rightarrow> (case resolve spec (sample_popts\<lparr>po_Provider := ''minio''\<rparr>) of
      Inr plan \<Rightarrow> bp_Manifests plan = [] \<and> length (bp_Objects plan) = 5 | _ \<Rightarrow> False) | _ \<Rightarrow> False)" by code_simp
  then obtain spec plan where p: "map_of (Registry sample_penv) ''storage'' = Some spec"
    "resolve spec (sample_popts\<lparr>po_Provider := ''minio''\<rparr>) = Inr plan" "bp_Manifests plan = []" "length (bp_Objects plan) = 5"
    by (auto split: option.splits sum.splits)
  from inline_plans_sound [OF p(1,2,3)] p show ?thesis by auto
qed

text \<open>
  Removing storage without naming its provider takes the empty plan: nothing is deleted, whichever backend was
  installed, and the record forgets it.
\<close>

lemma Remove_storage_unnamed:
  assumes "Remove e ''storage'' opts st = (Inr (), st')" and "po_Provider opts = []"
  shows "\<not> Installed st' ''storage'' \<and>
    (\<exists>cfg kb. pe_newApplier e cfg (ms_cluster st) = Some (kb, ms_cluster st'))"
proof -
  obtain spec where spec: "map_of (Registry e) ''storage'' = Some spec" "pg_Build spec = Some (buildStorage (pe_quantity e))"
    "pg_PostInstall spec = None"
    by (auto simp: Registry_def specs_def specOf_def)
  then obtain st1 where o: "onCluster (removeSteps e spec opts) st = (Inr (), st1)" and u: "unrecord e ''storage'' st1 = (Inr (), st')"
    using assms(1) by (auto simp: Remove_def andThen_Inr)
  have plan: "resolve spec opts = Inr noPlan" using spec(2) assms(2) by (simp add: resolve_def buildStorage_def)
  have "\<exists>cfg kb. pe_newApplier e cfg (ms_cluster st) = Some (kb, ms_cluster st1)"
    using o spec(3) plan
    by (fastforce simp: onCluster_def removeSteps_def noPlan_def deletePost_def DeleteObjects_def connect_def ebind_Inr andThen_Inr
        split: prod.splits option.splits)
  moreover have "ms_cluster st' = ms_cluster st1"
    using u by (auto simp: unrecord_def writeState_def split: if_splits written.splits)
  ultimately show ?thesis using unrecord_record(1) [OF u refl] by auto
qed

end
