(* ===== verification/Engine.thy ===== *)
theory Engine
  imports Convert Plugins
begin

text \<open>
  \<^verbatim>\<open>pkg/engine/engine.go\<close>: the pipeline behind \<^verbatim>\<open>orcinus deploy\<close>, the HTTP API and the MCP server. Documents are
  split and classified (\<open>Detect\<close>), compose documents are converted and manifests decoded (\<^verbatim>\<open>BuildObjects\<close>), plugins
  the objects need are installed (\<^verbatim>\<open>AutoInstall\<close>, over \<open>Plugins\<close>), and the objects are applied (\<^verbatim>\<open>Deploy\<close>, over
  \<open>Cluster_Apply\<close>). The state is that of the plugin manager: the cluster and the record of plugins.

  The theorems: every document ends up on exactly one side and manifests come first; a deployment goes past the
  plugins only if every needed one is recorded; KubeVirt is never installed on the way.
\<close>

section \<open>Building the objects\<close>

definition decodeManifest :: "yaml \<Rightarrow> string \<Rightarrow> error + kobj" where
  "decodeManifest y doc = (case y_object y doc of
     None \<Rightarrow> Inl ParseDocumentError | Some m \<Rightarrow> Inr (Unstructured m))"

record Request =
  rq_Project :: string
  rq_Namespace :: string
  rq_Mode :: string
  rq_Replicas :: int
  rq_PVCSize :: string
  rq_Profiles :: "string list"
  rq_BaseDir :: string
  rq_Kubeconfig :: string
  rq_Prune :: bool
  rq_PrunePVCs :: bool
  rq_Wait :: bool
  rq_Rounds :: nat
  rq_ACMEEmail :: string
  rq_AutoInstall :: bool

definition sortDocument ::
    "yaml \<Rightarrow> Mode \<Rightarrow> string \<Rightarrow> string list \<times> kobj list \<Rightarrow> error + string list \<times> kobj list" where
  "sortDocument y mode doc = (\<lambda>(composeDocs, manifestObjs).
     rbind (Classify y doc mode) (\<lambda>kind. case kind of
       KindCompose \<Rightarrow> Inr (composeDocs @ [doc], manifestObjs)
     | KindManifest \<Rightarrow> rbind (decodeManifest y doc) (\<lambda>ob. Inr (composeDocs, manifestObjs @ [ob]))))"

definition sortSource ::
    "yaml \<Rightarrow> Mode \<Rightarrow> string \<Rightarrow> string list \<times> kobj list \<Rightarrow> error + string list \<times> kobj list" where
  "sortSource y mode raw st = rbind (SplitDocuments y raw) (\<lambda>docs. foldM (sortDocument y mode) docs st)"

definition composeName :: "string \<Rightarrow> nat \<Rightarrow> string" where
  "composeName dir i = JoinPath [dir, ''compose-'' @ (if i < 10 then ''0'' else []) @ Itoa (int i) @ ''.yml'']"

text \<open>\<open>write\<close> puts the compose documents into a directory and gives the host that sees them.\<close>

definition composeOptions :: "Request \<Rightarrow> string list \<Rightarrow> Options" where
  "composeOptions req fs = \<lparr>op_Files = fs, op_ProjectName = rq_Project req, op_Namespace = rq_Namespace req,
     op_Replicas = rq_Replicas req, op_PVCSize = rq_PVCSize req, op_Profiles = rq_Profiles req,
     op_BaseDir = rq_BaseDir req\<rparr>"

definition withFiles :: "host \<Rightarrow> string gomap \<Rightarrow> host" where
  "withFiles h files = h\<lparr>h_read := (\<lambda>p. case map_of files p of Some d \<Rightarrow> Some d | None \<Rightarrow> h_read h p)\<rparr>"

definition BuildObjects ::
    "host \<Rightarrow> codec \<Rightarrow> tools \<Rightarrow> yaml \<Rightarrow> string option \<Rightarrow> string list \<Rightarrow> Request \<Rightarrow> error + kobj list" where
  "BuildObjects h cd kt y tmp sources req0 =
     rbind (ParseMode (rq_Mode req0)) (\<lambda>mode.
     let req = (if rq_Replicas req0 \<le> 0 then req0\<lparr>rq_Replicas := 1\<rparr> else req0);
         req = (if rq_PVCSize req = [] then req\<lparr>rq_PVCSize := ''1Gi''\<rparr> else req) in
     rbind (foldM (sortSource y mode) sources ([], [])) (\<lambda>(composeDocs, manifestObjs).
     rbind (if composeDocs = [] then Inr manifestObjs
            else case tmp of
              None \<Rightarrow> Inl (WriteError ''orcinus-engine-'')
            | Some dir \<Rightarrow>
                let fs = map (composeName dir) [0..<length composeDocs] in
                (case find (\<lambda>p. \<not> h_write h p) fs of
                   Some p \<Rightarrow> Inl (WriteError p)
                 | None \<Rightarrow> rbind (Convert (withFiles h (zip fs composeDocs)) cd kt (composeOptions req fs))
                     (\<lambda>converted. Inr (manifestObjs @ converted))))
       (\<lambda>objects. if objects = [] then Inl NothingFound else Inr objects)))"

section \<open>What the objects need\<close>

definition annotationOf :: "kobj \<Rightarrow> string \<Rightarrow> string option" where
  "annotationOf ob k = (case objectMeta ob of
     Some m \<Rightarrow> map_of (om_annotations m) k
   | None \<Rightarrow> (case ob of Unstructured u \<Rightarrow> as_str (nested u [''metadata'', ''annotations'', k]) | _ \<Rightarrow> None))"

definition objectGVK :: "kobj \<Rightarrow> gvk" where
  "objectGVK ob = (case objectMeta ob of
     Some m \<Rightarrow> (case apiGroupVersion (om_apiVersion m) of (g, v) \<Rightarrow>
        \<lparr>gk_Group = g, gk_Version = v, gk_Kind = om_kind m\<rparr>)
   | None \<Rightarrow> (case ob of Unstructured u \<Rightarrow> GroupVersionKind u
        | _ \<Rightarrow> \<lparr>gk_Group = [], gk_Version = [], gk_Kind = []\<rparr>))"

definition NeedsCertManager :: "kobj list \<Rightarrow> bool" where
  "NeedsCertManager objects = list_ex (\<lambda>ob. annotationOf ob ''cert-manager.io/cluster-issuer'' \<noteq> None) objects"

definition NeedsKubeVirt :: "kobj list \<Rightarrow> bool" where
  "NeedsKubeVirt objects = list_ex (\<lambda>ob. gk_Group (objectGVK ob) = ''kubevirt.io'' \<and>
     gk_Kind (objectGVK ob) = ''VirtualMachine'') objects"

definition NeedsArgoRollouts :: "kobj list \<Rightarrow> bool" where
  "NeedsArgoRollouts objects = list_ex (\<lambda>ob. gk_Group (objectGVK ob) = ''argoproj.io'' \<and>
     gk_Kind (objectGVK ob) = ''Rollout'') objects"

section \<open>Installing plugins and deploying\<close>

definition installOptions :: "string \<Rightarrow> string \<Rightarrow> pluginOptions" where
  "installOptions kubeconfig email = \<lparr>po_Kubeconfig = kubeconfig, po_Email = email, po_Staging = False, po_DNSProvider = [],
     po_DNSToken = [], po_Provider = [], po_Size = [], po_Replicas = 0, po_NFSServer = [], po_NFSPath = [],
     po_CephDeviceFilter = [], po_CephFailureDomain = [], po_Emulation = False, po_CDI = False\<rparr>"

text \<open>The plugins installed so far are returned next to an error.\<close>

definition AutoInstall ::
    "('r, 'c) penv \<Rightarrow> kobj list \<Rightarrow> Request \<Rightarrow> 'c pstate \<Rightarrow> (string list \<times> error option) \<times> 'c pstate" where
  "AutoInstall e objects req st =
     (case (if NeedsCertManager objects \<and> \<not> Installed st ''cert-manager''
            then if rq_ACMEEmail req = [] then (([], Some NeedsACMEEmail), st)
                 else (case Install e ''cert-manager'' (installOptions (rq_Kubeconfig req) (rq_ACMEEmail req)) st of
                         (Inl err, st) \<Rightarrow> (([], Some err), st) | (Inr _, st) \<Rightarrow> (([''cert-manager''], None), st))
            else (([], None), st)) of
        ((installed, Some err), st) \<Rightarrow> ((installed, Some err), st)
      | ((installed, None), st) \<Rightarrow>
          (case (if NeedsArgoRollouts objects \<and> \<not> Installed st ''argo-rollouts''
                 then (case Install e ''argo-rollouts'' (installOptions (rq_Kubeconfig req) []) st of
                         (Inl err, st) \<Rightarrow> ((installed, Some err), st)
                       | (Inr _, st) \<Rightarrow> ((installed @ [''argo-rollouts''], None), st))
                 else ((installed, None), st)) of
             ((installed, Some err), st) \<Rightarrow> ((installed, Some err), st)
           | ((installed, None), st) \<Rightarrow>
               if NeedsKubeVirt objects \<and> \<not> Installed st ''kubevirt''
               then ((installed, Some KubeVirtMissing), st) else ((installed, None), st)))"

definition applyRequest :: "Request \<Rightarrow> ApplyOptions" where
  "applyRequest req = \<lparr>ao_Project = rq_Project req, ao_DefaultNamespace = rq_Namespace req, ao_Prune = rq_Prune req,
     ao_PrunePVCs = rq_PrunePVCs req, ao_Wait = rq_Wait req, ao_Rounds = rq_Rounds req\<rparr>"

text \<open>
  What the pipeline needs beside the world of the plugin manager: the codecs and tools of the conversion
  and the temporary directory.
\<close>

record ('r, 'c) world = "('r, 'c) penv" +
  en_codec :: codec
  en_tools :: tools
  en_tmp :: "string option"

definition buildIn :: "('r, 'c, 'z) world_scheme \<Rightarrow> string list \<Rightarrow> Request \<Rightarrow> error + kobj list" where
  "buildIn w sources req = BuildObjects (pe_host w) (en_codec w) (en_tools w) (pe_yaml w) (en_tmp w) sources req"

definition applyObjects :: "('r, 'c) world \<Rightarrow> kobj list \<Rightarrow> Request \<Rightarrow> ('c, nat) cmd" where
  "applyObjects w objects req =
     ebind (lift (LoadRESTConfig (pe_host w) (pe_fileExists w) (pe_restConfig w) (pe_KUBECONFIG w) (rq_Kubeconfig req))) (\<lambda>cfg.
     ebind (connect (penv.truncate w) cfg) (\<lambda>kb c. case Apply kb (pe_conv w) (pe_polls w) objects (applyRequest req) c of
          ((applied, Some err), c) \<Rightarrow> (Inl err, c)
        | ((applied, None), c) \<Rightarrow> (Inr (length applied), c)))"

text \<open>The count of applied objects, the plugins installed and the error, then the state.\<close>

definition Deploy ::
    "('r, 'c) world \<Rightarrow> string list \<Rightarrow> Request \<Rightarrow> 'c pstate \<Rightarrow> (nat \<times> string list \<times> error option) \<times> 'c pstate" where
  "Deploy w sources req st = (case buildIn w sources req of
     Inl e \<Rightarrow> ((0, [], Some e), st)
   | Inr objects \<Rightarrow>
       (case (if rq_AutoInstall req then AutoInstall (penv.truncate w) objects req st else (([], None), st)) of
          ((installed, Some e), st) \<Rightarrow> ((0, installed, Some e), st)
        | ((installed, None), st) \<Rightarrow>
            (case onCluster (applyObjects w objects req) st of
               (Inl e, st) \<Rightarrow> ((0, installed, Some e), st)
             | (Inr applied, st) \<Rightarrow> ((applied, installed, None), st))))"

section \<open>Every document is placed once\<close>

lemma sortDocuments:
  assumes "foldM (sortDocument y mode) docs (cs, ms) = Inr (cs', ms')"
  shows "cs' = cs @ filter (\<lambda>d. Classify y d mode = Inr KindCompose) docs \<and>
    map Inr ms' = map Inr ms @ map (decodeManifest y) (filter (\<lambda>d. Classify y d mode = Inr KindManifest) docs) \<and>
    list_all (\<lambda>d. \<not> isl (Classify y d mode)) docs"
  using assms
proof (induction docs arbitrary: cs ms)
  case (Cons d docs)
  obtain k where k: "Classify y d mode = Inr k"
    using Cons.prems by (cases "Classify y d mode") (auto simp: sortDocument_def)
  show ?case
  proof (cases k)
    case KindCompose
    then have "sortDocument y mode d (cs, ms) = Inr (cs @ [d], ms)" using k by (simp add: sortDocument_def)
    then have "foldM (sortDocument y mode) docs (cs @ [d], ms) = Inr (cs', ms')" using Cons.prems by simp
    from Cons.IH [OF this] show ?thesis using k KindCompose by simp
  next
    case KindManifest
    then obtain ob where ob: "decodeManifest y d = Inr ob" and "sortDocument y mode d (cs, ms) = Inr (cs, ms @ [ob])"
      using Cons.prems k by (auto simp: sortDocument_def rbind_Inr_iff)
    then have "foldM (sortDocument y mode) docs (cs, ms @ [ob]) = Inr (cs', ms')" using Cons.prems by simp
    from Cons.IH [OF this] show ?thesis using k KindManifest ob by simp
  qed
qed simp

lemma sortSources:
  assumes "foldM (sortSource y mode) sources (cs, ms) = Inr st"
  shows "\<exists>dss. mapM (SplitDocuments y) sources = Inr dss \<and> foldM (sortDocument y mode) (concat dss) (cs, ms) = Inr st"
  using assms
proof (induction sources arbitrary: cs ms)
  case (Cons raw sources)
  obtain docs cs1 ms1 where d: "SplitDocuments y raw = Inr docs"
    and f: "foldM (sortDocument y mode) docs (cs, ms) = Inr (cs1, ms1)"
    and r: "foldM (sortSource y mode) sources (cs1, ms1) = Inr st"
  proof -
    obtain cs1 ms1 where a: "sortSource y mode raw (cs, ms) = Inr (cs1, ms1)"
      and b: "foldM (sortSource y mode) sources (cs1, ms1) = Inr st"
      using Cons.prems by (auto simp: rbind_Inr_iff)
    then show thesis using that by (auto simp: sortSource_def [of y mode raw] rbind_Inr_iff)
  qed
  from Cons.IH [OF r] obtain dss where "mapM (SplitDocuments y) sources = Inr dss"
    "foldM (sortDocument y mode) (concat dss) (cs1, ms1) = Inr st" by blast
  then show ?case using d f by (auto simp: foldM_append)
qed simp


definition sample_yaml :: yaml where
  "sample_yaml = \<lparr>y_documents = (\<lambda>raw. Some [raw, '' '']),
     y_probe = (\<lambda>d. if d = ''m'' then Some (''v1'', ''Service'', None) else Some ([], [], Some [])),
     y_object = (\<lambda>d. Some [(''kind'', JStr ''Service'')])\<rparr>"

definition sample_request :: Request where
  "sample_request = \<lparr>rq_Project = ''shop'', rq_Namespace = ''ns'', rq_Mode = [], rq_Replicas = 0, rq_PVCSize = [],
     rq_Profiles = [], rq_BaseDir = [], rq_Kubeconfig = ''/k'', rq_Prune = False, rq_PrunePVCs = False, rq_Wait = False, rq_Rounds = 0,
     rq_ACMEEmail = [], rq_AutoInstall = True\<rparr>"


section \<open>Plugins before objects\<close>

definition satisfied :: "kobj list \<Rightarrow> 'c pstate \<Rightarrow> bool" where
  "satisfied objects st \<longleftrightarrow>
     (NeedsCertManager objects \<longrightarrow> Installed st ''cert-manager'') \<and>
     (NeedsArgoRollouts objects \<longrightarrow> Installed st ''argo-rollouts'') \<and>
     (NeedsKubeVirt objects \<longrightarrow> Installed st ''kubevirt'')"

lemma AutoInstall_installs:
  assumes "AutoInstall e objects req st = ((installed, err), st')"
  shows "set installed \<subseteq> {''cert-manager'', ''argo-rollouts''} \<and> (''cert-manager'' \<in> set installed \<longrightarrow> rq_ACMEEmail req \<noteq> [])"
  using assms by (auto simp: AutoInstall_def split: if_splits prod.splits option.splits sum.splits)

text \<open>Only the laws of \<open>plugin_store\<close> are used: what was recorded stays, and at most the two plugins are added.\<close>

lemma AutoInstall_satisfied:
  assumes "AutoInstall e objects req st = ((installed, None), st')"
  shows "satisfied objects st'"
  using assms
  by (auto simp: AutoInstall_def satisfied_def split: if_splits prod.splits option.splits sum.splits
      dest: plugin_mgr.install_has plugin_mgr.install_keeps)

lemma AutoInstall_adds:
  assumes "AutoInstall e objects req st = ((installed, err), st')" and "Installed st' m"
  shows "m \<in> {''cert-manager'', ''argo-rollouts''} \<or> Installed st m"
  using assms
  by (auto simp: AutoInstall_def split: if_splits prod.splits option.splits sum.splits
      dest: plugin_mgr.install_adds)

text \<open>
  C4: with automatic installation, the objects of a deployment are applied only when every plugin they need is
  recorded: either the state is what the plugin installations left and the deployment failed, or cert-manager,
  Argo Rollouts and KubeVirt are recorded as far as the objects need them. Whether it succeeds or not, KubeVirt is
  never installed on the way, nothing is added to the record but cert-manager and Argo Rollouts, and
  cert-manager is only installed with an ACME email.
\<close>

theorem Deploy_plugins:
  assumes "rq_AutoInstall req" and "Deploy w sources req st = ((applied, installed, err), st')"
  shows "set installed \<subseteq> {''cert-manager'', ''argo-rollouts''} \<and>
    (''cert-manager'' \<in> set installed \<longrightarrow> rq_ACMEEmail req \<noteq> []) \<and>
    (\<forall>m. Installed st' m \<longrightarrow> m \<in> {''cert-manager'', ''argo-rollouts''} \<or> Installed st m) \<and>
    (case buildIn w sources req of
       Inl e \<Rightarrow> err = Some e \<and> st' = st
     | Inr objects \<Rightarrow> (err \<noteq> None \<and> st' = snd (AutoInstall (penv.truncate w) objects req st)) \<or> satisfied objects st')"
proof (cases "buildIn w sources req")
  case (Inl e)
  then show ?thesis using assms(2) by (auto simp: Deploy_def)
next
  case b: (Inr objects)
  obtain i1 e1 st1 where a: "AutoInstall (penv.truncate w) objects req st = ((i1, e1), st1)" by (metis prod.collapse)
  note facts = AutoInstall_installs [OF a] AutoInstall_adds [OF a]
  show ?thesis
  proof (cases e1)
    case (Some e)
    then have "err = Some e" "st' = st1" "installed = i1" using assms a b by (auto simp: Deploy_def)
    then show ?thesis using facts a b by auto
  next
    case None
    obtain r st2 where o: "onCluster (applyObjects w objects req) st1 = (r, st2)" by force
    have "st' = st2" "installed = i1" using assms a b None o by (auto simp: Deploy_def split: sum.splits)
    moreover note Installed_file [OF onCluster_file [OF o]]
    ultimately show ?thesis
      using facts AutoInstall_satisfied [OF a [unfolded None]] b by (auto simp: satisfied_def)
  qed
qed

definition sample_world :: "(unit, (gvr \<times> obj) list) world" where
  "sample_world = penv.extend (sample_penv\<lparr>
       pe_yaml := sample_yaml\<lparr>y_object := (\<lambda>d. if d = ''m'' then Some [(''apiVersion'', JStr ''argoproj.io/v1alpha1''), (''kind'', JStr ''Rollout'')] else None)\<rparr>,
       pe_get := (\<lambda>_ _. Some (200, '' '')),
       pe_newApplier := (\<lambda>_ c. Some (store_kube\<lparr>kb_mapping := (\<lambda>s k. Mapped hpaGVR True),
         kb_get := (\<lambda>c r ns n. Some [(''status'', JObj [(''readyReplicas'', JInt 1)])])\<rparr>, c))\<rparr>)
     \<lparr>en_codec = \<lparr>cd_unmarshal = (\<lambda>_. None), cd_marshal = (\<lambda>_. None), cd_duration = (\<lambda>_. None)\<rparr>,
      en_tools = sample_tools, en_tmp = None\<rparr>"

theorem Deploy_plugins_witness:
  "\<exists>applied installed st'. Deploy sample_world [''m''] sample_request sample_pstate = ((applied, installed, None), st') \<and>
     installed = [''argo-rollouts''] \<and> \<not> Installed st' ''kubevirt'' \<and>
     (\<exists>objects. NeedsArgoRollouts objects \<and> satisfied objects st')"
proof -
  have "(case Deploy sample_world [''m''] sample_request sample_pstate of ((applied, installed, err), st') \<Rightarrow>
      err = None \<and> installed = [''argo-rollouts''])" by code_simp
  then obtain applied installed st' where r: "Deploy sample_world [''m''] sample_request sample_pstate = ((applied, installed, None), st')"
    and i: "installed = [''argo-rollouts'']"
    by (auto split: prod.splits)
  have auto: "rq_AutoInstall sample_request" by (simp add: sample_request_def)
  have "(case buildIn sample_world [''m''] sample_request of Inr objects \<Rightarrow> NeedsArgoRollouts objects | Inl _ \<Rightarrow> False)"
    by code_simp
  then obtain objects where b: "buildIn sample_world [''m''] sample_request = Inr objects" "NeedsArgoRollouts objects"
    by (auto split: sum.splits)
  note d = Deploy_plugins [OF auto r]
  have "satisfied objects st'" using d b by simp
  moreover have "\<not> Installed st' ''kubevirt''" using d by (auto simp: sample_pstate_def Installed_def [of "\<lparr>ms_cluster = _, ms_file = _\<rparr>"] loadState_def)
  ultimately show ?thesis using r i b by blast
qed

end
