(* ===== verification/Operations.thy ===== *)
theory Operations
  imports Progressive Cluster_Apply
begin

text \<open>
  Day-two operations of \<^verbatim>\<open>pkg/deploy\<close>: \<^verbatim>\<open>Scale\<close>, \<^verbatim>\<open>Autoscale\<close> and \<^verbatim>\<open>BuildHPA\<close> (\<^verbatim>\<open>scale.go\<close>),
  \<^verbatim>\<open>Rollback\<close> (\<^verbatim>\<open>rollback.go\<close>), \<^verbatim>\<open>Restart\<close> (\<^verbatim>\<open>restart.go\<close>), Secrets (\<^verbatim>\<open>secret.go\<close>) and the
  registry handshake (\<^verbatim>\<open>registry.go\<close>). The typed and the dynamic client are the record
  \<open>client\<close> of their calls on an abstract state; HTTP, JSON, base64 and URLs are arguments. The
  resource version an update carries is the server's and is left out.

  The theorems: scaling changes the replica count of one workload and nothing else; a rollback
  takes the newest older revision; merging a Secret overlays its keys and keeps its type; the
  autoscaler made by hand and the one made from a compose file are the same; the bearer challenge of
  a registry is read back as it was printed, and a login is accepted only when the registry said so.
\<close>

section \<open>The client\<close>

datatype 'a lookup = Found 'a | NotFound | Failed string

text \<open>A pod template, and a workload as the cluster returns it: the template's annotations included.\<close>

record podTemplate =
  pt_Labels :: "string gomap"
  pt_Annotations :: "string gomap"
  pt_Spec :: podSpec

record liveWorkload = workload +
  lv_TemplateAnnotations :: "string gomap"

definition setTemplate :: "podTemplate \<Rightarrow> liveWorkload \<Rightarrow> liveWorkload" where
  "setTemplate t w = w\<lparr>wl_TemplateLabels := pt_Labels t, lv_TemplateAnnotations := pt_Annotations t, wl_Pod := pt_Spec t\<rparr>"

record replicaSet =
  rs_Annotations :: "string gomap"
  rs_Template :: podTemplate

record controllerRevision =
  cr_Revision :: int
  cr_Data :: string

record secret =
  se_Name :: string
  se_Namespace :: string
  se_Labels :: "string gomap"
  se_Type :: string
  se_Data :: "string gomap"

datatype patchType = StrategicMergePatch | MergePatch

record 'c client =
  cl_get :: "'c \<Rightarrow> string \<Rightarrow> string \<Rightarrow> string \<Rightarrow> liveWorkload option"   \<comment> \<open>kind, namespace, name\<close>
  cl_update :: "string \<Rightarrow> string \<Rightarrow> liveWorkload \<Rightarrow> 'c \<Rightarrow> 'c option"
  cl_patch :: "string \<Rightarrow> string \<Rightarrow> string \<Rightarrow> patchType \<Rightarrow> string \<Rightarrow> 'c \<Rightarrow> 'c option"
  cl_rollout :: "'c \<Rightarrow> string \<Rightarrow> string \<Rightarrow> obj option"
  cl_updateRollout :: "string \<Rightarrow> obj \<Rightarrow> 'c \<Rightarrow> 'c option"
  cl_replicaSets :: "'c \<Rightarrow> string \<Rightarrow> string gomap \<Rightarrow> replicaSet list option"
  cl_revisions :: "'c \<Rightarrow> string \<Rightarrow> string gomap \<Rightarrow> controllerRevision list option"
  cl_hpa :: "'c \<Rightarrow> string \<Rightarrow> string \<Rightarrow> bool"
  cl_updateHPA :: "string \<Rightarrow> kobj \<Rightarrow> 'c \<Rightarrow> 'c option"
  cl_createHPA :: "string \<Rightarrow> kobj \<Rightarrow> 'c \<Rightarrow> 'c option"
  cl_secret :: "'c \<Rightarrow> string \<Rightarrow> string \<Rightarrow> secret lookup"
  cl_updateSecret :: "string \<Rightarrow> secret \<Rightarrow> 'c \<Rightarrow> 'c option"
  cl_createSecret :: "string \<Rightarrow> secret \<Rightarrow> 'c \<Rightarrow> 'c option"
  cl_secrets :: "'c \<Rightarrow> string \<Rightarrow> secret list option"
  cl_deleteSecret :: "string \<Rightarrow> string \<Rightarrow> 'c \<Rightarrow> 'c option"

text \<open>A call that changes the cluster and may fail, with the value the operation then returns.\<close>

definition call :: "string \<Rightarrow> 'a \<Rightarrow> 'c \<Rightarrow> 'c option \<Rightarrow> (error + 'a) \<times> 'c" where
  "call what res c r = (case r of None \<Rightarrow> (Inl (ApiError what), c) | Some c' \<Rightarrow> (Inr res, c'))"

lemma call_Inr [simp]: "call what res c r = (Inr x, c') \<longleftrightarrow> r = Some c' \<and> x = res"
  by (auto simp: call_def split: option.splits)

section \<open>Scaling\<close>

definition Scale :: "'c client \<Rightarrow> string \<Rightarrow> string \<Rightarrow> int \<Rightarrow> 'c \<Rightarrow> (error + string) \<times> 'c" where
  "Scale cl ns name replicas c = (case cl_get cl c ''Deployment'' ns name of
     Some d \<Rightarrow> call name ''Deployment'' c (cl_update cl ''Deployment'' ns (d\<lparr>wl_Replicas := Some replicas\<rparr>) c)
   | None \<Rightarrow> (case cl_get cl c ''StatefulSet'' ns name of
        Some s \<Rightarrow> call name ''StatefulSet'' c (cl_update cl ''StatefulSet'' ns (s\<lparr>wl_Replicas := Some replicas\<rparr>) c)
      | None \<Rightarrow> (Inl (NoWorkload name ns), c)))"

record AutoscaleSpec =
  sp_Min :: int
  sp_Max :: int
  sp_CPU :: int
  sp_Memory :: int

definition resourceMetric :: "string \<Rightarrow> int \<Rightarrow> string \<times> int" where
  "resourceMetric name target = (name, target)"

definition BuildHPA :: "string \<Rightarrow> string \<Rightarrow> string \<Rightarrow> AutoscaleSpec \<Rightarrow> kobj" where
  "BuildHPA ns name targetKind s =
     (let mn = (if sp_Min s < 1 then 1 else sp_Min s);
          cpu = (if sp_CPU s = 0 \<and> sp_Memory s = 0 then 80 else sp_CPU s);
          metrics = (if cpu > 0 then [resourceMetric ''cpu'' cpu] else []) @
                    (if sp_Memory s > 0 then [resourceMetric ''memory'' (sp_Memory s)] else [])
      in HPA \<lparr>om_apiVersion = ''autoscaling/v2'', om_kind = ''HorizontalPodAutoscaler'', om_name = name,
              om_namespace = ns, om_labels = [(LabelManagedBy, ManagedByValue)], om_annotations = []\<rparr>
            \<lparr>hp_TargetAPIVersion = ''apps/v1'', hp_TargetKind = targetKind, hp_TargetName = name,
             hp_Min = mn, hp_Max = sp_Max s, hp_Metrics = metrics\<rparr>)"

definition Autoscale :: "'c client \<Rightarrow> string \<Rightarrow> string \<Rightarrow> AutoscaleSpec \<Rightarrow> 'c \<Rightarrow> (error + unit) \<times> 'c" where
  "Autoscale cl ns name spec c =
     (let kind = (if cl_get cl c ''Deployment'' ns name \<noteq> None then Some ''Deployment''
                  else if cl_get cl c ''StatefulSet'' ns name \<noteq> None then Some ''StatefulSet'' else None)
      in case kind of
        None \<Rightarrow> (Inl (NoWorkload name ns), c)
      | Some k \<Rightarrow>
          let hpa = BuildHPA ns name k spec in
          call name () c (if cl_hpa cl c ns name then cl_updateHPA cl ns hpa c else cl_createHPA cl ns hpa c))"

section \<open>Rolling back and restarting\<close>

text \<open>\<^verbatim>\<open>n, _ := strconv.ParseInt(s, 10, 64)\<close>: zero on a syntax error, the nearest bound on overflow.\<close>

definition parseInt64 :: "string \<Rightarrow> int" where
  "parseInt64 s =
     (let neg = HasPrefix s ''-'';
          ds = (if neg \<or> HasPrefix s ''+'' then drop 1 s else s);
          v = (if neg then - int (digits_val ds) else int (digits_val ds))
      in if ds = [] \<or> \<not> list_all isDigit ds then 0
         else if v > int64_max then int64_max else if v < int64_min then int64_min else v)"

definition revision :: "string \<Rightarrow> string gomap \<Rightarrow> int" where
  "revision revAnno annotations = parseInt64 (case map_of annotations revAnno of Some v \<Rightarrow> v | None \<Rightarrow> [])"

fun newestBelow :: "string \<Rightarrow> int \<Rightarrow> replicaSet list \<Rightarrow> replicaSet option \<Rightarrow> int \<Rightarrow> replicaSet option" where
  "newestBelow revAnno currentRev [] best bestRev = best"
| "newestBelow revAnno currentRev (rs # rest) best bestRev =
     (let rv = revision revAnno (rs_Annotations rs) in
      if rv < currentRev \<and> rv > bestRev then newestBelow revAnno currentRev rest (Some rs) rv
      else newestBelow revAnno currentRev rest best bestRev)"

definition previousRSTemplate ::
    "'c client \<Rightarrow> 'c \<Rightarrow> string \<Rightarrow> string gomap \<Rightarrow> string \<Rightarrow> string \<Rightarrow> int \<Rightarrow> error + podTemplate" where
  "previousRSTemplate cl c ns selector revAnno hashLabel currentRev = (case cl_replicaSets cl c ns selector of
     None \<Rightarrow> Inl (ApiError ''replicasets'')
   | Some items \<Rightarrow> (case newestBelow revAnno currentRev items None (-1) of
        None \<Rightarrow> Inl (NoWorkload ''previous revision'' ns)
      | Some best \<Rightarrow>
          let tmpl = rs_Template best in Inr (tmpl\<lparr>pt_Labels := AList.delete hashLabel (pt_Labels tmpl)\<rparr>)))"

text \<open>The selector of a stored workload is there: the API server requires it.\<close>

definition matchLabels :: "liveWorkload \<Rightarrow> string gomap" where
  "matchLabels w = (case wl_Selector w of Some s \<Rightarrow> s | None \<Rightarrow> [])"

definition rollbackDeployment :: "'c client \<Rightarrow> string \<Rightarrow> liveWorkload \<Rightarrow> 'c \<Rightarrow> (error + unit) \<times> 'c" where
  "rollbackDeployment cl ns d c =
     (let cur = revision ''deployment.kubernetes.io/revision'' (om_annotations (wl_meta d)) in
      case previousRSTemplate cl c ns (matchLabels d) ''deployment.kubernetes.io/revision'' ''pod-template-hash'' cur of
        Inl e \<Rightarrow> (Inl e, c)
      | Inr tmpl \<Rightarrow> call (om_name (wl_meta d)) () c (cl_update cl ''Deployment'' ns (setTemplate tmpl d) c))"

text \<open>\<^verbatim>\<open>NestedStringMap\<close> gives nothing when a value is not a string; \<^verbatim>\<open>SetNestedMap\<close> fails below a value that is no map.\<close>

definition stringMap :: "obj \<Rightarrow> string gomap" where
  "stringMap m = (if list_all (\<lambda>(k, v). case v of JStr s \<Rightarrow> True | _ \<Rightarrow> False) m
                  then map (\<lambda>(k, v). (k, case v of JStr s \<Rightarrow> s | _ \<Rightarrow> [])) m else [])"

definition setSpecTemplate :: "obj \<Rightarrow> obj \<Rightarrow> obj option" where
  "setSpecTemplate t ro = (case map_of ro ''spec'' of
     None \<Rightarrow> Some (AList.update ''spec'' (JObj [(''template'', JObj t)]) ro)
   | Some (JObj spec) \<Rightarrow> Some (AList.update ''spec'' (JObj (AList.update ''template'' (JObj t) spec)) ro)
   | Some _ \<Rightarrow> None)"

definition rollbackRollout ::
    "'c client \<Rightarrow> (podTemplate \<Rightarrow> obj option) \<Rightarrow> string \<Rightarrow> string \<Rightarrow> 'c \<Rightarrow> (error + unit) \<times> 'c" where
  "rollbackRollout cl toU ns name c = (case cl_rollout cl c ns name of
     None \<Rightarrow> (Inl (ApiError name), c)
   | Some ro \<Rightarrow>
       let cur = revision ''rollout.argoproj.io/revision'' (stringMap (nestedMap ro [''metadata'', ''annotations'']));
           selector = stringMap (nestedMap ro [''spec'', ''selector'', ''matchLabels'']) in
       (case previousRSTemplate cl c ns selector ''rollout.argoproj.io/revision'' ''rollouts-pod-template-hash'' cur of
          Inl e \<Rightarrow> (Inl e, c)
        | Inr tmpl \<Rightarrow> (case toU tmpl of
             None \<Rightarrow> (Inl ToUnstructuredError, c)
           | Some m \<Rightarrow> (case setSpecTemplate (removeMeta ''creationTimestamp'' m) ro of
                None \<Rightarrow> (Inl (RolloutNoSpec name), c)
              | Some ro' \<Rightarrow> call name () c (cl_updateRollout cl ns ro' c)))))"

text \<open>\<^verbatim>\<open>sort.Slice\<close> on distinct revisions: newest first.\<close>

definition newestFirst :: "controllerRevision list \<Rightarrow> controllerRevision list" where
  "newestFirst revs = rev (sort_key cr_Revision revs)"

definition rollbackStatefulSet ::
    "'c client \<Rightarrow> (string \<Rightarrow> obj option) \<Rightarrow> (obj \<Rightarrow> podTemplate option) \<Rightarrow> string \<Rightarrow> liveWorkload \<Rightarrow> 'c \<Rightarrow>
     (error + unit) \<times> 'c" where
  "rollbackStatefulSet cl unmarshal fromU ns s c = (case cl_revisions cl c ns (matchLabels s) of
     None \<Rightarrow> (Inl (ApiError ''controllerrevisions''), c)
   | Some items \<Rightarrow>
       if length items < 2 then (Inl (NoWorkload ''previous revision'' ns), c)
       else (case unmarshal (cr_Data (newestFirst items ! 1)) of
          None \<Rightarrow> (Inl ParseDocumentError, c)
        | Some patch \<Rightarrow> (case nested patch [''spec'', ''template''] of
             Some (JObj tmplMap) \<Rightarrow> (case fromU tmplMap of
                None \<Rightarrow> (Inl ParseDocumentError, c)
              | Some tmpl \<Rightarrow> call (om_name (wl_meta s)) () c (cl_update cl ''StatefulSet'' ns (setTemplate tmpl s) c))
           | _ \<Rightarrow> (Inl (NoWorkload ''pod template'' ns), c))))"

text \<open>The codecs of the three converters the rollback calls.\<close>

record templateCodec =
  co_unmarshal :: "string \<Rightarrow> obj option"
  co_toU :: "podTemplate \<Rightarrow> obj option"
  co_fromU :: "obj \<Rightarrow> podTemplate option"

definition Rollback :: "'c client \<Rightarrow> templateCodec \<Rightarrow> string \<Rightarrow> string \<Rightarrow> 'c \<Rightarrow> string \<times> (error + unit) \<times> 'c" where
  "Rollback cl co ns name c = (case cl_get cl c ''Deployment'' ns name of
     Some d \<Rightarrow> (''Deployment'', rollbackDeployment cl ns d c)
   | None \<Rightarrow> (case cl_get cl c ''StatefulSet'' ns name of
        Some s \<Rightarrow> (''StatefulSet'', rollbackStatefulSet cl (co_unmarshal co) (co_fromU co) ns s c)
      | None \<Rightarrow> (case cl_rollout cl c ns name of
           Some _ \<Rightarrow> (''Rollout'', rollbackRollout cl (co_toU co) ns name c)
         | None \<Rightarrow> ([], Inl (NoWorkload name ns), c))))"

definition restartedAt :: string where
  "restartedAt = ''kubectl.kubernetes.io/restartedAt''"

text \<open>\<^verbatim>\<open>%q\<close> of a text with nothing to escape.\<close>

definition quoted :: "string \<Rightarrow> string" where
  "quoted s = CHR 0x22 # s @ [CHR 0x22]"

definition restartPatch :: "string \<Rightarrow> string" where
  "restartPatch now = ''{'' @ quoted ''spec'' @ '':{'' @ quoted ''template'' @ '':{'' @ quoted ''metadata'' @ '':{''
     @ quoted ''annotations'' @ '':{'' @ quoted restartedAt @ '':'' @ quoted now @ ''}}}}}''"

definition Restart :: "'c client \<Rightarrow> string \<Rightarrow> string \<Rightarrow> string \<Rightarrow> 'c \<Rightarrow> (error + string) \<times> 'c" where
  "Restart cl ns name now c =
     (let patch = restartPatch now;
          stamp = (\<lambda>kind typ. call name kind c (cl_patch cl kind ns name typ patch c))
      in if cl_get cl c ''Deployment'' ns name \<noteq> None then stamp ''Deployment'' StrategicMergePatch
         else if cl_get cl c ''StatefulSet'' ns name \<noteq> None then stamp ''StatefulSet'' StrategicMergePatch
         else if cl_get cl c ''DaemonSet'' ns name \<noteq> None then stamp ''DaemonSet'' StrategicMergePatch
         else if cl_rollout cl c ns name \<noteq> None then stamp ''Rollout'' MergePatch
         else (Inl (NoWorkload name ns), c))"

section \<open>Secrets\<close>

record SecretDetail =
  sd_Name :: string
  sd_Namespace :: string
  sd_Type :: string
  sd_ManagedBy :: bool
  sd_Data :: "string gomap"

definition managed :: "secret \<Rightarrow> bool" where
  "managed s = (map_of (se_Labels s) LabelManagedBy = Some ManagedByValue)"

definition KeyNames :: "SecretDetail \<Rightarrow> string list" where
  "KeyNames d = sort (map fst (sd_Data d))"

definition GetSecret :: "'c client \<Rightarrow> string \<Rightarrow> string \<Rightarrow> 'c \<Rightarrow> SecretDetail lookup" where
  "GetSecret cl ns name c = (case cl_secret cl c ns name of
     Found s \<Rightarrow> Found \<lparr>sd_Name = se_Name s, sd_Namespace = se_Namespace s, sd_Type = se_Type s,
                       sd_ManagedBy = managed s, sd_Data = se_Data s\<rparr>
   | NotFound \<Rightarrow> NotFound
   | Failed e \<Rightarrow> Failed e)"

definition ApplySecret :: "'c client \<Rightarrow> string \<Rightarrow> string \<Rightarrow> string \<Rightarrow> string gomap \<Rightarrow> 'c \<Rightarrow> (error + unit) \<times> 'c" where
  "ApplySecret cl ns name typ data c =
     (let sec = \<lparr>se_Name = name, se_Namespace = ns, se_Labels = [(LabelManagedBy, ManagedByValue)],
                 se_Type = typ, se_Data = data\<rparr> in
      call name () c (case cl_secret cl c ns name of
        Found _ \<Rightarrow> cl_updateSecret cl ns sec c | _ \<Rightarrow> cl_createSecret cl ns sec c))"

definition MergeSecret :: "'c client \<Rightarrow> string \<Rightarrow> string \<Rightarrow> string \<Rightarrow> string gomap \<Rightarrow> 'c \<Rightarrow> (error + unit) \<times> 'c" where
  "MergeSecret cl ns name typ data c = (case GetSecret cl ns name c of
     Failed e \<Rightarrow> (Inl (ApiError e), c)
   | NotFound \<Rightarrow> ApplySecret cl ns name typ data c
   | Found existing \<Rightarrow>
       let merged = put_all data (put_all (sd_Data existing) []);
           kept = (if sd_Type existing = [] then typ else sd_Type existing)
       in ApplySecret cl ns name kept merged c)"

text \<open>\<^verbatim>\<open>json.Marshal\<close> and base64 are arguments.\<close>

definition BuildDockerConfigJSON ::
    "(string \<Rightarrow> string) \<Rightarrow> (obj \<Rightarrow> string option) \<Rightarrow> string \<Rightarrow> string \<Rightarrow> string \<Rightarrow> string \<Rightarrow> string option" where
  "BuildDockerConfigJSON base64 marshal server username password email =
     (let auth = base64 (username @ '':'' @ password);
          entry = [(''username'', JStr username), (''password'', JStr password), (''auth'', JStr auth)];
          entry = (if email \<noteq> [] then AList.update ''email'' (JStr email) entry else entry)
      in marshal [(''auths'', JObj [(server, JObj entry)])])"

definition ApplyDockerRegistrySecret ::
    "'c client \<Rightarrow> (string \<Rightarrow> string) \<Rightarrow> (obj \<Rightarrow> string option) \<Rightarrow> string \<Rightarrow> string \<Rightarrow> string \<Rightarrow> string \<Rightarrow> string \<Rightarrow> string \<Rightarrow>
     'c \<Rightarrow> (error + unit) \<times> 'c" where
  "ApplyDockerRegistrySecret cl base64 marshal ns name server username password email c =
     (case BuildDockerConfigJSON base64 marshal server username password email of
        None \<Rightarrow> (Inl MarshalError, c)
      | Some dockercfg \<Rightarrow>
          ApplySecret cl ns name ''kubernetes.io/dockerconfigjson'' [(''.dockerconfigjson'', dockercfg)] c)"

record SecretInfo =
  si_Name :: string
  si_Type :: string
  si_Keys :: nat
  si_KeyNames :: "string list"
  si_ManagedBy :: bool

definition ListSecrets :: "'c client \<Rightarrow> string \<Rightarrow> 'c \<Rightarrow> error + SecretInfo list" where
  "ListSecrets cl ns c = (case cl_secrets cl c ns of
     None \<Rightarrow> Inl (ApiError ns)
   | Some items \<Rightarrow> Inr (sort_key si_Name (map (\<lambda>s. \<lparr>si_Name = se_Name s, si_Type = se_Type s,
       si_Keys = length (se_Data s), si_KeyNames = sort (map fst (se_Data s)), si_ManagedBy = managed s\<rparr>) items)))"

definition DeleteSecret :: "'c client \<Rightarrow> string \<Rightarrow> string \<Rightarrow> 'c \<Rightarrow> (error + unit) \<times> 'c" where
  "DeleteSecret cl ns name c = call name () c (cl_deleteSecret cl ns name c)"

section \<open>Registry login\<close>

datatype auth = NoAuth | Basic string string | Bearer string

record response =
  re_Status :: nat
  re_Challenge :: string
  re_Body :: string

text \<open>
  The outside of the handshake: \<open>w_get\<close> answers a GET with an authorization header (or
  fails), \<open>w_query\<close> parses a URL and sets query parameters on it (or fails), \<open>w_token\<close> decodes the two
  token fields of a JSON body, each empty when it is missing or the body is no JSON.
\<close>

record web =
  w_get :: "string \<Rightarrow> auth \<Rightarrow> response option"
  w_query :: "string \<Rightarrow> string gomap \<Rightarrow> string option"
  w_token :: "string \<Rightarrow> string \<times> string"

definition challengePart :: "string \<Rightarrow> string \<times> string gomap \<Rightarrow> string \<times> string gomap" where
  "challengePart part = (\<lambda>(realm, params). case Cut part ''='' of
     None \<Rightarrow> (realm, params)
   | Some (k0, v0) \<Rightarrow>
       let k = TrimSpace k0; v = trim (\<lambda>c. c = CHR 0x22) (TrimSpace v0) in
       if k = ''realm'' then (v, params) else (realm, AList.update k v params))"

definition parseBearerChallenge :: "string \<Rightarrow> string \<times> string gomap" where
  "parseBearerChallenge h0 =
     (let h = TrimSpace h0;
          h = (case Cut h '' '' of Some (_, r) \<Rightarrow> r | None \<Rightarrow> h)
      in fold challengePart (SplitChar CHR '','' h) ([], []))"

definition registryBaseURL :: "string \<Rightarrow> string" where
  "registryBaseURL server =
     (let s = TrimSpace server;
          (scheme, s) = (if HasPrefix s ''http://'' then (''http'', TrimPrefix s ''http://'') else (''https'', s));
          s = TrimSuffix (TrimPrefix s ''https://'') ''/''
      in if s \<in> {''docker.io'', ''index.docker.io'', ''registry.docker.io'', ''index.docker.io/v1''}
         then ''https://registry-1.docker.io''
         else scheme @ ''://'' @ s)"

definition registryProbe :: "web \<Rightarrow> string \<Rightarrow> string \<Rightarrow> string \<Rightarrow> string \<Rightarrow> (nat \<times> string) option" where
  "registryProbe w base bearer user pass =
     (let auth = (if bearer \<noteq> [] then Bearer bearer else if user \<noteq> [] then Basic user pass else NoAuth)
      in map_option (\<lambda>r. (re_Status r, re_Challenge r)) (w_get w (base @ ''/v2/'') auth))"

definition queryParam :: "string gomap \<Rightarrow> string \<Rightarrow> string gomap" where
  "queryParam params k = (case map_of params k of Some s \<Rightarrow> if s \<noteq> [] then [(k, s)] else [] | None \<Rightarrow> [])"

definition fetchBearerToken :: "web \<Rightarrow> string \<Rightarrow> string \<Rightarrow> string \<Rightarrow> error + string" where
  "fetchBearerToken w challenge user pass =
     (let (realm, params) = parseBearerChallenge challenge in
      if realm = [] then Inl (ApiError ''no token realm'')
      else (case w_query w realm (queryParam params ''service'' @ queryParam params ''scope'') of
        None \<Rightarrow> Inl (ApiError realm)
      | Some u \<Rightarrow> (case w_get w u (if user \<noteq> [] then Basic user pass else NoAuth) of
           None \<Rightarrow> Inl (ApiError u)
         | Some r \<Rightarrow>
             if re_Status r \<noteq> 200 then Inl (ApiError u)
             else let (token, access) = w_token w (re_Body r) in
               if token \<noteq> [] then Inr token
               else if access \<noteq> [] then Inr access
               else Inl (ApiError ''no token''))))"

definition VerifyRegistryLogin :: "web \<Rightarrow> string \<Rightarrow> string \<Rightarrow> string \<Rightarrow> error + unit" where
  "VerifyRegistryLogin w server username password =
     (let base = registryBaseURL server in
      case registryProbe w base [] username password of
        None \<Rightarrow> Inl (ApiError base)
      | Some (status, wwwAuth) \<Rightarrow>
          if status = 200 then Inr ()
          else if status \<noteq> 401 then Inl (ApiError base)
          else if \<not> HasPrefix (ToLower (TrimSpace wwwAuth)) ''bearer'' then Inl (ApiError base)
          else rbind (fetchBearerToken w wwwAuth username password) (\<lambda>token.
            case registryProbe w base token [] [] of
              None \<Rightarrow> Inl (ApiError base)
            | Some (status, _) \<Rightarrow> if status = 200 then Inr () else Inl (ApiError base)))"

section \<open>What the API server promises\<close>

text \<open>A PUT stores the object it carries under its name and touches nothing else.\<close>

definition client_ok :: "'c client \<Rightarrow> bool" where
  "client_ok cl \<longleftrightarrow>
     (\<forall>c kind ns n w. cl_get cl c kind ns n = Some w \<longrightarrow> om_name (wl_meta w) = n) \<and>
     (\<forall>kind ns w c c'. cl_update cl kind ns w c = Some c' \<longrightarrow>
        (\<forall>k m n. cl_get cl c' k m n =
          (if (k, m, n) = (kind, ns, om_name (wl_meta w)) then Some w else cl_get cl c k m n)))"

text \<open>The Secret half: what is stored has one value per key, and a typed Secret is stored as it is sent.\<close>

definition secrets_ok :: "'c client \<Rightarrow> bool" where
  "secrets_ok cl \<longleftrightarrow>
     (\<forall>c ns n s. cl_secret cl c ns n = Found s \<longrightarrow> gomap_ok (se_Data s)) \<and>
     (\<forall>s ns c c'. se_Type s \<noteq> [] \<longrightarrow> gomap_ok (se_Data s) \<longrightarrow>
        cl_updateSecret cl ns s c = Some c' \<or> cl_createSecret cl ns s c = Some c' \<longrightarrow>
        (\<forall>m n. cl_secret cl c' m n = (if (m, n) = (ns, se_Name s) then Found s else cl_secret cl c m n)))"

lemma client_get: "client_ok cl \<Longrightarrow> cl_get cl c kind ns n = Some w \<Longrightarrow> om_name (wl_meta w) = n"
  by (auto simp: client_ok_def)

lemma client_update:
  "client_ok cl \<Longrightarrow> cl_update cl kind ns w c = Some c' \<Longrightarrow>
   cl_get cl c' k m n = (if (k, m, n) = (kind, ns, om_name (wl_meta w)) then Some w else cl_get cl c k m n)"
  unfolding client_ok_def by blast

lemma setTemplate_meta [simp]: "wl_meta (setTemplate t w) = wl_meta w"
  by (simp add: setTemplate_def)

section \<open>Scaling changes one count\<close>

text \<open>
  A successful \<^verbatim>\<open>Scale\<close> names the kind it changed: the Deployment of that name when there is
  one, else the StatefulSet. Afterwards that workload has the requested replica count and is
  otherwise as it was, and no other workload changed.
\<close>

theorem Scale_spec:
  assumes "client_ok cl" and "Scale cl ns name replicas c = (Inr kind, c')"
  shows "\<exists>w. cl_get cl c kind ns name = Some w \<and>
     kind = (if cl_get cl c ''Deployment'' ns name \<noteq> None then ''Deployment'' else ''StatefulSet'') \<and>
     (\<forall>k m n. cl_get cl c' k m n =
        (if (k, m, n) = (kind, ns, name) then Some (w\<lparr>wl_Replicas := Some replicas\<rparr>) else cl_get cl c k m n))"
proof (cases "cl_get cl c ''Deployment'' ns name")
  case (Some d)
  with assms show ?thesis
    using client_update [OF assms(1), of "''Deployment''" ns "d\<lparr>wl_Replicas := Some replicas\<rparr>" c c']
      client_get [OF assms(1) Some]
    by (simp add: Scale_def)
next
  case None
  with assms obtain s where s: "cl_get cl c ''StatefulSet'' ns name = Some s" "kind = ''StatefulSet''"
      "cl_update cl ''StatefulSet'' ns (s\<lparr>wl_Replicas := Some replicas\<rparr>) c = Some c'"
    by (auto simp: Scale_def split: option.splits)
  then show ?thesis
    using None client_update [OF assms(1) s(3)] client_get [OF assms(1) s(1)] by simp
qed

section \<open>Rolling back takes the newest older revision\<close>

lemma newestBelow_spec:
  assumes "newestBelow a cur items best b = Some rs" and "best = None \<or> b < cur"
  shows "(rs \<in> set items \<and> b < revision a (rs_Annotations rs) \<and> revision a (rs_Annotations rs) < cur \<and>
          (\<forall>r\<in>set items. revision a (rs_Annotations r) < cur \<longrightarrow> revision a (rs_Annotations r) \<le> revision a (rs_Annotations rs)))
       \<or> (best = Some rs \<and> (\<forall>r\<in>set items. revision a (rs_Annotations r) < cur \<longrightarrow> revision a (rs_Annotations r) \<le> b))"
  using assms
proof (induction items arbitrary: best b)
  case (Cons r items)
  let ?v = "revision a (rs_Annotations r)"
  show ?case
  proof (cases "?v < cur \<and> ?v > b")
    case True
    then show ?thesis using Cons.prems Cons.IH [of "Some r" ?v] by fastforce
  next
    case False
    then show ?thesis using Cons.prems Cons.IH [of best b] by fastforce
  qed
qed simp

lemma newestBelow_None:
  "newestBelow a cur items best b = None \<longleftrightarrow>
     best = None \<and> (\<forall>r\<in>set items. revision a (rs_Annotations r) < cur \<longrightarrow> revision a (rs_Annotations r) \<le> b)"
  by (induction items arbitrary: best b) (auto simp: Let_def)

lemma previousRSTemplate_newest:
  assumes "cl_replicaSets cl c ns sel = Some items" and "previousRSTemplate cl c ns sel a h cur = Inr t"
  shows "\<exists>rs\<in>set items. revision a (rs_Annotations rs) < cur \<and>
     (\<forall>r\<in>set items. revision a (rs_Annotations r) < cur \<longrightarrow> revision a (rs_Annotations r) \<le> revision a (rs_Annotations rs)) \<and>
     t = (rs_Template rs)\<lparr>pt_Labels := AList.delete h (pt_Labels (rs_Template rs))\<rparr>"
  using assms newestBelow_spec [of a cur items None "- 1"]
  by (auto simp: previousRSTemplate_def Let_def split: option.splits)

abbreviation deploymentRevision :: "string gomap \<Rightarrow> int" where
  "deploymentRevision \<equiv> revision ''deployment.kubernetes.io/revision''"

text \<open>
  C27: \<^verbatim>\<open>Rollback\<close> of a Deployment. When it succeeds, the Deployment carries the pod template of the
  ReplicaSet with the greatest revision below its own, without the controller's hash label, and is
  otherwise as it was, as is every other workload. When no ReplicaSet has an older revision, it fails
  and the cluster is untouched.
\<close>

theorem Rollback_previous:
  assumes "client_ok cl" and "cl_get cl c ''Deployment'' ns name = Some d"
    and "cl_replicaSets cl c ns (matchLabels d) = Some items"
    and "cur = deploymentRevision (om_annotations (wl_meta d))"
  shows "(Rollback cl co ns name c = (kind, Inr (), c') \<longrightarrow> kind = ''Deployment'' \<and>
      (\<exists>rs\<in>set items. deploymentRevision (rs_Annotations rs) < cur \<and>
         (\<forall>r\<in>set items. deploymentRevision (rs_Annotations r) < cur \<longrightarrow>
             deploymentRevision (rs_Annotations r) \<le> deploymentRevision (rs_Annotations rs)) \<and>
         (\<forall>k m n. cl_get cl c' k m n = (if (k, m, n) = (''Deployment'', ns, name)
            then Some (setTemplate ((rs_Template rs)\<lparr>pt_Labels :=
                   AList.delete ''pod-template-hash'' (pt_Labels (rs_Template rs))\<rparr>) d)
            else cl_get cl c k m n)))) \<and>
    ((\<forall>r\<in>set items. deploymentRevision (rs_Annotations r) \<notin> {0..<cur}) \<longrightarrow>
      Rollback cl co ns name c = (''Deployment'', Inl (NoWorkload ''previous revision'' ns), c))"
proof (intro conjI [OF impI impI])
  let ?a = "''deployment.kubernetes.io/revision''"
  let ?prev = "previousRSTemplate cl c ns (matchLabels d) ?a ''pod-template-hash'' cur"
  assume "Rollback cl co ns name c = (kind, Inr (), c')"
  with assms(2,4) have k: "kind = ''Deployment''" and "rollbackDeployment cl ns d c = (Inr (), c')"
    by (auto simp: Rollback_def)
  with assms(4) obtain t where t: "?prev = Inr t" "cl_update cl ''Deployment'' ns (setTemplate t d) c = Some c'"
    by (auto simp: rollbackDeployment_def Let_def split: sum.splits)
  from previousRSTemplate_newest [OF assms(3) t(1)] show "kind = ''Deployment'' \<and>
      (\<exists>rs\<in>set items. deploymentRevision (rs_Annotations rs) < cur \<and>
         (\<forall>r\<in>set items. deploymentRevision (rs_Annotations r) < cur \<longrightarrow>
             deploymentRevision (rs_Annotations r) \<le> deploymentRevision (rs_Annotations rs)) \<and>
         (\<forall>k m n. cl_get cl c' k m n = (if (k, m, n) = (''Deployment'', ns, name)
            then Some (setTemplate ((rs_Template rs)\<lparr>pt_Labels :=
                   AList.delete ''pod-template-hash'' (pt_Labels (rs_Template rs))\<rparr>) d)
            else cl_get cl c k m n)))"
    using k client_update [OF assms(1) t(2)] client_get [OF assms(1,2)] by auto
next
  assume "\<forall>r\<in>set items. deploymentRevision (rs_Annotations r) \<notin> {0..<cur}"
  then have "newestBelow ''deployment.kubernetes.io/revision'' cur items None (- 1) = None"
    by (auto simp: newestBelow_None)
  then show "Rollback cl co ns name c = (''Deployment'', Inl (NoWorkload ''previous revision'' ns), c)"
    using assms(2-4) by (simp add: Rollback_def rollbackDeployment_def previousRSTemplate_def)
qed

lemma newestFirst_two:
  assumes "distinct (map cr_Revision items)" and "2 \<le> length items"
  obtains a b rest where "newestFirst items = a # b # rest" and "set items = {a, b} \<union> set rest"
    and "cr_Revision b < cr_Revision a" and "\<forall>q\<in>set rest. cr_Revision q < cr_Revision b"
proof -
  have srt: "sorted_wrt (<) (map cr_Revision (sort_key cr_Revision items))"
    using assms(1) by (simp add: strict_sorted_iff distinct_map)
  have len: "length (newestFirst items) \<ge> 2" and st: "set (newestFirst items) = set items"
    using assms(2) by (simp_all add: newestFirst_def)
  obtain a b rest where xs: "newestFirst items = a # b # rest"
    using len by (cases "newestFirst items"; cases "tl (newestFirst items)") auto
  have "sorted_wrt (\<lambda>x y. y < x) (map cr_Revision (newestFirst items))"
    using srt by (simp add: newestFirst_def rev_map [symmetric] sorted_wrt_rev)
  then have "cr_Revision b < cr_Revision a" "\<forall>q\<in>set rest. cr_Revision q < cr_Revision b"
    by (simp_all add: xs)
  then show thesis using that xs st by auto
qed

text \<open>
  \<^verbatim>\<open>Rollback\<close> of a StatefulSet. When it succeeds, the pod template is the one recorded in the
  ControllerRevision that has exactly one newer one; the rest of the StatefulSet and every other
  workload is as it was.
\<close>

theorem Rollback_statefulset:
  assumes "client_ok cl" and "cl_get cl c ''Deployment'' ns name = None"
    and "cl_get cl c ''StatefulSet'' ns name = Some s"
    and "cl_revisions cl c ns (matchLabels s) = Some items" and "distinct (map cr_Revision items)"
    and "Rollback cl co ns name c = (kind, Inr (), c')"
  shows "kind = ''StatefulSet'' \<and>
    (\<exists>p\<in>set items. (\<exists>!q. q \<in> set items \<and> cr_Revision q > cr_Revision p) \<and>
      (\<exists>patch m tmpl. co_unmarshal co (cr_Data p) = Some patch \<and> nested patch [''spec'', ''template''] = Some (JObj m) \<and>
         co_fromU co m = Some tmpl \<and>
         (\<forall>k n' n. cl_get cl c' k n' n = (if (k, n', n) = (''StatefulSet'', ns, name)
            then Some (setTemplate tmpl s) else cl_get cl c k n' n))))"
proof -
  from assms(2,3,6) have k: "kind = ''StatefulSet''"
    and run: "rollbackStatefulSet cl (co_unmarshal co) (co_fromU co) ns s c = (Inr (), c')"
    by (auto simp: Rollback_def)
  from run assms(4) have len: "2 \<le> length items" by (auto simp: rollbackStatefulSet_def split: if_splits)
  from newestFirst_two [OF assms(5) len] obtain a b rest where ab: "newestFirst items = a # b # rest"
    "set items = {a, b} \<union> set rest" "cr_Revision b < cr_Revision a" "\<forall>q\<in>set rest. cr_Revision q < cr_Revision b" .
  from run assms(4) len ab(1) obtain patch m tmpl where
    t: "co_unmarshal co (cr_Data b) = Some patch" "nested patch [''spec'', ''template''] = Some (JObj m)"
      "co_fromU co m = Some tmpl" "cl_update cl ''StatefulSet'' ns (setTemplate tmpl s) c = Some c'"
    by (auto simp: rollbackStatefulSet_def split: option.splits iface.splits if_splits)
  have one: "\<exists>!q. q \<in> set items \<and> cr_Revision q > cr_Revision b"
    using ab(2-4) by (intro ex1I [of _ a]) (auto dest: less_asym)
  have get: "\<forall>k n' n. cl_get cl c' k n' n =
      (if (k, n', n) = (''StatefulSet'', ns, name) then Some (setTemplate tmpl s) else cl_get cl c k n' n)"
    using client_update [OF assms(1) t(4)] client_get [OF assms(1,3)] by simp
  show ?thesis using k one get t(1-3) ab(2) by blast
qed

section \<open>Merging a Secret\<close>

lemma secrets_stored:
  assumes "secrets_ok cl" and "typ \<noteq> []" and "gomap_ok data" and "ApplySecret cl ns name typ data c = (Inr (), c')"
  shows "cl_secret cl c' m n = (if (m, n) = (ns, name)
     then Found \<lparr>se_Name = name, se_Namespace = ns, se_Labels = [(LabelManagedBy, ManagedByValue)],
                 se_Type = typ, se_Data = data\<rparr> else cl_secret cl c m n)"
proof -
  let ?s = "\<lparr>se_Name = name, se_Namespace = ns, se_Labels = [(LabelManagedBy, ManagedByValue)], se_Type = typ, se_Data = data\<rparr>"
  have "cl_updateSecret cl ns ?s c = Some c' \<or> cl_createSecret cl ns ?s c = Some c'"
    using assms(4) by (auto simp: ApplySecret_def Let_def split: lookup.splits)
  moreover have "se_Type ?s \<noteq> []" "gomap_ok (se_Data ?s)" using assms(2,3) by simp_all
  moreover note conjunct2 [OF assms(1) [unfolded secrets_ok_def], rule_format, of ?s ns c c' m n]
  ultimately show ?thesis by simp
qed

definition secretData :: "secret lookup \<Rightarrow> string \<Rightarrow> string option" where
  "secretData s = (case s of Found sec \<Rightarrow> map_of (se_Data sec) | _ \<Rightarrow> Map.empty)"

definition secretType :: "secret lookup \<Rightarrow> string \<Rightarrow> string" where
  "secretType s typ = (case s of Found sec \<Rightarrow> if se_Type sec = [] then typ else se_Type sec | _ \<Rightarrow> typ)"

lemma MergeSecret_apply:
  assumes "secrets_ok cl" and "gomap_ok data" and "MergeSecret cl ns name typ data c = (Inr (), c')"
  shows "\<exists>merged. gomap_ok merged \<and> map_of merged = secretData (cl_secret cl c ns name) ++ map_of data \<and>
     ApplySecret cl ns name (secretType (cl_secret cl c ns name) typ) merged c = (Inr (), c')"
proof (cases "cl_secret cl c ns name")
  case (Found s)
  then have ok: "gomap_ok (se_Data s)" using assms(1) by (auto simp: secrets_ok_def)
  have "gomap_ok (put_all data (put_all (se_Data s) []))" by (simp add: put_all_ok)
  moreover have "map_of (put_all data (put_all (se_Data s) [])) = map_of (se_Data s) ++ map_of data"
    using ok assms(2) by (simp add: put_all_lookup)
  ultimately show ?thesis
    using assms(3) Found by (auto simp: MergeSecret_def GetSecret_def secretData_def secretType_def)
qed (use assms(2,3) in \<open>auto simp: MergeSecret_def GetSecret_def secretData_def secretType_def\<close>)

text \<open>
  C28: \<^verbatim>\<open>MergeSecret\<close>, when it succeeds, leaves a Secret whose keys are the old ones overlaid with the
  given ones; it keeps the type it had, or takes the given one when it is new; it is marked as managed
  by orcinus. Every other Secret is as it was.
\<close>

theorem MergeSecret_overlays:
  assumes "secrets_ok cl" and "gomap_ok data" and "typ \<noteq> []" and "MergeSecret cl ns name typ data c = (Inr (), c')"
  shows "\<exists>s. cl_secret cl c' ns name = Found s \<and>
     map_of (se_Data s) = secretData (cl_secret cl c ns name) ++ map_of data \<and>
     se_Type s = secretType (cl_secret cl c ns name) typ \<and> managed s \<and>
     (\<forall>m n. (m, n) \<noteq> (ns, name) \<longrightarrow> cl_secret cl c' m n = cl_secret cl c m n)"
proof -
  from MergeSecret_apply [OF assms(1,2,4)] obtain merged where
    m: "gomap_ok merged" "map_of merged = secretData (cl_secret cl c ns name) ++ map_of data"
      "ApplySecret cl ns name (secretType (cl_secret cl c ns name) typ) merged c = (Inr (), c')" by blast
  have "secretType (cl_secret cl c ns name) typ \<noteq> []"
    using assms(3) by (simp add: secretType_def split: lookup.splits)
  from secrets_stored [OF assms(1) this m(1,3)] show ?thesis
    by (simp add: m(2) managed_def)
qed

text \<open>
  The labels are not merged: an existing Secret loses every label but the managed-by one, the
  project labels that pruning and removal select by included.
\<close>

lemma MergeSecret_drops_labels:
  assumes "secrets_ok cl" and "gomap_ok data" and "typ \<noteq> []" and "MergeSecret cl ns name typ data c = (Inr (), c')"
  shows "\<exists>s. cl_secret cl c' ns name = Found s \<and> map_of (se_Labels s) LabelProject = None"
proof -
  from MergeSecret_apply [OF assms(1,2,4)] obtain merged where
    m: "gomap_ok merged" "ApplySecret cl ns name (secretType (cl_secret cl c ns name) typ) merged c = (Inr (), c')" by blast
  have "secretType (cl_secret cl c ns name) typ \<noteq> []"
    using assms(3) by (simp add: secretType_def split: lookup.splits)
  from secrets_stored [OF assms(1) this m] show ?thesis
    by (simp add: LabelManagedBy_def LabelProject_def)
qed

section \<open>Two autoscalers, one specification\<close>

text \<open>
  The autoscaler that \<^verbatim>\<open>orcinus autoscale\<close> builds and the one that a compose file asks for by
  \<^verbatim>\<open>x-orcinus-autoscale-*\<close> are the same object with the same target, bounds and metrics, up to
  the namespace and labels that decoration adds later, for every service that is no Rollout.
\<close>

theorem BuildHPA_buildHPA:
  assumes "svc \<notin> set rolloutSvcs" and "map_of kindOf svc = Some kind"
  shows "BuildHPA ns svc kind \<lparr>sp_Min = int32 (as_Min cfg), sp_Max = int32 (as_Max cfg),
            sp_CPU = int32 (as_CPU cfg), sp_Memory = int32 (as_Memory cfg)\<rparr> =
         map_meta (\<lambda>m. m\<lparr>om_namespace := ns, om_labels := [(LabelManagedBy, ManagedByValue)]\<rparr>)
           (buildHPA kindOf rolloutSvcs svc cfg)"
  using assms by (simp add: BuildHPA_def buildHPA_def resourceMetric_def autoscaleMetrics_def Let_def)

section \<open>The registry handshake\<close>

lemma trim_wrapped:
  assumes "P a" and "P b" and "\<forall>c\<in>set v. \<not> P c"
  shows "trim P (a # v @ [b]) = v"
proof (cases v rule: rev_cases)
  case (snoc u z)
  then have "dropWhile P (u @ [z, b]) = u @ [z, b]" using assms by (cases u) auto
  then show ?thesis using snoc assms by (simp add: trim_def)
qed (use assms in \<open>simp add: trim_def\<close>)

lemma trim_none: "\<forall>c\<in>set v. \<not> P c \<Longrightarrow> trim P v = v"
  by (rule trim_id) auto

lemma Cut_char: "x \<notin> set a \<Longrightarrow> Cut (a @ x # b) [x] = Some (a, b)"
  by (induction a) (auto simp: HasPrefix_def)

text \<open>A challenge as registries print it, for texts that need no escape.\<close>

definition challengePair :: "string \<times> string \<Rightarrow> string" where
  "challengePair kv = fst kv @ ''='' @ quoted (snd kv)"

definition printChallenge :: "string gomap \<Rightarrow> string" where
  "printChallenge kvs = ''Bearer '' @ Join (map challengePair kvs) '',''"

definition plainPair :: "string \<times> string \<Rightarrow> bool" where
  "plainPair kv \<longleftrightarrow> fst kv \<noteq> [] \<and>
     list_all (\<lambda>c. \<not> isSpace c \<and> c \<noteq> CHR ''='' \<and> c \<noteq> CHR '','') (fst kv) \<and>
     list_all (\<lambda>c. c \<noteq> CHR '','' \<and> c \<noteq> CHR 0x22) (snd kv)"

lemma challengePart_pair:
  assumes "plainPair (k, v)"
  shows "challengePart (challengePair (k, v)) (realm, params) =
    (if k = ''realm'' then (v, params) else (realm, AList.update k v params))"
proof -
  have cut: "Cut (challengePair (k, v)) ''='' = Some (k, quoted v)"
    unfolding challengePair_def using assms by (auto simp: plainPair_def list_all_iff intro!: Cut_char)
  have "TrimSpace k = k" unfolding TrimSpace_def
    using assms by (intro trim_none) (auto simp: plainPair_def list_all_iff)
  moreover have "TrimSpace (quoted v) = quoted v"
    unfolding TrimSpace_def quoted_def by (rule trim_id) (auto simp: isSpace_def)
  moreover have "trim (\<lambda>c. c = CHR 0x22) (quoted v) = v"
    unfolding quoted_def using assms by (intro trim_wrapped) (auto simp: plainPair_def list_all_iff)
  ultimately show ?thesis by (simp add: challengePart_def cut)
qed

lemma update_fresh: "k \<notin> fst ` set m \<Longrightarrow> AList.update k v m = m @ [(k, v)]"
  by (induction m) auto

lemma challengeParts:
  assumes "list_all plainPair kvs" and "distinct (map fst params @ map fst kvs)" and "''realm'' \<notin> set (map fst kvs)"
  shows "fold challengePart (map challengePair kvs) (realm, params) = (realm, params @ kvs)"
  using assms
proof (induction kvs arbitrary: params)
  case (Cons kv kvs)
  obtain k v where kv: "kv = (k, v)" by force
  have "challengePart (challengePair kv) (realm, params) = (realm, params @ [(k, v)])"
    using Cons.prems by (auto simp: kv challengePart_pair update_fresh)
  with Cons show ?case by (auto simp: kv)
qed simp

lemma challengePair_no_comma: "plainPair kv \<Longrightarrow> CHR '','' \<notin> set (challengePair kv)"
  by (auto simp: challengePair_def quoted_def plainPair_def list_all_iff)

lemma Join_last: "ps \<noteq> [] \<Longrightarrow> last ps \<noteq> [] \<Longrightarrow> Join ps sep \<noteq> [] \<and> last (Join ps sep) = last (last ps)"
  by (induction ps sep rule: Join.induct) auto

lemma printChallenge_split:
  assumes "list_all plainPair kvs" and "kvs \<noteq> []"
  shows "parseBearerChallenge (printChallenge kvs) = fold challengePart (map challengePair kvs) ([], [])"
proof -
  have "last (map challengePair kvs) \<noteq> [] \<and> last (last (map challengePair kvs)) = CHR 0x22"
    using assms(2) by (simp add: last_map challengePair_def quoted_def)
  with assms(2) have "Join (map challengePair kvs) '','' \<noteq> [] \<and> last (Join (map challengePair kvs) '','') = CHR 0x22"
    using Join_last [of "map challengePair kvs" "'',''"] by simp
  then have trim: "TrimSpace (printChallenge kvs) = printChallenge kvs"
    unfolding TrimSpace_def printChallenge_def by (intro trim_id) (auto simp: isSpace_def)
  have cut: "Cut (printChallenge kvs) '' '' = Some (''Bearer'', Join (map challengePair kvs) '','')"
    unfolding printChallenge_def
    using Cut_char [of "CHR '' ''" "''Bearer''" "Join (map challengePair kvs) '',''"] by simp
  have "SplitChar CHR '','' (Join (map challengePair kvs) '','') = map challengePair kvs"
    using assms challengePair_no_comma by (intro SplitChar_Join) (auto simp: list_all_iff)
  then show ?thesis by (simp add: parseBearerChallenge_def trim cut)
qed


text \<open>A comma inside a quoted value is taken for a separator: the scope of a push is cut short.\<close>

lemma parseBearerChallenge_comma:
  "parseBearerChallenge (printChallenge [(''realm'', ''r''), (''scope'', ''repository:app:pull,push'')]) =
     (''r'', [(''scope'', ''repository:app:pull'')])"
  by code_simp

text \<open>The authorization a user name and password give: none without a name.\<close>

definition credentials :: "string \<Rightarrow> string \<Rightarrow> auth" where
  "credentials user pass = (if user \<noteq> [] then Basic user pass else NoAuth)"

lemma fetchBearerToken_ok:
  assumes "fetchBearerToken w challenge user pass = Inr token"
  shows "token \<noteq> [] \<and> (\<exists>u r. w_get w u (credentials user pass) = Some r \<and> re_Status r = 200 \<and>
     token \<in> {fst (w_token w (re_Body r)), snd (w_token w (re_Body r))})"
proof -
  obtain realm params where ch: "parseBearerChallenge challenge = (realm, params)" by force
  from assms obtain u r where r: "w_get w u (credentials user pass) = Some r" "re_Status r = 200"
      "(let (token, access) = w_token w (re_Body r) in if token \<noteq> [] then Inr token
        else if access \<noteq> [] then Inr access else Inl (ApiError ''no token'')) = Inr token"
    by (auto simp: fetchBearerToken_def ch credentials_def split: if_splits option.splits)
  from r(3) have "token \<noteq> [] \<and> token \<in> {fst (w_token w (re_Body r)), snd (w_token w (re_Body r))}"
    by (auto split: prod.splits if_splits)
  with r(1,2) show ?thesis by blast
qed

text \<open>
  \<^verbatim>\<open>VerifyRegistryLogin\<close> accepts only what the registry accepted: its \<^verbatim>\<open>/v2/\<close> endpoint answered
  200 either to the credentials themselves, or to a non-empty bearer token that a token endpoint gave,
  with status 200, to a request carrying those credentials.
\<close>

theorem VerifyRegistryLogin_sound:
  assumes "VerifyRegistryLogin w server username password = Inr ()"
  shows "\<exists>auth r. w_get w (registryBaseURL server @ ''/v2/'') auth = Some r \<and> re_Status r = 200 \<and>
    (auth = credentials username password \<or>
     (\<exists>u t token. auth = Bearer token \<and> token \<noteq> [] \<and> w_get w u (credentials username password) = Some t \<and> re_Status t = 200 \<and>
        token \<in> {fst (w_token w (re_Body t)), snd (w_token w (re_Body t))}))"
proof -
  consider r where "w_get w (registryBaseURL server @ ''/v2/'') (credentials username password) = Some r" "re_Status r = 200"
    | token challenge r where "fetchBearerToken w challenge username password = Inr token"
        "registryProbe w (registryBaseURL server) token [] [] = Some r" "fst r = 200"
    using assms
    by (auto simp: VerifyRegistryLogin_def registryProbe_def credentials_def Let_def rbind_Inr_iff split: option.splits if_splits prod.splits)
  then show ?thesis
  proof cases
    case 2
    from fetchBearerToken_ok [OF 2(1)] 2(2,3) show ?thesis
      by (fastforce simp: registryProbe_def)
  qed blast
qed

section \<open>A cluster in memory\<close>

type_synonym memory = "((string \<times> string \<times> string) \<times> liveWorkload) list \<times> ((string \<times> string) \<times> secret) list"

definition memory_client :: "replicaSet list \<Rightarrow> controllerRevision list \<Rightarrow> memory client" where
  "memory_client rss revs = \<lparr>
     cl_get = (\<lambda>c kind ns n. case map_of (fst c) (kind, ns, n) of
        Some w \<Rightarrow> if om_name (wl_meta w) = n then Some w else None | None \<Rightarrow> None),
     cl_update = (\<lambda>kind ns w c. Some (apfst (AList.update (kind, ns, om_name (wl_meta w)) w) c)),
     cl_patch = (\<lambda>kind ns n typ patch c. Some c),
     cl_rollout = (\<lambda>c ns n. None), cl_updateRollout = (\<lambda>ns ro c. None),
     cl_replicaSets = (\<lambda>c ns sel. Some rss), cl_revisions = (\<lambda>c ns sel. Some revs),
     cl_hpa = (\<lambda>c ns n. False), cl_updateHPA = (\<lambda>ns h c. Some c), cl_createHPA = (\<lambda>ns h c. Some c),
     cl_secret = (\<lambda>c ns n. case map_of (snd c) (ns, n) of
        Some s \<Rightarrow> if gomap_ok (se_Data s) then Found s else NotFound | None \<Rightarrow> NotFound),
     cl_updateSecret = (\<lambda>ns s c. Some (apsnd (AList.update (ns, se_Name s) s) c)),
     cl_createSecret = (\<lambda>ns s c. Some (apsnd (AList.update (ns, se_Name s) s) c)),
     cl_secrets = (\<lambda>c ns. Some (map snd (filter (\<lambda>e. fst (fst e) = ns) (snd c)))),
     cl_deleteSecret = (\<lambda>ns n c. Some (apsnd (AList.delete (ns, n)) c))\<rparr>"

lemma memory_client_ok: "client_ok (memory_client rss revs)"
  by (auto simp: client_ok_def memory_client_def split: option.splits if_splits)

lemma memory_secrets_ok: "secrets_ok (memory_client rss revs)"
  by (auto simp: secrets_ok_def memory_client_def split: option.splits if_splits)

definition sample_template :: "string \<Rightarrow> podTemplate" where
  "sample_template img = \<lparr>pt_Labels = [(''app'', ''web''), (''pod-template-hash'', ''abc'')], pt_Annotations = [],
     pt_Spec = \<lparr>ps_Containers = [], ps_Volumes = [], ps_ImagePullSecrets = [], ps_NodeSelector = [],
                ps_Affinity = None, ps_TopologySpread = [], ps_rest = JStr img\<rparr>\<rparr>"

definition sample_live :: liveWorkload where
  "sample_live = \<lparr>wl_meta = \<lparr>om_apiVersion = ''apps/v1'', om_kind = [], om_name = ''web'', om_namespace = ''prod'',
       om_labels = [], om_annotations = [(''deployment.kubernetes.io/revision'', ''3'')]\<rparr>,
     wl_Replicas = Some 1, wl_Selector = Some [(''app'', ''web'')], wl_TemplateLabels = [(''app'', ''web'')],
     wl_Pod = pt_Spec (sample_template ''v3''), wl_MinReadySeconds = 0, wl_ProgressDeadline = None,
     wl_Strategy = NoStrategy, wl_rest = JNull, lv_TemplateAnnotations = []\<rparr>"

definition sample_memory :: "string \<Rightarrow> memory" where
  "sample_memory kind = ([((kind, ''prod'', ''web''), sample_live)],
     [((''prod'', ''tls''), \<lparr>se_Name = ''tls'', se_Namespace = ''prod'', se_Labels = [(LabelProject, ''shop'')],
        se_Type = ''kubernetes.io/tls'', se_Data = [(''tls.crt'', ''a''), (''tls.key'', ''b'')]\<rparr>)])"

definition sample_replicaSets :: "replicaSet list" where
  "sample_replicaSets = map (\<lambda>(r, img). \<lparr>rs_Annotations = [(''deployment.kubernetes.io/revision'', r)],
     rs_Template = sample_template img\<rparr>) [(''1'', ''v1''), (''3'', ''v3''), (''2'', ''v2'')]"

definition sample_templates :: templateCodec where
  "sample_templates = \<lparr>co_unmarshal = (\<lambda>s. Some [(''spec'', JObj [(''template'', JObj [(''image'', JStr s)])])]),
     co_toU = (\<lambda>t. None), co_fromU = (\<lambda>m. Some (sample_template (nestedString m [''image''])))\<rparr>"

definition sample_revisions :: "controllerRevision list" where
  "sample_revisions = [\<lparr>cr_Revision = 1, cr_Data = ''v1''\<rparr>, \<lparr>cr_Revision = 3, cr_Data = ''v3''\<rparr>, \<lparr>cr_Revision = 2, cr_Data = ''v2''\<rparr>]"

lemma triple_eqI: "fst r = a \<Longrightarrow> fst (snd r) = b \<Longrightarrow> r = (a, b, snd (snd r))"
  by (metis prod.collapse)

theorem Scale_spec_witness:
  "cl_get (memory_client [] []) (snd (Scale (memory_client [] []) ''prod'' ''web'' 5 (sample_memory ''StatefulSet'')))
     ''StatefulSet'' ''prod'' ''web'' = Some (sample_live\<lparr>wl_Replicas := Some 5\<rparr>)"
proof -
  let ?cl = "memory_client [] []" let ?c = "sample_memory ''StatefulSet''"
  have "fst (Scale ?cl ''prod'' ''web'' 5 ?c) = Inr ''StatefulSet''" by code_simp
  then have run: "Scale ?cl ''prod'' ''web'' 5 ?c = (Inr ''StatefulSet'', snd (Scale ?cl ''prod'' ''web'' 5 ?c))"
    by (metis prod.collapse)
  have "cl_get ?cl ?c ''StatefulSet'' ''prod'' ''web'' = Some sample_live" by code_simp
  with Scale_spec [OF memory_client_ok run] show ?thesis by auto
qed

theorem Rollback_previous_witness:
  "(\<exists>rs\<in>set sample_replicaSets. deploymentRevision (rs_Annotations rs) = 2 \<and>
      cl_get (memory_client sample_replicaSets [])
        (snd (snd (Rollback (memory_client sample_replicaSets []) sample_templates ''prod'' ''web'' (sample_memory ''Deployment''))))
        ''Deployment'' ''prod'' ''web'' =
      Some (setTemplate ((rs_Template rs)\<lparr>pt_Labels := [(''app'', ''web'')]\<rparr>) sample_live)) \<and>
   Rollback (memory_client [] []) sample_templates ''prod'' ''web'' (sample_memory ''Deployment'') =
     (''Deployment'', Inl (NoWorkload ''previous revision'' ''prod''), sample_memory ''Deployment'')"
proof
  let ?cl = "memory_client sample_replicaSets []" let ?c = "sample_memory ''Deployment''"
  let ?run = "Rollback ?cl sample_templates ''prod'' ''web'' ?c"
  have run: "?run = (''Deployment'', Inr (), snd (snd ?run))" by (rule triple_eqI) code_simp+
  have get: "cl_get ?cl ?c ''Deployment'' ''prod'' ''web'' = Some sample_live" by code_simp
  have rss: "cl_replicaSets ?cl ?c ''prod'' (matchLabels sample_live) = Some sample_replicaSets"
    by (simp add: memory_client_def)
  have cur: "3 = deploymentRevision (om_annotations (wl_meta sample_live))" by code_simp
  have revs: "\<forall>r\<in>set sample_replicaSets. deploymentRevision (rs_Annotations r) \<in> {1, 2, 3} \<and>
      AList.delete ''pod-template-hash'' (pt_Labels (rs_Template r)) = [(''app'', ''web'')]" by code_simp
  have two: "\<exists>r\<in>set sample_replicaSets. deploymentRevision (rs_Annotations r) = 2" by code_simp
  from Rollback_previous [OF memory_client_ok get rss cur, THEN conjunct1, THEN mp, OF run]
  obtain rs where rs: "rs \<in> set sample_replicaSets" "deploymentRevision (rs_Annotations rs) < 3"
      "\<forall>r\<in>set sample_replicaSets. deploymentRevision (rs_Annotations r) < 3 \<longrightarrow>
         deploymentRevision (rs_Annotations r) \<le> deploymentRevision (rs_Annotations rs)"
      "cl_get ?cl (snd (snd ?run)) ''Deployment'' ''prod'' ''web'' = Some (setTemplate ((rs_Template rs)\<lparr>pt_Labels :=
         AList.delete ''pod-template-hash'' (pt_Labels (rs_Template rs))\<rparr>) sample_live)"
    by auto
  have "deploymentRevision (rs_Annotations rs) = 2" using rs(1-3) revs two by fastforce
  then show "\<exists>rs\<in>set sample_replicaSets. deploymentRevision (rs_Annotations rs) = 2 \<and>
      cl_get ?cl (snd (snd ?run)) ''Deployment'' ''prod'' ''web'' =
      Some (setTemplate ((rs_Template rs)\<lparr>pt_Labels := [(''app'', ''web'')]\<rparr>) sample_live)"
    using rs(1,4) revs by auto
next
  let ?cl = "memory_client [] []" let ?c = "sample_memory ''Deployment''"
  have get: "cl_get ?cl ?c ''Deployment'' ''prod'' ''web'' = Some sample_live" by code_simp
  have rss: "cl_replicaSets ?cl ?c ''prod'' (matchLabels sample_live) = Some []" by (simp add: memory_client_def)
  show "Rollback ?cl sample_templates ''prod'' ''web'' ?c =
     (''Deployment'', Inl (NoWorkload ''previous revision'' ''prod''), ?c)"
    using Rollback_previous [OF memory_client_ok get rss refl] by simp
qed

theorem Rollback_statefulset_witness:
  "\<exists>p\<in>set sample_revisions. cr_Data p = ''v2'' \<and>
     cl_get (memory_client [] sample_revisions)
       (snd (snd (Rollback (memory_client [] sample_revisions) sample_templates ''prod'' ''web'' (sample_memory ''StatefulSet''))))
       ''StatefulSet'' ''prod'' ''web'' = Some (setTemplate (sample_template (cr_Data p)) sample_live)"
proof -
  let ?cl = "memory_client [] sample_revisions" let ?c = "sample_memory ''StatefulSet''"
  let ?run = "Rollback ?cl sample_templates ''prod'' ''web'' ?c"
  have run: "?run = (''StatefulSet'', Inr (), snd (snd ?run))" by (rule triple_eqI) code_simp+
  have get: "cl_get ?cl ?c ''Deployment'' ''prod'' ''web'' = None"
      "cl_get ?cl ?c ''StatefulSet'' ''prod'' ''web'' = Some sample_live" by code_simp+
  have revs: "cl_revisions ?cl ?c ''prod'' (matchLabels sample_live) = Some sample_revisions"
    by (simp add: memory_client_def)
  have "distinct (map cr_Revision sample_revisions)" by code_simp
  from Rollback_statefulset [OF memory_client_ok get revs this run]
  obtain p patch m tmpl where p: "p \<in> set sample_revisions" "\<exists>!q. q \<in> set sample_revisions \<and> cr_Revision q > cr_Revision p"
      "co_unmarshal sample_templates (cr_Data p) = Some patch" "nested patch [''spec'', ''template''] = Some (JObj m)"
      "co_fromU sample_templates m = Some tmpl"
      "\<forall>k n' n. cl_get ?cl (snd (snd ?run)) k n' n = (if (k, n', n) = (''StatefulSet'', ''prod'', ''web'')
         then Some (setTemplate tmpl sample_live) else cl_get ?cl ?c k n' n)"
    by blast
  have "tmpl = sample_template (cr_Data p)"
    using p(3-5) by (auto simp: sample_templates_def nestedString_def)
  moreover have "cr_Data p = ''v2''"
  proof -
    from p(2) obtain q where q: "q \<in> set sample_revisions" "cr_Revision q > cr_Revision p"
      and uniq: "\<And>y. y \<in> set sample_revisions \<Longrightarrow> cr_Revision y > cr_Revision p \<Longrightarrow> y = q" by blast
    have "cr_Revision p \<noteq> 1"
      using uniq [of "sample_revisions ! 1"] uniq [of "sample_revisions ! 2"] by (auto simp: sample_revisions_def)
    moreover have "cr_Revision p \<noteq> 3" using q by (auto simp: sample_revisions_def)
    ultimately show ?thesis using p(1) by (auto simp: sample_revisions_def)
  qed
  ultimately show ?thesis using p(1,6) by auto
qed

theorem MergeSecret_overlays_witness:
  "\<exists>s. cl_secret (memory_client [] []) (snd (MergeSecret (memory_client [] []) ''prod'' ''tls'' ''Opaque''
        [(''tls.crt'', ''c'')] (sample_memory ''Deployment''))) ''prod'' ''tls'' = Found s \<and>
     map_of (se_Data s) ''tls.crt'' = Some ''c'' \<and> map_of (se_Data s) ''tls.key'' = Some ''b'' \<and>
     se_Type s = ''kubernetes.io/tls''"
proof -
  let ?cl = "memory_client [] []" let ?c = "sample_memory ''Deployment''" let ?d = "[(''tls.crt'', ''c'')]"
  let ?run = "MergeSecret ?cl ''prod'' ''tls'' ''Opaque'' ?d ?c"
  have "fst ?run = Inr ()" by code_simp
  then have run: "?run = (Inr (), snd ?run)" by (metis prod.collapse)
  have old: "secretData (cl_secret ?cl ?c ''prod'' ''tls'') ''tls.key'' = Some ''b''"
      "secretType (cl_secret ?cl ?c ''prod'' ''tls'') ''Opaque'' = ''kubernetes.io/tls''" by code_simp+
  have "gomap_ok ?d" "''Opaque'' \<noteq> []" by (simp_all add: gomap_ok_def)
  from MergeSecret_overlays [OF memory_secrets_ok this run] old show ?thesis
    by (auto simp: map_add_def)
qed

theorem BuildHPA_buildHPA_witness:
  "BuildHPA ''prod'' ''web'' ''StatefulSet'' \<lparr>sp_Min = 0, sp_Max = 4, sp_CPU = 0, sp_Memory = 0\<rparr> =
    map_meta (\<lambda>m. m\<lparr>om_namespace := ''prod'', om_labels := [(LabelManagedBy, ManagedByValue)]\<rparr>)
      (buildHPA [(''web'', ''StatefulSet'')] [''api''] ''web'' \<lparr>as_Min = 0, as_Max = 4, as_CPU = 0, as_Memory = 0\<rparr>)"
  using BuildHPA_buildHPA [of "''web''" "[''api'']" "[(''web'', ''StatefulSet'')]" "''StatefulSet''" "''prod''"
      "\<lparr>as_Min = 0, as_Max = 4, as_CPU = 0, as_Memory = 0\<rparr>"]
  by (simp add: int32_def)


definition sample_web :: web where
  "sample_web = \<lparr>w_get = (\<lambda>u a. Some (if u = ''https://r/v2/'' \<and> a \<noteq> Bearer ''tok''
       then \<lparr>re_Status = 401, re_Challenge = printChallenge [(''realm'', ''t'')], re_Body = []\<rparr>
       else \<lparr>re_Status = 200, re_Challenge = [], re_Body = ''tok''\<rparr>)),
     w_query = (\<lambda>u q. Some u), w_token = (\<lambda>b. (b, []))\<rparr>"

theorem VerifyRegistryLogin_sound_witness:
  "\<exists>u t token. token \<noteq> [] \<and> w_get sample_web u (Basic ''ann'' ''pw'') = Some t \<and> re_Status t = 200 \<and>
     token \<in> {fst (w_token sample_web (re_Body t)), snd (w_token sample_web (re_Body t))}"
proof -
  have run: "VerifyRegistryLogin sample_web ''r'' ''ann'' ''pw'' = Inr ()" by code_simp
  have "registryBaseURL ''r'' = ''https://r''" by code_simp
  moreover have "w_get sample_web ''https://r/v2/'' (Basic ''ann'' ''pw'') = Some r \<Longrightarrow> re_Status r = 401" for r
    by (auto simp: sample_web_def)
  ultimately show ?thesis
    using VerifyRegistryLogin_sound [OF run] by (auto simp: credentials_def)
qed

end
