(* ===== verification/Docker_Node.thy ===== *)
theory Docker_Node
  imports Effects Iface Go_Path
begin

text \<open>
  Node containers: \<^verbatim>\<open>pkg/cluster/update.go\<close>, \<^verbatim>\<open>pkg/cluster/upgrade.go\<close>, \<^verbatim>\<open>gpu.go\<close> and the helpers of
  \<^verbatim>\<open>cluster.go\<close> they use (\<^verbatim>\<open>docker\<close>, \<^verbatim>\<open>containerState\<close>, \<^verbatim>\<open>waitReady\<close>, the state file). Docker is one
  function from an argument list to its output and success; the state file is part of the state.

  The theorems: recreating a node either yields the new container or puts the old one back, and
  never touches another one; an upgrade goes through the minors one by one to the target and leaves
  the node on the last version that came up; a rebuilt command line keeps the volumes and ports.
\<close>

section \<open>The machine\<close>

text \<open>What \<^verbatim>\<open>cluster.json\<close> holds.\<close>

record InitResult =
  st_Name :: string
  st_Image :: string
  st_ServerURL :: string
  st_Token :: string
  st_APIPort :: int
  st_KubeconfigPath :: string
  st_Runtime :: string

text \<open>The part of \<^verbatim>\<open>docker inspect\<close> that recreating a node needs.\<close>

record mount =
  mt_Type :: string
  mt_Name :: string
  mt_Source :: string
  mt_Destination :: string

record nodeContainer =
  nc_Image :: string
  nc_Cmd :: "string list"
  nc_Hostname :: string
  nc_Env :: "string list"
  nc_Labels :: "string gomap"
  nc_PortBindings :: "(string \<times> string) list gomap"   \<comment> \<open>host address and host port\<close>
  nc_DeviceRequests :: "(string \<times> string list) list"    \<comment> \<open>driver and device ids\<close>
  nc_RestartPolicy :: string
  nc_Mounts :: "mount list"

text \<open>
  The state is that of docker and of the files the commands write; \<open>ms_state\<close> is what reading and
  decoding \<^verbatim>\<open>cluster.json\<close> gives. The machine's own behaviour is the record \<open>shell\<close>.
\<close>

record 'd machine =
  ms_docker :: 'd
  ms_state :: "InitResult option"
  ms_files :: "string gomap"

record 'd shell =
  sh_docker :: "string list \<Rightarrow> 'd \<Rightarrow> (string \<times> bool) \<times> 'd"   \<comment> \<open>output; no error\<close>
  sh_sleep :: "nat \<Rightarrow> 'd \<Rightarrow> 'd"                             \<comment> \<open>seconds\<close>
  sh_inspect :: "string \<Rightarrow> nodeContainer list option"         \<comment> \<open>JSON\<close>
  sh_MkdirTemp :: "string option"
  sh_write :: "string \<Rightarrow> bool"                               \<comment> \<open>writing a file succeeds\<close>
  sh_polls :: "nat \<Rightarrow> nat \<Rightarrow> nat"                          \<comment> \<open>polls that fit a timeout, for a period\<close>
  sh_linux :: bool
  sh_self :: "string option"                                 \<comment> \<open>os.Executable\<close>

definition docker :: "'d shell \<Rightarrow> string list \<Rightarrow> 'd machine \<Rightarrow> (string \<times> bool) \<times> 'd machine" where
  "docker sh args m = (case sh_docker sh args (ms_docker m) of (r, d) \<Rightarrow> (r, m\<lparr>ms_docker := d\<rparr>))"

text \<open>The two ways the code calls it: an error ends the function, or its output is used as it is.\<close>

definition must :: "'d shell \<Rightarrow> string \<Rightarrow> string list \<Rightarrow> ('d machine, string) cmd" where
  "must sh what args m = (case docker sh args m of
     ((out, True), m) \<Rightarrow> (Inr out, m) | ((out, False), m) \<Rightarrow> (Inl (CmdError what), m))"

definition attempt :: "'d shell \<Rightarrow> string list \<Rightarrow> ('d machine, string \<times> bool) cmd" where
  "attempt sh args m = (case docker sh args m of (r, m) \<Rightarrow> (Inr r, m))"

definition sleep :: "'d shell \<Rightarrow> nat \<Rightarrow> ('d machine, unit) cmd" where
  "sleep sh n m = (Inr (), m\<lparr>ms_docker := sh_sleep sh n (ms_docker m)\<rparr>)"

definition LoadState :: "('d machine, InitResult option) cmd" where
  "LoadState m = (Inr (ms_state m), m)"

definition clusterFile :: string where
  "clusterFile = ''cluster.json''"

definition saveState :: "'d shell \<Rightarrow> InitResult \<Rightarrow> ('d machine, unit) cmd" where
  "saveState sh r m = (if sh_write sh clusterFile then (Inr (), m\<lparr>ms_state := Some r\<rparr>)
                       else (Inl (WriteError clusterFile), m))"

definition containerState :: "'d shell \<Rightarrow> string \<Rightarrow> ('d machine, bool \<times> bool) cmd" where
  "containerState sh name = ebind (attempt sh [''inspect'', ''-f'', ''{{.State.Running}}'', name])
     (\<lambda>(out, ok). ret (if ok then (True, TrimSpace out = ''true'') else (False, False)))"

definition inspectNode :: "'d shell \<Rightarrow> string \<Rightarrow> ('d machine, nodeContainer) cmd" where
  "inspectNode sh name = ebind (must sh ''inspect'' [''inspect'', name]) (\<lambda>out. case sh_inspect sh out of
     Some [c] \<Rightarrow> ret c
   | _ \<Rightarrow> fail (CmdError ''inspect: unexpected output''))"

text \<open>A container port may be bound several times; the first binding with a readable port counts.\<close>

fun firstPort :: "(string \<times> string) list \<Rightarrow> int" where
  "firstPort [] = 0"
| "firstPort ((ip, hp) # bs) = (case sscan_int hp of Some n \<Rightarrow> n | None \<Rightarrow> firstPort bs)"

definition bindings :: "nodeContainer \<Rightarrow> string \<Rightarrow> (string \<times> string) list" where
  "bindings c p = (case map_of (nc_PortBindings c) p of Some bs \<Rightarrow> bs | None \<Rightarrow> [])"

definition publishedPort :: "nodeContainer \<Rightarrow> string \<Rightarrow> int" where
  "publishedPort c port = firstPort (bindings c (port @ ''/tcp''))"

section \<open>Rebuilding the command line\<close>

definition labelArgs :: "string gomap \<Rightarrow> string list" where
  "labelArgs labels = concat (map (\<lambda>(k, v). if HasPrefix k ''orcinus.'' then [''--label'', k @ ''='' @ v] else []) labels)"

definition envArgs :: "string list \<Rightarrow> string list" where
  "envArgs es = concat (map (\<lambda>e. if HasPrefix e ''K3S_'' then [''-e'', e] else []) es)"

definition mountArgs :: "mount list \<Rightarrow> string list" where
  "mountArgs ms = concat (map (\<lambda>m.
     if mt_Type m = ''volume'' then [''-v'', mt_Name m @ '':'' @ mt_Destination m]
     else if mt_Type m = ''bind'' then [''-v'', mt_Source m @ '':'' @ mt_Destination m]
     else []) ms)"

definition otherPorts :: "nodeContainer \<Rightarrow> string list" where
  "otherPorts c = sort (filter (\<lambda>p. p \<noteq> ''80/tcp'' \<and> p \<noteq> ''443/tcp'') (map fst (nc_PortBindings c)))"

definition portArgs :: "nodeContainer \<Rightarrow> string list" where
  "portArgs c = concat (map (\<lambda>p. concat (map (\<lambda>(ip, hp). [''-p'', ip @ '':'' @ hp @ '':'' @ p]) (bindings c p))) (otherPorts c))"

definition publish :: "int \<Rightarrow> string \<Rightarrow> string list" where
  "publish host port = (if host > 0 then [''-p'', ''0.0.0.0:'' @ Itoa host @ '':'' @ port] else [])"

definition deviceArgs :: "(string \<times> string list) list \<Rightarrow> string list" where
  "deviceArgs ds = concat (map (\<lambda>(driver, ids). if driver = ''cdi'' then concat (map (\<lambda>i. [''--device'', i]) ids) else []) ds)"

definition createArgs :: "nodeContainer \<Rightarrow> string \<Rightarrow> int \<Rightarrow> int \<Rightarrow> string list" where
  "createArgs c name httpPort httpsPort =
     [''create'', ''--privileged'', ''--name'', name, ''--hostname'', nc_Hostname c]
     @ labelArgs (nc_Labels c) @ envArgs (nc_Env c) @ mountArgs (nc_Mounts c) @ portArgs c
     @ publish httpPort ''80'' @ publish httpsPort ''443'' @ deviceArgs (nc_DeviceRequests c)
     @ (if nc_RestartPolicy c \<noteq> [] \<and> nc_RestartPolicy c \<noteq> ''no'' then [''--restart'', nc_RestartPolicy c] else [])
     @ [nc_Image c] @ nc_Cmd c"

section \<open>Recreating a node\<close>

definition applyVXLANChecksumFix :: "'d shell \<Rightarrow> string \<Rightarrow> ('d machine, unit) cmd" where
  "applyVXLANChecksumFix sh name =
     (if \<not> sh_linux sh then ret ()
      else case sh_self sh of
        None \<Rightarrow> ret ()
      | Some self \<Rightarrow> ebind (attempt sh [''cp'', self, name @ '':/tmp/orcinus'']) (\<lambda>(out, ok).
          if \<not> ok then ret ()
          else ignore (attempt sh [''exec'', ''-d'', name, ''/tmp/orcinus'', ''cluster'', ''netfix'', ''flannel.1''])))"

definition restore :: "'d shell \<Rightarrow> string \<Rightarrow> string \<Rightarrow> error \<Rightarrow> ('d machine, unit) cmd" where
  "restore sh name old cause =
     andThen (attempt sh [''rm'', ''-f'', name])
    (andThen (attempt sh [''rename'', old, name])
    (andThen (attempt sh [''start'', name])
       (fail (Restored cause))))"

definition crossHostArg :: "string \<Rightarrow> bool" where
  "crossHostArg a \<longleftrightarrow> a = ''--flannel-external-ip'' \<or> HasPrefix a ''--node-external-ip=''"

definition recreate ::
    "'d shell \<Rightarrow> string \<Rightarrow> nodeContainer \<Rightarrow> string list \<Rightarrow> ('d machine, unit) cmd \<Rightarrow> ('d machine, unit) cmd" where
  "recreate sh name c args ready = (case sh_MkdirTemp sh of
     None \<Rightarrow> fail (WriteError ''orcinus-update'')
   | Some tmp \<Rightarrow>
       (let old = name @ ''-old'' in
        andThen (must sh ''save node identity'' [''cp'', name @ '':/etc/rancher'', tmp])
       (andThen (must sh ''stop node'' [''stop'', name])
       (andThen (orElse (must sh ''rename node container'' [''rename'', name, old])
                   (\<lambda>e. andThen (attempt sh [''start'', name]) (fail e)))
       (andThen (orElse (andThen (must sh ''create node container'' args)
                        (andThen (must sh ''restore node identity'' [''cp'', JoinPath [tmp, ''rancher''], name @ '':/etc/''])
                        (andThen (must sh ''start node'' [''start'', name]) ready)))
                   (restore sh name old))
       (andThen (attempt sh [''rm'', old])
          (doIf (list_ex crossHostArg (nc_Cmd c)) (applyVXLANChecksumFix sh name))))))))"

section \<open>Changing the ports\<close>

text \<open>\<^verbatim>\<open>waitReady\<close> polls every three seconds until its timeout.\<close>

fun waitReady :: "'d shell \<Rightarrow> string \<Rightarrow> nat \<Rightarrow> ('d machine, unit) cmd" where
  "waitReady sh name 0 = fail (WaitTimeout ''cluster'' name)"
| "waitReady sh name (Suc n) =
     ebind (attempt sh [''exec'', name, ''kubectl'', ''get'', ''nodes'', ''--no-headers'']) (\<lambda>(out, ok).
       if ok \<and> Contains out '' Ready'' then ret ()
       else andThen (sleep sh 3) (waitReady sh name n))"

record UpdateOptions =
  uo_Name :: string
  uo_HTTPPort :: "int option"
  uo_HTTPSPort :: "int option"

definition DefaultName :: string where
  "DefaultName = ''orcinus''"

definition nameOr :: "string \<Rightarrow> InitResult option \<Rightarrow> string" where
  "nameOr name st = (if name \<noteq> [] then name else case st of Some r \<Rightarrow> st_Name r | None \<Rightarrow> DefaultName)"

definition standalone :: "InitResult option \<Rightarrow> bool" where
  "standalone st = (case st of Some r \<Rightarrow> st_Runtime r = ''standalone'' | None \<Rightarrow> False)"

definition bridgeIP :: string where
  "bridgeIP = ''{{range .NetworkSettings.Networks}}{{.IPAddress}}{{e'' @ ''nd}}''"

definition moveServerURL :: "'d shell \<Rightarrow> InitResult \<Rightarrow> string \<Rightarrow> ('d machine, unit) cmd" where
  "moveServerURL sh st name = ebind (attempt sh [''inspect'', ''-f'', bridgeIP, name]) (\<lambda>(ip, ok).
     if ok \<and> TrimSpace ip \<noteq> [] then ignore (saveState sh (st\<lparr>st_ServerURL := ''https://'' @ TrimSpace ip @ '':6443''\<rparr>))
     else ret ())"

definition Update :: "'d shell \<Rightarrow> UpdateOptions \<Rightarrow> ('d machine, int \<times> int) cmd" where
  "Update sh o0 = ebind LoadState (\<lambda>st.
     let name = nameOr (uo_Name o0) st in
     if standalone st then fail (NotSupported ''standalone ports'')
     else ebind (containerState sh name) (\<lambda>(exists, running).
       if \<not> exists \<or> \<not> running then fail (NotRunning name)
       else ebind (inspectNode sh name) (\<lambda>c.
         let httpPort = (case uo_HTTPPort o0 of Some p \<Rightarrow> p | None \<Rightarrow> publishedPort c ''80'');
             httpsPort = (case uo_HTTPSPort o0 of Some p \<Rightarrow> p | None \<Rightarrow> publishedPort c ''443'') in
         if httpPort = publishedPort c ''80'' \<and> httpsPort = publishedPort c ''443'' then ret (httpPort, httpsPort)
         else andThen (recreate sh name c (createArgs c name httpPort httpsPort) (waitReady sh name (sh_polls sh 180 3)))
             (andThen (case st of
                 Some r \<Rightarrow> doIf (st_Name r = name \<and> \<not> list_ex (\<lambda>a. HasPrefix a ''--node-external-ip='') (nc_Cmd c))
                             (moveServerURL sh r name)
               | None \<Rightarrow> ret ())
             (ret (httpPort, httpsPort))))))"

section \<open>Upgrading\<close>

definition upgradePath :: "string list" where
  "upgradePath = [''v1.32.13+k3s1'', ''v1.33.13+k3s2'', ''v1.34.12+k3s1'', ''v1.35.9+k3s1'', ''v1.36.5+k3s1'']"

definition TargetVersion :: string where
  "TargetVersion = last upgradePath"

text \<open>One \<^verbatim>\<open>%d\<close> of \<^verbatim>\<open>fmt.Sscanf\<close>: blanks, a sign, digits, within 64 bits; the rest of the input stays.\<close>

definition scanD :: "string \<Rightarrow> (int \<times> string) option" where
  "scanD s =
     (let t = dropWhile isBlank s;
          u = (if t \<noteq> [] \<and> (hd t = CHR ''-'' \<or> hd t = CHR ''+'') then tl t else t)
      in map_option (\<lambda>n. (n, dropWhile isDigit u)) (sscan_int s))"

definition minorPatch :: "string \<Rightarrow> (int \<times> int) option" where
  "minorPatch v = (case CutPrefix v ''v1.'' of
     None \<Rightarrow> None
   | Some r \<Rightarrow> (case scanD r of
        None \<Rightarrow> None
      | Some (minor, r) \<Rightarrow> (case CutPrefix r ''.'' of
           None \<Rightarrow> None
         | Some r \<Rightarrow> map_option (\<lambda>(patch, _). (minor, patch)) (scanD r))))"

definition minorPatch0 :: "string \<Rightarrow> int \<times> int" where
  "minorPatch0 v = (case minorPatch v of Some mp \<Rightarrow> mp | None \<Rightarrow> (0, 0))"

definition newerThan :: "int \<times> int \<Rightarrow> string \<Rightarrow> bool" where
  "newerThan cur v = (case (cur, minorPatch0 v) of ((cm, cp), (m, p)) \<Rightarrow> m > cm \<or> (m = cm \<and> p > cp))"

definition upgradeSteps :: "string \<Rightarrow> error + string list" where
  "upgradeSteps cur = (case minorPatch cur of
     None \<Rightarrow> Inl (VersionUnknown cur)
   | Some (cm, cp) \<Rightarrow>
       if cm < fst (minorPatch0 (hd upgradePath)) - 1 then Inl (NotSupported cur)
       else Inr (filter (newerThan (cm, cp)) upgradePath))"

text \<open>\<^verbatim>\<open>strings.Replace(s, old, new, 1)\<close>.\<close>

definition replaceFirst :: "string \<Rightarrow> string \<Rightarrow> string \<Rightarrow> string" where
  "replaceFirst s old new = (case Cut s old of Some (a, b) \<Rightarrow> a @ new @ b | None \<Rightarrow> s)"

definition dockerTag :: "string \<Rightarrow> string" where
  "dockerTag v = replaceFirst v ''+'' ''-''"

definition fromDockerTag :: "string \<Rightarrow> string" where
  "fromDockerTag t = replaceFirst t ''-k3s'' ''+k3s''"

text \<open>The text after the last colon, or the whole.\<close>

definition afterColon :: "string \<Rightarrow> string" where
  "afterColon s = last (SplitChar CHR '':'' s)"

definition gpuImage :: "'d shell \<Rightarrow> string \<Rightarrow> ('d machine, string) cmd" where
  "gpuImage sh base =
     (let img = ''orcinus/k3s-nvidia:'' @ afterColon base in
      ebind (attempt sh [''image'', ''inspect'', img]) (\<lambda>(out, ok).
        if ok then ret img
        else case sh_MkdirTemp sh of
          None \<Rightarrow> fail (WriteError ''orcinus-gpu-image'')
        | Some dir \<Rightarrow>
            if \<not> sh_write sh (JoinPath [dir, ''Dockerfile'']) then fail (WriteError ''Dockerfile'')
            else andThen (must sh ''build GPU node image'' [''build'', ''-t'', img, ''--build-arg'', ''K3S_IMAGE='' @ base, dir])
                   (ret img)))"

definition nodeReadyQuery :: string where
  "nodeReadyQuery = ''jsonpath={.status.nodeInfo.kubeletVersion} {.status.conditions[?(@.type=='' @
     [CHR 0x22] @ ''Ready'' @ [CHR 0x22] @ '')].status}''"

fun waitNodeVersion :: "'d shell \<Rightarrow> string \<Rightarrow> string \<Rightarrow> string \<Rightarrow> nat \<Rightarrow> ('d machine, unit) cmd" where
  "waitNodeVersion sh name node v 0 = fail (WaitTimeout ''node'' node)"
| "waitNodeVersion sh name node v (Suc n) =
     ebind (attempt sh [''exec'', name, ''kubectl'', ''get'', ''node'', node, ''-o'', nodeReadyQuery]) (\<lambda>(got, ok).
       if TrimSpace got = v @ '' True'' then ret ()
       else andThen (sleep sh 3) (waitNodeVersion sh name node v n))"

fun waitRunning :: "'d shell \<Rightarrow> string \<Rightarrow> nat \<Rightarrow> ('d machine, unit) cmd" where
  "waitRunning sh name 0 = ret ()"
| "waitRunning sh name (Suc n) =
     ebind (containerState sh name) (\<lambda>(exists, running).
       if \<not> running then andThen (attempt sh [''logs'', ''--tail'', ''20'', name]) (fail (NotRunning name))
       else andThen (sleep sh 2) (waitRunning sh name n))"

definition isServer :: "nodeContainer \<Rightarrow> bool" where
  "isServer c = (case nc_Cmd c of a # _ \<Rightarrow> a = ''server'' | [] \<Rightarrow> False)"

definition fetchImage :: "'d shell \<Rightarrow> bool \<Rightarrow> string \<Rightarrow> ('d machine, string) cmd" where
  "fetchImage sh gpu img = (if gpu then gpuImage sh img else andThen (must sh ''pull'' [''pull'', img]) (ret img))"

definition upgradeStep ::
    "'d shell \<Rightarrow> string \<Rightarrow> nodeContainer \<Rightarrow> bool \<Rightarrow> string \<Rightarrow> string \<Rightarrow> ('d machine, unit) cmd" where
  "upgradeStep sh name c gpu repo v =
     (let img = repo @ '':'' @ dockerTag v in
      ebind (fetchImage sh gpu img) (\<lambda>img.
        let c = c\<lparr>nc_Image := img\<rparr> in
        recreate sh name c (createArgs c name (publishedPort c ''80'') (publishedPort c ''443''))
          (if isServer c then waitNodeVersion sh name (nc_Hostname c) v (sh_polls sh 300 3)
           else waitRunning sh name (sh_polls sh 20 2))))"

definition splitImage :: "string \<Rightarrow> string \<times> string" where
  "splitImage im = (case Cut im '':'' of Some (r, t) \<Rightarrow> (r, t) | None \<Rightarrow> (im, []))"

definition singleControlPlane :: "'d shell \<Rightarrow> string \<Rightarrow> ('d machine, unit) cmd" where
  "singleControlPlane sh name = ebind (must sh ''list control-plane nodes''
       [''exec'', name, ''kubectl'', ''get'', ''nodes'', ''--no-headers'', ''-l'', ''node-role.kubernetes.io/control-plane''])
     (\<lambda>out. if length (SplitChar (CHR 0x0A) (TrimSpace out)) > 1 then fail (NotSupported ''several control-plane nodes'')
            else ret ())"

definition upgradeNode :: "'d shell \<Rightarrow> string \<Rightarrow> bool \<Rightarrow> ('d machine, unit) cmd" where
  "upgradeNode sh name step = ebind (inspectNode sh name) (\<lambda>c.
     let (repo, tag) = splitImage (nc_Image c) in
     ebind (lift (upgradeSteps (fromDockerTag tag))) (\<lambda>steps.
       if steps = [] then ret ()
       else andThen (if isServer c \<and> step then singleControlPlane sh name else ret ())
         (let steps = (if step then steps else [last steps]);
              gpu = (repo = ''orcinus/k3s-nvidia'');
              repo = (if gpu then ''rancher/k3s'' else repo)
          in each (upgradeStep sh name c gpu repo) steps)))"

text \<open>\<^verbatim>\<open>strings.Fields\<close>.\<close>

fun fieldsFrom :: "string \<Rightarrow> string \<Rightarrow> string list" where
  "fieldsFrom acc [] = (if acc = [] then [] else [rev acc])"
| "fieldsFrom acc (c # s) =
     (if isSpace c then (if acc = [] then fieldsFrom [] s else rev acc # fieldsFrom [] s) else fieldsFrom (c # acc) s)"

definition Fields :: "string \<Rightarrow> string list" where
  "Fields s = fieldsFrom [] s"

text \<open>The standalone half is another file and an argument here.\<close>

definition UpgradeCluster :: "'d shell \<Rightarrow> (string \<Rightarrow> ('d machine, string) cmd) \<Rightarrow> string \<Rightarrow> ('d machine, string) cmd" where
  "UpgradeCluster sh upgradeStandalone name0 = ebind LoadState (\<lambda>st.
     let name = nameOr name0 st in
     if standalone st then upgradeStandalone name
     else ebind (containerState sh name) (\<lambda>(exists, running).
       if \<not> exists \<or> \<not> running then fail (NotRunning name)
       else andThen (upgradeNode sh name True)
         (andThen (case st of
              Some r \<Rightarrow> if st_Name r \<noteq> name then ret ()
                else andThen (ignore (saveState sh (r\<lparr>st_Image := ''rancher/k3s:'' @ dockerTag TargetVersion\<rparr>)))
                  (ebind (attempt sh [''ps'', ''--format'', ''{{.Names}}'', ''--filter'', ''label=orcinus.cluster='' @ name])
                    (\<lambda>(ids, ok). each (\<lambda>n. doIf (n \<noteq> name) (upgradeNode sh n False)) (Fields ids)))
            | None \<Rightarrow> ret ())
           (ret TargetVersion))))"

section \<open>What docker documents\<close>

text \<open>
  \<open>ct\<close> is docker's table of containers by name, \<open>made\<close> the container a command line describes. Only
  creating, renaming and removing change the table; a name is taken once; a forced removal removes.
\<close>

definition quiet :: "string \<Rightarrow> bool" where
  "quiet c \<longleftrightarrow> c \<in> {''cp'', ''exec'', ''inspect'', ''image'', ''build'', ''logs'', ''ps'', ''pull'', ''start'', ''stop''}"

lemma quiet_simps [simp]:
  "quiet ''cp''" "quiet ''exec''" "quiet ''inspect''" "quiet ''image''" "quiet ''build''"
  "quiet ''logs''" "quiet ''ps''" "quiet ''pull''" "quiet ''start''" "quiet ''stop''"
  by (simp_all add: quiet_def)

definition docker_ok :: "'d shell \<Rightarrow> ('d \<Rightarrow> string \<Rightarrow> 'i option) \<Rightarrow> (string list \<Rightarrow> 'i) \<Rightarrow> bool" where
  "docker_ok sh ct made \<longleftrightarrow>
     (\<forall>c args d r d'. quiet c \<longrightarrow> sh_docker sh (c # args) d = (r, d') \<longrightarrow> ct d' = ct d) \<and>
     (\<forall>n d. ct (sh_sleep sh n d) = ct d) \<and>
     (\<forall>n d r d'. sh_docker sh [''rm'', ''-f'', n] d = (r, d') \<longrightarrow> ct d' = (ct d)(n := None)) \<and>
     (\<forall>n d r d'. sh_docker sh [''rm'', n] d = (r, d') \<longrightarrow> ct d' = ct d \<or> ct d' = (ct d)(n := None)) \<and>
     (\<forall>a b d out ok d'. a \<noteq> b \<longrightarrow> sh_docker sh [''rename'', a, b] d = ((out, ok), d') \<longrightarrow>
        ok = (ct d a \<noteq> None \<and> ct d b = None) \<and>
        ct d' = (if ok then (ct d)(b := ct d a, a := None) else ct d)) \<and>
     (\<forall>n args d out ok d'. sh_docker sh (''create'' # ''--privileged'' # ''--name'' # n # args) d = ((out, ok), d') \<longrightarrow>
        (ok \<longrightarrow> ct d n = None) \<and>
        ct d' = (if ok then (ct d)(n \<mapsto> made (''create'' # ''--privileged'' # ''--name'' # n # args)) else ct d))"

lemma docker_okD:
  assumes "docker_ok sh ct made"
  shows "quiet c \<Longrightarrow> sh_docker sh (c # args) d = (r, d') \<Longrightarrow> ct d' = ct d"
    and "ct (sh_sleep sh k d) = ct d"
    and "sh_docker sh [''rm'', ''-f'', n] d = (r, d') \<Longrightarrow> ct d' = (ct d)(n := None)"
    and "sh_docker sh [''rm'', n] d = (r, d') \<Longrightarrow> ct d' = ct d \<or> ct d' = (ct d)(n := None)"
    and "a \<noteq> b \<Longrightarrow> sh_docker sh [''rename'', a, b] d = ((out, ok), d') \<Longrightarrow>
      ok = (ct d a \<noteq> None \<and> ct d b = None) \<and> ct d' = (if ok then (ct d)(b := ct d a, a := None) else ct d)"
    and "sh_docker sh (createArgs c0 n h hs) d = ((out, ok), d') \<Longrightarrow>
      (ok \<longrightarrow> ct d n = None) \<and> ct d' = (if ok then (ct d)(n \<mapsto> made (createArgs c0 n h hs)) else ct d)"
proof -
  note laws = assms [unfolded docker_ok_def]
  show "quiet c \<Longrightarrow> sh_docker sh (c # args) d = (r, d') \<Longrightarrow> ct d' = ct d"
    using laws [THEN conjunct1] by blast
  note laws = laws [THEN conjunct2]
  show "ct (sh_sleep sh k d) = ct d" using laws [THEN conjunct1] by blast
  note laws = laws [THEN conjunct2]
  show "sh_docker sh [''rm'', ''-f'', n] d = (r, d') \<Longrightarrow> ct d' = (ct d)(n := None)"
    using laws [THEN conjunct1] by blast
  note laws = laws [THEN conjunct2]
  show "sh_docker sh [''rm'', n] d = (r, d') \<Longrightarrow> ct d' = ct d \<or> ct d' = (ct d)(n := None)"
    using laws [THEN conjunct1] by blast
  note laws = laws [THEN conjunct2]
  show "a \<noteq> b \<Longrightarrow> sh_docker sh [''rename'', a, b] d = ((out, ok), d') \<Longrightarrow>
      ok = (ct d a \<noteq> None \<and> ct d b = None) \<and> ct d' = (if ok then (ct d)(b := ct d a, a := None) else ct d)"
    by (rule laws [THEN conjunct1, rule_format])
  obtain rest where cmd: "createArgs c0 n h hs = ''create'' # ''--privileged'' # ''--name'' # n # rest"
    by (simp add: createArgs_def)
  show "sh_docker sh (createArgs c0 n h hs) d = ((out, ok), d') \<Longrightarrow>
      (ok \<longrightarrow> ct d n = None) \<and> ct d' = (if ok then (ct d)(n \<mapsto> made (createArgs c0 n h hs)) else ct d)"
    unfolding cmd by (rule laws [THEN conjunct2, rule_format])
qed

text \<open>The table of a machine, and what the calls of the code do to it.\<close>

definition table :: "('d \<Rightarrow> string \<Rightarrow> 'i option) \<Rightarrow> 'd machine \<Rightarrow> string \<Rightarrow> 'i option" where
  "table ct m = ct (ms_docker m)"

lemma must_run: "must sh what args m = (r, m') \<longleftrightarrow> (\<exists>out ok d. sh_docker sh args (ms_docker m) = ((out, ok), d) \<and>
    m' = m\<lparr>ms_docker := d\<rparr> \<and> r = (if ok then Inr out else Inl (CmdError what)))"
  by (auto simp: must_def docker_def split: prod.splits bool.splits)

lemma attempt_run: "attempt sh args m = (r, m') \<longleftrightarrow> (\<exists>out d. sh_docker sh args (ms_docker m) = (out, d) \<and>
    m' = m\<lparr>ms_docker := d\<rparr> \<and> r = Inr out)"
  by (auto simp: attempt_def docker_def split: prod.splits)

lemma keeps_runI: "(\<And>s r s'. m s = (r, s') \<Longrightarrow> R s s') \<Longrightarrow> keeps R m"
  unfolding keeps_def by (metis prod.collapse)

lemma keeps_must [keeps_intros]: "docker_ok sh ct made \<Longrightarrow> quiet c \<Longrightarrow> keeps (same_view (table ct)) (must sh what (c # args))"
  by (rule keeps_runI) (auto simp: must_run same_view_def table_def dest: docker_okD(1))

lemma keeps_attempt [keeps_intros]: "docker_ok sh ct made \<Longrightarrow> quiet c \<Longrightarrow> keeps (same_view (table ct)) (attempt sh (c # args))"
  by (rule keeps_runI) (auto simp: attempt_run same_view_def table_def dest: docker_okD(1))

lemma keeps_sleep [keeps_intros]: "docker_ok sh ct made \<Longrightarrow> keeps (same_view (table ct)) (sleep sh n)"
  by (rule keeps_runI) (auto simp: sleep_def same_view_def table_def docker_okD(2))

section \<open>Recreating is all or nothing\<close>

lemma name_old [simp]: "name \<noteq> name @ ''-old''" "name @ ''-old'' \<noteq> name"
  by simp_all

lemma restore_table:
  assumes "docker_ok sh ct made" and "restore sh name (name @ ''-old'') cause m = (r, m')"
    and "table ct m (name @ ''-old'') = Some i"
  shows "r = Inl (Restored cause) \<and> table ct m' = (table ct m)(name \<mapsto> i, name @ ''-old'' := None)"
proof -
  from assms(2) obtain r1 m1 r2 m2 r3 where
    rm: "attempt sh [''rm'', ''-f'', name] m = (Inr r1, m1)" and
    mv: "attempt sh [''rename'', name @ ''-old'', name] m1 = (Inr r2, m2)" and
    st: "attempt sh [''start'', name] m2 = (Inr r3, m')" and r: "r = Inl (Restored cause)"
    by (cases r) (auto simp: restore_def cmd_runs attempt_run)
  have m1: "table ct m1 = (table ct m)(name := None)"
    using rm docker_okD(3) [OF assms(1)] by (auto simp: attempt_run table_def)
  obtain out ok d where d: "sh_docker sh [''rename'', name @ ''-old'', name] (ms_docker m1) = ((out, ok), d)" "m2 = m1\<lparr>ms_docker := d\<rparr>"
    using mv by (auto simp: attempt_run)
  have "table ct m1 name = None" "table ct m1 (name @ ''-old'') = Some i" using m1 assms(3) by simp_all
  then have "table ct m2 = (table ct m1)(name := table ct m1 (name @ ''-old''), name @ ''-old'' := None)"
    using docker_okD(5) [OF assms(1) name_old(2) d(1)] d(2) by (simp add: table_def fun_eq_iff)
  moreover have "table ct m' = table ct m2"
    using keepsD [OF keeps_attempt [OF assms(1)] st] by (simp add: same_view_def)
  ultimately show ?thesis using r m1 assms(3) by (auto simp: fun_eq_iff)
qed

lemma keeps_VXLAN [keeps_intros]: "docker_ok sh ct made \<Longrightarrow> keeps (same_view (table ct)) (applyVXLANChecksumFix sh name)"
  unfolding applyVXLANChecksumFix_def
  by (auto intro!: viewed.keeps_rules keeps_intros split: option.split prod.split)

text \<open>The part between renaming the old container and the verdict of \<^verbatim>\<open>ready\<close>.\<close>

lemma recreate_new:
  assumes "docker_ok sh ct made" and "keeps (same_view (table ct)) ready"
    and "table ct m name = None"
    and "andThen (must sh w1 (createArgs c name h hs)) (andThen (must sh w2 (''cp'' # cpArgs))
           (andThen (must sh w3 [''start'', name]) ready)) m = (r, m')"
  shows "if r = Inr () then table ct m' = (table ct m)(name \<mapsto> made (createArgs c name h hs))
         else table ct m' \<in> {table ct m, (table ct m)(name \<mapsto> made (createArgs c name h hs))}"
proof -
  let ?rest = "andThen (must sh w2 (''cp'' # cpArgs)) (andThen (must sh w3 [''start'', name]) ready)"
  have rest: "keeps (same_view (table ct)) ?rest"
    using assms(1,2) by (intro viewed.keeps_rules keeps_intros) auto
  obtain r1 m1 where c: "must sh w1 (createArgs c name h hs) m = (r1, m1)" by force
  then have m1: "if isl r1 then table ct m1 = table ct m else table ct m1 = (table ct m)(name \<mapsto> made (createArgs c name h hs))"
    using docker_okD(6) [OF assms(1)] by (auto simp: must_run table_def split: if_splits)
  show ?thesis
  proof (cases r1)
    case (Inl e)
    then have "m' = m1" "r = Inl e" using assms(4) c by (auto simp: andThen_def ebind_def)
    then show ?thesis using m1 Inl by simp
  next
    case (Inr out)
    then have "?rest m1 = (r, m')" using assms(4) c by (simp add: andThen_def ebind_def)
    then have "table ct m' = table ct m1" using keepsD [OF rest] by (simp add: same_view_def)
    then show ?thesis using m1 Inr by simp
  qed
qed

lemma swap_table:
  assumes "docker_ok sh ct made"
    and "orElse (must sh w [''rename'', name, name @ ''-old'']) (\<lambda>e. andThen (attempt sh [''start'', name]) (fail e)) m = (r, m')"
  shows "if isl r then table ct m' = table ct m
    else table ct m name \<noteq> None \<and> table ct m (name @ ''-old'') = None \<and>
      table ct m' = (table ct m)(name @ ''-old'' := table ct m name, name := None)"
proof -
  obtain out ok d where d: "sh_docker sh [''rename'', name, name @ ''-old''] (ms_docker m) = ((out, ok), d)"
    by (metis prod.collapse)
  note law = docker_okD(5) [OF assms(1) name_old(1) d]
  have quiet: "keeps (same_view (table ct)) (andThen (attempt sh [''start'', name]) (fail e))" for e :: error
    using assms(1) by (intro viewed.keeps_rules keeps_intros) auto
  show ?thesis
  proof (cases ok)
    case True
    then have "r = Inr out" "m' = m\<lparr>ms_docker := d\<rparr>"
      using assms(2) d by (auto simp: orElse_def must_def docker_def)
    then show ?thesis using law True by (simp add: table_def fun_eq_iff)
  next
    case False
    then have "andThen (attempt sh [''start'', name]) (fail (CmdError w)) (m\<lparr>ms_docker := d\<rparr>) = (r, m')"
      using assms(2) d by (auto simp: orElse_def must_def docker_def)
    note run = this
    have "isl r" using run by (auto simp: andThen_def ebind_def split: prod.splits sum.splits)
    moreover have "table ct m' = table ct (m\<lparr>ms_docker := d\<rparr>)" using keepsD [OF quiet run] by (simp add: same_view_def)
    ultimately show ?thesis using law False by (auto simp: table_def)
  qed
qed

lemma rm_then_fix:
  assumes "andThen (attempt sh [''rm'', old]) (doIf b (applyVXLANChecksumFix sh name)) m = (r, m')"
  obtains x m1 where "attempt sh [''rm'', old] m = (Inr x, m1)" and "doIf b (applyVXLANChecksumFix sh name) m1 = (r, m')"
proof (cases "sh_docker sh [''rm'', old] (ms_docker m)")
  case (Pair x d)
  have rm: "attempt sh [''rm'', old] m = (Inr x, m\<lparr>ms_docker := d\<rparr>)" using Pair by (simp add: attempt_run)
  with assms show thesis by (intro that [OF rm]) (simp add: andThen_def ebind_def)
qed

lemma end_table:
  assumes "docker_ok sh ct made"
    and "andThen (attempt sh [''rm'', old]) (doIf b (applyVXLANChecksumFix sh name)) m = (r, m')"
  shows "r = Inr () \<and> (table ct m' = table ct m \<or> table ct m' = (table ct m)(old := None))"
proof -
  obtain x m1 where rm: "attempt sh [''rm'', old] m = (Inr x, m1)" and fx: "doIf b (applyVXLANChecksumFix sh name) m1 = (r, m')"
    using assms(2) by (rule rm_then_fix)
  have "table ct m1 = table ct m \<or> table ct m1 = (table ct m)(old := None)"
  proof -
    from rm obtain d where d: "sh_docker sh [''rm'', old] (ms_docker m) = (x, d)" "m1 = m\<lparr>ms_docker := d\<rparr>"
      by (auto simp: attempt_run)
    show ?thesis using docker_okD(4) [OF assms(1) d(1)] d(2) by (simp add: table_def)
  qed
  moreover have "table ct m' = table ct m1"
    using keepsD [OF viewed.keeps_doIf [OF keeps_VXLAN [OF assms(1)]] fx] by (simp add: same_view_def)
  moreover have "r = Inr ()"
    using fx by (auto simp: doIf_def applyVXLANChecksumFix_def ebind_def attempt_def ignore_def
        split: if_splits option.splits prod.splits)
  ultimately show ?thesis by simp
qed

lemma build_table:
  assumes "docker_ok sh ct made" and "keeps (same_view (table ct)) ready"
    and "table ct m0 name \<noteq> None" and "table ct m0 (name @ ''-old'') = None"
    and "table ct m = (table ct m0)(name @ ''-old'' := table ct m0 name, name := None)"
    and "andThen (orElse (andThen (must sh w1 (createArgs c name h hs)) (andThen (must sh w2 (''cp'' # cpArgs))
           (andThen (must sh w3 [''start'', name]) ready))) (restore sh name (name @ ''-old'')))
         (andThen (attempt sh [''rm'', name @ ''-old'']) (doIf b (applyVXLANChecksumFix sh name))) m = (r, m')"
  shows "if r = Inr () then table ct m' name = Some (made (createArgs c name h hs)) \<and>
           (\<forall>n. n \<noteq> name \<and> n \<noteq> name @ ''-old'' \<longrightarrow> table ct m' n = table ct m0 n)
         else table ct m' = table ct m0"
proof -
  let ?build = "andThen (must sh w1 (createArgs c name h hs)) (andThen (must sh w2 (''cp'' # cpArgs))
           (andThen (must sh w3 [''start'', name]) ready))"
  let ?fin = "andThen (attempt sh [''rm'', name @ ''-old'']) (doIf b (applyVXLANChecksumFix sh name))"
  obtain i where i: "table ct m0 name = Some i" using assms(3) by blast
  have none: "table ct m name = None" using assms(5) by simp
  obtain r1 m1 where b: "?build m = (r1, m1)" by force
  note new = recreate_new [OF assms(1,2) none b]
  show ?thesis
  proof (cases r1)
    case (Inl e)
    have old: "table ct m1 (name @ ''-old'') = Some i" using new Inl assms(5) i by (auto split: if_splits)
    obtain r2 m2 where rs: "restore sh name (name @ ''-old'') e m1 = (r2, m2)" by force
    note recovered = restore_table [OF assms(1) rs old]
    then have "r = Inl (Restored e)" "m' = m2"
      using assms(6) b Inl rs by (auto simp: andThen_def ebind_def orElse_def)
    with recovered have "r = Inl (Restored e)" "table ct m' = (table ct m1)(name \<mapsto> i, name @ ''-old'' := None)" by auto
    then show ?thesis using new Inl assms(4,5) i by (auto simp: fun_eq_iff)
  next
    case (Inr u)
    then have "?fin m1 = (r, m')" using assms(6) b by (simp add: andThen_def ebind_def orElse_def)
    from end_table [OF assms(1) this] show ?thesis using new Inr assms(5) by auto
  qed
qed

lemma recreate_table:
  assumes "docker_ok sh ct made" and "keeps (same_view (table ct)) ready"
    and "recreate sh name c (createArgs c name h hs) ready m = (r, m')"
  shows "if r = Inr () then table ct m' name = Some (made (createArgs c name h hs)) \<and>
           (\<forall>n. n \<noteq> name \<and> n \<noteq> name @ ''-old'' \<longrightarrow> table ct m' n = table ct m n)
         else table ct m' = table ct m"
proof (cases "sh_MkdirTemp sh")
  case None
  then show ?thesis using assms(3) by (auto simp: recreate_def)
next
  case (Some tmp)
  let ?old = "name @ ''-old''" and ?args = "createArgs c name h hs"
  let ?build = "andThen (must sh ''create node container'' ?args)
     (andThen (must sh ''restore node identity'' [''cp'', JoinPath [tmp, ''rancher''], name @ '':/etc/''])
     (andThen (must sh ''start node'' [''start'', name]) ready))"
  let ?fin = "andThen (attempt sh [''rm'', ?old]) (doIf (list_ex crossHostArg (nc_Cmd c)) (applyVXLANChecksumFix sh name))"
  let ?swap = "orElse (must sh ''rename node container'' [''rename'', name, ?old]) (\<lambda>e. andThen (attempt sh [''start'', name]) (fail e))"
  let ?prep = "andThen (must sh ''save node identity'' [''cp'', name @ '':/etc/rancher'', tmp]) (must sh ''stop node'' [''stop'', name])"
  have run: "andThen ?prep (andThen ?swap (andThen (orElse ?build (restore sh name ?old)) ?fin)) m = (r, m')"
    using assms(3) by (simp only: recreate_def Some option.case Let_def andThen_assoc)
  have prep: "keeps (same_view (table ct)) ?prep" using assms(1) by (intro viewed.keeps_rules keeps_intros) auto
  obtain r1 m1 where p: "?prep m = (r1, m1)" by force
  have m1: "table ct m1 = table ct m" using keepsD [OF prep p] by (simp add: same_view_def)
  obtain r2 m2 where sw: "?swap m1 = (r2, m2)" by force
  consider (prep) e where "r1 = Inl e" "r = Inl e" "m' = m1"
    | (swap) e where "r2 = Inl e" "r = Inl e" "m' = m2"
    | (build) x where "r2 = Inr x" "andThen (orElse ?build (restore sh name ?old)) ?fin m2 = (r, m')"
    using run p sw by (cases r1; cases r2) (auto simp: andThen_def ebind_def)
  then show ?thesis
  proof cases
    case prep
    then show ?thesis using m1 by simp
  next
    case swap
    then have "table ct m2 = table ct m1" using swap_table [OF assms(1) sw] by simp
    then show ?thesis using m1 swap by simp
  next
    case build
    then have m2: "table ct m1 name \<noteq> None" "table ct m1 ?old = None"
        "table ct m2 = (table ct m1)(?old := table ct m1 name, name := None)"
      using swap_table [OF assms(1) sw] by simp_all
    show ?thesis using build_table [OF assms(1,2) m2 build(2)] m1 by simp
  qed
qed


section \<open>The upgrade path\<close>

lemma path_versions:
  "map minorPatch upgradePath = [Some (32, 13), Some (33, 13), Some (34, 12), Some (35, 9), Some (36, 5)]"
  by code_simp

text \<open>No version of the list skips a minor, and each is newer than the one before.\<close>

fun climbs :: "int \<times> int \<Rightarrow> string list \<Rightarrow> bool" where
  "climbs cur [] = True"
| "climbs (cm, cp) (v # vs) = (newerThan (cm, cp) v \<and> fst (minorPatch0 v) \<le> cm + 1 \<and> climbs (minorPatch0 v) vs)"

lemma path_minors:
  "minorPatch0 (upgradePath ! 0) = (32, 13)" "minorPatch0 (upgradePath ! 1) = (33, 13)"
  "minorPatch0 (upgradePath ! 2) = (34, 12)" "minorPatch0 (upgradePath ! 3) = (35, 9)"
  "minorPatch0 (upgradePath ! 4) = (36, 5)"
  using path_versions by (simp_all add: minorPatch0_def upgradePath_def)

lemma path_list: "upgradePath = [upgradePath ! 0, upgradePath ! 1, upgradePath ! 2, upgradePath ! 3, upgradePath ! 4]"
  by (simp add: upgradePath_def)

lemma upgradeSteps_path:
  assumes "minorPatch cur = Some (cm, cp)"
  shows "case upgradeSteps cur of
    Inl e \<Rightarrow> cm < 31
  | Inr steps \<Rightarrow> cm \<ge> 31 \<and> climbs (cm, cp) steps \<and> (steps \<noteq> [] \<longrightarrow> last steps = TargetVersion) \<and>
      (steps = [] \<longleftrightarrow> \<not> newerThan (cm, cp) TargetVersion)"
proof -
  let ?p = "\<lambda>i. upgradePath ! i"
  have new: "newerThan (a, b) (?p 0) \<longleftrightarrow> 32 > a \<or> 32 = a \<and> 13 > b" "newerThan (a, b) (?p 1) \<longleftrightarrow> 33 > a \<or> 33 = a \<and> 13 > b"
    "newerThan (a, b) (?p 2) \<longleftrightarrow> 34 > a \<or> 34 = a \<and> 12 > b" "newerThan (a, b) (?p 3) \<longleftrightarrow> 35 > a \<or> 35 = a \<and> 9 > b"
    "newerThan (a, b) (?p 4) \<longleftrightarrow> 36 > a \<or> 36 = a \<and> 5 > b" for a b
    by (simp_all add: newerThan_def path_minors del: One_nat_def)
  have target: "TargetVersion = ?p 4" by (simp add: TargetVersion_def upgradePath_def)
  have first: "minorPatch0 (hd upgradePath) = (32, 13)" using path_minors(1) by (simp add: upgradePath_def)
  have steps: "upgradeSteps cur = (if cm < 31 then Inl (NotSupported cur)
      else Inr (filter (newerThan (cm, cp)) [?p 0, ?p 1, ?p 2, ?p 3, ?p 4]))"
    unfolding upgradeSteps_def using assms first path_list by simp
  show ?thesis
  proof (cases "cm < 31")
    case True
    then show ?thesis by (simp add: steps)
  next
    case False
    consider "cm = 31" | "cm = 32" | "cm = 33" | "cm = 34" | "cm = 35" | "cm = 36" | "cm > 36" using False by linarith
    then show ?thesis using False by cases (auto simp: steps new target path_minors simp del: One_nat_def)
  qed
qed

text \<open>
  C22: \<^verbatim>\<open>upgradeSteps\<close> from a readable version: either the version is too old and the upgrade is refused,
  or the steps climb by at most one minor at a time, each newer than the one before, and end at the
  target; they are empty exactly when the version is at or past the target.
\<close>

theorem upgradeSteps_climb:
  assumes "minorPatch cur = Some (cm, cp)"
  shows "case upgradeSteps cur of
    Inl e \<Rightarrow> cm < 31
  | Inr steps \<Rightarrow> cm \<ge> 31 \<and> climbs (cm, cp) steps \<and> (steps \<noteq> [] \<longrightarrow> last steps = TargetVersion) \<and>
      (steps = [] \<longleftrightarrow> \<not> newerThan (cm, cp) TargetVersion)"
  using assms by (rule upgradeSteps_path)

theorem upgradeSteps_climb_witness:
  "upgradeSteps ''v1.31.5+k3s1'' = Inr upgradePath \<and> climbs (31, 5) upgradePath"
proof -
  have m: "minorPatch ''v1.31.5+k3s1'' = Some (31, 5)" and s: "upgradeSteps ''v1.31.5+k3s1'' = Inr upgradePath"
    by code_simp+
  from upgradeSteps_climb [OF m] s show ?thesis by simp
qed

section \<open>An upgrade leaves the node on a version that came up\<close>

lemma keeps_containerState [keeps_intros]: "docker_ok sh ct made \<Longrightarrow> keeps (same_view (table ct)) (containerState sh name)"
  unfolding containerState_def by (auto intro!: viewed.keeps_rules keeps_intros split: prod.split)

lemma keeps_inspectNode [keeps_intros]: "docker_ok sh ct made \<Longrightarrow> keeps (same_view (table ct)) (inspectNode sh name)"
  unfolding inspectNode_def
  by (auto intro!: viewed.keeps_rules keeps_intros split: option.split list.split)

lemma keeps_gpuImage [keeps_intros]: "docker_ok sh ct made \<Longrightarrow> keeps (same_view (table ct)) (gpuImage sh base)"
  unfolding gpuImage_def Let_def
  by (auto intro!: viewed.keeps_rules keeps_intros split: prod.split option.split)

lemma keeps_waitReady [keeps_intros]: "docker_ok sh ct made \<Longrightarrow> keeps (same_view (table ct)) (waitReady sh name n)"
  by (induction n) (auto intro!: viewed.keeps_rules keeps_intros split: prod.split)

lemma keeps_waitNodeVersion [keeps_intros]:
  "docker_ok sh ct made \<Longrightarrow> keeps (same_view (table ct)) (waitNodeVersion sh name node v n)"
  by (induction n) (auto intro!: viewed.keeps_rules keeps_intros split: prod.split)

lemma keeps_waitRunning [keeps_intros]: "docker_ok sh ct made \<Longrightarrow> keeps (same_view (table ct)) (waitRunning sh name n)"
  by (induction n) (auto intro!: viewed.keeps_rules keeps_intros split: prod.split)

text \<open>The image a step runs, and the command line it is created with.\<close>

definition nodeImage :: "bool \<Rightarrow> string \<Rightarrow> string \<Rightarrow> string" where
  "nodeImage gpu repo v = (let img = repo @ '':'' @ dockerTag v in if gpu then ''orcinus/k3s-nvidia:'' @ afterColon img else img)"

definition stepArgs :: "nodeContainer \<Rightarrow> string \<Rightarrow> string \<Rightarrow> string list" where
  "stepArgs c name img = createArgs (c\<lparr>nc_Image := img\<rparr>) name (publishedPort c ''80'') (publishedPort c ''443'')"

lemma published_image [simp]: "publishedPort (c\<lparr>nc_Image := img\<rparr>) p = publishedPort c p"
  by (simp add: publishedPort_def bindings_def)

lemma gpuImage_name: "gpuImage sh base m = (Inr img, m') \<Longrightarrow> img = ''orcinus/k3s-nvidia:'' @ afterColon base"
  by (auto simp: gpuImage_def Let_def cmd_runs split: option.splits if_splits)

lemma upgradeStep_table:
  assumes "docker_ok sh ct made" and "upgradeStep sh name c gpu repo v m = (r, m')"
  shows "if r = Inr () then table ct m' name = Some (made (stepArgs c name (nodeImage gpu repo v))) \<and>
           (\<forall>n. n \<noteq> name \<and> n \<noteq> name @ ''-old'' \<longrightarrow> table ct m' n = table ct m n)
         else table ct m' = table ct m"
proof -
  let ?base = "repo @ '':'' @ dockerTag v"
  have fetch: "keeps (same_view (table ct)) (fetchImage sh gpu ?base)"
    unfolding fetchImage_def using assms(1) by (intro viewed.keeps_rules keeps_intros) auto
  obtain r1 m1 where f: "fetchImage sh gpu ?base m = (r1, m1)" by force
  have m1: "table ct m1 = table ct m" using keepsD [OF fetch f] by (simp add: same_view_def)
  show ?thesis
  proof (cases r1)
    case (Inl e)
    then have "r = Inl e" "m' = m1" using assms(2) f by (auto simp: upgradeStep_def Let_def ebind_def)
    then show ?thesis using m1 by simp
  next
    case (Inr img)
    then have img: "img = nodeImage gpu repo v"
      using f by (auto simp: fetchImage_def nodeImage_def Let_def cmd_runs dest: gpuImage_name split: if_splits)
    let ?c = "c\<lparr>nc_Image := img\<rparr>"
    let ?ready = "if isServer ?c then waitNodeVersion sh name (nc_Hostname ?c) v (sh_polls sh 300 3) else waitRunning sh name (sh_polls sh 20 2)"
    have run: "recreate sh name ?c (createArgs ?c name (publishedPort c ''80'') (publishedPort c ''443'')) ?ready m1 = (r, m')"
      using assms(2) f Inr by (simp add: upgradeStep_def Let_def ebind_def)
    have "keeps (same_view (table ct)) ?ready"
      using assms(1) by (intro viewed.keeps_rules keeps_intros)
    from recreate_table [OF assms(1) this run] show ?thesis
      using m1 by (simp add: img stepArgs_def)
  qed
qed

lemma upgradeSteps_table:
  assumes "docker_ok sh ct made" and "each (upgradeStep sh name c gpu repo) steps m = (r, m')"
  shows "\<exists>k\<le>length steps. (r = Inr () \<longleftrightarrow> k = length steps) \<and>
    table ct m' name = (if k = 0 then table ct m name else Some (made (stepArgs c name (nodeImage gpu repo (steps ! (k - 1)))))) \<and>
    (\<forall>n. n \<noteq> name \<and> n \<noteq> name @ ''-old'' \<longrightarrow> table ct m' n = table ct m n)"
  using assms(2)
proof (induction steps arbitrary: m)
  case (Cons v vs)
  obtain r1 m1 where v: "upgradeStep sh name c gpu repo v m = (r1, m1)" by force
  note step = upgradeStep_table [OF assms(1) v]
  show ?case
  proof (cases r1)
    case (Inl e)
    then have "r = Inl e" "m' = m1" using Cons.prems v by (auto simp: andThen_def ebind_def)
    then show ?thesis using step Inl by (intro exI [of _ 0]) simp
  next
    case (Inr u)
    then have "each (upgradeStep sh name c gpu repo) vs m1 = (r, m')" using Cons.prems v by (simp add: andThen_def ebind_def)
    from Cons.IH [OF this] obtain k where k: "k \<le> length vs" "r = Inr () \<longleftrightarrow> k = length vs"
      "table ct m' name = (if k = 0 then table ct m1 name else Some (made (stepArgs c name (nodeImage gpu repo (vs ! (k - 1))))))"
      "\<forall>n. n \<noteq> name \<and> n \<noteq> name @ ''-old'' \<longrightarrow> table ct m' n = table ct m1 n" by blast
    have "table ct m' name = Some (made (stepArgs c name (nodeImage gpu repo ((v # vs) ! k))))"
      using k(3) step Inr by (cases k) simp_all
    then show ?thesis using k(1,2,4) step Inr by (intro exI [of _ "Suc k"]) simp
  qed
qed simp


section \<open>Changing ports\<close>

lemma keeps_table_state: "keeps (same_view (table ct)) (saveState sh r)" "keeps (same_view (table ct)) LoadState"
  by (auto simp: keeps_def same_view_def table_def saveState_def LoadState_def)

lemma keeps_moveServerURL: "docker_ok sh ct made \<Longrightarrow> keeps (same_view (table ct)) (moveServerURL sh r name)"
  unfolding moveServerURL_def
  by (auto intro!: viewed.keeps_rules keeps_intros keeps_table_state split: prod.split)

definition wanted :: "int option \<Rightarrow> int \<Rightarrow> int" where
  "wanted p current = (case p of Some q \<Rightarrow> q | None \<Rightarrow> current)"

definition moveURL :: "'d shell \<Rightarrow> InitResult option \<Rightarrow> string \<Rightarrow> nodeContainer \<Rightarrow> ('d machine, unit) cmd" where
  "moveURL sh st name c = (case st of
     Some r \<Rightarrow> doIf (st_Name r = name \<and> \<not> list_ex (\<lambda>a. HasPrefix a ''--node-external-ip='') (nc_Cmd c)) (moveServerURL sh r name)
   | None \<Rightarrow> ret ())"

lemma moveServerURL_ok: "\<exists>m'. moveServerURL sh r name m = (Inr (), m')"
  by (auto simp: moveServerURL_def ebind_def attempt_def ignore_def split: prod.splits)

lemma moveURL_ok: "\<exists>m'. moveURL sh st name c m = (Inr (), m')"
  using moveServerURL_ok by (auto simp: moveURL_def doIf_def split: option.split)

lemma keeps_moveURL: "docker_ok sh ct made \<Longrightarrow> keeps (same_view (table ct)) (moveURL sh st name c)"
  unfolding moveURL_def by (auto intro!: viewed.keeps_rules keeps_moveServerURL split: option.split)

lemma containerState_ok: "\<exists>ex rn m'. containerState sh name m = (Inr (ex, rn), m')"
proof -
  obtain out ok m' where "attempt sh [''inspect'', ''-f'', ''{{.State.Running}}'', name] m = (Inr (out, ok), m')"
    by (cases "docker sh [''inspect'', ''-f'', ''{{.State.Running}}'', name] m") (auto simp: attempt_def)
  then have "containerState sh name m = (Inr (if ok then (True, TrimSpace out = ''true'') else (False, False)), m')"
    by (simp add: containerState_def ebind_def)
  then show ?thesis by (cases ok) auto
qed

lemma Update_run:
  "Update sh opts m = (let st = ms_state m; name = nameOr (uo_Name opts) st in
     if standalone st then (Inl (NotSupported ''standalone ports''), m)
     else ebind (containerState sh name) (\<lambda>(exists, running).
       if \<not> exists \<or> \<not> running then fail (NotRunning name)
       else ebind (inspectNode sh name) (\<lambda>c.
         let h = wanted (uo_HTTPPort opts) (publishedPort c ''80''); hs = wanted (uo_HTTPSPort opts) (publishedPort c ''443'') in
         if h = publishedPort c ''80'' \<and> hs = publishedPort c ''443'' then ret (h, hs)
         else andThen (recreate sh name c (createArgs c name h hs) (waitReady sh name (sh_polls sh 180 3)))
             (andThen (moveURL sh st name c) (ret (h, hs))))) m)"
  by (simp add: Update_def LoadState_def ebind_def wanted_def moveURL_def Let_def cong: if_cong)

text \<open>
  \<^verbatim>\<open>cluster update\<close>. When it succeeds it reports the requested ports, or those the node had where
  none was requested; if they are the ones it has, nothing is touched, else the node is the inspected
  container with exactly these ingress ports. When it fails, no container changed.
\<close>

theorem Update_ports:
  assumes "docker_ok sh ct made" and "Update sh opts m = (r, m')" and "name = nameOr (uo_Name opts) (ms_state m)"
  shows "case r of Inl e \<Rightarrow> table ct m' = table ct m
    | Inr (h, hs) \<Rightarrow> \<exists>c m0. fst (inspectNode sh name m0) = Inr c \<and> table ct m0 = table ct m \<and>
        h = wanted (uo_HTTPPort opts) (publishedPort c ''80'') \<and> hs = wanted (uo_HTTPSPort opts) (publishedPort c ''443'') \<and>
        (if h = publishedPort c ''80'' \<and> hs = publishedPort c ''443'' then table ct m' = table ct m
         else table ct m' name = Some (made (createArgs c name h hs)) \<and>
           (\<forall>n. n \<noteq> name \<and> n \<noteq> name @ ''-old'' \<longrightarrow> table ct m' n = table ct m n))"
proof (cases "standalone (ms_state m)")
  case True
  then show ?thesis using assms(2) by (auto simp: Update_run Let_def)
next
  case False
  obtain ex rn m0 where cs: "containerState sh name m = (Inr (ex, rn), m0)" using containerState_ok by blast
  have m0: "table ct m0 = table ct m"
    using keepsD [OF keeps_containerState [OF assms(1)] cs] by (simp add: same_view_def)
  obtain r1 m1 where ins: "inspectNode sh name m0 = (r1, m1)" by force
  have m1: "table ct m1 = table ct m"
    using keepsD [OF keeps_inspectNode [OF assms(1)] ins] m0 by (simp add: same_view_def)
  show ?thesis
  proof (cases "ex \<and> rn \<and> \<not> isl r1")
    case stop: False
    then have "isl r" "m' \<in> {m0, m1}"
      using assms(2) cs ins False by (auto simp: Update_run Let_def ebind_def assms(3) split: if_splits sum.splits)
    then show ?thesis using m0 m1 by (cases r) auto
  next
    case go: True
    then obtain c where c: "r1 = Inr c" by (cases r1) auto
    let ?h = "wanted (uo_HTTPPort opts) (publishedPort c ''80'')" and ?hs = "wanted (uo_HTTPSPort opts) (publishedPort c ''443'')"
    let ?tail = "andThen (moveURL sh (ms_state m) name c) (ret (?h, ?hs))"
    have run: "(if ?h = publishedPort c ''80'' \<and> ?hs = publishedPort c ''443'' then ret (?h, ?hs)
        else andThen (recreate sh name c (createArgs c name ?h ?hs) (waitReady sh name (sh_polls sh 180 3))) ?tail) m1 = (r, m')"
      using assms(2) cs ins False go c by (simp add: Update_run Let_def ebind_def assms(3) cong: if_cong)
    show ?thesis
    proof (cases "?h = publishedPort c ''80'' \<and> ?hs = publishedPort c ''443''")
      case True
      then show ?thesis using run m0 m1 ins c by (auto intro!: exI [of _ c] exI [of _ m0])
    next
      case new: False
      obtain r2 m2 where rc: "recreate sh name c (createArgs c name ?h ?hs) (waitReady sh name (sh_polls sh 180 3)) m1 = (r2, m2)" by force
      note at = recreate_table [OF assms(1) keeps_waitReady [OF assms(1)] rc]
      obtain m3 where mv: "moveURL sh (ms_state m) name c m2 = (Inr (), m3)" using moveURL_ok by blast
      have m3: "table ct m3 = table ct m2" using keepsD [OF keeps_moveURL [OF assms(1)] mv] by (simp add: same_view_def)
      have res: "(r, m') = (case r2 of Inl e \<Rightarrow> (Inl e, m2) | Inr u \<Rightarrow> (Inr (?h, ?hs), m3))"
        using run new rc mv by (auto simp: andThen_def ebind_def split: sum.splits)
      show ?thesis
      proof (cases r2)
        case (Inl e)
        then show ?thesis using res at m1 by auto
      next
        case (Inr u)
        then have "r = Inr (?h, ?hs)" "m' = m3" using res by auto
        moreover have "table ct m3 name = Some (made (createArgs c name ?h ?hs))"
          "\<forall>n. n \<noteq> name \<and> n \<noteq> name @ ''-old'' \<longrightarrow> table ct m3 n = table ct m n"
          using at Inr m1 m3 by simp_all
        moreover have "fst (inspectNode sh name m0) = Inr c" using ins c by simp
        ultimately show ?thesis using m0 new by (simp del: split_paired_Ex) blast
      qed
    qed
  qed
qed

section \<open>A docker in memory\<close>

definition memory_docker :: "string list \<Rightarrow> (string \<times> string list) list \<Rightarrow> (string \<times> bool) \<times> (string \<times> string list) list" where
  "memory_docker args d =
     (if args = [] then (([], False), d)
      else if hd args = ''rm'' then (([], True), AList.delete (last args) d)
      else if hd args = ''rename'' then
        (case (map_of d (args ! 1), map_of d (args ! 2)) of
           (Some i, None) \<Rightarrow> (([], True), AList.delete (args ! 1) (AList.update (args ! 2) i d)) | _ \<Rightarrow> (([], False), d))
      else if hd args = ''create'' then
        (if map_of d (args ! 3) = None then (([], True), AList.update (args ! 3) args d) else (([], False), d))
      else ((if hd args = ''exec'' then '' Ready'' else ''true'', True), d))"

definition sample_node :: nodeContainer where
  "sample_node = \<lparr>nc_Image = ''rancher/k3s:v1.35.9-k3s1'', nc_Cmd = [''agent''], nc_Hostname = ''n1'', nc_Env = [''K3S_TOKEN=t''],
     nc_Labels = [(''orcinus.cluster'', ''orcinus'')], nc_PortBindings = [(''6443/tcp'', [(''127.0.0.1'', ''6443'')])],
     nc_DeviceRequests = [], nc_RestartPolicy = ''no'',
     nc_Mounts = [\<lparr>mt_Type = ''volume'', mt_Name = ''data'', mt_Source = [], mt_Destination = ''/var''\<rparr>]\<rparr>"

definition memory_shell :: "(string \<times> string list) list shell" where
  "memory_shell = \<lparr>sh_docker = memory_docker, sh_sleep = (\<lambda>n d. d), sh_inspect = (\<lambda>out. Some [sample_node]),
     sh_MkdirTemp = Some ''/tmp/x'', sh_write = (\<lambda>_. True), sh_polls = (\<lambda>timeout period. 2), sh_linux = True, sh_self = Some ''/bin/orcinus''\<rparr>"

lemma memory_docker_ok: "docker_ok memory_shell map_of id"
  unfolding docker_ok_def memory_shell_def
  by (auto simp: memory_docker_def quiet_def fun_eq_iff split: option.splits if_splits)

definition sample_machine :: "(string \<times> string list) list machine" where
  "sample_machine = \<lparr>ms_docker = [(''orcinus'', [''old'']), (''db'', [''x''])], ms_state = None, ms_files = []\<rparr>"




theorem Update_ports_witness:
  "table map_of (snd (Update memory_shell \<lparr>uo_Name = ''orcinus'', uo_HTTPPort = Some 80, uo_HTTPSPort = None\<rparr>
     sample_machine)) ''orcinus'' = Some (createArgs sample_node ''orcinus'' 80 0)"
proof -
  let ?o = "\<lparr>uo_Name = ''orcinus'', uo_HTTPPort = Some 80, uo_HTTPSPort = None\<rparr>"
  let ?run = "Update memory_shell ?o sample_machine"
  have r: "fst ?run = Inr (80, 0)" by code_simp
  have run: "?run = (fst ?run, snd ?run)" by simp
  have nm: "''orcinus'' = nameOr (uo_Name ?o) (ms_state sample_machine)" by (simp add: nameOr_def)
  have node: "fst (inspectNode memory_shell ''orcinus'' m0) = Inr c \<Longrightarrow> c = sample_node" for c m0
    by (auto simp: inspectNode_def ebind_def memory_shell_def split: prod.splits sum.splits)
  have ports: "publishedPort sample_node ''80'' = 0" "publishedPort sample_node ''443'' = 0" by code_simp+
  from Update_ports [OF memory_docker_ok run nm] r show ?thesis
    by (auto dest!: node simp: ports)
qed

end
