(* ===== verification/Cluster_Life.thy ===== *)
theory Cluster_Life
  imports Docker_Node
begin

text \<open>
  The life of a cluster: \<^verbatim>\<open>Init\<close>, \<^verbatim>\<open>Join\<close>, \<^verbatim>\<open>Status\<close> and \<^verbatim>\<open>Down\<close> of \<^verbatim>\<open>pkg/cluster/cluster.go\<close>, with the
  helpers they call, and the default build's \<^verbatim>\<open>standalone_stub.go\<close>. The name resolver and the JSON reader
  are arguments; the standalone provider is a record of its operations, which the stub fills.

  The theorems: starting a cluster that exists creates and removes no container; a new one is published
  on the loopback interface unless an address is advertised; a node joins only with a server and a token,
  and a control-plane node only next to one of its cluster; taking a cluster down clears the saved state.
\<close>

section \<open>Options and the outside\<close>

record InitOptions =
  io_Name :: string
  io_Image :: string
  io_APIPort :: int
  io_HTTPPort :: int
  io_HTTPSPort :: int
  io_BindAddress :: string
  io_Advertise :: string
  io_Token :: string
  io_ClusterInit :: bool
  io_DatastoreEndpoint :: string
  io_ExtraServerArgs :: "string list"
  io_KubeconfigPath :: string
  io_Runtime :: string
  io_GPUs :: bool

record JoinOptions =
  jo_Name :: string
  jo_Image :: string
  jo_ServerURL :: string
  jo_Token :: string
  jo_Role :: string
  jo_Runtime :: string
  jo_Advertise :: string
  jo_GPUs :: bool

record network =
  nw_isIP :: "string \<Rightarrow> bool"                              \<comment> \<open>net.ParseIP\<close>
  nw_lookup :: "string \<Rightarrow> string option list option"       \<comment> \<open>net.LookupIP, each address as IPv4\<close>
  nw_url :: "string \<Rightarrow> (string \<times> string) option"           \<comment> \<open>host and port of a URL\<close>
  nw_route :: "string \<Rightarrow> string option option"             \<comment> \<open>local address of a UDP socket\<close>

record 'd provider =
  pr_init :: "InitOptions \<Rightarrow> ('d machine, InitResult) cmd"
  pr_join :: "JoinOptions \<Rightarrow> ('d machine, unit) cmd"
  pr_down :: "string \<Rightarrow> ('d machine, nat) cmd"
  pr_running :: "string \<Rightarrow> 'd machine \<Rightarrow> bool"
  pr_nodes :: "string \<Rightarrow> ('d machine, string) cmd"
  pr_upgrade :: "string \<Rightarrow> ('d machine, string) cmd"

definition ErrNotStandalone :: error where
  "ErrNotStandalone = NotSupported ''standalone runtime not compiled in''"

definition stub :: "'d provider" where
  "stub = \<lparr>pr_init = (\<lambda>opts. fail ErrNotStandalone), pr_join = (\<lambda>opts. fail ErrNotStandalone),
     pr_down = (\<lambda>name. fail ErrNotStandalone), pr_running = (\<lambda>name m. False), pr_nodes = (\<lambda>kc. ret []),
     pr_upgrade = (\<lambda>name. fail ErrNotStandalone)\<rparr>"

record 'd site =
  si_shell :: "'d shell"
  si_net :: network
  si_provider :: "'d provider"
  si_nvidia :: bool                               \<comment> \<open>nvidia-container-runtime is in the path\<close>
  si_kubeconfig :: string                         \<comment> \<open>KubeconfigPath()\<close>
  si_args :: "string \<Rightarrow> string list option"        \<comment> \<open>JSON\<close>

section \<open>Addresses\<close>

definition addSAN :: "string \<Rightarrow> string list \<Rightarrow> string list" where
  "addSAN s sans = (if s = [] \<or> s = ''0.0.0.0'' then sans else if s \<in> set sans then sans else sans @ [s])"

definition tlsSANs :: "string \<Rightarrow> string \<Rightarrow> string list" where
  "tlsSANs bind advertise = addSAN bind (addSAN advertise [''127.0.0.1''])"

definition resolveIPv4 :: "network \<Rightarrow> string \<Rightarrow> error + string" where
  "resolveIPv4 nw s =
     (if nw_isIP nw s then Inr s
      else case nw_lookup nw s of
        None \<Rightarrow> Inl (CmdError ''resolve'')
      | Some ips \<Rightarrow> (case List.map_filter (\<lambda>ip. ip) ips of
           v4 # _ \<Rightarrow> Inr v4
         | [] \<Rightarrow> Inl (CmdError ''no IPv4 address'')))"

definition JoinHostPort :: "string \<Rightarrow> string \<Rightarrow> string" where
  "JoinHostPort host port = (if CHR '':'' \<in> set host then ''['' @ host @ '']:'' @ port else host @ '':'' @ port)"

definition routeSourceIP :: "network \<Rightarrow> string \<Rightarrow> error + string" where
  "routeSourceIP nw serverURL = (case nw_url nw serverURL of
     None \<Rightarrow> Inl (CmdError ''parse server URL'')
   | Some (host, port) \<Rightarrow>
       if host = [] then Inl (CmdError ''no host in server URL'')
       else (case nw_route nw (JoinHostPort host (if port = [] then ''6443'' else port)) of
          None \<Rightarrow> Inl (CmdError ''dial'')
        | Some None \<Rightarrow> Inl (CmdError ''no local address'')
        | Some (Some ip) \<Rightarrow> Inr ip))"

definition checkNativeGPU :: "'d site \<Rightarrow> ('d machine, unit) cmd" where
  "checkNativeGPU si = (if si_nvidia si then ret () else fail (CmdError ''nvidia-container-runtime''))"

section \<open>Starting\<close>

definition DefaultImage :: string where
  "DefaultImage = ''rancher/k3s:v1.36.5-k3s1''"

definition cdiGPUs :: string where
  "cdiGPUs = ''nvidia.com/gpu=all''"

definition orElseText :: "string \<Rightarrow> string \<Rightarrow> string" where
  "orElseText s d = (if s = [] then d else s)"

definition initDefaults :: "'d site \<Rightarrow> InitOptions \<Rightarrow> InitOptions" where
  "initDefaults si o0 = o0\<lparr>io_Name := orElseText (io_Name o0) DefaultName,
     io_Image := orElseText (io_Image o0) DefaultImage,
     io_APIPort := (if io_APIPort o0 = 0 then 6443 else io_APIPort o0),
     io_KubeconfigPath := orElseText (io_KubeconfigPath o0) (si_kubeconfig si),
     io_Runtime := orElseText (io_Runtime o0) ''docker''\<rparr>"

definition bindDefaults :: "InitOptions \<Rightarrow> InitOptions" where
  "bindDefaults o0 =
     (let b = orElseText (io_BindAddress o0) ''127.0.0.1''
      in o0\<lparr>io_BindAddress := (if io_Advertise o0 \<noteq> [] \<and> b = ''127.0.0.1'' then ''0.0.0.0'' else b)\<rparr>)"

definition overlayPorts :: "string list" where
  "overlayPorts = [''-p'', ''0.0.0.0:8472:8472/udp'', ''-p'', ''0.0.0.0:10250:10250'']"

definition runFlags :: "InitOptions \<Rightarrow> string list" where
  "runFlags o0 =
     [''run'', ''-d'', ''--privileged'', ''--name'', io_Name o0, ''--label'', ''orcinus.cluster='' @ io_Name o0,
      ''-p'', io_BindAddress o0 @ '':'' @ Itoa (io_APIPort o0) @ '':6443'']
     @ (if io_GPUs o0 then [''--device'', cdiGPUs] else [])
     @ publish (io_HTTPPort o0) ''80'' @ publish (io_HTTPSPort o0) ''443''
     @ (if io_Advertise o0 \<noteq> [] then overlayPorts else [])"

definition advertiseArgs :: "network \<Rightarrow> InitOptions \<Rightarrow> error + string list" where
  "advertiseArgs nw o0 =
     (if io_Advertise o0 = [] then Inr []
      else rbind (resolveIPv4 nw (io_Advertise o0)) (\<lambda>ip. Inr
        ([''--node-external-ip='' @ ip, ''--flannel-external-ip'',
          ''--kube-apiserver-arg=kubelet-preferred-address-types=ExternalIP,InternalIP,Hostname'']
         @ (if io_APIPort o0 \<noteq> 6443 then [''--advertise-port='' @ Itoa (io_APIPort o0)] else []))))"

definition serverCmd :: "network \<Rightarrow> InitOptions \<Rightarrow> string \<Rightarrow> error + string list" where
  "serverCmd nw o0 im = rbind (advertiseArgs nw o0) (\<lambda>adv. Inr
     ([im, ''server'', ''--write-kubeconfig-mode=644'']
      @ map (\<lambda>san. ''--tls-san='' @ san) (tlsSANs (io_BindAddress o0) (io_Advertise o0)) @ adv
      @ (if io_Token o0 \<noteq> [] then [''--token='' @ io_Token o0] else [])
      @ (if io_ClusterInit o0 then [''--cluster-init''] else [])
      @ (if io_DatastoreEndpoint o0 \<noteq> [] then [''--datastore-endpoint='' @ io_DatastoreEndpoint o0] else [])
      @ io_ExtraServerArgs o0))"

definition startServer :: "'d site \<Rightarrow> InitOptions \<Rightarrow> ('d machine, unit) cmd" where
  "startServer si o0 =
     ebind (if io_GPUs o0 then gpuImage (si_shell si) (io_Image o0) else ret (io_Image o0)) (\<lambda>im.
     ebind (lift (serverCmd (si_net si) o0 im)) (\<lambda>cmd.
       andThen (must (si_shell si) ''start cluster'' (runFlags o0 @ cmd)) (ret ())))"

section \<open>Metrics\<close>

definition quote :: "string \<Rightarrow> string" where
  "quote s = CHR 0x22 # s @ [CHR 0x22]"

text \<open>One JSON patch operation on the arguments of metrics-server.\<close>

definition argPatch :: "string \<Rightarrow> string \<Rightarrow> string \<Rightarrow> string" where
  "argPatch op idx val = ''[{'' @ quote ''op'' @ '':'' @ quote op @ '','' @ quote ''path'' @ '':''
     @ quote (''/spec/template/spec/containers/0/args/'' @ idx) @ '','' @ quote ''value'' @ '':'' @ quote val @ ''}]''"

definition addressTypes :: string where
  "addressTypes = ''--kubelet-preferred-address-types=ExternalIP,InternalIP,Hostname''"

definition patchMetrics :: "'d shell \<Rightarrow> string \<Rightarrow> string \<Rightarrow> ('d machine, unit) cmd" where
  "patchMetrics sh name patch = ignore (attempt sh [''exec'', name, ''kubectl'', ''-n'', ''kube-system'', ''patch'',
     ''deployment'', ''metrics-server'', ''--type=json'', ''-p'', patch])"

fun findIndex :: "('a \<Rightarrow> bool) \<Rightarrow> nat \<Rightarrow> 'a list \<Rightarrow> nat option" where
  "findIndex P i [] = None"
| "findIndex P i (x # xs) = (if P x then Some i else findIndex P (Suc i) xs)"

definition patchMetricsAddressTypes :: "'d site \<Rightarrow> string \<Rightarrow> ('d machine, unit) cmd" where
  "patchMetricsAddressTypes si name =
     ebind (attempt (si_shell si) [''exec'', name, ''kubectl'', ''-n'', ''kube-system'', ''get'', ''deploy'', ''metrics-server'',
       ''-o'', ''jsonpath={.spec.template.spec.containers[0].args}'']) (\<lambda>(out, ok).
       if \<not> ok then ret ()
       else case si_args si (TrimSpace out) of
         None \<Rightarrow> ret ()
       | Some args \<Rightarrow> (case findIndex (\<lambda>a. HasPrefix a ''--kubelet-preferred-address-types'') 0 args of
            Some i \<Rightarrow> patchMetrics (si_shell si) name (argPatch ''replace'' (Itoa (int i)) addressTypes)
          | None \<Rightarrow> patchMetrics (si_shell si) name (argPatch ''add'' ''-'' addressTypes)))"

fun enableMetricsLoop :: "'d site \<Rightarrow> string \<Rightarrow> bool \<Rightarrow> nat \<Rightarrow> ('d machine, unit) cmd" where
  "enableMetricsLoop si name externalFirst 0 = ret ()"
| "enableMetricsLoop si name externalFirst (Suc n) =
     ebind (attempt (si_shell si) [''exec'', name, ''kubectl'', ''-n'', ''kube-system'', ''get'', ''deploy'', ''metrics-server'']) (\<lambda>(out, ok).
       if ok \<and> Contains out ''metrics-server''
       then andThen (patchMetrics (si_shell si) name (argPatch ''add'' ''-'' ''--kubelet-insecure-tls''))
              (doIf externalFirst (patchMetricsAddressTypes si name))
       else andThen (sleep (si_shell si) 3) (enableMetricsLoop si name externalFirst n))"

definition enableMetrics :: "'d site \<Rightarrow> string \<Rightarrow> bool \<Rightarrow> ('d machine, unit) cmd" where
  "enableMetrics si name externalFirst = enableMetricsLoop si name externalFirst 20"

section \<open>Init\<close>

function ReplaceAll :: "string \<Rightarrow> string \<Rightarrow> string \<Rightarrow> string" where
  "ReplaceAll s old new = (if old = [] then s else case Cut s old of
     None \<Rightarrow> s | Some (a, b) \<Rightarrow> a @ new @ ReplaceAll b old new)"
  by pat_completeness auto
termination
  by (relation "measure (\<lambda>(s, old, new). length s)") (auto dest!: Cut_Some)

declare ReplaceAll.simps [simp del]

definition writeFile :: "'d shell \<Rightarrow> string \<Rightarrow> string \<Rightarrow> ('d machine, unit) cmd" where
  "writeFile sh path content m = (if sh_write sh path then (Inr (), m\<lparr>ms_files := AList.update path content (ms_files m)\<rparr>)
                                  else (Inl (WriteError path), m))"

definition otherIngressPorts :: "InitOptions \<Rightarrow> nodeContainer \<Rightarrow> bool" where
  "otherIngressPorts o0 c \<longleftrightarrow> io_HTTPPort o0 > 0 \<and> publishedPort c ''80'' \<noteq> io_HTTPPort o0 \<or>
     io_HTTPSPort o0 > 0 \<and> publishedPort c ''443'' \<noteq> io_HTTPSPort o0"

text \<open>An existing container is reused when it runs and publishes the ingress ports that are asked for.\<close>

definition reuseServer :: "'d site \<Rightarrow> InitOptions \<Rightarrow> bool \<Rightarrow> bool \<Rightarrow> ('d machine, unit) cmd" where
  "reuseServer si o0 exists running =
     (if exists \<and> \<not> running then fail (NotRunning (io_Name o0))
      else if exists \<and> (io_HTTPPort o0 > 0 \<or> io_HTTPSPort o0 > 0)
      then ebind (optional (inspectNode (si_shell si) (io_Name o0))) (\<lambda>c. case c of
             Some c \<Rightarrow> if otherIngressPorts o0 c then fail (NotSupported ''other ingress ports'') else ret ()
           | None \<Rightarrow> ret ())
      else ret ())"

text \<open>After the node is ready: the kubeconfig for the host, the join token and address, the saved state.\<close>

definition recordCluster :: "'d site \<Rightarrow> InitOptions \<Rightarrow> ('d machine, InitResult) cmd" where
  "recordCluster si o0 =
     (let sh = si_shell si; name = io_Name o0 in
      ebind (must sh ''read kubeconfig'' [''exec'', name, ''cat'', ''/etc/rancher/k3s/k3s.yaml'']) (\<lambda>raw.
      let kcHost = (if io_Advertise o0 \<noteq> [] then io_Advertise o0 else ''127.0.0.1'');
          kubeconfig = ReplaceAll raw ''127.0.0.1:6443'' (kcHost @ '':'' @ Itoa (io_APIPort o0)) in
      andThen (writeFile sh (io_KubeconfigPath o0) kubeconfig)
     (ebind (must sh ''read node-token'' [''exec'', name, ''cat'', ''/var/lib/rancher/k3s/server/node-token'']) (\<lambda>token.
      ebind (must sh ''inspect container'' [''inspect'', ''-f'', bridgeIP, name]) (\<lambda>ip.
      let serverURL = (if io_Advertise o0 \<noteq> [] then ''https://'' @ io_Advertise o0 @ '':'' @ Itoa (io_APIPort o0)
                       else ''https://'' @ TrimSpace ip @ '':6443'');
          res = \<lparr>st_Name = name, st_Image = io_Image o0, st_ServerURL = serverURL, st_Token = TrimSpace token,
                 st_APIPort = io_APIPort o0, st_KubeconfigPath = io_KubeconfigPath o0, st_Runtime = ''docker''\<rparr> in
      andThen (saveState sh res) (ret res))))))"

definition Init :: "'d site \<Rightarrow> InitOptions \<Rightarrow> ('d machine, InitResult) cmd" where
  "Init si o0 =
     (let o1 = initDefaults si o0; sh = si_shell si in
      if io_Runtime o1 = ''standalone'' then
        andThen (doIf (io_GPUs o1) (checkNativeGPU si)) (pr_init (si_provider si) o1)
      else if io_Runtime o1 \<noteq> ''docker'' then fail (UnknownName (io_Runtime o1))
      else let o1 = bindDefaults o1; name = io_Name o1 in
        ebind (containerState sh name) (\<lambda>(exists, running).
        andThen (reuseServer si o1 exists running)
       (andThen (doIf (\<not> exists) (startServer si o1))
       (andThen (waitReady sh name (sh_polls sh 180 3))
       (andThen (doIf (\<not> exists) (enableMetrics si name (io_Advertise o1 \<noteq> [])))
       (andThen (doIf (io_Advertise o1 \<noteq> []) (applyVXLANChecksumFix sh name))
          (recordCluster si o1)))))))"

section \<open>Join\<close>

definition hasLocalClusterNode :: "'d shell \<Rightarrow> string \<Rightarrow> ('d machine, bool) cmd" where
  "hasLocalClusterNode sh cluster = ebind (attempt sh [''ps'', ''-q'', ''--filter'', ''label=orcinus.cluster='' @ cluster])
     (\<lambda>(out, ok). ret (ok \<and> TrimSpace out \<noteq> []))"

definition joinDefaults :: "InitResult option \<Rightarrow> JoinOptions \<Rightarrow> JoinOptions" where
  "joinDefaults st o0 =
     (let o1 = o0\<lparr>jo_Role := orElseText (jo_Role o0) ''agent''\<rparr>;
          o1 = (case st of None \<Rightarrow> o1 | Some r \<Rightarrow> o1\<lparr>jo_ServerURL := orElseText (jo_ServerURL o1) (st_ServerURL r),
            jo_Token := orElseText (jo_Token o1) (st_Token r), jo_Image := orElseText (jo_Image o1) (st_Image r),
            jo_Runtime := orElseText (jo_Runtime o1) (st_Runtime r)\<rparr>);
          clusterName = (case st of None \<Rightarrow> DefaultName | Some r \<Rightarrow> st_Name r)
      in o1\<lparr>jo_Runtime := orElseText (jo_Runtime o1) ''docker'',
            jo_Name := orElseText (jo_Name o1) (clusterName @ ''-'' @ jo_Role o1)\<rparr>)"

definition joinBase :: "string \<Rightarrow> string \<Rightarrow> bool \<Rightarrow> string list" where
  "joinBase name cluster crossHost =
     [''run'', ''-d'', ''--privileged'', ''--name'', name, ''--label'', ''orcinus.cluster='' @ cluster]
     @ (if crossHost then overlayPorts else [])"

definition joinNode :: "'d site \<Rightarrow> JoinOptions \<Rightarrow> string \<Rightarrow> bool \<Rightarrow> ('d machine, unit) cmd" where
  "joinNode si o1 cluster crossHost =
     (let sh = si_shell si in
      ebind (if \<not> crossHost \<or> jo_Advertise o1 \<noteq> [] then ret (jo_Advertise o1)
             else lift (routeSourceIP (si_net si) (jo_ServerURL o1))) (\<lambda>advertise.
      ebind (if jo_GPUs o1 then gpuImage sh (jo_Image o1) else ret (jo_Image o1)) (\<lambda>im.
      let base = joinBase (jo_Name o1) cluster crossHost @ (if jo_GPUs o1 then [''--device'', cdiGPUs] else []) in
      ebind (if jo_Role o1 = ''server''
             then ret (base @ [im, ''server'', ''--server'', jo_ServerURL o1, ''--token'', jo_Token o1])
             else ebind (if crossHost then ebind (lift (resolveIPv4 (si_net si) advertise)) (\<lambda>ip. ret [''--node-external-ip='' @ ip])
                         else ret [])
                    (\<lambda>ext. ret (base @ [''-e'', ''K3S_URL='' @ jo_ServerURL o1, ''-e'', ''K3S_TOKEN='' @ jo_Token o1, im, ''agent''] @ ext)))
        (\<lambda>args. andThen (must sh ''start node'' args) (doIf crossHost (applyVXLANChecksumFix sh (jo_Name o1)))))))"

definition Join :: "'d site \<Rightarrow> JoinOptions \<Rightarrow> ('d machine, unit) cmd" where
  "Join si o0 =
     (let role = orElseText (jo_Role o0) ''agent'' in
      if role \<noteq> ''agent'' \<and> role \<noteq> ''server'' then fail (UnknownName role)
      else ebind LoadState (\<lambda>st.
        let o1 = joinDefaults st o0;
            cluster = (case st of None \<Rightarrow> DefaultName | Some r \<Rightarrow> st_Name r) in
        if jo_ServerURL o1 = [] \<or> jo_Token o1 = [] then fail (Missing ''--server/--token'')
        else if jo_Runtime o1 = ''standalone'' then
          andThen (doIf (jo_GPUs o1) (checkNativeGPU si)) (pr_join (si_provider si) o1)
        else if jo_Runtime o1 \<noteq> ''docker'' then fail (UnknownName (jo_Runtime o1))
        else let o1 = o1\<lparr>jo_Image := orElseText (jo_Image o1) DefaultImage\<rparr> in
          ebind (hasLocalClusterNode (si_shell si) cluster) (\<lambda>here.
            if \<not> here \<and> jo_Role o1 = ''server'' then fail (NotSupported ''cross-host control-plane join'')
            else joinNode si o1 cluster (\<not> here))))"

section \<open>Status and Down\<close>

record StatusResult =
  sr_State :: InitResult
  sr_Running :: bool
  sr_Nodes :: string

definition Status :: "'d site \<Rightarrow> string \<Rightarrow> ('d machine, StatusResult) cmd" where
  "Status si name0 = ebind LoadState (\<lambda>st. case st of
     None \<Rightarrow> fail (Missing ''cluster state'')
   | Some r \<Rightarrow>
       let name = orElseText name0 (st_Name r) in
       if st_Runtime r = ''standalone'' then
         (\<lambda>m. let running = pr_running (si_provider si) name m in
            ebind (if running then pr_nodes (si_provider si) (st_KubeconfigPath r) else ret [])
              (\<lambda>nodes. ret \<lparr>sr_State = r, sr_Running = running, sr_Nodes = nodes\<rparr>) m)
       else ebind (containerState (si_shell si) name) (\<lambda>(exists, running).
         ebind (if running then attempt (si_shell si) [''exec'', name, ''kubectl'', ''get'', ''nodes'', ''-o'', ''wide'']
                else ret ([], False))
           (\<lambda>(out, ok). ret \<lparr>sr_State = r, sr_Running = running, sr_Nodes = (if ok then out else [])\<rparr>)))"

fun removeIDs :: "'d shell \<Rightarrow> string list \<Rightarrow> nat \<Rightarrow> ('d machine, nat) cmd" where
  "removeIDs sh [] removed = ret removed"
| "removeIDs sh (i # ids) removed = ebind (attempt sh [''rm'', ''-f'', i])
     (\<lambda>(out, ok). removeIDs sh ids (if ok then Suc removed else removed))"

definition clearState :: "'d site \<Rightarrow> ('d machine, unit) cmd" where
  "clearState si m = (Inr (), m\<lparr>
     ms_files := (if sh_write (si_shell si) (si_kubeconfig si) then AList.delete (si_kubeconfig si) (ms_files m) else ms_files m),
     ms_state := (if sh_write (si_shell si) clusterFile then None else ms_state m)\<rparr>)"

definition Down :: "'d site \<Rightarrow> string \<Rightarrow> ('d machine, nat) cmd" where
  "Down si name0 = ebind LoadState (\<lambda>st.
     let name = nameOr name0 st; sh = si_shell si in
     if standalone st then pr_down (si_provider si) name
     else ebind (attempt sh [''ps'', ''-aq'', ''--filter'', ''label=orcinus.cluster='' @ name]) (\<lambda>(ids, ok).
       ebind (if ok then removeIDs sh (Fields ids) 0 else ret 0) (\<lambda>removed.
       andThen (attempt sh [''rm'', ''-f'', name])
      (andThen (clearState si) (ret removed)))))"

section \<open>An existing cluster is left alone\<close>

lemma keeps_writeFile: "keeps (same_view (table ct)) (writeFile sh path content)"
  by (auto simp: keeps_def same_view_def table_def writeFile_def)

lemma keeps_reuseServer: "docker_ok (si_shell si) ct made \<Longrightarrow> keeps (same_view (table ct)) (reuseServer si o0 ex rn)"
  unfolding reuseServer_def
  by (auto intro!: viewed.keeps_rules keeps_intros split: option.split)

lemma keeps_recordCluster: "docker_ok (si_shell si) ct made \<Longrightarrow> keeps (same_view (table ct)) (recordCluster si o0)"
  unfolding recordCluster_def Let_def
  by (auto intro!: viewed.keeps_rules keeps_intros keeps_writeFile keeps_table_state)

text \<open>The part of \<^verbatim>\<open>Init\<close> after docker was asked for the container.\<close>

definition initFrom :: "'d site \<Rightarrow> InitOptions \<Rightarrow> bool \<Rightarrow> bool \<Rightarrow> ('d machine, InitResult) cmd" where
  "initFrom si o1 exists running =
     (let sh = si_shell si; name = io_Name o1 in
        andThen (reuseServer si o1 exists running)
       (andThen (doIf (\<not> exists) (startServer si o1))
       (andThen (waitReady sh name (sh_polls sh 180 3))
       (andThen (doIf (\<not> exists) (enableMetrics si name (io_Advertise o1 \<noteq> [])))
       (andThen (doIf (io_Advertise o1 \<noteq> []) (applyVXLANChecksumFix sh name))
          (recordCluster si o1))))))"

definition dockerRuntime :: "InitOptions \<Rightarrow> bool" where
  "dockerRuntime o0 \<longleftrightarrow> io_Runtime o0 = [] \<or> io_Runtime o0 = ''docker''"

lemma Init_docker:
  assumes "dockerRuntime o0"
  shows "Init si o0 = ebind (containerState (si_shell si) (orElseText (io_Name o0) DefaultName))
    (\<lambda>(ex, rn). initFrom si (bindDefaults (initDefaults si o0)) ex rn)"
  using assms
  by (auto simp: Init_def initFrom_def Let_def initDefaults_def bindDefaults_def dockerRuntime_def orElseText_def cong: if_cong)

text \<open>
  \<^verbatim>\<open>cluster init\<close> of a name docker already has. Whatever happens, no container is created, removed or
  renamed; if the container is stopped, the command fails, and it never gets as far as writing a file or
  the saved state.
\<close>

theorem Init_existing:
  assumes "docker_ok (si_shell si) ct made" and "dockerRuntime o0"
    and "containerState (si_shell si) (orElseText (io_Name o0) DefaultName) m = (Inr (True, running), m0)"
    and "Init si o0 m = (r, m')"
  shows "table ct m' = table ct m \<and>
    (\<not> running \<longrightarrow> r = Inl (NotRunning (orElseText (io_Name o0) DefaultName)) \<and> m' = m0)"
proof -
  let ?o = "bindDefaults (initDefaults si o0)"
  have run: "initFrom si ?o True running m0 = (r, m')"
    using assms(3,4) by (simp add: Init_docker [OF assms(2)] ebind_def)
  have "keeps (same_view (table ct)) (initFrom si ?o True running)"
    unfolding initFrom_def Let_def doIf_simps not_True_eq_False
    using assms(1) by (intro viewed.keeps_rules keeps_intros keeps_reuseServer keeps_recordCluster)
  then have "table ct m' = table ct m0" using run keepsD by (fastforce simp: same_view_def)
  moreover have "table ct m0 = table ct m"
    using keepsD [OF keeps_containerState [OF assms(1)] assms(3)] by (simp add: same_view_def)
  moreover have "r = Inl (NotRunning (orElseText (io_Name o0) DefaultName)) \<and> m' = m0" if "\<not> running"
    using run that by (auto simp: initFrom_def Let_def andThen_def ebind_def reuseServer_def bindDefaults_def initDefaults_def)
  ultimately show ?thesis by auto
qed

section \<open>What Init records and Down clears\<close>

lemma recordCluster_Inr:
  assumes "recordCluster si o1 m = (Inr res, m')"
  shows "ms_state m' = Some res \<and> st_Name res = io_Name o1 \<and> st_Runtime res = ''docker'' \<and> st_APIPort res = io_APIPort o1 \<and>
    st_KubeconfigPath res = io_KubeconfigPath o1 \<and>
    (io_Advertise o1 \<noteq> [] \<longrightarrow> st_ServerURL res = ''https://'' @ io_Advertise o1 @ '':'' @ Itoa (io_APIPort o1)) \<and>
    (\<exists>raw. map_of (ms_files m') (io_KubeconfigPath o1) = Some (ReplaceAll raw ''127.0.0.1:6443''
       ((if io_Advertise o1 \<noteq> [] then io_Advertise o1 else ''127.0.0.1'') @ '':'' @ Itoa (io_APIPort o1))))"
  using assms
  by (auto simp: recordCluster_def Let_def cmd_runs must_run writeFile_def saveState_def split: if_splits)

lemma Init_recorded:
  assumes "dockerRuntime o0" and "Init si o0 m = (Inr res, m')"
  shows "\<exists>m1. recordCluster si (bindDefaults (initDefaults si o0)) m1 = (Inr res, m')"
  using assms(2)
  by (auto simp: Init_docker [OF assms(1)] initFrom_def Let_def cmd_runs)

text \<open>
  A successful \<^verbatim>\<open>cluster init\<close> records the cluster it reports: the saved state is the result, the
  kubeconfig is written where it says, with the API address rewritten to the advertised host or the
  loopback one, and nodes are told to join at the advertised address when there is one.
\<close>

theorem Init_records:
  assumes "dockerRuntime o0" and "Init si o0 m = (Inr res, m')"
  shows "ms_state m' = Some res \<and> st_Name res = orElseText (io_Name o0) DefaultName \<and> st_Runtime res = ''docker'' \<and>
    (io_Advertise o0 \<noteq> [] \<longrightarrow> st_ServerURL res = ''https://'' @ io_Advertise o0 @ '':'' @ Itoa (st_APIPort res)) \<and>
    (\<exists>raw. map_of (ms_files m') (st_KubeconfigPath res) = Some (ReplaceAll raw ''127.0.0.1:6443''
       ((if io_Advertise o0 \<noteq> [] then io_Advertise o0 else ''127.0.0.1'') @ '':'' @ Itoa (st_APIPort res))))"
proof -
  obtain m1 where "recordCluster si (bindDefaults (initDefaults si o0)) m1 = (Inr res, m')"
    using Init_recorded [OF assms] by blast
  note rec = recordCluster_Inr [OF this]
  have o1: "io_Advertise (bindDefaults (initDefaults si o0)) = io_Advertise o0"
      "io_Name (bindDefaults (initDefaults si o0)) = orElseText (io_Name o0) DefaultName"
    by (simp_all add: bindDefaults_def initDefaults_def Let_def)
  from rec have "io_APIPort (bindDefaults (initDefaults si o0)) = st_APIPort res"
      "io_KubeconfigPath (bindDefaults (initDefaults si o0)) = st_KubeconfigPath res" by simp_all
  then show ?thesis using rec unfolding o1 by metis
qed

lemma removeIDs_ok: "\<exists>n m'. removeIDs sh ids k m = (Inr n, m') \<and> ms_files m' = ms_files m"
proof (induction ids arbitrary: k m)
  case (Cons i ids)
  obtain out ok m1 where "attempt sh [''rm'', ''-f'', i] m = (Inr (out, ok), m1)" "ms_files m1 = ms_files m"
    by (cases "sh_docker sh [''rm'', ''-f'', i] (ms_docker m)") (force simp: attempt_run)
  then show ?case using Cons.IH [of "if ok then Suc k else k" m1] by (simp add: ebind_def)
qed simp

section \<open>Who may join\<close>

lemma joinDefaults_role: "jo_Role (joinDefaults st o0) = orElseText (jo_Role o0) ''agent''"
  by (simp add: joinDefaults_def Let_def split: option.split)

text \<open>
  \<^verbatim>\<open>cluster join\<close> in the default build. A node is started (the command succeeds, or docker's
  containers change) only if a server address and a token are known, by flag or from the saved state,
  the runtime is docker, and, for a control-plane node, a node of the cluster already runs on this host.
\<close>

theorem Join_requires:
  assumes "docker_ok (si_shell si) ct made" and "si_provider si = stub" and "Join si o0 m = (r, m')"
    and "r = Inr () \<or> table ct m' \<noteq> table ct m"
  shows "jo_ServerURL (joinDefaults (ms_state m) o0) \<noteq> [] \<and> jo_Token (joinDefaults (ms_state m) o0) \<noteq> [] \<and>
    jo_Runtime (joinDefaults (ms_state m) o0) = ''docker'' \<and>
    (orElseText (jo_Role o0) ''agent'' = ''server'' \<longrightarrow>
       fst (hasLocalClusterNode (si_shell si) (case ms_state m of None \<Rightarrow> DefaultName | Some s \<Rightarrow> st_Name s) m) = Inr True)"
proof -
  let ?o = "joinDefaults (ms_state m) o0" and ?cl = "case ms_state m of None \<Rightarrow> DefaultName | Some s \<Rightarrow> st_Name s"
  let ?here = "hasLocalClusterNode (si_shell si) ?cl"
  have local: "keeps (same_view (table ct)) ?here"
    unfolding hasLocalClusterNode_def using assms(1) by (auto intro!: viewed.keeps_rules keeps_intros split: prod.split)
  have quiet: "m' = m \<and> r \<noteq> Inr () \<Longrightarrow> False" using assms(4) by auto
  have ok: "jo_ServerURL ?o \<noteq> [] \<and> jo_Token ?o \<noteq> [] \<and> jo_Runtime ?o = ''docker''"
  proof (rule ccontr)
    assume "\<not> ?thesis"
    then have "m' = m \<and> r \<noteq> Inr ()"
      using assms(2,3)
      by (auto simp: Join_def Let_def LoadState_def ebind_def andThen_def doIf_def checkNativeGPU_def stub_def
          split: if_splits prod.splits sum.splits)
    then show False by (rule quiet)
  qed
  have role: "orElseText (jo_Role o0) ''agent'' = ''agent'' \<or> orElseText (jo_Role o0) ''agent'' = ''server''"
    using quiet assms(3) by (auto simp: Join_def Let_def split: if_splits)
  obtain b m1 where h: "?here m = (Inr b, m1)"
    by (cases "attempt (si_shell si) [''ps'', ''-q'', ''--filter'', ''label=orcinus.cluster='' @ ?cl] m")
      (auto simp: hasLocalClusterNode_def ebind_def attempt_def split: prod.splits)
  have "b" if "orElseText (jo_Role o0) ''agent'' = ''server''"
  proof (rule ccontr)
    assume "\<not> b"
    then have "m' = m1" "r \<noteq> Inr ()"
      using assms(3) ok role that h
      by (auto simp: Join_def Let_def LoadState_def ebind_def joinDefaults_role split: if_splits)
    then show False using assms(4) keepsD [OF local h] by (simp add: same_view_def)
  qed
  then show ?thesis using ok h by simp
qed

section \<open>Witnesses\<close>

definition sample_site :: "(string \<times> string list) list site" where
  "sample_site = \<lparr>si_shell = memory_shell, si_net = \<lparr>nw_isIP = (\<lambda>_. True), nw_lookup = (\<lambda>_. None), nw_url = (\<lambda>_. None), nw_route = (\<lambda>_. None)\<rparr>,
     si_provider = stub, si_nvidia = False, si_kubeconfig = ''/k'', si_args = (\<lambda>_. None)\<rparr>"

definition sample_init :: InitOptions where
  "sample_init = \<lparr>io_Name = [], io_Image = [], io_APIPort = 9, io_HTTPPort = 0, io_HTTPSPort = 0, io_BindAddress = [],
     io_Advertise = ''h'', io_Token = [], io_ClusterInit = False, io_DatastoreEndpoint = [], io_ExtraServerArgs = [],
     io_KubeconfigPath = [], io_Runtime = [], io_GPUs = False\<rparr>"

theorem Init_existing_witness:
  "table map_of (snd (Init sample_site sample_init sample_machine)) = table map_of sample_machine"
proof -
  obtain r m' where run: "Init sample_site sample_init sample_machine = (r, m')" by force
  have ok: "docker_ok (si_shell sample_site) map_of id" by (simp add: sample_site_def memory_docker_ok)
  have rt: "dockerRuntime sample_init" by (simp add: dockerRuntime_def sample_init_def)
  have "containerState (si_shell sample_site) (orElseText (io_Name sample_init) DefaultName) sample_machine =
      (Inr (True, True), sample_machine)"
    by (simp add: sample_site_def containerState_def ebind_def attempt_def docker_def memory_shell_def memory_docker_def
        sample_machine_def TrimSpace_def trim_def isSpace_def)
  from Init_existing [OF ok rt this run] run show ?thesis by simp
qed

theorem Init_records_witness:
  "\<exists>res m'. Init sample_site sample_init sample_machine = (Inr res, m') \<and> ms_state m' = Some res \<and>
     st_Name res = ''orcinus'' \<and> st_ServerURL res = ''https://h:'' @ Itoa (st_APIPort res)"
proof -
  have "\<not> isl (fst (Init sample_site sample_init sample_machine))" by code_simp
  then obtain res m' where run: "Init sample_site sample_init sample_machine = (Inr res, m')"
    by (cases "Init sample_site sample_init sample_machine") (auto simp: isl_def, metis sum.exhaust_sel)
  have rt: "dockerRuntime sample_init" by (simp add: dockerRuntime_def sample_init_def)
  from Init_records [OF rt run] run show ?thesis by (auto simp: sample_init_def orElseText_def DefaultName_def)
qed

theorem Join_requires_witness:
  "jo_ServerURL (joinDefaults (ms_state sample_machine) \<lparr>jo_Name = ''w'', jo_Image = [], jo_ServerURL = ''u'', jo_Token = ''t'',
     jo_Role = ''server'', jo_Runtime = [], jo_Advertise = [], jo_GPUs = False\<rparr>) \<noteq> [] \<and>
   fst (hasLocalClusterNode (si_shell sample_site) ''orcinus'' sample_machine) = Inr True"
proof -
  let ?j = "\<lparr>jo_Name = ''w'', jo_Image = [], jo_ServerURL = ''u'', jo_Token = ''t'',
     jo_Role = ''server'', jo_Runtime = [], jo_Advertise = [], jo_GPUs = False\<rparr>"
  have ok: "docker_ok (si_shell sample_site) map_of id" and st: "si_provider sample_site = stub"
    by (simp_all add: sample_site_def memory_docker_ok)
  obtain r m' where run: "Join sample_site ?j sample_machine = (r, m')" by force
  have "fst (Join sample_site ?j sample_machine) = Inr ()" by code_simp
  then have "r = Inr () \<or> table map_of m' \<noteq> table map_of sample_machine" by (simp add: run)
  from Join_requires [OF ok st run this] show ?thesis
    by (simp add: sample_machine_def orElseText_def DefaultName_def)
qed

end
