(* ===== verification/Native.thy ===== *)
theory Native
  imports Cluster_Life
begin

text \<open>
  The standalone build's cluster provider: \<^verbatim>\<open>pkg/cluster/standalone_run.go\<close>, which runs the embedded k3s as a process of
  the host, and \<^verbatim>\<open>ExtractPath\<close> of \<^verbatim>\<open>pkg/runtime/embed.go\<close>.

  The state is a \<open>machine\<close> of \<open>Docker_Node\<close> whose first component is the operating system's: processes, mounts and the
  files the runtime writes itself. \<open>ms_files\<close> are the files orcinus writes. The system calls are the record \<open>native\<close>;
  \<open>native_ok\<close> states what \<^verbatim>\<open>kill\<close>, \<^verbatim>\<open>fork\<close> and \<^verbatim>\<open>exec\<close> document of the runtime's processes. The contents of the log are
  left out.

  The theorem: after \<^verbatim>\<open>cluster down\<close> the server is gone, none of the files orcinus wrote below its directory are left, and the
  saved state is cleared.
\<close>

section \<open>The host\<close>

record 'd native =
  nt_shell :: "'d shell"
  nt_root :: bool
  nt_self :: int
  nt_dir :: string                                     \<comment> \<open>\<^verbatim>\<open>Dir()\<close>\<close>
  nt_bindir :: string                                  \<comment> \<open>\<^verbatim>\<open>ORCINUS_RUNTIME_DIR\<close> or its default\<close>
  nt_embedded :: string
  nt_kubeconfig :: string
  nt_arch :: string
  nt_start :: "string \<Rightarrow> string list \<Rightarrow> 'd \<Rightarrow> int option \<times> 'd"   \<comment> \<open>in a process group of its own\<close>
  nt_kill :: "int \<Rightarrow> string \<Rightarrow> 'd \<Rightarrow> 'd"                     \<comment> \<open>\<^verbatim>\<open>kill(2)\<close>\<close>
  nt_signal0 :: "'d \<Rightarrow> int \<Rightarrow> bool"
  nt_stat :: "'d \<Rightarrow> int \<Rightarrow> string option"                 \<comment> \<open>\<^verbatim>\<open>/proc/<pid>/stat\<close>\<close>
  nt_exe :: "'d \<Rightarrow> int \<Rightarrow> string"                         \<comment> \<open>\<^verbatim>\<open>readlink /proc/<pid>/exe\<close>\<close>
  nt_run :: "string \<Rightarrow> string list \<Rightarrow> 'd \<Rightarrow> (string \<times> bool) \<times> 'd"
  nt_sleep :: "nat \<Rightarrow> 'd \<Rightarrow> 'd"                           \<comment> \<open>milliseconds\<close>
  nt_procs :: "'d \<Rightarrow> (string \<times> string option) list option"   \<comment> \<open>entries of \<^verbatim>\<open>/proc\<close> and their command lines\<close>
  nt_mountinfo :: "'d \<Rightarrow> string list option"
  nt_unmount :: "string \<Rightarrow> 'd \<Rightarrow> 'd"
  nt_erase :: "string \<Rightarrow> 'd \<Rightarrow> 'd"                        \<comment> \<open>files of the runtime below a directory\<close>
  nt_disk :: "'d \<Rightarrow> string \<Rightarrow> string option"
  nt_write :: "string \<Rightarrow> bool"
  nt_json :: "string list \<Rightarrow> string"
  nt_args :: "string \<Rightarrow> string list option"
  nt_hostname :: "string \<Rightarrow> string option"
  nt_exists :: "'d \<Rightarrow> string \<Rightarrow> bool"                     \<comment> \<open>a file or directory of the runtime\<close>
  nt_get :: "string \<Rightarrow> (nat \<times> string \<times> bool) option"   \<comment> \<open>status, body, and that it was read to its end\<close>
  nt_sha256 :: "string \<Rightarrow> string"
  nt_PathEscape :: "string \<Rightarrow> string"

definition readFile :: "'d native \<Rightarrow> string \<Rightarrow> 'd machine \<Rightarrow> string option" where
  "readFile nt p m = (case map_of (ms_files m) p of Some c \<Rightarrow> Some c | None \<Rightarrow> nt_disk nt (ms_docker m) p)"

definition putFile :: "string \<Rightarrow> string \<Rightarrow> 'd machine \<Rightarrow> 'd machine" where
  "putFile p c m = m\<lparr>ms_files := AList.update p c (ms_files m)\<rparr>"

text \<open>\<^verbatim>\<open>_ = os.WriteFile(...)\<close>.\<close>

definition tryWrite :: "'d native \<Rightarrow> string \<Rightarrow> string \<Rightarrow> ('d machine, unit) cmd" where
  "tryWrite nt p c m = (Inr (), if nt_write nt p then putFile p c m else m)"

definition needWritable :: "'d native \<Rightarrow> string \<Rightarrow> ('d machine, unit) cmd" where
  "needWritable nt p = (if nt_write nt p then ret () else fail (WriteError p))"

definition onOS :: "('d \<Rightarrow> 'a \<times> 'd) \<Rightarrow> ('d machine, 'a) cmd" where
  "onOS f m = (case f (ms_docker m) of (x, d) \<Rightarrow> (Inr x, m\<lparr>ms_docker := d\<rparr>))"

definition observe :: "('d machine \<Rightarrow> 'a) \<Rightarrow> ('d machine, 'a) cmd" where
  "observe f m = (Inr (f m), m)"

definition pause :: "'d native \<Rightarrow> nat \<Rightarrow> ('d machine, unit) cmd" where
  "pause nt ms = onOS (\<lambda>d. ((), nt_sleep nt ms d))"

definition exec :: "'d native \<Rightarrow> string \<Rightarrow> string list \<Rightarrow> ('d machine, string \<times> bool) cmd" where
  "exec nt bin args = onOS (nt_run nt bin args)"

section \<open>The embedded binary\<close>

text \<open>It is extracted again only when the size of the file differs.\<close>

definition ExtractPath :: "'d native \<Rightarrow> ('d machine, string) cmd" where
  "ExtractPath nt =
     (let path = JoinPath [nt_bindir nt, ''k3s'']; tmp = path @ ''.tmp'' in
      andThen (needWritable nt (nt_bindir nt))
     (ebind (observe (readFile nt path)) (\<lambda>f.
        if (case f of Some c \<Rightarrow> length c = length (nt_embedded nt) | None \<Rightarrow> False) then ret path
        else andThen (needWritable nt tmp)
          (andThen (needWritable nt path) (\<lambda>m. (Inr path, putFile path (nt_embedded nt) m))))))"

definition runtimeTag :: "string \<Rightarrow> string" where
  "runtimeTag bin = Base bin"

definition StandaloneKubectl :: "'d native \<Rightarrow> ('d machine, string option) cmd" where
  "StandaloneKubectl nt = optional (ExtractPath nt)"

section \<open>Processes\<close>

definition standaloneDir :: "'d native \<Rightarrow> string \<Rightarrow> string" where
  "standaloneDir nt name = JoinPath [nt_dir nt, ''runtime'', name]"

definition pidPath :: "string \<Rightarrow> string" where
  "pidPath dir = JoinPath [dir, ''pid'']"

definition logPath :: "string \<Rightarrow> string" where
  "logPath dir = JoinPath [dir, ''k3s.log'']"

definition argsPath :: "string \<Rightarrow> string" where
  "argsPath dir = JoinPath [dir, ''args.json'']"

definition readPID :: "'d native \<Rightarrow> string \<Rightarrow> 'd machine \<Rightarrow> int option" where
  "readPID nt path m = (case readFile nt path m of
     None \<Rightarrow> None
   | Some b \<Rightarrow> (case sscan_int (TrimSpace b) of Some n \<Rightarrow> if n \<le> 0 then None else Some n | None \<Rightarrow> None))"

text \<open>The character after \<^verbatim>\<open>") "\<close> in a stat line; without a parenthesis the second one.\<close>

definition stateChar :: "string \<Rightarrow> char option" where
  "stateChar b = (let k = Suc (length b - length (takeWhile (\<lambda>c. c \<noteq> CHR '')'') (rev b)))
     in if k < length b then Some (b ! k) else None)"

definition processAlive :: "'d native \<Rightarrow> 'd \<Rightarrow> int \<Rightarrow> bool" where
  "processAlive nt d pid =
     (if \<not> nt_signal0 nt d pid then False
      else case nt_stat nt d pid of
        Some b \<Rightarrow> (case stateChar b of Some c \<Rightarrow> c \<noteq> CHR ''Z'' | None \<Rightarrow> True)
      | None \<Rightarrow> True)"

definition alive :: "'d native \<Rightarrow> int \<Rightarrow> ('d machine, bool) cmd" where
  "alive nt pid = observe (\<lambda>m. processAlive nt (ms_docker m) pid)"

definition standaloneRunning :: "'d native \<Rightarrow> string \<Rightarrow> 'd machine \<Rightarrow> bool" where
  "standaloneRunning nt name m = (case readPID nt (pidPath (standaloneDir nt name)) m of
     Some pid \<Rightarrow> processAlive nt (ms_docker m) pid | None \<Rightarrow> False)"

text \<open>
  \<^verbatim>\<open>syscall.Kill(-pid, sig)\<close> signals the group of \<open>pid\<close>. For the process id 0 that is the caller's own group, and orcinus,
  which handles neither \<^verbatim>\<open>SIGTERM\<close> nor \<^verbatim>\<open>SIGKILL\<close>, ends there.
\<close>

definition killGroup :: "'d native \<Rightarrow> int \<Rightarrow> string \<Rightarrow> ('d machine, unit) cmd" where
  "killGroup nt pid sig =
     (if pid = 0 then fail (Panic (''signal '' @ sig)) else onOS (\<lambda>d. ((), nt_kill nt (- pid) sig d)))"

fun awaitExit :: "'d native \<Rightarrow> int \<Rightarrow> nat \<Rightarrow> ('d machine, unit) cmd" where
  "awaitExit nt pid 0 = ret ()"
| "awaitExit nt pid (Suc n) = ebind (alive nt pid) (\<lambda>up. if up then andThen (pause nt 500) (awaitExit nt pid n) else ret ())"

definition stopGroup :: "'d native \<Rightarrow> int \<Rightarrow> ('d machine, unit) cmd" where
  "stopGroup nt pid =
     andThen (killGroup nt pid ''TERM'')
    (andThen (awaitExit nt pid 20)
     (ebind (alive nt pid) (\<lambda>up. doIf up (killGroup nt pid ''KILL''))))"

definition startNative :: "'d native \<Rightarrow> string \<Rightarrow> string \<Rightarrow> string list \<Rightarrow> ('d machine, int) cmd" where
  "startNative nt dir bin args =
     andThen (needWritable nt (logPath dir))
    (ebind (onOS (nt_start nt bin args)) (\<lambda>p. case p of
       None \<Rightarrow> fail (CmdError bin)
     | Some pid \<Rightarrow> andThen (tryWrite nt (pidPath dir) (Itoa pid @ [CHR 0x0A])) (ret pid)))"

definition saveArgs :: "'d native \<Rightarrow> string \<Rightarrow> string list \<Rightarrow> ('d machine, unit) cmd" where
  "saveArgs nt dir args = tryWrite nt (argsPath dir) (nt_json nt args)"

text \<open>A joining node has no API to ask: the process has to stay up.\<close>

fun staysUp :: "'d native \<Rightarrow> int \<Rightarrow> nat \<Rightarrow> ('d machine, bool) cmd" where
  "staysUp nt pid 0 = ret True"
| "staysUp nt pid (Suc n) = ebind (alive nt pid) (\<lambda>up. if \<not> up then ret False else andThen (pause nt 1000) (staysUp nt pid n))"

definition standaloneServer :: "InitOptions \<Rightarrow> string \<Rightarrow> string list" where
  "standaloneServer o0 dataDir =
     [''server'', ''--write-kubeconfig='' @ io_KubeconfigPath o0, ''--write-kubeconfig-mode=644'', ''--data-dir='' @ dataDir,
      ''--https-listen-port='' @ Itoa (io_APIPort o0)]
     @ map (\<lambda>san. ''--tls-san='' @ san) (tlsSANs (orElseText (io_BindAddress o0) ''127.0.0.1'') (io_Advertise o0))
     @ (if io_Token o0 \<noteq> [] then [''--token='' @ io_Token o0] else [])
     @ (if io_ClusterInit o0 then [''--cluster-init''] else [])
     @ (if io_DatastoreEndpoint o0 \<noteq> [] then [''--datastore-endpoint='' @ io_DatastoreEndpoint o0] else [])
     @ io_ExtraServerArgs o0"

definition kubectl :: "string \<Rightarrow> string list \<Rightarrow> string list" where
  "kubectl kubeconfig args = [''kubectl'', ''--kubeconfig'', kubeconfig] @ args"

fun nativeReadyLoop :: "'d native \<Rightarrow> string \<Rightarrow> string \<Rightarrow> string \<Rightarrow> int \<Rightarrow> nat \<Rightarrow> ('d machine, unit) cmd" where
  "nativeReadyLoop nt name kubeconfig bin pid 0 = fail (WaitTimeout ''cluster'' name)"
| "nativeReadyLoop nt name kubeconfig bin pid (Suc n) = ebind (alive nt pid) (\<lambda>up.
     if \<not> up then fail (NotRunning name)
     else ebind (exec nt bin (kubectl kubeconfig [''get'', ''nodes'', ''--no-headers''])) (\<lambda>(out, ok).
       if ok \<and> Contains out '' Ready'' then ret ()
       else andThen (pause nt 3000) (nativeReadyLoop nt name kubeconfig bin pid n)))"

definition standaloneWaitReady :: "'d native \<Rightarrow> string \<Rightarrow> string \<Rightarrow> int \<Rightarrow> nat \<Rightarrow> ('d machine, unit) cmd" where
  "standaloneWaitReady nt name kubeconfig pid timeout =
     ebind (ExtractPath nt) (\<lambda>bin. nativeReadyLoop nt name kubeconfig bin pid (sh_polls (nt_shell nt) timeout 3))"

fun nativeMetricsLoop :: "'d native \<Rightarrow> string \<Rightarrow> string \<Rightarrow> nat \<Rightarrow> ('d machine, unit) cmd" where
  "nativeMetricsLoop nt kubeconfig bin 0 = ret ()"
| "nativeMetricsLoop nt kubeconfig bin (Suc n) =
     ebind (exec nt bin (kubectl kubeconfig [''-n'', ''kube-system'', ''get'', ''deploy'', ''metrics-server''])) (\<lambda>(out, ok).
       if ok \<and> Contains out ''metrics-server''
       then ignore (exec nt bin (kubectl kubeconfig [''-n'', ''kube-system'', ''patch'', ''deployment'', ''metrics-server'', ''--type=json'',
              ''-p'', argPatch ''add'' ''-'' ''--kubelet-insecure-tls'']))
       else andThen (pause nt 3000) (nativeMetricsLoop nt kubeconfig bin n))"

definition standaloneEnableMetrics :: "'d native \<Rightarrow> string \<Rightarrow> ('d machine, unit) cmd" where
  "standaloneEnableMetrics nt kubeconfig =
     ebind (optional (ExtractPath nt)) (\<lambda>b. case b of None \<Rightarrow> ret () | Some bin \<Rightarrow> nativeMetricsLoop nt kubeconfig bin 20)"

definition standaloneNodes :: "'d native \<Rightarrow> string \<Rightarrow> ('d machine, string) cmd" where
  "standaloneNodes nt kubeconfig = ebind (optional (ExtractPath nt)) (\<lambda>b. case b of
     None \<Rightarrow> ret []
   | Some bin \<Rightarrow> ebind (exec nt bin (kubectl kubeconfig [''get'', ''nodes'', ''-o'', ''wide''])) (\<lambda>(out, ok). ret (if ok then out else [])))"

section \<open>Starting, joining, stopping\<close>

definition asRoot :: "'d native \<Rightarrow> ('d machine, unit) cmd" where
  "asRoot nt = (if nt_root nt then ret () else fail (NotSupported ''must run as root''))"

definition launch :: "'d native \<Rightarrow> string \<Rightarrow> string \<Rightarrow> string list \<Rightarrow> ('d machine, int) cmd" where
  "launch nt dir bin args = andThen (saveArgs nt dir args) (startNative nt dir bin args)"

definition recordNative :: "'d native \<Rightarrow> InitOptions \<Rightarrow> string \<Rightarrow> string \<Rightarrow> ('d machine, InitResult) cmd" where
  "recordNative nt o0 dataDir bin =
     ebind (observe (readFile nt (JoinPath [dataDir, ''server'', ''node-token'']))) (\<lambda>token.
     let host = (if io_Advertise o0 \<noteq> [] then io_Advertise o0 else ''127.0.0.1'');
         res = \<lparr>st_Name = io_Name o0, st_Image = ''standalone:'' @ runtimeTag bin,
                st_ServerURL = ''https://'' @ host @ '':'' @ Itoa (io_APIPort o0),
                st_Token = (case token of Some t \<Rightarrow> TrimSpace t | None \<Rightarrow> []), st_APIPort = io_APIPort o0,
                st_KubeconfigPath = io_KubeconfigPath o0, st_Runtime = ''standalone''\<rparr>
     in andThen (saveState (nt_shell nt) res) (ret res))"

definition initStandalone :: "'d native \<Rightarrow> InitOptions \<Rightarrow> ('d machine, InitResult) cmd" where
  "initStandalone nt o0 =
     (let dir = standaloneDir nt (io_Name o0); dataDir = JoinPath [dir, ''data''] in
      andThen (asRoot nt)
     (ebind (ExtractPath nt) (\<lambda>bin.
      andThen (needWritable nt dataDir)
     (ebind (observe (standaloneRunning nt (io_Name o0))) (\<lambda>running.
      ebind LoadState (\<lambda>st.
      if running \<and> standalone st then ret (the st)
      else ebind (launch nt dir bin (standaloneServer o0 dataDir)) (\<lambda>pid.
        andThen (standaloneWaitReady nt (io_Name o0) (io_KubeconfigPath o0) pid 180)
       (andThen (standaloneEnableMetrics nt (io_KubeconfigPath o0)) (recordNative nt o0 dataDir bin)))))))))"

definition standaloneAgent :: "string \<Rightarrow> string \<Rightarrow> string \<Rightarrow> string \<Rightarrow> string \<Rightarrow> string list" where
  "standaloneAgent role url token dataDir name =
     [role, ''--server'', url, ''--token'', token, ''--data-dir'', dataDir, ''--node-name'', name]"

definition joinStandalone :: "'d native \<Rightarrow> JoinOptions \<Rightarrow> ('d machine, unit) cmd" where
  "joinStandalone nt o0 =
     (let dir = standaloneDir nt (jo_Name o0); dataDir = JoinPath [dir, ''data''] in
      andThen (asRoot nt)
     (ebind (ExtractPath nt) (\<lambda>bin.
      ebind (observe (standaloneRunning nt (jo_Name o0))) (\<lambda>running.
      if running then fail (Excluded (jo_Name o0) ''already running'')
      else andThen (needWritable nt dataDir)
       (ebind (launch nt dir bin (standaloneAgent (if jo_Role o0 = ''server'' then ''server'' else ''agent'')
                (jo_ServerURL o0) (jo_Token o0) dataDir (jo_Name o0))) (\<lambda>pid.
        ebind (staysUp nt pid 10) (\<lambda>up.
        if \<not> up then fail (NotRunning (jo_Name o0))
        else saveState (nt_shell nt) \<lparr>st_Name = jo_Name o0, st_Image = ''standalone:'' @ runtimeTag bin,
               st_ServerURL = jo_ServerURL o0, st_Token = jo_Token o0, st_APIPort = 0, st_KubeconfigPath = [],
               st_Runtime = ''standalone''\<rparr>)))))))"

text \<open>The arguments of a process are separated by NUL characters in \<^verbatim>\<open>/proc\<close>.\<close>

definition mentions :: "string \<Rightarrow> string \<Rightarrow> bool" where
  "mentions dir cmdline = Contains (map (\<lambda>c. if c = CHR 0x00 then CHR '' '' else c) cmdline) dir"

fun killMentioning :: "'d native \<Rightarrow> string \<Rightarrow> (string \<times> string option) list \<Rightarrow> bool \<Rightarrow> ('d machine, bool) cmd" where
  "killMentioning nt dir [] killed = ret killed"
| "killMentioning nt dir ((entry, cmdline) # es) killed = (case (Atoi entry, cmdline) of
     (Some pid, Some b) \<Rightarrow>
       if pid \<noteq> nt_self nt \<and> mentions dir b
       then andThen (onOS (\<lambda>d. ((), nt_kill nt pid ''KILL'' d))) (killMentioning nt dir es True)
       else killMentioning nt dir es killed
   | _ \<Rightarrow> killMentioning nt dir es killed)"

definition killProcessesReferencing :: "'d native \<Rightarrow> string \<Rightarrow> ('d machine, unit) cmd" where
  "killProcessesReferencing nt dir = ebind (observe (\<lambda>m. nt_procs nt (ms_docker m))) (\<lambda>ents. case ents of
     None \<Rightarrow> ret ()
   | Some es \<Rightarrow> ebind (killMentioning nt dir es False) (\<lambda>killed. doIf killed (pause nt 1000)))"

definition mountsUnder :: "string \<Rightarrow> string list \<Rightarrow> string list" where
  "mountsUnder dir lines = List.map_filter (\<lambda>l. let fs = Fields l in
     if length fs \<ge> 5 \<and> (fs ! 4 = dir \<or> HasPrefix (fs ! 4) (dir @ ''/'')) then Some (fs ! 4) else None) lines"

definition unmountUnder :: "'d native \<Rightarrow> string \<Rightarrow> ('d machine, unit) cmd" where
  "unmountUnder nt dir = ebind (observe (\<lambda>m. nt_mountinfo nt (ms_docker m))) (\<lambda>ls. case ls of
     None \<Rightarrow> ret ()
   | Some ls \<Rightarrow> each (\<lambda>p. onOS (\<lambda>d. ((), nt_unmount nt p d))) (rev (mountsUnder dir ls)))"

definition cniLinks :: "string list" where
  "cniLinks = [''cni0'', ''flannel.1'', ''flannel-v6.1'', ''kube-ipvs0'', ''kube-dummy-if'']"

definition cleanupHostNetwork :: "'d native \<Rightarrow> ('d machine, unit) cmd" where
  "cleanupHostNetwork nt =
     andThen (each (\<lambda>ifn. ignore (exec nt ''ip'' [''link'', ''delete'', ifn])) cniLinks)
       (ignore (exec nt ''sh'' [''-c'', ''iptables-save 2>/dev/null | grep -vE 'KUBE-|CNI-|FLANNEL|flannel|cali-' | iptables-restore 2>/dev/null'']))"

definition removeTree :: "'d native \<Rightarrow> string \<Rightarrow> ('d machine, unit) cmd" where
  "removeTree nt dir m = (Inr (), m\<lparr>ms_docker := nt_erase nt dir (ms_docker m),
     ms_files := filter (\<lambda>(p, _). \<not> (p = dir \<or> HasPrefix p (dir @ ''/''))) (ms_files m)\<rparr>)"

definition forget :: "'d native \<Rightarrow> ('d machine, unit) cmd" where
  "forget nt m = (Inr (), m\<lparr>
     ms_files := (if nt_write nt (nt_kubeconfig nt) then AList.delete (nt_kubeconfig nt) (ms_files m) else ms_files m),
     ms_state := (if sh_write (nt_shell nt) clusterFile then None else ms_state m)\<rparr>)"

definition downStandalone :: "'d native \<Rightarrow> string \<Rightarrow> ('d machine, nat) cmd" where
  "downStandalone nt name =
     (let dir = standaloneDir nt name in
      ebind (observe (readPID nt (pidPath dir))) (\<lambda>pid.
      andThen (case pid of Some pid \<Rightarrow> stopGroup nt pid | None \<Rightarrow> ret ())
     (andThen (killProcessesReferencing nt dir)
     (andThen (unmountUnder nt dir)
     (andThen (unmountUnder nt ''/run/k3s'')
     (andThen (cleanupHostNetwork nt)
     (andThen (removeTree nt dir)
     (andThen (forget nt) (ret (if pid = None then 0 else 1))))))))))"

section \<open>The processes of the runtime\<close>

text \<open>
  \<open>pv\<close> shows the live processes orcinus started, with their binary and arguments. One may exit at any time; a new one
  comes only from a start, in a group of its own, and is gone after \<^verbatim>\<open>SIGKILL\<close>.
\<close>

definition native_ok :: "'d native \<Rightarrow> ('d \<Rightarrow> int \<Rightarrow> (string \<times> string list) option) \<Rightarrow> bool" where
  "native_ok nt pv \<longleftrightarrow>
     (\<forall>bin args d. case nt_start nt bin args d of
        (None, d') \<Rightarrow> pv d' \<subseteq>\<^sub>m pv d
      | (Some pid, d') \<Rightarrow> 0 < pid \<and> pv d' \<subseteq>\<^sub>m (pv d)(pid \<mapsto> (bin, args))) \<and>
     (\<forall>p sig d. pv (nt_kill nt p sig d) \<subseteq>\<^sub>m pv d) \<and>
     (\<forall>p d. 0 < p \<longrightarrow> pv (nt_kill nt (- p) ''KILL'' d) p = None) \<and>
     (\<forall>p d. pv d p \<noteq> None \<longrightarrow> processAlive nt d p) \<and>
     (\<forall>bin args d. pv (snd (nt_run nt bin args d)) \<subseteq>\<^sub>m pv d) \<and>
     (\<forall>ms d. pv (nt_sleep nt ms d) \<subseteq>\<^sub>m pv d) \<and>
     (\<forall>p d. pv (nt_unmount nt p d) \<subseteq>\<^sub>m pv d) \<and>
     (\<forall>p d. pv (nt_erase nt p d) \<subseteq>\<^sub>m pv d)"

lemma native_okD:
  assumes "native_ok nt pv"
  shows "nt_start nt bin args d = (None, d') \<Longrightarrow> pv d' \<subseteq>\<^sub>m pv d"
    and "nt_start nt bin args d = (Some pid, d') \<Longrightarrow> 0 < pid \<and> pv d' \<subseteq>\<^sub>m (pv d)(pid \<mapsto> (bin, args))"
    and "pv (nt_kill nt p sig d) \<subseteq>\<^sub>m pv d"
    and "0 < p \<Longrightarrow> pv (nt_kill nt (- p) ''KILL'' d) p = None"
    and "\<not> processAlive nt d p \<Longrightarrow> pv d p = None"
    and "pv (snd (nt_run nt bin args d)) \<subseteq>\<^sub>m pv d"
    and "pv (nt_sleep nt ms d) \<subseteq>\<^sub>m pv d"
    and "pv (nt_unmount nt q d) \<subseteq>\<^sub>m pv d"
    and "pv (nt_erase nt q d) \<subseteq>\<^sub>m pv d"
proof -
  have start: "case nt_start nt bin args d of (None, d') \<Rightarrow> pv d' \<subseteq>\<^sub>m pv d
      | (Some pid, d') \<Rightarrow> 0 < pid \<and> pv d' \<subseteq>\<^sub>m (pv d)(pid \<mapsto> (bin, args))"
    by (rule conjunct1 [OF assms [unfolded native_ok_def], rule_format])
  show "nt_start nt bin args d = (None, d') \<Longrightarrow> pv d' \<subseteq>\<^sub>m pv d"
    and "nt_start nt bin args d = (Some pid, d') \<Longrightarrow> 0 < pid \<and> pv d' \<subseteq>\<^sub>m (pv d)(pid \<mapsto> (bin, args))"
    using start by simp_all
qed (use assms in \<open>unfold native_ok_def, blast\<close>)+

definition fewer :: "('d \<Rightarrow> int \<rightharpoonup> 'p) \<Rightarrow> 'd machine \<Rightarrow> 'd machine \<Rightarrow> bool" where
  "fewer pv m m' \<longleftrightarrow> pv (ms_docker m') \<subseteq>\<^sub>m pv (ms_docker m)"

interpretation shrink: frame "fewer pv" for pv :: "'d \<Rightarrow> int \<rightharpoonup> 'p"
  by unfold_locales (auto simp: fewer_def intro: map_le_trans)

definition files :: "'d machine \<Rightarrow> string gomap \<times> InitResult option" where
  "files m = (ms_files m, ms_state m)"

lemma keeps_onOS [keeps_intros]: "(\<And>d. pv (snd (f d)) \<subseteq>\<^sub>m pv d) \<Longrightarrow> keeps (fewer pv) (onOS f)"
  by (auto simp: keeps_def fewer_def onOS_def split: prod.splits) (metis snd_conv)

lemma keeps_observe [keeps_intros]: "keeps (fewer pv) (observe f)" "keeps (same_view view) (observe f)"
  by (simp_all add: keeps_def observe_def fewer_def same_view_def)

lemma keeps_onOS_files [keeps_intros]: "keeps (same_view files) (onOS f)"
  by (auto simp: keeps_def same_view_def files_def onOS_def split: prod.splits)

lemma keeps_fewerI: "(\<And>m. ms_docker (snd (c m)) = ms_docker m) \<Longrightarrow> keeps (fewer pv) c"
  by (simp add: keeps_def fewer_def)

lemma keeps_saves [keeps_intros]:
  "keeps (fewer pv) (tryWrite nt p c)" "keeps (fewer pv) (\<lambda>m. (r, putFile p c m))" "keeps (fewer pv) (needWritable nt p)"
  "keeps (fewer pv) (saveState sh st)" "keeps (fewer pv) LoadState" "keeps (fewer pv) (forget nt)"
  by (auto intro!: keeps_fewerI simp: tryWrite_def putFile_def needWritable_def saveState_def LoadState_def forget_def)

lemma native_keeps [keeps_intros]:
  assumes "native_ok nt pv"
  shows "keeps (fewer pv) (pause nt ms)" "keeps (fewer pv) (exec nt bin args)" "keeps (fewer pv) (removeTree nt dir)"
    "keeps (fewer pv) (onOS (\<lambda>d. ((), nt_kill nt pid sig d)))" "keeps (fewer pv) (onOS (\<lambda>d. ((), nt_unmount nt q d)))"
    "keeps (fewer pv) (killGroup nt pid sig)"
  using native_okD [OF assms]
  by (auto intro!: keeps_onOS shrink.keeps_fail simp: pause_def exec_def killGroup_def)
    (simp add: keeps_def fewer_def removeTree_def)

lemma keeps_alive [keeps_intros]: "keeps (fewer pv) (alive nt pid)" "keeps (same_view files) (alive nt pid)"
  by (simp_all add: alive_def keeps_observe)

lemma keeps_awaitExit [keeps_intros]: "native_ok nt pv \<Longrightarrow> keeps (fewer pv) (awaitExit nt pid n)"
  by (induction n) (auto intro!: shrink.keeps_rules keeps_intros)

lemma keeps_ExtractPath [keeps_intros]: "keeps (fewer pv) (ExtractPath nt)"
  unfolding ExtractPath_def Let_def by (auto intro!: shrink.keeps_rules keeps_intros)

lemma alive_run [simp]: "alive nt pid m = (Inr (processAlive nt (ms_docker m) pid), m)"
  by (simp add: alive_def observe_def)

lemma pause_run [simp]: "pause nt ms m = (Inr (), m\<lparr>ms_docker := nt_sleep nt ms (ms_docker m)\<rparr>)"
  by (simp add: pause_def onOS_def)

lemma killGroup_run: "0 < pid \<Longrightarrow> killGroup nt pid sig m = (Inr (), m\<lparr>ms_docker := nt_kill nt (- pid) sig (ms_docker m)\<rparr>)"
  by (simp add: killGroup_def onOS_def)

lemma awaitExit_run: "\<exists>m'. awaitExit nt pid n m = (Inr (), m') \<and> files m' = files m"
proof (induction n arbitrary: m)
  case (Suc n)
  from Suc [of "m\<lparr>ms_docker := nt_sleep nt 500 (ms_docker m)\<rparr>"]
  show ?case by (auto simp: ebind_def andThen_def files_def)
qed simp

lemma stopGroup_run:
  assumes "native_ok nt pv" and "0 < pid"
  obtains m' where "stopGroup nt pid m = (Inr (), m')" "fewer pv m m'" "pv (ms_docker m') pid = None" "files m' = files m"
proof -
  let ?t = "m\<lparr>ms_docker := nt_kill nt (- pid) ''TERM'' (ms_docker m)\<rparr>"
  obtain u where u: "awaitExit nt pid 20 ?t = (Inr (), u)" "files u = files ?t" using awaitExit_run by blast
  have tu: "fewer pv ?t u" by (rule keepsD [OF keeps_awaitExit [OF assms(1)] u(1)])
  have mt: "fewer pv m ?t" by (simp add: fewer_def native_okD(3) [OF assms(1)])
  let ?m = "if processAlive nt (ms_docker u) pid then u\<lparr>ms_docker := nt_kill nt (- pid) ''KILL'' (ms_docker u)\<rparr> else u"
  have "stopGroup nt pid m = (Inr (), ?m)"
    using u(1) by (simp add: stopGroup_def andThen_def ebind_def killGroup_run [OF assms(2)])
  moreover have "fewer pv u ?m" by (simp add: fewer_def native_okD(3) [OF assms(1)])
  then have "fewer pv m ?m" using mt tu shrink.frame_trans by blast
  moreover have "pv (ms_docker ?m) pid = None" using native_okD(4,5) [OF assms(1)] assms(2) by simp
  moreover have "files ?m = files m" using u(2) by (simp add: files_def)
  ultimately show thesis by (rule that)
qed

section \<open>Down\<close>

lemma keeps_killMentioning [keeps_intros]: "native_ok nt pv \<Longrightarrow> keeps (fewer pv) (killMentioning nt dir es k)"
  by (induction nt dir es k rule: killMentioning.induct)
    (auto intro!: shrink.keeps_rules keeps_intros split: option.split)

lemma keeps_cleaning [keeps_intros]:
  assumes "native_ok nt pv"
  shows "keeps (fewer pv) (killProcessesReferencing nt dir)" "keeps (fewer pv) (unmountUnder nt dir)"
    "keeps (fewer pv) (cleanupHostNetwork nt)"
  unfolding killProcessesReferencing_def unmountUnder_def cleanupHostNetwork_def
  using assms by (auto intro!: shrink.keeps_rules keeps_intros)

text \<open>The steps that cannot fail.\<close>

definition sure :: "('s, 'a) cmd \<Rightarrow> bool" where
  "sure c \<longleftrightarrow> (\<forall>s. \<exists>x s'. c s = (Inr x, s'))"

named_theorems sures "commands that do not fail"

lemma sure_ebind [sures]: "sure c \<Longrightarrow> (\<And>x. sure (f x)) \<Longrightarrow> sure (ebind c f)"
  unfolding sure_def ebind_def by (metis (no_types, lifting) case_prod_conv old.sum.simps(6))

lemma sure_andThen [sures]: "sure c \<Longrightarrow> sure k \<Longrightarrow> sure (andThen c k)"
  unfolding andThen_def by (rule sure_ebind)

lemma sure_rules [sures]:
  "sure (ret x)" "sure (Pair (Inr x))" "sure (ignore c)" "sure (optional c)" "sure (observe f)" "sure (onOS g)" "sure (pause nt n)"
  "sure u \<Longrightarrow> sure (doIf b u)" "sure (removeTree nt dir)" "sure (forget nt)"
  by (auto simp: sure_def ret_def ignore_def optional_def observe_def onOS_def pause_def doIf_def
      removeTree_def forget_def split: prod.splits sum.splits)

lemma sure_each [sures]: "(\<And>x. sure (f x)) \<Longrightarrow> sure (each f xs)"
  by (induction xs) (auto intro: sures)

lemma sure_killMentioning [sures]: "sure (killMentioning nt dir es k)"
  by (induction nt dir es k rule: killMentioning.induct) (auto intro!: sures split: option.split)

lemma sure_cleaning [sures]: "sure (killProcessesReferencing nt dir)" "sure (unmountUnder nt dir)" "sure (cleanupHostNetwork nt)"
  unfolding killProcessesReferencing_def unmountUnder_def cleanupHostNetwork_def
  by (auto intro!: sures split: option.split)

lemma andThen_step: "c m = (Inr x, m') \<Longrightarrow> andThen c k m = k m'"
  by (simp add: andThen_def ebind_def)

lemma readPID_pos: "readPID nt p m = Some pid \<Longrightarrow> 0 < pid"
  by (auto simp: readPID_def split: option.splits if_splits)

lemma fewer_None: "fewer pv m m' \<Longrightarrow> pv (ms_docker m) p = None \<Longrightarrow> pv (ms_docker m') p = None"
  unfolding fewer_def map_le_def by (metis domIff)

definition below :: "string \<Rightarrow> string \<Rightarrow> bool" where
  "below dir p \<longleftrightarrow> p = dir \<or> HasPrefix p (dir @ ''/'')"

lemma cleared:
  assumes "native_ok nt pv" and "andThen (removeTree nt dir) (andThen (forget nt) (ret k)) m = (r, m')"
  shows "r = Inr k \<and> fewer pv m m' \<and> (\<forall>p. below dir p \<longrightarrow> map_of (ms_files m') p = None) \<and>
    (sh_write (nt_shell nt) clusterFile \<longrightarrow> ms_state m' = None)"
proof (intro conjI allI impI)
  show "r = Inr k" and "sh_write (nt_shell nt) clusterFile \<Longrightarrow> ms_state m' = None"
    using assms(2) by (auto simp: andThen_def ebind_def removeTree_def forget_def)
  have "keeps (fewer pv) (andThen (removeTree nt dir) (andThen (forget nt) (ret k)))"
    using assms(1) by (intro shrink.keeps_rules keeps_intros)
  then show "fewer pv m m'" using assms(2) by (rule keepsD)
  fix p assume "below dir p"
  then show "map_of (ms_files m') p = None"
    using assms(2)
    by (auto simp: andThen_def ebind_def removeTree_def forget_def below_def map_of_eq_None_iff AList.delete_eq
        split: if_splits)
qed

text \<open>
  \<^verbatim>\<open>cluster down\<close> of a standalone node never fails. Its process, if one is recorded, is gone afterwards, also when it
  ignores \<^verbatim>\<open>SIGTERM\<close>; no other one was started; no file orcinus wrote below the node's directory is left, the pid file
  included; and the saved state is cleared when its file can be removed.
\<close>

theorem downStandalone_stops:
  assumes "native_ok nt pv" and "downStandalone nt name m = (r, m')"
  shows "(case readPID nt (pidPath (standaloneDir nt name)) m of
      Some pid \<Rightarrow> r = Inr 1 \<and> pv (ms_docker m') pid = None
    | None \<Rightarrow> r = Inr 0) \<and>
    pv (ms_docker m') \<subseteq>\<^sub>m pv (ms_docker m) \<and>
    (\<forall>p. below (standaloneDir nt name) p \<longrightarrow> map_of (ms_files m') p = None) \<and>
    (sh_write (nt_shell nt) clusterFile \<longrightarrow> ms_state m' = None)"
proof -
  let ?dir = "standaloneDir nt name" and ?pid = "readPID nt (pidPath (standaloneDir nt name)) m"
  let ?clean = "andThen (killProcessesReferencing nt ?dir) (andThen (unmountUnder nt ?dir)
    (andThen (unmountUnder nt ''/run/k3s'') (cleanupHostNetwork nt)))"
  let ?stop = "case ?pid of Some pid \<Rightarrow> stopGroup nt pid | None \<Rightarrow> ret ()"
  let ?last = "andThen (removeTree nt ?dir) (andThen (forget nt) (ret (if ?pid = None then 0 else 1)))"
  have run: "andThen ?stop (andThen ?clean ?last) m = (r, m')"
    using assms(2) by (cases ?pid) (simp_all add: downStandalone_def Let_def observe_def ebind_def andThen_assoc)
  obtain m1 where m1: "?stop m = (Inr (), m1)" "fewer pv m m1" "\<And>pid. ?pid = Some pid \<Longrightarrow> pv (ms_docker m1) pid = None"
  proof (cases ?pid)
    case None
    then show thesis using that [of m] by (simp add: shrink.frame_refl)
  next
    case (Some pid)
    from stopGroup_run [OF assms(1) readPID_pos [OF Some], of m] show thesis using that Some by auto
  qed
  have "sure ?clean" by (intro sures)
  then obtain x m2 where m2: "?clean m1 = (Inr x, m2)" unfolding sure_def by blast
  have "keeps (fewer pv) ?clean" using assms(1) by (intro shrink.keeps_rules keeps_intros)
  then have m12: "fewer pv m1 m2" using m2 by (rule keepsD)
  have "?last m2 = (r, m')" using run by (simp only: andThen_step [where c = ?stop, OF m1(1)] andThen_step [where c = ?clean, OF m2])
  note end3 = cleared [OF assms(1) this]
  have m1': "fewer pv m1 m'" using m12 end3 shrink.frame_trans by blast
  then have "pv (ms_docker m') \<subseteq>\<^sub>m pv (ms_docker m)" using m1(2) shrink.frame_trans unfolding fewer_def by blast
  with end3 fewer_None [OF m1' m1(3)] show ?thesis by (auto split: option.split)
qed

section \<open>A concrete host\<close>

text \<open>
  One runtime process, with process id 7, that ignores \<^verbatim>\<open>SIGTERM\<close>; the embedded binary \<^verbatim>\<open>/b/k3s\<close> is the target version and
  every other binary an older one.
\<close>

type_synonym sample_os = "(int \<times> string \<times> string list) list"

definition sampleVersion :: "string \<Rightarrow> sample_os \<Rightarrow> string" where
  "sampleVersion bin d = (if (if bin = ''/proc/7/exe'' then map_option fst (map_of d 7) else Some bin) = Some ''/b/k3s''
     then ''v1.36.5+k3s1'' else ''v1.35.9+k3s1'')"

definition sample_run :: "string \<Rightarrow> string list \<Rightarrow> sample_os \<Rightarrow> (string \<times> bool) \<times> sample_os" where
  "sample_run bin args d = ((if args = [''--version''] then ''k3s version '' @ sampleVersion bin d
     else sampleVersion ''/proc/7/exe'' d @ '' True'', True), d)"

definition sample_start :: "string \<Rightarrow> string list \<Rightarrow> sample_os \<Rightarrow> int option \<times> sample_os" where
  "sample_start bin args d = (Some 7, AList.update 7 (bin, args) d)"

definition sample_shell :: "sample_os shell" where
  "sample_shell = \<lparr>sh_docker = (\<lambda>args d. (([], False), d)), sh_sleep = (\<lambda>n d. d), sh_inspect = (\<lambda>s. None),
     sh_MkdirTemp = None, sh_write = (\<lambda>p. True), sh_polls = (\<lambda>t p. 2), sh_linux = True, sh_self = None\<rparr>"

definition sample_native :: "sample_os native" where
  "sample_native = \<lparr>nt_shell = sample_shell, nt_root = True, nt_self = 1, nt_dir = ''/o'', nt_bindir = ''/b'',
     nt_embedded = ''new'', nt_kubeconfig = ''/o/config'', nt_arch = ''amd64'', nt_start = sample_start,
     nt_kill = (\<lambda>p sig d. if sig = ''KILL'' then AList.delete \<bar>p\<bar> d else d), nt_signal0 = (\<lambda>d p. map_of d p \<noteq> None),
     nt_stat = (\<lambda>d p. None), nt_exe = (\<lambda>d p. case map_of d p of Some (b, _) \<Rightarrow> b | None \<Rightarrow> []), nt_run = sample_run,
     nt_sleep = (\<lambda>n d. d), nt_procs = (\<lambda>d. None), nt_mountinfo = (\<lambda>d. None), nt_unmount = (\<lambda>p d. d), nt_erase = (\<lambda>p d. d),
     nt_disk = (\<lambda>d p. None), nt_write = (\<lambda>p. True), nt_json = concat, nt_args = (\<lambda>s. Some [s]), nt_hostname = (\<lambda>u. None),
     nt_exists = (\<lambda>d p. False), nt_get = (\<lambda>u. None), nt_sha256 = (\<lambda>b. b), nt_PathEscape = (\<lambda>s. s)\<rparr>"

definition sample_host :: "sample_os machine" where
  "sample_host = \<lparr>ms_docker = [(7, (''/b/old'', [''server'']))], ms_state = None,
     ms_files = [(''/o/runtime/n/pid'', ''7''), (''/o/runtime/n/args.json'', ''server'')]\<rparr>"

lemma sample_native_ok: "native_ok sample_native map_of"
  by (auto simp: native_ok_def sample_native_def sample_start_def sample_run_def processAlive_def map_le_def update_conv'
      delete_conv' split: if_splits)

theorem downStandalone_stops_witness:
  "downStandalone sample_native ''n'' sample_host = (Inr 1, \<lparr>ms_docker = [], ms_state = None, ms_files = []\<rparr>) \<and>
   map_of (ms_docker (snd (downStandalone sample_native ''n'' sample_host))) 7 = None"
proof -
  have run: "downStandalone sample_native ''n'' sample_host = (Inr 1, \<lparr>ms_docker = [], ms_state = None, ms_files = []\<rparr>)"
    and pid: "readPID sample_native (pidPath (standaloneDir sample_native ''n'')) sample_host = Some 7"
    by code_simp+
  from downStandalone_stops [OF sample_native_ok run] run pid show ?thesis by simp
qed

end
