(* ===== verification/Native_Upgrade.thy ===== *)
theory Native_Upgrade
  imports Native
begin

text \<open>
  Upgrading a standalone node: \<^verbatim>\<open>pkg/cluster/upgrade_standalone.go\<close>. The node's process is stopped and started again from
  newer binaries with the arguments it has, which are read back from \<^verbatim>\<open>args.json\<close> or rebuilt from the saved state.

  The theorems: whatever happens, at most one runtime process is left, it has the arguments the node had, and on success
  it runs the binary of the last version; a downloaded binary has the published checksum. A binary that cannot be started
  ends orcinus itself, with no runtime running.
\<close>

section \<open>The arguments of a node\<close>

definition fileExists :: "'d native \<Rightarrow> string \<Rightarrow> 'd machine \<Rightarrow> bool" where
  "fileExists nt p m \<longleftrightarrow> readFile nt p m \<noteq> None \<or> nt_exists nt (ms_docker m) p"

text \<open>A node made before the arguments were saved; extra server arguments are lost.\<close>

definition rebuiltArgs :: "'d native \<Rightarrow> string \<Rightarrow> InitResult \<Rightarrow> 'd machine \<Rightarrow> error + string list" where
  "rebuiltArgs nt name r m =
     (let data = JoinPath [standaloneDir nt name, ''data'']; there = (\<lambda>p. fileExists nt (JoinPath p) m) in
      if st_KubeconfigPath r = [] then
        Inr (standaloneAgent (if there [data, ''server''] then ''server'' else ''agent'') (st_ServerURL r) (st_Token r) data name)
      else
        (let args = [''server'', ''--write-kubeconfig='' @ st_KubeconfigPath r, ''--write-kubeconfig-mode=644'', ''--data-dir='' @ data,
               ''--https-listen-port='' @ Itoa (st_APIPort r)]
             @ (case nt_hostname nt (st_ServerURL r) of
                  Some host \<Rightarrow> map (\<lambda>san. ''--tls-san='' @ san) (tlsSANs [] host)
                | None \<Rightarrow> [])
         in if there [data, ''server'', ''db'', ''state.db''] then Inr args
            else if there [data, ''server'', ''db'', ''etcd'', ''member''] then Inr (args @ [''--cluster-init''])
            else Inl (NotSupported name)))"

definition loadArgs :: "'d native \<Rightarrow> string \<Rightarrow> ('d machine, string list) cmd" where
  "loadArgs nt name = ebind (observe (readFile nt (argsPath (standaloneDir nt name)))) (\<lambda>saved. case saved of
     Some b \<Rightarrow> (case nt_args nt b of Some args \<Rightarrow> ret args | None \<Rightarrow> fail ParseDocumentError)
   | None \<Rightarrow> ebind LoadState (\<lambda>st. case st of
       None \<Rightarrow> fail (Missing ''cluster state'')
     | Some r \<Rightarrow> ebind (\<lambda>m. (rebuiltArgs nt name r m, m)) (\<lambda>args.
         andThen (saveArgs nt (standaloneDir nt name) args) (ret args))))"

section \<open>Versions and binaries\<close>

definition controlPlaneQuery :: string where
  "controlPlaneQuery = ''jsonpath={range .items[*]}{.status.nodeInfo.kubeletVersion} {.status.conditions[?(@.type=='' @
     quote ''Ready'' @ '')].status}{'' @ quote [CHR 0x5C, CHR ''n''] @ ''}{en'' @ ''d}''"

definition controlPlanes :: "'d native \<Rightarrow> string \<Rightarrow> ('d machine, string) cmd" where
  "controlPlanes nt kubeconfig = ebind (ExtractPath nt) (\<lambda>bin.
     ebind (exec nt bin (kubectl kubeconfig [''get'', ''nodes'', ''-l'', ''node-role.kubernetes.io/control-plane'', ''-o'', controlPlaneQuery]))
       (\<lambda>(out, ok). if ok then ret out else fail (CmdError ''list control-plane nodes'')))"

fun waitNativeVersion :: "'d native \<Rightarrow> string \<Rightarrow> int \<Rightarrow> string \<Rightarrow> nat \<Rightarrow> ('d machine, unit) cmd" where
  "waitNativeVersion nt kubeconfig pid v 0 = fail (WaitTimeout ''node'' v)"
| "waitNativeVersion nt kubeconfig pid v (Suc n) = ebind (alive nt pid) (\<lambda>up.
     if \<not> up then fail (NotRunning v)
     else ebind (optional (controlPlanes nt kubeconfig)) (\<lambda>got.
       if TrimSpace (case got of Some out \<Rightarrow> out | None \<Rightarrow> []) = v @ '' True'' then ret ()
       else andThen (pause nt 3000) (waitNativeVersion nt kubeconfig pid v n)))"

definition binVersion :: "'d native \<Rightarrow> string \<Rightarrow> ('d machine, string) cmd" where
  "binVersion nt bin = ebind (exec nt bin [''--version'']) (\<lambda>(out, ok).
     let f = Fields out in if ok \<and> length f \<ge> 3 then ret (f ! 2) else fail (VersionUnknown bin))"

text \<open>Release asset and checksum file.\<close>

definition runtimeAsset :: "string \<Rightarrow> (string \<times> string) option" where
  "runtimeAsset arch = map_of [(''amd64'', (''k3s'', ''sha256sum-amd64.txt'')), (''arm64'', (''k3s-arm64'', ''sha256sum-arm64.txt'')),
     (''arm'', (''k3s-armhf'', ''sha256sum-arm.txt''))] arch"

text \<open>\<^verbatim>\<open>bufio.Scanner\<close> stops at a line that does not fit its buffer.\<close>

definition scanLines :: "string \<Rightarrow> string list" where
  "scanLines b = takeWhile (\<lambda>l. int (length l) < 65536) (SplitChar (CHR 0x0A) b)"

definition publishedSum :: "string \<Rightarrow> string \<Rightarrow> string" where
  "publishedSum asset b = foldl (\<lambda>w l. case Fields l of [h, n] \<Rightarrow> if n = asset then h else w | _ \<Rightarrow> w) [] (scanLines b)"

definition dropFile :: "string \<Rightarrow> ('d machine, unit) cmd" where
  "dropFile p m = (Inr (), m\<lparr>ms_files := AList.delete p (ms_files m)\<rparr>)"

text \<open>The download goes to a temporary file, which is renamed when its checksum is the published one.\<close>

definition storeBinary :: "'d native \<Rightarrow> string \<Rightarrow> string \<Rightarrow> string \<Rightarrow> bool \<Rightarrow> ('d machine, string) cmd" where
  "storeBinary nt path want body complete =
     (let tmp = path @ ''.tmp'' in
      andThen (needWritable nt tmp)
     (andThen (\<lambda>m. (Inr (), putFile tmp body m))
      (if \<not> complete then andThen (dropFile tmp) (fail (CmdError ''download''))
       else if nt_sha256 nt body \<noteq> want then andThen (dropFile tmp) (fail (CmdError ''checksum mismatch''))
       else andThen (needWritable nt path)
         (andThen (dropFile tmp) (\<lambda>m. (Inr path, putFile path body m))))))"

definition releaseBase :: "'d native \<Rightarrow> string \<Rightarrow> string" where
  "releaseBase nt v = ''https://github.com/k3s-io/k3s/releases/download/'' @ nt_PathEscape nt v @ ''/''"

definition fetchBinary :: "'d native \<Rightarrow> string \<Rightarrow> string \<Rightarrow> string \<Rightarrow> string \<Rightarrow> ('d machine, string) cmd" where
  "fetchBinary nt v path asset sums =
     (case nt_get nt (releaseBase nt v @ sums) of
        None \<Rightarrow> fail (CmdError ''download'')
      | Some (_, listing, _) \<Rightarrow>
          let want = publishedSum asset listing in
          if want = [] then fail (Missing ''checksum'')
          else (case nt_get nt (releaseBase nt v @ asset) of
             None \<Rightarrow> fail (CmdError ''download'')
           | Some (status, body, complete) \<Rightarrow>
               if status \<noteq> 200 then fail (CmdError ''download'') else storeBinary nt path want body complete))"

definition binaryPath :: "'d native \<Rightarrow> string \<Rightarrow> string" where
  "binaryPath nt v = JoinPath [Dir (JoinPath [nt_bindir nt, ''k3s'']), ''k3s-'' @ v]"

definition k3sBinary :: "'d native \<Rightarrow> string \<Rightarrow> ('d machine, string) cmd" where
  "k3sBinary nt v = ebind (ExtractPath nt) (\<lambda>embedded.
     ebind (optional (binVersion nt embedded)) (\<lambda>ev.
     if (case ev of Some x \<Rightarrow> x | None \<Rightarrow> []) = v then ret embedded
     else case runtimeAsset (nt_arch nt) of
       None \<Rightarrow> fail (NotSupported (nt_arch nt))
     | Some (asset, sums) \<Rightarrow>
         ebind (observe (fileExists nt (binaryPath nt v))) (\<lambda>there.
           if there then ret (binaryPath nt v) else fetchBinary nt v (binaryPath nt v) asset sums)))"

section \<open>The upgrade\<close>

definition outcome :: "('s, 'a) cmd \<Rightarrow> ('s, error + 'a) cmd" where
  "outcome m s = (case m s of (r, s') \<Rightarrow> (Inr r, s'))"

definition nativeExe :: "int \<Rightarrow> string" where
  "nativeExe pid = ''/proc/'' @ Itoa pid @ ''/exe''"

fun stayedUp :: "'d native \<Rightarrow> int \<Rightarrow> nat \<Rightarrow> ('d machine, unit) cmd" where
  "stayedUp nt pid 0 = ret ()"
| "stayedUp nt pid (Suc n) = andThen (pause nt 1000)
     (ebind (alive nt pid) (\<lambda>up. if up then stayedUp nt pid n else fail (NotRunning ''node'')))"

text \<open>The new process id and the error; the id is 0 when the binary could not be started.\<close>

definition bringUp :: "'d native \<Rightarrow> string \<Rightarrow> bool \<Rightarrow> string \<Rightarrow> string \<Rightarrow> string list \<Rightarrow> string \<Rightarrow> ('d machine, int \<times> error option) cmd" where
  "bringUp nt kubeconfig server dir bin args v = ebind (outcome (startNative nt dir bin args)) (\<lambda>r. case r of
     Inl e \<Rightarrow> ret (0, Some e)
   | Inr pid \<Rightarrow> ebind (outcome (if server then waitNativeVersion nt kubeconfig pid v (sh_polls (nt_shell nt) 300 3)
                                else stayedUp nt pid 10))
       (\<lambda>r. ret (pid, case r of Inl e \<Rightarrow> Some e | Inr _ \<Rightarrow> None)))"

text \<open>After a failed start or wait: the process is stopped and the old binary started again.\<close>

definition fallBack :: "'d native \<Rightarrow> string \<Rightarrow> int \<Rightarrow> string \<Rightarrow> string list \<Rightarrow> error \<Rightarrow> ('d machine, 'a) cmd" where
  "fallBack nt dir pid prev args e = andThen (stopGroup nt pid)
     (ebind (outcome (startNative nt dir prev args)) (\<lambda>r. case r of Inr _ \<Rightarrow> fail (Restored e) | Inl _ \<Rightarrow> fail e))"

fun nativeSteps :: "'d native \<Rightarrow> string \<Rightarrow> string \<Rightarrow> bool \<Rightarrow> string list \<Rightarrow> string list \<Rightarrow> int \<Rightarrow> string \<Rightarrow> string \<Rightarrow> ('d machine, string) cmd" where
  "nativeSteps nt dir kubeconfig server args [] pid prev cur = ret cur"
| "nativeSteps nt dir kubeconfig server args (v # vs) pid prev cur =
     ebind (k3sBinary nt v) (\<lambda>bin.
     andThen (stopGroup nt pid)
    (ebind (bringUp nt kubeconfig server dir bin args v) (\<lambda>(pid, err). case err of
       Some e \<Rightarrow> fallBack nt dir pid prev args e
     | None \<Rightarrow> nativeSteps nt dir kubeconfig server args vs pid bin v)))"

definition serverArgs :: "string list \<Rightarrow> bool" where
  "serverArgs args = (case args of a # _ \<Rightarrow> a = ''server'' | [] \<Rightarrow> False)"

definition argsKubeconfig :: "'d native \<Rightarrow> string list \<Rightarrow> string" where
  "argsKubeconfig nt args = foldl (\<lambda>k a. case CutPrefix a ''--write-kubeconfig='' of Some v \<Rightarrow> v | None \<Rightarrow> k) (nt_kubeconfig nt) args"

definition oneControlPlane :: "'d native \<Rightarrow> string \<Rightarrow> ('d machine, unit) cmd" where
  "oneControlPlane nt kubeconfig = ebind (controlPlanes nt kubeconfig) (\<lambda>out.
     if length (SplitChar (CHR 0x0A) (TrimSpace out)) > 1 then fail (NotSupported ''several control-plane nodes'') else ret ())"

definition recordImage :: "'d native \<Rightarrow> string \<Rightarrow> string \<Rightarrow> ('d machine, unit) cmd" where
  "recordImage nt name cur = ebind LoadState (\<lambda>st. case st of
     Some r \<Rightarrow> doIf (st_Name r = name) (ignore (saveState (nt_shell nt) (r\<lparr>st_Image := ''standalone:'' @ cur\<rparr>)))
   | None \<Rightarrow> ret ())"

definition livePID :: "'d native \<Rightarrow> string \<Rightarrow> ('d machine, int) cmd" where
  "livePID nt name = ebind (observe (readPID nt (pidPath (standaloneDir nt name)))) (\<lambda>p. case p of
     None \<Rightarrow> fail (NotRunning name)
   | Some pid \<Rightarrow> ebind (alive nt pid) (\<lambda>up. if up then ret pid else fail (NotRunning name)))"

definition oldBinary :: "'d native \<Rightarrow> int \<Rightarrow> 'd machine \<Rightarrow> string" where
  "oldBinary nt pid m = TrimSuffix (nt_exe nt (ms_docker m) pid) '' (deleted)''"

definition upgradeStandalone :: "'d native \<Rightarrow> string \<Rightarrow> ('d machine, string) cmd" where
  "upgradeStandalone nt name =
     andThen (asRoot nt)
    (ebind (livePID nt name) (\<lambda>pid.
     ebind (loadArgs nt name) (\<lambda>args.
     ebind (observe (oldBinary nt pid)) (\<lambda>prev.
     ebind (binVersion nt (nativeExe pid)) (\<lambda>cur.
     ebind (lift (upgradeSteps cur)) (\<lambda>steps.
     if steps = [] then ret cur
     else let server = serverArgs args; kubeconfig = argsKubeconfig nt args in
       andThen (doIf server (oneControlPlane nt kubeconfig))
      (ebind (nativeSteps nt (standaloneDir nt name) kubeconfig server args
                (if server then steps else [last steps]) pid prev cur) (\<lambda>cur.
        andThen (recordImage nt name cur) (ret cur)))))))))"

text \<open>The provider of the standalone build, where the default build has the \<open>stub\<close>.\<close>

definition nativeProvider :: "'d native \<Rightarrow> 'd provider" where
  "nativeProvider nt = \<lparr>pr_init = initStandalone nt, pr_join = joinStandalone nt, pr_down = downStandalone nt,
     pr_running = standaloneRunning nt, pr_nodes = standaloneNodes nt, pr_upgrade = upgradeStandalone nt\<rparr>"

section \<open>At most one runtime\<close>

lemma keeps_versions [keeps_intros]:
  assumes "native_ok nt pv"
  shows "keeps (fewer pv) (binVersion nt bin)" "keeps (fewer pv) (controlPlanes nt kc)" "keeps (fewer pv) (oneControlPlane nt kc)"
  unfolding binVersion_def controlPlanes_def oneControlPlane_def Let_def
  using assms by (auto intro!: shrink.keeps_rules keeps_intros)

lemma keeps_loadArgs [keeps_intros]: "keeps (fewer pv) (loadArgs nt name)"
proof -
  have "keeps (fewer pv) (\<lambda>m. (rebuiltArgs nt name r m, m))" for r by (rule keeps_fewerI) simp
  then show ?thesis
    unfolding loadArgs_def saveArgs_def by (auto intro!: shrink.keeps_rules keeps_intros split: option.split)
qed

lemma keeps_files [keeps_intros]: "keeps (fewer pv) (dropFile p)" "keeps (fewer pv) (\<lambda>m. (r, putFile p c m))"
  by (auto intro!: keeps_fewerI simp: dropFile_def putFile_def)

lemma keeps_k3sBinary [keeps_intros]: "native_ok nt pv \<Longrightarrow> keeps (fewer pv) (k3sBinary nt v)"
  unfolding k3sBinary_def fetchBinary_def storeBinary_def Let_def
  by (auto intro!: shrink.keeps_rules keeps_intros split: option.split prod.split)

lemma keeps_recordImage [keeps_intros]: "keeps (fewer pv) (recordImage nt name cur)"
  unfolding recordImage_def by (auto intro!: shrink.keeps_rules keeps_intros)

lemma keeps_waits [keeps_intros]:
  assumes "native_ok nt pv"
  shows "keeps (fewer pv) (waitNativeVersion nt kc pid v n)" "keeps (fewer pv) (stayedUp nt pid n)"
  using assms by (induction n) (auto intro!: shrink.keeps_rules keeps_intros)

text \<open>Nothing but process \<open>p\<close> may run, from binary \<open>b\<close> with these arguments.\<close>

definition only :: "('d \<Rightarrow> int \<Rightarrow> (string \<times> string list) option) \<Rightarrow> string list \<Rightarrow> int \<Rightarrow> string \<Rightarrow> 'd machine \<Rightarrow> bool" where
  "only pv args p b m \<longleftrightarrow> pv (ms_docker m) \<subseteq>\<^sub>m [p \<mapsto> (b, args)]"

lemma only_fewer: "only pv args p b m \<Longrightarrow> fewer pv m m' \<Longrightarrow> only pv args p b m'"
  unfolding only_def fewer_def by (rule map_le_trans)

lemma only_stopped:
  assumes "only pv args p b m" and "fewer pv m m'" and "pv (ms_docker m') p = None"
  shows "pv (ms_docker m') = Map.empty"
proof -
  have "pv (ms_docker m') \<subseteq>\<^sub>m [p \<mapsto> (b, args)]" using only_fewer [OF assms(1,2)] by (simp add: only_def)
  then have "pv (ms_docker m') q = None" for q
    using assms(3) by (cases "q = p"; cases "pv (ms_docker m') q") (auto simp: map_le_def dest!: bspec [of _ _ q])
  then show ?thesis by (rule ext)
qed

lemma empty_only: "pv (ms_docker m) = Map.empty \<Longrightarrow> only pv args p b m"
  by (simp add: only_def)

lemma startNative_run:
  assumes "native_ok nt pv" and "startNative nt dir bin args m = (r, m')" and "pv (ms_docker m) = Map.empty"
  shows "case r of Inl _ \<Rightarrow> pv (ms_docker m') = Map.empty | Inr p \<Rightarrow> 0 < p \<and> only pv args p bin m'"
proof (cases "nt_write nt (logPath dir)")
  case True
  obtain p d where st: "nt_start nt bin args (ms_docker m) = (p, d)" by force
  show ?thesis
  proof (cases p)
    case None
    with native_okD(1) [OF assms(1)] st assms(3) have "pv d = Map.empty" by (metis map_le_antisym map_le_empty)
    with assms(2) st True None show ?thesis
      by (auto simp: startNative_def andThen_def ebind_def needWritable_def onOS_def)
  next
    case (Some pid)
    with native_okD(2) [OF assms(1)] st assms(3) have "0 < pid \<and> pv d \<subseteq>\<^sub>m [pid \<mapsto> (bin, args)]" by metis
    with assms(2) st True Some show ?thesis
      by (auto simp: startNative_def andThen_def ebind_def needWritable_def onOS_def tryWrite_def putFile_def only_def)
  qed
qed (use assms in \<open>auto simp: startNative_def andThen_def ebind_def needWritable_def\<close>)

lemma outcome_run: "outcome c m = (r, m') \<longleftrightarrow> (\<exists>x. c m = (x, m') \<and> r = Inr x)"
  by (auto simp: outcome_def split: prod.splits)

text \<open>What was seen of the new process: a server reported the version as ready; a worker was alive ten seconds long.\<close>

definition cameUp :: "'d native \<Rightarrow> string \<Rightarrow> bool \<Rightarrow> int \<Rightarrow> string \<Rightarrow> 'd machine \<Rightarrow> bool" where
  "cameUp nt kc server pid v m' \<longleftrightarrow>
     (if server then \<exists>m1 got. processAlive nt (ms_docker m1) pid \<and> optional (controlPlanes nt kc) m1 = (Inr got, m') \<and>
        TrimSpace (case got of Some out \<Rightarrow> out | None \<Rightarrow> []) = v @ '' True''
      else processAlive nt (ms_docker m') pid)"

lemma waitNativeVersion_up: "waitNativeVersion nt kc pid v n m = (Inr u, m') \<Longrightarrow> cameUp nt kc True pid v m'"
proof (induction n arbitrary: m)
  case (Suc n)
  then show ?case by (auto simp: cmd_runs cameUp_def split: if_splits)
qed simp

lemma stayedUp_up: "stayedUp nt pid n m = (Inr u, m') \<Longrightarrow> 0 < n \<or> processAlive nt (ms_docker m) pid \<Longrightarrow> cameUp nt kc False pid v m'"
  by (induction n arbitrary: m) (auto simp: cmd_runs cameUp_def split: if_splits)

lemma bringUp_run:
  assumes "native_ok nt pv" and "bringUp nt kc server dir bin args v m = (r, m')" and "pv (ms_docker m) = Map.empty"
  shows "\<exists>pid err. r = Inr (pid, err) \<and> (pid = 0 \<longrightarrow> err \<noteq> None \<and> pv (ms_docker m') = Map.empty) \<and>
    (pid \<noteq> 0 \<longrightarrow> 0 < pid \<and> only pv args pid bin m' \<and> (err = None \<longrightarrow> cameUp nt kc server pid v m'))"
proof -
  obtain s m1 where st: "startNative nt dir bin args m = (s, m1)" by force
  note run = startNative_run [OF assms(1) st assms(3)]
  show ?thesis
  proof (cases s)
    case (Inl e)
    then show ?thesis using assms(2) st run by (auto simp: bringUp_def ebind_def outcome_def)
  next
    case (Inr pid)
    let ?wait = "if server then waitNativeVersion nt kc pid v (sh_polls (nt_shell nt) 300 3) else stayedUp nt pid 10"
    obtain w m2 where w: "?wait m1 = (w, m2)" by force
    have "keeps (fewer pv) ?wait" using assms(1) by (auto intro: keeps_waits)
    then have "only pv args pid bin m2" using run Inr w only_fewer keepsD by fastforce
    moreover have "cameUp nt kc server pid v m2" if "w = Inr u" for u
      using w that waitNativeVersion_up stayedUp_up [where n = 10] by (cases server) auto
    ultimately show ?thesis
      using assms(2) st run Inr w by (auto simp: bringUp_def ebind_def outcome_def split: sum.splits)
  qed
qed

text \<open>Where a binary of a version comes from.\<close>

definition binaryOf :: "'d native \<Rightarrow> string \<Rightarrow> string \<Rightarrow> bool" where
  "binaryOf nt v b \<longleftrightarrow> b = JoinPath [nt_bindir nt, ''k3s''] \<or> b = binaryPath nt v"

lemma ExtractPath_path: "ExtractPath nt m = (Inr p, m') \<Longrightarrow> p = JoinPath [nt_bindir nt, ''k3s'']"
  by (auto simp: ExtractPath_def Let_def cmd_runs split: if_splits option.splits)

lemma k3sBinary_path: "k3sBinary nt v m = (Inr b, m') \<Longrightarrow> binaryOf nt v b"
  by (auto simp: k3sBinary_def fetchBinary_def storeBinary_def binaryOf_def Let_def cmd_runs
      split: if_splits option.splits prod.splits dest!: ExtractPath_path)

lemma fallBack_run:
  assumes "native_ok nt pv" and "fallBack nt dir pid prev args e m = (r, m')"
    and "if pid = 0 then pv (ms_docker m) = Map.empty else 0 < pid \<and> only pv args pid b m"
  shows "(\<exists>x. r = Inl x) \<and> (\<exists>p. only pv args p prev m')"
proof (cases "pid = 0")
  case True
  then show ?thesis using assms by (auto simp: fallBack_def stopGroup_def killGroup_def andThen_def ebind_def empty_only)
next
  case False
  with assms(3) have pid: "0 < pid" "only pv args pid b m" by auto
  obtain m1 where m1: "stopGroup nt pid m = (Inr (), m1)" "pv (ms_docker m1) = Map.empty"
    using stopGroup_run [OF assms(1) pid(1), of m] only_stopped [OF pid(2)] by metis
  obtain s m2 where st: "startNative nt dir prev args m1 = (s, m2)" by force
  from startNative_run [OF assms(1) st m1(2)] assms(2) m1(1) st show ?thesis
    by (auto simp: fallBack_def andThen_step ebind_def outcome_def empty_only split: sum.splits)
qed

text \<open>The outcome of the steps \<open>vs\<close> from binary \<open>prev\<close>.\<close>

definition stepsEnd :: "'d native \<Rightarrow> ('d \<Rightarrow> int \<Rightarrow> (string \<times> string list) option) \<Rightarrow> string \<Rightarrow> string list \<Rightarrow> string list \<Rightarrow>
    string \<Rightarrow> string \<Rightarrow> error + string \<Rightarrow> 'd machine \<Rightarrow> bool" where
  "stepsEnd nt pv kc args vs prev cur r m' \<longleftrightarrow> (\<exists>p b. only pv args p b m' \<and>
     (case r of
        Inl _ \<Rightarrow> b = prev \<or> (\<exists>v \<in> set vs. binaryOf nt v b)
      | Inr c \<Rightarrow> if vs = [] then c = cur \<and> b = prev
                else c = last vs \<and> binaryOf nt c b \<and> cameUp nt kc (serverArgs args) p c m'))"

lemma stepsEnd_more:
  assumes "stepsEnd nt pv kc args vs bin v r m'" and "binaryOf nt v bin" and "vs \<noteq> []"
  shows "stepsEnd nt pv kc args (v # vs) prev cur r m'"
proof -
  from assms(1) obtain p b where pb: "only pv args p b m'"
    "case r of Inl _ \<Rightarrow> b = bin \<or> (\<exists>v \<in> set vs. binaryOf nt v b)
     | Inr c \<Rightarrow> if vs = [] then c = v \<and> b = bin else c = last vs \<and> binaryOf nt c b \<and> cameUp nt kc (serverArgs args) p c m'"
    unfolding stepsEnd_def by blast
  show ?thesis unfolding stepsEnd_def
    by (intro exI [of _ p] exI [of _ b]) (use pb assms(2,3) in \<open>auto split: sum.splits\<close>)
qed

lemma nativeSteps_run:
  assumes "native_ok nt pv"
  shows "0 < pid \<Longrightarrow> only pv args pid prev m \<Longrightarrow> nativeSteps nt dir kc (serverArgs args) args vs pid prev cur m = (r, m') \<Longrightarrow>
    stepsEnd nt pv kc args vs prev cur r m'"
proof (induction vs arbitrary: pid prev cur m)
  case Nil
  then show ?case by (auto simp: stepsEnd_def)
next
  case (Cons v vs)
  obtain s m1 where fetch: "k3sBinary nt v m = (s, m1)" by force
  then have m1: "only pv args pid prev m1"
    using only_fewer [OF Cons.prems(2)] keepsD [OF keeps_k3sBinary [OF assms]] by blast
  show ?case
  proof (cases s)
    case (Inl e)
    then show ?thesis
      using Cons.prems(3) fetch m1 by (auto simp: ebind_def stepsEnd_def intro!: exI [of _ pid] exI [of _ prev])
  next
    case (Inr bin)
    note bin = k3sBinary_path [OF fetch [unfolded Inr]]
    obtain m2 where m2: "stopGroup nt pid m1 = (Inr (), m2)" "pv (ms_docker m2) = Map.empty"
      using stopGroup_run [OF assms Cons.prems(1), of m1] only_stopped [OF m1] by metis
    obtain u m3 where up: "bringUp nt kc (serverArgs args) dir bin args v m2 = (u, m3)" by force
    from bringUp_run [OF assms up m2(2)] obtain q err where u: "u = Inr (q, err)"
      and zero: "q = 0 \<longrightarrow> err \<noteq> None \<and> pv (ms_docker m3) = Map.empty"
      and pos: "q \<noteq> 0 \<longrightarrow> 0 < q \<and> only pv args q bin m3 \<and> (err = None \<longrightarrow> cameUp nt kc (serverArgs args) q v m3)" by auto
    have rest: "(case err of Some e \<Rightarrow> fallBack nt dir q prev args e
        | None \<Rightarrow> nativeSteps nt dir kc (serverArgs args) args vs q bin v) m3 = (r, m')"
      using Cons.prems(3) fetch Inr m2(1) up u by (simp add: ebind_def andThen_step)
    show ?thesis
    proof (cases err)
      case (Some e)
      with rest fallBack_run [OF assms, of dir q prev args e m3 r m' bin] zero pos
      obtain x p where "r = Inl x" "only pv args p prev m'" by (cases "q = 0") auto
      then show ?thesis unfolding stepsEnd_def by (intro exI [of _ p] exI [of _ prev]) simp
    next
      case None
      with zero pos have q: "0 < q" "only pv args q bin m3" "cameUp nt kc (serverArgs args) q v m3" by auto
      show ?thesis
      proof (cases vs)
        case Nil
        then show ?thesis using rest None q bin by (auto simp: stepsEnd_def intro!: exI [of _ q] exI [of _ bin])
      next
        case (Cons w ws)
        have "stepsEnd nt pv kc args vs bin v r m'" using Cons.IH [OF q(1,2)] rest None by simp
        then show ?thesis using stepsEnd_more bin Cons by blast
      qed
    qed
  qed
qed

section \<open>The upgrade of a node\<close>

lemma asRoot_run: "asRoot nt m = (r, m') \<Longrightarrow> m' = m"
  by (auto simp: asRoot_def split: if_splits)

lemma livePID_run: "livePID nt name m = (r, m') \<Longrightarrow> m' = m \<and> (\<forall>p. r = Inr p \<longrightarrow> readPID nt (pidPath (standaloneDir nt name)) m = Some p)"
  by (auto simp: livePID_def observe_def ebind_def split: option.splits if_splits)

lemma recordImage_run: "\<exists>u m'. recordImage nt name cur m = (Inr u, m') \<and> ms_docker m' = ms_docker m"
  by (auto simp: recordImage_def LoadState_def ebind_def doIf_def saveState_def split: option.splits)

lemma upgradeSteps_last:
  assumes "upgradeSteps cur = Inr steps" and "steps \<noteq> []"
  shows "last steps = TargetVersion" and "set steps \<subseteq> set upgradePath"
proof -
  from assms(1) obtain cm cp where mp: "minorPatch cur = Some (cm, cp)" by (auto simp: upgradeSteps_def split: option.splits)
  show "last steps = TargetVersion" using upgradeSteps_path [OF mp] assms by simp
  show "set steps \<subseteq> set upgradePath" using assms(1) by (auto simp: upgradeSteps_def split: option.splits prod.splits if_splits)
qed

text \<open>The tail of \<open>upgradeStandalone\<close>, from the node's version on.\<close>

definition upgradeFrom :: "'d native \<Rightarrow> string \<Rightarrow> int \<Rightarrow> string list \<Rightarrow> string \<Rightarrow> ('d machine, string) cmd" where
  "upgradeFrom nt name pid args prev =
     ebind (binVersion nt (nativeExe pid)) (\<lambda>cur.
     ebind (lift (upgradeSteps cur)) (\<lambda>steps.
     if steps = [] then ret cur
     else let server = serverArgs args; kubeconfig = argsKubeconfig nt args in
       andThen (doIf server (oneControlPlane nt kubeconfig))
      (ebind (nativeSteps nt (standaloneDir nt name) kubeconfig server args
                (if server then steps else [last steps]) pid prev cur) (\<lambda>cur.
        andThen (recordImage nt name cur) (ret cur)))))"

definition landed :: "'d native \<Rightarrow> ('d \<Rightarrow> int \<Rightarrow> (string \<times> string list) option) \<Rightarrow> string list \<Rightarrow> string \<Rightarrow> error + string \<Rightarrow> 'd machine \<Rightarrow> bool" where
  "landed nt pv args prev r m' \<longleftrightarrow> (\<exists>p b. only pv args p b m' \<and>
     (case r of
        Inl _ \<Rightarrow> b = prev \<or> (\<exists>v \<in> set upgradePath. binaryOf nt v b)
      | Inr c \<Rightarrow> b = prev \<or> c = TargetVersion \<and> binaryOf nt c b \<and>
          (\<exists>m2. ms_docker m2 = ms_docker m' \<and> cameUp nt (argsKubeconfig nt args) (serverArgs args) p c m2)))"

lemma landed_same: "only pv args p prev m' \<Longrightarrow> landed nt pv args prev r m'"
  unfolding landed_def by (intro exI [of _ p] exI [of _ prev]) (simp split: sum.split)

lemma upgradeFrom_run:
  assumes "native_ok nt pv" and "0 < pid" and "only pv args pid prev m" and "upgradeFrom nt name pid args prev m = (r, m')"
  shows "landed nt pv args prev r m'"
proof -
  let ?kc = "argsKubeconfig nt args"
  obtain v m1 where v: "binVersion nt (nativeExe pid) m = (v, m1)" by force
  have m1: "only pv args pid prev m1" using only_fewer [OF assms(3)] keepsD [OF keeps_versions(1) [OF assms(1)] v] by blast
  show ?thesis
  proof (cases "\<exists>cur steps. v = Inr cur \<and> upgradeSteps cur = Inr steps \<and> steps \<noteq> []")
    case False
    then have "m' = m1" using assms(4) v by (auto simp: upgradeFrom_def ebind_def Let_def split: sum.splits if_splits)
    then show ?thesis using m1 landed_same by blast
  next
    case True
    then obtain cur steps where vs: "v = Inr cur" "upgradeSteps cur = Inr steps" "steps \<noteq> []" by blast
    let ?vs = "if serverArgs args then steps else [last steps]"
    note path = upgradeSteps_last [OF vs(2,3)]
    have last: "last ?vs = TargetVersion" and sub: "set ?vs \<subseteq> set upgradePath" and ne: "?vs \<noteq> []"
      using path vs(3) last_in_set [OF vs(3)] by auto
    let ?check = "doIf (serverArgs args) (oneControlPlane nt ?kc)"
    obtain c m2 where c: "?check m1 = (c, m2)" by force
    have "keeps (fewer pv) ?check" using assms(1) by (intro shrink.keeps_rules keeps_intros)
    then have m2: "only pv args pid prev m2" using only_fewer [OF m1] c keepsD by fastforce
    show ?thesis
    proof (cases c)
      case (Inl e)
      then have "m' = m2" using assms(4) v vs c by (simp add: upgradeFrom_def ebind_def andThen_def Let_def)
      then show ?thesis using m2 landed_same by blast
    next
      case (Inr u)
      obtain s m3 where s: "nativeSteps nt (standaloneDir nt name) ?kc (serverArgs args) args ?vs pid prev cur m2 = (s, m3)"
        by force
      from nativeSteps_run [OF assms(1,2) m2 s] obtain p b where pb: "only pv args p b m3"
        "case s of Inl _ \<Rightarrow> b = prev \<or> (\<exists>v \<in> set ?vs. binaryOf nt v b)
         | Inr x \<Rightarrow> x = TargetVersion \<and> binaryOf nt x b \<and> cameUp nt ?kc (serverArgs args) p x m3"
        unfolding stepsEnd_def last if_not_P [OF ne] by blast
      show ?thesis
      proof (cases s)
        case (Inl e)
        then have "r = Inl e" "m' = m3" using assms(4) v vs c \<open>c = Inr u\<close> s
          by (simp_all add: upgradeFrom_def ebind_def andThen_def Let_def)
        then show ?thesis
          using pb Inl sub unfolding landed_def by (intro exI [of _ p] exI [of _ b]) auto
      next
        case (Inr x)
        obtain w m4 where rec: "recordImage nt name x m3 = (Inr w, m4)" "ms_docker m4 = ms_docker m3"
          using recordImage_run by blast
        then have "r = Inr x" "m' = m4" using assms(4) v vs c \<open>c = Inr u\<close> s Inr
          by (simp_all add: upgradeFrom_def ebind_def andThen_def Let_def)
        then show ?thesis
          using pb Inr rec(2) unfolding landed_def only_def by (intro exI [of _ p] exI [of _ b]) auto
      qed
    qed
  qed
qed



section \<open>A binary that does not start\<close>

text \<open>
  A binary that cannot be started ends orcinus. The failed start leaves process id 0, and stopping "its" group signals
  orcinus's own. The old process has been stopped, the old binary is not started again, and no runtime runs.
\<close>

theorem nativeSteps_start_failure:
  assumes "native_ok nt pv" and "0 < pid" and "pv (ms_docker m) \<subseteq>\<^sub>m [pid \<mapsto> (prev, args)]"
    and "k3sBinary nt v m = (Inr bin, m1)" and "\<And>d. fst (nt_start nt bin args d) = None"
  shows "\<exists>m'. nativeSteps nt dir kc server args (v # vs) pid prev cur m = (Inl (Panic ''signal TERM''), m') \<and>
    pv (ms_docker m') = Map.empty"
proof -
  have m1: "only pv args pid prev m1"
    using assms(3) only_fewer keepsD [OF keeps_k3sBinary [OF assms(1)] assms(4)] unfolding only_def by blast
  obtain m2 where m2: "stopGroup nt pid m1 = (Inr (), m2)" "pv (ms_docker m2) = Map.empty"
    using stopGroup_run [OF assms(1,2), of m1] only_stopped [OF m1] by metis
  obtain s m3 where st: "startNative nt dir bin args m2 = (s, m3)" by force
  with assms(5) obtain e where s: "s = Inl e"
    by (auto simp: startNative_def andThen_def ebind_def needWritable_def onOS_def split: if_splits prod.splits option.splits)
      (metis fst_conv option.distinct(1))
  have "pv (ms_docker m3) = Map.empty" using startNative_run [OF assms(1) st m2(2)] s by simp
  moreover have "nativeSteps nt dir kc server args (v # vs) pid prev cur m = (Inl (Panic ''signal TERM''), m3)"
    using assms(4) m2(1) st s
    by (simp add: ebind_def andThen_step bringUp_def outcome_def fallBack_def stopGroup_def killGroup_def andThen_def)
  ultimately show ?thesis by blast
qed

definition sample_broken :: "sample_os native" where
  "sample_broken = sample_native\<lparr>nt_start := (\<lambda>bin args d. (None, d))\<rparr>"

theorem nativeSteps_start_failure_witness:
  "\<exists>m'. nativeSteps sample_broken ''/o/runtime/n'' ''/o/config'' True [''server''] [''v1.36.5+k3s1''] 7 ''/b/old'' ''v1.35.9+k3s1''
     sample_host = (Inl (Panic ''signal TERM''), m') \<and> map_of (ms_docker m') = Map.empty"
proof -
  have ok: "native_ok sample_broken map_of"
    by (auto simp: native_ok_def sample_broken_def sample_native_def sample_run_def processAlive_def map_le_def delete_conv'
        split: if_splits)
  have pv: "map_of (ms_docker sample_host) \<subseteq>\<^sub>m [7 \<mapsto> (''/b/old'', [''server''])]" by (simp add: sample_host_def)
  obtain r m1 where b: "k3sBinary sample_broken ''v1.36.5+k3s1'' sample_host = (r, m1)" by force
  moreover have "fst (k3sBinary sample_broken ''v1.36.5+k3s1'' sample_host) = Inr ''/b/k3s''" by code_simp
  ultimately have "k3sBinary sample_broken ''v1.36.5+k3s1'' sample_host = (Inr ''/b/k3s'', m1)" by simp
  then show ?thesis by (intro nativeSteps_start_failure [OF ok _ pv]) (simp_all add: sample_broken_def)
qed

section \<open>Downloaded binaries\<close>

lemma map_of_delete: "map_of (AList.delete k xs) k' = (if k' = k then None else map_of xs k')"
  by (simp add: delete_conv')

lemma ExtractPath_files: "ExtractPath nt m = (r, m') \<Longrightarrow> q \<noteq> JoinPath [nt_bindir nt, ''k3s''] \<Longrightarrow>
    map_of (ms_files m') q = map_of (ms_files m) q"
  by (auto simp: ExtractPath_def Let_def andThen_def ebind_def needWritable_def observe_def putFile_def update_conv'
      split: if_splits option.splits)

lemma binVersion_files: "binVersion nt b m = (r, m') \<Longrightarrow> ms_files m' = ms_files m"
  by (auto simp: binVersion_def Let_def ebind_def exec_def onOS_def split: if_splits prod.splits)

lemma storeBinary_run:
  assumes "storeBinary nt path want body complete m = (r, m')" and "map_of (ms_files m) path = None"
  shows "case map_of (ms_files m') path of
      Some c \<Rightarrow> r = Inr path \<and> complete \<and> c = body \<and> nt_sha256 nt c = want
    | None \<Rightarrow> (\<exists>e. r = Inl e \<and> (e = CmdError ''checksum mismatch'' \<longrightarrow> map_of (ms_files m') (path @ ''.tmp'') = None))"
  using assms
  by (auto simp: storeBinary_def Let_def andThen_def ebind_def needWritable_def putFile_def dropFile_def update_conv' map_of_delete
      split: if_splits)

text \<open>
  C34: a runtime binary that \<^verbatim>\<open>k3sBinary\<close> downloads has the checksum that the release's checksum file gives for the asset of
  this architecture. When it fails no binary is left under the name that a later upgrade would take without checking, and a
  file with a wrong checksum is deleted.
\<close>

theorem k3sBinary_checked:
  assumes "k3sBinary nt v m = (r, m')" and "binaryPath nt v \<noteq> JoinPath [nt_bindir nt, ''k3s'']"
    and "map_of (ms_files m) (binaryPath nt v) = None"
  shows "case map_of (ms_files m') (binaryPath nt v) of
      Some c \<Rightarrow> r = Inr (binaryPath nt v) \<and> (\<exists>asset sums status listing whole.
        runtimeAsset (nt_arch nt) = Some (asset, sums) \<and>
        nt_get nt (releaseBase nt v @ sums) = Some (status, listing, whole) \<and>
        publishedSum asset listing \<noteq> [] \<and> nt_sha256 nt c = publishedSum asset listing)
    | None \<Rightarrow> r = Inl (CmdError ''checksum mismatch'') \<longrightarrow> map_of (ms_files m') (binaryPath nt v @ ''.tmp'') = None"
proof -
  let ?path = "binaryPath nt v"
  obtain x m1 where x: "ExtractPath nt m = (x, m1)" by force
  have m1: "map_of (ms_files m1) ?path = None" using ExtractPath_files [OF x assms(2)] assms(3) by simp
  show ?thesis
  proof (cases x)
    case (Inl e)
    then have "m' = m1 \<and> (\<exists>p. r = Inl (WriteError p))"
      using assms(1) x by (auto simp: k3sBinary_def ebind_def ExtractPath_def Let_def andThen_def needWritable_def observe_def
          split: if_splits option.splits)
    then show ?thesis using m1 by auto
  next
    case (Inr b)
    obtain y m2 where y: "optional (binVersion nt b) m1 = (Inr y, m2)"
      by (meson sure_def sure_rules(4))
    then have m2: "map_of (ms_files m2) ?path = None"
      using m1 binVersion_files [of nt b m1] by (auto simp: optional_def split: prod.splits sum.splits)
    show ?thesis
    proof (cases "\<exists>asset sums. (case y of Some z \<Rightarrow> z | None \<Rightarrow> []) \<noteq> v \<and> runtimeAsset (nt_arch nt) = Some (asset, sums) \<and>
        \<not> fileExists nt ?path m2")
      case False
      then have "m' = m2 \<and> r \<noteq> Inl (CmdError ''checksum mismatch'')"
        using assms(1) x Inr y by (auto simp: k3sBinary_def ebind_def observe_def split: if_splits option.splits)
      then show ?thesis using m2 by simp
    next
      case True
      then obtain asset sums where a: "runtimeAsset (nt_arch nt) = Some (asset, sums)"
        and run: "fetchBinary nt v ?path asset sums m2 = (r, m')"
        using assms(1) x Inr y by (auto simp: k3sBinary_def ebind_def observe_def)
      show ?thesis
        using run m2 a storeBinary_run [of nt ?path _ _ _ m2 r m']
        by (fastforce simp: fetchBinary_def Let_def split: option.splits prod.splits if_splits)
    qed
  qed
qed

definition sample_mirror :: "string \<Rightarrow> sample_os native" where
  "sample_mirror body = sample_native\<lparr>nt_get := (\<lambda>u. Some (200, if HasSuffix u ''.txt'' then ''f00d  k3s'' else body, True))\<rparr>"

theorem k3sBinary_checked_witness:
  "map_of (ms_files (snd (k3sBinary (sample_mirror ''f00d'') ''v1.35.9'' sample_host))) ''/b/k3s-v1.35.9'' = Some ''f00d'' \<and>
   map_of (ms_files (snd (k3sBinary (sample_mirror ''evil'') ''v1.35.9'' sample_host))) ''/b/k3s-v1.35.9.tmp'' = None"
proof -
  have path: "binaryPath (sample_mirror b) ''v1.35.9'' = ''/b/k3s-v1.35.9''"
      "binaryPath (sample_mirror b) ''v1.35.9'' \<noteq> JoinPath [nt_bindir (sample_mirror b), ''k3s'']" for b
    by (simp_all add: binaryPath_def sample_mirror_def sample_native_def) (code_simp, code_simp)
  have none: "map_of (ms_files sample_host) (binaryPath (sample_mirror b) ''v1.35.9'') = None" for b
    by (simp add: path sample_host_def)
  let ?good = "k3sBinary (sample_mirror ''f00d'') ''v1.35.9'' sample_host"
  let ?bad = "k3sBinary (sample_mirror ''evil'') ''v1.35.9'' sample_host"
  have res: "fst ?bad = Inl (CmdError ''checksum mismatch'')"
      "map_of (ms_files (snd ?bad)) ''/b/k3s-v1.35.9'' = None"
      "map_of (ms_files (snd ?good)) ''/b/k3s-v1.35.9'' = Some ''f00d''" by code_simp+
  have run: "?bad = (fst ?bad, snd ?bad)" by simp
  from k3sBinary_checked [OF run path(2) none] res show ?thesis by (simp add: path(1))
qed

section \<open>The file of the old process\<close>

text \<open>
  The old process is known by the path of its file. When that is where the embedded binary is extracted to, and the new
  release has replaced it, the path leads to the new binary: what a failed upgrade starts again is not what ran before.
\<close>

lemma TrimSuffix_append: "TrimSuffix (s @ t) t = s"
  by (simp add: TrimSuffix_def HasSuffix_def)

lemma oldBinary_replaced:
  assumes "nt_exe nt (ms_docker m) pid = JoinPath [nt_bindir nt, ''k3s''] @ '' (deleted)''"
    and "ExtractPath nt m = (Inr p, m')"
    and "map_option length (readFile nt (JoinPath [nt_bindir nt, ''k3s'']) m) \<noteq> Some (length (nt_embedded nt))"
  shows "oldBinary nt pid m = p \<and> readFile nt p m' = Some (nt_embedded nt)"
proof -
  have "oldBinary nt pid m = JoinPath [nt_bindir nt, ''k3s'']"
    by (simp add: oldBinary_def assms(1) TrimSuffix_append)
  moreover have "readFile nt p m' = Some (nt_embedded nt)"
    using assms(2,3)
    by (auto simp: ExtractPath_def Let_def cmd_runs needWritable_def observe_def putFile_def readFile_def update_conv'
        split: if_splits option.splits)
  ultimately show ?thesis using ExtractPath_path [OF assms(2)] by simp
qed

end
