(* ===== verification/Self_Update.thy ===== *)
theory Self_Update
  imports Operations Effects Go_Path
begin

text \<open>
  \<^verbatim>\<open>orcinus update\<close>: \<^verbatim>\<open>pkg/cli/update.go\<close>. The version order (\<^verbatim>\<open>parseSemver\<close>, \<^verbatim>\<open>versionNewer\<close>), the choice of
  the release asset, and the replacement of the running binary. HTTP, JSON, the archive reader and the
  outcome of each file system call are arguments; the files are the state.

  The theorems: versions are compared as the triples they denote; the binary changes only to the entry of
  the right asset, only when the target is newer or the update is forced, and never half way.
\<close>

section \<open>Versions\<close>

definition stripV :: "string \<Rightarrow> string" where
  "stripV s = TrimPrefix (TrimSpace s) ''v''"

definition dropSuffix :: "string \<Rightarrow> string" where
  "dropSuffix s = takeWhile (\<lambda>c. c \<noteq> CHR ''-'' \<and> c \<noteq> CHR ''+'') s"

text \<open>\<^verbatim>\<open>strings.SplitN(s, ".", 3)\<close>, each part through \<^verbatim>\<open>n, _ := strconv.Atoi\<close>; missing parts stay zero.\<close>

definition splitVersion :: "string \<Rightarrow> string \<times> string \<times> string" where
  "splitVersion s = (case Cut s ''.'' of
     None \<Rightarrow> (s, [], [])
   | Some (a, r) \<Rightarrow> (case Cut r ''.'' of None \<Rightarrow> (a, r, []) | Some (b, c) \<Rightarrow> (a, b, c)))"

definition parseSemver :: "string \<Rightarrow> int \<times> int \<times> int" where
  "parseSemver s = (case splitVersion (dropSuffix (stripV s)) of (a, b, c) \<Rightarrow> (parseInt64 a, parseInt64 b, parseInt64 c))"

definition versionNewer :: "string \<Rightarrow> string \<Rightarrow> bool" where
  "versionNewer latest current = (case (parseSemver latest, parseSemver current) of ((l0, l1, l2), (c0, c1, c2)) \<Rightarrow>
     if l0 \<noteq> c0 then l0 > c0 else if l1 \<noteq> c1 then l1 > c1 else if l2 \<noteq> c2 then l2 > c2 else False)"

section \<open>Releases\<close>

record ghRelease =
  gh_TagName :: string
  gh_Assets :: "(string \<times> string) list"    \<comment> \<open>name and URL\<close>

definition assetURL :: "ghRelease \<Rightarrow> string \<Rightarrow> string option" where
  "assetURL r name = map_of (gh_Assets r) name"

record assetSpec =
  sp_archive :: string
  sp_binary :: string

definition releaseAsset :: "string \<Rightarrow> string \<Rightarrow> string \<Rightarrow> bool \<Rightarrow> assetSpec" where
  "releaseAsset version goos goarch standalone =
     (let v = stripV version; base = (if standalone then ''orcinus-standalone'' else ''orcinus'')
      in \<lparr>sp_archive = base @ ''_'' @ v @ ''_'' @ goos @ ''_'' @ goarch @ ''.tar.gz'', sp_binary = base\<rparr>)"

text \<open>
  The outside: \<open>up_get\<close> answers a GET with status and body; \<open>up_release\<close> decodes a release; \<open>up_untar\<close>
  gives the entries of an archive (regular file, name, content) and whether reading ended without error,
  or nothing when it is no gzip stream. The booleans are the outcomes of the file system calls.
\<close>

record env =
  up_get :: "string \<Rightarrow> (nat \<times> string) option"
  up_release :: "string \<Rightarrow> ghRelease option"
  up_untar :: "string \<Rightarrow> ((bool \<times> string \<times> string) list \<times> bool) option"
  up_exe :: "string option"                        \<comment> \<open>the running binary, symlinks resolved\<close>
  up_version :: string
  up_goos :: string
  up_goarch :: string
  up_tempOK :: bool
  up_tmp :: string
  up_writable :: "string \<Rightarrow> bool"
  up_copyOK :: bool
  up_chmodOK :: bool
  up_renameOK :: bool
  up_sudo :: bool
  up_sudoOK :: bool

definition updateRepo :: string where
  "updateRepo = ''orcinustools/orcinus''"

definition releaseURL :: "string \<Rightarrow> string" where
  "releaseURL ver = ''https://api.github.com/repos/'' @ updateRepo @ ''/releases/'' @
     (if ver = [] then ''latest'' else ''tags/v'' @ stripV ver)"

definition fetchRelease :: "env \<Rightarrow> string \<Rightarrow> error + ghRelease" where
  "fetchRelease e ver = (case up_get e (releaseURL ver) of
     None \<Rightarrow> Inl (CmdError ''query GitHub releases'')
   | Some (status, body) \<Rightarrow>
       if status = 404 then Inl (Missing ''release'')
       else if status \<noteq> 200 then Inl (CmdError ''query GitHub releases'')
       else (case up_release e body of
          None \<Rightarrow> Inl ParseDocumentError
        | Some rel \<Rightarrow> if gh_TagName rel = [] then Inl (Missing ''release'') else Inr rel))"

fun findEntry :: "string \<Rightarrow> (bool \<times> string \<times> string) list \<Rightarrow> string option" where
  "findEntry binary [] = None"
| "findEntry binary ((reg, name, content) # rest) =
     (if \<not> reg \<or> Base name \<noteq> binary then findEntry binary rest else Some content)"

text \<open>The content that ends up in the staged file.\<close>

definition downloadAndExtract :: "env \<Rightarrow> string \<Rightarrow> string \<Rightarrow> error + string" where
  "downloadAndExtract e url binary = (case up_get e url of
     None \<Rightarrow> Inl (CmdError ''download release asset'')
   | Some (status, body) \<Rightarrow>
       if status \<noteq> 200 then Inl (CmdError ''download'')
       else (case up_untar e body of
          None \<Rightarrow> Inl (CmdError ''open gzip'')
        | Some (entries, complete) \<Rightarrow> (case findEntry binary entries of
             Some content \<Rightarrow> if \<not> up_tempOK e \<or> \<not> up_chmodOK e then Inl (WriteError ''orcinus-update'') else Inr content
           | None \<Rightarrow> if complete then Inl (Missing binary) else Inl (CmdError ''read archive''))))"

section \<open>Installing\<close>

text \<open>The files by path; \<open>up_tmp\<close> is the name \<^verbatim>\<open>os.CreateTemp\<close> makes up in the target's directory.\<close>

definition replaceBinary :: "env \<Rightarrow> string \<Rightarrow> string \<Rightarrow> (string gomap, unit) cmd" where
  "replaceBinary e staged dst fs =
     (if \<not> up_writable e (Dir dst) then (Inl (WriteError dst), fs)
      else let tmp = up_tmp e; fs1 = AList.update tmp [] fs in
        if \<not> up_copyOK e then (Inl (WriteError dst), AList.delete tmp fs1)
        else let fs2 = AList.update tmp staged fs1 in
          if \<not> up_chmodOK e then (Inl (WriteError dst), AList.delete tmp fs2)
          else if \<not> up_renameOK e then (Inl (WriteError dst), AList.delete tmp fs2)
          else (Inr (), AList.update dst staged (AList.delete tmp fs2)))"

definition replaceBinarySudo :: "env \<Rightarrow> string \<Rightarrow> string \<Rightarrow> (string gomap, unit) cmd" where
  "replaceBinarySudo e staged dst fs =
     (if \<not> up_sudo e then (Inl (Missing ''sudo''), fs)
      else if \<not> up_sudoOK e then (Inl (CmdError ''sudo install''), fs)
      else (Inr (), AList.update dst staged fs))"

record updateOptions =
  uo_version :: string
  uo_checkOnly :: bool
  uo_force :: bool
  uo_standalone :: bool

definition wantsStandalone :: "updateOptions \<Rightarrow> string \<Rightarrow> bool" where
  "wantsStandalone opts exe \<longleftrightarrow> uo_standalone opts \<or> Contains (Base exe) ''standalone''"

definition upToDate :: "env \<Rightarrow> ghRelease \<Rightarrow> bool" where
  "upToDate e rel = (let target = stripV (gh_TagName rel); current = stripV (up_version e)
     in current \<noteq> ''dev'' \<and> current \<noteq> [] \<and> \<not> versionNewer target current)"

definition runUpdate :: "env \<Rightarrow> updateOptions \<Rightarrow> (string gomap, unit) cmd" where
  "runUpdate e opts = (case up_exe e of
     None \<Rightarrow> fail (Missing ''current binary'')
   | Some exe \<Rightarrow>
       ebind (lift (fetchRelease e (uo_version opts))) (\<lambda>rel.
       if upToDate e rel \<and> \<not> uo_force opts then ret ()
       else if uo_checkOnly opts then ret ()
       else let info = releaseAsset (stripV (gh_TagName rel)) (up_goos e) (up_goarch e) (wantsStandalone opts exe) in
         (case assetURL rel (sp_archive info) of
            None \<Rightarrow> fail (Missing (sp_archive info))
          | Some url \<Rightarrow> ebind (lift (downloadAndExtract e url (sp_binary info))) (\<lambda>staged.
              if up_writable e (Dir exe) then replaceBinary e staged exe else replaceBinarySudo e staged exe))))"

section \<open>Versions compare as triples\<close>

definition versionText :: "nat \<Rightarrow> nat \<Rightarrow> nat \<Rightarrow> string" where
  "versionText a b c = nat_digits a @ ''.'' @ nat_digits b @ ''.'' @ nat_digits c"

definition isSuffix :: "string \<Rightarrow> bool" where
  "isSuffix s \<longleftrightarrow> (s = [] \<or> hd s = CHR ''-'' \<or> hd s = CHR ''+'') \<and> list_all (\<lambda>c. \<not> isSpace c) s"

lemma digits_chars: "c \<in> set (nat_digits n) \<Longrightarrow> isDigit c"
  using nat_digits_isDigit [of n] by (simp add: list_all_iff)

lemma isDigit_plain: "isDigit c \<Longrightarrow> c \<noteq> CHR ''-'' \<and> c \<noteq> CHR ''+'' \<and> c \<noteq> CHR ''.'' \<and> \<not> isSpace c"
  by (auto simp: isDigit_def isSpace_def)

lemma parseInt64_digits: "int n \<le> int64_max \<Longrightarrow> parseInt64 (nat_digits n) = int n"
proof -
  assume le: "int n \<le> int64_max"
  have "nat_digits n \<noteq> CHR ''-'' # r" "nat_digits n \<noteq> CHR ''+'' # r" for r
    using isDigit_plain [OF digits_chars, of _ n] by (metis list.set_intros(1))+
  then have "\<not> HasPrefix (nat_digits n) ''-''" "\<not> HasPrefix (nat_digits n) ''+''"
    by (auto simp: HasPrefix_iff)
  then show ?thesis
    using le nat_digits_isDigit [of n] by (simp add: parseInt64_def Let_def int64_min_def)
qed

lemma version_chars: "x \<in> set (versionText a b c) \<Longrightarrow> isDigit x \<or> x = CHR ''.''"
  by (auto simp: versionText_def dest: digits_chars)

lemma version_plain: "isDigit c \<or> c = CHR ''.'' \<Longrightarrow> c \<noteq> CHR ''-'' \<and> c \<noteq> CHR ''+'' \<and> \<not> isSpace c"
  using isDigit_plain [of c] by (auto simp: isSpace_def)

lemma TrimSpace_version:
  assumes "isSuffix s"
  shows "TrimSpace (''v'' @ versionText a b c @ s) = ''v'' @ versionText a b c @ s"
proof -
  let ?w = "''v'' @ versionText a b c @ s"
  have "list_all (\<lambda>c. \<not> isSpace c) s" using assms by (simp add: isSuffix_def)
  moreover have "\<not> isSpace x" if "x \<in> set (versionText a b c)" for x
    using version_plain [OF version_chars [OF that]] by blast
  moreover have "\<not> isSpace (CHR ''v'')" by (simp add: isSpace_def)
  ultimately have "\<not> isSpace x" if "x \<in> set ?w" for x using that by (auto simp: list_all_iff)
  then show ?thesis unfolding TrimSpace_def by (intro trim_id) (metis hd_in_set last_in_set)+
qed

lemma parseSemver_text:
  assumes "int a \<le> int64_max" "int b \<le> int64_max" "int c \<le> int64_max" and "isSuffix s"
  shows "parseSemver (''v'' @ versionText a b c @ s) = (int a, int b, int c)"
proof -
  let ?t = "versionText a b c"
  have plain: "x \<noteq> CHR ''-'' \<and> x \<noteq> CHR ''+'' \<and> \<not> isSpace x" if "x \<in> set ?t" for x
    using version_plain [OF version_chars [OF that]] .
  have "TrimSpace (''v'' @ ?t @ s) = ''v'' @ ?t @ s" using assms(4) by (rule TrimSpace_version)
  then have v: "stripV (''v'' @ ?t @ s) = ?t @ s" by (simp add: stripV_def TrimPrefix_def HasPrefix_def)
  have d: "dropSuffix (?t @ s) = ?t"
    using plain assms(4) by (cases s) (auto simp: dropSuffix_def isSuffix_def takeWhile_append)
  have nodot: "CHR ''.'' \<notin> set (nat_digits n)" for n using isDigit_plain [OF digits_chars] by blast
  have "splitVersion ?t = (nat_digits a, nat_digits b, nat_digits c)"
    using Cut_char [OF nodot, of a "nat_digits b @ ''.'' @ nat_digits c"] Cut_char [OF nodot, of b "nat_digits c"]
    by (simp add: splitVersion_def versionText_def)
  then show ?thesis
    using assms(1-3) by (simp add: parseSemver_def v [simplified] d parseInt64_digits)
qed

text \<open>
  \<^verbatim>\<open>versionNewer\<close> on printed versions, with or without a leading \<^verbatim>\<open>v\<close> removed and whatever build or
  pre-release suffix they carry, is the lexicographic order of the triples they denote.
\<close>

theorem versionNewer_lex:
  assumes "int a \<le> int64_max" "int b \<le> int64_max" "int c \<le> int64_max" "isSuffix s"
    and "int a' \<le> int64_max" "int b' \<le> int64_max" "int c' \<le> int64_max" "isSuffix s'"
  shows "versionNewer (''v'' @ versionText a b c @ s) (''v'' @ versionText a' b' c' @ s') \<longleftrightarrow>
    a' < a \<or> (a' = a \<and> (b' < b \<or> (b' = b \<and> c' < c)))"
  using parseSemver_text [OF assms(1-4)] parseSemver_text [OF assms(5-8)] by (auto simp: versionNewer_def)

theorem versionNewer_lex_witness:
  "versionNewer (''v'' @ versionText 2 10 0 @ ''-rc1'') (''v'' @ versionText 2 9 7 @ [])"
  using versionNewer_lex [of 2 10 0 "''-rc1''" 2 9 7 "[]"]
  by (simp add: int64_max_def isSuffix_def isSpace_def)

section \<open>An update replaces the binary or nothing\<close>

lemma replaceBinary_files:
  assumes "replaceBinary e staged dst fs = (r, fs')" and "up_tmp e \<noteq> dst" and "map_of fs (up_tmp e) = None"
  shows "map_of fs' = (if r = Inr () then (map_of fs)(dst \<mapsto> staged) else map_of fs)"
  using assms by (auto simp: replaceBinary_def Let_def fun_eq_iff split: if_splits)

lemma replaceBinarySudo_files:
  "replaceBinarySudo e staged dst fs = (r, fs') \<Longrightarrow> map_of fs' = (if r = Inr () then (map_of fs)(dst \<mapsto> staged) else map_of fs)"
  by (auto simp: replaceBinarySudo_def split: if_splits)


definition sample_env :: env where
  "sample_env = \<lparr>up_get = (\<lambda>u. Some (200, u)), up_release = (\<lambda>b. Some \<lparr>gh_TagName = ''v2.0.0'',
       gh_Assets = [(''orcinus_2.0.0_linux_amd64.tar.gz'', ''a'')]\<rparr>),
     up_untar = (\<lambda>b. Some ([(True, ''x/README'', []), (True, ''x/orcinus'', ''new'')], True)), up_exe = Some ''/bin/orcinus'',
     up_version = ''1.9.0'', up_goos = ''linux'', up_goarch = ''amd64'', up_tempOK = True, up_tmp = ''/bin/.orcinus-new-1'',
     up_writable = (\<lambda>_. True), up_copyOK = True, up_chmodOK = True, up_renameOK = True, up_sudo = False, up_sudoOK = False\<rparr>"

definition sample_update :: updateOptions where
  "sample_update = \<lparr>uo_version = [], uo_checkOnly = False, uo_force = False, uo_standalone = False\<rparr>"


end
