(* ===== verification/Views.thy ===== *)
theory Views
  imports Cluster_Apply
begin

text \<open>
  The read side of \<^verbatim>\<open>pkg/deploy\<close>: \<^verbatim>\<open>ListProjects\<close> (\<^verbatim>\<open>list.go\<close>), \<^verbatim>\<open>ListProjectPods\<close> (\<^verbatim>\<open>pods.go\<close>), \<^verbatim>\<open>ListNodes\<close> and
  \<^verbatim>\<open>LabelNode\<close> (\<^verbatim>\<open>nodes.go\<close>). The API reads are the record \<open>reader\<close>.

  The theorem: the summaries are exactly the counts of the listed workloads by project.
\<close>

record containerStatus =
  cs_Name :: string
  cs_Ready :: bool
  cs_RestartCount :: int
  cs_WaitingReason :: "string option"    \<comment> \<open>\<^verbatim>\<open>State.Waiting\<close> and its reason\<close>

record pod =
  pd_Name :: string
  pd_Namespace :: string
  pd_Labels :: "string gomap"
  pd_Deleting :: bool                    \<comment> \<open>\<^verbatim>\<open>DeletionTimestamp != nil\<close>\<close>
  pd_ContainerStatuses :: "containerStatus list"
  pd_Containers :: "string list"
  pd_Reason :: string
  pd_Phase :: string
  pd_NodeName :: string

record node =
  nd_Name :: string
  nd_Labels :: "string gomap"
  nd_Conditions :: "(string \<times> string) list"    \<comment> \<open>type and status\<close>
  nd_KubeletVersion :: string

record 'c reader =
  rd_listAll :: "'c \<Rightarrow> gvr \<Rightarrow> string \<Rightarrow> obj list option"
  rd_listIn :: "'c \<Rightarrow> gvr \<Rightarrow> string \<Rightarrow> string \<Rightarrow> obj list option"    \<comment> \<open>resource, namespace, selector\<close>
  rd_pods :: "'c \<Rightarrow> string \<Rightarrow> string \<Rightarrow> pod list option"
  rd_nodes :: "'c \<Rightarrow> node list option"
  rd_node :: "'c \<Rightarrow> string \<Rightarrow> node option"
  rd_updateNode :: "node \<Rightarrow> 'c \<Rightarrow> 'c option"

section \<open>Projects\<close>

record ProjectSummary =
  pj_Name :: string
  pj_Namespaces :: "string list"
  pj_Workloads :: nat
  pj_Ready :: nat

definition workloadGVRs :: "gvr list" where
  "workloadGVRs = [apps ''deployments'', apps ''statefulsets'', apps ''daemonsets'']"

definition workloadReadyFromStatus :: "obj \<Rightarrow> bool" where
  "workloadReadyFromStatus u \<longleftrightarrow>
     nestedInt (nestedMap u [''status'']) ''readyReplicas'' 0 \<ge> nestedInt (nestedMap u [''spec'']) ''replicas'' 1"

definition listWorkloads :: "'c reader \<Rightarrow> 'c \<Rightarrow> gvr \<Rightarrow> string \<Rightarrow> string \<Rightarrow> obj list option" where
  "listWorkloads rd c r namespace sel = (if namespace = [] then rd_listAll rd c r sel else rd_listIn rd c r namespace sel)"

definition projectOf :: "obj \<Rightarrow> string" where
  "projectOf it = (case label_of it LabelProject of None \<Rightarrow> ''<none>'' | Some p \<Rightarrow> if p = [] then ''<none>'' else p)"

text \<open>The namespaces seen for a project are those in its summary.\<close>

definition addItem :: "obj \<Rightarrow> ProjectSummary \<Rightarrow> ProjectSummary" where
  "addItem it s =
     (let s = s\<lparr>pj_Workloads := pj_Workloads s + 1\<rparr>;
          s = (if workloadReadyFromStatus it then s\<lparr>pj_Ready := pj_Ready s + 1\<rparr> else s);
          ns = GetNamespace it
      in if ns \<in> set (pj_Namespaces s) then s else s\<lparr>pj_Namespaces := pj_Namespaces s @ [ns]\<rparr>)"

definition summaryOf :: "ProjectSummary gomap \<Rightarrow> string \<Rightarrow> ProjectSummary" where
  "summaryOf agg proj = (case map_of agg proj of Some s \<Rightarrow> s
     | None \<Rightarrow> \<lparr>pj_Name = proj, pj_Namespaces = [], pj_Workloads = 0, pj_Ready = 0\<rparr>)"

definition countItem :: "obj \<Rightarrow> ProjectSummary gomap \<Rightarrow> ProjectSummary gomap" where
  "countItem it agg = (let proj = projectOf it in AList.update proj (addItem it (summaryOf agg proj)) agg)"

definition managedSelector :: string where
  "managedSelector = LabelManagedBy @ ''='' @ ManagedByValue"

definition listedItems :: "'c reader \<Rightarrow> 'c \<Rightarrow> string \<Rightarrow> obj list" where
  "listedItems rd c namespace = concat (map (\<lambda>r. case listWorkloads rd c r namespace managedSelector of
     None \<Rightarrow> [] | Some items \<Rightarrow> items) workloadGVRs)"

definition ListProjects :: "'c reader \<Rightarrow> 'c \<Rightarrow> string \<Rightarrow> ProjectSummary list" where
  "ListProjects rd c namespace =
     sort_key pj_Name (map (\<lambda>(_, s). s\<lparr>pj_Namespaces := sort (pj_Namespaces s)\<rparr>)
       (fold countItem (listedItems rd c namespace) []))"

section \<open>Pods\<close>

definition serviceLabel :: string where
  "serviceLabel = ''io.kompose.service''"

record PodInfo =
  pi_Name :: string
  pi_Namespace :: string
  pi_Service :: string
  pi_Ready :: string
  pi_Status :: string
  pi_Restarts :: int
  pi_Node :: string

definition podStatus :: "pod \<Rightarrow> string" where
  "podStatus p =
     (if pd_Deleting p then ''Terminating''
      else case find (\<lambda>cs. cs_WaitingReason cs \<noteq> None \<and> cs_WaitingReason cs \<noteq> Some []) (pd_ContainerStatuses p) of
        Some cs \<Rightarrow> the (cs_WaitingReason cs)
      | None \<Rightarrow> if pd_Reason p \<noteq> [] then pd_Reason p else pd_Phase p)"

definition podInfo :: "pod \<Rightarrow> PodInfo" where
  "podInfo p = \<lparr>pi_Name = pd_Name p, pi_Namespace = pd_Namespace p,
     pi_Service = (case map_of (pd_Labels p) serviceLabel of Some s \<Rightarrow> s | None \<Rightarrow> []),
     pi_Ready = Itoa (int (length (filter cs_Ready (pd_ContainerStatuses p)))) @ ''/'' @ Itoa (int (length (pd_Containers p))),
     pi_Status = podStatus p,
     pi_Restarts = fold (\<lambda>cs n. int32 (n + cs_RestartCount cs)) (pd_ContainerStatuses p) 0,
     pi_Node = pd_NodeName p\<rparr>"

definition listPods :: "'c reader \<Rightarrow> 'c \<Rightarrow> string \<Rightarrow> string \<Rightarrow> error + PodInfo list" where
  "listPods rd c namespace sel = (case rd_pods rd c namespace sel of
     None \<Rightarrow> Inl (ApiError ''pods'') | Some ps \<Rightarrow> Inr (sort_key pi_Name (map podInfo ps)))"

definition ListProjectPods :: "'c reader \<Rightarrow> 'c \<Rightarrow> string \<Rightarrow> string \<Rightarrow> error + PodInfo list" where
  "ListProjectPods rd c project namespace =
     (if project = [] then Inl ProjectRequired else listPods rd c namespace (ownerSelector project))"

section \<open>Nodes\<close>

record NodeInfo =
  ni_Name :: string
  ni_Status :: string
  ni_Roles :: string
  ni_Version :: string

definition roleOf :: "string \<Rightarrow> string list" where
  "roleOf k = (let r = TrimPrefix k ''node-role.kubernetes.io/'' in if r \<noteq> k \<and> r \<noteq> [] then [r] else [])"

definition nodeRoles :: "node \<Rightarrow> string" where
  "nodeRoles n = (let roles = sort (concat (map (roleOf \<circ> fst) (nd_Labels n)))
     in if roles = [] then ''<none>'' else Join roles '','')"

definition nodeInfo :: "node \<Rightarrow> NodeInfo" where
  "nodeInfo n = \<lparr>ni_Name = nd_Name n,
     ni_Status = (if (''Ready'', ''True'') \<in> set (nd_Conditions n) then ''Ready'' else ''NotReady''),
     ni_Roles = nodeRoles n, ni_Version = nd_KubeletVersion n\<rparr>"

definition ListNodes :: "'c reader \<Rightarrow> 'c \<Rightarrow> error + NodeInfo list" where
  "ListNodes rd c = (case rd_nodes rd c of
     None \<Rightarrow> Inl (ApiError ''nodes'') | Some ns \<Rightarrow> Inr (sort_key ni_Name (map nodeInfo ns)))"

definition LabelNode :: "'c reader \<Rightarrow> string \<Rightarrow> string gomap \<Rightarrow> string list \<Rightarrow> 'c \<Rightarrow> (error + unit) \<times> 'c" where
  "LabelNode rd name add remove c = (case rd_node rd c name of
     None \<Rightarrow> (Inl (ApiError name), c)
   | Some n \<Rightarrow>
       let labels = fold (\<lambda>(k, v) m. AList.update k v m) add (nd_Labels n);
           labels = fold AList.delete remove labels
       in (case rd_updateNode rd (n\<lparr>nd_Labels := labels\<rparr>) c of
             None \<Rightarrow> (Inl (ApiError name), c) | Some c \<Rightarrow> (Inr (), c)))"

section \<open>The summaries are the counts\<close>

text \<open>What a summary of the project \<open>p\<close> says of the items listed so far.\<close>

definition counts :: "obj list \<Rightarrow> string \<Rightarrow> ProjectSummary \<Rightarrow> bool" where
  "counts items p s \<longleftrightarrow> pj_Name s = p \<and>
     pj_Workloads s = length (filter (\<lambda>it. projectOf it = p) items) \<and>
     pj_Ready s = length (filter (\<lambda>it. projectOf it = p \<and> workloadReadyFromStatus it) items) \<and>
     distinct (pj_Namespaces s) \<and> set (pj_Namespaces s) = GetNamespace ` set (filter (\<lambda>it. projectOf it = p) items)"

definition tallied :: "obj list \<Rightarrow> ProjectSummary gomap \<Rightarrow> bool" where
  "tallied items agg \<longleftrightarrow> distinct (map fst agg) \<and> set (map fst agg) = projectOf ` set items \<and>
     (\<forall>(p, s) \<in> set agg. counts items p s)"

lemma counts_other: "projectOf it \<noteq> p \<Longrightarrow> counts items p s \<Longrightarrow> counts (items @ [it]) p s"
  by (simp add: counts_def)

lemma countItem_tallied:
  assumes "tallied items agg"
  shows "tallied (items @ [it]) (countItem it agg)"
proof -
  define p where "p = projectOf it"
  define s where "s = addItem it (summaryOf agg p)"
  have c: "countItem it agg = AList.update p s agg" by (simp add: countItem_def p_def s_def Let_def)
  have d: "distinct (map fst agg)" and k: "set (map fst agg) = projectOf ` set items"
    and v: "\<And>q t. (q, t) \<in> set agg \<Longrightarrow> counts items q t"
    using assms by (auto simp: tallied_def)
  have "counts items p (summaryOf agg p)"
  proof (cases "map_of agg p")
    case None
    then have "p \<notin> projectOf ` set items" using k by (simp add: map_of_eq_None_iff)
    then have "filter (\<lambda>it. projectOf it = p) items = []" "filter (\<lambda>it. projectOf it = p \<and> workloadReadyFromStatus it) items = []"
      by (auto simp: filter_empty_conv)
    then show ?thesis using None by (simp add: summaryOf_def counts_def)
  next
    case (Some t)
    then show ?thesis using v [OF map_of_SomeD [OF Some]] by (simp add: summaryOf_def)
  qed
  then have new: "counts (items @ [it]) p s"
    by (auto simp: counts_def s_def addItem_def Let_def p_def)
  have du: "distinct (map fst (AList.update p s agg))" using d by (rule distinct_update)
  have "counts (items @ [it]) q t" if "(q, t) \<in> set (AList.update p s agg)" for q t
  proof (cases "q = p")
    case True
    then have "t = s" using map_of_is_SomeI [OF du that] by (simp add: update_conv)
    then show ?thesis using new True by simp
  next
    case False
    then have "map_of agg q = Some t" using map_of_is_SomeI [OF du that] by (simp add: update_conv)
    then show ?thesis using v [OF map_of_SomeD] False counts_other [of it q] by (simp add: p_def)
  qed
  moreover have "set (map fst (AList.update p s agg)) = projectOf ` set (items @ [it])"
    using k by (auto simp: update_keys p_def)
  ultimately show ?thesis using du by (auto simp: tallied_def c)
qed

lemma tallied_items: "tallied items (fold countItem items [])"
proof (induction items rule: rev_induct)
  case Nil
  then show ?case by (simp add: tallied_def)
next
  case (snoc it items)
  then show ?case by (simp add: countItem_tallied)
qed

text \<open>
  \<^verbatim>\<open>ListProjects\<close> returns one summary per project that has a listed workload, in strictly increasing order of
  name; each counts the workloads of its project, those of them that are ready, and names their namespaces in
  order and once; workloads of a kind that cannot be listed are left out.
\<close>

theorem ListProjects_counts:
  "sorted_wrt (<) (map pj_Name (ListProjects rd c ns)) \<and>
   set (map pj_Name (ListProjects rd c ns)) = projectOf ` set (listedItems rd c ns) \<and>
   (\<forall>s \<in> set (ListProjects rd c ns). counts (listedItems rd c ns) (pj_Name s) s \<and> sorted (pj_Namespaces s))"
proof -
  let ?items = "listedItems rd c ns"
  let ?agg = "fold countItem ?items []"
  let ?f = "\<lambda>(_ :: string, s :: ProjectSummary). s\<lparr>pj_Namespaces := sort (pj_Namespaces s)\<rparr>"
  have t: "tallied ?items ?agg" by (rule tallied_items)
  have "map (pj_Name \<circ> ?f) ?agg = map fst ?agg"
    using t by (auto simp: tallied_def counts_def)
  moreover have "mset (map pj_Name (ListProjects rd c ns)) = mset (map (pj_Name \<circ> ?f) ?agg)"
    by (simp only: ListProjects_def mset_map mset_sort flip: map_map)
  ultimately have names: "mset (map pj_Name (ListProjects rd c ns)) = mset (map fst ?agg)" by metis
  have "sorted (map pj_Name (ListProjects rd c ns))" by (simp add: ListProjects_def)
  moreover have "distinct (map pj_Name (ListProjects rd c ns))"
    using mset_eq_imp_distinct_iff [OF names] t by (simp only: tallied_def)
  ultimately have "sorted_wrt (<) (map pj_Name (ListProjects rd c ns))" by (simp only: strict_sorted_iff)
  moreover have "set (map pj_Name (ListProjects rd c ns)) = projectOf ` set ?items"
    using mset_eq_setD [OF names] t by (simp only: tallied_def)
  moreover have "counts ?items (pj_Name s) s \<and> sorted (pj_Namespaces s)" if "s \<in> set (ListProjects rd c ns)" for s
    using that t by (auto simp: ListProjects_def tallied_def counts_def)
  ultimately show ?thesis by blast
qed

theorem ListProjects_counts_witness:
  "\<exists>rd :: unit reader. map pj_Name (ListProjects rd () []) = [''shop''] \<and>
     (\<forall>s \<in> set (ListProjects rd () []). counts (listedItems rd () []) (pj_Name s) s)"
proof -
  define rd :: "unit reader" where "rd = \<lparr>rd_listAll = (\<lambda>_ r _. if gr_Resource r = ''deployments'' then
      Some [[(''metadata'', JObj [(''labels'', JObj [(LabelProject, JStr ''shop'')])])]] else None),
    rd_listIn = (\<lambda>_ _ _ _. None), rd_pods = (\<lambda>_ _ _. None), rd_nodes = (\<lambda>_. None), rd_node = (\<lambda>_ _. None), rd_updateNode = (\<lambda>_ _. None)\<rparr>"
  have "map pj_Name (ListProjects rd () []) = [''shop'']" unfolding rd_def by code_simp
  then show ?thesis using ListProjects_counts [of rd "()" "[]"] by (intro exI [of _ rd]) simp
qed

text \<open>
  A DaemonSet reports neither replicas nor ready replicas, so the list never counts one as ready, also when
  the wait after a deployment found it ready.
\<close>

lemma ListProjects_daemonset:
  assumes "kb_get kb c (ar_GVR r) (ar_Namespace r) (ar_Name r) = Some u" and "gk_Kind (ar_GVK r) = ''DaemonSet''"
    and "map_of (nestedMap u [''spec'']) ''replicas'' = None" and "map_of (nestedMap u [''status'']) ''readyReplicas'' = None"
    and "workloadReady kb c r = Some True"
  shows "\<not> workloadReadyFromStatus u"
  using assms(3,4) by (simp add: workloadReadyFromStatus_def nestedInt_def)

text \<open>A label both set and removed is removed; the others keep their value.\<close>

lemma LabelNode_labels:
  fixes labels add :: "string gomap"
  shows "map_of (fold AList.delete remove (fold (\<lambda>(k, v) m. AList.update k v m) add labels)) k =
     (if k \<in> set remove then None else case map_of (rev add) k of Some v \<Rightarrow> Some v | None \<Rightarrow> map_of labels k)"
proof -
  have d: "map_of (fold AList.delete remove m) k = (if k \<in> set remove then None else map_of m k)" for m :: "string gomap"
    by (induction remove arbitrary: m) (auto simp: delete_conv')
  have "map_of (fold (\<lambda>(k, v) m. AList.update k v m) add m) k =
      (case map_of (rev add) k of Some v \<Rightarrow> Some v | None \<Rightarrow> map_of m k)" for m :: "string gomap"
    by (induction add arbitrary: m) (auto simp: update_conv' map_add_def split: option.splits)
  then show ?thesis by (simp add: d)
qed

end
