(* ===== verification/Tab_Writer.thy ===== *)
theory Tab_Writer
  imports Orcinus_Prelude
begin

text \<open>
  The part of \<^verbatim>\<open>text/tabwriter\<close> and of \<^verbatim>\<open>strconv.Quote\<close> the commands print with: \<^verbatim>\<open>tabwriter.NewWriter(out, 0, 2, pad, ' ', 0)\<close>,
  flushed at the end. A cell ends at a tab; a column is a block of consecutive lines that have the cell; its width is that
  of the widest cell plus the padding; the text after the last tab of a line belongs to no column.

  The theorem: for a table, whose lines have equally many cells, the recursive formatting is the two-pass one: every column is as
  wide as its widest cell plus the padding, so the cells of a column start at the same place.
\<close>

section \<open>Formatting\<close>

text \<open>Characters of a UTF-8 text: its bytes less the continuation bytes.\<close>

definition runeCount :: "string \<Rightarrow> nat" where
  "runeCount s = length (filter (\<lambda>c. \<not> (128 \<le> (of_char c :: nat) \<and> (of_char c :: nat) < 192)) s)"

fun writeLine :: "nat list \<Rightarrow> string list \<Rightarrow> string" where
  "writeLine ws [] = []"
| "writeLine [] (c # cs) = c @ writeLine [] cs"
| "writeLine (w # ws) (c # cs) = c @ replicate (w - runeCount c) (CHR '' '') @ writeLine ws cs"

definition hasCell :: "nat \<Rightarrow> string list \<Rightarrow> bool" where
  "hasCell j l \<longleftrightarrow> j < length l - 1"

definition blockWidth :: "nat \<Rightarrow> nat \<Rightarrow> string list list \<Rightarrow> nat" where
  "blockWidth pad j ls = fold max (map (\<lambda>l. runeCount (l ! j) + pad) ls) 0"

definition remaining :: "nat \<Rightarrow> string list list \<Rightarrow> nat" where
  "remaining j ls = sum_list (map (\<lambda>l. Suc (length l - j)) ls)"

lemma remaining_block: "list_all (hasCell j) ls \<Longrightarrow> remaining (Suc j) ls + length ls = remaining j ls"
  by (induction ls) (auto simp: remaining_def hasCell_def)

lemma remaining_append: "remaining j (xs @ ys) = remaining j xs + remaining j ys"
  by (simp add: remaining_def)

lemma remaining_length: "length ls \<le> remaining j ls"
  by (induction ls) (auto simp: remaining_def)

function format :: "nat \<Rightarrow> nat list \<Rightarrow> string list list \<Rightarrow> string list" where
  "format pad ws [] = []"
| "format pad ws (l # ls) =
     (let j = length ws in
      if \<not> hasCell j l then writeLine ws l # format pad ws ls
      else let block = takeWhile (hasCell j) (l # ls) in
        format pad (ws @ [blockWidth pad j block]) block @ format pad ws (dropWhile (hasCell j) (l # ls)))"
  by pat_completeness auto
termination
proof (relation "measure (\<lambda>(pad, ws, ls). remaining (length ws) ls)", goal_cases)
  case (2 pad ws l ls j)
  then show ?case by (simp add: remaining_def)
next
  case (3 pad ws l ls j block)
  have "list_all (hasCell j) block" unfolding 3(3) by (auto simp: list_all_iff dest: set_takeWhileD)
  from remaining_block [OF this] have "remaining (Suc j) block < remaining j block"
    using 3(2,3) by simp
  moreover have "remaining j block \<le> remaining j (l # ls)"
    unfolding 3(3) by (metis le_add1 remaining_append takeWhile_dropWhile_id)
  ultimately show ?case using 3(1) by simp
next
  case (4 pad ws l ls j block)
  have "remaining j (l # ls) = remaining j block + remaining j (dropWhile (hasCell j) (l # ls))"
    unfolding 4(3) by (metis remaining_append takeWhile_dropWhile_id)
  moreover have "0 < remaining j block" using 4(2,3) by (simp add: remaining_def)
  ultimately show ?case using 4(1) by simp
qed simp

declare format.simps(2) [simp del]

definition tabChar :: char where "tabChar = CHR 0x09"
definition lineChar :: char where "lineChar = CHR 0x0A"

text \<open>A vertical tab ends a cell as a tab does; a form feed ends the line and all columns.\<close>

definition formatText :: "nat \<Rightarrow> string \<Rightarrow> string" where
  "formatText pad text = Join (format pad [] (map (SplitChar tabChar) (SplitChar lineChar text))) [lineChar]"

definition tabwriter :: "nat \<Rightarrow> string \<Rightarrow> string" where
  "tabwriter pad text =
     Join (map (formatText pad) (SplitChar (CHR 0x0C) (map (\<lambda>c. if c = CHR 0x0B then tabChar else c) text))) [lineChar]"

text \<open>One line of a table, as the callers print it.\<close>

definition tabRow :: "string list \<Rightarrow> string" where
  "tabRow cells = Join cells [tabChar] @ [lineChar]"

section \<open>Quoting\<close>

definition hexDigit :: "nat \<Rightarrow> char" where
  "hexDigit n = (if n < 10 then char_of (48 + n) else char_of (87 + n))"

text \<open>Bytes past ASCII are kept, as the printable characters they are part of are.\<close>

definition quoteChar :: "char \<Rightarrow> string" where
  "quoteChar c = (let n = (of_char c :: nat); b = CHR 0x5C in
     if c = CHR 0x22 \<or> c = b then [b, c]
     else if n = 7 then [b, CHR ''a''] else if n = 8 then [b, CHR ''b''] else if n = 9 then [b, CHR ''t'']
     else if n = 10 then [b, CHR ''n''] else if n = 11 then [b, CHR ''v''] else if n = 12 then [b, CHR ''f'']
     else if n = 13 then [b, CHR ''r'']
     else if n < 32 \<or> n = 127 then [b, CHR ''x'', hexDigit (n div 16), hexDigit (n mod 16)]
     else [c])"

definition Quote :: "string \<Rightarrow> string" where
  "Quote s = CHR 0x22 # concat (map quoteChar s) @ [CHR 0x22]"

section \<open>Tables\<close>

text \<open>The widths a reader expects: every column by its widest cell.\<close>

definition columns :: "nat \<Rightarrow> string list list \<Rightarrow> nat \<Rightarrow> nat list" where
  "columns pad rows n = map (\<lambda>j. blockWidth pad j rows) [0..<n - 1]"

lemma format_table:
  assumes "\<And>l. l \<in> set ls \<Longrightarrow> length l = n" and "j < n" and "ws = map (\<lambda>j. blockWidth pad j ls) [0..<j]"
  shows "format pad ws ls = map (writeLine (columns pad ls n)) ls"
  using assms(2,3)
proof (induction "n - j" arbitrary: j ws)
  case (Suc k)
  show ?case
  proof (cases ls)
    case (Cons l ls')
    have all: "\<forall>x \<in> set ls. hasCell j x = (j < n - 1)" using assms(1) by (auto simp: hasCell_def)
    have len: "length ws = j" using Suc.prems by simp
    show ?thesis
    proof (cases "j < n - 1")
      case True
      have tw: "takeWhile (hasCell j) ls = ls" and dw: "dropWhile (hasCell j) ls = []"
        using all True by (simp_all add: takeWhile_eq_all_conv dropWhile_eq_Nil_conv)
      have "hasCell j l" using all True Cons by simp
      then have "format pad ws ls = format pad (ws @ [blockWidth pad j ls]) ls"
        using format.simps(2) [of pad ws l ls', folded Cons, unfolded Let_def len tw dw] by simp
      also have "\<dots> = map (writeLine (columns pad ls n)) ls"
        using Suc.hyps(1) [of "Suc j"] Suc.hyps(2) Suc.prems True by simp
      finally show ?thesis .
    next
      case False
      then have "j = n - 1" using Suc.prems by simp
      then have j: "ws = columns pad ls n" using Suc.prems by (simp add: columns_def)
      have "format pad ws xs = map (writeLine ws) xs" if "set xs \<subseteq> set ls" for xs
        using that all False by (induction xs) (simp_all add: len Let_def format.simps(2))
      then show ?thesis using j by simp
    qed
  qed simp
qed simp

definition clean :: "string list \<Rightarrow> bool" where
  "clean cells \<longleftrightarrow> list_all (\<lambda>c. set c \<inter> {tabChar, lineChar, CHR 0x0B, CHR 0x0C} = {}) cells"

lemma Join_no: "x \<notin> set sep \<Longrightarrow> (\<And>s. s \<in> set ss \<Longrightarrow> x \<notin> set s) \<Longrightarrow> x \<notin> set (Join ss sep)"
  by (induction ss sep rule: Join.induct) auto

lemma SplitChar_lines:
  "(\<And>s. s \<in> set ss \<Longrightarrow> x \<notin> set s) \<Longrightarrow> SplitChar x (concat (map (\<lambda>s. s @ [x]) ss)) = ss @ [[]]"
proof (induction ss)
  case (Cons s ss)
  have "SplitChar x (t @ x # r) = t # SplitChar x r" if "x \<notin> set t" for t r
    using that by (induction t) auto
  with Cons show ?case by simp
qed simp

lemma SplitChar_none: "x \<notin> set s \<Longrightarrow> SplitChar x s = [s]"
  by (induction s) auto

lemma format_last: "ls \<noteq> [] \<Longrightarrow> (\<And>l. l \<in> set ls \<Longrightarrow> length l = n) \<Longrightarrow> 0 < n \<Longrightarrow>
    format pad [] (ls @ [[[]]]) = format pad [] ls @ [[]]"
proof -
  assume ne: "ls \<noteq> []" and len: "\<And>l. l \<in> set ls \<Longrightarrow> length l = n" and n: "0 < n"
  have e: "\<not> hasCell 0 [[]]" and all: "\<forall>x \<in> set ls. hasCell 0 x = (0 < n - 1)"
    using len by (auto simp: hasCell_def)
  have plain: "format pad [] (xs @ [[[]]]) = format pad [] xs @ [[]]" if "\<forall>x \<in> set xs. \<not> hasCell 0 x" for xs
    using that e by (induction xs) (simp_all add: Let_def format.simps(2))
  show ?thesis
  proof (cases "0 < n - 1")
    case True
    obtain l ls' where ls: "ls = l # ls'" using ne by (cases ls) auto
    have h: "hasCell 0 l" using all True ls by simp
    have tw: "takeWhile (hasCell 0) (ls @ [[[]]]) = ls" "takeWhile (hasCell 0) ls = ls"
      and dw: "dropWhile (hasCell 0) (ls @ [[[]]]) = [[[]]]" "dropWhile (hasCell 0) ls = []"
      using all True e by (simp_all add: takeWhile_eq_all_conv)
    have "format pad [] (ls @ [[[]]]) = format pad [blockWidth pad 0 ls] ls @ format pad [] [[[]]]"
      using h format.simps(2) [of pad "[]" l "ls' @ [[[]]]", folded append_Cons ls, unfolded Let_def list.size(3) tw(1) dw(1)] by simp
    moreover have "format pad [] ls = format pad [blockWidth pad 0 ls] ls"
      using h format.simps(2) [of pad "[]" l ls', folded ls, unfolded Let_def list.size(3) tw(2) dw(2)] by simp
    moreover have "format pad [] [[[]]] = [[]]" using plain [of "[]"] by simp
    ultimately show ?thesis by simp
  next
    case False
    with all show ?thesis by (intro plain) simp
  qed
qed

text \<open>
  What the commands print as a table is aligned: for lines of equally many cells, without tabs or line breaks in them,
  \<^verbatim>\<open>text/tabwriter\<close>'s block-by-block formatting gives each line with every cell but the last filled up to the width of the widest
  cell of its column plus the padding.
\<close>

theorem tabwriter_table:
  assumes "rows \<noteq> []" and "0 < n" and "list_all (\<lambda>r. length r = n \<and> clean r) rows"
  shows "tabwriter pad (concat (map tabRow rows)) = concat (map (\<lambda>r. writeLine (columns pad rows n) r @ [lineChar]) rows)"
proof -
  let ?lines = "map (\<lambda>r. Join r [tabChar]) rows"
  have cell: "x \<notin> set c" if "r \<in> set rows" "c \<in> set r" "x \<in> {tabChar, lineChar, CHR 0x0B, CHR 0x0C}" for r c x
    using assms(3) that by (fastforce simp: list_all_iff clean_def)
  have no: "x \<notin> set (Join r [tabChar])" if "r \<in> set rows" "x \<in> {lineChar, CHR 0x0B, CHR 0x0C}" for r x
  proof (rule Join_no)
    show "x \<notin> set [tabChar]" using that(2) by (auto simp: tabChar_def lineChar_def)
    show "x \<notin> set c" if "c \<in> set r" for c using cell [OF \<open>r \<in> set rows\<close> that] \<open>x \<in> {lineChar, CHR 0x0B, CHR 0x0C}\<close> by blast
  qed
  let ?text = "concat (map tabRow rows)"
  have body: "?text = concat (map (\<lambda>s. s @ [lineChar]) ?lines)" by (simp add: comp_def tabRow_def [abs_def])
  have "CHR 0x0B \<notin> set ?text" "CHR 0x0C \<notin> set ?text"
    using no by (auto simp: body lineChar_def)
  moreover from this have "map (\<lambda>c. if c = CHR 0x0B then tabChar else c) ?text = ?text"
    by (intro map_idI) (metis)
  ultimately have "tabwriter pad ?text = formatText pad ?text"
    unfolding tabwriter_def by (simp add: SplitChar_none del: set_concat)
  also have "\<dots> = Join (format pad [] (rows @ [[[]]])) [lineChar]"
  proof -
    have "SplitChar lineChar ?text = ?lines @ [[]]"
      unfolding body by (rule SplitChar_lines) (use no in auto)
    moreover have "map (SplitChar tabChar) ?lines = rows"
    proof -
      have "SplitChar tabChar (Join r [tabChar]) = r" if "r \<in> set rows" for r
        using that assms(2,3) cell by (intro SplitChar_Join) (auto simp: list_all_iff)
      then show ?thesis by (simp add: map_idI)
    qed
    ultimately show ?thesis by (simp add: formatText_def)
  qed
  also have "\<dots> = Join (map (writeLine (columns pad rows n)) rows @ [[]]) [lineChar]"
  proof -
    have len: "\<And>l. l \<in> set rows \<Longrightarrow> length l = n" using assms(3) by (simp add: list_all_iff)
    have "format pad [] rows = map (writeLine (columns pad rows n)) rows"
      by (rule format_table [OF len assms(2)]) simp_all
    then show ?thesis by (simp only: format_last [OF assms(1) len assms(2)])
  qed
  also have "\<dots> = concat (map (\<lambda>r. writeLine (columns pad rows n) r @ [lineChar]) rows)"
  proof -
    have "Join (ss @ [[]]) [x] = concat (map (\<lambda>s. s @ [x]) ss)" for ss :: "string list" and x
    proof (induction ss)
      case (Cons s ss)
      then show ?case by (cases ss) auto
    qed simp
    then show ?thesis by (simp add: comp_def)
  qed
  finally show ?thesis .
qed

theorem tabwriter_table_witness:
  "tabwriter 3 (concat (map tabRow [[''NAME'', ''READY''], [''web'', ''1/1''], [''database'', ''0/1'']])) =
     ''NAME       READY'' @ [lineChar] @ ''web        1/1'' @ [lineChar] @ ''database   0/1'' @ [lineChar]"
proof -
  let ?rows = "[[''NAME'', ''READY''], [''web'', ''1/1''], [''database'', ''0/1'']]"
  have "list_all (\<lambda>r. length r = 2 \<and> clean r) ?rows" by code_simp
  from tabwriter_table [OF _ _ this, of 3] have "tabwriter 3 (concat (map tabRow ?rows)) =
      concat (map (\<lambda>r. writeLine (columns 3 ?rows 2) r @ [lineChar]) ?rows)" by simp
  also have "\<dots> = ''NAME       READY'' @ [lineChar] @ ''web        1/1'' @ [lineChar] @ ''database   0/1'' @ [lineChar]"
    by code_simp
  finally show ?thesis .
qed

end
