(* ===== verification/Project_Config.thy ===== *)
theory Project_Config
  imports Views Tab_Writer
begin

text \<open>
  \<^verbatim>\<open>pkg/deploy/config.go\<close> and \<^verbatim>\<open>render.go\<close>: reading a deployed project back (\<^verbatim>\<open>ProjectConfig\<close>) and printing it as
  manifests (\<^verbatim>\<open>RenderK8s\<close> with \<^verbatim>\<open>cleanForExport\<close> and \<^verbatim>\<open>redactSecret\<close>), as a compose file (\<^verbatim>\<open>RenderCompose\<close>) or as a
  table (\<^verbatim>\<open>WriteSummary\<close>). The YAML printers are arguments; objects are their JSON.

  The theorem: without \<^verbatim>\<open>--show-secrets\<close> none of the three prints anything that depends on a value stored in a Secret.
\<close>

record ProjectConfig =
  pc_Project :: string
  pc_Namespace :: string
  pc_Items :: "obj list"

definition GetKind :: "obj \<Rightarrow> string" where
  "GetKind u = nestedString u [''kind'']"

definition readItems :: "'c kube \<Rightarrow> 'c \<Rightarrow> string \<Rightarrow> string \<Rightarrow> gvr \<Rightarrow> obj list" where
  "readItems kb c namespace sel r = (case kb_list kb c r namespace sel of None \<Rightarrow> [] | Some items \<Rightarrow> sort_key GetName items)"

definition readConfig :: "'c kube \<Rightarrow> 'c \<Rightarrow> string \<Rightarrow> string \<Rightarrow> error + ProjectConfig" where
  "readConfig kb c project namespace0 =
     (if project = [] then Inl ProjectRequired
      else let namespace = (if namespace0 = [] then ''default'' else namespace0);
               items = concat (map (readItems kb c namespace (ownerSelector project)) prunableGVRs)
           in if items = [] then Inl NothingFound
              else Inr \<lparr>pc_Project = project, pc_Namespace = namespace, pc_Items = items\<rparr>)"

section \<open>Nested fields\<close>

fun removeNested :: "string list \<Rightarrow> obj \<Rightarrow> obj" where
  "removeNested [] m = m"
| "removeNested [k] m = AList.delete k m"
| "removeNested (k # ks) m = (case map_of m k of
     Some (JObj n) \<Rightarrow> AList.update k (JObj (removeNested ks n)) m | _ \<Rightarrow> m)"

text \<open>An intermediate field that is no map is an error, which the callers drop.\<close>

fun setNested :: "string list \<Rightarrow> iface \<Rightarrow> obj \<Rightarrow> obj" where
  "setNested [] v m = m"
| "setNested [k] v m = AList.update k v m"
| "setNested (k # ks) v m = (case map_of m k of
     None \<Rightarrow> AList.update k (JObj (setNested ks v [])) m
   | Some (JObj n) \<Rightarrow> AList.update k (JObj (setNested ks v n)) m
   | Some _ \<Rightarrow> m)"

fun strings :: "obj \<Rightarrow> string gomap option" where
  "strings [] = Some []"
| "strings ((k, JStr v) # m) = map_option ((#) (k, v)) (strings m)"
| "strings (_ # m) = None"

definition nestedStringMap :: "obj \<Rightarrow> string list \<Rightarrow> string gomap option" where
  "nestedStringMap m ks = (case nested m ks of Some (JObj n) \<Rightarrow> strings n | _ \<Rightarrow> None)"

fun stringItems :: "iface list \<Rightarrow> string list option" where
  "stringItems [] = Some []"
| "stringItems (JStr s # xs) = map_option ((#) s) (stringItems xs)"
| "stringItems (_ # xs) = None"

definition stringSlice :: "obj \<Rightarrow> string \<Rightarrow> string list" where
  "stringSlice m k = (case map_of m k of
     Some (JArr xs) \<Rightarrow> (case stringItems xs of Some ss \<Rightarrow> ss | None \<Rightarrow> []) | _ \<Rightarrow> [])"

definition nestedInt64 :: "obj \<Rightarrow> string list \<Rightarrow> int option" where
  "nestedInt64 m ks = (case nested m ks of Some (JInt i) \<Rightarrow> Some i | _ \<Rightarrow> None)"

fun asMap :: "iface \<Rightarrow> obj" where
  "asMap (JObj m) = m"
| "asMap _ = []"

definition GetAnnotations :: "obj \<Rightarrow> string gomap" where
  "GetAnnotations u = (case nestedStringMap u [''metadata'', ''annotations''] of Some m \<Rightarrow> m | None \<Rightarrow> [])"

definition SetAnnotations :: "string gomap \<Rightarrow> obj \<Rightarrow> obj" where
  "SetAnnotations m = setNested [''metadata'', ''annotations''] (JObj (toStringMapIface m))"

section \<open>Kubernetes output\<close>

definition bookkeeping :: "string list list" where
  "bookkeeping = [[''metadata'', ''generation''], [''metadata'', ''ownerReferences''], [''metadata'', ''finalizers''],
     [''metadata'', ''annotations'', ''kubectl.kubernetes.io/last-applied-configuration''],
     [''metadata'', ''annotations'', ''deployment.kubernetes.io/revision''],
     [''spec'', ''template'', ''metadata'', ''creationTimestamp''],
     [''spec'', ''clusterIP''], [''spec'', ''clusterIPs''], [''spec'', ''volumeName'']]"

definition bindingState :: "string \<Rightarrow> bool" where
  "bindingState k \<longleftrightarrow> HasPrefix k ''pv.kubernetes.io/'' \<or> HasPrefix k ''volume.kubernetes.io/'' \<or>
     HasPrefix k ''volume.beta.kubernetes.io/''"

definition dropBindingState :: "obj \<Rightarrow> obj" where
  "dropBindingState u =
     (let anns = GetAnnotations u;
          u = (if anns \<noteq> [] then SetAnnotations (filter (\<lambda>(k, _). \<not> bindingState k) anns) u else u)
      in if GetAnnotations u = [] then removeNested [''metadata'', ''annotations''] u else u)"

fun cleanTemplate :: "iface \<Rightarrow> iface" where
  "cleanTemplate (JObj tm) = JObj (removeNested [''metadata'', ''creationTimestamp''] (removeNested [''status''] tm))"
| "cleanTemplate t = t"

definition cleanTemplates :: "obj \<Rightarrow> obj" where
  "cleanTemplates u = (case nested u [''spec'', ''volumeClaimTemplates''] of
     Some (JArr ts) \<Rightarrow> setNested [''spec'', ''volumeClaimTemplates''] (JArr (map cleanTemplate ts)) u | _ \<Rightarrow> u)"

definition cleanForExport :: "obj \<Rightarrow> obj" where
  "cleanForExport u = cleanTemplates (dropBindingState (fold removeNested bookkeeping (cleanForApply u)))"

definition redacted :: string where
  "redacted = ''<redacted>''"

definition redactAll :: "obj \<Rightarrow> obj" where
  "redactAll d = map (\<lambda>(k, _). (k, JStr redacted)) d"

lemma redactAll_twice [simp]: "redactAll (redactAll d) = redactAll d"
  by (simp add: redactAll_def comp_def case_prod_beta)

definition redactSecret :: "obj \<Rightarrow> obj" where
  "redactSecret u = (case map_of u ''data'' of
     Some (JObj d) \<Rightarrow>
       (let u = AList.update ''data'' (JObj (redactAll d)) u
        in SetAnnotations (AList.update ''orcinus.io/redacted'' ''values omitted; re-export with --show-secrets'' (GetAnnotations u)) u)
   | _ \<Rightarrow> u)"

definition exportItem :: "bool \<Rightarrow> obj \<Rightarrow> obj" where
  "exportItem showSecrets u =
     (let item = cleanForExport u in if \<not> showSecrets \<and> GetKind item = ''Secret'' then redactSecret item else item)"

definition newline :: string where
  "newline = [CHR 0x0A]"

definition documents :: "string list \<Rightarrow> string" where
  "documents bs = Join bs (''---'' @ newline)"

definition marshalItem :: "(obj \<Rightarrow> string option) \<Rightarrow> obj \<Rightarrow> error + string" where
  "marshalItem marshal item = (case marshal item of None \<Rightarrow> Inl MarshalError | Some b \<Rightarrow> Inr b)"

definition RenderK8s :: "(obj \<Rightarrow> string option) \<Rightarrow> bool \<Rightarrow> ProjectConfig \<Rightarrow> error + string" where
  "RenderK8s marshal showSecrets pc =
     rbind (mapM (\<lambda>u. marshalItem marshal (exportItem showSecrets u)) (pc_Items pc)) (\<lambda>bs. Inr (documents bs))"

text \<open>\<^verbatim>\<open>Render\<close> of converted objects.\<close>

definition Render :: "(kobj \<Rightarrow> string option) \<Rightarrow> kobj list \<Rightarrow> error + string" where
  "Render marshal objects =
     rbind (mapM (\<lambda>ob. case marshal ob of None \<Rightarrow> Inl MarshalError | Some b \<Rightarrow> Inr b) objects) (\<lambda>bs. Inr (documents bs))"

section \<open>Compose output\<close>

record composeService =
  cv_Image :: string
  cv_Entrypoint :: "string list"
  cv_Command :: "string list"
  cv_Environment :: "string gomap"
  cv_Ports :: "string list"
  cv_Volumes :: "string list"
  cv_Replicas :: "int option"
  cv_Limits :: "string gomap"
  cv_Controller :: string
  cv_VolumeSize :: string
  cv_Expose :: string
  cv_Host :: string

record composeFile =
  cf_Services :: "composeService gomap"
  cf_Volumes :: "string list"

definition isController :: "string \<Rightarrow> bool" where
  "isController kind \<longleftrightarrow> kind = ''Deployment'' \<or> kind = ''StatefulSet'' \<or> kind = ''DaemonSet''"

definition ofKind :: "string \<Rightarrow> obj list \<Rightarrow> obj list" where
  "ofKind kind items = filter (\<lambda>u. GetKind u = kind) items"

definition portText :: "iface \<Rightarrow> string list" where
  "portText p = (let pm = asMap p in case nestedInt64 pm [''port''] of
     None \<Rightarrow> []
   | Some port \<Rightarrow> (case nestedInt64 pm [''targetPort''] of
        Some target \<Rightarrow> if target \<noteq> port then [Itoa port @ '':'' @ Itoa target] else [Itoa port]
      | None \<Rightarrow> [Itoa port]))"

definition portsFor :: "obj list \<Rightarrow> string \<Rightarrow> string list" where
  "portsFor items workload = concat (map (\<lambda>item. if GetName item \<noteq> workload then []
     else concat (map portText (nestedSlice item [''spec'', ''ports'']))) (ofKind ''Service'' items))"

definition mountOf :: "iface \<Rightarrow> string gomap \<Rightarrow> string gomap" where
  "mountOf m mounts = (let mm = asMap m; n = nestedString mm [''name'']; p = nestedString mm [''mountPath'']
     in if n \<noteq> [] \<and> p \<noteq> [] then AList.update n p mounts else mounts)"

definition at :: "string gomap \<Rightarrow> string \<Rightarrow> string" where
  "at m k = (case map_of m k of Some v \<Rightarrow> v | None \<Rightarrow> [])"

text \<open>The loops over volumes thread the mounts written, the size found and the named volumes of the whole file.\<close>

definition templateVolume :: "string gomap \<Rightarrow> iface \<Rightarrow> string list \<times> string \<times> string list \<Rightarrow> string list \<times> string \<times> string list" where
  "templateVolume mounts t = (\<lambda>(out, sz, named).
     let tm = asMap t; n = nestedString tm [''metadata'', ''name''] in
     if n = [] \<or> at mounts n = [] then (out, sz, named)
     else (out @ [n @ '':'' @ at mounts n],
           (case nested tm [''spec'', ''resources'', ''requests'', ''storage''] of Some (JStr s) \<Rightarrow> s | _ \<Rightarrow> sz),
           List.insert n named))"

definition claimSize :: "obj list \<Rightarrow> string \<Rightarrow> string" where
  "claimSize items name = (case find (\<lambda>u. GetName u = name) (ofKind ''PersistentVolumeClaim'' items) of
     None \<Rightarrow> [] | Some u \<Rightarrow> nestedString u [''spec'', ''resources'', ''requests'', ''storage''])"

definition podVolume ::
    "obj list \<Rightarrow> string gomap \<Rightarrow> iface \<Rightarrow> string list \<times> string \<times> string list \<Rightarrow> string list \<times> string \<times> string list" where
  "podVolume items mounts v = (\<lambda>(out, sz, named).
     let vmap = asMap v; n = nestedString vmap [''name'']; path = at mounts n in
     if n = [] \<or> path = [] then (out, sz, named)
     else if map_of vmap ''persistentVolumeClaim'' \<noteq> None then
       (let c0 = nestedString vmap [''persistentVolumeClaim'', ''claimName'']; claim = (if c0 = [] then n else c0) in
        if claim \<in> set named then (out, sz, named)
        else (out @ [claim @ '':'' @ path], (let s = claimSize items claim in if s \<noteq> [] then s else sz), List.insert claim named))
     else if map_of vmap ''hostPath'' \<noteq> None then
       (let host = nestedString vmap [''hostPath'', ''path''] in
        if host \<noteq> [] then (out @ [host @ '':'' @ path], sz, named) else (out, sz, named))
     else (out, sz, named))"

definition volumesFor :: "obj list \<Rightarrow> obj \<Rightarrow> obj \<Rightarrow> string list \<Rightarrow> string list \<times> string \<times> string list" where
  "volumesFor items w ctr named =
     (let mounts = fold mountOf (nestedSlice ctr [''volumeMounts'']) [];
          st = fold (templateVolume mounts) (nestedSlice w [''spec'', ''volumeClaimTemplates'']) ([], [], named);
          (out, sz, named) = fold (podVolume items mounts) (nestedSlice w [''spec'', ''template'', ''spec'', ''volumes'']) st
      in (sort out, sz, named))"

text \<open>\<^verbatim>\<open>strconv.ParseFloat\<close> on the digits the API server prints before an \<^verbatim>\<open>m\<close>, divided by a thousand, shortest form.\<close>

definition milliText :: "string \<Rightarrow> string" where
  "milliText ds = (let n = digits_val ds; frac = n mod 1000 in
     nat_digits (n div 1000) @ (if frac = 0 then []
       else ''.'' @ strip_zeros ((if frac < 10 then ''00'' else if frac < 100 then ''0'' else []) @ nat_digits frac)))"

definition milliCPUToCores :: "string \<Rightarrow> string" where
  "milliCPUToCores v =
     (if \<not> HasSuffix v ''m'' then v
      else let milli = TrimSuffix v ''m'' in if milli = [] \<or> \<not> list_all isDigit milli then v else milliText milli)"

definition composeLimits :: "string gomap \<Rightarrow> string gomap" where
  "composeLimits k8s =
     (case map_of k8s ''cpu'' of Some v \<Rightarrow> [(''cpus'', milliCPUToCores v)] | None \<Rightarrow> []) @
     (case map_of k8s ''memory'' of Some v \<Rightarrow> [(''memory'', v)] | None \<Rightarrow> [])"

definition routesTo :: "string \<Rightarrow> iface \<Rightarrow> bool" where
  "routesTo workload rule = list_ex (\<lambda>p. nestedString (asMap p) [''backend'', ''service'', ''name''] = workload)
     (nestedSlice (asMap rule) [''http'', ''paths''])"

definition ingressFor :: "obj list \<Rightarrow> string \<Rightarrow> string \<times> string" where
  "ingressFor items workload =
     (case find (routesTo workload) (concat (map (\<lambda>u. nestedSlice u [''spec'', ''rules'']) (ofKind ''Ingress'' items))) of
        Some rule \<Rightarrow> (''ingress'', nestedString (asMap rule) [''host'']) | None \<Rightarrow> ([], []))"

definition envEntry :: "iface \<Rightarrow> string gomap \<times> string list \<Rightarrow> string gomap \<times> string list" where
  "envEntry e = (\<lambda>(plain, notes). let em = asMap e; key = nestedString em [''name''] in
     if key = [] then (plain, notes)
     else case map_of em ''value'' of
       Some (JStr v) \<Rightarrow> (AList.update key v plain, notes)
     | _ \<Rightarrow> (plain, notes @ [''env '' @ key @ '' comes from a Secret/ConfigMap reference and is not inlined'']))"

definition noService :: composeService where
  "noService = \<lparr>cv_Image = [], cv_Entrypoint = [], cv_Command = [], cv_Environment = [], cv_Ports = [], cv_Volumes = [],
     cv_Replicas = None, cv_Limits = [], cv_Controller = [], cv_VolumeSize = [], cv_Expose = [], cv_Host = []\<rparr>"

definition controllerName :: "string \<Rightarrow> string" where
  "controllerName kind = (if kind = ''StatefulSet'' then ''statefulset'' else if kind = ''DaemonSet'' then ''daemonset'' else [])"

definition serviceFromWorkload :: "obj list \<Rightarrow> obj \<Rightarrow> string list \<Rightarrow> composeService \<times> string list \<times> string list" where
  "serviceFromWorkload items w named =
     (let svc = noService\<lparr>cv_Controller := controllerName (GetKind w)\<rparr> in
      case nestedSlice w [''spec'', ''template'', ''spec'', ''containers''] of
        [] \<Rightarrow> (svc, [''no containers found''], named)
      | c # others \<Rightarrow>
          let notes0 = (if others = [] then [] else [Itoa (int (length (c # others))) @
                '' containers; compose has one per service, only the first is shown'']);
              ctr = asMap c;
              (plain, notes) = fold envEntry (nestedSlice ctr [''env'']) ([], notes0);
              (vols, sz, named) = volumesFor items w ctr named;
              (expose, host) = ingressFor items (GetName w)
          in (svc\<lparr>cv_Image := nestedString ctr [''image''], cv_Entrypoint := stringSlice ctr ''command'', cv_Command := stringSlice ctr ''args'',
                  cv_Environment := plain,
                  cv_Limits := (case nestedStringMap ctr [''resources'', ''limits''] of Some lim \<Rightarrow> composeLimits lim | None \<Rightarrow> []),
                  cv_Replicas := (if GetKind w \<noteq> ''DaemonSet'' then nestedInt64 w [''spec'', ''replicas''] else None),
                  cv_Ports := portsFor items (GetName w), cv_Volumes := vols, cv_VolumeSize := sz, cv_Expose := expose, cv_Host := host\<rparr>,
              notes, named))"

definition addService ::
    "obj list \<Rightarrow> obj \<Rightarrow> composeService gomap \<times> string list \<times> string list \<Rightarrow> composeService gomap \<times> string list \<times> string list" where
  "addService items w = (\<lambda>(svcs, notes, named). case serviceFromWorkload items w named of (svc, ns, named) \<Rightarrow>
     (AList.update (GetName w) svc svcs, notes @ map (\<lambda>n. GetName w @ '': '' @ n) ns, named))"

definition composeOf :: "obj list \<Rightarrow> composeService gomap \<times> string list \<times> string list" where
  "composeOf items = fold (addService items) (filter (\<lambda>u. isController (GetKind u)) items) ([], [], [])"

definition RenderCompose :: "(composeFile \<Rightarrow> string option) \<Rightarrow> ProjectConfig \<Rightarrow> error + string" where
  "RenderCompose marshal pc = (case composeOf (pc_Items pc) of (svcs, notes, named) \<Rightarrow>
     if svcs = [] then Inl NothingFound
     else case marshal \<lparr>cf_Services = svcs, cf_Volumes = named\<rparr> of
       None \<Rightarrow> Inl MarshalError
     | Some body \<Rightarrow> Inr (
         ''# Reconstructed by `orcinus config` from project '' @ Quote (pc_Project pc) @ '' in namespace '' @ Quote (pc_Namespace pc) @ ''.'' @ newline @
         ''# Best-effort: the cluster holds more than compose can express.'' @ newline @
         concat (map (\<lambda>n. ''# note: '' @ n @ newline) (sort notes)) @ body))"

section \<open>Summary\<close>

text \<open>\<^verbatim>\<open>%-24s\<close> pads to a width in characters.\<close>

definition padTo :: "nat \<Rightarrow> string \<Rightarrow> string" where
  "padTo n s = s @ replicate (n - runeCount s) (CHR '' '')"

definition orDash :: "string \<Rightarrow> string" where
  "orDash s = (if s = [] then ''-'' else s)"

definition summaryRow :: "obj list \<Rightarrow> obj \<Rightarrow> string list" where
  "summaryRow items w = (case serviceFromWorkload items w [] of (svc, _, _) \<Rightarrow>
     [GetName w, GetKind w, cv_Image svc,
      (case cv_Replicas svc of None \<Rightarrow> ''-''
       | Some r \<Rightarrow> Itoa (case nestedInt64 w [''status'', ''readyReplicas''] of Some n \<Rightarrow> n | None \<Rightarrow> 0) @ ''/'' @ Itoa r),
      orDash (Join (cv_Ports svc) '',''), orDash (Join (cv_Volumes svc) '','')])"

definition otherLine :: "obj list \<Rightarrow> string \<Rightarrow> string" where
  "otherLine others k = padTo 24 (k @ '':'') @ '' '' @ Join (map GetName (ofKind k others)) '', '' @ newline"

definition WriteSummary :: "ProjectConfig \<Rightarrow> string" where
  "WriteSummary pc =
     (let items = pc_Items pc;
          workloads = filter (\<lambda>u. isController (GetKind u)) items;
          rows = [''SERVICE'', ''KIND'', ''IMAGE'', ''REPLICAS'', ''PORTS'', ''VOLUMES''] #
            (if workloads = [] then [[''(none)'', [], [], [], [], []]] else map (summaryRow items) workloads);
          others = filter (\<lambda>u. \<not> isController (GetKind u)) items;
          kinds = sort (remdups (map GetKind others))
      in ''Project:    '' @ pc_Project pc @ newline @ ''Namespace:  '' @ pc_Namespace pc @ newline @
         ''Resources:  '' @ Itoa (int (length items)) @ newline @ newline @
         tabwriter 3 (concat (map tabRow rows)) @
         (if others = [] then [] else newline @ concat (map (otherLine others) kinds)))"

section \<open>Secret values stay out\<close>

text \<open>The object with every value of a Secret's data replaced.\<close>

definition maskSecret :: "obj \<Rightarrow> obj" where
  "maskSecret u = (if GetKind u \<noteq> ''Secret'' then u else case map_of u ''data'' of
     Some (JObj d) \<Rightarrow> AList.update ''data'' (JObj (redactAll d)) u | _ \<Rightarrow> u)"

text \<open>A function that neither reads nor writes the field \<^verbatim>\<open>data\<close>.\<close>

definition passes :: "(obj \<Rightarrow> obj) \<Rightarrow> bool" where
  "passes f \<longleftrightarrow> (\<forall>u v w. map_of u ''data'' = Some w \<longrightarrow>
     f (AList.update ''data'' v u) = AList.update ''data'' v (f u) \<and> map_of (f u) ''data'' = Some w)"

lemma data_commute:
  "k \<noteq> ''data'' \<Longrightarrow> map_of u ''data'' = Some x \<Longrightarrow>
   AList.update k w (AList.update ''data'' v u) = AList.update ''data'' v (AList.update k w u)"
  by (induction u) (auto split: if_splits)

lemma map_of_data: "k \<noteq> ''data'' \<Longrightarrow> map_of (AList.update ''data'' v u) k = map_of u k"
  by (simp add: update_conv')

lemma nested_data: "k \<noteq> ''data'' \<Longrightarrow> nested (AList.update ''data'' v u) (k # ks) = nested u (k # ks)"
  by (cases ks) (simp_all add: map_of_data)

lemma passesD:
  "passes f \<Longrightarrow> map_of u ''data'' = Some w \<Longrightarrow> f (AList.update ''data'' v u) = AList.update ''data'' v (f u)"
  "passes f \<Longrightarrow> map_of u ''data'' = Some w \<Longrightarrow> map_of (f u) ''data'' = Some w"
  by (auto simp: passes_def)

lemma passes_delete: "k \<noteq> ''data'' \<Longrightarrow> passes (AList.delete k)"
  by (auto simp: passes_def delete_update delete_conv')

lemma passes_id: "passes (\<lambda>u. u)"
  by (simp add: passes_def)

lemma passes_comp: "passes f \<Longrightarrow> passes g \<Longrightarrow> passes (\<lambda>u. f (g u))"
  by (simp add: passes_def)

lemma passes_fold: "(\<And>x. x \<in> set xs \<Longrightarrow> passes (f x)) \<Longrightarrow> passes (fold f xs)"
proof (induction xs)
  case (Cons x xs)
  then have "passes (\<lambda>u. fold f xs (f x u))" using passes_comp [of "fold f xs" "f x"] by simp
  then show ?case by (simp add: comp_def)
qed (simp add: passes_def)

lemma passes_if:
  "passes f \<Longrightarrow> passes g \<Longrightarrow> (\<And>u v. b (AList.update ''data'' v u) = b u) \<Longrightarrow> passes (\<lambda>u. if b u then f u else g u)"
  by (simp add: passes_def)

lemma passes_removeNested: "k \<noteq> ''data'' \<Longrightarrow> passes (removeNested (k # ks))"
  by (cases ks) (auto simp: passes_delete passes_def map_of_data data_commute update_conv' delete_update delete_conv'
      split: option.splits iface.splits)

lemma passes_setNested: "k \<noteq> ''data'' \<Longrightarrow> passes (setNested (k # ks) v)"
  by (cases ks) (auto simp: passes_def map_of_data data_commute update_conv' split: option.splits iface.splits)

lemma passes_removeMeta: "passes (removeMeta k)"
  by (auto simp: passes_def removeMeta_def map_of_data data_commute update_conv' split: option.splits iface.splits)

lemma passes_cleanForApply: "passes cleanForApply"
proof -
  note m = passes_comp [OF passes_removeMeta]
  have "passes (AList.delete ''status'')" by (rule passes_delete) simp
  from m [OF m [OF m [OF m [OF this]]]] show ?thesis by (simp add: cleanForApply_def [abs_def])
qed

lemma annotations_data: "GetAnnotations (AList.update ''data'' v u) = GetAnnotations u"
  by (simp add: GetAnnotations_def nestedStringMap_def nested_data)

lemma passes_SetAnnotations: "passes (SetAnnotations m)"
  unfolding SetAnnotations_def by (rule passes_setNested) simp

lemma passes_dropBindingState: "passes dropBindingState"
proof -
  have "passes (\<lambda>u. if GetAnnotations u \<noteq> [] then SetAnnotations (filter (\<lambda>(k, _). \<not> bindingState k) (GetAnnotations u)) u else u)"
    using passesD [OF passes_SetAnnotations] by (auto simp: passes_def annotations_data)
  moreover have "passes (\<lambda>u. if GetAnnotations u = [] then removeNested [''metadata'', ''annotations''] u else u)"
    by (intro passes_if passes_removeNested passes_id) (simp_all add: annotations_data)
  ultimately have "passes (\<lambda>u. (\<lambda>u. if GetAnnotations u = [] then removeNested [''metadata'', ''annotations''] u else u)
      (if GetAnnotations u \<noteq> [] then SetAnnotations (filter (\<lambda>(k, _). \<not> bindingState k) (GetAnnotations u)) u else u))"
    by (rule passes_comp [rotated])
  then show ?thesis by (simp add: dropBindingState_def [abs_def] Let_def)
qed

lemma passes_cleanTemplates: "passes cleanTemplates"
proof -
  have "''spec'' \<noteq> ''data''" by simp
  note p = passesD [OF passes_setNested [OF this]]
  show ?thesis
    by (auto simp: passes_def cleanTemplates_def nested_data p simp del: setNested.simps split: option.splits iface.splits)
qed

lemma passes_cleanForExport: "passes cleanForExport"
proof -
  have "passes (fold removeNested bookkeeping)"
    by (rule passes_fold) (auto simp: bookkeeping_def intro: passes_removeNested)
  from passes_comp [OF passes_cleanTemplates passes_comp [OF passes_dropBindingState passes_comp [OF this passes_cleanForApply]]]
  show ?thesis by (simp add: cleanForExport_def [abs_def])
qed

lemma mask_kind: "GetKind (maskSecret u) = GetKind u" and mask_name: "GetName (maskSecret u) = GetName u"
  by (auto simp: maskSecret_def GetKind_def GetName_def nestedString_def nested_data simp del: nested.simps
      split: option.splits iface.splits)

lemma mask_other: "GetKind u \<noteq> ''Secret'' \<Longrightarrow> maskSecret u = u"
  by (simp add: maskSecret_def)

lemma kind_removeNested: "k \<noteq> ''kind'' \<Longrightarrow> map_of (removeNested (k # ks) u) ''kind'' = map_of u ''kind''"
  by (cases ks) (auto simp: delete_conv' update_conv' split: option.splits iface.splits)

lemma kind_setNested: "k \<noteq> ''kind'' \<Longrightarrow> map_of (setNested (k # ks) v u) ''kind'' = map_of u ''kind''"
  by (cases ks) (auto simp: update_conv' split: option.splits iface.splits)

lemma kind_removeMeta: "map_of (removeMeta k u) ''kind'' = map_of u ''kind''"
  by (simp add: removeMeta_def update_conv' split: option.splits iface.splits)

lemma kind_cleanForExport: "map_of (cleanForExport u) ''kind'' = map_of u ''kind''"
proof -
  have a: "map_of (cleanForApply u) ''kind'' = map_of u ''kind''"
    by (simp add: cleanForApply_def kind_removeMeta delete_conv')
  have f: "map_of (fold removeNested fs v) ''kind'' = map_of v ''kind''" if "\<forall>p \<in> set fs. p \<noteq> [] \<and> hd p \<noteq> ''kind''" for fs v
    using that by (induction fs arbitrary: v) (auto simp: neq_Nil_conv kind_removeNested)
  have b: "\<forall>p \<in> set bookkeeping. p \<noteq> [] \<and> hd p \<noteq> ''kind''" by (simp add: bookkeeping_def)
  have "map_of (dropBindingState v) ''kind'' = map_of v ''kind''" for v
    by (simp add: dropBindingState_def Let_def SetAnnotations_def kind_removeNested kind_setNested del: removeNested.simps setNested.simps)
  moreover have "map_of (cleanTemplates v) ''kind'' = map_of v ''kind''" for v
    by (auto simp: cleanTemplates_def kind_setNested simp del: setNested.simps nested.simps split: option.splits iface.splits)
  ultimately show ?thesis using f [OF b] a by (simp add: cleanForExport_def)
qed

lemma exportItem_mask: "exportItem False (maskSecret u) = exportItem False u"
proof (cases "GetKind u = ''Secret'' \<and> (\<exists>d. map_of u ''data'' = Some (JObj d))")
  case True
  then obtain d where d: "map_of u ''data'' = Some (JObj d)" by blast
  let ?d = "redactAll d"
  have m: "maskSecret u = AList.update ''data'' (JObj ?d) u" using True d by (simp add: maskSecret_def)
  note e = passesD [OF passes_cleanForExport d]
  have k: "GetKind (cleanForExport v) = GetKind v" for v by (simp add: GetKind_def nestedString_def kind_cleanForExport)
  have "redactSecret (AList.update ''data'' (JObj ?d) (cleanForExport u)) = redactSecret (cleanForExport u)"
    using e(2) by (simp add: redactSecret_def Let_def update_conv' annotations_data)
  then show ?thesis using True k mask_kind [of u] by (simp add: exportItem_def m e(1) Let_def GetKind_def nestedString_def map_of_data)
next
  case False
  then have "maskSecret u = u" by (auto simp: maskSecret_def split: option.splits iface.splits)
  then show ?thesis by simp
qed

lemma ofKind_mask: "kind \<noteq> ''Secret'' \<Longrightarrow> ofKind kind (map maskSecret items) = ofKind kind items"
  by (induction items) (auto simp: ofKind_def mask_kind mask_other)

lemma controllers_mask:
  "filter (\<lambda>u. isController (GetKind u)) (map maskSecret items) = filter (\<lambda>u. isController (GetKind u)) items"
  by (induction items) (auto simp: mask_kind isController_def intro: mask_other)

lemma serviceFromWorkload_mask: "serviceFromWorkload (map maskSecret items) w named = serviceFromWorkload items w named"
proof -
  have claim: "claimSize (map maskSecret items) = claimSize items"
    by (simp add: fun_eq_iff claimSize_def ofKind_mask)
  have "podVolume (map maskSecret items) = podVolume items"
    unfolding podVolume_def claim by (rule refl)
  then have v: "volumesFor (map maskSecret items) = volumesFor items" unfolding volumesFor_def [abs_def] by simp
  have i: "ingressFor (map maskSecret items) = ingressFor items" and p: "portsFor (map maskSecret items) = portsFor items"
    by (simp_all add: fun_eq_iff ingressFor_def portsFor_def ofKind_mask)
  show ?thesis unfolding serviceFromWorkload_def v i p by (rule refl)
qed

lemma WriteSummary_mask: "WriteSummary (pc\<lparr>pc_Items := map maskSecret items\<rparr>) = WriteSummary (pc\<lparr>pc_Items := items\<rparr>)"
proof -
  let ?others = "\<lambda>items. filter (\<lambda>u. \<not> isController (GetKind u)) items"
  have o: "?others (map maskSecret items) = map maskSecret (?others items)" by (simp add: filter_map comp_def mask_kind)
  have "otherLine (map maskSecret os) = otherLine os" for os
    by (simp add: fun_eq_iff otherLine_def ofKind_def filter_map comp_def mask_kind mask_name)
  moreover have "summaryRow (map maskSecret items) = summaryRow items"
    by (simp add: fun_eq_iff summaryRow_def serviceFromWorkload_mask)
  ultimately show ?thesis
    by (simp add: WriteSummary_def Let_def controllers_mask o comp_def mask_kind)
qed

text \<open>
  C12: What \<^verbatim>\<open>orcinus config\<close> prints of a project without \<^verbatim>\<open>--show-secrets\<close> does not depend on the values its Secrets hold:
  two configurations that differ only there give the same manifests, the same compose file and the same summary.
\<close>

theorem config_hides_secrets:
  assumes "map maskSecret (pc_Items pc) = map maskSecret (pc_Items pc')"
    and "pc_Project pc = pc_Project pc'" and "pc_Namespace pc = pc_Namespace pc'"
  shows "RenderK8s marshal False pc = RenderK8s marshal False pc' \<and>
    RenderCompose print pc = RenderCompose print pc' \<and> WriteSummary pc = WriteSummary pc'"
proof -
  have "mapM f (map maskSecret xs) = mapM (\<lambda>u. f (maskSecret u)) xs" for f :: "obj \<Rightarrow> error + string" and xs
    by (induction xs) simp_all
  then have k8s: "RenderK8s marshal False q = RenderK8s marshal False (q\<lparr>pc_Items := map maskSecret (pc_Items q)\<rparr>)" for q :: ProjectConfig
    by (simp add: RenderK8s_def exportItem_mask)
  have "addService (map maskSecret items) = addService items" for items
    by (simp add: fun_eq_iff addService_def serviceFromWorkload_mask)
  then have compose: "composeOf (map maskSecret items) = composeOf items" for items
    by (simp add: composeOf_def controllers_mask)
  have items: "composeOf (pc_Items pc) = composeOf (pc_Items pc')"
    using compose [of "pc_Items pc"] compose [of "pc_Items pc'"] assms(1) by simp
  have same: "pc\<lparr>pc_Items := map maskSecret (pc_Items pc)\<rparr> = pc'\<lparr>pc_Items := map maskSecret (pc_Items pc')\<rparr>"
    using assms by simp
  have "RenderCompose print pc = RenderCompose print pc'"
    unfolding RenderCompose_def items assms(2,3) by (rule refl)
  moreover have "WriteSummary pc = WriteSummary pc'"
    using WriteSummary_mask [of "pc_Items pc" pc] WriteSummary_mask [of "pc_Items pc'" pc'] same by simp
  ultimately show ?thesis using k8s [of pc] k8s [of pc'] same by metis
qed

definition sample_secret :: "string \<Rightarrow> obj" where
  "sample_secret v = [(''kind'', JStr ''Secret''), (''metadata'', JObj [(''name'', JStr ''s'')]), (''data'', JObj [(''k'', JStr v)])]"

definition sample_config :: "string \<Rightarrow> ProjectConfig" where
  "sample_config v = \<lparr>pc_Project = ''shop'', pc_Namespace = ''ns'', pc_Items = [sample_secret v]\<rparr>"

theorem config_hides_secrets_witness:
  "sample_config ''one'' \<noteq> sample_config ''two'' \<and>
   RenderK8s (\<lambda>u. Some (nestedString u [''data'', ''k''])) False (sample_config ''one'') =
   RenderK8s (\<lambda>u. Some (nestedString u [''data'', ''k''])) False (sample_config ''two'')"
proof -
  have m: "map maskSecret (pc_Items (sample_config ''one'')) = map maskSecret (pc_Items (sample_config ''two''))"
    by (simp add: sample_config_def sample_secret_def maskSecret_def GetKind_def nestedString_def redactAll_def)
  have "sample_config ''one'' \<noteq> sample_config ''two''" by (simp add: sample_config_def sample_secret_def)
  then show ?thesis using config_hides_secrets [OF m] by (simp add: sample_config_def)
qed

text \<open>
  Of two services that mount the same claim only the first keeps its mount in the compose file: the named volumes are
  those of the whole file.
\<close>

definition mounting :: "string \<Rightarrow> obj" where
  "mounting name = [(''kind'', JStr ''Deployment''), (''metadata'', JObj [(''name'', JStr name)]),
     (''spec'', JObj [(''template'', JObj [(''spec'', JObj [
        (''containers'', JArr [JObj [(''volumeMounts'', JArr [JObj [(''name'', JStr ''v''), (''mountPath'', JStr ''/d'')]])]]),
        (''volumes'', JArr [JObj [(''name'', JStr ''v''), (''persistentVolumeClaim'', JObj [(''claimName'', JStr ''shared'')])]])])])])]"

lemma composeOf_shared_mount_lost:
  "map_option cv_Volumes (map_of (fst (composeOf [mounting ''a'', mounting ''b''])) ''a'') = Some [''shared:/d'']"
  "map_option cv_Volumes (map_of (fst (composeOf [mounting ''a'', mounting ''b''])) ''b'') = Some []"
  by code_simp+

end
