(* ===== verification/Front.thy ===== *)
theory Front
  imports Engine Operations Project_Config Cluster_Life
begin

text \<open>
  What the two servers of orcinus, \<^verbatim>\<open>pkg/mcp\<close> and \<^verbatim>\<open>pkg/api\<close>, share: the skill cards of \<^verbatim>\<open>pkg/skills\<close>, the surroundings and
  the state of a running server, the applier it builds for a request, and the decoding of JSON fields.

  The state is the plugin manager's (cluster and record) and the machine's. YAML and JSON texts, the registry and the
  text of an error are arguments. \<open>seen\<close> is what the theorems observe of the state.
\<close>

section \<open>Skill cards\<close>

record Card =
  cd_Name :: string
  cd_Description :: string
  cd_Tags :: "string list"
  cd_Danger :: bool
  cd_Body :: string

definition frontMatter :: string where
  "frontMatter = ''---'' @ newline"

text \<open>\<open>yaml\<close> decodes the front matter; the body of the file takes the place of one it may name.\<close>

definition parseCard :: "(string \<Rightarrow> Card option) \<Rightarrow> string \<Rightarrow> error + Card" where
  "parseCard yaml b =
     (let s = TrimPrefix b frontMatter in
      rbind (case Cut s (newline @ frontMatter) of
          Some (front, body) \<Rightarrow> (case yaml front of
             None \<Rightarrow> Inl ParseDocumentError
           | Some c \<Rightarrow> Inr (c\<lparr>cd_Body := TrimSpace body\<rparr>))
        | None \<Rightarrow> Inr \<lparr>cd_Name = [], cd_Description = [], cd_Tags = [], cd_Danger = False, cd_Body = TrimSpace s\<rparr>)
        (\<lambda>c. if cd_Name c = [] then Inl (Missing ''name'') else Inr c))"

definition mustLoad :: "(string \<Rightarrow> Card option) \<Rightarrow> string list \<Rightarrow> error + Card list" where
  "mustLoad yaml files = (case mapM (parseCard yaml) files of
     Inl e \<Rightarrow> Inl (Panic ''skills'') | Inr cards \<Rightarrow> Inr (sort_key cd_Name cards))"

definition GetCard :: "Card list \<Rightarrow> string \<Rightarrow> Card option" where
  "GetCard cards name = find (\<lambda>c. cd_Name c = name) cards"

definition cardText :: "Card \<Rightarrow> string" where
  "cardText c = ''# '' @ cd_Name c @ dash @ cd_Description c @ newline @ newline @ cd_Body c"

definition AllCards :: "Card list \<Rightarrow> string" where
  "AllCards cards = TrimSpace (
     ''# Orcinus'' @ dash @ ''agent skill catalog'' @ newline @ newline @
     ''Run `orcinus skills <name>` for any single recipe. Commands that change '' @
     ''the cluster are marked (danger); prefer `orcinus deploy --dry-run` first.'' @ newline @ newline @
     concat (map (\<lambda>c. ''## '' @ cd_Name c @ dash @ cd_Description c @ newline @ newline @ cd_Body c @ newline @ newline) cards)) @ newline"

section \<open>Views as JSON\<close>

definition summaryJSON :: "ProjectSummary \<Rightarrow> iface" where
  "summaryJSON p = JObj [(''Name'', JStr (pj_Name p)), (''Namespaces'', JArr (map JStr (pj_Namespaces p))),
     (''Workloads'', JInt (int (pj_Workloads p))), (''Ready'', JInt (int (pj_Ready p)))]"

definition podJSON :: "PodInfo \<Rightarrow> iface" where
  "podJSON p = JObj [(''Name'', JStr (pi_Name p)), (''Namespace'', JStr (pi_Namespace p)), (''Service'', JStr (pi_Service p)),
     (''Ready'', JStr (pi_Ready p)), (''Status'', JStr (pi_Status p)), (''Restarts'', JInt (pi_Restarts p)), (''Node'', JStr (pi_Node p))]"

definition nodeJSON :: "NodeInfo \<Rightarrow> iface" where
  "nodeJSON n = JObj [(''Name'', JStr (ni_Name n)), (''Status'', JStr (ni_Status n)), (''Roles'', JStr (ni_Roles n)),
     (''Version'', JStr (ni_Version n))]"

section \<open>The surroundings of a server\<close>

record ('r, 'c, 'd) front = "('r, 'c) world" +
  fr_client :: "'c client"
  fr_templates :: templateCodec
  fr_reader :: "'c reader"
  fr_web :: web
  fr_site :: "'d site"
  fr_now :: "'c \<Rightarrow> string"
  fr_rounds :: nat                              \<comment> \<open>of the default wait timeout\<close>
  fr_base64 :: "string \<Rightarrow> string"
  fr_json :: "obj \<Rightarrow> string option"
  fr_yamlObject :: "kobj \<Rightarrow> string option"
  fr_yamlItem :: "obj \<Rightarrow> string option"
  fr_yamlCompose :: "composeFile \<Rightarrow> string option"
  fr_indentJSON :: "iface \<Rightarrow> string"            \<comment> \<open>\<^verbatim>\<open>json.MarshalIndent\<close>\<close>
  fr_cards :: "Card list"                       \<comment> \<open>what \<open>mustLoad\<close> made of the embedded cards at start-up\<close>
  fr_errorText :: "error \<Rightarrow> string"
  fr_Version :: string
  fr_GitCommit :: string
  fr_KomposeRef :: string

record ('c, 'd) system =
  sy_manager :: "'c pstate"
  sy_machine :: "'d machine"

definition onManager :: "('c pstate, 'a) cmd \<Rightarrow> (('c, 'd) system, 'a) cmd" where
  "onManager m s = (case m (sy_manager s) of (r, p) \<Rightarrow> (r, s\<lparr>sy_manager := p\<rparr>))"

definition onMachine :: "('d machine, 'a) cmd \<Rightarrow> (('c, 'd) system, 'a) cmd" where
  "onMachine m s = (case m (sy_machine s) of (r, d) \<Rightarrow> (r, s\<lparr>sy_machine := d\<rparr>))"

definition look :: "('c \<Rightarrow> error + 'a) \<Rightarrow> ('c, 'a) cmd" where
  "look f c = (f c, c)"

definition applier :: "('r, 'c, 'd) front \<Rightarrow> string \<Rightarrow> ('c, 'c kube) cmd" where
  "applier w kubeconfig =
     ebind (lift (LoadRESTConfig (pe_host w) (pe_fileExists w) (pe_restConfig w) (pe_KUBECONFIG w) kubeconfig))
       (\<lambda>cfg. connect (penv.truncate w) cfg)"

definition withApplier :: "('r, 'c, 'd) front \<Rightarrow> string \<Rightarrow> ('c kube \<Rightarrow> ('c, 'a) cmd) \<Rightarrow> (('c, 'd) system, 'a) cmd" where
  "withApplier w kubeconfig k = onManager (onCluster (ebind (applier w kubeconfig) k))"

text \<open>
  Decoding into a Go struct: a field of another type is an error, a missing one or a null stays zero.
\<close>

definition fieldString :: "obj \<Rightarrow> string \<Rightarrow> string option" where
  "fieldString m k = (case map_of m k of None \<Rightarrow> Some [] | Some JNull \<Rightarrow> Some [] | Some (JStr s) \<Rightarrow> Some s | _ \<Rightarrow> None)"

definition fieldMap :: "obj \<Rightarrow> string \<Rightarrow> obj option" where
  "fieldMap m k = (case map_of m k of None \<Rightarrow> Some [] | Some JNull \<Rightarrow> Some [] | Some (JObj a) \<Rightarrow> Some a | _ \<Rightarrow> None)"

definition decodeStruct :: "iface option \<Rightarrow> obj option" where
  "decodeStruct p = (case p of Some (JObj m) \<Rightarrow> Some m | Some JNull \<Rightarrow> Some [] | _ \<Rightarrow> None)"

section \<open>What is observed\<close>

text \<open>Discovery reads: it changes nothing of what \<open>view\<close> shows of the cluster.\<close>

definition discovery_ok :: "('r, 'c, 'z) penv_scheme \<Rightarrow> ('c \<Rightarrow> 'v) \<Rightarrow> bool" where
  "discovery_ok e view \<longleftrightarrow> (\<forall>cfg c kb c'. pe_newApplier e cfg c = Some (kb, c') \<longrightarrow> view c' = view c)"

text \<open>What is observed: the cluster through \<open>view\<close>, the record of plugins, the containers.\<close>

definition seen :: "('c \<Rightarrow> 'v) \<Rightarrow> ('d \<Rightarrow> string \<Rightarrow> 'i option) \<Rightarrow> ('c, 'd) system \<Rightarrow> 'v \<times> bool gomap option \<times> (string \<Rightarrow> 'i option)" where
  "seen view ct s = (view (ms_cluster (sy_manager s)), ms_file (sy_manager s), table ct (sy_machine s))"

lemma keeps_look: "keeps (same_view view) (look f)"
  by (simp add: keeps_def look_def same_view_def)

lemma keeps_onManager: "keeps (same_view view) m \<Longrightarrow> keeps (same_view (seen view ct)) (onManager (onCluster m))"
  by (auto simp: keeps_def same_view_def seen_def onManager_def onCluster_def split: prod.splits) (metis snd_conv)

lemma keeps_onMachine: "keeps (same_view (table ct)) m \<Longrightarrow> keeps (same_view (seen view ct)) (onMachine m)"
  by (auto simp: keeps_def same_view_def seen_def onMachine_def split: prod.splits) (metis snd_conv)

lemma keeps_withApplier:
  assumes "discovery_ok w view" and "\<And>kb. keeps (same_view view) (k kb)"
  shows "keeps (same_view (seen view ct)) (withApplier w kubeconfig k)"
proof -
  have "keeps (same_view view) (connect (penv.truncate w) cfg)" for cfg
    using assms(1) by (auto simp: keeps_def same_view_def connect_def discovery_ok_def penv.truncate_def split: option.splits)
  then have "keeps (same_view view) (ebind (applier w kubeconfig) k)"
    unfolding applier_def using assms(2) by (intro viewed.keeps_rules)
  then show ?thesis unfolding withApplier_def by (rule keeps_onManager)
qed

text \<open>Besides docker, the nodes of a standalone cluster are only read.\<close>

definition machine_ok :: "'d site \<Rightarrow> ('d \<Rightarrow> string \<Rightarrow> 'i option) \<Rightarrow> (string list \<Rightarrow> 'i) \<Rightarrow> bool" where
  "machine_ok si ct made \<longleftrightarrow> docker_ok (si_shell si) ct made \<and> (\<forall>kc. keeps (same_view (table ct)) (pr_nodes (si_provider si) kc))"

lemma keeps_Status:
  assumes "machine_ok si ct made"
  shows "keeps (same_view (table ct)) (Status si name)"
proof -
  have d: "docker_ok (si_shell si) ct made" and n: "\<And>kc. keeps (same_view (table ct)) (pr_nodes (si_provider si) kc)"
    using assms by (simp_all add: machine_ok_def)
  have native: "keeps (same_view (table ct)) (\<lambda>m. ebind (if up m then pr_nodes (si_provider si) kc else ret []) (\<lambda>nodes. ret (f m nodes)) m)"
    for up kc and f :: "'a machine \<Rightarrow> string \<Rightarrow> StatusResult"
    using viewed.keeps_ebind [OF n viewed.keeps_ret] by (auto simp: keeps_def same_view_def ebind_def)
  have "keeps (same_view (table ct)) LoadState" by (simp add: keeps_def same_view_def LoadState_def)
  then show ?thesis
    unfolding Status_def Let_def using d
    by (auto intro!: viewed.keeps_rules keeps_intros native split: option.split prod.split)
qed

section \<open>A place to run\<close>

text \<open>A client that finds nothing, in the world of the deployments.\<close>

definition empty_client :: "'c client" where
  "empty_client = \<lparr>cl_get = (\<lambda>_ _ _ _. None), cl_update = (\<lambda>_ _ _ _. None), cl_patch = (\<lambda>_ _ _ _ _ _. None), cl_rollout = (\<lambda>_ _ _. None),
     cl_updateRollout = (\<lambda>_ _ _. None), cl_replicaSets = (\<lambda>_ _ _. None), cl_revisions = (\<lambda>_ _ _. None), cl_hpa = (\<lambda>_ _ _. False),
     cl_updateHPA = (\<lambda>_ _ _. None), cl_createHPA = (\<lambda>_ _ _. None), cl_secret = (\<lambda>_ _ _. NotFound), cl_updateSecret = (\<lambda>_ _ _. None),
     cl_createSecret = (\<lambda>_ _ _. None), cl_secrets = (\<lambda>_ _. None), cl_deleteSecret = (\<lambda>_ _ _. None)\<rparr>"

definition sample_front :: "(unit, (gvr \<times> obj) list, (string \<times> string list) list) front" where
  "sample_front = world.extend sample_world
     \<lparr>fr_client = empty_client, fr_templates = sample_templates,
      fr_reader = \<lparr>rd_listAll = (\<lambda>_ _ _. None), rd_listIn = (\<lambda>_ _ _ _. None), rd_pods = (\<lambda>_ _ _. None), rd_nodes = (\<lambda>_. None),
        rd_node = (\<lambda>_ _. None), rd_updateNode = (\<lambda>_ _. None)\<rparr>,
      fr_web = sample_web, fr_site = sample_site, fr_now = (\<lambda>_. ''now''), fr_rounds = 0, fr_base64 = (\<lambda>s. s), fr_json = (\<lambda>_. None),
      fr_yamlObject = (\<lambda>_. None), fr_yamlItem = (\<lambda>_. None), fr_yamlCompose = (\<lambda>_. None), fr_indentJSON = (\<lambda>_. ''{}''),
      fr_cards = [], fr_errorText = (\<lambda>_. ''e''),
      fr_Version = ''1'', fr_GitCommit = ''c'', fr_KomposeRef = ''k''\<rparr>"

definition sample_system :: "((gvr \<times> obj) list, (string \<times> string list) list) system" where
  "sample_system = \<lparr>sy_manager = sample_pstate, sy_machine = sample_machine\<rparr>"

lemma sample_front_ok: "discovery_ok sample_front id" "machine_ok (fr_site sample_front) map_of id"
  using memory_docker_ok
  by (simp_all add: discovery_ok_def sample_front_def world.extend_def sample_world_def penv.extend_def sample_site_def machine_ok_def
      stub_def viewed.keeps_ret)

end
