(* ===== verification/Console.thy ===== *)
theory Console
  imports Front Tab_Writer
begin

text \<open>
  What the commands of \<^verbatim>\<open>pkg/cli\<close> share: a terminal with its two output streams and the files a command writes, on top of the
  system of \<open>Front\<close>, and the applier a command builds from its kubeconfig flag (\<^verbatim>\<open>applierFor\<close>, \<^verbatim>\<open>newApplier\<close>). Flags and positional
  arguments are arguments of the commands; printing does not fail.
\<close>

record ('c, 'd) terminal =
  tm_system :: "('c, 'd) system"
  tm_out :: string
  tm_err :: string
  tm_files :: "string gomap"

definition say :: "string \<Rightarrow> (('c, 'd) terminal, unit) cmd" where
  "say s tm = (Inr (), tm\<lparr>tm_out := tm_out tm @ s\<rparr>)"

definition warn :: "string \<Rightarrow> (('c, 'd) terminal, unit) cmd" where
  "warn s tm = (Inr (), tm\<lparr>tm_err := tm_err tm @ s\<rparr>)"

definition onSystem :: "(('c, 'd) system, 'a) cmd \<Rightarrow> (('c, 'd) terminal, 'a) cmd" where
  "onSystem m tm = (case m (tm_system tm) of (r, s) \<Rightarrow> (r, tm\<lparr>tm_system := s\<rparr>))"

definition applierFor :: "('r, 'c, 'd) front \<Rightarrow> string \<Rightarrow> ('c kube \<Rightarrow> ('c, 'a) cmd) \<Rightarrow> (('c, 'd) terminal, 'a) cmd" where
  "applierFor w kubeconfig k = onSystem (withApplier w kubeconfig k)"

definition table3 :: "string list list \<Rightarrow> string" where
  "table3 rows = tabwriter 3 (concat (map tabRow rows))"

definition boolText :: "bool \<Rightarrow> string" where
  "boolText b = (if b then ''true'' else ''false'')"

section \<open>What stays\<close>

text \<open>The state a command may not change: all but the output.\<close>

definition behind :: "(('c, 'd) system \<Rightarrow> 'v) \<Rightarrow> ('c, 'd) terminal \<Rightarrow> 'v \<times> string gomap" where
  "behind view tm = (view (tm_system tm), tm_files tm)"

lemma keeps_say [keeps_intros]: "keeps (same_view (behind view)) (say s)" "keeps (same_view (behind view)) (warn s)"
  by (simp_all add: keeps_def same_view_def behind_def say_def warn_def)

lemma keeps_onSystem [keeps_intros]: "keeps (same_view view) m \<Longrightarrow> keeps (same_view (behind view)) (onSystem m)"
  by (auto simp: keeps_def same_view_def behind_def onSystem_def split: prod.splits) (metis snd_conv)

lemma keeps_applierFor [keeps_intros]:
  "discovery_ok w view \<Longrightarrow> (\<And>kb. keeps (same_view view) (k kb)) \<Longrightarrow> keeps (same_view (behind (seen view ct))) (applierFor w kubeconfig k)"
  unfolding applierFor_def by (intro keeps_onSystem keeps_withApplier)

lemma say_run [simp]: "say s tm = (r, tm') \<longleftrightarrow> r = Inr () \<and> tm' = tm\<lparr>tm_out := tm_out tm @ s\<rparr>"
  by (auto simp: say_def)

lemma warn_run [simp]: "warn s tm = (r, tm') \<longleftrightarrow> r = Inr () \<and> tm' = tm\<lparr>tm_err := tm_err tm @ s\<rparr>"
  by (auto simp: warn_def)

text \<open>The cluster behind a terminal.\<close>

definition clusterOf :: "('c, 'd) terminal \<Rightarrow> 'c" where
  "clusterOf tm = ms_cluster (sy_manager (tm_system tm))"

lemma clusterOf_out [simp]: "clusterOf (tm\<lparr>tm_out := o'\<rparr>) = clusterOf tm" "clusterOf (tm\<lparr>tm_err := o'\<rparr>) = clusterOf tm"
  by (simp_all add: clusterOf_def)

text \<open>A command that got its applier ran the continuation on what discovery left of the cluster.\<close>

lemma applierFor_Inr:
  assumes "discovery_ok w view" and "applierFor w kubeconfig k tm = (Inr x, tm')"
  obtains kb c1 where "view c1 = view (clusterOf tm)" "k kb c1 = (Inr x, clusterOf tm')" "tm_out tm' = tm_out tm"
    "tm_files tm' = tm_files tm"
proof -
  from assms(2) obtain kb c1 where run: "applier w kubeconfig (clusterOf tm) = (Inr kb, c1)" "k kb c1 = (Inr x, clusterOf tm')"
    "tm_out tm' = tm_out tm" "tm_files tm' = tm_files tm"
    by (auto simp: applierFor_def onSystem_def withApplier_def onManager_def onCluster_def ebind_def clusterOf_def
        split: prod.splits sum.splits)
  have "view c1 = view (clusterOf tm)"
    using run(1) assms(1) by (auto simp: applier_def ebind_def connect_def discovery_ok_def penv.truncate_def
        split: sum.splits option.splits)
  with run that show thesis by blast
qed

text \<open>A front around any cluster, with nothing else to find.\<close>

definition blank_kube :: "'c kube" where
  "blank_kube = \<lparr>kb_mapping = (\<lambda>_ _. Mapped (core ''things'') True), kb_sleep = Some, kb_refresh = Some, kb_apply = (\<lambda>_ _ _ _ c. Some c),
     kb_list = (\<lambda>_ _ _ _. Some []), kb_delete = (\<lambda>_ _ _ c. (True, c)), kb_get = (\<lambda>_ _ _ _. None), kb_tick = (\<lambda>c. c)\<rparr>"

definition plain_host :: host where
  "plain_host = \<lparr>h_home = None, h_cwd = Some ''/work/shop'', h_stat = (\<lambda>_. False), h_read = (\<lambda>_. None), h_mkdir = (\<lambda>_. True), h_write = (\<lambda>_. True)\<rparr>"

definition plain_penv :: "'c kube \<Rightarrow> (unit, 'c) penv" where
  "plain_penv kb = \<lparr>pe_host = plain_host, pe_fileExists = (\<lambda>_. False), pe_KUBECONFIG = [], pe_restConfig = (\<lambda>_. Some ()),
     pe_newApplier = (\<lambda>_ c. Some (kb, c)), pe_conv = (\<lambda>ob. Some []), pe_polls = 0, pe_waits = 0, pe_yaml = sample_yaml,
     pe_get = (\<lambda>_ _. None), pe_hamiYAML = [],
     pe_quantity = (\<lambda>s. Some \<lparr>q_String = s, q_MilliValue = 0, q_AsInt64 = Some 0, q_IsZero = True\<rparr>),
     pe_mkdir = (\<lambda>_. True), pe_write = (\<lambda>_. Saved)\<rparr>"

definition plain_world :: "'c kube \<Rightarrow> (unit, 'c) world" where
  "plain_world kb = penv.extend (plain_penv kb) \<lparr>en_codec = \<lparr>cd_unmarshal = (\<lambda>_. None), cd_marshal = (\<lambda>_. None), cd_duration = (\<lambda>_. None)\<rparr>,
     en_tools = sample_tools, en_tmp = None\<rparr>"

definition plain_front :: "'c kube \<Rightarrow> 'c client \<Rightarrow> 'c reader \<Rightarrow> (unit, 'c, (string \<times> string list) list) front" where
  "plain_front kb cl rd = world.extend (plain_world kb)
     \<lparr>fr_client = cl, fr_templates = sample_templates, fr_reader = rd, fr_web = sample_web, fr_site = sample_site, fr_now = (\<lambda>_. ''now''),
      fr_rounds = 0, fr_base64 = (\<lambda>s. s), fr_json = (\<lambda>_. None), fr_yamlObject = (\<lambda>_. None), fr_yamlItem = (\<lambda>_. None),
      fr_yamlCompose = (\<lambda>_. None), fr_indentJSON = (\<lambda>_. ''{}''), fr_cards = [], fr_errorText = (\<lambda>_. ''e''),
      fr_Version = ''1'', fr_GitCommit = ''c'', fr_KomposeRef = ''k''\<rparr>"

definition blank_reader :: "'c reader" where
  "blank_reader = \<lparr>rd_listAll = (\<lambda>_ _ _. Some []), rd_listIn = (\<lambda>_ _ _ _. Some []), rd_pods = (\<lambda>_ _ _. Some []), rd_nodes = (\<lambda>_. Some []),
     rd_node = (\<lambda>_ _. None), rd_updateNode = (\<lambda>_ _. None)\<rparr>"

definition plain_terminal :: "'c \<Rightarrow> ('c, (string \<times> string list) list) terminal" where
  "plain_terminal c = \<lparr>tm_system = \<lparr>sy_manager = \<lparr>ms_cluster = c, ms_file = None\<rparr>, sy_machine = sample_machine\<rparr>, tm_out = [], tm_err = [],
     tm_files = []\<rparr>"

lemma plain_discovery: "discovery_ok (plain_front kb cl rd) view"
  by (simp add: discovery_ok_def plain_front_def world.extend_def plain_world_def penv.extend_def plain_penv_def)

end
