(* ===== verification/Project_Cli.thy ===== *)
theory Project_Cli
  imports Console
begin

text \<open>
  The commands on what is deployed: \<^verbatim>\<open>ls\<close>, \<^verbatim>\<open>ps\<close>, \<^verbatim>\<open>node\<close>, \<^verbatim>\<open>scale\<close>, \<^verbatim>\<open>autoscale\<close>, \<^verbatim>\<open>restart\<close>, \<^verbatim>\<open>rollback\<close>, \<^verbatim>\<open>rm\<close> and \<^verbatim>\<open>config\<close> of
  \<^verbatim>\<open>pkg/cli\<close>, and \<^verbatim>\<open>version\<close> of \<^verbatim>\<open>root.go\<close>.

  The theorems: the listing commands change nothing; \<^verbatim>\<open>scale\<close> sets the count it prints as long as that fits 32 bits, and a
  wrapped one otherwise.
\<close>

section \<open>Listing\<close>

definition lsCmd :: "('r, 'c, 'd) front \<Rightarrow> string \<Rightarrow> string \<Rightarrow> bool \<Rightarrow> (('c, 'd) terminal, unit) cmd" where
  "lsCmd w kubeconfig namespace allNamespaces =
     ebind (applierFor w kubeconfig (\<lambda>kb. look (\<lambda>c. Inr (ListProjects (fr_reader w) c (if allNamespaces then [] else namespace))))) (\<lambda>projects.
       if projects = [] then say (''no orcinus-managed projects found'' @ newline)
       else say (table3 ([''PROJECT'', ''WORKLOADS'', ''READY'', ''NAMESPACES''] #
         map (\<lambda>p. [pj_Name p, Itoa (int (pj_Workloads p)), Itoa (int (pj_Ready p)) @ ''/'' @ Itoa (int (pj_Workloads p)),
           Orcinus_Prelude.Join (pj_Namespaces p) '','']) projects)))"

definition psCmd :: "('r, 'c, 'd) front \<Rightarrow> string \<Rightarrow> string \<Rightarrow> string \<Rightarrow> (('c, 'd) terminal, unit) cmd" where
  "psCmd w kubeconfig namespace project =
     ebind (applierFor w kubeconfig (\<lambda>kb. look (\<lambda>c. ListProjectPods (fr_reader w) c project namespace))) (\<lambda>pods.
       if pods = [] then say (''no pods found for project '' @ Quote project @ newline)
       else say (table3 ([''SERVICE'', ''POD'', ''READY'', ''STATUS'', ''RESTARTS'', ''NODE''] #
         map (\<lambda>p. [pi_Service p, pi_Name p, pi_Ready p, pi_Status p, Itoa (pi_Restarts p), pi_Node p]) pods)))"

definition nodeLsCmd :: "('r, 'c, 'd) front \<Rightarrow> string \<Rightarrow> (('c, 'd) terminal, unit) cmd" where
  "nodeLsCmd w kubeconfig =
     ebind (applierFor w kubeconfig (\<lambda>kb. look (ListNodes (fr_reader w)))) (\<lambda>nodes.
       say (table3 ([''NAME'', ''STATUS'', ''ROLES'', ''VERSION''] # map (\<lambda>n. [ni_Name n, ni_Status n, ni_Roles n, ni_Version n]) nodes)))"

definition versionCmd :: "('r, 'c, 'd) front \<Rightarrow> (('c, 'd) terminal, unit) cmd" where
  "versionCmd w = andThen (say (''orcinus '' @ fr_Version w @ '' (commit '' @ fr_GitCommit w @ '')'' @ newline))
     (say (''kompose (forked): '' @ fr_KomposeRef w @ newline))"

text \<open>\<^verbatim>\<open>config\<close>: the format is checked first; without an argument the project is the name of the working directory.\<close>

definition workingName :: "('r, 'c, 'd) front \<Rightarrow> string" where
  "workingName w = (case h_cwd (pe_host w) of Some wd \<Rightarrow> Base wd | None \<Rightarrow> [])"

definition configText :: "('r, 'c, 'd) front \<Rightarrow> string \<Rightarrow> bool \<Rightarrow> ProjectConfig \<Rightarrow> error + string" where
  "configText w fmt showSecrets pc =
     (if fmt \<in> {[], ''summary''} then Inr (WriteSummary pc)
      else if fmt \<in> {''k8s'', ''kubernetes''} then RenderK8s (fr_yamlItem w) showSecrets pc
      else RenderCompose (fr_yamlCompose w) pc)"

definition configCmd :: "('r, 'c, 'd) front \<Rightarrow> string \<Rightarrow> string \<Rightarrow> string \<Rightarrow> bool \<Rightarrow> string option \<Rightarrow> (('c, 'd) terminal, unit) cmd" where
  "configCmd w kubeconfig namespace fmt showSecrets arg =
     (if fmt \<notin> {[], ''summary'', ''k8s'', ''kubernetes'', ''orcinus'', ''compose''} then fail (UnknownName fmt)
      else let project = (case arg of Some p \<Rightarrow> p | None \<Rightarrow> workingName w) in
        ebind (applierFor w kubeconfig (\<lambda>kb. look (\<lambda>c. rbind (readConfig kb c project namespace) (configText w fmt showSecrets)))) say)"

section \<open>Changing\<close>

definition nodeLabel :: "string \<Rightarrow> string gomap \<Rightarrow> error + string gomap" where
  "nodeLabel kv labels = (case Cut kv ''='' of
     Some (k, v) \<Rightarrow> if k = [] then Inl (InvalidExtension ''label'' kv []) else Inr (AList.update k v labels)
   | None \<Rightarrow> Inl (InvalidExtension ''label'' kv []))"

definition nodeLabelCmd :: "('r, 'c, 'd) front \<Rightarrow> string \<Rightarrow> string list \<Rightarrow> string \<Rightarrow> string list \<Rightarrow> (('c, 'd) terminal, unit) cmd" where
  "nodeLabelCmd w kubeconfig remove node pairs = ebind (lift (foldM nodeLabel pairs [])) (\<lambda>labels.
     if labels = [] \<and> remove = [] then fail (Missing ''label'')
     else andThen (applierFor w kubeconfig (\<lambda>kb. LabelNode (fr_reader w) node labels remove))
       (say (''node '' @ Quote node @ '' labeled ('' @ Itoa (int (length labels)) @ '' set, '' @ Itoa (int (length remove)) @ '' removed)'' @ newline)))"

definition scaleCmd :: "('r, 'c, 'd) front \<Rightarrow> string \<Rightarrow> string \<Rightarrow> string \<Rightarrow> string \<Rightarrow> (('c, 'd) terminal, unit) cmd" where
  "scaleCmd w kubeconfig namespace service amount = (case Atoi amount of
     None \<Rightarrow> fail (InvalidExtension ''replicas'' amount [])
   | Some n \<Rightarrow>
       if n < 0 then fail (InvalidExtension ''replicas'' amount [])
       else ebind (applierFor w kubeconfig (\<lambda>kb. Scale (fr_client w) namespace service (int32 n))) (\<lambda>kind.
         say (''scaled '' @ kind @ ''/'' @ service @ '' to '' @ Itoa n @ '' replicas'' @ newline)))"

definition autoscaleCmd :: "('r, 'c, 'd) front \<Rightarrow> string \<Rightarrow> string \<Rightarrow> int \<Rightarrow> int \<Rightarrow> int \<Rightarrow> int \<Rightarrow> string \<Rightarrow> (('c, 'd) terminal, unit) cmd" where
  "autoscaleCmd w kubeconfig namespace least most cpu memory service =
     (if most < 1 then fail (InvalidExtension ''max'' (Itoa most) [])
      else andThen (applierFor w kubeconfig (\<lambda>kb. Autoscale (fr_client w) namespace service
          \<lparr>sp_Min = int32 least, sp_Max = int32 most, sp_CPU = int32 cpu, sp_Memory = int32 memory\<rparr>))
        (say (''autoscaling '' @ service @ '': '' @ Itoa least @ ''-'' @ Itoa most @ '' replicas'' @ newline)))"

definition restartCmd :: "('r, 'c, 'd) front \<Rightarrow> string \<Rightarrow> string \<Rightarrow> string \<Rightarrow> (('c, 'd) terminal, unit) cmd" where
  "restartCmd w kubeconfig namespace service =
     ebind (applierFor w kubeconfig (\<lambda>kb c. Restart (fr_client w) namespace service (fr_now w c) c)) (\<lambda>kind.
       say (''restarted '' @ kind @ ''/'' @ service @ newline))"

definition rollbackCmd :: "('r, 'c, 'd) front \<Rightarrow> string \<Rightarrow> string \<Rightarrow> string \<Rightarrow> (('c, 'd) terminal, unit) cmd" where
  "rollbackCmd w kubeconfig namespace service =
     ebind (applierFor w kubeconfig (\<lambda>kb c. case Rollback (fr_client w) (fr_templates w) namespace service c of
         (kind, Inl e, c) \<Rightarrow> (Inl e, c) | (kind, Inr _, c) \<Rightarrow> (Inr kind, c))) (\<lambda>kind.
       say (''rolled back '' @ kind @ ''/'' @ service @ '' to the previous revision'' @ newline))"

definition rmCmd :: "('r, 'c, 'd) front \<Rightarrow> string \<Rightarrow> string \<Rightarrow> string \<Rightarrow> (('c, 'd) terminal, unit) cmd" where
  "rmCmd w kubeconfig namespace project =
     ebind (applierFor w kubeconfig (\<lambda>kb. RemoveProject kb project namespace)) (\<lambda>n.
       say (''removed '' @ Itoa (int n) @ '' resource(s) from project '' @ Quote project @ newline))"

section \<open>What they do\<close>

lemma listing_keeps:
  assumes "discovery_ok w view"
  shows "keeps (same_view (behind (seen view ct))) (lsCmd w kc ns every)"
    and "keeps (same_view (behind (seen view ct))) (psCmd w kc ns project)"
    and "keeps (same_view (behind (seen view ct))) (nodeLsCmd w kc)"
    and "keeps (same_view (behind (seen view ct))) (configCmd w kc ns fmt show arg)"
    and "keeps (same_view (behind (seen view ct))) (versionCmd w)"
  unfolding lsCmd_def psCmd_def nodeLsCmd_def configCmd_def versionCmd_def Let_def
  using assms by (auto intro!: viewed.keeps_rules keeps_intros keeps_look)

text \<open>The default of \<^verbatim>\<open>--all-namespaces\<close> is true, and then \<^verbatim>\<open>-n\<close> is without effect.\<close>

lemma lsCmd_namespace_ignored: "lsCmd w kc ns True = lsCmd w kc ns' True"
  by (simp add: lsCmd_def)

text \<open>
  \<^verbatim>\<open>orcinus scale\<close> that succeeds has set the count of the Deployment of that name, or else of the StatefulSet, and of no other
  workload. It is the count it prints if that fits 32 bits; otherwise it is the count reduced to 32 bits, while the printed
  one is the count that was asked for.
\<close>

theorem scaleCmd_count:
  assumes "client_ok (fr_client w)" and "discovery_ok w (cl_get (fr_client w))" and "Atoi amount = Some n"
    and "scaleCmd w kc ns service amount tm = (Inr (), tm')"
  shows "\<exists>kind wl. kind \<in> {''Deployment'', ''StatefulSet''} \<and> cl_get (fr_client w) (clusterOf tm) kind ns service = Some wl \<and>
     (\<forall>k m x. cl_get (fr_client w) (clusterOf tm') k m x =
        (if (k, m, x) = (kind, ns, service) then Some (wl\<lparr>wl_Replicas := Some (int32 n)\<rparr>) else cl_get (fr_client w) (clusterOf tm) k m x)) \<and>
     (n < 2 ^ 31 \<longrightarrow> int32 n = n) \<and>
     tm_out tm' = tm_out tm @ ''scaled '' @ kind @ ''/'' @ service @ '' to '' @ Itoa n @ '' replicas'' @ newline"
proof -
  let ?cl = "fr_client w"
  have n: "0 \<le> n" using assms(3,4) by (auto simp: scaleCmd_def split: if_splits)
  from assms(3,4) n obtain kind tm1 where run: "applierFor w kc (\<lambda>kb. Scale ?cl ns service (int32 n)) tm = (Inr kind, tm1)"
    and out: "tm' = tm1\<lparr>tm_out := tm_out tm1 @ ''scaled '' @ kind @ ''/'' @ service @ '' to '' @ Itoa n @ '' replicas'' @ newline\<rparr>"
    by (auto simp: scaleCmd_def ebind_Inr)
  from applierFor_Inr [OF assms(2) run] obtain c1 where c1: "cl_get ?cl c1 = cl_get ?cl (clusterOf tm)"
    "Scale ?cl ns service (int32 n) c1 = (Inr kind, clusterOf tm1)" "tm_out tm1 = tm_out tm" by blast
  from Scale_spec [OF assms(1) c1(2)] obtain wl where wl: "cl_get ?cl c1 kind ns service = Some wl"
    "kind = (if cl_get ?cl c1 ''Deployment'' ns service \<noteq> None then ''Deployment'' else ''StatefulSet'')"
    "\<forall>k m x. cl_get ?cl (clusterOf tm1) k m x =
       (if (k, m, x) = (kind, ns, service) then Some (wl\<lparr>wl_Replicas := Some (int32 n)\<rparr>) else cl_get ?cl c1 k m x)"
    by blast
  then have kind: "kind \<in> {''Deployment'', ''StatefulSet''}" by simp
  have "n < 2 ^ 31 \<longrightarrow> int32 n = n" using n by (auto intro: int32_id)
  then show ?thesis using wl(1,3) kind c1 out by (intro exI [of _ kind] exI [of _ wl]) simp
qed

text \<open>A count of two to the power of thirty-two stops the service.\<close>

theorem scaleCmd_count_witness:
  "let tm' = snd (scaleCmd (plain_front blank_kube (memory_client [] []) blank_reader) ''/k'' ''prod'' ''web'' ''4294967296''
        (plain_terminal (sample_memory ''Deployment'')))
   in cl_get (memory_client [] []) (clusterOf tm') ''Deployment'' ''prod'' ''web'' = Some (sample_live\<lparr>wl_Replicas := Some 0\<rparr>) \<and>
      tm_out tm' = ''scaled Deployment/web to 4294967296 replicas'' @ newline"
proof -
  let ?w = "plain_front blank_kube (memory_client [] []) blank_reader" and ?tm = "plain_terminal (sample_memory ''Deployment'')"
  let ?run = "scaleCmd ?w ''/k'' ''prod'' ''web'' ''4294967296'' ?tm"
  have cl: "fr_client ?w = memory_client [] []" by (simp add: plain_front_def world.extend_def)
  have n: "Atoi ''4294967296'' = Some 4294967296"
    by (simp add: Atoi_def HasPrefix_def digits_val_def digit_val_def isDigit_def in_int64_def int64_min_def int64_max_def)
  have i: "int32 4294967296 = 0" by (simp add: int32_def)
  have "fst (applierFor ?w ''/k'' (\<lambda>kb. Scale (fr_client ?w) ''prod'' ''web'' 0) ?tm) = Inr ''Deployment''" by code_simp
  then obtain tm1 where "applierFor ?w ''/k'' (\<lambda>kb. Scale (fr_client ?w) ''prod'' ''web'' 0) ?tm = (Inr ''Deployment'', tm1)"
    by (metis prod.collapse)
  then have r: "fst ?run = Inr ()" by (simp add: scaleCmd_def n i ebind_def say_def)
  then have run: "?run = (Inr (), snd ?run)" by (metis prod.collapse)
  have old: "cl_get (memory_client [] []) (clusterOf ?tm) k ''prod'' ''web'' = (if k = ''Deployment'' then Some sample_live else None)" for k
    by (simp add: clusterOf_def plain_terminal_def sample_memory_def memory_client_def sample_live_def)
  have ok: "client_ok (fr_client ?w)" by (simp add: cl memory_client_ok)
  from scaleCmd_count [OF ok plain_discovery n run]
  obtain kind wl where k: "cl_get (memory_client [] []) (clusterOf ?tm) kind ''prod'' ''web'' = Some wl"
    "\<forall>k m x. cl_get (memory_client [] []) (clusterOf (snd ?run)) k m x =
       (if (k, m, x) = (kind, ''prod'', ''web'') then Some (wl\<lparr>wl_Replicas := Some (int32 4294967296)\<rparr>)
        else cl_get (memory_client [] []) (clusterOf ?tm) k m x)"
    "tm_out (snd ?run) = ''scaled '' @ kind @ ''/web to '' @ Itoa 4294967296 @ '' replicas'' @ newline"
    unfolding cl by (auto simp: plain_terminal_def)
  then have "kind = ''Deployment''" "wl = sample_live" using old [of kind] by (auto split: if_splits)
  moreover have "digit_char 4 = CHR ''4''" "digit_char 2 = CHR ''2''" "digit_char 9 = CHR ''9''" "digit_char 6 = CHR ''6''"
    "digit_char 7 = CHR ''7''" by code_simp+
  then have "Itoa 4294967296 = ''4294967296''" by (simp add: Itoa_def nat_digits.simps)
  ultimately show ?thesis using k i by (simp add: Let_def)
qed

end
