(* ===== verification/Secret_Cli.thy ===== *)
theory Secret_Cli
  imports Console
begin

text \<open>
  The commands on Secrets, \<^verbatim>\<open>pkg/cli/secret.go\<close>: the payload made of \<^verbatim>\<open>--from-literal\<close> and \<^verbatim>\<open>--from-file\<close>, and \<^verbatim>\<open>create\<close>, \<^verbatim>\<open>set\<close>,
  \<^verbatim>\<open>get\<close>, \<^verbatim>\<open>create-tls\<close>, \<^verbatim>\<open>create-registry\<close>, \<^verbatim>\<open>ls\<close> and \<^verbatim>\<open>rm\<close>. The files are an argument (\<open>disk\<close>), read once per command.

  The theorems: what a payload is made of, with its keys; and that \<^verbatim>\<open>get\<close> without \<^verbatim>\<open>--show-values\<close> prints the same whatever the values are.
\<close>

section \<open>The payload\<close>

record disk =
  dk_isDir :: "string \<Rightarrow> bool option"                      \<comment> \<open>\<^verbatim>\<open>os.Stat\<close>, then \<^verbatim>\<open>IsDir\<close>\<close>
  dk_readDir :: "string \<Rightarrow> (string \<times> bool) list option"   \<comment> \<open>the entries by name, with their \<^verbatim>\<open>IsDir\<close>\<close>
  dk_readFile :: "string \<Rightarrow> string option"

definition keyChar :: "char \<Rightarrow> bool" where
  "keyChar c = (let n = (of_char c :: nat) in
     c \<in> {CHR ''-'', CHR ''.'', CHR ''_''} \<or> 97 \<le> n \<and> n \<le> 122 \<or> 65 \<le> n \<and> n \<le> 90 \<or> 48 \<le> n \<and> n \<le> 57)"

text \<open>\<^verbatim>\<open>secretKeyRe\<close>.\<close>

definition secretKey :: "string \<Rightarrow> bool" where
  "secretKey s \<longleftrightarrow> s \<noteq> [] \<and> list_all keyChar s"

definition literalOf :: "string \<Rightarrow> error + string \<times> string" where
  "literalOf kv = (case Cut kv ''='' of
     None \<Rightarrow> Inl (InvalidExtension ''--from-literal'' kv [])
   | Some (k, val) \<Rightarrow>
       if k = [] then Inl (InvalidExtension ''--from-literal'' kv [])
       else if \<not> secretKey k then Inl (InvalidExtension ''--from-literal'' k [])
       else Inr (k, val))"

definition addLiteral :: "string \<Rightarrow> string gomap \<Rightarrow> error + string gomap" where
  "addLiteral kv data = rbind (literalOf kv) (\<lambda>(k, val). Inr (AList.update k val data))"

definition addLiterals :: "string list \<Rightarrow> string gomap \<Rightarrow> error + string gomap" where
  "addLiterals literals data = foldM addLiteral literals data"

definition addFile :: "disk \<Rightarrow> string \<Rightarrow> string \<Rightarrow> string gomap \<Rightarrow> error + string gomap" where
  "addFile d k path data =
     (if \<not> secretKey k then Inl (InvalidExtension ''--from-file'' path k)
      else if map_of data k \<noteq> None then Inl (Excluded path k)
      else case dk_readFile d path of None \<Rightarrow> Inl (ReadFileError path) | Some content \<Rightarrow> Inr (AList.update k content data))"

text \<open>The count of files found is the number of entries that are not directories.\<close>

definition addDirEntry :: "disk \<Rightarrow> string \<Rightarrow> string \<times> bool \<Rightarrow> string gomap \<times> nat \<Rightarrow> error + string gomap \<times> nat" where
  "addDirEntry d dir e st = (case (e, st) of ((name, isDir), (data, found)) \<Rightarrow>
     if isDir then Inr st
     else rbind (addFile d name (JoinPath [dir, name]) data) (\<lambda>data. Inr (data, Suc found)))"

definition addDir :: "disk \<Rightarrow> string \<Rightarrow> string gomap \<Rightarrow> error + string gomap" where
  "addDir d dir data = (case dk_readDir d dir of
     None \<Rightarrow> Inl (ReadFileError dir)
   | Some entries \<Rightarrow> rbind (foldM (addDirEntry d dir) entries (data, 0)) (\<lambda>(data, found).
       if found = 0 then Inl (Missing dir) else Inr data))"

text \<open>An entry is split at its first equals sign only if what is before it is a key.\<close>

definition fileEntry :: "string \<Rightarrow> string \<times> string" where
  "fileEntry entry = (case Cut entry ''='' of
     Some (k, path) \<Rightarrow> if secretKey k then (k, path) else ([], entry)
   | None \<Rightarrow> ([], entry))"

definition addEntry :: "disk \<Rightarrow> string \<Rightarrow> string gomap \<Rightarrow> error + string gomap" where
  "addEntry d entry data = (case fileEntry entry of (k, path) \<Rightarrow>
     (case dk_isDir d path of
        None \<Rightarrow> Inl (ReadFileError path)
      | Some False \<Rightarrow> addFile d (if k = [] then Base path else k) path data
      | Some True \<Rightarrow> if k \<noteq> [] then Inl (InvalidExtension ''--from-file'' entry k) else addDir d path data))"

definition addFiles :: "disk \<Rightarrow> string list \<Rightarrow> string gomap \<Rightarrow> error + string gomap" where
  "addFiles d files data = foldM (addEntry d) files data"

definition secretPayload :: "disk \<Rightarrow> string list \<Rightarrow> string list \<Rightarrow> error + string gomap" where
  "secretPayload d literals files =
     (if literals = [] \<and> files = [] then Inl (Missing ''--from-literal or --from-file'')
      else rbind (addLiterals literals []) (addFiles d files))"

section \<open>The commands\<close>

definition detailOf :: "('r, 'c, 'd) front \<Rightarrow> string \<Rightarrow> string \<Rightarrow> ('c, SecretDetail) cmd" where
  "detailOf w namespace name = look (\<lambda>c. case GetSecret (fr_client w) namespace name c of
     Found x \<Rightarrow> Inr x | NotFound \<Rightarrow> Inl (Missing name) | Failed e \<Rightarrow> Inl (ApiError e))"

definition keysText :: "nat \<Rightarrow> string" where
  "keysText n = '' ('' @ Itoa (int n) @ '' key(s))''"

text \<open>\<^verbatim>\<open>create\<close> reads the Secret first, to name the keys that replacing it drops.\<close>

definition secretCreateCmd ::
    "('r, 'c, 'd) front \<Rightarrow> disk \<Rightarrow> string \<Rightarrow> string \<Rightarrow> string list \<Rightarrow> string list \<Rightarrow> string \<Rightarrow> (('c, 'd) terminal, unit) cmd" where
  "secretCreateCmd w d kubeconfig namespace literals files name =
     ebind (lift (secretPayload d literals files)) (\<lambda>data.
     ebind (applierFor w kubeconfig (\<lambda>kb.
         ebind (optional (detailOf w namespace name)) (\<lambda>prev.
         andThen (ApplySecret (fr_client w) namespace name ''Opaque'' data)
           (ret (case prev of None \<Rightarrow> [] | Some p \<Rightarrow> filter (\<lambda>k. map_of data k = None) (KeyNames p)))))) (\<lambda>dropped.
     andThen (say (''secret '' @ Quote name @ '' created'' @ keysText (length data) @ dash @
         ''load it into a service with `x-orcinus-env-from-secret: '' @ name @ ''`'' @ newline))
       (doIf (dropped \<noteq> []) (andThen
         (say (''warning: replaced the existing secret and dropped '' @ Itoa (int (length dropped)) @ '' key(s): '' @ Orcinus_Prelude.Join dropped '', '' @ newline))
         (say (''         use `orcinus secret set` to change keys without dropping the others'' @ newline))))))"

definition secretSetCmd ::
    "('r, 'c, 'd) front \<Rightarrow> disk \<Rightarrow> string \<Rightarrow> string \<Rightarrow> string list \<Rightarrow> string list \<Rightarrow> string \<Rightarrow> (('c, 'd) terminal, unit) cmd" where
  "secretSetCmd w d kubeconfig namespace literals files name =
     ebind (lift (secretPayload d literals files)) (\<lambda>data.
     ebind (applierFor w kubeconfig (\<lambda>kb.
         ebind (optional (detailOf w namespace name)) (\<lambda>prev.
         andThen (MergeSecret (fr_client w) namespace name ''Opaque'' data)
           (if prev = None then ret None
            else ebind (detailOf w namespace name) (\<lambda>after. ret (Some (length (sd_Data after)))))))) (\<lambda>total.
     let keys = sort (map fst data) in
     case total of
       None \<Rightarrow> say (''secret '' @ Quote name @ '' created'' @ keysText (length keys) @ newline)
     | Some n \<Rightarrow> andThen
         (say (''secret '' @ Quote name @ '' updated: set '' @ Orcinus_Prelude.Join keys '', '' @ '' ('' @ Itoa (int n) @ '' key(s) total)'' @ newline))
         (say (''         running pods keep the old values until restarted (`orcinus restart <service>`)'' @ newline))))"

definition hiddenText :: "string \<Rightarrow> string" where
  "hiddenText val = ''<'' @ Itoa (int (length val)) @ '' bytes, hidden>''"

definition secretText :: "bool \<Rightarrow> SecretDetail \<Rightarrow> string" where
  "secretText showValues s =
     table3 [[''Name:'', sd_Name s], [''Namespace:'', sd_Namespace s], [''Type:'', sd_Type s],
       [''Managed by orcinus:'', boolText (sd_ManagedBy s)]] @
     (if KeyNames s = [] then newline @ ''No keys.'' @ newline
      else tabwriter 3 (newline @ tabRow [''KEY'', ''VALUE''] @
          concat (map (\<lambda>k. let val = (case map_of (sd_Data s) k of Some v \<Rightarrow> v | None \<Rightarrow> []) in
            tabRow [k, if showValues then val else hiddenText val]) (KeyNames s))) @
        (if showValues then [] else newline @ ''Values hidden. Re-run with --show-values to print them.'' @ newline))"

definition secretGetCmd :: "('r, 'c, 'd) front \<Rightarrow> string \<Rightarrow> string \<Rightarrow> bool \<Rightarrow> string \<Rightarrow> (('c, 'd) terminal, unit) cmd" where
  "secretGetCmd w kubeconfig namespace showValues name =
     ebind (applierFor w kubeconfig (\<lambda>kb. detailOf w namespace name)) (\<lambda>s. say (secretText showValues s))"

definition secretCreateTLSCmd ::
    "('r, 'c, 'd) front \<Rightarrow> disk \<Rightarrow> string \<Rightarrow> string \<Rightarrow> string \<Rightarrow> string \<Rightarrow> string \<Rightarrow> (('c, 'd) terminal, unit) cmd" where
  "secretCreateTLSCmd w d kubeconfig namespace certFile keyFile name =
     (if certFile = [] \<or> keyFile = [] then fail (Missing ''--cert and --key'')
      else case dk_readFile d certFile of None \<Rightarrow> fail (ReadFileError certFile) | Some cert \<Rightarrow>
      case dk_readFile d keyFile of None \<Rightarrow> fail (ReadFileError keyFile) | Some privateKey \<Rightarrow>
      andThen (applierFor w kubeconfig (\<lambda>kb.
          ApplySecret (fr_client w) namespace name ''kubernetes.io/tls'' [(''tls.crt'', cert), (''tls.key'', privateKey)]))
        (say (''TLS secret '' @ Quote name @ '' created'' @ dash @ ''use it with `x-orcinus-tls-secret: '' @ name @ ''`'' @ newline)))"

text \<open>The client without certificate checks, for \<^verbatim>\<open>--insecure\<close>, is an argument.\<close>

definition secretCreateRegistryCmd ::
    "('r, 'c, 'd) front \<Rightarrow> web \<Rightarrow> string \<Rightarrow> string \<Rightarrow> string \<Rightarrow> string \<Rightarrow> string \<Rightarrow> string \<Rightarrow> bool \<Rightarrow> bool \<Rightarrow> string \<Rightarrow>
     (('c, 'd) terminal, unit) cmd" where
  "secretCreateRegistryCmd w insecureWeb kubeconfig namespace server username password email insecure skipLoginCheck name =
     (if server = [] \<or> username = [] \<or> password = [] then fail (Missing ''--server, --username and --password'')
      else andThen (doIf (\<not> skipLoginCheck)
          (andThen (say (''testing login to '' @ server @ '' ...'' @ newline))
            (andThen (lift (VerifyRegistryLogin (if insecure then insecureWeb else fr_web w) server username password))
              (say (''login OK'' @ newline)))))
        (andThen (applierFor w kubeconfig (\<lambda>kb.
            ApplyDockerRegistrySecret (fr_client w) (fr_base64 w) (fr_json w) namespace name server username password email))
          (say (''registry secret '' @ Quote name @ '' created'' @ dash @ ''use it with `x-orcinus-image-pull-secret: '' @ name @ ''`'' @ newline))))"

definition summarizeKeys :: "string list \<Rightarrow> string" where
  "summarizeKeys keys =
     (if keys = [] then ''-'' else if length keys \<le> 3 then Orcinus_Prelude.Join keys '', ''
      else Orcinus_Prelude.Join (take 3 keys) '', '' @ '', +'' @ Itoa (int (length keys - 3)) @ '' more'')"

definition secretLsCmd :: "('r, 'c, 'd) front \<Rightarrow> string \<Rightarrow> string \<Rightarrow> (('c, 'd) terminal, unit) cmd" where
  "secretLsCmd w kubeconfig namespace =
     ebind (applierFor w kubeconfig (\<lambda>kb. look (ListSecrets (fr_client w) namespace))) (\<lambda>secrets.
       say (table3 ([''NAME'', ''TYPE'', ''KEYS'', ''MANAGED-BY-ORCINUS''] #
         map (\<lambda>s. [si_Name s, si_Type s, summarizeKeys (si_KeyNames s), boolText (si_ManagedBy s)]) secrets)))"

definition secretRmCmd :: "('r, 'c, 'd) front \<Rightarrow> string \<Rightarrow> string \<Rightarrow> string \<Rightarrow> (('c, 'd) terminal, unit) cmd" where
  "secretRmCmd w kubeconfig namespace name =
     andThen (applierFor w kubeconfig (\<lambda>kb. DeleteSecret (fr_client w) namespace name))
       (say (''secret '' @ Quote name @ '' deleted'' @ newline))"

section \<open>What a payload is\<close>

text \<open>Files extend a payload: no key of it is touched, each new one is a key of its own with the bytes of a file.\<close>

definition extends :: "disk \<Rightarrow> string gomap \<Rightarrow> string gomap \<Rightarrow> bool" where
  "extends d data r \<longleftrightarrow> (\<exists>added. r = data @ added \<and> distinct (map fst added) \<and> fst ` set added \<inter> fst ` set data = {} \<and>
     (\<forall>k v. (k, v) \<in> set added \<longrightarrow> secretKey k \<and> (\<exists>path. dk_readFile d path = Some v)))"

lemma extends_refl: "extends d data data"
  by (simp add: extends_def)

lemma extends_trans:
  assumes "extends d a b" and "extends d b c"
  shows "extends d a c"
proof -
  from assms(1) obtain x where x: "b = a @ x" "distinct (map fst x)" "fst ` set x \<inter> fst ` set a = {}"
      "\<forall>k v. (k, v) \<in> set x \<longrightarrow> secretKey k \<and> (\<exists>path. dk_readFile d path = Some v)"
    unfolding extends_def by blast
  from assms(2) obtain y where y: "c = b @ y" "distinct (map fst y)" "fst ` set y \<inter> fst ` set b = {}"
      "\<forall>k v. (k, v) \<in> set y \<longrightarrow> secretKey k \<and> (\<exists>path. dk_readFile d path = Some v)"
    unfolding extends_def by blast
  have "c = a @ (x @ y)" using x(1) y(1) by simp
  moreover have "fst ` set (x @ y) \<inter> fst ` set a = {}" using x(1,3) y(3) by (simp add: image_Un) blast
  moreover have "distinct (map fst (x @ y))" using x(1,2) y(2,3) by (simp add: image_Un) blast
  moreover have "\<forall>k v. (k, v) \<in> set (x @ y) \<longrightarrow> secretKey k \<and> (\<exists>path. dk_readFile d path = Some v)"
    using x(4) y(4) by (metis Un_iff set_append)
  ultimately show ?thesis unfolding extends_def by blast
qed

lemma update_new: "k \<notin> fst ` set m \<Longrightarrow> AList.update k v m = m @ [(k, v)]"
  by (induction m) auto

lemma addFile_extends:
  assumes "addFile d k path data = Inr r"
  shows "extends d data r" and "length r = Suc (length data)"
proof -
  from assms obtain v where v: "secretKey k" "map_of data k = None" "dk_readFile d path = Some v" "r = AList.update k v data"
    by (auto simp: addFile_def split: if_splits option.splits)
  then have new: "k \<notin> fst ` set data" by (simp add: map_of_eq_None_iff)
  then have r: "r = data @ [(k, v)]" using v(4) by (simp add: update_new)
  then show "length r = Suc (length data)" by simp
  show "extends d data r" unfolding extends_def using v(1,3) new r by (intro exI [of _ "[(k, v)]"]) auto
qed

lemma addDirEntries_extends:
  "foldM (addDirEntry d dir) entries (data, m) = Inr (r, n) \<Longrightarrow> extends d data r \<and> length r + m = length data + n"
proof (induction entries arbitrary: data m)
  case (Cons e es)
  then obtain data1 m1 where st: "addDirEntry d dir e (data, m) = Inr (data1, m1)"
    "foldM (addDirEntry d dir) es (data1, m1) = Inr (r, n)" by (auto simp: rbind_Inr_iff)
  have "extends d data data1 \<and> length data1 + m = length data + m1"
    using st(1) by (auto simp: addDirEntry_def rbind_Inr_iff extends_refl addFile_extends split: prod.splits if_splits)
  with Cons.IH [OF st(2)] show ?case using extends_trans by fastforce
qed (simp add: extends_refl)

lemma addEntry_extends:
  assumes "addEntry d entry data = Inr r"
  shows "extends d data r \<and> length data < length r"
proof -
  have "extends d data r \<and> length data < length r" if run: "addDir d path data = Inr r" for path
  proof -
    from run obtain entries n where "foldM (addDirEntry d path) entries (data, 0) = Inr (r, n)" "n \<noteq> 0"
      by (auto simp: addDir_def rbind_Inr_iff split: option.splits if_splits)
    with addDirEntries_extends show ?thesis by fastforce
  qed
  with assms addFile_extends show ?thesis
    by (auto simp: addEntry_def split: prod.splits option.splits bool.splits if_splits)
qed

lemma addFiles_extends:
  "addFiles d files data = Inr r \<Longrightarrow> extends d data r \<and> length data + length files \<le> length r"
  unfolding addFiles_def
proof (induction files arbitrary: data)
  case (Cons e es)
  then obtain data1 where st: "addEntry d e data = Inr data1" "foldM (addEntry d) es data1 = Inr r" by (auto simp: rbind_Inr_iff)
  from addEntry_extends [OF st(1)] Cons.IH [OF st(2)] show ?case using extends_trans by fastforce
qed (simp add: extends_refl)

lemma addLiterals_Inr:
  "addLiterals literals data = Inr r \<longleftrightarrow> (\<exists>parsed. mapM literalOf literals = Inr parsed \<and> r = put_all parsed data)"
  unfolding addLiterals_def
  by (induction literals arbitrary: data) (auto simp: rbind_Inr_iff addLiteral_def split: prod.splits)

lemma literals_keys: "mapM literalOf literals = Inr parsed \<Longrightarrow> (k, v) \<in> set parsed \<Longrightarrow> secretKey k"
  by (induction literals arbitrary: parsed)
    (auto simp: rbind_Inr_iff literalOf_def split: option.splits prod.splits if_splits)

lemma put_all_keys: "fst ` set (put_all src dst) = fst ` set src \<union> fst ` set dst"
proof (induction src arbitrary: dst)
  case (Cons e src)
  obtain k v where e: "e = (k, v)" by force
  have "fst ` set (AList.update k v dst) = insert k (fst ` set dst)" using dom_update [of k v dst] by simp
  then show ?case by (simp add: e Cons.IH)
qed simp

text \<open>
  C30: What \<^verbatim>\<open>secretData\<close> accepts is a payload Kubernetes can hold: it has at least one key, no key twice, and every key is one of the
  characters allowed. It is the literals, the later of two with the same key counting, followed by entries that are the bytes of
  files; no file replaces a literal or another file.
\<close>

theorem secretPayload_typed:
  assumes "secretPayload d literals files = Inr data"
  shows "data \<noteq> [] \<and> gomap_ok data \<and> list_all (\<lambda>(k, v). secretKey k) data \<and>
     (\<exists>parsed added. mapM literalOf literals = Inr parsed \<and> data = put_all parsed [] @ added \<and>
        (\<forall>k v. (k, v) \<in> set added \<longrightarrow> (\<exists>path. dk_readFile d path = Some v)))"
proof -
  from assms obtain parsed where one: "literals \<noteq> [] \<or> files \<noteq> []" and parsed: "mapM literalOf literals = Inr parsed"
    and run: "addFiles d files (put_all parsed []) = Inr data"
    by (auto simp: secretPayload_def rbind_Inr_iff addLiterals_Inr split: if_splits)
  from addFiles_extends [OF run] obtain added where added: "data = put_all parsed [] @ added" "distinct (map fst added)"
    "fst ` set added \<inter> fst ` set (put_all parsed []) = {}"
    "\<forall>k v. (k, v) \<in> set added \<longrightarrow> secretKey k \<and> (\<exists>path. dk_readFile d path = Some v)"
    "length (put_all parsed []) + length files \<le> length data"
    unfolding extends_def by blast
  have "gomap_ok (put_all parsed [])" by (simp add: put_all_ok)
  then have ok: "gomap_ok data" using added(1-3) by (auto simp: gomap_ok_def)
  have "data \<noteq> []"
  proof
    assume "data = []"
    then have "files = []" "put_all parsed [] = []" using added(1,5) by simp_all
    moreover from this(2) have "parsed = []" using put_all_keys [of parsed "[]"] by simp
    ultimately show False using one parsed by (cases literals) (auto simp: rbind_Inr_iff)
  qed
  moreover have "secretKey k" if kv: "(k, v) \<in> set data" for k v
  proof (cases "(k, v) \<in> set added")
    case False
    then have "k \<in> fst ` set parsed" using kv added(1) put_all_keys [of parsed "[]"] by force
    then show ?thesis using literals_keys [OF parsed] by auto
  qed (use added(4) in blast)
  ultimately show ?thesis using ok added(1,4) parsed by (auto simp: list_all_iff)
qed

section \<open>Hidden values\<close>

text \<open>Every value blacked out, with its length kept.\<close>

definition blackout :: "string \<times> string \<Rightarrow> string \<times> string" where
  "blackout = apsnd (\<lambda>v. replicate (length v) (CHR ''x''))"

definition blackoutSecret :: "secret \<Rightarrow> secret" where
  "blackoutSecret s = s\<lparr>se_Data := map blackout (se_Data s)\<rparr>"

definition blackoutClient :: "'c client \<Rightarrow> 'c client" where
  "blackoutClient cl = cl\<lparr>cl_secret := (\<lambda>c ns n. case cl_secret cl c ns n of Found s \<Rightarrow> Found (blackoutSecret s) | r \<Rightarrow> r)\<rparr>"

definition blackoutDetail :: "SecretDetail \<Rightarrow> SecretDetail" where
  "blackoutDetail s = s\<lparr>sd_Data := map blackout (sd_Data s)\<rparr>"

lemma map_of_blackout: "map_of (map blackout m) k = map_option (\<lambda>v. replicate (length v) (CHR ''x'')) (map_of m k)"
  by (induction m) (auto simp: blackout_def apsnd_def)

lemma secretText_blackout: "secretText False (blackoutDetail s) = secretText False s"
proof -
  have k: "KeyNames (blackoutDetail s) = KeyNames s"
    by (simp add: KeyNames_def blackoutDetail_def blackout_def comp_def apsnd_def map_prod_def split_def)
  have fields: "sd_Name (blackoutDetail s) = sd_Name s" "sd_Namespace (blackoutDetail s) = sd_Namespace s"
      "sd_Type (blackoutDetail s) = sd_Type s" "sd_ManagedBy (blackoutDetail s) = sd_ManagedBy s"
      "sd_Data (blackoutDetail s) = map blackout (sd_Data s)" by (simp_all add: blackoutDetail_def)
  have "(case map_option (\<lambda>v. replicate (length v) (CHR ''x'')) val of Some v \<Rightarrow> v | None \<Rightarrow> []) =
      replicate (length (case val of Some v \<Rightarrow> v | None \<Rightarrow> [])) (CHR ''x'')" for val :: "string option"
    by (cases val) simp_all
  then show ?thesis
    by (simp add: secretText_def k fields map_of_blackout hiddenText_def Let_def)
qed

lemma GetSecret_blackout:
  "GetSecret (blackoutClient cl) ns name c = (case GetSecret cl ns name c of Found s \<Rightarrow> Found (blackoutDetail s) | r \<Rightarrow> r)"
  by (simp add: GetSecret_def blackoutClient_def blackoutSecret_def blackoutDetail_def managed_def split: lookup.splits)

text \<open>
  C13: \<^verbatim>\<open>orcinus secret get\<close> without \<^verbatim>\<open>--show-values\<close> gives no value away: against a cluster whose Secrets have every byte of every value
  replaced it prints the same text and returns the same result. Only keys and lengths are in it.
\<close>

theorem secretGet_hides:
  "secretGetCmd (w\<lparr>fr_client := blackoutClient (fr_client w)\<rparr>) kubeconfig namespace False name tm =
   secretGetCmd w kubeconfig namespace False name tm"
proof -
  have "applier (w\<lparr>fr_client := cl\<rparr>) kubeconfig = applier w kubeconfig" for cl
    by (simp add: applier_def penv.truncate_def)
  then show ?thesis
    by (simp add: secretGetCmd_def applierFor_def onSystem_def withApplier_def onManager_def onCluster_def ebind_def detailOf_def look_def
        GetSecret_blackout secretText_blackout split: prod.splits sum.splits lookup.splits)
qed

text \<open>Two literals and a directory of one file; the second literal of a key counts.\<close>

definition sample_disk :: disk where
  "sample_disk = \<lparr>dk_isDir = (\<lambda>p. if p = ''conf'' then Some True else None),
     dk_readDir = (\<lambda>p. Some [(''old'', True), (''api.key'', False)]), dk_readFile = (\<lambda>p. if p = ''conf/api.key'' then Some ''raw'' else None)\<rparr>"

theorem secretPayload_typed_witness:
  "let data = [(''user'', ''eve''), (''api.key'', ''raw'')] in
   secretPayload sample_disk [''user=ann'', ''user=eve''] [''conf''] = Inr data \<and> gomap_ok data \<and> list_all (\<lambda>(k, v). secretKey k) data"
proof -
  have run: "secretPayload sample_disk [''user=ann'', ''user=eve''] [''conf''] = Inr [(''user'', ''eve''), (''api.key'', ''raw'')]" by code_simp
  from secretPayload_typed [OF run] run show ?thesis by (simp add: Let_def)
qed

text \<open>A key of dots passes the check of the keys, though Kubernetes refuses it.\<close>

lemma secretKey_dots: "secretKey ''.'' \<and> secretKey ''..''"
  by code_simp

end
