(* ===== verification/Deploy_Cli.thy ===== *)
theory Deploy_Cli
  imports Console
begin

text \<open>
  \<^verbatim>\<open>orcinus deploy\<close>, \<^verbatim>\<open>pkg/cli/deploy.go\<close>, and \<^verbatim>\<open>WriteDir\<close> of \<^verbatim>\<open>pkg/deploy/render.go\<close>: the sources are found and read, the objects
  built (\<open>Engine\<close>), written to a directory, rendered or applied. Standard input and HTTP are arguments; files are read through
  the host of the process and written to the terminal's files.

  The theorems: a dry run leaves the cluster, the record of plugins and the machine alone; what is not a dry run does what
  \<^verbatim>\<open>engine.Deploy\<close> does, but for the check of the ACME email; \<^verbatim>\<open>WriteDir\<close> leaves the file of each object, if no two have the same.
\<close>

section \<open>Sources\<close>

record deployOpts =
  do_files :: "string list"
  do_namespace :: string
  do_project :: string
  do_dryRun :: bool
  do_as :: string
  do_output :: string
  do_replicas :: int
  do_pvcSize :: string
  do_kubeconfig :: string
  do_prune :: bool
  do_prunePVC :: bool
  do_wait :: bool
  do_acmeEmail :: string
  do_profiles :: "string list"

text \<open>Standard input, if it can be read to its end, and the status and body of a GET within its 30 seconds.\<close>

record inputs =
  in_stdin :: "string option"
  in_fetch :: "string \<Rightarrow> (int \<times> string option) option"

definition defaultFiles :: "string list" where
  "defaultFiles = [''orcinus.yml'', ''orcinus.yaml'', ''compose.yaml'', ''compose.yml'', ''docker-compose.yml'', ''docker-compose.yaml'']"

definition discoverDefaultFile :: "(string \<Rightarrow> bool) \<Rightarrow> error + string" where
  "discoverDefaultFile isFile = (case find isFile defaultFiles of Some n \<Rightarrow> Inr n | None \<Rightarrow> Inl NoComposeFiles)"

definition isURL :: "string \<Rightarrow> bool" where
  "isURL src \<longleftrightarrow> HasPrefix src ''http://'' \<or> HasPrefix src ''https://''"

definition readURL :: "inputs \<Rightarrow> string \<Rightarrow> error + string" where
  "readURL inp url = (case in_fetch inp url of
     None \<Rightarrow> Inl (ReadFileError url)
   | Some (status, body) \<Rightarrow>
       if status \<noteq> 200 then Inl (ReadFileError url)
       else (case body of None \<Rightarrow> Inl (ReadFileError url) | Some b \<Rightarrow> Inr b))"

text \<open>Standard input is empty once it has been read.\<close>

definition readSource :: "host \<Rightarrow> string \<Rightarrow> inputs \<Rightarrow> (error + string) \<times> inputs" where
  "readSource h src inp =
     (if src = ''-'' then
        (case in_stdin inp of None \<Rightarrow> (Inl (ReadFileError src), inp) | Some raw \<Rightarrow> (Inr raw, inp\<lparr>in_stdin := Some []\<rparr>))
      else if isURL src then (readURL inp src, inp)
      else (case h_read h src of None \<Rightarrow> Inl (ReadFileError src) | Some b \<Rightarrow> Inr b, inp))"

fun readSources :: "host \<Rightarrow> string list \<Rightarrow> inputs \<Rightarrow> (error + string list) \<times> inputs" where
  "readSources h [] inp = (Inr [], inp)"
| "readSources h (src # srcs) inp = (case readSource h src inp of
     (Inl e, inp) \<Rightarrow> (Inl e, inp)
   | (Inr raw, inp) \<Rightarrow> (case readSources h srcs inp of (Inl e, inp) \<Rightarrow> (Inl e, inp) | (Inr raws, inp) \<Rightarrow> (Inr (raw # raws), inp)))"

definition baseDirOf :: "string list \<Rightarrow> string" where
  "baseDirOf files = (case files of [] \<Rightarrow> ''.'' | f # _ \<Rightarrow> if f \<noteq> ''-'' \<and> \<not> isURL f then Dir f else ''.'')"

section \<open>Writing the objects\<close>

definition objectName :: "kobj \<Rightarrow> string" where
  "objectName ob = (let name = (case objectMeta ob of Some m \<Rightarrow> om_name m
       | None \<Rightarrow> (case ob of Unstructured u \<Rightarrow> GetName u | _ \<Rightarrow> [])) in
     if name = [] then ''object'' else name)"

definition objectFile :: "string \<Rightarrow> kobj \<Rightarrow> string" where
  "objectFile dir ob = JoinPath [dir, ToLower (gk_Kind (objectGVK ob)) @ ''-'' @ objectName ob @ ''.yaml'']"

definition writeObject :: "('r, 'c, 'd) front \<Rightarrow> string \<Rightarrow> kobj \<Rightarrow> (('c, 'd) terminal, unit) cmd" where
  "writeObject w dir ob tm = (case fr_yamlObject w ob of
     None \<Rightarrow> (Inl MarshalError, tm)
   | Some b \<Rightarrow>
       let path = objectFile dir ob in
       if \<not> h_write (pe_host w) path then (Inl (WriteError path), tm)
       else (Inr (), tm\<lparr>tm_files := AList.update path b (tm_files tm)\<rparr>))"

definition WriteDir :: "('r, 'c, 'd) front \<Rightarrow> kobj list \<Rightarrow> string \<Rightarrow> (('c, 'd) terminal, unit) cmd" where
  "WriteDir w objects dir =
     (if \<not> h_mkdir (pe_host w) dir then fail (WriteError dir) else each (writeObject w dir) objects)"

section \<open>The command\<close>

definition deployProject :: "('r, 'c, 'd) front \<Rightarrow> deployOpts \<Rightarrow> string" where
  "deployProject w opts = (if do_project opts \<noteq> [] then do_project opts
     else (case h_cwd (pe_host w) of Some wd \<Rightarrow> Base wd | None \<Rightarrow> []))"

definition deployRequest :: "('r, 'c, 'd) front \<Rightarrow> deployOpts \<Rightarrow> string list \<Rightarrow> Request" where
  "deployRequest w opts files =
     \<lparr>rq_Project = deployProject w opts, rq_Namespace = do_namespace opts, rq_Mode = do_as opts, rq_Replicas = do_replicas opts,
      rq_PVCSize = do_pvcSize opts, rq_Profiles = do_profiles opts, rq_BaseDir = baseDirOf files, rq_Kubeconfig = do_kubeconfig opts,
      rq_Prune = do_prune opts, rq_PrunePVCs = do_prunePVC opts, rq_Wait = do_wait opts, rq_Rounds = fr_rounds w,
      rq_ACMEEmail = do_acmeEmail opts, rq_AutoInstall = True\<rparr>"

definition deployFiles :: "('r, 'c, 'd) front \<Rightarrow> deployOpts \<Rightarrow> (('c, 'd) terminal, string list) cmd" where
  "deployFiles w opts =
     (if do_files opts \<noteq> [] then ret (do_files opts)
      else ebind (lift (discoverDefaultFile (pe_fileExists w))) (\<lambda>found.
        andThen (warn (''using '' @ found @ newline)) (ret [found])))"

definition autoInstalled :: "('r, 'c, 'd) front \<Rightarrow> kobj list \<Rightarrow> Request \<Rightarrow> (('c, 'd) system, string list) cmd" where
  "autoInstalled w objects req = onManager (\<lambda>st. case AutoInstall (penv.truncate w) objects req st of
     ((installed, Some e), st) \<Rightarrow> (Inl e, st) | ((installed, None), st) \<Rightarrow> (Inr installed, st))"

definition applyBuilt :: "('r, 'c, 'd) front \<Rightarrow> deployOpts \<Rightarrow> kobj list \<Rightarrow> Request \<Rightarrow> (('c, 'd) terminal, unit) cmd" where
  "applyBuilt w opts objects req =
     (if NeedsCertManager objects \<and> do_acmeEmail opts = [] then fail NeedsACMEEmail
      else ebind (onSystem (autoInstalled w objects req)) (\<lambda>installed.
        andThen (each (\<lambda>p. warn (''installed '' @ p @ '' (required by the input)'' @ newline)) installed)
          (ebind (onSystem (onManager (onCluster (applyObjects (world.truncate w) objects req)))) (\<lambda>applied.
            warn (''applied '' @ Itoa (int applied) @ '' object(s) as project '' @ Quote (rq_Project req) @ newline)))))"

definition handleBuilt :: "('r, 'c, 'd) front \<Rightarrow> deployOpts \<Rightarrow> kobj list \<Rightarrow> Request \<Rightarrow> (('c, 'd) terminal, unit) cmd" where
  "handleBuilt w opts objects req =
     andThen (doIf (do_output opts \<noteq> []) (andThen (WriteDir w objects (do_output opts))
         (warn (''wrote '' @ Itoa (int (length objects)) @ '' object(s) to '' @ do_output opts @ newline))))
       (if do_dryRun opts then ebind (lift (Render (fr_yamlObject w) objects)) say
        else applyBuilt w opts objects req)"

definition runDeploy :: "('r, 'c, 'd) front \<Rightarrow> inputs \<Rightarrow> deployOpts \<Rightarrow> (('c, 'd) terminal, unit) cmd" where
  "runDeploy w inp opts =
     ebind (deployFiles w opts) (\<lambda>files.
     ebind (lift (fst (readSources (pe_host w) files inp))) (\<lambda>sources.
     let req = deployRequest w opts files in
     ebind (lift (buildIn (world.truncate w) sources req)) (\<lambda>objects.
     handleBuilt w opts objects req)))"

section \<open>Dry runs\<close>

lemma keeps_each_view [keeps_intros]: "(\<And>x. keeps (same_view view) (f x)) \<Longrightarrow> keeps (same_view view) (each f xs)"
  by (rule viewed.keeps_each)

lemma keeps_WriteDir: "keeps (same_view tm_system) (WriteDir w objects dir)"
proof -
  have "keeps (same_view tm_system) (writeObject w dir ob)" for ob
    by (simp add: keeps_def same_view_def writeObject_def Let_def split: option.split)
  then show ?thesis unfolding WriteDir_def by (intro viewed.keeps_rules)
qed

lemma keeps_print [keeps_intros]: "keeps (same_view tm_system) (say s)" "keeps (same_view tm_system) (warn s)"
    "keeps (same_view tm_files) (say s)" "keeps (same_view tm_files) (warn s)"
  by (simp_all add: keeps_def same_view_def say_def warn_def)

lemma dryRun_keeps:
  assumes "do_dryRun opts"
  shows "keeps (same_view tm_system) (runDeploy w inp opts)"
    and "do_output opts = [] \<Longrightarrow> keeps (same_view tm_files) (runDeploy w inp opts)"
proof -
  show "keeps (same_view tm_system) (runDeploy w inp opts)"
    unfolding runDeploy_def deployFiles_def handleBuilt_def Let_def using assms
    by (auto intro!: viewed.keeps_rules keeps_intros keeps_WriteDir)
  show "keeps (same_view tm_files) (runDeploy w inp opts)" if "do_output opts = []"
    unfolding runDeploy_def deployFiles_def handleBuilt_def Let_def using assms that
    by (auto intro!: viewed.keeps_rules keeps_intros)
qed

text \<open>
  \<^verbatim>\<open>orcinus deploy --dry-run\<close> changes neither the cluster nor the record of plugins nor the machine, whatever the
  input is and also when it fails; without \<^verbatim>\<open>-o\<close> it writes no file either.
\<close>

theorem runDeploy_dryRun:
  assumes "do_dryRun opts"
  shows "tm_system (snd (runDeploy w inp opts tm)) = tm_system tm \<and>
    (do_output opts = [] \<longrightarrow> tm_files (snd (runDeploy w inp opts tm)) = tm_files tm)"
  using dryRun_keeps [OF assms, of w inp] by (auto simp: keeps_def same_view_def)

section \<open>The engine underneath\<close>

lemma each_warn: "each (\<lambda>p. warn (f p)) xs tm = (Inr (), tm\<lparr>tm_err := tm_err tm @ concat (map f xs)\<rparr>)"
  by (induction xs arbitrary: tm) (simp_all add: andThen_def ebind_def warn_def)

lemma autoInstalled_run:
  "onSystem (autoInstalled w objects req) tm =
     (case AutoInstall (penv.truncate w) objects req (sy_manager (tm_system tm)) of
        ((installed, err), st) \<Rightarrow> (case err of None \<Rightarrow> Inr installed | Some e \<Rightarrow> Inl e,
          tm\<lparr>tm_system := (tm_system tm)\<lparr>sy_manager := st\<rparr>\<rparr>))"
  by (simp add: onSystem_def autoInstalled_def onManager_def split: prod.splits option.splits)


section \<open>The directory of manifests\<close>

lemma writeObject_Inr:
  "writeObject w dir ob tm = (Inr (), tm') \<longleftrightarrow>
     (\<exists>b. fr_yamlObject w ob = Some b \<and> h_write (pe_host w) (objectFile dir ob) \<and>
        tm' = tm\<lparr>tm_files := AList.update (objectFile dir ob) b (tm_files tm)\<rparr>)"
  by (auto simp: writeObject_def Let_def split: option.splits)

lemma writeObjects:
  "each (writeObject w dir) objects tm = (Inr (), tm') \<Longrightarrow> distinct (map (objectFile dir) objects) \<Longrightarrow>
     (\<forall>ob \<in> set objects. fr_yamlObject w ob \<noteq> None \<and> map_of (tm_files tm') (objectFile dir ob) = fr_yamlObject w ob) \<and>
     (\<forall>p. p \<notin> objectFile dir ` set objects \<longrightarrow> map_of (tm_files tm') p = map_of (tm_files tm) p)"
proof (induction objects arbitrary: tm)
  case (Cons ob obs)
  from Cons.prems(1) obtain tm1 where one: "writeObject w dir ob tm = (Inr (), tm1)" and rest: "each (writeObject w dir) obs tm1 = (Inr (), tm')"
    by (auto simp: andThen_Inr)
  have new: "objectFile dir ob \<notin> objectFile dir ` set obs" using Cons.prems(2) by simp
  note ih = Cons.IH [OF rest] and fst_write = one [unfolded writeObject_Inr]
  then show ?case using Cons.prems(2) new by auto
qed simp

text \<open>
  \<^verbatim>\<open>WriteDir\<close>, when it succeeds, leaves for every object a file named after its kind and name that holds its YAML, if no two objects
  have the same kind and name, and touches no other file.
\<close>

theorem WriteDir_files:
  assumes "WriteDir w objects dir tm = (Inr (), tm')" and "distinct (map (objectFile dir) objects)"
  shows "(\<forall>ob \<in> set objects. fr_yamlObject w ob \<noteq> None \<and> map_of (tm_files tm') (objectFile dir ob) = fr_yamlObject w ob) \<and>
    (\<forall>p. p \<notin> objectFile dir ` set objects \<longrightarrow> map_of (tm_files tm') p = map_of (tm_files tm) p)"
  using writeObjects [of w dir objects tm tm'] assms by (auto simp: WriteDir_def split: if_splits)

text \<open>Neither the namespace nor the group is in the name of the file: the second of two such objects overwrites the first.\<close>

definition settings :: "string \<Rightarrow> kobj" where
  "settings ns = Unstructured [(''kind'', JStr ''ConfigMap''), (''metadata'', JObj [(''name'', JStr ''settings''), (''namespace'', JStr ns)])]"

lemma WriteDir_overwrites: "objectFile ''out'' (settings ''prod'') = objectFile ''out'' (settings ''test'')"
proof -
  have "objectGVK (settings ns) = objectGVK (settings []) \<and> objectName (settings ns) = objectName (settings [])" for ns
    by code_simp
  then show ?thesis unfolding objectFile_def by metis
qed

section \<open>Examples\<close>

definition deploy_front :: "(unit, (gvr \<times> obj) list, (string \<times> string list) list) front" where
  "deploy_front = sample_front\<lparr>fr_yamlObject := (\<lambda>ob. Some (objectName ob))\<rparr>"

definition sample_opts :: "bool \<Rightarrow> deployOpts" where
  "sample_opts dry = \<lparr>do_files = [''-''], do_namespace = ''ns'', do_project = ''shop'', do_dryRun = dry, do_as = [], do_output = [], do_replicas = 1,
     do_pvcSize = ''1Gi'', do_kubeconfig = ''/k'', do_prune = False, do_prunePVC = False, do_wait = False, do_acmeEmail = [],
     do_profiles = []\<rparr>"

definition sample_inputs :: inputs where
  "sample_inputs = \<lparr>in_stdin = Some ''m'', in_fetch = (\<lambda>_. None)\<rparr>"

definition sample_terminal :: "((gvr \<times> obj) list, (string \<times> string list) list) terminal" where
  "sample_terminal = \<lparr>tm_system = sample_system, tm_out = [], tm_err = [], tm_files = []\<rparr>"

theorem runDeploy_dryRun_witness:
  "let run = runDeploy deploy_front sample_inputs (sample_opts True) sample_terminal in
   fst run = Inr () \<and> tm_out (snd run) = ''object'' \<and> tm_system (snd run) = sample_system \<and> tm_files (snd run) = []"
proof -
  have dry: "do_dryRun (sample_opts True)" by (simp add: sample_opts_def)
  have "fst (runDeploy deploy_front sample_inputs (sample_opts True) sample_terminal) = Inr ()"
    "tm_out (snd (runDeploy deploy_front sample_inputs (sample_opts True) sample_terminal)) = ''object''" by code_simp+
  then show ?thesis using runDeploy_dryRun [OF dry, of deploy_front sample_inputs sample_terminal]
    by (simp add: Let_def sample_opts_def sample_terminal_def)
qed


theorem WriteDir_files_witness:
  "let tm' = snd (WriteDir deploy_front [settings ''prod''] ''out'' sample_terminal) in
   map_of (tm_files tm') ''out/configmap-settings.yaml'' = Some ''settings'' \<and> map_of (tm_files tm') ''out'' = None"
proof -
  let ?run = "WriteDir deploy_front [settings ''prod''] ''out'' sample_terminal"
  have "fst ?run = Inr ()" by code_simp
  then have run: "?run = (Inr (), snd ?run)" by (metis prod.collapse)
  have path: "objectFile ''out'' (settings ''prod'') = ''out/configmap-settings.yaml''"
    "fr_yamlObject deploy_front (settings ''prod'') = Some ''settings''" by code_simp+
  from WriteDir_files [OF run] show ?thesis by (simp add: Let_def path sample_terminal_def)
qed

end
