(* ===== verification/Skills_Cli.thy ===== *)
theory Skills_Cli
  imports Console
begin

text \<open>
  \<^verbatim>\<open>orcinus skills\<close> and \<^verbatim>\<open>orcinus skills init\<close>, \<^verbatim>\<open>pkg/cli/skills.go\<close>: the listings of the cards of \<open>Front\<close>, and the block of
  usage notes written into the rule files of agents. A rule file is a file of the terminal; \<open>denied\<close> says which ones cannot be
  read though they exist.

  The theorem: in a file that has the markers in order or not at all, a block replaces the one before it, so that writing the
  same one again changes nothing, and everything else in the file stays.
\<close>

section \<open>The listings\<close>

definition warningSign :: string where
  "warningSign = [CHR 0xE2, CHR 0x9A, CHR 0xA0]"

definition ellipsis :: string where
  "ellipsis = [CHR 0xE2, CHR 0x80, CHR 0xA6]"

definition arrow :: string where
  "arrow = [CHR 0xE2, CHR 0x86, CHR 0x92]"

definition middleDot :: string where
  "middleDot = [CHR '' '', CHR 0xC2, CHR 0xB7, CHR '' '']"

definition cardJSON :: "Card \<Rightarrow> iface" where
  "cardJSON c = JObj ([(''name'', JStr (cd_Name c)), (''description'', JStr (cd_Description c))] @
     (if cd_Tags c = [] then [] else [(''tags'', JArr (map JStr (cd_Tags c)))]) @
     (if cd_Danger c then [(''danger'', JBool True)] else []) @ [(''body'', JStr (cd_Body c))])"

text \<open>With more than one argument the list is printed, as without one.\<close>

definition skillsCmd :: "('r, 'c, 'd) front \<Rightarrow> bool \<Rightarrow> bool \<Rightarrow> string list \<Rightarrow> (('c, 'd) terminal, unit) cmd" where
  "skillsCmd w asJSON every args =
     (if asJSON then say (fr_indentJSON w (JArr (map cardJSON (fr_cards w))) @ newline)
      else if every then say (AllCards (fr_cards w))
      else case args of
        [name] \<Rightarrow> (case GetCard (fr_cards w) name of None \<Rightarrow> fail (UnknownName name) | Some c \<Rightarrow> say (cardText c @ newline))
      | _ \<Rightarrow> andThen
          (say (table3 ([''SKILL'', ''DESCRIPTION''] #
             map (\<lambda>c. [cd_Name c @ (if cd_Danger c then '' '' @ warningSign else []), cd_Description c]) (fr_cards w))))
          (say (newline @ ''Run `orcinus skills <name>` for a recipe, or `orcinus skills init --agent all` to install into your agent.'' @ newline)))"

section \<open>The block\<close>

definition agentManifest :: "Card list \<Rightarrow> string" where
  "agentManifest cards =
     ''This project can be deployed with **orcinus**'' @ dash @ ''it runs `docker-compose.yml`'' @ newline @
     ''files (and raw Kubernetes manifests) on a Kubernetes cluster.'' @ newline @ newline @
     ''Quickstart:'' @ newline @
     ''- Preview (no changes): `orcinus deploy -f <file> --dry-run`'' @ newline @
     ''- Deploy: `orcinus deploy -f docker-compose.yml --wait`'' @ newline @
     ''- Inspect: `orcinus ls`'' @ middleDot @ ''`orcinus ps <project>`'' @ middleDot @ ''`orcinus logs <service> -f`'' @ newline @
     ''- Remove: `orcinus rm <project>` (destructive)'' @ middleDot @ ''`orcinus cluster down` (destructive)'' @ newline @ newline @
     ''Learn the full capability set at any time (self-describing):'' @ newline @
     ''- `orcinus skills`'' @ dash @ ''list recipes'' @ newline @
     ''- `orcinus skills <name>`'' @ dash @ ''one recipe'' @ newline @
     ''- `orcinus skills --all`'' @ dash @ ''everything'' @ newline @ newline @
     ''Recipes: '' @ Orcinus_Prelude.Join (map cd_Name cards) '', '' @ ''.'' @ newline @ newline @
     ''Safety: prefer `--dry-run` before applying; treat `rm` / `cluster down` as destructive.''"

definition blockBegin :: string where
  "blockBegin = ''<!-- orcinus:begin -->''"

definition blockEnd :: string where
  "blockEnd = ''<!-- orcinus:'' @ ''e'' @ ''nd -->''"

definition blockOf :: "string \<Rightarrow> string" where
  "blockOf body = blockBegin @ newline @ ''## Using orcinus'' @ newline @ newline @ body @ newline @ blockEnd"

text \<open>\<^verbatim>\<open>strings.Index\<close>, and the new text of a file that exists.\<close>

fun Index :: "string \<Rightarrow> string \<Rightarrow> nat option" where
  "Index [] t = (if t = [] then Some 0 else None)"
| "Index (c # s) t = (if HasPrefix (c # s) t then Some 0 else map_option Suc (Index s t))"

definition endLine :: "string \<Rightarrow> string" where
  "endLine s = (if HasSuffix s newline then s else s @ newline)"

definition injected :: "string \<Rightarrow> string \<Rightarrow> string" where
  "injected s block =
     (let appended = endLine s @ newline @ block @ newline in
      case (Index s blockBegin, Index s blockEnd) of
        (Some i, Some j) \<Rightarrow> if i < j then take i s @ block @ drop (j + length blockEnd) s else appended
      | _ \<Rightarrow> appended)"

definition writeText :: "('r, 'c, 'd) front \<Rightarrow> string \<Rightarrow> string \<Rightarrow> (('c, 'd) terminal, unit) cmd" where
  "writeText w path content tm =
     (if \<not> h_write (pe_host w) path then (Inl (WriteError path), tm)
      else (Inr (), tm\<lparr>tm_files := AList.update path content (tm_files tm)\<rparr>))"

definition writeFileMkdir :: "('r, 'c, 'd) front \<Rightarrow> string \<Rightarrow> string \<Rightarrow> (('c, 'd) terminal, unit) cmd" where
  "writeFileMkdir w path content =
     (if \<not> h_mkdir (pe_host w) (Dir path) then fail (WriteError path) else writeText w path content)"

definition injectBlock :: "('r, 'c, 'd) front \<Rightarrow> (string \<Rightarrow> bool) \<Rightarrow> string \<Rightarrow> string \<Rightarrow> (('c, 'd) terminal, string) cmd" where
  "injectBlock w denied path body tm =
     (if denied path then (Inl (ReadFileError path), tm)
      else case map_of (tm_files tm) path of
        None \<Rightarrow> andThen (writeFileMkdir w path (blockOf body @ newline)) (ret path) tm
      | Some s \<Rightarrow> andThen (writeText w path (injected s (blockOf body))) (ret path) tm)"

definition writeAgentSkill ::
    "('r, 'c, 'd) front \<Rightarrow> (string \<Rightarrow> bool) \<Rightarrow> string \<Rightarrow> string \<Rightarrow> string \<Rightarrow> (('c, 'd) terminal, string) cmd" where
  "writeAgentSkill w denied dir target body =
     (if target = ''claude'' then
        (let p = JoinPath [dir, ''.claude'', ''skills'', ''orcinus'', ''SKILL.md''] in
         andThen (writeFileMkdir w p (''---'' @ newline @ ''name: orcinus'' @ newline @
           ''description: Deploy docker-compose files and Kubernetes manifests to a cluster with the orcinus CLI. Use when the repo has '' @
           ''a docker-compose.yml / orcinus.yml, or the user asks to deploy, scale, expose, or manage a cluster.'' @ newline @
           ''---'' @ newline @ newline @ body @ newline)) (ret p))
      else if target = ''cursor'' then
        (let p = JoinPath [dir, ''.cursor'', ''rules'', ''orcinus.mdc''] in
         andThen (writeFileMkdir w p (''---'' @ newline @ ''description: Deploy with the orcinus CLI (docker-compose '' @ arrow @ '' Kubernetes)'' @
           newline @ ''alwaysApply: false'' @ newline @ ''---'' @ newline @ newline @ body @ newline)) (ret p))
      else if target = ''windsurf'' then injectBlock w denied (JoinPath [dir, ''.windsurfrules'']) body
      else if target = ''aider'' then injectBlock w denied (JoinPath [dir, ''CONVENTIONS.md'']) body
      else if target = ''generic'' then injectBlock w denied (JoinPath [dir, ''AGENTS.md'']) body
      else fail (UnknownName target))"

definition agentTargets :: "string \<Rightarrow> string list option" where
  "agentTargets agent =
     (if agent = ''all'' then Some [''claude'', ''cursor'', ''windsurf'', ''aider'', ''generic'']
      else if agent \<in> {''codex'', ''opencode'', ''generic''} then Some [''generic'']
      else if agent \<in> {''claude'', ''cursor'', ''windsurf'', ''aider''} then Some [agent]
      else None)"

fun writeSkills ::
    "('r, 'c, 'd) front \<Rightarrow> (string \<Rightarrow> bool) \<Rightarrow> string \<Rightarrow> string \<Rightarrow> string list \<Rightarrow> (('c, 'd) terminal, string list) cmd" where
  "writeSkills w denied dir body [] = ret []"
| "writeSkills w denied dir body (t # ts) = ebind (writeAgentSkill w denied dir t body) (\<lambda>p.
     ebind (writeSkills w denied dir body ts) (\<lambda>ps. ret (p # ps)))"

text \<open>The targets are a map in the code; \<open>order\<close> is the order its range happens to have.\<close>

definition skillsInitCmd ::
    "('r, 'c, 'd) front \<Rightarrow> (string \<Rightarrow> bool) \<Rightarrow> (string list \<Rightarrow> string list) \<Rightarrow> string \<Rightarrow> string \<Rightarrow> (('c, 'd) terminal, unit) cmd" where
  "skillsInitCmd w denied order agent dir = (case agentTargets agent of
     None \<Rightarrow> fail (UnknownName agent)
   | Some targets \<Rightarrow> ebind (writeSkills w denied dir (agentManifest (fr_cards w)) (order targets)) (\<lambda>written.
       andThen (each (\<lambda>p. say (''wrote '' @ p @ newline)) written)
         (say (newline @ ''For tool-calling agents (Claude Desktop, Codex, opencode, Cursor, '' @ ellipsis @ '') run an MCP'' @ newline @
           ''server instead: `orcinus mcp` (see `orcinus mcp --help` for the config snippet).'' @ newline))))"

section \<open>Occurrences\<close>

definition occurs :: "string \<Rightarrow> string \<Rightarrow> nat \<Rightarrow> bool" where
  "occurs s t k \<longleftrightarrow> HasPrefix (drop k s) t"

lemma occurs_Cons [simp]: "occurs (c # s) t (Suc k) \<longleftrightarrow> occurs s t k" "occurs s t 0 \<longleftrightarrow> HasPrefix s t"
  by (simp_all add: occurs_def)

lemma occurs_Nil [simp]: "t \<noteq> [] \<Longrightarrow> \<not> occurs [] t k"
  by (simp add: occurs_def HasPrefix_def)

lemma Index_first: "t \<noteq> [] \<Longrightarrow> Index s t = Some i \<longleftrightarrow> occurs s t i \<and> (\<forall>k<i. \<not> occurs s t k)"
proof (induction s arbitrary: i)
  case (Cons c s)
  then show ?case by (cases i) (auto simp: All_less_Suc2)
qed simp

lemma all_nat_cases: "(\<forall>k. P k) \<longleftrightarrow> P 0 \<and> (\<forall>k. P (Suc k))"
  by (metis not0_implies_Suc)

lemma Index_absent: "t \<noteq> [] \<Longrightarrow> Index s t = None \<longleftrightarrow> (\<forall>k. \<not> occurs s t k)"
proof (induction s)
  case (Cons c s)
  then show ?case by (subst all_nat_cases) auto
qed simp

text \<open>Whether a word occurs at a place depends on the text up to its last character only.\<close>

lemma occurs_front: "k + length t \<le> length x \<Longrightarrow> occurs (x @ y) t k \<longleftrightarrow> occurs x t k"
  by (simp add: occurs_def HasPrefix_def)

lemma occurs_shift: "occurs (x @ y) t (length x + k) \<longleftrightarrow> occurs y t k"
  by (simp add: occurs_def)

lemma occurs_length:
  assumes "occurs s t k" and "t \<noteq> []"
  shows "k + length t \<le> length s"
proof -
  from assms(1) obtain r where "drop k s = t @ r" by (auto simp: occurs_def HasPrefix_iff)
  then have "length s - k = length t + length r" by (metis length_append length_drop)
  moreover have "0 < length t" using assms(2) by simp
  ultimately show ?thesis by linarith
qed

text \<open>A word without a line break does not reach over one.\<close>

lemma occurs_line:
  assumes "\<forall>k. \<not> occurs x t k" and "CHR 0x0A \<notin> set t" and "k \<le> length x"
  shows "\<not> occurs (x @ newline @ y) t k"
proof
  let ?z = "x @ newline @ y" and ?m = "length x - k"
  assume o: "occurs ?z t k"
  then have m: "?m < length t" using assms(1,3) occurs_front [of k t x "newline @ y"] by fastforce
  have "take (length t) (drop k ?z) = t" using o by (simp add: occurs_def HasPrefix_def)
  then have "t ! ?m = drop k ?z ! ?m" using m by (metis nth_take)
  also have "\<dots> = CHR 0x0A" using assms(3) by (simp add: newline_def nth_append)
  finally show False using m assms(2) by (metis nth_mem)
qed

section \<open>Replacing a block\<close>

lemma marker_facts [simp]:
  "blockBegin \<noteq> []" "blockEnd \<noteq> []" "CHR 0x0A \<notin> set blockBegin" "CHR 0x0A \<notin> set blockEnd"
  by (simp_all add: blockBegin_def blockEnd_def)

lemma marker_lengths: "length blockBegin = 22" "length blockEnd = 20"
  by (simp_all add: blockBegin_def blockEnd_def)

text \<open>The markers are in order, or there are none; a block has its own end as the first one in it.\<close>

definition wellMarked :: "string \<Rightarrow> bool" where
  "wellMarked s = (case (Index s blockBegin, Index s blockEnd) of (Some i, Some j) \<Rightarrow> i < j | (None, None) \<Rightarrow> True | _ \<Rightarrow> False)"

definition blockOk :: "string \<Rightarrow> bool" where
  "blockOk block \<longleftrightarrow> HasPrefix block blockBegin \<and> Index block blockEnd = Some (length block - length blockEnd)"

definition fresh :: "string \<Rightarrow> bool" where
  "fresh pre \<longleftrightarrow> (\<forall>k<length pre. \<not> occurs (pre @ blockBegin) blockBegin k \<and> \<not> occurs (pre @ blockBegin) blockEnd k)"

lemma freshD:
  assumes "fresh pre" and "k < length pre"
  shows "\<not> occurs (pre @ blockBegin @ x) blockBegin k" and "\<not> occurs (pre @ blockBegin @ x) blockEnd k"
proof -
  have "k + length blockBegin \<le> length (pre @ blockBegin)" "k + length blockEnd \<le> length (pre @ blockBegin)"
    using assms(2) by (auto simp: marker_lengths)
  then show "\<not> occurs (pre @ blockBegin @ x) blockBegin k" "\<not> occurs (pre @ blockBegin @ x) blockEnd k"
    using assms occurs_front [of k _ "pre @ blockBegin" x] by (auto simp: fresh_def)
qed

lemma Index_block:
  assumes "fresh pre" and "blockOk block"
  shows "Index (pre @ block @ post) blockBegin = Some (length pre)"
    and "Index (pre @ block @ post) blockEnd = Some (length pre + (length block - length blockEnd))"
    and "length blockEnd < length block"
proof -
  from assms(2) obtain x where x: "block = blockBegin @ x" by (auto simp: blockOk_def HasPrefix_iff)
  show len: "length blockEnd < length block" by (simp add: x marker_lengths)
  have o: "occurs block blockEnd (length block - length blockEnd)" "\<forall>k<length block - length blockEnd. \<not> occurs block blockEnd k"
    using assms(2) by (auto simp: blockOk_def Index_first)
  have z: "pre @ block @ post = pre @ blockBegin @ (x @ post)" by (simp add: x)
  show "Index (pre @ block @ post) blockBegin = Some (length pre)"
    using freshD(1) [OF assms(1)] by (simp add: Index_first z occurs_def)
  have "\<not> occurs (pre @ block @ post) blockEnd k" if k: "k < length pre + (length block - length blockEnd)" for k
  proof (cases "k < length pre")
    case True
    then show ?thesis using freshD(2) [OF assms(1)] by (simp add: z)
  next
    case False
    then obtain m where m: "k = length pre + m" using le_Suc_ex linorder_not_less by blast
    then have "m < length block - length blockEnd" using k by simp
    then have "\<not> occurs (block @ post) blockEnd m" using o(2) occurs_front [of m blockEnd block post] by simp
    then show ?thesis by (simp add: m occurs_shift)
  qed
  moreover have "occurs (pre @ block @ post) blockEnd (length pre + (length block - length blockEnd))"
    unfolding occurs_shift using o(1) len by (simp add: occurs_front)
  ultimately show "Index (pre @ block @ post) blockEnd = Some (length pre + (length block - length blockEnd))"
    by (simp add: Index_first)
qed

lemma injected_block:
  assumes "fresh pre" and "blockOk block"
  shows "injected (pre @ block @ post) block' = pre @ block' @ post"
proof -
  note len = Index_block(3) [OF assms]
  then have "length pre < length pre + (length block - length blockEnd)"
    "length pre + (length block - length blockEnd) + length blockEnd = length (pre @ block)" by simp_all
  moreover have "drop (length (pre @ block)) (pre @ block @ post) = post" by simp
  ultimately show ?thesis
    unfolding injected_def Index_block(1,2) [OF assms] by (simp only: option.case prod.case Let_def if_True) simp
qed

lemma occurs_nth: "occurs s t k \<Longrightarrow> m < length t \<Longrightarrow> s ! (k + m) = t ! m"
  unfolding occurs_def HasPrefix_def by (metis nth_drop nth_take nat_le_linear drop_all length_0_conv length_drop not_less0 take_Nil list.size(3))

lemma between_markers:
  assumes "occurs s blockBegin i" and "occurs s blockEnd j" and "i < j"
  shows "\<exists>old. s = take i s @ old @ drop (j + length blockEnd) s \<and> HasPrefix old blockBegin \<and> HasSuffix old blockEnd"
proof -
  have gap: "i + length blockBegin \<le> j + length blockEnd"
  proof (rule ccontr)
    assume "\<not> ?thesis"
    then have "j = i + 1" using assms(3) by (simp add: marker_lengths)
    then have "s ! j = blockBegin ! 1" "s ! j = blockEnd ! 0"
      using occurs_nth [OF assms(1), of 1] occurs_nth [OF assms(2), of 0] by (simp_all add: marker_lengths)
    then show False by (simp add: blockBegin_def blockEnd_def)
  qed
  let ?n = "j + length blockEnd"
  let ?old = "take (?n - i) (drop i s)"
  have le: "?n \<le> length s" using occurs_length [OF assms(2)] by simp
  have "drop ?n s = drop (?n - i) (drop i s)" using assms(3) by simp
  then have "s = take i s @ ?old @ drop ?n s" by (metis append_take_drop_id)
  moreover have "length blockBegin \<le> ?n - i" using gap by simp
  then have "HasPrefix ?old blockBegin" using assms(1) by (simp add: occurs_def HasPrefix_def min_def)
  moreover have len: "length ?old = ?n - i" using le by simp
  have "drop (length ?old - length blockEnd) ?old = take (length blockEnd) (drop j s)"
    unfolding len using assms(3) by (simp add: drop_take)
  then have "HasSuffix ?old blockEnd" using assms(2,3) len by (simp add: occurs_def HasPrefix_def HasSuffix_def)
  ultimately show ?thesis by blast
qed

lemma fresh_lines:
  assumes "\<forall>k. \<not> occurs s blockBegin k" and "\<forall>k. \<not> occurs s blockEnd k"
  shows "fresh (endLine s @ newline)"
proof -
  have none: "\<forall>k<length (endLine s @ newline). \<not> occurs ((endLine s @ newline) @ blockBegin) t k"
    if t: "\<forall>k. \<not> occurs s t k" "CHR 0x0A \<notin> set t" "t \<noteq> []" for t
  proof (cases "HasSuffix s newline")
    case True
    then show ?thesis using occurs_line [OF t(1,2), of _ blockBegin] by (simp add: endLine_def newline_def)
  next
    case False
    have "\<not> occurs (s @ newline) t k" for k
    proof (cases "k \<le> length s")
      case True
      then show ?thesis using occurs_line [OF t(1,2) True, of "[]"] by simp
    next
      case False
      then show ?thesis using occurs_length [of "s @ newline" t k] t(3) by (cases t) (auto simp: newline_def)
    qed
    then have "\<forall>k. \<not> occurs (s @ newline) t k" by blast
    from occurs_line [OF this t(2), of _ blockBegin] False show ?thesis by (simp add: endLine_def newline_def)
  qed
  show ?thesis using none [OF assms(1)] none [OF assms(2)] by (simp add: fresh_def)
qed

lemma injected_shape:
  assumes "wellMarked s"
  obtains pre post where "fresh pre" and "\<And>block. injected s block = pre @ block @ post"
    and "(\<exists>old. s = pre @ old @ post \<and> HasPrefix old blockBegin \<and> HasSuffix old blockEnd) \<or> (pre = endLine s @ newline \<and> post = newline)"
proof (cases "Index s blockBegin")
  case (Some i)
  then obtain j where j: "Index s blockEnd = Some j" "i < j" using assms by (auto simp: wellMarked_def split: option.splits)
  from Some have bi: "occurs s blockBegin i" "\<forall>k<i. \<not> occurs s blockBegin k" by (simp_all add: Index_first)
  from j have ej: "occurs s blockEnd j" "\<forall>k<j. \<not> occurs s blockEnd k" by (simp_all add: Index_first)
  from bi(1) obtain r where r: "drop i s = blockBegin @ r" by (auto simp: occurs_def HasPrefix_iff)
  have i: "i \<le> length s" using occurs_length [OF bi(1)] by simp
  have s: "s = take i s @ blockBegin @ r" using r by (metis append_take_drop_id)
  let ?pre = "take i s"
  have "fresh ?pre"
    unfolding fresh_def
  proof (intro allI impI)
    fix k
    assume k: "k < length ?pre"
    then have "k + length blockBegin \<le> length (?pre @ blockBegin)" "k + length blockEnd \<le> length (?pre @ blockBegin)"
      by (auto simp: marker_lengths)
    then have "occurs (?pre @ blockBegin) blockBegin k = occurs s blockBegin k" "occurs (?pre @ blockBegin) blockEnd k = occurs s blockEnd k"
      using s occurs_front [of k _ "?pre @ blockBegin" r] by (metis append_assoc)+
    then show "\<not> occurs (?pre @ blockBegin) blockBegin k \<and> \<not> occurs (?pre @ blockBegin) blockEnd k"
      using k i bi(2) ej(2) j(2) by auto
  qed
  moreover have "injected s block = ?pre @ block @ drop (j + length blockEnd) s" for block
    using Some j by (simp add: injected_def)
  moreover have "\<exists>old. s = ?pre @ old @ drop (j + length blockEnd) s \<and> HasPrefix old blockBegin \<and> HasSuffix old blockEnd"
    using between_markers [OF bi(1) ej(1) j(2)] .
  ultimately show thesis using that by blast
next
  case None
  then have "Index s blockEnd = None" using assms by (auto simp: wellMarked_def split: option.splits)
  with None have no: "\<forall>k. \<not> occurs s blockBegin k" "\<forall>k. \<not> occurs s blockEnd k" by (simp_all add: Index_absent)
  have "fresh (endLine s @ newline)" using fresh_lines no by blast
  moreover have "injected s block = (endLine s @ newline) @ block @ newline" for block
    using None by (simp add: injected_def)
  ultimately show thesis using that by blast
qed

text \<open>
  \<^verbatim>\<open>injectBlock\<close> keeps one block up to date in a file it shares: after a run, a second run with the same or another body leaves
  the file as if only the second had been run, so repeating a run changes nothing; and around the block is what was around the old
  block, or the whole old text if there was none. It is so for a file without markers or with the first end marker after the first
  begin marker.
\<close>

theorem injectBlock_replaces:
  assumes "injectBlock w denied path body tm = (Inr p, tm1)" and "map_of (tm_files tm) path = Some s" and "wellMarked s"
    and "blockOk (blockOf body)"
  shows "\<exists>pre post. map_of (tm_files tm1) path = Some (pre @ blockOf body @ post) \<and>
    ((\<exists>old. s = pre @ old @ post \<and> HasPrefix old blockBegin \<and> HasSuffix old blockEnd) \<or> (pre = endLine s @ newline \<and> post = newline)) \<and>
    (\<forall>body'. fst (injectBlock w denied path body' tm1) = Inr path \<and>
       map_of (tm_files (snd (injectBlock w denied path body' tm1))) path = Some (pre @ blockOf body' @ post) \<and>
       map_of (tm_files (snd (injectBlock w denied path body' tm))) path = Some (pre @ blockOf body' @ post))"
proof -
  from assms(1,2) have run: "\<not> denied path" "h_write (pe_host w) path"
    "tm1 = tm\<lparr>tm_files := AList.update path (injected s (blockOf body)) (tm_files tm)\<rparr>"
    by (auto simp: injectBlock_def writeText_def andThen_def ebind_def split: if_splits)
  from injected_shape [OF assms(3)] obtain pre post where pre: "fresh pre" "\<And>block. injected s block = pre @ block @ post"
    "(\<exists>old. s = pre @ old @ post \<and> HasPrefix old blockBegin \<and> HasSuffix old blockEnd) \<or> (pre = endLine s @ newline \<and> post = newline)"
    by blast
  have "injected (pre @ blockOf body @ post) block' = pre @ block' @ post" for block'
    by (rule injected_block [OF pre(1) assms(4)])
  then show ?thesis
    using run assms(2) pre(2,3) by (intro exI [of _ pre] exI [of _ post]) (simp add: injectBlock_def writeText_def andThen_def ebind_def)
qed

text \<open>An own line and a second run.\<close>

theorem injectBlock_replaces_witness:
  "let w = plain_front blank_kube (memory_client [] []) blank_reader;
       run = \<lambda>body. injectBlock w (\<lambda>_. False) ''AGENTS.md'' body;
       tm = (plain_terminal (sample_memory ''Deployment''))\<lparr>tm_files := [(''AGENTS.md'', ''Be brief.'')]\<rparr>;
       tm1 = snd (run ''one'' tm)
   in map_of (tm_files tm1) ''AGENTS.md'' = Some (''Be brief.'' @ newline @ newline @ blockOf ''one'' @ newline) \<and>
      map_of (tm_files (snd (run ''two'' tm1))) ''AGENTS.md'' = Some (''Be brief.'' @ newline @ newline @ blockOf ''two'' @ newline)"
proof -
  let ?w = "plain_front blank_kube (memory_client [] []) blank_reader"
  let ?tm = "(plain_terminal (sample_memory ''Deployment''))\<lparr>tm_files := [(''AGENTS.md'', ''Be brief.'')]\<rparr>"
  let ?run = "\<lambda>body. injectBlock ?w (\<lambda>_. False) ''AGENTS.md'' body"
  have host: "pe_host ?w = plain_host" by (simp add: plain_front_def world.extend_def plain_world_def penv.extend_def plain_penv_def)
  have old: "map_of (tm_files ?tm) ''AGENTS.md'' = Some ''Be brief.''" by simp
  have "fst (?run ''one'' ?tm) = Inr ''AGENTS.md''" by (simp add: injectBlock_def writeText_def andThen_def ebind_def host plain_host_def)
  then have run: "?run ''one'' ?tm = (Inr ''AGENTS.md'', snd (?run ''one'' ?tm))" by (metis prod.collapse)
  have ok: "wellMarked ''Be brief.''" "blockOk (blockOf ''one'')" by code_simp+
  have own: "endLine ''Be brief.'' @ newline = ''Be brief.'' @ newline @ newline"
    by code_simp
  from injectBlock_replaces [OF run old ok] obtain pre post where p: "map_of (tm_files (snd (?run ''one'' ?tm))) ''AGENTS.md'' = Some (pre @ blockOf ''one'' @ post)"
    "(\<exists>old. ''Be brief.'' = pre @ old @ post \<and> HasPrefix old blockBegin \<and> HasSuffix old blockEnd) \<or> (pre = endLine ''Be brief.'' @ newline \<and> post = newline)"
    "map_of (tm_files (snd (?run ''two'' (snd (?run ''one'' ?tm))))) ''AGENTS.md'' = Some (pre @ blockOf ''two'' @ post)" by blast
  have "\<not> (\<exists>old. ''Be brief.'' = pre @ old @ post \<and> HasPrefix old blockBegin \<and> HasSuffix old blockEnd)"
  proof
    assume "\<exists>old. ''Be brief.'' = pre @ old @ post \<and> HasPrefix old blockBegin \<and> HasSuffix old blockEnd"
    then obtain r where "''Be brief.'' = pre @ blockBegin @ r" by (auto simp: HasPrefix_iff)
    then have "length ''Be brief.'' = length pre + 22 + length r" by (simp only: length_append marker_lengths)
    then show False by simp
  qed
  then have "pre = ''Be brief.'' @ newline @ newline" "post = newline" using p(2) own(1) by auto
  then show ?thesis using p(1,3) by (simp add: Let_def)
qed

section \<open>Markers out of order\<close>

text \<open>
  A stray end marker before the block makes every run append another block; a stray begin marker makes the second run delete what
  is between it and the block.
\<close>

lemma injected_stray_end:
  "let s = blockEnd @ newline; once = injected s (blockOf ''x''); twice = injected once (blockOf ''x'')
   in length twice = length once + length (newline @ blockOf ''x'' @ newline)"
  by code_simp

lemma injected_stray_begin:
  "let s = blockBegin @ ''mine''; once = injected s (blockOf ''x'') in injected once (blockOf ''x'') = blockOf ''x'' @ newline"
  by code_simp

end
