(* ===== verification/Exec.thy ===== *)
theory Exec
  imports Console
begin

text \<open>
  \<^verbatim>\<open>orcinus exec\<close>: \<^verbatim>\<open>pkg/deploy/exec.go\<close>, which finds the pod and the container and starts the session, and \<^verbatim>\<open>pkg/cli/exec.go\<close>, which
  splits the arguments, prepares the terminal and passes the exit status on. Reading pods, the terminal and the session
  itself (RemoteCommand over websocket or SPDY) are arguments; an outcome keeps the status a command exited with.

  The theorems: the pod a session is started in, and its container; how the arguments are split.
\<close>

section \<open>Pods\<close>

record xpod = pod +
  xp_Annotations :: "string gomap"

record 'c pods =
  pa_list :: "'c \<Rightarrow> string \<Rightarrow> string \<Rightarrow> xpod list option"      \<comment> \<open>namespace, selector\<close>
  pa_get :: "'c \<Rightarrow> string \<Rightarrow> string \<Rightarrow> xpod lookup"

record ExecOptions =
  ex_Target :: string
  ex_Pod :: string
  ex_Project :: string
  ex_Namespace :: string
  ex_Container :: string
  ex_Command :: "string list"
  ex_TTY :: bool
  ex_Stdin :: bool                 \<comment> \<open>the streams that are attached\<close>
  ex_Stdout :: bool
  ex_Stderr :: bool

definition execNamespace :: "ExecOptions \<Rightarrow> string" where
  "execNamespace opts = (if ex_Namespace opts = [] then ''default'' else ex_Namespace opts)"

definition execSelector :: "string \<Rightarrow> string \<Rightarrow> string" where
  "execSelector target project = managedSelector @ '','' @ serviceLabel @ ''='' @ target @
     (if project \<noteq> [] then '','' @ LabelProject @ ''='' @ project else [])"

definition labelOf :: "('a) pod_scheme \<Rightarrow> string \<Rightarrow> string" where
  "labelOf p k = (case map_of (pd_Labels p) k of Some v \<Rightarrow> v | None \<Rightarrow> [])"

text \<open>The notes to the user come next to the result.\<close>

definition runningPods :: "xpod list \<Rightarrow> xpod list" where
  "runningPods items = filter (\<lambda>p. \<not> pd_Deleting p \<and> pd_Phase p = ''Running'') items"

definition pickRunning :: "string \<Rightarrow> xpod list \<Rightarrow> (error + xpod) \<times> string list" where
  "pickRunning target items =
     (let sorted = sort_key pd_Name items in
      case runningPods sorted of
        [] \<Rightarrow> (Inl (NotRunning (target @ '' ('' @ Orcinus_Prelude.Join (map (\<lambda>p. pd_Name p @ '': '' @ podStatus (pod.truncate p)) sorted) '', '' @ '')'')), [])
      | [p] \<Rightarrow> (Inr p, [])
      | p # q # ps \<Rightarrow> (Inr p, [''service '' @ Quote target @ '' has '' @ Itoa (int (length (p # q # ps))) @ '' running pods; using '' @ pd_Name p @
          '' (pin one with --pod)'']))"

definition resolveExecPod :: "'c pods \<Rightarrow> 'c \<Rightarrow> ExecOptions \<Rightarrow> (error + xpod) \<times> string list" where
  "resolveExecPod api c opts =
     (let namespace = execNamespace opts; project = ex_Project opts; target = ex_Target opts in
      if ex_Pod opts \<noteq> [] then
        (case pa_get api c namespace (ex_Pod opts) of
           Found p \<Rightarrow> (Inr p, []) | NotFound \<Rightarrow> (Inl (UnknownName (ex_Pod opts)), []) | Failed e \<Rightarrow> (Inl (ApiError e), []))
      else if target = [] then (Inl (Missing ''service or pod''), [])
      else case pa_list api c namespace (execSelector target project) of
        None \<Rightarrow> (Inl (ApiError ''pods''), [])
      | Some [] \<Rightarrow>
          (case pa_get api c namespace target of
             Found p \<Rightarrow> if project = [] \<or> labelOf p LabelProject = project then (Inr p, []) else (Inl (UnknownName target), [])
           | NotFound \<Rightarrow> (Inl (UnknownName target), [])
           | Failed e \<Rightarrow> (Inl (ApiError e), []))
      | Some items \<Rightarrow> pickRunning target items)"

section \<open>Container and session\<close>

definition defaultContainerAnnotation :: string where
  "defaultContainerAnnotation = ''kubectl.kubernetes.io/default-container''"

definition firstContainer :: "xpod \<Rightarrow> string \<Rightarrow> string list \<Rightarrow> (error + string) \<times> string list" where
  "firstContainer p n ns = (Inr n, if ns = [] then [] else
     [''pod '' @ Quote (pd_Name p) @ '' has '' @ Itoa (int (length (n # ns))) @ '' containers; using '' @ n @ '' (pick one with -c)''])"

definition pickExecContainer :: "xpod \<Rightarrow> string \<Rightarrow> (error + string) \<times> string list" where
  "pickExecContainer p want =
     (case pd_Containers p of
        [] \<Rightarrow> (Inl (Missing (pd_Name p)), [])
      | n # ns \<Rightarrow>
          if want \<noteq> [] then (if want \<in> set (n # ns) then (Inr want, []) else (Inl (UnknownName want), []))
          else (case map_of (xp_Annotations p) defaultContainerAnnotation of
              Some hinted \<Rightarrow> if hinted \<noteq> [] \<and> hinted \<in> set (n # ns) then (Inr hinted, []) else firstContainer p n ns
            | None \<Rightarrow> firstContainer p n ns))"

record session =
  xs_Namespace :: string
  xs_Pod :: string
  xs_Container :: string
  xs_Command :: "string list"
  xs_Stdin :: bool
  xs_Stdout :: bool
  xs_Stderr :: bool
  xs_TTY :: bool

definition sessionOf :: "ExecOptions \<Rightarrow> xpod \<Rightarrow> string \<Rightarrow> session" where
  "sessionOf opts p container =
     \<lparr>xs_Namespace = pd_Namespace p, xs_Pod = pd_Name p, xs_Container = container, xs_Command = ex_Command opts, xs_Stdin = ex_Stdin opts,
      xs_Stdout = ex_Stdout opts, xs_Stderr = ex_Stderr opts \<and> \<not> ex_TTY opts, xs_TTY = ex_TTY opts\<rparr>"

text \<open>The session \<^verbatim>\<open>Exec\<close> starts, with the notes given on the way. An applier always has its configuration.\<close>

definition execSession :: "'c pods \<Rightarrow> 'c \<Rightarrow> ExecOptions \<Rightarrow> (error + session) \<times> string list" where
  "execSession api c opts =
     (if ex_Command opts = [] then (Inl (Missing ''command''), [])
      else if ex_TTY opts \<and> \<not> ex_Stdin opts then (Inl (Missing ''stdin''), [])
      else case resolveExecPod api c opts of
        (Inl e, notes) \<Rightarrow> (Inl e, notes)
      | (Inr p, notes) \<Rightarrow> (case pickExecContainer p (ex_Container opts) of
          (Inl e, notes') \<Rightarrow> (Inl e, notes @ notes')
        | (Inr container, notes') \<Rightarrow> (Inr (sessionOf opts p container), notes @ notes')))"

text \<open>A session that could be set up ends with the status of the command, or breaks off.\<close>

datatype execError = Orcinus error | ExitStatus int

type_synonym 'c streams = "session \<Rightarrow> 'c \<Rightarrow> execError option \<times> 'c"

section \<open>The command\<close>

definition splitExecArgs :: "int \<Rightarrow> string list \<Rightarrow> string \<Rightarrow> error + string \<times> string list" where
  "splitExecArgs atDash args pod =
     (let split = (if atDash < 0 then min (if pod \<noteq> [] then 0 else 1) (length args) else nat atDash);
          targets = take split args; command = drop split args in
      if pod \<noteq> [] \<and> targets \<noteq> [] then Inl (Excluded (hd targets) pod)
      else if pod = [] \<and> targets = [] then Inl (Missing ''service'')
      else if 1 < length targets then Inl (Excluded (hd targets) (Orcinus_Prelude.Join (tl targets) '' ''))
      else if command = [] then Inl (Missing ''command'')
      else case targets of [t] \<Rightarrow> Inr (t, command) | _ \<Rightarrow> Inr ([], command))"

text \<open>The window sizes reported to the remote terminal: the polls up to the end of the session, the last size reported.\<close>

definition uint16 :: "int \<Rightarrow> int" where
  "uint16 n = n mod 2 ^ 16"

fun sizeNext :: "int \<times> int \<Rightarrow> (int \<times> int) option list \<Rightarrow> (int \<times> int) option \<times> (int \<times> int) option list" where
  "sizeNext recent [] = (None, [])"
| "sizeNext recent (poll # polls) = (case poll of
     Some (w, h) \<Rightarrow> if 0 < w \<and> 0 < h \<and> (uint16 w, uint16 h) \<noteq> recent then (Some (uint16 w, uint16 h), polls) else sizeNext recent polls
   | None \<Rightarrow> sizeNext recent polls)"

definition exitCodeOf :: "execError option \<Rightarrow> int" where
  "exitCodeOf e = (case e of Some (ExitStatus n) \<Rightarrow> if 0 < n then n else 0 | _ \<Rightarrow> 0)"

definition ExitCode :: "execError option \<Rightarrow> int" where
  "ExitCode e = (if e = None then 0 else if 0 < exitCodeOf e then exitCodeOf e else 1)"

text \<open>Standard input is a terminal or not, and raw mode can be entered or not.\<close>

record console =
  co_isTerminal :: bool
  co_raw :: bool

definition execOptions :: "string \<Rightarrow> string \<Rightarrow> string \<Rightarrow> string \<Rightarrow> string \<Rightarrow> string list \<Rightarrow> bool \<Rightarrow> bool \<Rightarrow> ExecOptions" where
  "execOptions target pod project namespace container command stdin tty =
     \<lparr>ex_Target = target, ex_Pod = pod, ex_Project = project, ex_Namespace = namespace, ex_Container = container, ex_Command = command,
      ex_TTY = tty, ex_Stdin = stdin \<or> tty, ex_Stdout = True, ex_Stderr = True\<rparr>"

text \<open>Inside raw mode a note ends with a carriage return and a line feed.\<close>

definition notifyEOL :: "bool \<Rightarrow> string" where
  "notifyEOL tty = (if tty then [CHR 0x0D, CHR 0x0A] else newline)"

definition runSession :: "'c pods \<Rightarrow> 'c streams \<Rightarrow> ExecOptions \<Rightarrow> (('c, 'd) system, execError option \<times> string list) cmd" where
  "runSession api streams opts = onManager (onCluster (\<lambda>c. case execSession api c opts of
     (Inl e, notes) \<Rightarrow> (Inr (Some (Orcinus e), notes), c)
   | (Inr s, notes) \<Rightarrow> (case streams s c of (res, c) \<Rightarrow> (Inr (res, notes), c))))"

definition execCmd ::
    "('r, 'c, 'd) front \<Rightarrow> 'c pods \<Rightarrow> 'c streams \<Rightarrow> console \<Rightarrow> string \<Rightarrow> string \<Rightarrow> string \<Rightarrow> string \<Rightarrow> string \<Rightarrow> bool \<Rightarrow> bool \<Rightarrow>
     int \<Rightarrow> string list \<Rightarrow> (('c, 'd) terminal, execError option) cmd" where
  "execCmd w api streams console kubeconfig namespace project container pod stdin tty atDash args =
     ebind (lift (splitExecArgs atDash args pod)) (\<lambda>(target, command).
     andThen (applierFor w kubeconfig (\<lambda>kb. ret ()))
     (if tty \<and> \<not> co_isTerminal console then fail (Missing ''terminal'')
      else if tty \<and> \<not> co_raw console then fail (CmdError ''raw mode'')
      else ebind (onSystem (runSession api streams (execOptions target pod project namespace container command stdin tty))) (\<lambda>(res, notes).
        andThen (each (\<lambda>n. warn (n @ notifyEOL tty)) notes) (ret res))))"

section \<open>The arguments\<close>

text \<open>
  \<^verbatim>\<open>splitExecArgs\<close> loses no argument and reads none twice: it succeeds exactly if there is a command and, in front of it, the one
  service, or nothing if \<^verbatim>\<open>--pod\<close> names the target; where \<^verbatim>\<open>--\<close> was given it stands between the two.
\<close>

theorem splitExecArgs_spec:
  assumes "atDash \<le> int (length args)"
  shows "splitExecArgs atDash args pod = Inr (target, command) \<longleftrightarrow>
    command \<noteq> [] \<and> args = (if pod = [] then [target] else []) @ command \<and> (pod \<noteq> [] \<longrightarrow> target = []) \<and>
    (0 \<le> atDash \<longrightarrow> atDash = (if pod = [] then 1 else 0))"
proof (cases args)
  case Nil
  then show ?thesis using assms by (auto simp: splitExecArgs_def Let_def split: if_splits)
next
  case (Cons a as)
  show ?thesis
  proof (cases "atDash < 0")
    case True
    then show ?thesis by (auto simp: splitExecArgs_def Let_def Cons)
  next
    case False
    then obtain n where n: "atDash = int n" by (metis linorder_not_less nonneg_int_cases)
    consider "n = 0" | "n = 1" | m where "n = Suc (Suc m)" by (metis One_nat_def not0_implies_Suc)
    then show ?thesis
    proof cases
      case 3
      then obtain b bs where "as = b # bs" using assms n Cons by (cases as) auto
      then show ?thesis by (auto simp: splitExecArgs_def Let_def Cons n 3)
    qed (auto simp: splitExecArgs_def Let_def Cons n)
  qed
qed

theorem splitExecArgs_spec_witness:
  "splitExecArgs 1 [''web'', ''sh'', ''-c''] [] = Inr (''web'', [''sh'', ''-c''])"
proof -
  have "(1::int) \<le> int (length [''web'', ''sh'', ''-c''])" by simp
  from splitExecArgs_spec [OF this, of "[]"] show ?thesis by simp
qed

section \<open>The pod\<close>

text \<open>A text that can be the value of a label; a target that cannot would read as more of the selector.\<close>

definition labelText :: "string \<Rightarrow> bool" where
  "labelText s \<longleftrightarrow> list_all (\<lambda>c. let n = (of_char c :: nat) in
     c \<in> {CHR ''-'', CHR ''.'', CHR ''_''} \<or> 97 \<le> n \<and> n \<le> 122 \<or> 65 \<le> n \<and> n \<le> 90 \<or> 48 \<le> n \<and> n \<le> 57) s"

text \<open>Listing by a selector gives pods that match it; getting a pod gives the one of the name.\<close>

definition pods_ok :: "'c pods \<Rightarrow> bool" where
  "pods_ok api \<longleftrightarrow>
     (\<forall>c ns target project ps p. labelText target \<longrightarrow> labelText project \<longrightarrow>
        pa_list api c ns (execSelector target project) = Some ps \<longrightarrow> p \<in> set ps \<longrightarrow>
        pd_Namespace p = ns \<and> map_of (pd_Labels p) LabelManagedBy = Some ManagedByValue \<and> map_of (pd_Labels p) serviceLabel = Some target \<and>
        (project \<noteq> [] \<longrightarrow> map_of (pd_Labels p) LabelProject = Some project)) \<and>
     (\<forall>c ns n p. pa_get api c ns n = Found p \<longrightarrow> pd_Namespace p = ns \<and> pd_Name p = n)"

lemma pickRunning_Inr:
  assumes "pickRunning target items = (Inr p, notes)"
  shows "p \<in> set items \<and> \<not> pd_Deleting p \<and> pd_Phase p = ''Running''"
proof -
  have "p \<in> set (runningPods (sort_key pd_Name items))"
    using assms by (cases "runningPods (sort_key pd_Name items)") (auto simp: pickRunning_def Let_def split: list.splits)
  then show ?thesis by (simp add: runningPods_def)
qed

lemma pickExecContainer_Inr:
  "pickExecContainer p want = (Inr container, notes) \<Longrightarrow> container \<in> set (pd_Containers p) \<and> (want \<noteq> [] \<longrightarrow> container = want)"
  by (auto simp: pickExecContainer_def firstContainer_def split: list.splits if_splits option.splits)

text \<open>The pod a session may be started in, named exactly or one of the service.\<close>

definition meant :: "'c pods \<Rightarrow> 'c \<Rightarrow> ExecOptions \<Rightarrow> xpod \<Rightarrow> bool" where
  "meant api c opts p \<longleftrightarrow> pd_Namespace p = execNamespace opts \<and>
     (if ex_Pod opts \<noteq> [] then pd_Name p = ex_Pod opts
      else (ex_Project opts \<noteq> [] \<longrightarrow> labelOf p LabelProject = ex_Project opts) \<and>
        (case pa_list api c (execNamespace opts) (execSelector (ex_Target opts) (ex_Project opts)) of
           None \<Rightarrow> False
         | Some [] \<Rightarrow> pd_Name p = ex_Target opts
         | Some items \<Rightarrow> p \<in> set items \<and> map_of (pd_Labels p) LabelManagedBy = Some ManagedByValue \<and>
             labelOf p serviceLabel = ex_Target opts \<and> \<not> pd_Deleting p \<and> pd_Phase p = ''Running''))"

lemma resolveExecPod_meant:
  assumes "pods_ok api" and "labelText (ex_Target opts)" and "labelText (ex_Project opts)"
    and "resolveExecPod api c opts = (Inr p, notes)"
  shows "meant api c opts p"
proof -
  have got: "pd_Namespace q = ns \<and> pd_Name q = n" if "pa_get api c ns n = Found q" for ns n q
    using assms(1) that unfolding pods_ok_def by blast
  let ?list = "pa_list api c (execNamespace opts) (execSelector (ex_Target opts) (ex_Project opts))"
  have listed: "pd_Namespace q = execNamespace opts \<and> map_of (pd_Labels q) LabelManagedBy = Some ManagedByValue \<and>
      labelOf q serviceLabel = ex_Target opts \<and> (ex_Project opts \<noteq> [] \<longrightarrow> labelOf q LabelProject = ex_Project opts)"
    if "?list = Some ps" "q \<in> set ps" for ps q
    using assms(1-3) that unfolding pods_ok_def labelOf_def by fastforce
  show ?thesis
  proof (cases "ex_Pod opts = []")
    case False
    then show ?thesis using assms(4) got by (auto simp: resolveExecPod_def meant_def Let_def split: lookup.splits)
  next
    case True
    show ?thesis
    proof (cases ?list)
      case None
      then show ?thesis using assms(4) True by (auto simp: resolveExecPod_def Let_def split: if_splits)
    next
      case (Some items)
      show ?thesis
      proof (cases items)
        case Nil
        then show ?thesis using assms(4) True Some got by (auto simp: resolveExecPod_def meant_def Let_def split: if_splits lookup.splits)
      next
        case (Cons i rest)
        then have "pickRunning (ex_Target opts) items = (Inr p, notes)"
          using assms(4) True Some by (auto simp: resolveExecPod_def Let_def split: if_splits)
        from pickRunning_Inr [OF this] show ?thesis using listed [OF Some] True Some Cons by (auto simp: meant_def)
      qed
    qed
  qed
qed

text \<open>
  C14: \<^verbatim>\<open>Exec\<close> starts its session where it was asked to: in the pod named with \<^verbatim>\<open>--pod\<close>; or else, if orcinus manages pods for the service,
  in one of them that is running and not being deleted; or else in the pod of that name; always in the namespace and, if one is given and no pod is
  pinned, of the project. The container is one of the pod, the one asked for if any, and standard error is not a stream of its own on a terminal.
\<close>

theorem execSession_meant:
  assumes "pods_ok api" and "labelText (ex_Target opts)" and "labelText (ex_Project opts)"
    and "execSession api c opts = (Inr s, notes)"
  shows "\<exists>p. meant api c opts p \<and> xs_Pod s = pd_Name p \<and> xs_Namespace s = pd_Namespace p \<and> xs_Container s \<in> set (pd_Containers p) \<and>
    (ex_Container opts \<noteq> [] \<longrightarrow> xs_Container s = ex_Container opts) \<and> xs_Command s = ex_Command opts \<and> xs_Command s \<noteq> [] \<and>
    (xs_TTY s \<longrightarrow> xs_Stdin s \<and> \<not> xs_Stderr s)"
proof -
  from assms(4) obtain p n1 container n2 where run: "resolveExecPod api c opts = (Inr p, n1)"
    "pickExecContainer p (ex_Container opts) = (Inr container, n2)" "s = sessionOf opts p container"
    and opts: "ex_Command opts \<noteq> []" "ex_TTY opts \<longrightarrow> ex_Stdin opts"
    by (auto simp: execSession_def split: if_splits prod.splits sum.splits)
  from resolveExecPod_meant [OF assms(1-3) run(1)] pickExecContainer_Inr [OF run(2)] opts run(3) show ?thesis
    by (intro exI [of _ p]) (simp add: sessionOf_def)
qed

text \<open>Two pods of a service, the first of which is going away.\<close>

definition webPod :: "string \<Rightarrow> bool \<Rightarrow> xpod" where
  "webPod name deleting = \<lparr>pd_Name = name, pd_Namespace = ''prod'',
     pd_Labels = [(LabelManagedBy, ManagedByValue), (serviceLabel, ''web'')], pd_Deleting = deleting, pd_ContainerStatuses = [],
     pd_Containers = [''app'', ''proxy''], pd_Reason = [], pd_Phase = ''Running'', pd_NodeName = [], xp_Annotations = []\<rparr>"

definition webPods :: "unit pods" where
  "webPods = \<lparr>pa_list = (\<lambda>_ ns sel. if ns = ''prod'' \<and> sel = execSelector ''web'' [] then Some [webPod ''web-1'' True, webPod ''web-2'' False] else None),
     pa_get = (\<lambda>_ _ _. NotFound)\<rparr>"

lemma execSelector_web: "execSelector t p = execSelector ''web'' [] \<Longrightarrow> labelText t \<Longrightarrow> t = ''web'' \<and> p = []"
proof -
  assume eq: "execSelector t p = execSelector ''web'' []" and ok: "labelText t"
  have eq: "t @ (if p \<noteq> [] then '','' @ LabelProject @ ''='' @ p else []) = ''web''" using eq by (simp add: execSelector_def)
  have "p = []"
  proof (rule ccontr)
    assume "p \<noteq> []"
    then have "length (t @ '','' @ LabelProject @ ''='' @ p) = length ''web''" using eq by simp
    then show False by (simp add: LabelProject_def)
  qed
  then show "t = ''web'' \<and> p = []" using eq by simp
qed

lemma webPods_ok: "pods_ok webPods"
proof -
  have "pd_Namespace p = ns \<and> map_of (pd_Labels p) LabelManagedBy = Some ManagedByValue \<and> map_of (pd_Labels p) serviceLabel = Some target \<and>
        (project \<noteq> [] \<longrightarrow> map_of (pd_Labels p) LabelProject = Some project)"
    if ok: "labelText target" and got: "pa_list webPods c ns (execSelector target project) = Some ps" and p: "p \<in> set ps"
    for c ns target project ps p
  proof -
    from got have ns: "ns = ''prod''" and sel: "execSelector target project = execSelector ''web'' []"
      and ps: "ps = [webPod ''web-1'' True, webPod ''web-2'' False]" by (simp_all add: webPods_def split: if_splits)
    have "LabelManagedBy \<noteq> serviceLabel" by (simp add: LabelManagedBy_def serviceLabel_def)
    then show ?thesis using execSelector_web [OF sel ok] p unfolding ns ps by (auto simp: webPod_def)
  qed
  moreover have "pa_get webPods c ns n \<noteq> Found p" for c ns n p by (simp add: webPods_def)
  ultimately show ?thesis unfolding pods_ok_def by blast
qed

theorem execSession_meant_witness:
  "\<exists>s notes p. execSession webPods () (execOptions ''web'' [] [] ''prod'' ''proxy'' [''sh''] False True) = (Inr s, notes) \<and>
     meant webPods () (execOptions ''web'' [] [] ''prod'' ''proxy'' [''sh''] False True) p \<and> pd_Name p = ''web-2'' \<and>
     xs_Pod s = ''web-2'' \<and> xs_Container s = ''proxy'' \<and> \<not> xs_Stderr s"
proof -
  let ?opts = "execOptions ''web'' [] [] ''prod'' ''proxy'' [''sh''] False True"
  have "(case execSession webPods () ?opts of (Inr s, _) \<Rightarrow> xs_Pod s = ''web-2'' \<and> xs_TTY s | (Inl _, _) \<Rightarrow> False)" by code_simp
  then obtain s told where run: "execSession webPods () ?opts = (Inr s, told)" and s: "xs_Pod s = ''web-2''" "xs_TTY s"
    by (auto split: prod.splits sum.splits)
  have "labelText (ex_Target ?opts)" "labelText (ex_Project ?opts)" by code_simp+
  from execSession_meant [OF webPods_ok this run] s run show ?thesis by (auto simp: execOptions_def)
qed

end
