(* ===== verification/Describe.thy ===== *)
theory Describe
  imports Exec
begin

text \<open>
  \<^verbatim>\<open>orcinus describe\<close>: \<^verbatim>\<open>pkg/deploy/describe.go\<close> and \<^verbatim>\<open>pkg/cli/describe.go\<close>. The text of a pod, a service's workloads, a project and a node,
  with its events, laid out by \<open>Tab_Writer\<close> with a padding of two. The reads are the record \<open>describer\<close>; times are nanoseconds
  since 1970, formatted by an argument; a quantity and a label selector come as their library formats them.

  The theorems: the commands change nothing; what is printed of a map does not depend on the order a Go map is iterated in;
  events come oldest first.
\<close>

section \<open>Live objects\<close>

record valueSource =
  vs_SecretKeyRef :: "(string \<times> string) option"       \<comment> \<open>name and key\<close>
  vs_ConfigMapKeyRef :: "(string \<times> string) option"
  vs_FieldRef :: "string option"

record dContainer =
  dc_Name :: string
  dc_Image :: string
  dc_Ports :: "(int \<times> string) list"
  dc_Command :: "string list"
  dc_Args :: "string list"
  dc_Limits :: "string gomap"
  dc_Requests :: "string gomap"
  dc_Env :: "(string \<times> string \<times> valueSource option) list"
  dc_VolumeMounts :: "volumeMount list"

record dVolume =
  dv_Name :: string
  dv_Claim :: "string option"
  dv_ConfigMap :: "string option"
  dv_Secret :: "string option"
  dv_EmptyDir :: bool
  dv_HostPath :: "string option"

record dStatus = containerStatus +
  ds_ContainerID :: string
  ds_ImageID :: string
  ds_Running :: "int option"
  ds_Terminated :: "(string \<times> int) option"

record toleration =
  tl_Key :: string
  tl_Value :: string
  tl_Effect :: string
  tl_Operator :: string

record dPod =
  dp_Name :: string
  dp_Namespace :: string
  dp_UID :: string
  dp_Labels :: "string gomap"
  dp_Annotations :: "string gomap"
  dp_Deleting :: bool
  dp_PriorityClassName :: string
  dp_NodeName :: string
  dp_StartTime :: "int option"
  dp_Phase :: string
  dp_Reason :: string
  dp_Message :: string
  dp_PodIP :: string
  dp_PodIPs :: "string list"
  dp_Owners :: "(string \<times> string \<times> bool) list"       \<comment> \<open>kind, name, whether the controller\<close>
  dp_Containers :: "dContainer list"
  dp_Statuses :: "dStatus list"
  dp_Conditions :: "(string \<times> string) list"
  dp_Volumes :: "dVolume list"
  dp_QOSClass :: string
  dp_NodeSelector :: "string gomap"
  dp_Tolerations :: "toleration list"

record dEvent =
  de_Type :: string
  de_Reason :: string
  de_Component :: string
  de_Message :: string
  de_LastTimestamp :: int
  de_EventTime :: int
  de_FirstTimestamp :: int

record dTemplate =
  dt_Labels :: "string gomap"
  dt_Containers :: "dContainer list"
  dt_Volumes :: "dVolume list"

record dDeployment =
  dd_Name :: string
  dd_Namespace :: string
  dd_UID :: string
  dd_Created :: int
  dd_Labels :: "string gomap"
  dd_Annotations :: "string gomap"
  dd_Selector :: string
  dd_Replicas :: "int option"
  dd_Updated :: int
  dd_Total :: int
  dd_Available :: int
  dd_Unavailable :: int
  dd_Ready :: int
  dd_Strategy :: string
  dd_MinReadySeconds :: int
  dd_RollingUpdate :: "(string option \<times> string option) option"   \<comment> \<open>max unavailable, max surge\<close>
  dd_Template :: dTemplate
  dd_Conditions :: "(string \<times> string \<times> string) list"

record dStatefulSet =
  dx_Name :: string
  dx_Namespace :: string
  dx_UID :: string
  dx_Created :: int
  dx_Labels :: "string gomap"
  dx_Annotations :: "string gomap"
  dx_Selector :: string
  dx_ServiceName :: string
  dx_Replicas :: "int option"
  dx_Ready :: int
  dx_Current :: int
  dx_Updated :: int
  dx_UpdateStrategy :: string
  dx_Template :: dTemplate

record dNode =
  dn_Name :: string
  dn_UID :: string
  dn_Labels :: "string gomap"
  dn_Annotations :: "string gomap"
  dn_Created :: int
  dn_Taints :: "(string \<times> string \<times> string) list"        \<comment> \<open>key, value, effect\<close>
  dn_Unschedulable :: bool
  dn_Conditions :: "(string \<times> string \<times> string \<times> string) list"
  dn_Addresses :: "(string \<times> string) list"
  dn_Capacity :: "string gomap"
  dn_Allocatable :: "string gomap"
  dn_Info :: "string list"          \<comment> \<open>architecture, operating system, image, kernel, runtime, kubelet\<close>

record 'c describer =
  dr_pod :: "'c \<Rightarrow> string \<Rightarrow> string \<Rightarrow> dPod option"
  dr_events :: "'c \<Rightarrow> string \<Rightarrow> string \<Rightarrow> string \<Rightarrow> dEvent list option"      \<comment> \<open>namespace, UID, name\<close>
  dr_deployments :: "'c \<Rightarrow> string \<Rightarrow> string \<Rightarrow> dDeployment list option"
  dr_statefulsets :: "'c \<Rightarrow> string \<Rightarrow> string \<Rightarrow> dStatefulSet list option"
  dr_node :: "'c \<Rightarrow> string \<Rightarrow> dNode option"
  dr_now :: "'c \<Rightarrow> int"
  dr_format :: "int \<Rightarrow> string"            \<comment> \<open>\<^verbatim>\<open>time.RFC1123Z\<close>\<close>

section \<open>Helpers\<close>

definition orNone :: "string \<Rightarrow> string" where
  "orNone s = (if s = [] then ''<none>'' else s)"

definition replicasOf :: "int option \<Rightarrow> int" where
  "replicasOf r = (case r of None \<Rightarrow> 0 | Some n \<Rightarrow> n)"

definition underneath :: string where
  "underneath = newline @ [tabChar]"

definition describeMap :: "string gomap \<Rightarrow> string" where
  "describeMap m = (if m = [] then ''<none>''
     else Orcinus_Prelude.Join (map (\<lambda>k. k @ ''='' @ (case map_of m k of Some v \<Rightarrow> v | None \<Rightarrow> [])) (sort (map fst m))) underneath)"

definition describeTolerations :: "toleration list \<Rightarrow> string" where
  "describeTolerations tols = (if tols = [] then ''<none>''
     else Orcinus_Prelude.Join (map (\<lambda>t. let s = tl_Key t @ (if tl_Value t \<noteq> [] then ''='' @ tl_Value t else []) @
          (if tl_Effect t \<noteq> [] then '':'' @ tl_Effect t else []) in if s = [] then tl_Operator t else s) tols) underneath)"

definition nodeTaints :: "(string \<times> string \<times> string) list \<Rightarrow> string" where
  "nodeTaints taints = (if taints = [] then ''<none>''
     else Orcinus_Prelude.Join (map (\<lambda>(k, v, effect). k @ (if v \<noteq> [] then ''='' @ v else []) @ '':'' @ effect) taints) underneath)"

definition containerStateText :: "(int \<Rightarrow> string) \<Rightarrow> dStatus \<Rightarrow> string" where
  "containerStateText fmt s = (case ds_Running s of
     Some t \<Rightarrow> ''Running (started '' @ fmt t @ '')''
   | None \<Rightarrow> (case cs_WaitingReason s of
       Some r \<Rightarrow> if r \<noteq> [] then ''Waiting ('' @ r @ '')'' else ''Waiting''
     | None \<Rightarrow> (case ds_Terminated s of
         Some (r, code) \<Rightarrow> ''Terminated ('' @ r @ '', exit '' @ Itoa code @ '')''
       | None \<Rightarrow> ''Unknown'')))"

definition zeroTime :: int where
  "zeroTime = - 62135596800000000000"

definition eventTime :: "dEvent \<Rightarrow> int" where
  "eventTime e = (if de_LastTimestamp e \<noteq> zeroTime then de_LastTimestamp e
     else if de_EventTime e \<noteq> zeroTime then de_EventTime e else de_FirstTimestamp e)"

text \<open>
  A duration is at most what 64 bits hold; the conversion to a number of units, done in floating point, is taken to be exact and
  cuts towards zero.
\<close>

definition cutTo :: "int \<Rightarrow> int \<Rightarrow> int" where
  "cutTo u d = (if d < 0 then - ((- d) div u) else d div u)"

definition timeUnit :: "nat \<Rightarrow> int" where
  "timeUnit seconds = int seconds * 1000000000"

definition translateTimestampSince :: "int \<Rightarrow> int \<Rightarrow> string" where
  "translateTimestampSince now t =
     (let d = max int64_min (min int64_max (now - t)) in
      if d < timeUnit 60 then Itoa (cutTo (timeUnit 1) d) @ ''s''
      else if d < timeUnit 3600 then Itoa (cutTo (timeUnit 60) d) @ ''m''
      else if d < timeUnit 86400 then Itoa (cutTo (timeUnit 3600) d) @ ''h''
      else Itoa (cutTo (timeUnit 86400) d) @ ''d'')"

definition eventAge :: "int \<Rightarrow> dEvent \<Rightarrow> string" where
  "eventAge now e = (if eventTime e = zeroTime then ''<unknown>'' else translateTimestampSince now (eventTime e))"

definition objectEvents :: "'c describer \<Rightarrow> 'c \<Rightarrow> string \<Rightarrow> string \<Rightarrow> string \<Rightarrow> dEvent list option" where
  "objectEvents dr c namespace uid name = map_option (sort_key eventTime) (dr_events dr c namespace uid name)"

text \<open>Events are best-effort.\<close>

definition eventsOf :: "'c describer \<Rightarrow> 'c \<Rightarrow> string \<Rightarrow> string \<Rightarrow> string \<Rightarrow> dEvent list" where
  "eventsOf dr c namespace uid name = (case objectEvents dr c namespace uid name of Some es \<Rightarrow> es | None \<Rightarrow> [])"

section \<open>Parts of a description\<close>

definition describeResources :: "dContainer \<Rightarrow> string" where
  "describeResources r =
     (let rows = \<lambda>m. concat (map (\<lambda>k. tabRow [''      '' @ k @ '':'', case map_of m k of Some q \<Rightarrow> q | None \<Rightarrow> []]) (sort (map fst m))) in
      (if dc_Limits r \<noteq> [] then tabRow [''    Limits:''] @ rows (dc_Limits r) else []) @
      (if dc_Requests r \<noteq> [] then tabRow [''    Requests:''] @ rows (dc_Requests r) else []))"

definition squote :: "string \<Rightarrow> string" where
  "squote s = CHR 0x27 # s @ [CHR 0x27]"

definition envText :: "string \<times> string \<times> valueSource option \<Rightarrow> string" where
  "envText e = (case e of (name, val, source) \<Rightarrow>
     (case source of
        None \<Rightarrow> val
      | Some vs \<Rightarrow>
          (case vs_SecretKeyRef vs of Some (n, k) \<Rightarrow> ''<set to the key '' @ squote k @ '' in secret '' @ squote n @ ''>''
           | None \<Rightarrow> (case vs_ConfigMapKeyRef vs of Some (n, k) \<Rightarrow> ''<set to the key '' @ squote k @ '' of config map '' @ squote n @ ''>''
           | None \<Rightarrow> (case vs_FieldRef vs of Some path \<Rightarrow> ''('' @ path @ '')'' | None \<Rightarrow> val)))))"

definition describeEnv :: "(string \<times> string \<times> valueSource option) list \<Rightarrow> string" where
  "describeEnv env = (if env = [] then tabRow [''    Environment:'', ''<none>'']
     else tabRow [''    Environment:''] @ concat (map (\<lambda>e. tabRow [''      '' @ fst e @ '':'', envText e]) env))"

definition describeMounts :: "volumeMount list \<Rightarrow> string" where
  "describeMounts mounts = (if mounts = [] then tabRow [''    Mounts:'', ''<none>'']
     else tabRow [''    Mounts:''] @ concat (map (\<lambda>m. tabRow [''      '' @ volumeMount.mt_MountPath m @ '' from '' @ volumeMount.mt_Name m @ '' ('' @
       (if volumeMount.mt_ReadOnly m then ''ro'' else ''rw'') @ '')'']) mounts))"

definition containerStatusOf :: "dStatus list \<Rightarrow> string \<Rightarrow> dStatus option" where
  "containerStatusOf statuses name = find (\<lambda>s. cs_Name s = name) statuses"

definition describeContainer :: "(int \<Rightarrow> string) \<Rightarrow> dContainer \<Rightarrow> dStatus option \<Rightarrow> string" where
  "describeContainer fmt c cs =
     tabRow [''  '' @ dc_Name c @ '':''] @
     (case cs of None \<Rightarrow> [] | Some s \<Rightarrow> tabRow [''    Container ID:'', orNone (ds_ContainerID s)]) @
     tabRow [''    Image:'', dc_Image c] @
     (case cs of None \<Rightarrow> [] | Some s \<Rightarrow> tabRow [''    Image ID:'', orNone (ds_ImageID s)]) @
     (if dc_Ports c \<noteq> [] then tabRow [''    Ports:'', Orcinus_Prelude.Join (map (\<lambda>(port, proto). Itoa port @ ''/'' @ proto) (dc_Ports c)) '', ''] else []) @
     (let cmd = Orcinus_Prelude.Join (dc_Command c) '' '' in if cmd \<noteq> [] then tabRow [''    Command:'', cmd] else []) @
     (let arg = Orcinus_Prelude.Join (dc_Args c) '' '' in if arg \<noteq> [] then tabRow [''    Args:'', arg] else []) @
     (case cs of None \<Rightarrow> [] | Some s \<Rightarrow> tabRow [''    State:'', containerStateText fmt s] @ tabRow [''    Ready:'', boolText (cs_Ready s)] @
        tabRow [''    Restart Count:'', Itoa (cs_RestartCount s)]) @
     describeResources c @ describeEnv (dc_Env c) @ describeMounts (dc_VolumeMounts c)"

definition volumeText :: "dVolume \<Rightarrow> string" where
  "volumeText v = (let kind = \<lambda>k. tabRow [''    Type:'', k] in
     case dv_Claim v of Some n \<Rightarrow> kind ''PersistentVolumeClaim'' @ tabRow [''    ClaimName:'', n] | None \<Rightarrow>
     case dv_ConfigMap v of Some n \<Rightarrow> kind ''ConfigMap'' @ tabRow [''    Name:'', n] | None \<Rightarrow>
     case dv_Secret v of Some n \<Rightarrow> kind ''Secret'' @ tabRow [''    SecretName:'', n] | None \<Rightarrow>
     if dv_EmptyDir v then kind ''EmptyDir'' else
     case dv_HostPath v of Some p \<Rightarrow> kind ''HostPath'' @ tabRow [''    Path:'', p] | None \<Rightarrow> kind ''<other>'')"

definition describeVolumes :: "dVolume list \<Rightarrow> string" where
  "describeVolumes volumes = (if volumes = [] then []
     else tabRow [''Volumes:''] @ concat (map (\<lambda>v. tabRow [''  '' @ dv_Name v @ '':''] @ volumeText v) volumes))"

definition describeEvents :: "int \<Rightarrow> dEvent list \<Rightarrow> string" where
  "describeEvents now events = (if events = [] then tabRow [''Events:'', ''<none>'']
     else tabRow [''Events:''] @ tabRow [''  Type'', ''Reason'', ''Age'', ''From'', ''Message''] @
       tabRow [''  ----'', ''------'', ''----'', ''----'', ''-------''] @
       concat (map (\<lambda>e. tabRow [''  '' @ orNone (de_Type e), de_Reason e, eventAge now e, de_Component e, TrimSpace (de_Message e)]) events))"

section \<open>Whole objects\<close>

definition flush2 :: "string \<Rightarrow> string" where
  "flush2 text = tabwriter 2 text"

definition plainPod :: "dPod \<Rightarrow> pod" where
  "plainPod p = \<lparr>pd_Name = dp_Name p, pd_Namespace = dp_Namespace p, pd_Labels = dp_Labels p, pd_Deleting = dp_Deleting p,
     pd_ContainerStatuses = map containerStatus.truncate (dp_Statuses p), pd_Containers = map dc_Name (dp_Containers p),
     pd_Reason = dp_Reason p, pd_Phase = dp_Phase p, pd_NodeName = dp_NodeName p\<rparr>"

text \<open>\<^verbatim>\<open>metav1.GetControllerOf\<close>: the first owner that is marked as the controller.\<close>

definition controllerOf :: "dPod \<Rightarrow> (string \<times> string) option" where
  "controllerOf p = map_option (\<lambda>(k, n, _). (k, n)) (find (\<lambda>(k, n, c). c) (dp_Owners p))"

definition renderPod :: "(int \<Rightarrow> string) \<Rightarrow> int \<Rightarrow> dPod \<Rightarrow> dEvent list \<Rightarrow> string" where
  "renderPod fmt now p events = flush2 (
     tabRow [''Name:'', dp_Name p] @ tabRow [''Namespace:'', dp_Namespace p] @
     (if dp_PriorityClassName p \<noteq> [] then tabRow [''Priority Class Name:'', dp_PriorityClassName p] else []) @
     tabRow [''Node:'', orNone (dp_NodeName p)] @
     (case dp_StartTime p of Some t \<Rightarrow> tabRow [''Start Time:'', fmt t] | None \<Rightarrow> []) @
     tabRow [''Labels:'', describeMap (dp_Labels p)] @ tabRow [''Annotations:'', describeMap (dp_Annotations p)] @
     tabRow [''Status:'', podStatus (plainPod p)] @
     (if dp_Reason p \<noteq> [] then tabRow [''Reason:'', dp_Reason p] else []) @
     (if dp_Message p \<noteq> [] then tabRow [''Message:'', dp_Message p] else []) @
     tabRow [''IP:'', orNone (dp_PodIP p)] @
     (if dp_PodIPs p \<noteq> [] then tabRow [''IPs:'', Orcinus_Prelude.Join (dp_PodIPs p) '', ''] else []) @
     (case controllerOf p of Some (k, n) \<Rightarrow> tabRow [''Controlled By:'', k @ ''/'' @ n] | None \<Rightarrow> []) @
     tabRow [''Containers:''] @
     concat (map (\<lambda>c. describeContainer fmt c (containerStatusOf (dp_Statuses p) (dc_Name c))) (dp_Containers p)) @
     tabRow [''Conditions:''] @ tabRow [''  Type'', ''Status''] @
     concat (map (\<lambda>(typ, status). tabRow [''  '' @ typ, status]) (dp_Conditions p)) @
     describeVolumes (dp_Volumes p) @
     (if dp_QOSClass p \<noteq> [] then tabRow [''QoS Class:'', dp_QOSClass p] else []) @
     tabRow [''Node-Selectors:'', describeMap (dp_NodeSelector p)] @
     tabRow [''Tolerations:'', describeTolerations (dp_Tolerations p)] @
     describeEvents now events)"

definition renderPodTemplate :: "(int \<Rightarrow> string) \<Rightarrow> dTemplate \<Rightarrow> string" where
  "renderPodTemplate fmt tpl =
     tabRow [''Pod Template:''] @ tabRow [''  Labels:'', describeMap (dt_Labels tpl)] @ tabRow [''  Containers:''] @
     concat (map (\<lambda>c. describeContainer fmt c None) (dt_Containers tpl)) @
     (if dt_Volumes tpl \<noteq> [] then describeVolumes (dt_Volumes tpl) else [])"

definition renderWorkloadConditions :: "(string \<times> string \<times> string) list \<Rightarrow> string" where
  "renderWorkloadConditions conds = (if conds = [] then []
     else tabRow [''Conditions:''] @ tabRow [''  Type'', ''Status'', ''Reason''] @
       concat (map (\<lambda>(typ, status, reason). tabRow [''  '' @ typ, status, orNone reason]) conds))"

definition orNil :: "string option \<Rightarrow> string" where
  "orNil v = (case v of Some s \<Rightarrow> s | None \<Rightarrow> ''<nil>'')"

definition renderDeployment :: "(int \<Rightarrow> string) \<Rightarrow> int \<Rightarrow> dDeployment \<Rightarrow> dEvent list \<Rightarrow> string" where
  "renderDeployment fmt now d events = flush2 (
     tabRow [''Name:'', dd_Name d] @ tabRow [''Namespace:'', dd_Namespace d] @ tabRow [''CreationTimestamp:'', fmt (dd_Created d)] @
     tabRow [''Labels:'', describeMap (dd_Labels d)] @ tabRow [''Annotations:'', describeMap (dd_Annotations d)] @
     tabRow [''Selector:'', dd_Selector d] @
     tabRow [''Replicas:'', Itoa (replicasOf (dd_Replicas d)) @ '' desired | '' @ Itoa (dd_Updated d) @ '' updated | '' @ Itoa (dd_Total d) @
       '' total | '' @ Itoa (dd_Available d) @ '' available | '' @ Itoa (dd_Unavailable d) @ '' unavailable''] @
     tabRow [''StrategyType:'', dd_Strategy d] @
     (if 0 < dd_MinReadySeconds d then tabRow [''MinReadySeconds:'', Itoa (dd_MinReadySeconds d)] else []) @
     (case dd_RollingUpdate d of Some (mu, ms) \<Rightarrow>
        tabRow [''RollingUpdateStrategy:'', orNil mu @ '' max unavailable, '' @ orNil ms @ '' max surge''] | None \<Rightarrow> []) @
     renderPodTemplate fmt (dd_Template d) @ renderWorkloadConditions (dd_Conditions d) @ describeEvents now events)"

definition renderStatefulSet :: "(int \<Rightarrow> string) \<Rightarrow> int \<Rightarrow> dStatefulSet \<Rightarrow> dEvent list \<Rightarrow> string" where
  "renderStatefulSet fmt now s events = flush2 (
     tabRow [''Name:'', dx_Name s] @ tabRow [''Namespace:'', dx_Namespace s] @ tabRow [''CreationTimestamp:'', fmt (dx_Created s)] @
     tabRow [''Labels:'', describeMap (dx_Labels s)] @ tabRow [''Annotations:'', describeMap (dx_Annotations s)] @
     tabRow [''Selector:'', dx_Selector s] @ tabRow [''Service Name:'', dx_ServiceName s] @
     tabRow [''Replicas:'', Itoa (replicasOf (dx_Replicas s)) @ '' desired | '' @ Itoa (dx_Ready s) @ '' ready | '' @ Itoa (dx_Current s) @
       '' current | '' @ Itoa (dx_Updated s) @ '' updated''] @
     tabRow [''Update Strategy:'', dx_UpdateStrategy s] @
     renderPodTemplate fmt (dx_Template s) @ describeEvents now events)"

definition resourceRows :: "string gomap \<Rightarrow> string" where
  "resourceRows rl = concat (map (\<lambda>k. tabRow [''  '' @ k @ '':'', case map_of rl k of Some q \<Rightarrow> q | None \<Rightarrow> []]) (sort (map fst rl)))"

definition dNodeRoles :: "dNode \<Rightarrow> string" where
  "dNodeRoles n = nodeRoles \<lparr>nd_Name = dn_Name n, nd_Labels = dn_Labels n, nd_Conditions = [], nd_KubeletVersion = []\<rparr>"

definition systemInfo :: "string list" where
  "systemInfo = [''Architecture'', ''Operating System'', ''OS Image'', ''Kernel Version'', ''Container Runtime'', ''Kubelet Version'']"

definition renderNode :: "(int \<Rightarrow> string) \<Rightarrow> int \<Rightarrow> dNode \<Rightarrow> dEvent list \<Rightarrow> string" where
  "renderNode fmt now n events = flush2 (
     tabRow [''Name:'', dn_Name n] @ tabRow [''Roles:'', dNodeRoles n] @ tabRow [''Labels:'', describeMap (dn_Labels n)] @
     tabRow [''Annotations:'', describeMap (dn_Annotations n)] @ tabRow [''CreationTimestamp:'', fmt (dn_Created n)] @
     tabRow [''Taints:'', nodeTaints (dn_Taints n)] @ tabRow [''Unschedulable:'', boolText (dn_Unschedulable n)] @
     tabRow [''Conditions:''] @ tabRow [''  Type'', ''Status'', ''Reason'', ''Message''] @
     concat (map (\<lambda>(typ, status, reason, msg). tabRow [''  '' @ typ, status, orNone reason, TrimSpace msg]) (dn_Conditions n)) @
     tabRow [''Addresses:''] @ concat (map (\<lambda>(typ, addr). tabRow [''  '' @ typ @ '':'', addr]) (dn_Addresses n)) @
     tabRow [''Capacity:''] @ resourceRows (dn_Capacity n) @ tabRow [''Allocatable:''] @ resourceRows (dn_Allocatable n) @
     tabRow [''System Info:''] @ concat (map (\<lambda>(k, v). tabRow [''  '' @ k @ '':'', v]) (zip systemInfo (dn_Info n))) @
     describeEvents now events)"

section \<open>The operations\<close>

text \<open>A text that comes with an error was written before the error was met.\<close>

definition DescribePod :: "'c describer \<Rightarrow> 'c \<Rightarrow> string \<Rightarrow> string \<Rightarrow> error + string" where
  "DescribePod dr c name namespace0 =
     (let namespace = (if namespace0 = [] then ''default'' else namespace0) in
      if name = [] then Inl (Missing ''pod name'')
      else case dr_pod dr c namespace name of
        None \<Rightarrow> Inl (ApiError name)
      | Some p \<Rightarrow> Inr (renderPod (dr_format dr) (dr_now dr c) p (eventsOf dr c (dp_Namespace p) (dp_UID p) (dp_Name p))))"

definition serviceDescription :: "'c describer \<Rightarrow> 'c \<Rightarrow> dDeployment list \<Rightarrow> string" where
  "serviceDescription dr c deps =
     concat (map (\<lambda>d. renderDeployment (dr_format dr) (dr_now dr c) d (eventsOf dr c (dd_Namespace d) (dd_UID d) (dd_Name d))) deps)"

definition DescribeService :: "'c describer \<Rightarrow> 'c \<Rightarrow> string \<Rightarrow> string \<Rightarrow> string \<Rightarrow> error + string" where
  "DescribeService dr c service project namespace0 =
     (let namespace = (if namespace0 = [] then ''default'' else namespace0); selector = execSelector service project in
      if service = [] then Inl (Missing ''service name'')
      else case dr_deployments dr c namespace selector of
        None \<Rightarrow> Inl (ApiError service)
      | Some deps \<Rightarrow>
          if deps \<noteq> [] then Inr (serviceDescription dr c deps)
          else (case dr_statefulsets dr c namespace selector of
            None \<Rightarrow> Inl (ApiError service)
          | Some sts \<Rightarrow>
              if sts \<noteq> [] then Inr (concat (map (\<lambda>s. renderStatefulSet (dr_format dr) (dr_now dr c) s
                (eventsOf dr c (dx_Namespace s) (dx_UID s) (dx_Name s))) sts))
              else Inl (NoWorkload service namespace)))"

definition labelIn :: "string gomap \<Rightarrow> string \<Rightarrow> string" where
  "labelIn m k = (case map_of m k of Some v \<Rightarrow> v | None \<Rightarrow> [])"

definition readyText :: "int \<Rightarrow> int option \<Rightarrow> string" where
  "readyText ready want = Itoa ready @ ''/'' @ Itoa (replicasOf want)"

definition projectText :: "string \<Rightarrow> string \<Rightarrow> dDeployment list \<Rightarrow> dStatefulSet list \<Rightarrow> PodInfo list \<Rightarrow> string" where
  "projectText project namespace deps sts pods = flush2 (
     tabRow [''Name:'', project] @ tabRow [''Namespace:'', if namespace = [] then ''(all)'' else namespace] @
     tabRow [''Managed By:'', ManagedByValue] @ tabRow [''Workloads:''] @
     (if deps = [] \<and> sts = [] then tabRow [''  <none>'']
      else tabRow [''  KIND'', ''SERVICE'', ''NAME'', ''READY''] @
        concat (map (\<lambda>d. tabRow [''  Deployment'', labelIn (dd_Labels d) serviceLabel, dd_Name d, readyText (dd_Ready d) (dd_Replicas d)]) deps) @
        concat (map (\<lambda>s. tabRow [''  StatefulSet'', labelIn (dx_Labels s) serviceLabel, dx_Name s, readyText (dx_Ready s) (dx_Replicas s)]) sts)) @
     tabRow [''Pods:''] @
     (if pods = [] then tabRow [''  <none>'']
      else tabRow [''  SERVICE'', ''POD'', ''READY'', ''STATUS'', ''RESTARTS'', ''NODE''] @
        concat (map (\<lambda>p. tabRow [''  '' @ pi_Service p, pi_Name p, pi_Ready p, pi_Status p, Itoa (pi_Restarts p), orNone (pi_Node p)]) pods)))"

definition DescribeProject :: "'c describer \<Rightarrow> 'c reader \<Rightarrow> 'c \<Rightarrow> string \<Rightarrow> string \<Rightarrow> error + string" where
  "DescribeProject dr rd c project namespace =
     (let selector = ownerSelector project in
      if project = [] then Inl (Missing ''project name'')
      else case dr_deployments dr c namespace selector of None \<Rightarrow> Inl (ApiError project) | Some deps \<Rightarrow>
      case dr_statefulsets dr c namespace selector of None \<Rightarrow> Inl (ApiError project) | Some sts \<Rightarrow>
      rbind (listPods rd c namespace selector) (\<lambda>pods.
        if deps = [] \<and> sts = [] \<and> pods = [] then Inl (Missing project) else Inr (projectText project namespace deps sts pods)))"

definition DescribeNode :: "'c describer \<Rightarrow> 'c \<Rightarrow> string \<Rightarrow> error + string" where
  "DescribeNode dr c name =
     (if name = [] then Inl (Missing ''node name'')
      else case dr_node dr c name of
        None \<Rightarrow> Inl (ApiError name)
      | Some n \<Rightarrow> Inr (renderNode (dr_format dr) (dr_now dr c) n (eventsOf dr c [] (dn_UID n) (dn_Name n))))"

section \<open>The commands\<close>

definition exactName :: "string \<Rightarrow> string list \<Rightarrow> error + string" where
  "exactName noun args = (case args of [] \<Rightarrow> Inl (Missing noun) | [a] \<Rightarrow> Inr a | _ \<Rightarrow> Inl (Excluded noun (Itoa (int (length args)))))"

datatype resource = ThePod string | TheService string string | TheProject string | TheNode

definition described :: "('r, 'c, 'd) front \<Rightarrow> 'c describer \<Rightarrow> resource \<Rightarrow> string \<Rightarrow> 'c \<Rightarrow> error + string" where
  "described w dr res name c = (case res of
     ThePod namespace \<Rightarrow> DescribePod dr c name namespace
   | TheService project namespace \<Rightarrow> DescribeService dr c name project namespace
   | TheProject namespace \<Rightarrow> DescribeProject dr (fr_reader w) c name namespace
   | TheNode \<Rightarrow> DescribeNode dr c name)"

definition noun :: "resource \<Rightarrow> string" where
  "noun res = (case res of ThePod _ \<Rightarrow> ''pod'' | TheService _ _ \<Rightarrow> ''service'' | TheProject _ \<Rightarrow> ''project'' | TheNode \<Rightarrow> ''node'')"

definition describeCmd :: "('r, 'c, 'd) front \<Rightarrow> 'c describer \<Rightarrow> string \<Rightarrow> resource \<Rightarrow> string list \<Rightarrow> (('c, 'd) terminal, unit) cmd" where
  "describeCmd w dr kubeconfig res args = ebind (lift (exactName (noun res) args)) (\<lambda>name.
     ebind (applierFor w kubeconfig (\<lambda>kb. look (described w dr res name))) say)"

section \<open>What they do\<close>

lemma describeCmd_keeps:
  assumes "discovery_ok w view"
  shows "keeps (same_view (behind (seen view ct))) (describeCmd w dr kubeconfig res args)"
  unfolding describeCmd_def using assms by (auto intro!: viewed.keeps_rules keeps_intros keeps_look)

text \<open>
  What is printed of a map is a function of the map: two lists of the same entries, whatever the order a Go map gives them in, are printed
  alike, with the keys in order.
\<close>

theorem describeMap_stable:
  assumes "gomap_ok m" and "gomap_ok m'" and "map_of m = map_of m'"
  shows "describeMap m = describeMap m'"
proof -
  have "set (map fst m) = set (map fst m')" using assms(3) by (metis dom_map_of_conv_image_fst list.set_map)
  moreover have "distinct (map fst m)" "distinct (map fst m')" using assms(1,2) by (simp_all add: gomap_ok_def)
  ultimately have "sort (map fst m) = sort (map fst m')" by (metis sorted_list_of_set_sort_remdups distinct_remdups_id)
  moreover have "m = [] \<longleftrightarrow> m' = []" using assms(3) by (metis map_of_eq_empty_iff)
  ultimately show ?thesis using assms(3) by (simp add: describeMap_def)
qed

theorem describeMap_stable_witness:
  "describeMap [(''b'', ''2''), (''a'', ''1'')] = describeMap [(''a'', ''1''), (''b'', ''2'')]"
  by (rule describeMap_stable) (auto simp: gomap_ok_def)

text \<open>Events come oldest first, and none is lost.\<close>

lemma objectEvents_sorted:
  "objectEvents dr c ns uid name = Some es \<Longrightarrow>
   sorted (map eventTime es) \<and> (\<exists>found. dr_events dr c ns uid name = Some found \<and> mset es = mset found)"
  by (auto simp: objectEvents_def)

text \<open>A container's variable that comes from a Secret shows where, not what: its own value is not printed.\<close>

lemma envText_secret:
  "vs_SecretKeyRef vs \<noteq> None \<Longrightarrow> envText (n, v, Some vs) = envText (n, v', Some vs)"
  by (auto simp: envText_def)

text \<open>A clock that runs behind the cluster's gives an age below zero.\<close>

lemma age_negative: "translateTimestampSince 0 (timeUnit 5) = ''-5s''"
  by code_simp

end
