(* ===== verification/Logs.thy ===== *)
theory Logs
  imports Exec
begin

text \<open>
  \<^verbatim>\<open>orcinus logs\<close>: \<^verbatim>\<open>StreamServiceLogs\<close> and \<^verbatim>\<open>streamOne\<close> of \<^verbatim>\<open>pkg/deploy/pods.go\<close>, and \<^verbatim>\<open>pkg/cli/logs.go\<close>. The log of a pod is
  an argument: the bytes until its stream ends and whether it ended well, or nothing when it cannot be opened.

  Without \<^verbatim>\<open>--follow\<close> the pods come one after the other. With it every pod has a goroutine; a line is printed under a lock, so a run is
  an interleaving of steps, each of which prints one line or ends one stream: the relation \<open>followStep\<close>. The theorem says what every run
  has printed, by an invariant of the reachable states.
\<close>

section \<open>One stream\<close>

text \<open>\<^verbatim>\<open>bufio.Scanner\<close> with lines of less than a mebibyte: the lines up to one that is too long, without the carriage return; an empty rest is no line.\<close>

definition maxLine :: int where
  "maxLine = 1048576"

definition textLines :: "string \<Rightarrow> string list" where
  "textLines text = (let segs = SplitChar lineChar text in if last segs = [] then butlast segs else segs)"

definition dropCR :: "string \<Rightarrow> string" where
  "dropCR l = (if l \<noteq> [] \<and> last l = CHR 0x0D then butlast l else l)"

definition fits :: "string \<Rightarrow> bool" where
  "fits l \<longleftrightarrow> int (length l) < maxLine"

definition scanText :: "string \<Rightarrow> bool \<Rightarrow> string list \<times> error option" where
  "scanText text ok = (let ls = textLines text in
     (map dropCR (takeWhile fits ls),
      if \<not> list_all fits ls then Some (CmdError ''token too long'') else if \<not> ok then Some (ApiError ''log stream'') else None))"

type_synonym 'c podLogs = "'c \<Rightarrow> string \<Rightarrow> string \<Rightarrow> (string \<times> bool) option"      \<comment> \<open>namespace, pod\<close>

definition logLine :: "bool \<Rightarrow> string \<Rightarrow> string \<Rightarrow> string" where
  "logLine prefix name l = (if prefix then ''['' @ name @ ''] '' @ l @ newline else l @ newline)"

text \<open>The lines a pod prints, and the error its stream ends with.\<close>

definition streamOne :: "'c podLogs \<Rightarrow> 'c \<Rightarrow> bool \<Rightarrow> PodInfo \<Rightarrow> string list \<times> error option" where
  "streamOne logs c prefix p = (case logs c (pi_Namespace p) (pi_Name p) of
     None \<Rightarrow> ([], Some (ApiError (pi_Name p)))
   | Some (text, ok) \<Rightarrow> (case scanText text ok of (ls, e) \<Rightarrow> (map (logLine prefix (pi_Name p)) ls, e)))"

definition firstError :: "error option \<Rightarrow> error option \<Rightarrow> error option" where
  "firstError e new = (if e = None then new else e)"

section \<open>All pods of a service\<close>

definition logStreams :: "'c reader \<Rightarrow> 'c podLogs \<Rightarrow> 'c \<Rightarrow> string \<Rightarrow> string \<Rightarrow> string \<Rightarrow> error + (string list \<times> error option) list" where
  "logStreams rd logs c service project namespace =
     (if service = [] then Inl (Missing ''service name'')
      else rbind (listPods rd c namespace (execSelector service project)) (\<lambda>pods.
        if pods = [] then Inl (Missing service)
        else Inr (map (streamOne logs c (1 < length pods)) pods)))"

definition inTurn :: "(string list \<times> error option) list \<Rightarrow> string \<times> error option" where
  "inTurn streams = foldl (\<lambda>(out, first) (ls, e). (out @ concat ls, firstError first e)) ([], None) streams"

definition logsCmd :: "('r, 'c, 'd) front \<Rightarrow> 'c podLogs \<Rightarrow> string \<Rightarrow> string \<Rightarrow> string \<Rightarrow> string \<Rightarrow> (('c, 'd) terminal, unit) cmd" where
  "logsCmd w logs kubeconfig project namespace service =
     ebind (applierFor w kubeconfig (\<lambda>kb. look (\<lambda>c. logStreams (fr_reader w) logs c service project namespace))) (\<lambda>streams.
       case inTurn streams of (text, first) \<Rightarrow> andThen (say text) (case first of None \<Rightarrow> ret () | Some e \<Rightarrow> fail e))"

text \<open>Following: what each goroutine has left to print, which ones are done, the lines printed so far with the pod they are of, the first error.\<close>

record follow =
  fo_left :: "string list list"
  fo_done :: "bool list"
  fo_out :: "(nat \<times> string) list"
  fo_err :: "error option"

definition followStart :: "(string list \<times> error option) list \<Rightarrow> follow" where
  "followStart streams = \<lparr>fo_left = map fst streams, fo_done = map (\<lambda>_. False) streams, fo_out = [], fo_err = None\<rparr>"

inductive followStep :: "(string list \<times> error option) list \<Rightarrow> follow \<Rightarrow> follow \<Rightarrow> bool" for streams where
  print: "i < length streams \<Longrightarrow> fo_left s ! i = l # ls \<Longrightarrow>
    followStep streams s (s\<lparr>fo_left := (fo_left s)[i := ls], fo_out := fo_out s @ [(i, l)]\<rparr>)"
| finish: "i < length streams \<Longrightarrow> fo_left s ! i = [] \<Longrightarrow> \<not> fo_done s ! i \<Longrightarrow>
    followStep streams s (s\<lparr>fo_done := (fo_done s)[i := True], fo_err := firstError (fo_err s) (snd (streams ! i))\<rparr>)"

inductive_cases followStepE: "followStep streams s t"

text \<open>The command returns when no goroutine has a step left.\<close>

definition finished :: "(string list \<times> error option) list \<Rightarrow> follow \<Rightarrow> bool" where
  "finished streams s \<longleftrightarrow> list_all (\<lambda>i. fo_left s ! i = [] \<and> fo_done s ! i) [0..<length streams]"

definition printedBy :: "nat \<Rightarrow> follow \<Rightarrow> string list" where
  "printedBy i s = map snd (filter (\<lambda>p. fst p = i) (fo_out s))"

section \<open>Every interleaving\<close>

definition following :: "(string list \<times> error option) list \<Rightarrow> follow \<Rightarrow> bool" where
  "following streams s \<longleftrightarrow>
     length (fo_left s) = length streams \<and> length (fo_done s) = length streams \<and>
     (\<forall>i<length streams. printedBy i s @ fo_left s ! i = fst (streams ! i)) \<and>
     (\<forall>i<length streams. fo_done s ! i \<longrightarrow> snd (streams ! i) \<noteq> None \<longrightarrow> fo_err s \<noteq> None) \<and>
     (fo_err s \<noteq> None \<longrightarrow> fo_err s \<in> snd ` set streams)"

lemma following_start: "following streams (followStart streams)"
  by (simp add: following_def followStart_def printedBy_def)

lemma following_step: "followStep streams s t \<Longrightarrow> following streams s \<Longrightarrow> following streams t"
proof (induction rule: followStep.induct)
  case (print i s l ls)
  then show ?case by (auto simp: following_def printedBy_def nth_list_update)
next
  case (finish i s)
  then show ?case by (auto simp: following_def printedBy_def firstError_def nth_list_update)
qed

lemma following_run: "(followStep streams)\<^sup>*\<^sup>* (followStart streams) s \<Longrightarrow> following streams s"
  by (induction rule: rtranclp_induct) (auto intro: following_start following_step)

definition followWork :: "(string list \<times> error option) list \<Rightarrow> follow \<Rightarrow> nat" where
  "followWork streams s = sum_list (map length (fo_left s)) + length (filter Not (fo_done s))"

lemma filter_Not_update: "i < length bs \<Longrightarrow> \<not> bs ! i \<Longrightarrow> Suc (length (filter Not (bs[i := True]))) = length (filter Not bs)"
  by (induction bs arbitrary: i) (auto split: nat.splits simp: less_Suc_eq_0_disj)

lemma sum_length_update:
  "i < length xs \<Longrightarrow> xs ! i = l # ls \<Longrightarrow> Suc (sum_list (map length (xs[i := ls]))) = sum_list (map length xs)"
  by (induction xs arbitrary: i) (auto split: nat.splits simp: less_Suc_eq_0_disj)

lemma followStep_work:
  assumes "followStep streams s t" and "following streams s"
  shows "Suc (followWork streams t) = followWork streams s"
  using assms
  by (cases rule: followStep.cases) (auto simp: followWork_def following_def filter_Not_update sum_length_update [symmetric])

lemma finished_stuck:
  assumes "following streams s"
  shows "finished streams s \<longleftrightarrow> \<not> (\<exists>t. followStep streams s t)"
proof
  assume "finished streams s"
  then show "\<not> (\<exists>t. followStep streams s t)" by (fastforce simp: finished_def list_all_iff elim: followStepE)
next
  assume stuck: "\<not> (\<exists>t. followStep streams s t)"
  have "fo_left s ! i = [] \<and> fo_done s ! i" if "i < length streams" for i
    using stuck that by (cases "fo_left s ! i") (blast intro: followStep.intros)+
  then show "finished streams s" by (simp add: finished_def list_all_iff)
qed

text \<open>
  C29: \<^verbatim>\<open>orcinus logs --follow\<close> prints, in whatever order its goroutines run, of every pod its lines in their order, none lost and none
  twice: at any time what is printed of a pod is a first part of them. It never blocks before all streams have ended: there is a next step
  until then, and no run is longer than the lines and streams there are. Then it returns no error exactly if no stream had one, and otherwise
  that of one of the streams.
\<close>

theorem follow_interleaves:
  assumes "(followStep streams)\<^sup>*\<^sup>* (followStart streams) s"
  shows "(\<forall>i<length streams. printedBy i s @ fo_left s ! i = fst (streams ! i)) \<and>
    (finished streams s \<longleftrightarrow> \<not> (\<exists>t. followStep streams s t)) \<and>
    length (fo_out s) + followWork streams s \<le> followWork streams (followStart streams) \<and>
    (finished streams s \<longrightarrow> (\<forall>i<length streams. printedBy i s = fst (streams ! i)) \<and>
       (fo_err s = None \<longleftrightarrow> list_all (\<lambda>st. snd st = None) streams) \<and> (fo_err s \<noteq> None \<longrightarrow> fo_err s \<in> snd ` set streams))"
proof -
  note inv = following_run [OF assms]
  have "length (fo_out s) + followWork streams s \<le> followWork streams (followStart streams)"
    using assms
  proof (induction rule: rtranclp_induct)
    case (step s t)
    have "length (fo_out t) \<le> Suc (length (fo_out s))" using step(2) by (auto elim: followStepE)
    with step.IH followStep_work [OF step(2) following_run [OF step(1)]] show ?case by linarith
  qed (simp add: followStart_def)
  moreover have "(\<forall>i<length streams. printedBy i s = fst (streams ! i)) \<and> (fo_err s = None \<longleftrightarrow> list_all (\<lambda>st. snd st = None) streams)"
    if "finished streams s"
  proof -
    have ended: "fo_left s ! i = [] \<and> fo_done s ! i" if "i < length streams" for i
      using \<open>finished streams s\<close> that by (simp add: finished_def list_all_iff)
    have errs: "\<forall>i<length streams. fo_done s ! i \<longrightarrow> snd (streams ! i) \<noteq> None \<longrightarrow> fo_err s \<noteq> None"
      "fo_err s \<noteq> None \<longrightarrow> fo_err s \<in> snd ` set streams" using inv by (simp_all add: following_def)
    have "fo_err s = None \<longleftrightarrow> list_all (\<lambda>st. snd st = None) streams"
    proof
      assume "fo_err s = None"
      then show "list_all (\<lambda>st. snd st = None) streams" using errs(1) ended by (auto simp: list_all_length)
    next
      assume "list_all (\<lambda>st. snd st = None) streams"
      then show "fo_err s = None" using errs(2) by (force simp: list_all_iff)
    qed
    then show ?thesis using inv ended by (simp add: following_def)
  qed
  moreover have "\<forall>i<length streams. printedBy i s @ fo_left s ! i = fst (streams ! i)"
    and "fo_err s \<noteq> None \<longrightarrow> fo_err s \<in> snd ` set streams" using inv by (simp_all add: following_def)
  ultimately show ?thesis using finished_stuck [OF inv] by blast
qed

text \<open>Two pods: the lines of the second come between those of the first, whose stream breaks off.\<close>

theorem follow_interleaves_witness:
  "let streams = [([''a1'', ''a2''], Some (ApiError ''log stream'')), ([''b1''], None)];
       s = \<lparr>fo_left = [[], []], fo_done = [True, True], fo_out = [(0, ''a1''), (1, ''b1''), (0, ''a2'')], fo_err = Some (ApiError ''log stream'')\<rparr>
   in (followStep streams)\<^sup>*\<^sup>* (followStart streams) s \<and> printedBy 0 s = [''a1'', ''a2''] \<and> \<not> (\<exists>t. followStep streams s t)"
proof -
  let ?e = "Some (ApiError ''log stream'')"
  let ?st = "[([''a1'', ''a2''], ?e), ([''b1''], None)]"
  let ?f = "\<lambda>l d out e. \<lparr>fo_left = l, fo_done = d, fo_out = out, fo_err = e\<rparr>"
  let ?o = "[(0, ''a1''), (1, ''b1''), (0, ''a2'')]"
  have steps: "followStep ?st (?f [[''a1'', ''a2''], [''b1'']] [False, False] [] None) (?f [[''a2''], [''b1'']] [False, False] [(0, ''a1'')] None)"
    "followStep ?st (?f [[''a2''], [''b1'']] [False, False] [(0, ''a1'')] None) (?f [[''a2''], []] [False, False] [(0, ''a1''), (1, ''b1'')] None)"
    "followStep ?st (?f [[''a2''], []] [False, False] [(0, ''a1''), (1, ''b1'')] None) (?f [[], []] [False, False] ?o None)"
    "followStep ?st (?f [[], []] [False, False] ?o None) (?f [[], []] [False, True] ?o None)"
    "followStep ?st (?f [[], []] [False, True] ?o None) (?f [[], []] [True, True] ?o ?e)"
    using followStep.print [of 0 ?st "?f [[''a1'', ''a2''], [''b1'']] [False, False] [] None" "''a1''" "[''a2'']"]
      followStep.print [of 1 ?st "?f [[''a2''], [''b1'']] [False, False] [(0, ''a1'')] None" "''b1''" "[]"]
      followStep.print [of 0 ?st "?f [[''a2''], []] [False, False] [(0, ''a1''), (1, ''b1'')] None" "''a2''" "[]"]
      followStep.finish [of 1 ?st "?f [[], []] [False, False] ?o None"] followStep.finish [of 0 ?st "?f [[], []] [False, True] ?o None"]
    by (simp_all add: firstError_def)
  have start: "followStart ?st = ?f [[''a1'', ''a2''], [''b1'']] [False, False] [] None" by (simp add: followStart_def)
  have run: "(followStep ?st)\<^sup>*\<^sup>* (followStart ?st) (?f [[], []] [True, True] ?o ?e)"
    unfolding start by (rule converse_rtranclp_into_rtranclp, rule steps)+ simp
  moreover have "finished ?st (?f [[], []] [True, True] ?o ?e)" by (simp add: finished_def)
  ultimately show ?thesis using follow_interleaves [OF run] by (simp add: Let_def)
qed

end
