(* ===== verification/Cluster_Cli.thy ===== *)
theory Cluster_Cli
  imports Console Native
begin

text \<open>
  The commands on the cluster and its plugins: \<^verbatim>\<open>init.go\<close>, \<^verbatim>\<open>join.go\<close>, \<^verbatim>\<open>status.go\<close>, \<^verbatim>\<open>down.go\<close>, \<^verbatim>\<open>cluster.go\<close>, \<^verbatim>\<open>plugin.go\<close> and \<^verbatim>\<open>kubectl.go\<close> of
  \<^verbatim>\<open>pkg/cli\<close>, over \<open>Cluster_Life\<close>, \<open>Docker_Node\<close>, \<open>Plugins\<close> and \<open>Native\<close>; and what \<^verbatim>\<open>orcinus mcp --config\<close> prints.

  The theorems: what \<^verbatim>\<open>cluster update\<close> changes without \<^verbatim>\<open>--upgrade\<close> and with it; which commands only look; which process
  \<^verbatim>\<open>orcinus kubectl\<close> starts.
\<close>

section \<open>The cluster\<close>

definition onTerminal :: "('d machine, 'a) cmd \<Rightarrow> (('c, 'd) terminal, 'a) cmd" where
  "onTerminal m = onSystem (onMachine m)"

definition initCmd :: "('r, 'c, 'd) front \<Rightarrow> InitOptions \<Rightarrow> (('c, 'd) terminal, unit) cmd" where
  "initCmd w opts = ebind (onTerminal (Init (fr_site w) opts)) (\<lambda>res.
     say (''cluster '' @ Quote (st_Name res) @ '' is ready'' @ newline @
       ''kubeconfig: '' @ st_KubeconfigPath res @ newline @ newline @
       ''Deploy your app:'' @ newline @ ''  orcinus deploy -f docker-compose.yml'' @ newline @ newline @
       ''Add a node (run on another host, or here for a local agent):'' @ newline @
       ''  orcinus cluster join --server '' @ st_ServerURL res @ '' --token '' @ st_Token res @ newline))"

definition joinCmd :: "('r, 'c, 'd) front \<Rightarrow> JoinOptions \<Rightarrow> (('c, 'd) terminal, unit) cmd" where
  "joinCmd w opts = andThen (onTerminal (Join (fr_site w) opts))
     (say (''node '' @ Quote (if jo_Name opts = [] then ''agent'' else jo_Name opts) @ '' is joining the cluster'' @ newline))"

definition statusCmd :: "('r, 'c, 'd) front \<Rightarrow> string \<Rightarrow> (('c, 'd) terminal, unit) cmd" where
  "statusCmd w name = ebind (onTerminal (Status (fr_site w) name)) (\<lambda>s.
     say (''cluster:    '' @ st_Name (sr_State s) @ '' ('' @ (if sr_Running s then ''running'' else ''stopped'') @ '')'' @ newline @
       ''server:     '' @ st_ServerURL (sr_State s) @ newline @ ''kubeconfig: '' @ st_KubeconfigPath (sr_State s) @ newline @
       (if sr_Nodes s \<noteq> [] then newline @ sr_Nodes s else [])))"

definition downCmd :: "('r, 'c, 'd) front \<Rightarrow> string \<Rightarrow> (('c, 'd) terminal, unit) cmd" where
  "downCmd w name = ebind (onTerminal (Down (fr_site w) name)) (\<lambda>n.
     say (''removed '' @ Itoa (int n) @ '' cluster container(s) and cleared local state'' @ newline))"

definition upgradeCluster :: "('r, 'c, 'd) front \<Rightarrow> string \<Rightarrow> (('c, 'd) terminal, unit) cmd" where
  "upgradeCluster w name =
     ebind (onTerminal (UpgradeCluster (si_shell (fr_site w)) (pr_upgrade (si_provider (fr_site w))) name)) (\<lambda>v.
       say (''cluster on '' @ v @ newline))"

definition portShown :: "int \<Rightarrow> string" where
  "portShown p = (if p = 0 then ''not published'' else Itoa p)"

text \<open>A port is given or not: \<^verbatim>\<open>Flags().Changed\<close>.\<close>

definition clusterUpdateCmd ::
    "('r, 'c, 'd) front \<Rightarrow> string \<Rightarrow> int option \<Rightarrow> int option \<Rightarrow> bool \<Rightarrow> (('c, 'd) terminal, unit) cmd" where
  "clusterUpdateCmd w name http https upgrade =
     (if http = None \<and> https = None then
        (if \<not> upgrade then fail (Missing ''--http-port/--https-port'') else upgradeCluster w name)
      else ebind (onTerminal (Update (si_shell (fr_site w)) \<lparr>uo_Name = name, uo_HTTPPort = http, uo_HTTPSPort = https\<rparr>)) (\<lambda>(h, s).
        andThen (say (''ingress: http '' @ portShown h @ '', https '' @ portShown s @ newline))
          (doIf upgrade (upgradeCluster w name))))"

section \<open>Plugins\<close>

definition onPlugins :: "('c pstate, 'a) cmd \<Rightarrow> (('c, 'd) terminal, 'a) cmd" where
  "onPlugins m = onSystem (onManager m)"

definition pluginUpgradeCmd :: "('r, 'c, 'd) front \<Rightarrow> pluginOptions \<Rightarrow> string \<Rightarrow> (('c, 'd) terminal, unit) cmd" where
  "pluginUpgradeCmd w opts name = andThen (onPlugins (Upgrade (penv.truncate w) name opts))
     (say (''plugin '' @ Quote name @ '' upgraded'' @ newline))"

definition pluginRemoveCmd :: "('r, 'c, 'd) front \<Rightarrow> pluginOptions \<Rightarrow> string \<Rightarrow> (('c, 'd) terminal, unit) cmd" where
  "pluginRemoveCmd w opts name = andThen (onPlugins (Remove (penv.truncate w) name opts))
     (say (''plugin '' @ Quote name @ '' removed'' @ newline))"

definition pluginInstallCmd :: "('r, 'c, 'd) front \<Rightarrow> pluginOptions \<Rightarrow> string \<Rightarrow> string list \<Rightarrow> (('c, 'd) terminal, unit) cmd" where
  "pluginInstallCmd w opts profile args =
     (if profile \<noteq> [] then andThen (onPlugins (InstallProfile (penv.truncate w) profile opts))
        (say (''profile '' @ Quote profile @ '' installed'' @ newline))
      else case args of
        [name] \<Rightarrow> andThen (onPlugins (Install (penv.truncate w) name opts)) (say (''plugin '' @ Quote name @ '' installed'' @ newline))
      | _ \<Rightarrow> fail (Missing ''plugin''))"

definition manifestLines :: "string list \<Rightarrow> string" where
  "manifestLines ms = (case ms of [] \<Rightarrow> []
     | m # ms \<Rightarrow> ''manifests:   '' @ m @ newline @ concat (map (\<lambda>m. ''             '' @ m @ newline) ms))"

definition pluginText :: "'c pstate \<Rightarrow> pluginSpec \<Rightarrow> string" where
  "pluginText st s =
     ''name:        '' @ pg_Name s @ newline @ ''description: '' @ pg_Description s @ newline @
     ''installed:   '' @ boolText (Installed st (pg_Name s)) @ newline @
     (if pg_Version s \<noteq> [] then ''version:     '' @ pg_Version s @ newline else []) @
     (if pg_Providers s \<noteq> [] then ''providers:   ['' @ Orcinus_Prelude.Join (pg_Providers s) '' '' @ '']'' @ newline else []) @
     manifestLines (pg_Manifests s)"

text \<open>The notes of a plugin are a text of its own; \<open>note\<close> gives them.\<close>

definition pluginInfoCmd :: "('r, 'c, 'd) front \<Rightarrow> (string \<Rightarrow> string) \<Rightarrow> string \<Rightarrow> (('c, 'd) terminal, unit) cmd" where
  "pluginInfoCmd w note name = (case map_of (Registry (penv.truncate w)) name of
     None \<Rightarrow> fail (UnknownName name)
   | Some s \<Rightarrow> ebind (onPlugins (gets (\<lambda>st. pluginText st s))) (\<lambda>t.
       say (t @ (if note name \<noteq> [] then ''notes:       '' @ note name @ newline else []))))"

text \<open>Readiness is best-effort: without an applier it is not known.\<close>

definition readyOf :: "('r, 'c, 'd) front \<Rightarrow> 'c kube option \<Rightarrow> 'c pstate \<Rightarrow> string \<Rightarrow> string" where
  "readyOf w kb st name = (case kb of
     None \<Rightarrow> ''-''
   | Some kb \<Rightarrow> if \<not> Installed st name then ''-''
       else (case Ready (penv.truncate w) kb (ms_cluster st) name of
         (known, ok) \<Rightarrow> if \<not> known then ''-'' else if ok then ''yes'' else ''no''))"

definition pluginListCmd :: "('r, 'c, 'd) front \<Rightarrow> string \<Rightarrow> (('c, 'd) terminal, unit) cmd" where
  "pluginListCmd w kubeconfig = ebind (onPlugins (onCluster (optional (applier w kubeconfig)))) (\<lambda>kb.
     ebind (onPlugins (gets (\<lambda>st. map (\<lambda>s. [pg_Name s, if Installed st (pg_Name s) then ''yes'' else ''no'', readyOf w kb st (pg_Name s),
         pg_Description s]) (ListPlugins (penv.truncate w))))) (\<lambda>rows.
       say (table3 ([''NAME'', ''INSTALLED'', ''READY'', ''DESCRIPTION''] # rows))))"

section \<open>kubectl\<close>

definition dockerCmdEnv :: "string \<Rightarrow> string" where
  "dockerCmdEnv env = (let v = TrimSpace env in if v \<noteq> [] then v else ''docker'')"

text \<open>The command line and the kubeconfig it is given in the environment. \<open>path\<close> is what \<^verbatim>\<open>LookPath\<close> finds, \<open>env\<close> the value of \<^verbatim>\<open>ORCINUS_DOCKER\<close>.\<close>

record process =
  px_argv :: "string list"
  px_KUBECONFIG :: "string option"

definition hostKubectl :: "('r, 'c, 'd) front \<Rightarrow> string option \<Rightarrow> string \<Rightarrow> InitResult option \<Rightarrow> string list \<Rightarrow> error + process" where
  "hostKubectl w path env st args = (case path of
     Some bin \<Rightarrow> Inr \<lparr>px_argv = bin # args, px_KUBECONFIG = Some (ResolveKubeconfigPath (pe_host w) (pe_fileExists w) (pe_KUBECONFIG w) [])\<rparr>
   | None \<Rightarrow> (case st of
       None \<Rightarrow> Inl (Missing ''kubectl'')
     | Some r \<Rightarrow> Inr \<lparr>px_argv = Fields (dockerCmdEnv env) @ [''exec'', ''-i'', st_Name r, ''kubectl''] @ args, px_KUBECONFIG = None\<rparr>))"

definition kubectlProcess ::
    "('r, 'c, 'd) front \<Rightarrow> 'd native option \<Rightarrow> string option \<Rightarrow> string \<Rightarrow> string list \<Rightarrow> ('d machine, process) cmd" where
  "kubectlProcess w nt path env args = ebind LoadState (\<lambda>st.
     case st of
       Some r \<Rightarrow>
         if st_Runtime r = ''standalone'' then
           ebind (case nt of Some n \<Rightarrow> StandaloneKubectl n | None \<Rightarrow> ret None) (\<lambda>bin. case bin of
               Some b \<Rightarrow> ret \<lparr>px_argv = [b, ''kubectl''] @ args, px_KUBECONFIG = Some (st_KubeconfigPath r)\<rparr>
             | None \<Rightarrow> lift (hostKubectl w path env st args))
         else lift (hostKubectl w path env st args)
     | None \<Rightarrow> lift (hostKubectl w path env st args))"

section \<open>MCP\<close>

definition quote1 :: "string \<Rightarrow> string" where
  "quote1 s = CHR 0x22 # s @ [CHR 0x22]"

definition mcpConfigSnippet :: "bool \<Rightarrow> string" where
  "mcpConfigSnippet allowWrite =
     (let args = (if allowWrite then quote1 ''mcp'' @ '', '' @ quote1 ''--allow-write'' else quote1 ''mcp'') in
      ''# MCP client config (works for Claude Desktop, Codex, opencode, Cursor, '' @ [CHR 0xE2, CHR 0x80, CHR 0xA6] @ '').'' @ newline @
      ''# Point '' @ quote1 ''command'' @ '' at the orcinus binary. Read-only unless you add --allow-write.'' @ newline @ newline @
      ''{'' @ newline @ ''  '' @ quote1 ''mcpServers'' @ '': {'' @ newline @ ''    '' @ quote1 ''orcinus'' @ '': {'' @ newline @
      ''      '' @ quote1 ''command'' @ '': '' @ quote1 ''orcinus'' @ '','' @ newline @ ''      '' @ quote1 ''args'' @ '': ['' @ args @ '']'' @ newline @
      ''    }'' @ newline @ ''  }'' @ newline @ ''}'' @ newline)"

section \<open>What they do\<close>

lemma keeps_gets: "keeps (same_view view) (onManager (gets f))"
  by (simp add: keeps_def same_view_def onManager_def gets_def)

text \<open>These only look: not the cluster, not the record of plugins, not the containers and no file changes.\<close>

lemma cluster_lookers:
  assumes "discovery_ok w view" and "machine_ok (fr_site w) ct made"
  shows "keeps (same_view (behind (seen view ct))) (statusCmd w name)"
    and "keeps (same_view (behind (seen view ct))) (pluginInfoCmd w note name)"
    and "keeps (same_view (behind (seen view ct))) (pluginListCmd w kubeconfig)"
proof -
  show "keeps (same_view (behind (seen view ct))) (statusCmd w name)"
    unfolding statusCmd_def onTerminal_def
    by (intro viewed.keeps_rules keeps_intros keeps_onMachine keeps_Status [OF assms(2)])
  show "keeps (same_view (behind (seen view ct))) (pluginInfoCmd w note name)"
    unfolding pluginInfoCmd_def onPlugins_def by (intro viewed.keeps_rules keeps_intros keeps_gets)
  have "keeps (same_view view) (optional (applier w kubeconfig))"
    unfolding applier_def using assms(1)
    by (intro viewed.keeps_rules)
      (auto simp: keeps_def same_view_def connect_def discovery_ok_def penv.truncate_def split: option.splits)
  note found = keeps_onManager [OF this]
  show "keeps (same_view (behind (seen view ct))) (pluginListCmd w kubeconfig)"
    unfolding pluginListCmd_def onPlugins_def
    by (intro viewed.keeps_ebind keeps_intros keeps_gets found)
qed

text \<open>
  Without \<^verbatim>\<open>--upgrade\<close> a port change is all \<^verbatim>\<open>cluster update\<close> does, with it the upgrade follows a port change that went through;
  a failed change ends the command before the upgrade.
\<close>

lemma clusterUpdate_failed_ports:
  assumes "http \<noteq> None \<or> https \<noteq> None"
    and "onTerminal (Update (si_shell (fr_site w)) \<lparr>uo_Name = name, uo_HTTPPort = http, uo_HTTPSPort = https\<rparr>) tm = (Inl e, tm')"
  shows "clusterUpdateCmd w name http https upgrade tm = (Inl e, tm')"
  using assms by (auto simp: clusterUpdateCmd_def ebind_def)

text \<open>\<^verbatim>\<open>kubectl\<close> never reaches into a container for a standalone cluster whose runtime is compiled in and extracted.\<close>

lemma kubectl_standalone:
  assumes "ms_state m = Some r" and "st_Runtime r = ''standalone''" and "StandaloneKubectl n m = (Inr (Some bin), m')"
  shows "kubectlProcess w (Some n) path env args m =
    (Inr \<lparr>px_argv = [bin, ''kubectl''] @ args, px_KUBECONFIG = Some (st_KubeconfigPath r)\<rparr>, m')"
  using assms by (simp add: kubectlProcess_def LoadState_def ebind_def)

end
