(* ===== verification/Mcp_Server.thy ===== *)
theory Mcp_Server
  imports Front
begin

text \<open>
  \<^verbatim>\<open>pkg/mcp\<close>: the MCP server, newline-delimited JSON-RPC over a reader and a writer. \<^verbatim>\<open>Serve\<close>,
  \<^verbatim>\<open>dispatch\<close>, \<^verbatim>\<open>callTool\<close>, \<^verbatim>\<open>toolDefs\<close>, the resources, and the fifteen tools of \<^verbatim>\<open>tools.go\<close>, each over the component it calls:
  \<open>Engine\<close>, \<open>Plugins\<close>, \<open>Cluster_Apply\<close>, \<open>Operations\<close>, \<open>Project_Config\<close>, \<open>Views\<close> and \<open>Cluster_Life\<close>.

  The state and the surroundings are those of \<open>Front\<close>; decoding a line is an argument.

  The theorems: without \<^verbatim>\<open>--allow-write\<close> no sequence of requests changes the cluster, the record of plugins or a container;
  the listed tools are exactly the ones a call runs; every request with an id is answered exactly once, in order.
\<close>

section \<open>The server\<close>

record server =
  sv_kubeconfig :: string
  sv_allowWrite :: bool

section \<open>Arguments and schemas\<close>

definition argStr :: "obj \<Rightarrow> string \<Rightarrow> string" where
  "argStr a k = (case as_str (map_of a k) of Some v \<Rightarrow> v | None \<Rightarrow> [])"

definition argBool :: "obj \<Rightarrow> string \<Rightarrow> bool" where
  "argBool a k = (as_bool (map_of a k) = Some True)"

definition argInt :: "obj \<Rightarrow> string \<Rightarrow> int option" where
  "argInt a k = (case map_of a k of Some (JFloat m e) \<Rightarrow> Some (float_to_int m e) | Some (JInt v) \<Rightarrow> Some v | _ \<Rightarrow> None)"

definition orDefault :: "string \<Rightarrow> string \<Rightarrow> string" where
  "orDefault v d = (if v = [] then d else v)"

definition nsOrDefault :: "obj \<Rightarrow> string" where
  "nsOrDefault a = (if argStr a ''namespace'' \<noteq> [] then argStr a ''namespace'' else ''default'')"

definition schema :: "obj option \<Rightarrow> string list \<Rightarrow> iface" where
  "schema props required = JObj ([(''type'', JStr ''object''), (''properties'', case props of Some p \<Rightarrow> JObj p | None \<Rightarrow> JNull)] @
     (if required \<noteq> [] then [(''required'', JArr (map JStr required))] else []))"

definition propSchema :: "string \<Rightarrow> string \<Rightarrow> string \<Rightarrow> string \<times> iface" where
  "propSchema name typ desc = (name, JObj [(''type'', JStr typ), (''description'', JStr desc)])"

definition str :: "string \<Rightarrow> string \<Rightarrow> string \<times> iface" where
  "str name desc = propSchema name ''string'' desc"

definition boolp :: "string \<Rightarrow> string \<Rightarrow> string \<times> iface" where
  "boolp name desc = propSchema name ''boolean'' desc"

definition intp :: "string \<Rightarrow> string \<Rightarrow> string \<times> iface" where
  "intp name desc = propSchema name ''integer'' desc"

section \<open>Reading tools\<close>

definition skillsTool :: "('r, 'c, 'd) front \<Rightarrow> obj \<Rightarrow> (('c, 'd) system, string) cmd" where
  "skillsTool w a = lift (let n = argStr a ''name'' in
     if n \<noteq> [] then (case GetCard (fr_cards w) n of None \<Rightarrow> Inl (UnknownName n) | Some c \<Rightarrow> Inr (cardText c))
     else Inr (AllCards (fr_cards w)))"

definition versionTool :: "('r, 'c, 'd) front \<Rightarrow> (('c, 'd) system, string) cmd" where
  "versionTool w = ret (''orcinus '' @ fr_Version w @ '' (commit '' @ fr_GitCommit w @ '')'' @ newline @ ''kompose: '' @ fr_KomposeRef w)"

definition baseRequest :: "obj \<Rightarrow> Request" where
  "baseRequest a = \<lparr>rq_Project = orDefault (argStr a ''project'') ''default'', rq_Namespace = argStr a ''namespace'', rq_Mode = [],
     rq_Replicas = 0, rq_PVCSize = [], rq_Profiles = [], rq_BaseDir = [], rq_Kubeconfig = [], rq_Prune = False, rq_PrunePVCs = False,
     rq_Wait = False, rq_Rounds = 0, rq_ACMEEmail = [], rq_AutoInstall = False\<rparr>"

definition convertTool :: "('r, 'c, 'd) front \<Rightarrow> obj \<Rightarrow> (('c, 'd) system, string) cmd" where
  "convertTool w a = lift (rbind (buildIn w [argStr a ''source''] (baseRequest a)) (Render (fr_yamlObject w)))"

definition projectsTool :: "('r, 'c, 'd) front \<Rightarrow> server \<Rightarrow> obj \<Rightarrow> (('c, 'd) system, string) cmd" where
  "projectsTool w sv a = withApplier w (sv_kubeconfig sv) (\<lambda>kb. look (\<lambda>c. Inr (fr_indentJSON w (JArr (map summaryJSON (ListProjects (fr_reader w) c (argStr a ''namespace'')))))))"

definition podsTool :: "('r, 'c, 'd) front \<Rightarrow> server \<Rightarrow> obj \<Rightarrow> (('c, 'd) system, string) cmd" where
  "podsTool w sv a = withApplier w (sv_kubeconfig sv) (\<lambda>kb. look (\<lambda>c.
     rbind (ListProjectPods (fr_reader w) c (argStr a ''project'') (argStr a ''namespace'')) (\<lambda>ps. Inr (fr_indentJSON w (JArr (map podJSON ps))))))"

definition formatConfig :: "('r, 'c, 'd) front \<Rightarrow> string \<Rightarrow> ProjectConfig \<Rightarrow> error + string" where
  "formatConfig w fmt pc =
     (if fmt = ''summary'' then Inr (WriteSummary pc)
      else if fmt = ''k8s'' \<or> fmt = ''kubernetes'' then RenderK8s (fr_yamlItem w) False pc
      else if fmt = ''orcinus'' \<or> fmt = ''compose'' then RenderCompose (fr_yamlCompose w) pc
      else Inl (UnknownName fmt))"

definition configTool :: "('r, 'c, 'd) front \<Rightarrow> server \<Rightarrow> obj \<Rightarrow> (('c, 'd) system, string) cmd" where
  "configTool w sv a = withApplier w (sv_kubeconfig sv) (\<lambda>kb. look (\<lambda>c.
     rbind (readConfig kb c (argStr a ''project'') (nsOrDefault a)) (formatConfig w (orDefault (argStr a ''format'') ''summary''))))"

definition nodesTool :: "('r, 'c, 'd) front \<Rightarrow> server \<Rightarrow> (('c, 'd) system, string) cmd" where
  "nodesTool w sv = withApplier w (sv_kubeconfig sv) (\<lambda>kb. look (\<lambda>c. rbind (ListNodes (fr_reader w) c) (\<lambda>ns. Inr (fr_indentJSON w (JArr (map nodeJSON ns))))))"

definition pluginsTool :: "('r, 'c, 'd) front \<Rightarrow> (('c, 'd) system, string) cmd" where
  "pluginsTool w = onManager (gets (\<lambda>st.
     fr_indentJSON w (JArr (map (\<lambda>p. JObj [(''Name'', JStr (pg_Name p)), (''Description'', JStr (pg_Description p)),
       (''Version'', JStr (pg_Version p)), (''Installed'', JBool (Installed st (pg_Name p)))]) (ListPlugins (penv.truncate w))))))"

definition truth :: "bool \<Rightarrow> string" where
  "truth b = (if b then ''true'' else ''false'')"

definition statusTool :: "('r, 'c, 'd) front \<Rightarrow> (('c, 'd) system, string) cmd" where
  "statusTool w = onMachine (ebind (Status (fr_site w) []) (\<lambda>st. ret (
     ''name='' @ st_Name (sr_State st) @ '' running='' @ truth (sr_Running st) @ '' runtime='' @ st_Runtime (sr_State st) @
     '' server='' @ st_ServerURL (sr_State st) @ newline @ sr_Nodes st)))"

section \<open>Writing tools\<close>

definition deployTool :: "('r, 'c, 'd) front \<Rightarrow> server \<Rightarrow> obj \<Rightarrow> (('c, 'd) system, string) cmd" where
  "deployTool w sv a =
     (let prune = (case as_bool (map_of a ''prune'') of Some v \<Rightarrow> v | None \<Rightarrow> True);
          req = (baseRequest a)\<lparr>rq_Kubeconfig := sv_kubeconfig sv, rq_Prune := prune, rq_PrunePVCs := argBool a ''prunePVCs'',
            rq_Wait := argBool a ''wait'', rq_Rounds := fr_rounds w, rq_AutoInstall := True\<rparr>
      in onManager (\<lambda>st. case Deploy (world.truncate w) [argStr a ''source''] req st of
           ((applied, installed, Some e), st) \<Rightarrow> (Inl e, st)
         | ((applied, installed, None), st) \<Rightarrow> (Inr (''applied '' @ Itoa (int applied) @ '' object(s) as project '' @
             Quote (rq_Project req) @ ''; installed plugins: ['' @ Orcinus_Prelude.Join installed '' '' @ '']''), st)))"

definition removeTool :: "('r, 'c, 'd) front \<Rightarrow> server \<Rightarrow> obj \<Rightarrow> (('c, 'd) system, string) cmd" where
  "removeTool w sv a = withApplier w (sv_kubeconfig sv) (\<lambda>kb. ebind (RemoveProject kb (argStr a ''project'') (nsOrDefault a))
     (\<lambda>n. ret (''removed '' @ Itoa (int n) @ '' resource(s)'')))"

definition scaleTool :: "('r, 'c, 'd) front \<Rightarrow> server \<Rightarrow> obj \<Rightarrow> (('c, 'd) system, string) cmd" where
  "scaleTool w sv a = (case argInt a ''replicas'' of
     None \<Rightarrow> fail (Missing ''replicas'')
   | Some n \<Rightarrow> withApplier w (sv_kubeconfig sv) (\<lambda>kb. ebind (Scale (fr_client w) (nsOrDefault a) (argStr a ''service'') (int32 n))
       (\<lambda>kind. ret (''scaled '' @ kind @ '' to '' @ Itoa n))))"

definition restartTool :: "('r, 'c, 'd) front \<Rightarrow> server \<Rightarrow> obj \<Rightarrow> (('c, 'd) system, string) cmd" where
  "restartTool w sv a = withApplier w (sv_kubeconfig sv) (\<lambda>kb. ebind (\<lambda>c. Restart (fr_client w) (nsOrDefault a) (argStr a ''service'') (fr_now w c) c)
     (\<lambda>kind. ret (''restarted '' @ kind @ '' '' @ Quote (argStr a ''service''))))"

definition rollbackTool :: "('r, 'c, 'd) front \<Rightarrow> server \<Rightarrow> obj \<Rightarrow> (('c, 'd) system, string) cmd" where
  "rollbackTool w sv a = withApplier w (sv_kubeconfig sv) (\<lambda>kb c.
     case Rollback (fr_client w) (fr_templates w) (nsOrDefault a) (argStr a ''service'') c of
       (kind, Inl e, c) \<Rightarrow> (Inl e, c) | (kind, Inr _, c) \<Rightarrow> (Inr kind, c))"

definition registryTool :: "('r, 'c, 'd) front \<Rightarrow> server \<Rightarrow> obj \<Rightarrow> (('c, 'd) system, string) cmd" where
  "registryTool w sv a =
     ebind (lift (VerifyRegistryLogin (fr_web w) (argStr a ''server'') (argStr a ''username'') (argStr a ''password''))) (\<lambda>_.
       withApplier w (sv_kubeconfig sv) (\<lambda>kb. ebind (ApplyDockerRegistrySecret (fr_client w) (fr_base64 w) (fr_json w) (nsOrDefault a) (argStr a ''name'')
           (argStr a ''server'') (argStr a ''username'') (argStr a ''password'') [])
         (\<lambda>_. ret (''registry secret '' @ argStr a ''name'' @ '' created''))))"

section \<open>The table of tools\<close>

record 's tool =
  tl_Name :: string
  tl_Description :: string
  tl_Schema :: iface
  tl_Write :: bool
  tl_Handle :: "obj \<Rightarrow> ('s, string) cmd"

definition reading :: "string \<Rightarrow> string \<Rightarrow> iface \<Rightarrow> (obj \<Rightarrow> ('s, string) cmd) \<Rightarrow> 's tool" where
  "reading name desc sch h = \<lparr>tl_Name = name, tl_Description = desc, tl_Schema = sch, tl_Write = False, tl_Handle = h\<rparr>"

definition writing :: "string \<Rightarrow> string \<Rightarrow> iface \<Rightarrow> (obj \<Rightarrow> ('s, string) cmd) \<Rightarrow> 's tool" where
  "writing name desc sch h = \<lparr>tl_Name = name, tl_Description = desc, tl_Schema = sch, tl_Write = True, tl_Handle = h\<rparr>"

definition readTools :: "('r, 'c, 'd) front \<Rightarrow> server \<Rightarrow> ('c, 'd) system tool list" where
  "readTools w sv =
    [reading ''orcinus_skills'' ''Learn how to use orcinus. Returns a recipe by name, or the catalog if no name.''
       (schema (Some [str ''name'' ''skill name (omit to list all)'']) []) (skillsTool w),
     reading ''version'' ''orcinus build and component versions.'' (schema None []) (\<lambda>_. versionTool w),
     reading ''convert'' ''Render a docker-compose/manifest source to Kubernetes YAML without applying (dry-run).''
       (schema (Some [str ''source'' ''compose and/or manifest YAML'', str ''project'' ''ownership label (default: default)'',
          str ''namespace'' ''target namespace'']) [''source'']) (convertTool w),
     reading ''list_projects'' ''List deployed orcinus projects and readiness.''
       (schema (Some [str ''namespace'' ''limit to a namespace'']) []) (projectsTool w sv),
     reading ''list_pods'' ''List a project's pods (status, node).''
       (schema (Some [str ''project'' ''project name'', str ''namespace'' ''namespace'']) [''project'']) (podsTool w sv),
     reading ''project_config'' ''Read a deployed project's live configuration; export it as Kubernetes manifests or as an orcinus.yml.''
       (schema (Some [str ''project'' ''project name'', str ''namespace'' ''namespace (default: default)'',
          str ''format'' ''summary | k8s | orcinus (default: summary)'']) [''project'']) (configTool w sv),
     reading ''list_nodes'' ''List cluster nodes (status, roles, version).'' (schema None []) (\<lambda>_. nodesTool w sv),
     reading ''list_plugins'' ''List available cluster add-on plugins and install state.'' (schema None []) (\<lambda>_. pluginsTool w),
     reading ''cluster_status'' ''Cluster name, state, runtime and nodes.'' (schema None []) (\<lambda>_. statusTool w)]"

definition writeTools :: "('r, 'c, 'd) front \<Rightarrow> server \<Rightarrow> ('c, 'd) system tool list" where
  "writeTools w sv =
    [writing ''deploy'' ''Convert + apply a compose/manifest source to the cluster.''
       (schema (Some [str ''source'' ''compose and/or manifest YAML'', str ''project'' ''ownership label'', str ''namespace'' ''target namespace'',
          boolp ''wait'' ''wait until workloads are ready'', boolp ''prune'' ''remove owned resources no longer present (default true)'',
          boolp ''prunePVCs'' ''also delete the PersistentVolumeClaims of removed services (default false, destroys data)''])
        [''source'']) (deployTool w sv),
     writing ''remove_project'' ''Remove all resources of a project.''
       (schema (Some [str ''project'' ''project name'', str ''namespace'' ''namespace'']) [''project'']) (removeTool w sv),
     writing ''scale'' ''Scale a service to N replicas.''
       (schema (Some [str ''service'' ''service name'', intp ''replicas'' ''replica count'', str ''namespace'' ''namespace''])
        [''service'', ''replicas'']) (scaleTool w sv),
     writing ''restart'' ''Restart a service's pods (rolling; the spec is unchanged).''
       (schema (Some [str ''service'' ''service name'', str ''namespace'' ''namespace'']) [''service'']) (restartTool w sv),
     writing ''rollback'' ''Roll a service back to its previous revision.''
       (schema (Some [str ''service'' ''service name'', str ''namespace'' ''namespace'']) [''service'']) (rollbackTool w sv),
     writing ''create_registry_secret'' ''Create a private-registry pull secret (verifies the login first).''
       (schema (Some [str ''name'' ''secret name'', str ''server'' ''registry host'', str ''username'' ''username'',
          str ''password'' ''password/token'', str ''namespace'' ''namespace'']) [''name'', ''server'', ''username'', ''password''])
       (registryTool w sv)]"

definition builtinTools :: "('r, 'c, 'd) front \<Rightarrow> server \<Rightarrow> ('c, 'd) system tool list" where
  "builtinTools w sv = readTools w sv @ writeTools w sv"

section \<open>Requests\<close>

text \<open>The raw id, empty when there is none, and the decoded parameters, none when they are missing.\<close>

record rpcRequest =
  rr_ID :: string
  rr_Method :: string
  rr_Params :: "iface option"

type_synonym rpcResult = "(int \<times> string) + iface"

definition toolResult :: "string \<Rightarrow> bool \<Rightarrow> iface" where
  "toolResult text isErr = JObj [(''content'', JArr [JObj [(''type'', JStr ''text''), (''text'', JStr text)]]), (''isError'', JBool isErr)]"

definition toolDef :: "'s tool \<Rightarrow> iface" where
  "toolDef t = JObj [(''name'', JStr (tl_Name t)),
     (''description'', JStr (tl_Description t @ (if tl_Write t then '' (mutates the cluster)'' else []))), (''inputSchema'', tl_Schema t)]"

definition callable :: "server \<Rightarrow> 's tool \<Rightarrow> bool" where
  "callable sv t \<longleftrightarrow> \<not> (tl_Write t \<and> \<not> sv_allowWrite sv)"

definition toolDefs :: "server \<Rightarrow> 's tool list \<Rightarrow> iface list" where
  "toolDefs sv tools = map toolDef (filter (callable sv) tools)"

definition callParams :: "iface option \<Rightarrow> (string \<times> obj) option" where
  "callParams p = (case decodeStruct p of
     None \<Rightarrow> None
   | Some m \<Rightarrow> (case (fieldString m ''name'', fieldMap m ''arguments'') of (Some n, Some a) \<Rightarrow> Some (n, a) | _ \<Rightarrow> None))"

definition invalidParams :: rpcResult where
  "invalidParams = Inl (-32602, ''invalid params'')"

fun runTool :: "('r, 'c, 'd) front \<Rightarrow> server \<Rightarrow> ('c, 'd) system tool list \<Rightarrow> string \<Rightarrow> obj \<Rightarrow> ('c, 'd) system \<Rightarrow> rpcResult \<times> ('c, 'd) system" where
  "runTool w sv [] name a s = (Inl (-32602, ''unknown tool: '' @ name), s)"
| "runTool w sv (t # ts) name a s =
     (if tl_Name t \<noteq> name then runTool w sv ts name a s
      else if \<not> callable sv t then
        (Inr (toolResult (''tool '' @ tl_Name t @ '' is disabled (start `orcinus mcp --allow-write` to enable cluster changes)'') True), s)
      else case tl_Handle t a s of
        (Inl e, s) \<Rightarrow> (Inr (toolResult (''error: '' @ fr_errorText w e) True), s)
      | (Inr text, s) \<Rightarrow> (Inr (toolResult text False), s))"

definition callTool :: "('r, 'c, 'd) front \<Rightarrow> server \<Rightarrow> iface option \<Rightarrow> ('c, 'd) system \<Rightarrow> rpcResult \<times> ('c, 'd) system" where
  "callTool w sv params s = (case callParams params of
     None \<Rightarrow> (invalidParams, s) | Some (name, a) \<Rightarrow> runTool w sv (builtinTools w sv) name a s)"

definition skillResource :: "Card \<Rightarrow> iface" where
  "skillResource c = JObj [(''uri'', JStr (''orcinus://skills/'' @ cd_Name c)), (''name'', JStr (cd_Name c)),
     (''description'', JStr (cd_Description c)), (''mimeType'', JStr ''text/markdown'')]"

definition readResource :: "Card list \<Rightarrow> iface option \<Rightarrow> rpcResult" where
  "readResource cards params = (case decodeStruct params of
     None \<Rightarrow> invalidParams
   | Some m \<Rightarrow> (case fieldString m ''uri'' of
        None \<Rightarrow> invalidParams
      | Some uri \<Rightarrow> (case GetCard cards (TrimPrefix uri ''orcinus://skills/'') of
           None \<Rightarrow> Inl (-32602, ''unknown resource: '' @ uri)
         | Some c \<Rightarrow> Inr (JObj [(''contents'', JArr [JObj [(''uri'', JStr uri), (''mimeType'', JStr ''text/markdown''), (''text'', JStr (cardText c))]])]))))"

definition dispatch :: "('r, 'c, 'd) front \<Rightarrow> server \<Rightarrow> rpcRequest \<Rightarrow> ('c, 'd) system \<Rightarrow> rpcResult \<times> ('c, 'd) system" where
  "dispatch w sv req s =
     (let m = rr_Method req in
      if m = ''initialize'' then (Inr (JObj [(''protocolVersion'', JStr ''2024-11-05''),
          (''capabilities'', JObj [(''tools'', JObj []), (''resources'', JObj [])]),
          (''serverInfo'', JObj [(''name'', JStr ''orcinus''), (''version'', JStr (fr_Version w))])]), s)
      else if m = ''ping'' then (Inr (JObj []), s)
      else if m = ''tools/list'' then (Inr (JObj [(''tools'', JArr (toolDefs sv (builtinTools w sv)))]), s)
      else if m = ''tools/call'' then callTool w sv (rr_Params req) s
      else if m = ''resources/list'' then (Inr (JObj [(''resources'', JArr (map skillResource (fr_cards w)))]), s)
      else if m = ''resources/read'' then (readResource (fr_cards w) (rr_Params req), s)
      else (Inl (-32601, ''method not found: '' @ m), s))"

text \<open>
  The loop over the lines: \<open>parse\<close> decodes one, \<open>write\<close> tells whether a response could be written; a failed write
  ends the loop. The responses written are returned with the state.
\<close>

fun Serve ::
    "('r, 'c, 'd) front \<Rightarrow> server \<Rightarrow> (string \<Rightarrow> rpcRequest option) \<Rightarrow> (string \<times> rpcResult \<Rightarrow> bool) \<Rightarrow> string list \<Rightarrow>
     ('c, 'd) system \<Rightarrow> (string \<times> rpcResult) list \<times> ('c, 'd) system" where
  "Serve w sv parse write [] s = ([], s)"
| "Serve w sv parse write (raw # rest) s =
     (let line = TrimSpace raw in
      if line = [] then Serve w sv parse write rest s
      else case parse line of
        None \<Rightarrow> Serve w sv parse write rest s
      | Some req \<Rightarrow> (case dispatch w sv req s of (result, s) \<Rightarrow>
          if rr_ID req = [] then Serve w sv parse write rest s
          else if \<not> write (rr_ID req, result) then ([], s)
          else apfst ((#) (rr_ID req, result)) (Serve w sv parse write rest s)))"

text \<open>A server to run, and a call to a tool.\<close>

definition sample_server :: "bool \<Rightarrow> server" where
  "sample_server allow = \<lparr>sv_kubeconfig = ''/k'', sv_allowWrite = allow\<rparr>"

definition call_request :: "string \<Rightarrow> rpcRequest" where
  "call_request name = \<lparr>rr_ID = ''7'', rr_Method = ''tools/call'', rr_Params = Some (JObj [(''name'', JStr name)])\<rparr>"

section \<open>What a request may change\<close>

lemma readTools_keep:
  assumes "discovery_ok w view" and "machine_ok (fr_site w) ct made" and "t \<in> set (readTools w sv)"
  shows "keeps (same_view (seen view ct)) (tl_Handle t a)"
proof -
  note status = keeps_onMachine [OF viewed.keeps_ebind [OF keeps_Status [OF assms(2)] viewed.keeps_ret]]
  have plugins: "keeps (same_view (seen view ct)) (onManager (gets f))" for f :: "'b pstate \<Rightarrow> string"
    by (simp add: keeps_def same_view_def onManager_def gets_def)
  show ?thesis
    using assms(3)
    by (auto simp: readTools_def reading_def skillsTool_def versionTool_def convertTool_def projectsTool_def podsTool_def configTool_def
        nodesTool_def pluginsTool_def statusTool_def intro!: viewed.keeps_lift viewed.keeps_ret keeps_withApplier [OF assms(1)] keeps_look plugins status)
qed

lemma writeTools_write: "t \<in> set (writeTools w sv) \<Longrightarrow> tl_Write t"
  by (auto simp: writeTools_def writing_def)

lemma runTool_seen:
  assumes "discovery_ok w view" and "machine_ok (fr_site w) ct made" and "\<not> sv_allowWrite sv"
    and "set ts \<subseteq> set (builtinTools w sv)" and "runTool w sv ts name a s = (r, s')"
  shows "seen view ct s' = seen view ct s"
  using assms(4,5)
proof (induction ts)
  case (Cons t ts)
  show ?case
  proof (cases "tl_Name t = name \<and> callable sv t")
    case True
    then have "t \<in> set (readTools w sv)"
      using Cons.prems(1) assms(3) writeTools_write by (auto simp: builtinTools_def callable_def)
    from readTools_keep [OF assms(1,2) this] have "keeps (same_view (seen view ct)) (tl_Handle t a)" .
    moreover obtain r0 where "tl_Handle t a s = (r0, s')"
      using Cons.prems(2) True by (auto split: prod.splits sum.splits)
    ultimately show ?thesis using keepsD by (fastforce simp: same_view_def)
  next
    case False
    then show ?thesis using Cons by (auto split: if_splits)
  qed
qed simp

lemma dispatch_seen:
  assumes "discovery_ok w view" and "machine_ok (fr_site w) ct made" and "\<not> sv_allowWrite sv"
    and "dispatch w sv req s = (r, s')"
  shows "seen view ct s' = seen view ct s"
proof -
  have "s' = s \<or> callTool w sv (rr_Params req) s = (r, s')"
    using assms(4) by (auto simp: dispatch_def Let_def split: if_splits)
  then show ?thesis
    using runTool_seen [OF assms(1-3) subset_refl] by (auto simp: callTool_def split: option.splits)
qed

lemma Serve_seen:
  assumes "discovery_ok w view" and "machine_ok (fr_site w) ct made" and "\<not> sv_allowWrite sv"
    and "Serve w sv parse write lines s = (rs, s')"
  shows "seen view ct s' = seen view ct s"
  using assms(4)
proof (induction lines arbitrary: s rs s')
  case (Cons raw rest)
  obtain r1 s1 where d: "\<And>req. parse (TrimSpace raw) = Some req \<Longrightarrow> dispatch w sv req s = (r1, s1)"
    by (cases "parse (TrimSpace raw)") (auto, metis prod.collapse)
  obtain rs2 s2 where rest: "Serve w sv parse write rest s = (rs2, s2)" by force
  obtain rs3 s3 where rest1: "Serve w sv parse write rest s1 = (rs3, s3)" by force
  have "s' = s2 \<or> ((\<exists>req. dispatch w sv req s = (r1, s1)) \<and> (s' = s1 \<or> s' = s3))"
    using Cons.prems rest rest1 d by (auto simp: Let_def split: if_splits option.splits prod.splits)
  then show ?case using Cons.IH [OF rest] Cons.IH [OF rest1] dispatch_seen [OF assms(1-3)] by metis
qed simp

text \<open>
  A server started without \<^verbatim>\<open>--allow-write\<close> is read-only: whatever lines it is sent, when it stops the cluster, the record
  of installed plugins and the containers are what they were.
\<close>

theorem Serve_read_only:
  assumes "discovery_ok w view" and "machine_ok (fr_site w) ct made" and "\<not> sv_allowWrite sv"
    and "Serve w sv parse write lines s = (rs, s')"
  shows "seen view ct s' = seen view ct s"
  using assms by (rule Serve_seen)

theorem Serve_read_only_witness:
  "seen id map_of (snd (Serve sample_front (sample_server False) (\<lambda>_. Some (call_request ''deploy'')) (\<lambda>_. True) [''x'', ''y''] sample_system)) =
   seen id map_of sample_system"
proof -
  have n: "\<not> sv_allowWrite (sample_server False)" by (simp add: sample_server_def)
  show ?thesis by (rule Serve_read_only [OF sample_front_ok n prod.collapse [symmetric]])
qed

section \<open>The listed tools are the ones that run\<close>

lemma builtin_names: "distinct (map tl_Name (builtinTools w sv))"
  by (simp add: builtinTools_def readTools_def writeTools_def reading_def writing_def)

definition handled :: "('r, 'c, 'd) front \<Rightarrow> (error + string) \<times> ('c, 'd) system \<Rightarrow> rpcResult \<times> ('c, 'd) system" where
  "handled w res = (case res of
     (Inl e, s) \<Rightarrow> (Inr (toolResult (''error: '' @ fr_errorText w e) True), s) | (Inr text, s) \<Rightarrow> (Inr (toolResult text False), s))"

lemma runTool_named:
  assumes "distinct (map tl_Name ts)" and "t \<in> set ts"
  shows "runTool w sv ts (tl_Name t) a s =
    (if callable sv t then handled w (tl_Handle t a s)
     else (Inr (toolResult (''tool '' @ tl_Name t @ '' is disabled (start `orcinus mcp --allow-write` to enable cluster changes)'') True), s))"
  using assms by (induction ts) (auto simp: handled_def image_iff)

lemma runTool_unknown: "name \<notin> set (map tl_Name ts) \<Longrightarrow> runTool w sv ts name a s = (Inl (-32602, ''unknown tool: '' @ name), s)"
  by (induction ts) auto

definition listed :: "('r, 'c, 'd) front \<Rightarrow> server \<Rightarrow> string \<Rightarrow> bool" where
  "listed w sv name \<longleftrightarrow> name \<in> set (map (\<lambda>d. nestedString (asMap d) [''name'']) (toolDefs sv (builtinTools w sv)))"

lemma listed_iff: "listed w sv name \<longleftrightarrow> (\<exists>t \<in> set (builtinTools w sv). tl_Name t = name \<and> callable sv t)"
  by (auto simp: listed_def toolDefs_def toolDef_def nestedString_def)

text \<open>
  \<^verbatim>\<open>tools/list\<close> and \<^verbatim>\<open>tools/call\<close> agree: a call to a listed tool runs its handler on the arguments; a call to any other name,
  a disabled tool included, changes nothing and reports an error.
\<close>

theorem callTool_listed:
  assumes "callParams params = Some (name, a)"
  shows "if listed w sv name
    then \<exists>t \<in> set (builtinTools w sv). tl_Name t = name \<and> callTool w sv params s = handled w (tl_Handle t a s)
    else \<exists>r. callTool w sv params s = (r, s) \<and> (isl r \<or> (\<exists>msg. r = Inr (toolResult msg True)))"
proof (cases "\<exists>t \<in> set (builtinTools w sv). tl_Name t = name")
  case True
  then obtain t where t: "t \<in> set (builtinTools w sv)" "tl_Name t = name" by blast
  have only: "t' = t" if "t' \<in> set (builtinTools w sv)" "tl_Name t' = name" for t'
    using that t builtin_names by (metis distinct_map inj_onD)
  have "listed w sv name \<longleftrightarrow> callable sv t" unfolding listed_iff using t only by blast
  moreover have "callTool w sv params s = runTool w sv (builtinTools w sv) (tl_Name t) a s"
    using assms t(2) by (simp add: callTool_def)
  ultimately show ?thesis
    using t unfolding runTool_named [OF builtin_names t(1)] by (cases "callable sv t") auto
next
  case False
  then have "\<not> listed w sv name" by (auto simp: listed_iff)
  moreover have "name \<notin> set (map tl_Name (builtinTools w sv))" using False by auto
  note unknown = runTool_unknown [OF this]
  have "callTool w sv params s = runTool w sv (builtinTools w sv) name a s" using assms by (simp add: callTool_def)
  then have "callTool w sv params s = (Inl (-32602, ''unknown tool: '' @ name), s)" by (simp only: unknown)
  ultimately show ?thesis by simp
qed

theorem callTool_listed_witness:
  "\<not> listed sample_front (sample_server False) ''scale'' \<and>
   (\<exists>r. callTool sample_front (sample_server False) (rr_Params (call_request ''scale'')) sample_system = (r, sample_system) \<and>
     (isl r \<or> (\<exists>msg. r = Inr (toolResult msg True))))"
proof -
  have p: "callParams (rr_Params (call_request ''scale'')) = Some (''scale'', [])"
    by (simp add: call_request_def callParams_def decodeStruct_def fieldString_def fieldMap_def)
  have n: "\<not> listed sample_front (sample_server False) ''scale''"
    by (simp add: listed_iff builtinTools_def readTools_def writeTools_def reading_def writing_def callable_def sample_server_def)
  from callTool_listed [OF p, of sample_front "sample_server False" sample_system] n show ?thesis by simp
qed

section \<open>Every request is answered\<close>

definition requests :: "(string \<Rightarrow> rpcRequest option) \<Rightarrow> string list \<Rightarrow> rpcRequest list" where
  "requests parse lines = List.map_filter (\<lambda>raw. if TrimSpace raw = [] then None else parse (TrimSpace raw)) lines"

text \<open>
  C32: While responses can be written, every well-formed request that carries an id is answered exactly once, in the order of
  arrival, under its own id; blank and malformed lines and notifications are answered by nothing.
\<close>

theorem Serve_answers:
  assumes "\<And>r. write r"
  shows "map fst (fst (Serve w sv parse write lines s)) = map rr_ID (filter (\<lambda>r. rr_ID r \<noteq> []) (requests parse lines))"
proof (induction lines arbitrary: s)
  case (Cons raw rest)
  then show ?case
    using assms by (auto simp: requests_def map_filter_simps Let_def split: option.splits prod.splits)
qed (simp add: requests_def map_filter_simps)

theorem Serve_answers_witness:
  "map fst (fst (Serve sample_front (sample_server True) (\<lambda>l. if l = ''x'' then Some (call_request ''version'') else None) (\<lambda>_. True)
     [''x'', '' '', ''z'', ''x''] sample_system)) = [''7'', ''7'']"
  using Serve_answers [of "\<lambda>_. True" sample_front "sample_server True" "\<lambda>l. if l = ''x'' then Some (call_request ''version'') else None"
      "[''x'', '' '', ''z'', ''x'']" sample_system]
  by (simp add: requests_def map_filter_simps call_request_def TrimSpace_def trim_def isSpace_def)

end
