(* ===== verification/Api_Server.thy ===== *)
theory Api_Server
  imports Front
begin

text \<open>
  \<^verbatim>\<open>pkg/api\<close>: the HTTP server. \<^verbatim>\<open>server.go\<close>: the routes, the bearer token, JSON bodies; \<^verbatim>\<open>handlers.go\<close>: the handlers, each over the
  component it calls, with the status code of every failure.

  A request is its method, decoded path, query, the two headers that are read and its body; \<^verbatim>\<open>http.ServeMux\<close> redirects a path that is
  not clean and matches segments. JSON is decoded by an argument; fields are matched as they are spelled. The
  OpenAPI document is an argument.

  The theorems: without the configured token no request changes anything and none under \<^verbatim>\<open>/api/\<close> reaches a handler;
  a \<^verbatim>\<open>GET\<close> never changes the cluster, the plugins or a container.
\<close>

section \<open>Requests and responses\<close>

record Config =
  cg_Token :: string
  cg_Kubeconfig :: string

record httpRequest =
  hx_Method :: string
  hx_Path :: string
  hx_Query :: "(string \<times> string) list"
  hx_Authorization :: string
  hx_ContentType :: string
  hx_Body :: "string option"         \<comment> \<open>none when reading it fails\<close>
  hx_ContentLength :: int

type_synonym httpResponse = "nat \<times> iface"

record ('r, 'c, 'd) api = "('r, 'c, 'd) front" +
  ai_decode :: "string \<Rightarrow> iface option"      \<comment> \<open>one JSON value\<close>
  ai_base64 :: "string \<Rightarrow> string option"
  ai_openapiYAML :: string
  ai_openapiJSON :: "string option"
  ai_swaggerUI :: string
  ai_insecureWeb :: web                     \<comment> \<open>without TLS verification\<close>

definition Get :: "httpRequest \<Rightarrow> string \<Rightarrow> string" where
  "Get r k = (case map_of (hx_Query r) k of Some v \<Rightarrow> v | None \<Rightarrow> [])"

definition namespaceOrDefault :: "httpRequest \<Rightarrow> string" where
  "namespaceOrDefault r = (if Get r ''namespace'' \<noteq> [] then Get r ''namespace'' else ''default'')"

definition writeErr :: "nat \<Rightarrow> string \<Rightarrow> httpResponse" where
  "writeErr status msg = (status, JObj [(''error'', JStr msg)])"

text \<open>\<^verbatim>\<open>if err != nil { writeErr(w, status, err.Error()); return }\<close>; a panic reaches the \<^verbatim>\<open>recover\<close> middleware instead.\<close>

definition failure :: "(error \<Rightarrow> string) \<Rightarrow> nat \<Rightarrow> error \<Rightarrow> httpResponse" where
  "failure txt status e = (case e of Panic _ \<Rightarrow> writeErr 500 ''internal error'' | _ \<Rightarrow> writeErr status (txt e))"

definition onFail :: "(error \<Rightarrow> string) \<Rightarrow> nat \<Rightarrow> ('s, 'a) cmd \<Rightarrow> ('a \<Rightarrow> 's \<Rightarrow> httpResponse \<times> 's) \<Rightarrow> 's \<Rightarrow> httpResponse \<times> 's" where
  "onFail txt status m k s = (case m s of (Inl e, s) \<Rightarrow> (failure txt status e, s) | (Inr x, s) \<Rightarrow> k x s)"

definition reply :: "nat \<Rightarrow> obj \<Rightarrow> 's \<Rightarrow> httpResponse \<times> 's" where
  "reply status body s = ((status, JObj body), s)"

section \<open>Bodies\<close>

definition fieldBool :: "obj \<Rightarrow> string \<Rightarrow> bool option" where
  "fieldBool m k = (case map_of m k of None \<Rightarrow> Some False | Some JNull \<Rightarrow> Some False | Some (JBool b) \<Rightarrow> Some b | _ \<Rightarrow> None)"

definition fieldInt :: "int \<Rightarrow> int \<Rightarrow> obj \<Rightarrow> string \<Rightarrow> int option" where
  "fieldInt lo hi m k = (case map_of m k of
     None \<Rightarrow> Some 0
   | Some JNull \<Rightarrow> Some 0
   | Some (JFloat x e) \<Rightarrow> (case dec_int x e of Some i \<Rightarrow> if lo \<le> i \<and> i \<le> hi then Some i else None | None \<Rightarrow> None)
   | _ \<Rightarrow> None)"

definition fieldStrings :: "obj \<Rightarrow> string \<Rightarrow> string list option" where
  "fieldStrings m k = (case map_of m k of None \<Rightarrow> Some [] | Some JNull \<Rightarrow> Some [] | Some (JArr xs) \<Rightarrow> stringItems xs | _ \<Rightarrow> None)"

definition fieldStringMap :: "obj \<Rightarrow> string \<Rightarrow> string gomap option" where
  "fieldStringMap m k = (case map_of m k of None \<Rightarrow> Some [] | Some JNull \<Rightarrow> Some [] | Some (JObj n) \<Rightarrow> strings n | _ \<Rightarrow> None)"

text \<open>\<^verbatim>\<open>readJSON\<close> with unknown fields refused; \<open>known\<close> are the fields of the struct.\<close>

definition readJSON :: "('r, 'c, 'd) api \<Rightarrow> string list \<Rightarrow> httpRequest \<Rightarrow> error + obj" where
  "readJSON w known r = (case hx_Body r of
     None \<Rightarrow> Inl (ReadFileError ''body'')
   | Some b \<Rightarrow> (case decodeStruct (ai_decode w b) of
        None \<Rightarrow> Inl ParseDocumentError
      | Some m \<Rightarrow> if list_all (\<lambda>(k, _). k \<in> set known) m then Inr m else Inl ParseDocumentError))"

definition need :: "'a option \<Rightarrow> error + 'a" where
  "need x = (case x of None \<Rightarrow> Inl ParseDocumentError | Some v \<Rightarrow> Inr v)"

record DeployRequest =
  dr_Source :: string
  dr_Project :: string
  dr_Namespace :: string
  dr_Mode :: string
  dr_Replicas :: int
  dr_PVCSize :: string
  dr_Prune :: "bool option"
  dr_PrunePVCs :: bool
  dr_Wait :: bool
  dr_ACMEEmail :: string
  dr_Profiles :: "string list"

definition deployFields :: "string list" where
  "deployFields = [''source'', ''project'', ''namespace'', ''mode'', ''replicas'', ''pvcSize'', ''prune'', ''prunePVCs'', ''wait'',
     ''acmeEmail'', ''profiles'']"

definition optionalBool :: "obj \<Rightarrow> string \<Rightarrow> bool option option" where
  "optionalBool m k = (case map_of m k of None \<Rightarrow> Some None | Some JNull \<Rightarrow> Some None | Some (JBool b) \<Rightarrow> Some (Some b) | _ \<Rightarrow> None)"

definition deployFromJSON :: "obj \<Rightarrow> error + DeployRequest" where
  "deployFromJSON m =
     rbind (need (fieldString m ''source'')) (\<lambda>source. rbind (need (fieldString m ''project'')) (\<lambda>project.
     rbind (need (fieldString m ''namespace'')) (\<lambda>namespace. rbind (need (fieldString m ''mode'')) (\<lambda>mode.
     rbind (need (fieldInt int64_min int64_max m ''replicas'')) (\<lambda>replicas. rbind (need (fieldString m ''pvcSize'')) (\<lambda>pvc.
     rbind (need (optionalBool m ''prune'')) (\<lambda>prune. rbind (need (fieldBool m ''prunePVCs'')) (\<lambda>prunePVCs.
     rbind (need (fieldBool m ''wait'')) (\<lambda>wait. rbind (need (fieldString m ''acmeEmail'')) (\<lambda>email.
     rbind (need (fieldStrings m ''profiles'')) (\<lambda>profiles.
     Inr \<lparr>dr_Source = source, dr_Project = project, dr_Namespace = namespace, dr_Mode = mode, dr_Replicas = replicas, dr_PVCSize = pvc,
          dr_Prune = prune, dr_PrunePVCs = prunePVCs, dr_Wait = wait, dr_ACMEEmail = email, dr_Profiles = profiles\<rparr>)))))))))))"

definition deployFromQuery :: "httpRequest \<Rightarrow> error + DeployRequest" where
  "deployFromQuery r = (case hx_Body r of
     None \<Rightarrow> Inl (ReadFileError ''body'')
   | Some body \<Rightarrow> Inr \<lparr>dr_Source = body, dr_Project = Get r ''project'', dr_Namespace = Get r ''namespace'', dr_Mode = Get r ''mode'',
       dr_Replicas = (case Atoi (Get r ''replicas'') of Some n \<Rightarrow> n | None \<Rightarrow> 0), dr_PVCSize = Get r ''pvcSize'',
       dr_Prune = (if Get r ''prune'' = ''false'' then Some False else None), dr_PrunePVCs = (Get r ''prunePVCs'' = ''true''),
       dr_Wait = (Get r ''wait'' = ''true''), dr_ACMEEmail = Get r ''acmeEmail'',
       dr_Profiles = map snd (filter (\<lambda>(k, _). k = ''profile'') (hx_Query r))\<rparr>)"

definition parseDeployInput :: "('r, 'c, 'd) api \<Rightarrow> Config \<Rightarrow> httpRequest \<Rightarrow> error + string \<times> Request" where
  "parseDeployInput w cfg r =
     rbind (if HasPrefix (hx_ContentType r) ''application/json''
            then rbind (readJSON w deployFields r) deployFromJSON else deployFromQuery r) (\<lambda>dr.
     Inr (dr_Source dr,
       \<lparr>rq_Project = (if dr_Project dr = [] then ''default'' else dr_Project dr), rq_Namespace = dr_Namespace dr, rq_Mode = dr_Mode dr,
        rq_Replicas = dr_Replicas dr, rq_PVCSize = dr_PVCSize dr, rq_Profiles = dr_Profiles dr, rq_BaseDir = [],
        rq_Kubeconfig = cg_Kubeconfig cfg, rq_Prune = (case dr_Prune dr of Some b \<Rightarrow> b | None \<Rightarrow> True), rq_PrunePVCs = dr_PrunePVCs dr,
        rq_Wait = dr_Wait dr, rq_Rounds = fr_rounds w, rq_ACMEEmail = dr_ACMEEmail dr, rq_AutoInstall = True\<rparr>))"

section \<open>Handlers\<close>

type_synonym ('c, 'd) handler = "string gomap \<Rightarrow> httpRequest \<Rightarrow> ('c, 'd) system \<Rightarrow> httpResponse \<times> ('c, 'd) system"

definition onCall :: "('c, 'a) cmd \<Rightarrow> (('c, 'd) system, 'a) cmd" where
  "onCall m = onManager (onCluster m)"

text \<open>The applier is built first; 503 when there is no cluster.\<close>

definition withCluster ::
    "('r, 'c, 'd) api \<Rightarrow> Config \<Rightarrow> ('c kube \<Rightarrow> ('c, 'd) system \<Rightarrow> httpResponse \<times> ('c, 'd) system) \<Rightarrow> ('c, 'd) system \<Rightarrow> httpResponse \<times> ('c, 'd) system" where
  "withCluster w cfg k = onFail (fr_errorText w) 503 (onCall (applier (front.truncate w) (cg_Kubeconfig cfg))) k"

definition PathValue :: "string gomap \<Rightarrow> string \<Rightarrow> string" where
  "PathValue vs k = (case map_of vs k of Some v \<Rightarrow> v | None \<Rightarrow> [])"

definition handleConvert :: "('r, 'c, 'd) api \<Rightarrow> Config \<Rightarrow> ('c, 'd) handler" where
  "handleConvert w cfg vs r =
     onFail (fr_errorText w) 400 (lift (parseDeployInput w cfg r)) (\<lambda>(source, req).
     onFail (fr_errorText w) 400 (lift (buildIn w [source] req)) (\<lambda>objects.
     onFail (fr_errorText w) 500 (lift (Render (fr_yamlObject w) objects)) (\<lambda>out.
       reply 200 [(''objects'', JInt (int (length objects))), (''manifests'', JStr out)])))"

definition deployed :: "('r, 'c, 'd) api \<Rightarrow> string \<Rightarrow> Request \<Rightarrow> ('c pstate, nat \<times> string list) cmd" where
  "deployed w source req st = (case Deploy (world.truncate w) [source] req st of
     ((applied, installed, Some e), st) \<Rightarrow> (Inl e, st) | ((applied, installed, None), st) \<Rightarrow> (Inr (applied, installed), st))"

definition handleDeploy :: "('r, 'c, 'd) api \<Rightarrow> Config \<Rightarrow> ('c, 'd) handler" where
  "handleDeploy w cfg vs r =
     onFail (fr_errorText w) 400 (lift (parseDeployInput w cfg r)) (\<lambda>(source, req).
     onFail (fr_errorText w) 400 (onManager (deployed w source req)) (\<lambda>(applied, installed).
       reply 200 [(''applied'', JInt (int applied)), (''project'', JStr (rq_Project req)), (''installed'', JArr (map JStr installed))]))"

definition handleListProjects :: "('r, 'c, 'd) api \<Rightarrow> Config \<Rightarrow> ('c, 'd) handler" where
  "handleListProjects w cfg vs r = withCluster w cfg (\<lambda>kb.
     onFail (fr_errorText w) 500 (onCall (look (\<lambda>c. Inr (ListProjects (fr_reader w) c (Get r ''namespace''))))) (\<lambda>ps.
       reply 200 [(''projects'', JArr (map summaryJSON ps))]))"

definition handleProjectPods :: "('r, 'c, 'd) api \<Rightarrow> Config \<Rightarrow> ('c, 'd) handler" where
  "handleProjectPods w cfg vs r = withCluster w cfg (\<lambda>kb.
     onFail (fr_errorText w) 500 (onCall (look (\<lambda>c. ListProjectPods (fr_reader w) c (PathValue vs ''project'') (Get r ''namespace'')))) (\<lambda>ps.
       reply 200 [(''pods'', JArr (map podJSON ps))]))"

definition renderFormat :: "('r, 'c, 'd) api \<Rightarrow> string \<Rightarrow> ProjectConfig \<Rightarrow> (error + string) option" where
  "renderFormat w fmt pc =
     (if fmt = ''summary'' then Some (Inr (WriteSummary pc))
      else if fmt = ''k8s'' \<or> fmt = ''kubernetes'' then Some (RenderK8s (fr_yamlItem w) False pc)
      else if fmt = ''orcinus'' \<or> fmt = ''compose'' then Some (RenderCompose (fr_yamlCompose w) pc)
      else None)"

definition handleProjectConfig :: "('r, 'c, 'd) api \<Rightarrow> Config \<Rightarrow> ('c, 'd) handler" where
  "handleProjectConfig w cfg vs r = withCluster w cfg (\<lambda>kb.
     onFail (fr_errorText w) 404 (onCall (look (\<lambda>c. readConfig kb c (PathValue vs ''project'') (namespaceOrDefault r)))) (\<lambda>pc.
       let fmt = (if Get r ''format'' = [] then ''summary'' else Get r ''format'') in
       case renderFormat w fmt pc of
         None \<Rightarrow> (\<lambda>s. (writeErr 400 (''unknown format '' @ Quote fmt @ '': use summary, k8s, or orcinus''), s))
       | Some body \<Rightarrow> onFail (fr_errorText w) 500 (lift body) (\<lambda>text.
           reply 200 [(''project'', JStr (pc_Project pc)), (''namespace'', JStr (pc_Namespace pc)),
             (''resources'', JInt (int (length (pc_Items pc)))), (''format'', JStr fmt), (''config'', JStr text)])))"

definition handleRemoveProject :: "('r, 'c, 'd) api \<Rightarrow> Config \<Rightarrow> ('c, 'd) handler" where
  "handleRemoveProject w cfg vs r = withCluster w cfg (\<lambda>kb.
     onFail (fr_errorText w) 500 (onCall (RemoveProject kb (PathValue vs ''project'') (namespaceOrDefault r))) (\<lambda>n.
       reply 200 [(''removed'', JInt (int n))]))"

definition handleScale :: "('r, 'c, 'd) api \<Rightarrow> Config \<Rightarrow> ('c, 'd) handler" where
  "handleScale w cfg vs r =
     onFail (fr_errorText w) 400 (lift (rbind (readJSON w [''replicas''] r) (\<lambda>m. need (fieldInt (- (2 ^ 31)) (2 ^ 31 - 1) m ''replicas'')))) (\<lambda>n.
     withCluster w cfg (\<lambda>kb.
     onFail (fr_errorText w) 500 (onCall (Scale (fr_client w) (namespaceOrDefault r) (PathValue vs ''service'') n)) (\<lambda>kind.
       reply 200 [(''scaled'', JStr kind), (''replicas'', JInt n)])))"

definition handleRestart :: "('r, 'c, 'd) api \<Rightarrow> Config \<Rightarrow> ('c, 'd) handler" where
  "handleRestart w cfg vs r = withCluster w cfg (\<lambda>kb.
     onFail (fr_errorText w) 500 (onCall (\<lambda>c. Restart (fr_client w) (namespaceOrDefault r) (PathValue vs ''service'') (fr_now w c) c)) (\<lambda>kind.
       reply 200 [(''restarted'', JStr kind)]))"

definition rolledBack :: "('r, 'c, 'd) api \<Rightarrow> string \<Rightarrow> string \<Rightarrow> ('c, string) cmd" where
  "rolledBack w ns name c = (case Rollback (fr_client w) (fr_templates w) ns name c of
     (kind, Inl e, c) \<Rightarrow> (Inl e, c) | (kind, Inr _, c) \<Rightarrow> (Inr kind, c))"

definition handleRollback :: "('r, 'c, 'd) api \<Rightarrow> Config \<Rightarrow> ('c, 'd) handler" where
  "handleRollback w cfg vs r = withCluster w cfg (\<lambda>kb.
     onFail (fr_errorText w) 500 (onCall (rolledBack w (namespaceOrDefault r) (PathValue vs ''service''))) (\<lambda>msg.
       reply 200 [(''result'', JStr msg)]))"

section \<open>Secrets\<close>

record SecretRequest =
  sq_Name :: string
  sq_Namespace :: string
  sq_Data :: "string gomap"
  sq_DataBase64 :: "string gomap"

definition secretFromJSON :: "obj \<Rightarrow> error + SecretRequest" where
  "secretFromJSON m =
     rbind (need (fieldString m ''name'')) (\<lambda>name. rbind (need (fieldString m ''namespace'')) (\<lambda>namespace.
     rbind (need (fieldStringMap m ''data'')) (\<lambda>data. rbind (need (fieldStringMap m ''dataBase64'')) (\<lambda>b64.
     Inr \<lparr>sq_Name = name, sq_Namespace = namespace, sq_Data = data, sq_DataBase64 = b64\<rparr>))))"

definition addBase64 :: "(string \<Rightarrow> string option) \<Rightarrow> string \<times> string \<Rightarrow> string gomap \<Rightarrow> error + string gomap" where
  "addBase64 decode kv data = (case kv of (k, v) \<Rightarrow>
     if map_of data k \<noteq> None then Inl (Excluded k ''dataBase64'')
     else case decode v of None \<Rightarrow> Inl (InvalidExtension k ''dataBase64'' v) | Some raw \<Rightarrow> Inr (AList.update k raw data))"

definition payload :: "(string \<Rightarrow> string option) \<Rightarrow> SecretRequest \<Rightarrow> error + string gomap" where
  "payload decode b = foldM (addBase64 decode) (sq_DataBase64 b) (fold (\<lambda>(k, v). AList.update k v) (sq_Data b) [])"

definition secretInfoJSON :: "SecretInfo \<Rightarrow> iface" where
  "secretInfoJSON i = JObj [(''Name'', JStr (si_Name i)), (''Type'', JStr (si_Type i)), (''Keys'', JInt (int (si_Keys i))),
     (''KeyNames'', JArr (map JStr (si_KeyNames i))), (''ManagedBy'', JBool (si_ManagedBy i))]"

definition handleListSecrets :: "('r, 'c, 'd) api \<Rightarrow> Config \<Rightarrow> ('c, 'd) handler" where
  "handleListSecrets w cfg vs r = withCluster w cfg (\<lambda>kb.
     onFail (fr_errorText w) 500 (onCall (look (ListSecrets (fr_client w) (namespaceOrDefault r)))) (\<lambda>is.
       reply 200 [(''secrets'', JArr (map secretInfoJSON is))]))"

definition secretFields :: "string list" where
  "secretFields = [''name'', ''namespace'', ''data'', ''dataBase64'']"

definition handleCreateSecret :: "('r, 'c, 'd) api \<Rightarrow> Config \<Rightarrow> ('c, 'd) handler" where
  "handleCreateSecret w cfg vs r =
     onFail (fr_errorText w) 400 (lift (rbind (readJSON w secretFields r) secretFromJSON)) (\<lambda>body.
       if sq_Name body = [] \<or> (sq_Data body = [] \<and> sq_DataBase64 body = [])
       then (\<lambda>s. (writeErr 400 ''name and non-empty data or dataBase64 are required'', s))
       else onFail (fr_errorText w) 400 (lift (payload (ai_base64 w) body)) (\<lambda>data.
         let ns = (if sq_Namespace body = [] then ''default'' else sq_Namespace body) in
         withCluster w cfg (\<lambda>kb.
         onFail (fr_errorText w) 500 (onCall (ApplySecret (fr_client w) ns (sq_Name body) ''Opaque'' data)) (\<lambda>_.
           reply 201 [(''name'', JStr (sq_Name body)), (''namespace'', JStr ns), (''keys'', JInt (int (length data)))]))))"

definition found :: "'a lookup \<Rightarrow> error + 'a" where
  "found l = (case l of Found x \<Rightarrow> Inr x | NotFound \<Rightarrow> Inl (Missing ''secret'') | Failed e \<Rightarrow> Inl (ApiError e))"

definition secretStatus :: "error \<Rightarrow> nat" where
  "secretStatus e = (case e of Missing _ \<Rightarrow> 404 | _ \<Rightarrow> 500)"

definition handleGetSecret :: "('r, 'c, 'd) api \<Rightarrow> Config \<Rightarrow> ('c, 'd) handler" where
  "handleGetSecret w cfg vs r = withCluster w cfg (\<lambda>kb s.
     case onCall (look (\<lambda>c. found (GetSecret (fr_client w) (namespaceOrDefault r) (PathValue vs ''name'') c))) s of
       (Inl e, s) \<Rightarrow> (writeErr (secretStatus e) (fr_errorText w e), s)
     | (Inr sec, s) \<Rightarrow> reply 200 ([(''name'', JStr (sd_Name sec)), (''namespace'', JStr (sd_Namespace sec)), (''type'', JStr (sd_Type sec)),
           (''managedBy'', JBool (sd_ManagedBy sec)), (''keys'', JArr (map JStr (KeyNames sec)))] @
         (if Get r ''showValues'' = ''true'' then [(''values'', JObj (toStringMapIface (sd_Data sec)))]
          else [(''redacted'', JBool True)])) s)"

definition handlePatchSecret :: "('r, 'c, 'd) api \<Rightarrow> Config \<Rightarrow> ('c, 'd) handler" where
  "handlePatchSecret w cfg vs r =
     onFail (fr_errorText w) 400 (lift (rbind (readJSON w secretFields r) secretFromJSON)) (\<lambda>body.
       if sq_Data body = [] \<and> sq_DataBase64 body = []
       then (\<lambda>s. (writeErr 400 ''non-empty data or dataBase64 is required'', s))
       else onFail (fr_errorText w) 400 (lift (payload (ai_base64 w) body)) (\<lambda>data.
         withCluster w cfg (\<lambda>kb.
         let name = PathValue vs ''name''; ns = (if sq_Namespace body \<noteq> [] then sq_Namespace body else namespaceOrDefault r) in
         onFail (fr_errorText w) 500 (onCall (MergeSecret (fr_client w) ns name ''Opaque'' data)) (\<lambda>_.
         onFail (fr_errorText w) 500 (onCall (look (\<lambda>c. found (GetSecret (fr_client w) ns name c)))) (\<lambda>after.
           reply 200 [(''name'', JStr name), (''namespace'', JStr ns), (''set'', JInt (int (length data))),
             (''keys'', JInt (int (length (sd_Data after)))), (''note'', JStr ''running pods keep the old values until restarted'')])))))"

definition handleCreateTLSSecret :: "('r, 'c, 'd) api \<Rightarrow> Config \<Rightarrow> ('c, 'd) handler" where
  "handleCreateTLSSecret w cfg vs r =
     onFail (fr_errorText w) 400 (lift (rbind (readJSON w [''name'', ''namespace'', ''cert'', ''key''] r) (\<lambda>m.
         rbind (need (fieldString m ''name'')) (\<lambda>name. rbind (need (fieldString m ''namespace'')) (\<lambda>namespace.
         rbind (need (fieldString m ''cert'')) (\<lambda>cert. rbind (need (fieldString m ''key'')) (\<lambda>key. Inr (name, namespace, cert, key)))))))) (\<lambda>(name, namespace, cert, key).
       if name = [] \<or> cert = [] \<or> key = [] then (\<lambda>s. (writeErr 400 ''name, cert and key are required'', s))
       else let ns = (if namespace = [] then namespaceOrDefault r else namespace) in
         withCluster w cfg (\<lambda>kb.
         onFail (fr_errorText w) 500 (onCall (ApplySecret (fr_client w) ns name ''kubernetes.io/tls'' [(''tls.crt'', cert), (''tls.key'', key)])) (\<lambda>_.
           reply 201 [(''name'', JStr name), (''namespace'', JStr ns), (''type'', JStr ''kubernetes.io/tls'')])))"

record RegistrySecretRequest =
  rs_Name :: string
  rs_Namespace :: string
  rs_Server :: string
  rs_Username :: string
  rs_Password :: string
  rs_Email :: string
  rs_Insecure :: bool
  rs_SkipLoginCheck :: bool

definition registryFields :: "string list" where
  "registryFields = [''name'', ''namespace'', ''server'', ''username'', ''password'', ''email'', ''insecure'', ''skipLoginCheck'']"

definition registryFromJSON :: "obj \<Rightarrow> error + RegistrySecretRequest" where
  "registryFromJSON m =
     rbind (need (fieldString m ''name'')) (\<lambda>name. rbind (need (fieldString m ''namespace'')) (\<lambda>namespace.
     rbind (need (fieldString m ''server'')) (\<lambda>srv. rbind (need (fieldString m ''username'')) (\<lambda>user.
     rbind (need (fieldString m ''password'')) (\<lambda>pass. rbind (need (fieldString m ''email'')) (\<lambda>email.
     rbind (need (fieldBool m ''insecure'')) (\<lambda>insecure. rbind (need (fieldBool m ''skipLoginCheck'')) (\<lambda>skip.
     Inr \<lparr>rs_Name = name, rs_Namespace = namespace, rs_Server = srv, rs_Username = user, rs_Password = pass, rs_Email = email,
          rs_Insecure = insecure, rs_SkipLoginCheck = skip\<rparr>))))))))"

definition loginCheck :: "('r, 'c, 'd) api \<Rightarrow> RegistrySecretRequest \<Rightarrow> error + unit" where
  "loginCheck w b = (if rs_SkipLoginCheck b then Inr ()
     else VerifyRegistryLogin (if rs_Insecure b then ai_insecureWeb w else fr_web w) (rs_Server b) (rs_Username b) (rs_Password b))"

definition handleCreateRegistrySecret :: "('r, 'c, 'd) api \<Rightarrow> Config \<Rightarrow> ('c, 'd) handler" where
  "handleCreateRegistrySecret w cfg vs r =
     onFail (fr_errorText w) 400 (lift (rbind (readJSON w registryFields r) registryFromJSON)) (\<lambda>b.
       if rs_Name b = [] \<or> rs_Server b = [] \<or> rs_Username b = [] \<or> rs_Password b = []
       then (\<lambda>s. (writeErr 400 ''name, server, username and password are required'', s))
       else onFail (fr_errorText w) 400 (lift (loginCheck w b)) (\<lambda>_.
         let ns = (if rs_Namespace b = [] then ''default'' else rs_Namespace b) in
         withCluster w cfg (\<lambda>kb.
         onFail (fr_errorText w) 500 (onCall (ApplyDockerRegistrySecret (fr_client w) (fr_base64 w) (fr_json w) ns (rs_Name b) (rs_Server b)
             (rs_Username b) (rs_Password b) (rs_Email b))) (\<lambda>_.
           reply 201 [(''name'', JStr (rs_Name b)), (''namespace'', JStr ns), (''server'', JStr (rs_Server b))]))))"

definition handleDeleteSecret :: "('r, 'c, 'd) api \<Rightarrow> Config \<Rightarrow> ('c, 'd) handler" where
  "handleDeleteSecret w cfg vs r = withCluster w cfg (\<lambda>kb.
     onFail (fr_errorText w) 500 (onCall (DeleteSecret (fr_client w) (namespaceOrDefault r) (PathValue vs ''name''))) (\<lambda>_ s. ((204, JNull), s)))"

section \<open>Plugins and cluster\<close>

record PluginRequest =
  pq_Email :: string
  pq_Staging :: bool
  pq_Provider :: string
  pq_Size :: string
  pq_Replicas :: int
  pq_NFSServer :: string
  pq_NFSPath :: string

definition pluginFields :: "string list" where
  "pluginFields = [''email'', ''staging'', ''provider'', ''size'', ''replicas'', ''nfsServer'', ''nfsPath'']"

definition noPluginRequest :: PluginRequest where
  "noPluginRequest = \<lparr>pq_Email = [], pq_Staging = False, pq_Provider = [], pq_Size = [], pq_Replicas = 0, pq_NFSServer = [], pq_NFSPath = []\<rparr>"

definition pluginFromJSON :: "obj \<Rightarrow> error + PluginRequest" where
  "pluginFromJSON m =
     rbind (need (fieldString m ''email'')) (\<lambda>email. rbind (need (fieldBool m ''staging'')) (\<lambda>staging.
     rbind (need (fieldString m ''provider'')) (\<lambda>provider. rbind (need (fieldString m ''size'')) (\<lambda>sz.
     rbind (need (fieldInt int64_min int64_max m ''replicas'')) (\<lambda>replicas. rbind (need (fieldString m ''nfsServer'')) (\<lambda>nfsServer.
     rbind (need (fieldString m ''nfsPath'')) (\<lambda>nfsPath.
     Inr \<lparr>pq_Email = email, pq_Staging = staging, pq_Provider = provider, pq_Size = sz, pq_Replicas = replicas,
          pq_NFSServer = nfsServer, pq_NFSPath = nfsPath\<rparr>)))))))"

text \<open>Decoding with the error dropped: the fields of the right type are set, the others stay zero.\<close>

definition orZero :: "'a \<Rightarrow> 'a option \<Rightarrow> 'a" where
  "orZero z x = (case x of Some v \<Rightarrow> v | None \<Rightarrow> z)"

definition bodyFields :: "('r, 'c, 'd) api \<Rightarrow> httpRequest \<Rightarrow> obj" where
  "bodyFields w r = (case hx_Body r of None \<Rightarrow> [] | Some b \<Rightarrow> orZero [] (decodeStruct (ai_decode w b)))"

definition pluginInfoJSON :: "'c pstate \<Rightarrow> pluginSpec \<Rightarrow> iface" where
  "pluginInfoJSON st p = JObj ([(''name'', JStr (pg_Name p)), (''description'', JStr (pg_Description p)), (''version'', JStr (pg_Version p))] @
     (if pg_Providers p \<noteq> [] then [(''providers'', JArr (map JStr (pg_Providers p)))] else []) @
     [(''installed'', JBool (Installed st (pg_Name p)))])"

definition handleListPlugins :: "('r, 'c, 'd) api \<Rightarrow> ('c, 'd) handler" where
  "handleListPlugins w vs r = onFail (fr_errorText w) 500 (onManager (gets (\<lambda>st. map (pluginInfoJSON st) (ListPlugins (penv.truncate w)))))
     (\<lambda>ps. reply 200 [(''plugins'', JArr ps)])"

definition unknownPlugin :: "string \<Rightarrow> httpResponse" where
  "unknownPlugin name = writeErr 404 (''unknown plugin: '' @ name)"

definition handleInstallPlugin :: "('r, 'c, 'd) api \<Rightarrow> Config \<Rightarrow> ('c, 'd) handler" where
  "handleInstallPlugin w cfg vs r =
     onFail (fr_errorText w) 400 (lift (if hx_ContentLength r > 0 then rbind (readJSON w pluginFields r) pluginFromJSON else Inr noPluginRequest)) (\<lambda>b.
       let name = PathValue vs ''name'' in
       if map_of (Registry (penv.truncate w)) name = None then (\<lambda>s. (unknownPlugin name, s))
       else let opts = (installOptions (cg_Kubeconfig cfg) (pq_Email b))\<lparr>po_Staging := pq_Staging b, po_Provider := pq_Provider b,
              po_Size := pq_Size b, po_Replicas := pq_Replicas b, po_NFSServer := pq_NFSServer b, po_NFSPath := pq_NFSPath b\<rparr>
         in onFail (fr_errorText w) 500 (onManager (Install (penv.truncate w) name opts)) (\<lambda>_. reply 200 [(''installed'', JStr name)]))"

definition handleRemovePlugin :: "('r, 'c, 'd) api \<Rightarrow> Config \<Rightarrow> ('c, 'd) handler" where
  "handleRemovePlugin w cfg vs r =
     (let name = PathValue vs ''name'' in
      if map_of (Registry (penv.truncate w)) name = None then (\<lambda>s. (unknownPlugin name, s))
      else let m = (if hx_ContentLength r > 0 then bodyFields w r else []);
               opts = (installOptions (cg_Kubeconfig cfg) [])\<lparr>po_Provider := orZero [] (fieldString m ''provider''),
                 po_Replicas := orZero 0 (fieldInt int64_min int64_max m ''replicas'')\<rparr>
        in onFail (fr_errorText w) 500 (onManager (Remove (penv.truncate w) name opts)) (\<lambda>_ s. ((204, JNull), s)))"

definition handleCluster :: "('r, 'c, 'd) api \<Rightarrow> ('c, 'd) handler" where
  "handleCluster w vs r = onFail (fr_errorText w) 503 (onMachine (Status (fr_site w) [])) (\<lambda>st.
     reply 200 [(''name'', JStr (st_Name (sr_State st))), (''running'', JBool (sr_Running st)), (''server'', JStr (st_ServerURL (sr_State st))),
       (''runtime'', JStr (st_Runtime (sr_State st))), (''kubeconfig'', JStr (st_KubeconfigPath (sr_State st))), (''nodes'', JStr (sr_Nodes st))])"

section \<open>Open handlers\<close>

definition handleHealth :: "('c, 'd) handler" where
  "handleHealth vs r = reply 200 [(''status'', JStr ''ok'')]"

definition handleVersion :: "('r, 'c, 'd) api \<Rightarrow> ('c, 'd) handler" where
  "handleVersion w vs r = reply 200 [(''version'', JStr (fr_Version w)), (''gitCommit'', JStr (fr_GitCommit w)), (''kompose'', JStr (fr_KomposeRef w))]"

definition handleOpenAPIYAML :: "('r, 'c, 'd) api \<Rightarrow> ('c, 'd) handler" where
  "handleOpenAPIYAML w vs r s = ((200, JStr (ai_openapiYAML w)), s)"

definition handleOpenAPIJSON :: "('r, 'c, 'd) api \<Rightarrow> ('c, 'd) handler" where
  "handleOpenAPIJSON w vs r s = ((case ai_openapiJSON w of None \<Rightarrow> writeErr 500 ''invalid embedded openapi spec'' | Some j \<Rightarrow> (200, JStr j)), s)"

definition handleDocs :: "('r, 'c, 'd) api \<Rightarrow> ('c, 'd) handler" where
  "handleDocs w vs r s = ((200, JStr (ai_swaggerUI w)), s)"

section \<open>Routes\<close>

datatype seg = Lit string | Var string

fun matchSegs :: "seg list \<Rightarrow> string list \<Rightarrow> string gomap option" where
  "matchSegs [] [] = Some []"
| "matchSegs (Lit l # ps) (x # xs) = (if x = l then matchSegs ps xs else None)"
| "matchSegs (Var v # ps) (x # xs) = (if x = [] then None else map_option ((#) (v, x)) (matchSegs ps xs))"
| "matchSegs _ _ = None"

type_synonym ('c, 'd) route = "string \<times> seg list \<times> ('c, 'd) handler"

definition openRoutes :: "('r, 'c, 'd) api \<Rightarrow> ('c, 'd) route list" where
  "openRoutes w = [(''GET'', [Lit ''healthz''], handleHealth), (''GET'', [Lit ''version''], handleVersion w),
     (''GET'', [Lit ''openapi.json''], handleOpenAPIJSON w), (''GET'', [Lit ''openapi.yaml''], handleOpenAPIYAML w),
     (''GET'', [Lit ''docs''], handleDocs w)]"

definition v1 :: "string \<Rightarrow> seg list \<Rightarrow> ('c, 'd) handler \<Rightarrow> ('c, 'd) route" where
  "v1 m ps h = (m, Lit ''api'' # Lit ''v1'' # ps, h)"

definition readRoutes :: "('r, 'c, 'd) api \<Rightarrow> Config \<Rightarrow> ('c, 'd) route list" where
  "readRoutes w cfg =
    [v1 ''GET'' [Lit ''projects''] (handleListProjects w cfg),
     v1 ''GET'' [Lit ''projects'', Var ''project'', Lit ''pods''] (handleProjectPods w cfg),
     v1 ''GET'' [Lit ''projects'', Var ''project'', Lit ''config''] (handleProjectConfig w cfg),
     v1 ''GET'' [Lit ''secrets''] (handleListSecrets w cfg),
     v1 ''GET'' [Lit ''secrets'', Var ''name''] (handleGetSecret w cfg),
     v1 ''GET'' [Lit ''plugins''] (handleListPlugins w),
     v1 ''GET'' [Lit ''cluster''] (handleCluster w)]"

definition writeRoutes :: "('r, 'c, 'd) api \<Rightarrow> Config \<Rightarrow> ('c, 'd) route list" where
  "writeRoutes w cfg =
    [v1 ''POST'' [Lit ''convert''] (handleConvert w cfg),
     v1 ''POST'' [Lit ''deploy''] (handleDeploy w cfg),
     v1 ''DELETE'' [Lit ''projects'', Var ''project''] (handleRemoveProject w cfg),
     v1 ''POST'' [Lit ''projects'', Var ''project'', Lit ''services'', Var ''service'', Lit ''scale''] (handleScale w cfg),
     v1 ''POST'' [Lit ''projects'', Var ''project'', Lit ''services'', Var ''service'', Lit ''restart''] (handleRestart w cfg),
     v1 ''POST'' [Lit ''projects'', Var ''project'', Lit ''services'', Var ''service'', Lit ''rollback''] (handleRollback w cfg),
     v1 ''POST'' [Lit ''secrets''] (handleCreateSecret w cfg),
     v1 ''POST'' [Lit ''secrets'', Lit ''docker-registry''] (handleCreateRegistrySecret w cfg),
     v1 ''POST'' [Lit ''secrets'', Lit ''tls''] (handleCreateTLSSecret w cfg),
     v1 ''PATCH'' [Lit ''secrets'', Var ''name''] (handlePatchSecret w cfg),
     v1 ''DELETE'' [Lit ''secrets'', Var ''name''] (handleDeleteSecret w cfg),
     v1 ''POST'' [Lit ''plugins'', Var ''name''] (handleInstallPlugin w cfg),
     v1 ''DELETE'' [Lit ''plugins'', Var ''name''] (handleRemovePlugin w cfg)]"

definition routes :: "('r, 'c, 'd) api \<Rightarrow> Config \<Rightarrow> ('c, 'd) route list" where
  "routes w cfg = openRoutes w @ readRoutes w cfg @ writeRoutes w cfg"

text \<open>A \<^verbatim>\<open>GET\<close> pattern also serves \<^verbatim>\<open>HEAD\<close>; no two patterns of a method overlap.\<close>

definition takes :: "string \<Rightarrow> string list \<Rightarrow> ('c, 'd) route \<Rightarrow> bool" where
  "takes m segs rt = (case rt of (m', ps, _) \<Rightarrow> (m = m' \<or> (m' = ''GET'' \<and> m = ''HEAD'')) \<and> matchSegs ps segs \<noteq> None)"

definition cleanPath :: "string \<Rightarrow> string" where
  "cleanPath p0 = (let p = (if IsAbs p0 then p0 else slash # p0); np = Clean p
     in if last p = slash \<and> np \<noteq> [slash] then np @ [slash] else np)"

definition pathSegs :: "string \<Rightarrow> string list" where
  "pathSegs p = SplitChar slash (drop 1 p)"

definition serveMux :: "('r, 'c, 'd) api \<Rightarrow> Config \<Rightarrow> httpRequest \<Rightarrow> ('c, 'd) system \<Rightarrow> httpResponse \<times> ('c, 'd) system" where
  "serveMux w cfg r s =
     (let segs = pathSegs (hx_Path r) in
      if cleanPath (hx_Path r) \<noteq> hx_Path r then ((301, JNull), s)
      else case find (takes (hx_Method r) segs) (routes w cfg) of
        Some (_, ps, h) \<Rightarrow> h (the (matchSegs ps segs)) r s
      | None \<Rightarrow> ((if list_ex (\<lambda>(_, ps, _). matchSegs ps segs \<noteq> None) (routes w cfg) then 405 else 404, JNull), s))"

definition authorized :: "Config \<Rightarrow> httpRequest \<Rightarrow> bool" where
  "authorized cfg r \<longleftrightarrow> cg_Token cfg = [] \<or> TrimPrefix (hx_Authorization r) ''Bearer '' = cg_Token cfg"

definition Handler :: "('r, 'c, 'd) api \<Rightarrow> Config \<Rightarrow> httpRequest \<Rightarrow> ('c, 'd) system \<Rightarrow> httpResponse \<times> ('c, 'd) system" where
  "Handler w cfg r s =
     (if HasPrefix (hx_Path r) ''/api/'' \<and> \<not> authorized cfg r then (writeErr 401 ''missing or invalid bearer token'', s)
      else serveMux w cfg r s)"

section \<open>No token, no effect\<close>

lemma matchSegs_v1: "matchSegs (Lit a # Lit b # ps) segs \<noteq> None \<Longrightarrow> \<exists>xs. segs = a # b # xs"
  by (cases segs rule: list.exhaust [of _ "\<exists>xs. segs = a # b # xs"]; cases "tl segs") (auto split: if_splits)

lemma path_api:
  assumes "cleanPath p = p" and "pathSegs p = ''api'' # x # xs"
  shows "HasPrefix p ''/api/''"
proof -
  have "IsAbs p"
  proof (rule ccontr)
    assume "\<not> IsAbs p"
    then have "IsAbs (cleanPath p)" by (simp add: cleanPath_def Let_def Clean_def IsAbs_def HasPrefix_def)
    then show False using assms(1) \<open>\<not> IsAbs p\<close> by simp
  qed
  then obtain q where q: "p = slash # q" by (cases p) (auto simp: IsAbs_def HasPrefix_def)
  then have "SplitChar slash q = ''api'' # x # xs" using assms(2) by (simp add: pathSegs_def)
  then have "q = Orcinus_Prelude.Join (''api'' # x # xs) [slash]" by (metis Join_SplitChar)
  then show ?thesis using q by (auto simp: HasPrefix_def)
qed

lemma find_takes: "find P xs = Some x \<Longrightarrow> x \<in> set xs \<and> P x"
  by (metis find_Some_iff nth_mem)

lemma serveMux_missing:
  assumes "\<not> (cleanPath (hx_Path r) = hx_Path r \<and> find (takes (hx_Method r) (pathSegs (hx_Path r))) (routes w cfg) \<noteq> None)"
  shows "snd (serveMux w cfg r s) = s"
proof (cases "cleanPath (hx_Path r) = hx_Path r")
  case True
  then have "find (takes (hx_Method r) (pathSegs (hx_Path r))) (routes w cfg) = None" using assms by blast
  then show ?thesis by (simp only: serveMux_def Let_def option.case) simp
next
  case False
  then show ?thesis by (simp add: serveMux_def Let_def)
qed

lemma Handler_refused:
  assumes "\<not> authorized cfg r" and "Handler w cfg r s = (resp, s')"
  shows "s' = s \<and> (HasPrefix (hx_Path r) ''/api/'' \<longrightarrow> fst resp = 401)"
proof (cases "HasPrefix (hx_Path r) ''/api/''")
  case True
  then show ?thesis using assms by (auto simp: Handler_def writeErr_def)
next
  case False
  then have m: "serveMux w cfg r s = (resp, s')" using assms(2) by (simp add: Handler_def)
  let ?segs = "pathSegs (hx_Path r)"
  have "s' = s"
  proof (cases "cleanPath (hx_Path r) = hx_Path r \<and> find (takes (hx_Method r) ?segs) (routes w cfg) \<noteq> None")
    case True
    then obtain mt ps h where f: "find (takes (hx_Method r) ?segs) (routes w cfg) = Some (mt, ps, h)" by auto
    note t = find_takes [OF f]
    have "(mt, ps, h) \<in> set (openRoutes w)"
    proof (rule ccontr)
      assume "(mt, ps, h) \<notin> set (openRoutes w)"
      then have "(mt, ps, h) \<in> set (readRoutes w cfg @ writeRoutes w cfg)" using t by (auto simp: routes_def)
      then obtain qs where "ps = Lit ''api'' # Lit ''v1'' # qs" by (auto simp: readRoutes_def writeRoutes_def v1_def)
      then obtain xs where "?segs = ''api'' # ''v1'' # xs" using t matchSegs_v1 [of "''api''" "''v1''" qs ?segs] by (auto simp: takes_def)
      then show False using path_api True False by blast
    qed
    then show ?thesis
      using m f True by (auto simp: serveMux_def openRoutes_def handleHealth_def handleVersion_def handleOpenAPIJSON_def
          handleOpenAPIYAML_def handleDocs_def reply_def)
  next
    case False
    then show ?thesis using serveMux_missing [OF False, of s] m by (simp only: snd_conv)
  qed
  then show ?thesis using False by simp
qed

text \<open>
  C5: With a token configured, a request that does not present it changes nothing at all, and one below \<^verbatim>\<open>/api/\<close> is
  answered with 401, whatever its method, path and body.
\<close>

theorem Handler_unauthorized:
  assumes "\<not> authorized cfg r" and "Handler w cfg r s = (resp, s')"
  shows "s' = s \<and> (HasPrefix (hx_Path r) ''/api/'' \<longrightarrow> fst resp = 401)"
  using assms by (rule Handler_refused)

section \<open>Reading requests\<close>

definition calm :: "('s \<Rightarrow> 'v) \<Rightarrow> ('s \<Rightarrow> 'r \<times> 's) \<Rightarrow> bool" where
  "calm view h \<longleftrightarrow> (\<forall>s. view (snd (h s)) = view s)"

lemma calm_onFail: "keeps (same_view view) m \<Longrightarrow> (\<And>x. calm view (k x)) \<Longrightarrow> calm view (onFail txt status m k)"
  by (auto simp: calm_def onFail_def keeps_def same_view_def split: prod.splits sum.splits) (metis snd_conv)+

lemma calm_reply: "calm view (reply status body)"
  by (simp add: calm_def reply_def)

lemma calm_const: "calm view (\<lambda>s. (r, s))"
  by (simp add: calm_def)

lemma keeps_onCall: "keeps (same_view view) m \<Longrightarrow> keeps (same_view (seen view ct)) (onCall m)"
  unfolding onCall_def by (rule keeps_onManager)

lemma keeps_connect: "discovery_ok w view \<Longrightarrow> keeps (same_view view) (connect (penv.truncate w) cfg)"
  by (auto simp: keeps_def same_view_def connect_def discovery_ok_def penv.truncate_def split: option.splits)

lemma calm_withCluster:
  assumes "discovery_ok w view" and "\<And>kb. calm (seen view ct) (k kb)"
  shows "calm (seen view ct) (withCluster w cfg k)"
proof -
  have "discovery_ok (front.truncate w) view" using assms(1) by (simp add: discovery_ok_def front.truncate_def)
  from keeps_connect [OF this] have "keeps (same_view view) (applier (front.truncate w) kc)" for kc
    unfolding applier_def by (intro viewed.keeps_rules)
  then show ?thesis unfolding withCluster_def by (intro calm_onFail keeps_onCall assms(2))
qed

lemmas calm_rules = calm_onFail calm_reply calm_const keeps_onCall keeps_look viewed.keeps_lift

lemma calm_GetSecret:
  assumes "discovery_ok w view"
  shows "calm (seen view ct) (handleGetSecret w cfg vs r)"
  unfolding handleGetSecret_def
proof (rule calm_withCluster [OF assms])
  fix kb
  let ?m = "onCall (look (\<lambda>c. found (GetSecret (fr_client w) (namespaceOrDefault r) (PathValue vs ''name'') c)))"
  have "keeps (same_view (seen view ct)) ?m" by (intro keeps_onCall keeps_look)
  then show "calm (seen view ct) (\<lambda>s. case ?m s of
       (Inl e, s) \<Rightarrow> (writeErr (secretStatus e) (fr_errorText w e), s)
     | (Inr sec, s) \<Rightarrow> reply 200 ([(''name'', JStr (sd_Name sec)), (''namespace'', JStr (sd_Namespace sec)), (''type'', JStr (sd_Type sec)),
           (''managedBy'', JBool (sd_ManagedBy sec)), (''keys'', JArr (map JStr (KeyNames sec)))] @
         (if Get r ''showValues'' = ''true'' then [(''values'', JObj (toStringMapIface (sd_Data sec)))]
          else [(''redacted'', JBool True)])) s)"
    by (auto simp: calm_def reply_def keeps_def same_view_def split: prod.splits sum.splits) (metis snd_conv)+
qed

lemma readRoutes_calm:
  assumes "discovery_ok w view" and "machine_ok (fr_site w) ct made"
    and "(m, ps, h) \<in> set (openRoutes w @ readRoutes w cfg)"
  shows "calm (seen view ct) (h vs r)"
proof -
  note status = keeps_onMachine [OF keeps_Status [OF assms(2)]]
  have listing: "keeps (same_view (seen view ct)) (onManager (gets f))" for f :: "'b pstate \<Rightarrow> iface list"
    by (simp add: keeps_def same_view_def onManager_def gets_def)
  consider (open_route) "(m, ps, h) \<in> set (openRoutes w)" | (get) "h = handleGetSecret w cfg"
    | (config) "h = handleProjectConfig w cfg" | (projects) "h = handleListProjects w cfg" | (pods) "h = handleProjectPods w cfg"
    | (secrets) "h = handleListSecrets w cfg" | (plugins) "h = handleListPlugins w" | (cluster) "h = handleCluster w"
    using assms(3) by (auto simp: readRoutes_def v1_def)
  then show ?thesis
  proof cases
    case open_route
    then show ?thesis
      by (auto simp: openRoutes_def handleHealth_def handleVersion_def handleOpenAPIJSON_def handleOpenAPIYAML_def handleDocs_def
          calm_def reply_def)
  next
    case get
    then show ?thesis by (simp add: calm_GetSecret [OF assms(1)])
  next
    case config
    show ?thesis
      unfolding config handleProjectConfig_def Let_def
      by (intro calm_withCluster [OF assms(1)] calm_rules) (auto intro!: calm_rules split: option.split)
  next
    case projects
    show ?thesis unfolding projects handleListProjects_def by (intro calm_withCluster [OF assms(1)] calm_rules)
  next
    case pods
    show ?thesis unfolding pods handleProjectPods_def by (intro calm_withCluster [OF assms(1)] calm_rules)
  next
    case secrets
    show ?thesis unfolding secrets handleListSecrets_def by (intro calm_withCluster [OF assms(1)] calm_rules)
  next
    case plugins
    show ?thesis unfolding plugins handleListPlugins_def by (intro calm_onFail calm_reply listing)
  next
    case cluster
    show ?thesis unfolding cluster handleCluster_def by (intro calm_onFail calm_reply status)
  qed
qed

text \<open>
  C7: \<^verbatim>\<open>GET\<close> and \<^verbatim>\<open>HEAD\<close> are safe: whatever is asked for, the cluster, the record of plugins and the containers stay as they are.
\<close>

theorem Handler_get_safe:
  assumes "discovery_ok w view" and "machine_ok (fr_site w) ct made"
    and "hx_Method r = ''GET'' \<or> hx_Method r = ''HEAD''" and "Handler w cfg r s = (resp, s')"
  shows "seen view ct s' = seen view ct s"
proof -
  let ?segs = "pathSegs (hx_Path r)"
  have "seen view ct (snd (serveMux w cfg r s)) = seen view ct s"
  proof (cases "cleanPath (hx_Path r) = hx_Path r \<and> find (takes (hx_Method r) ?segs) (routes w cfg) \<noteq> None")
    case True
    then obtain mt ps h where f: "find (takes (hx_Method r) ?segs) (routes w cfg) = Some (mt, ps, h)" by auto
    note t = find_takes [OF f]
    then have "mt = ''GET'' \<or> mt = ''HEAD''" using assms(3) by (auto simp: takes_def)
    then have "(mt, ps, h) \<in> set (openRoutes w @ readRoutes w cfg)"
      using t by (auto simp: routes_def writeRoutes_def v1_def)
    from readRoutes_calm [OF assms(1,2) this] show ?thesis using f True by (simp add: serveMux_def calm_def)
  next
    case False
    show ?thesis by (simp only: serveMux_missing [OF False])
  qed
  then show ?thesis using assms(4) by (auto simp: Handler_def split: if_splits)
qed

section \<open>The two theorems at work\<close>

definition sample_api :: "(unit, (gvr \<times> obj) list, (string \<times> string list) list) api" where
  "sample_api = front.extend sample_front
     \<lparr>ai_decode = (\<lambda>_. None), ai_base64 = (\<lambda>_. None), ai_openapiYAML = ''openapi: 3'', ai_openapiJSON = None, ai_swaggerUI = ''<html>'',
      ai_insecureWeb = sample_web\<rparr>"

definition sample_request :: "string \<Rightarrow> string \<Rightarrow> httpRequest" where
  "sample_request m p = \<lparr>hx_Method = m, hx_Path = p, hx_Query = [], hx_Authorization = [], hx_ContentType = [], hx_Body = None,
     hx_ContentLength = 0\<rparr>"

lemma sample_api_ok: "discovery_ok sample_api id" "machine_ok (fr_site sample_api) map_of id"
  using sample_front_ok by (simp_all add: discovery_ok_def sample_api_def front.extend_def)

theorem Handler_unauthorized_witness:
  "fst (fst (Handler sample_api \<lparr>cg_Token = ''t'', cg_Kubeconfig = []\<rparr> (sample_request ''DELETE'' ''/api/v1/secrets/db'') sample_system)) = 401"
proof -
  have "\<not> authorized \<lparr>cg_Token = ''t'', cg_Kubeconfig = []\<rparr> (sample_request ''DELETE'' ''/api/v1/secrets/db'')"
    by (simp add: authorized_def sample_request_def TrimPrefix_def HasPrefix_def)
  from Handler_unauthorized [OF this prod.collapse [symmetric], of sample_api sample_system] show ?thesis
    by (simp add: sample_request_def HasPrefix_def)
qed

theorem Handler_get_safe_witness:
  "seen id map_of (snd (Handler sample_api \<lparr>cg_Token = [], cg_Kubeconfig = []\<rparr> (sample_request ''GET'' ''/api/v1/projects'') sample_system)) =
   seen id map_of sample_system"
proof -
  have "hx_Method (sample_request ''GET'' ''/api/v1/projects'') = ''GET'' \<or> hx_Method (sample_request ''GET'' ''/api/v1/projects'') = ''HEAD''"
    by (simp add: sample_request_def)
  then show ?thesis by (rule Handler_get_safe [OF sample_api_ok _ prod.collapse [symmetric]])
qed

section \<open>What the removal leaves out\<close>

text \<open>
  The body of a removal is read for the provider and the replicas only: the plan of NFS storage asks for a server and a path, so
  removing it over the API fails whatever the body holds.
\<close>

lemma handleRemovePlugin_nfs:
  assumes "PathValue vs ''name'' = ''storage''" and "hx_ContentLength r > 0"
    and "fieldString (bodyFields w r) ''provider'' = Some ''nfs''"
  shows "fst (fst (handleRemovePlugin w cfg vs r s)) = 500"
proof -
  obtain spec where spec: "map_of (Registry (penv.truncate w)) ''storage'' = Some spec"
    "pg_Build spec = Some (buildStorage (pe_quantity (penv.truncate w)))"
    by (auto simp: Registry_def specs_def specOf_def)
  let ?opts = "\<lambda>n. (installOptions (cg_Kubeconfig cfg) [])\<lparr>po_Provider := ''nfs'', po_Replicas := n\<rparr>"
  have "resolve spec (?opts n) = Inl (Missing ''--nfs-server/--nfs-path'')" for n
    using spec(2) by (simp add: resolve_def buildStorage_def installOptions_def)
  then have "\<exists>e s'. onManager (Remove (penv.truncate w) ''storage'' (?opts n)) s = (Inl e, s')" for n
    using spec(1)
    by (auto simp: onManager_def Remove_def andThen_def onCluster_def removeSteps_def ebind_def connect_def fail_def
        split: prod.splits sum.splits option.splits)
  then obtain e s' where "onManager (Remove (penv.truncate w) ''storage''
      (?opts (orZero 0 (fieldInt int64_min int64_max (bodyFields w r) ''replicas'')))) s = (Inl e, s')" by blast
  then show ?thesis
    using assms spec(1) by (simp add: handleRemovePlugin_def Let_def orZero_def onFail_def failure_def writeErr_def split: error.split)
qed

end
