(* ===== verification/Command_Tree.thy ===== *)
theory Command_Tree
  imports Orcinus_Prelude
begin

text \<open>
  What \<^verbatim>\<open>pkg/cli\<close> uses of cobra: a command has a usage line, aliases, a rule for its arguments, flags with their defaults, and a body; commands
  form a tree. An invocation of a command is what cobra has read off the command line: the flags that were set, in their order, the positional arguments, and how
  many of these stand before a \<^verbatim>\<open>--\<close>. How the words of the command line become an invocation is cobra's.

  A body reads its flags and arguments here as the closures of the code do. A flag that was never declared, or declared with another type, and an
  argument that is not there, are a panic; \<open>safe_body\<close> and its rules are for showing that there is none.
\<close>

section \<open>Flags\<close>

datatype setting = Text string | Switch bool | Number int | Texts "string list" | Span int   \<comment> \<open>nanoseconds\<close>

datatype kind = TextK | SwitchK | NumberK | TextsK | SpanK

fun kindOf :: "setting \<Rightarrow> kind" where
  "kindOf (Text _) = TextK"
| "kindOf (Switch _) = SwitchK"
| "kindOf (Number _) = NumberK"
| "kindOf (Texts _) = TextsK"
| "kindOf (Span _) = SpanK"

record flag =
  fg_Name :: string
  fg_Short :: string                  \<comment> \<open>empty without a shorthand\<close>
  fg_Default :: setting

definition VarP :: "string \<Rightarrow> string \<Rightarrow> setting \<Rightarrow> flag" where
  "VarP name short dflt = \<lparr>fg_Name = name, fg_Short = short, fg_Default = dflt\<rparr>"

definition StringVar :: "string \<Rightarrow> string \<Rightarrow> flag" where
  "StringVar name dflt = VarP name [] (Text dflt)"

definition BoolVar :: "string \<Rightarrow> bool \<Rightarrow> flag" where
  "BoolVar name dflt = VarP name [] (Switch dflt)"

definition IntVar :: "string \<Rightarrow> int \<Rightarrow> flag" where
  "IntVar name dflt = VarP name [] (Number dflt)"

definition StringArrayVar :: "string \<Rightarrow> flag" where
  "StringArrayVar name = VarP name [] (Texts [])"

text \<open>The flags set on a command line. A list flag collects what it is given, any other one keeps the last value.\<close>

type_synonym settings = "(string \<times> setting) list"

fun textsIn :: "string \<Rightarrow> settings \<Rightarrow> string list" where
  "textsIn name [] = []"
| "textsIn name ((n, v) # rest) = (case v of Texts ts \<Rightarrow> (if n = name then ts else []) | _ \<Rightarrow> []) @ textsIn name rest"

definition Changed :: "settings \<Rightarrow> string \<Rightarrow> bool" where
  "Changed given name \<longleftrightarrow> name \<in> fst ` set given"

definition lookupFlag :: "flag list \<Rightarrow> string \<Rightarrow> flag option" where
  "lookupFlag flags name = find (\<lambda>f. fg_Name f = name) flags"

definition valueOf :: "flag list \<Rightarrow> settings \<Rightarrow> string \<Rightarrow> setting option" where
  "valueOf flags given name = (case lookupFlag flags name of
     None \<Rightarrow> None
   | Some f \<Rightarrow> Some (
       if \<not> Changed given name then fg_Default f
       else case fg_Default f of
         Texts _ \<Rightarrow> Texts (textsIn name given)
       | d \<Rightarrow> (case map_of (rev given) name of Some v \<Rightarrow> v | None \<Rightarrow> d)))"

text \<open>Only declared flags can be set, to values of their type.\<close>

definition typed :: "flag list \<Rightarrow> settings \<Rightarrow> bool" where
  "typed flags given \<longleftrightarrow> list_all (\<lambda>(n, v). case lookupFlag flags n of None \<Rightarrow> False | Some f \<Rightarrow> kindOf v = kindOf (fg_Default f)) given"

section \<open>Commands\<close>

record invocation =
  iv_Set :: settings
  iv_Args :: "string list"
  iv_Dash :: int                      \<comment> \<open>\<^verbatim>\<open>ArgsLenAtDash\<close>: below zero without a \<^verbatim>\<open>--\<close>\<close>

type_synonym vals = "string \<Rightarrow> setting option"

text \<open>The rules of cobra, and one of its own a command may have; without a rule a command takes any arguments.\<close>

datatype argRule = AnyArgs | NoArgs | ExactArgs nat | MaximumNArgs nat | MinimumNArgs nat
  | OwnArgs "vals \<Rightarrow> invocation \<Rightarrow> error + unit"

fun checkArgs :: "argRule \<Rightarrow> vals \<Rightarrow> invocation \<Rightarrow> error + unit" where
  "checkArgs AnyArgs v iv = Inr ()"
| "checkArgs NoArgs v iv = (if iv_Args iv = [] then Inr () else Inl (Excluded ''arguments'' (hd (iv_Args iv))))"
| "checkArgs (ExactArgs n) v iv = (if length (iv_Args iv) = n then Inr () else Inl (Missing ''arguments''))"
| "checkArgs (MaximumNArgs n) v iv = (if length (iv_Args iv) \<le> n then Inr () else Inl (Excluded ''arguments'' []))"
| "checkArgs (MinimumNArgs n) v iv = (if n \<le> length (iv_Args iv) then Inr () else Inl (Missing ''arguments''))"
| "checkArgs (OwnArgs check) v iv = check v iv"

lemma checkArgs_Inr [simp]:
  "checkArgs NoArgs v iv = Inr () \<longleftrightarrow> iv_Args iv = []"
  "checkArgs (ExactArgs n) v iv = Inr () \<longleftrightarrow> length (iv_Args iv) = n"
  "checkArgs (MaximumNArgs n) v iv = Inr () \<longleftrightarrow> length (iv_Args iv) \<le> n"
  "checkArgs (MinimumNArgs n) v iv = Inr () \<longleftrightarrow> n \<le> length (iv_Args iv)"
  by auto

declare checkArgs.simps(2-5) [simp del]

record 'm cobra =
  cb_Use :: string
  cb_Aliases :: "string list"
  cb_Args :: argRule
  cb_Hidden :: bool
  cb_GroupID :: string
  cb_DisableFlagParsing :: bool
  cb_Flags :: "flag list"
  cb_RunE :: "(vals \<Rightarrow> invocation \<Rightarrow> error + 'm) option"

datatype 'm command = Command (header: "'m cobra") (subcommands: "'m command list")

definition leaf :: "string \<Rightarrow> argRule \<Rightarrow> flag list \<Rightarrow> (vals \<Rightarrow> invocation \<Rightarrow> error + 'm) \<Rightarrow> 'm command" where
  "leaf use rule flags run = Command \<lparr>cb_Use = use, cb_Aliases = [], cb_Args = rule, cb_Hidden = False, cb_GroupID = [],
     cb_DisableFlagParsing = False, cb_Flags = flags, cb_RunE = Some run\<rparr> []"

text \<open>A command that only holds others.\<close>

definition branch :: "string \<Rightarrow> 'm command list \<Rightarrow> 'm command" where
  "branch use subs = Command \<lparr>cb_Use = use, cb_Aliases = [], cb_Args = AnyArgs, cb_Hidden = False, cb_GroupID = [],
     cb_DisableFlagParsing = False, cb_Flags = [], cb_RunE = None\<rparr> subs"

definition withHeader :: "('m cobra \<Rightarrow> 'm cobra) \<Rightarrow> 'm command \<Rightarrow> 'm command" where
  "withHeader f c = Command (f (header c)) (subcommands c)"

text \<open>The name is the first word of the usage line.\<close>

definition nameOf :: "'m command \<Rightarrow> string" where
  "nameOf c = takeWhile (\<lambda>x. x \<noteq> CHR '' '') (cb_Use (header c))"

definition answersTo :: "string \<Rightarrow> 'm command \<Rightarrow> bool" where
  "answersTo word c \<longleftrightarrow> word = nameOf c \<or> word \<in> set (cb_Aliases (header c))"

fun commandAt :: "'m command \<Rightarrow> string list \<Rightarrow> 'm command option" where
  "commandAt c [] = Some c"
| "commandAt c (word # words) = (case find (answersTo word) (subcommands c) of None \<Rightarrow> None | Some s \<Rightarrow> commandAt s words)"

text \<open>Arguments are checked before the body runs; a command without a body prints its help.\<close>

definition valuesOf :: "'m command \<Rightarrow> invocation \<Rightarrow> vals" where
  "valuesOf c iv = valueOf (cb_Flags (header c)) (iv_Set iv)"

definition bodyOf :: "'m command \<Rightarrow> invocation \<Rightarrow> error + 'm" where
  "bodyOf c iv = rbind (checkArgs (cb_Args (header c)) (valuesOf c iv) iv) (\<lambda>_.
     case cb_RunE (header c) of None \<Rightarrow> Inl (Missing ''command'') | Some run \<Rightarrow> run (valuesOf c iv) iv)"

section \<open>What a body reads\<close>

definition textFlag :: "vals \<Rightarrow> string \<Rightarrow> error + string" where
  "textFlag v n = (case v n of Some (Text s) \<Rightarrow> Inr s | _ \<Rightarrow> Inl (Panic n))"

definition switchFlag :: "vals \<Rightarrow> string \<Rightarrow> error + bool" where
  "switchFlag v n = (case v n of Some (Switch b) \<Rightarrow> Inr b | _ \<Rightarrow> Inl (Panic n))"

definition numberFlag :: "vals \<Rightarrow> string \<Rightarrow> error + int" where
  "numberFlag v n = (case v n of Some (Number i) \<Rightarrow> Inr i | _ \<Rightarrow> Inl (Panic n))"

definition textsFlag :: "vals \<Rightarrow> string \<Rightarrow> error + string list" where
  "textsFlag v n = (case v n of Some (Texts ts) \<Rightarrow> Inr ts | _ \<Rightarrow> Inl (Panic n))"

definition spanFlag :: "vals \<Rightarrow> string \<Rightarrow> error + int" where
  "spanFlag v n = (case v n of Some (Span t) \<Rightarrow> Inr t | _ \<Rightarrow> Inl (Panic n))"

definition arg :: "invocation \<Rightarrow> nat \<Rightarrow> error + string" where
  "arg iv n = (if n < length (iv_Args iv) then Inr (iv_Args iv ! n) else Inl (Panic ''index out of range''))"

definition declares :: "flag list \<Rightarrow> string \<Rightarrow> kind \<Rightarrow> bool" where
  "declares flags n k \<longleftrightarrow> (case lookupFlag flags n of Some f \<Rightarrow> kindOf (fg_Default f) = k | None \<Rightarrow> False)"

definition defined :: "'e + 'a \<Rightarrow> bool" where
  "defined m \<longleftrightarrow> (\<exists>x. m = Inr x)"

lemma defined_Inr [simp]: "defined (Inr x)"
  by (simp add: defined_def)

lemma defined_rbind: "defined m \<Longrightarrow> (\<And>x. defined (f x)) \<Longrightarrow> defined (rbind m f)"
  by (auto simp: defined_def)

lemma kindOf_cases [elim]:
  "kindOf v = TextK \<Longrightarrow> (\<And>s. v = Text s \<Longrightarrow> P) \<Longrightarrow> P" "kindOf v = SwitchK \<Longrightarrow> (\<And>b. v = Switch b \<Longrightarrow> P) \<Longrightarrow> P"
  "kindOf v = NumberK \<Longrightarrow> (\<And>i. v = Number i \<Longrightarrow> P) \<Longrightarrow> P" "kindOf v = TextsK \<Longrightarrow> (\<And>ts. v = Texts ts \<Longrightarrow> P) \<Longrightarrow> P"
  "kindOf v = SpanK \<Longrightarrow> (\<And>t. v = Span t \<Longrightarrow> P) \<Longrightarrow> P"
  by (cases v; simp)+

lemma valueOf_kind:
  assumes "typed flags given" and "declares flags n k"
  shows "\<exists>v. valueOf flags given n = Some v \<and> kindOf v = k"
proof -
  from assms(2) obtain f where f: "lookupFlag flags n = Some f" "kindOf (fg_Default f) = k"
    by (auto simp: declares_def split: option.splits)
  have "kindOf v = k" if "map_of (rev given) n = Some v" for v
    using assms(1) map_of_SomeD [OF that] f by (fastforce simp: typed_def list_all_iff)
  then show ?thesis using f by (auto simp: valueOf_def split: setting.splits option.splits)
qed

lemma flags_defined:
  assumes "typed flags given"
  shows "declares flags n TextK \<Longrightarrow> defined (textFlag (valueOf flags given) n)"
    and "declares flags n SwitchK \<Longrightarrow> defined (switchFlag (valueOf flags given) n)"
    and "declares flags n NumberK \<Longrightarrow> defined (numberFlag (valueOf flags given) n)"
    and "declares flags n TextsK \<Longrightarrow> defined (textsFlag (valueOf flags given) n)"
    and "declares flags n SpanK \<Longrightarrow> defined (spanFlag (valueOf flags given) n)"
  using valueOf_kind [OF assms]
  by (fastforce simp: textFlag_def switchFlag_def numberFlag_def textsFlag_def spanFlag_def defined_def)+

lemma arg_defined: "n < length (iv_Args iv) \<Longrightarrow> defined (arg iv n)"
  by (simp add: arg_def)

text \<open>Every invocation of the command that cobra lets through reaches its body.\<close>

definition sound_body :: "'m command \<Rightarrow> bool" where
  "sound_body c \<longleftrightarrow> (\<forall>run iv. cb_RunE (header c) = Some run \<longrightarrow> typed (cb_Flags (header c)) (iv_Set iv) \<longrightarrow>
     checkArgs (cb_Args (header c)) (valuesOf c iv) iv = Inr () \<longrightarrow> defined (run (valuesOf c iv) iv))"

fun everywhere :: "('m command \<Rightarrow> bool) \<Rightarrow> 'm command \<Rightarrow> bool" where
  "everywhere P (Command h subs) \<longleftrightarrow> P (Command h subs) \<and> (\<forall>c\<in>set subs. everywhere P c)"

lemma everywhere_at: "everywhere P c \<Longrightarrow> commandAt c path = Some s \<Longrightarrow> P s"
proof (induction path arbitrary: c)
  case Nil
  then show ?case by (cases c) simp
next
  case (Cons w ws)
  obtain h subs where c: "c = Command h subs" by (cases c)
  from Cons.prems(2) obtain t where t: "find (answersTo w) subs = Some t" "commandAt t ws = Some s"
    by (auto simp: c split: option.splits)
  have "t \<in> set subs" using t(1) by (metis find_Some_iff nth_mem)
  with Cons.IH [OF _ t(2)] Cons.prems(1) c show ?case by simp
qed

section \<open>Well-formed trees\<close>

text \<open>
  Registering a flag or a shorthand twice is a panic at start-up, and of two commands that answer to the same word the second cannot be reached.
\<close>

definition flags_ok :: "flag list \<Rightarrow> bool" where
  "flags_ok flags \<longleftrightarrow> distinct (map fg_Name flags) \<and> distinct (filter (\<lambda>s. s \<noteq> []) (map fg_Short flags)) \<and>
     list_all (\<lambda>f. fg_Name f \<noteq> [] \<and> length (fg_Short f) \<le> 1 \<and> fg_Name f \<noteq> ''help'' \<and> fg_Short f \<noteq> ''h'') flags"

definition words :: "'m command \<Rightarrow> string list" where
  "words c = nameOf c # cb_Aliases (header c)"

definition node_ok :: "'m command \<Rightarrow> bool" where
  "node_ok c \<longleftrightarrow> flags_ok (cb_Flags (header c)) \<and> distinct (concat (map words (subcommands c))) \<and>
     (cb_RunE (header c) = None \<longrightarrow> subcommands c \<noteq> [])"

text \<open>Then every command is found by each of its words, and by no word of another one.\<close>

lemma find_distinct:
  assumes "distinct (concat (map words subs))" and "s \<in> set subs" and "w \<in> set (words s)"
  shows "find (answersTo w) subs = Some s"
  using assms
proof (induction subs)
  case (Cons t subs)
  have ans: "answersTo w c \<longleftrightarrow> w \<in> set (words c)" for c :: "'a command" by (simp add: answersTo_def words_def)
  show ?case
  proof (cases "s = t")
    case True
    then show ?thesis using Cons.prems(3) ans by simp
  next
    case False
    then have s: "s \<in> set subs" using Cons.prems(2) by simp
    then have "w \<notin> set (words t)" using Cons.prems(1,3) by fastforce
    then show ?thesis using Cons.IH [OF _ s Cons.prems(3)] Cons.prems(1) ans by simp
  qed
qed simp

end
