(* ===== verification/Host_Calls.thy ===== *)
theory Host_Calls
  imports Cluster_Cli
begin

text \<open>
  Two commands that work on the host itself: \<^verbatim>\<open>cluster netfix\<close>, \<^verbatim>\<open>pkg/cluster/netfix_linux.go\<close>, which waits for an interface and turns an offload
  off, and \<^verbatim>\<open>runtime\<close>, the \<^verbatim>\<open>Exec\<close> of \<^verbatim>\<open>pkg/runtime/embed.go\<close>, which replaces the process by the embedded runtime.

  The loop of the first runs until a deadline, so whether it ends depends on the clock: it is a partial function. The theorem is that it returns
  whenever sleeping takes its time, and what it has done by then.
\<close>

section \<open>Waiting for an interface\<close>

text \<open>The host: its clock, its interfaces and the ethtool socket. Times are in nanoseconds.\<close>

record 'd link =
  lk_now :: "'d \<Rightarrow> int"
  lk_interface :: "'d \<Rightarrow> string \<Rightarrow> bool"                          \<comment> \<open>\<^verbatim>\<open>net.InterfaceByName\<close> finds it\<close>
  lk_sleep :: "int \<Rightarrow> 'd \<Rightarrow> 'd"
  lk_socket :: "'d \<Rightarrow> bool"                                       \<comment> \<open>\<^verbatim>\<open>NewEthtool\<close> succeeds\<close>
  lk_change :: "string \<Rightarrow> (string \<times> bool) list \<Rightarrow> 'd \<Rightarrow> bool \<times> 'd"

definition second :: int where
  "second = 1000000000"

partial_function (option) awaitInterface :: "'d link \<Rightarrow> string \<Rightarrow> int \<Rightarrow> 'd \<Rightarrow> (bool \<times> 'd) option" where
  "awaitInterface lk iface deadline d =
     (if lk_interface lk d iface then Some (True, d)
      else if deadline < lk_now lk d then Some (False, d)
      else awaitInterface lk iface deadline (lk_sleep lk (2 * second) d))"

definition DisableVXLANChecksumOffload :: "'d link \<Rightarrow> string \<Rightarrow> int \<Rightarrow> 'd \<Rightarrow> ((error + unit) \<times> 'd) option" where
  "DisableVXLANChecksumOffload lk iface wait d = (case awaitInterface lk iface (lk_now lk d + wait) d of
     None \<Rightarrow> None
   | Some (False, d) \<Rightarrow> Some (Inl (WaitTimeout ''interface'' iface), d)
   | Some (True, d) \<Rightarrow>
       if \<not> lk_socket lk d then Some (Inl (CmdError ''ethtool''), d)
       else (case lk_change lk iface [(''tx-checksum-ip-generic'', False)] d of
          (False, d) \<Rightarrow> Some (Inl (CmdError iface), d)
        | (True, d) \<Rightarrow> Some (Inr (), d)))"

text \<open>Other systems.\<close>

definition netfixElsewhere :: "'d \<Rightarrow> ((error + unit) \<times> 'd) option" where
  "netfixElsewhere d = Some (Inl (NotSupported ''netfix is only available on linux''), d)"

text \<open>Sleeping takes the time it is given, or longer.\<close>

definition clock_ok :: "'d link \<Rightarrow> bool" where
  "clock_ok lk \<longleftrightarrow> (\<forall>n d. 0 \<le> n \<longrightarrow> lk_now lk d + n \<le> lk_now lk (lk_sleep lk n d))"

text \<open>The states the loop sees: each the one before, two seconds of sleep later.\<close>

definition afterPolls :: "'d link \<Rightarrow> nat \<Rightarrow> 'd \<Rightarrow> 'd" where
  "afterPolls lk n = (lk_sleep lk (2 * second)) ^^ n"

lemma afterPolls_Suc: "afterPolls lk (Suc n) d = afterPolls lk n (lk_sleep lk (2 * second) d)"
  by (simp add: afterPolls_def funpow_swap1)

lemma awaitInterface_ends:
  assumes "clock_ok lk"
  shows "\<exists>n found. awaitInterface lk iface deadline d = Some (found, afterPolls lk n d) \<and>
    (\<forall>k<n. \<not> lk_interface lk (afterPolls lk k d) iface \<and> lk_now lk (afterPolls lk k d) \<le> deadline) \<and>
    found = lk_interface lk (afterPolls lk n d) iface \<and> (\<not> found \<longrightarrow> deadline < lk_now lk (afterPolls lk n d))"
proof (induction "nat (deadline - lk_now lk d)" arbitrary: d rule: less_induct)
  case less
  consider "lk_interface lk d iface" | "\<not> lk_interface lk d iface" "deadline < lk_now lk d"
    | "\<not> lk_interface lk d iface" "lk_now lk d \<le> deadline" by linarith
  then show ?case
  proof cases
    case 3
    let ?d = "lk_sleep lk (2 * second) d"
    have "lk_now lk d + 2 * second \<le> lk_now lk ?d" using assms by (simp add: clock_ok_def second_def)
    then have shorter: "nat (deadline - lk_now lk ?d) < nat (deadline - lk_now lk d)" if "lk_now lk d < deadline"
      using that by (simp add: second_def)
    have "\<exists>n found. awaitInterface lk iface deadline ?d = Some (found, afterPolls lk n ?d) \<and>
        (\<forall>k<n. \<not> lk_interface lk (afterPolls lk k ?d) iface \<and> lk_now lk (afterPolls lk k ?d) \<le> deadline) \<and>
        found = lk_interface lk (afterPolls lk n ?d) iface \<and> (\<not> found \<longrightarrow> deadline < lk_now lk (afterPolls lk n ?d))"
    proof (cases "lk_now lk d < deadline")
      case True
      then show ?thesis using less [OF shorter] by blast
    next
      case False
      then have "deadline < lk_now lk ?d" using \<open>lk_now lk d + 2 * second \<le> lk_now lk ?d\<close> 3 by (simp add: second_def)
      then show ?thesis by (intro exI [of _ 0]) (simp add: awaitInterface.simps [of lk iface deadline ?d] afterPolls_def)
    qed
    then obtain n found where run: "awaitInterface lk iface deadline ?d = Some (found, afterPolls lk n ?d)"
      "\<forall>k<n. \<not> lk_interface lk (afterPolls lk k ?d) iface \<and> lk_now lk (afterPolls lk k ?d) \<le> deadline"
      "found = lk_interface lk (afterPolls lk n ?d) iface" "\<not> found \<longrightarrow> deadline < lk_now lk (afterPolls lk n ?d)" by blast
    have "\<not> lk_interface lk (afterPolls lk k d) iface \<and> lk_now lk (afterPolls lk k d) \<le> deadline" if "k < Suc n" for k
    proof (cases k)
      case 0
      then show ?thesis using 3 by (simp add: afterPolls_def)
    next
      case (Suc j)
      then show ?thesis using run(2) that by (simp add: afterPolls_Suc)
    qed
    moreover have "awaitInterface lk iface deadline d = Some (found, afterPolls lk (Suc n) d)"
      using 3 run(1) by (simp add: awaitInterface.simps [of lk iface deadline d] afterPolls_Suc)
    ultimately show ?thesis using run(3,4) by (intro exI [of _ "Suc n"] exI [of _ found]) (simp add: afterPolls_Suc)
  qed (auto intro!: exI [of _ 0] simp: awaitInterface.simps [of lk iface deadline d] afterPolls_def)
qed

lemma clock_polls: "clock_ok lk \<Longrightarrow> lk_now lk d + 2 * second * int n \<le> lk_now lk (afterPolls lk n d)"
proof (induction n arbitrary: d)
  case (Suc n)
  have "lk_now lk d + 2 * second \<le> lk_now lk (lk_sleep lk (2 * second) d)" using Suc.prems by (simp add: clock_ok_def second_def)
  with Suc.IH [OF Suc.prems, of "lk_sleep lk (2 * second) d"] show ?case by (simp add: afterPolls_Suc algebra_simps)
qed (simp add: afterPolls_def)

text \<open>
  C31: \<^verbatim>\<open>cluster netfix\<close> returns on every host whose sleeps take their time, after at most one poll more than there are two-second steps in the wait. It gives
  up only when the deadline is over and the interface is still missing; otherwise it has seen the interface, and what it does then is to turn off the one
  offload of that interface, once, and it succeeds exactly if that does; without the ethtool socket it changes nothing.
\<close>

theorem netfix_returns:
  assumes "clock_ok lk" and "0 \<le> wait"
  shows "\<exists>n r d'. DisableVXLANChecksumOffload lk iface wait d = Some (r, d') \<and> 2 * second * (int n - 1) \<le> wait \<and>
    (\<forall>k<n. \<not> lk_interface lk (afterPolls lk k d) iface) \<and>
    (if lk_interface lk (afterPolls lk n d) iface
     then if lk_socket lk (afterPolls lk n d)
       then (let (changed, d2) = lk_change lk iface [(''tx-checksum-ip-generic'', False)] (afterPolls lk n d)
         in d' = d2 \<and> r = (if changed then Inr () else Inl (CmdError iface)))
       else d' = afterPolls lk n d \<and> r = Inl (CmdError ''ethtool'')
     else r = Inl (WaitTimeout ''interface'' iface) \<and> d' = afterPolls lk n d \<and> lk_now lk d + wait < lk_now lk d')"
proof -
  from awaitInterface_ends [OF assms(1), of iface "lk_now lk d + wait" d] obtain n found where
    run: "awaitInterface lk iface (lk_now lk d + wait) d = Some (found, afterPolls lk n d)"
    "\<forall>k<n. \<not> lk_interface lk (afterPolls lk k d) iface \<and> lk_now lk (afterPolls lk k d) \<le> lk_now lk d + wait"
    "found = lk_interface lk (afterPolls lk n d) iface" "\<not> found \<longrightarrow> lk_now lk d + wait < lk_now lk (afterPolls lk n d)" by blast
  have "2 * second * (int n - 1) \<le> wait"
  proof (cases n)
    case (Suc k)
    then show ?thesis using run(2) clock_polls [OF assms(1), of d k] by fastforce
  qed (use assms(2) in \<open>simp add: second_def\<close>)
  then show ?thesis using run
    by (intro exI [of _ n]) (auto simp: DisableVXLANChecksumOffload_def split: prod.splits bool.splits)
qed

text \<open>A host with a clock in seconds; the interface is there from the third second on.\<close>

definition toy_link :: "(int \<times> bool) link" where
  "toy_link = \<lparr>lk_now = fst, lk_interface = (\<lambda>d i. i = ''flannel.1'' \<and> 3 * second \<le> fst d), lk_sleep = (\<lambda>n d. apfst ((+) n) d),
     lk_socket = (\<lambda>_. True), lk_change = (\<lambda>i fs d. (True, fst d, map_of fs ''tx-checksum-ip-generic'' = Some True))\<rparr>"

theorem netfix_returns_witness:
  "\<exists>n r d'. DisableVXLANChecksumOffload toy_link ''flannel.1'' (300 * second) (0, True) = Some (r, d') \<and> n = (2::nat) \<and>
     lk_interface toy_link (afterPolls toy_link n (0, True)) ''flannel.1'' \<and> d' = (4 * second, False)"
proof -
  let ?poll = "\<lambda>n. afterPolls toy_link n (0, True)" and ?run = "DisableVXLANChecksumOffload toy_link ''flannel.1'' (300 * second) (0, True)"
  have ok: "clock_ok toy_link" by (simp add: clock_ok_def toy_link_def)
  have polls: "?poll k = (2 * second * int k, True)" for k
    by (induction k) (simp_all add: afterPolls_def toy_link_def algebra_simps)
  have seen: "lk_interface toy_link (?poll k) ''flannel.1'' \<longleftrightarrow> 2 \<le> k" for k
  proof -
    have "lk_interface toy_link d ''flannel.1'' \<longleftrightarrow> 3 * second \<le> fst d" for d by (simp add: toy_link_def)
    then show ?thesis by (auto simp: polls second_def)
  qed
  have now: "lk_now toy_link = fst" by (simp add: toy_link_def)
  from netfix_returns [OF ok, of "300 * second" "''flannel.1''" "(0, True)"] obtain n r d' where
    run: "?run = Some (r, d')" "2 * second * (int n - 1) \<le> 300 * second" "\<forall>k<n. \<not> lk_interface toy_link (?poll k) ''flannel.1''"
    "if lk_interface toy_link (?poll n) ''flannel.1''
     then if lk_socket toy_link (?poll n)
       then (let (changed, d2) = lk_change toy_link ''flannel.1'' [(''tx-checksum-ip-generic'', False)] (?poll n)
         in d' = d2 \<and> r = (if changed then Inr () else Inl (CmdError ''flannel.1'')))
       else d' = ?poll n \<and> r = Inl (CmdError ''ethtool'')
     else r = Inl (WaitTimeout ''interface'' ''flannel.1'') \<and> d' = ?poll n \<and> lk_now toy_link (0, True) + 300 * second < lk_now toy_link d'"
    by (auto simp: second_def)
  have "n = 2"
  proof (rule ccontr)
    assume "n \<noteq> 2"
    then have "n < 2" using run(3) seen by (metis linorder_neqE_nat order_refl)
    then show False using run(4) seen [of n] polls [of n] now by (auto simp: second_def)
  qed
  moreover have "awaitInterface toy_link ''flannel.1'' (300 * second) (0, True) = Some (True, 4 * second, True)"
    by (simp add: awaitInterface.simps toy_link_def second_def)
  then have "?run = Some (Inr (), 4 * second, False)" by (simp add: DisableVXLANChecksumOffload_def toy_link_def)
  ultimately show ?thesis using run(1) seen [of 2] by simp
qed

section \<open>Becoming the runtime\<close>

text \<open>What \<^verbatim>\<open>execve\<close> does: it replaces the process, or the file is still being written, or it fails.\<close>

datatype execve = Replaced | Busy | Refused

fun execRetry :: "'d native \<Rightarrow> ('d \<Rightarrow> process \<Rightarrow> execve) \<Rightarrow> process \<Rightarrow> nat \<Rightarrow> ('d machine, process) cmd" where
  "execRetry nt ex px 0 = fail (CmdError ''exec runtime: still busy'')"
| "execRetry nt ex px (Suc n) = (\<lambda>m. case ex (ms_docker m) px of
     Replaced \<Rightarrow> (Inr px, m)
   | Busy \<Rightarrow> andThen (pause nt 100) (execRetry nt ex px n) m
   | Refused \<Rightarrow> (Inl (CmdError ''exec runtime''), m))"

text \<open>Without the standalone runtime there is nothing to become.\<close>

definition runtimeExec :: "'d native option \<Rightarrow> ('d \<Rightarrow> process \<Rightarrow> execve) \<Rightarrow> string list \<Rightarrow> ('d machine, process) cmd" where
  "runtimeExec nt ex args = (case nt of
     None \<Rightarrow> fail ErrNotStandalone
   | Some nt \<Rightarrow> ebind (ExtractPath nt) (\<lambda>path. execRetry nt ex \<lparr>px_argv = path # args, px_KUBECONFIG = None\<rparr> 100))"

text \<open>The process it becomes is the runtime with the arguments given, nothing added and none lost.\<close>

lemma execRetry_Inr: "execRetry nt ex px n m = (Inr qx, m') \<Longrightarrow> qx = px \<and> ex (ms_docker m') px = Replaced"
  by (induction n arbitrary: m) (auto simp: andThen_Inr split: execve.splits)

lemma runtimeExec_args:
  assumes "runtimeExec (Some nt) ex args m = (Inr px, m')"
  shows "\<exists>path m1. ExtractPath nt m = (Inr path, m1) \<and> px_argv px = path # args"
  using assms execRetry_Inr by (fastforce simp: runtimeExec_def ebind_Inr)

lemma runtimeExec_stub: "runtimeExec None ex args m = (Inl ErrNotStandalone, m)"
  by (simp add: runtimeExec_def)

end
