(* ===== verification/Commands.thy ===== *)
theory Commands
  imports Command_Tree Host_Calls Project_Cli Secret_Cli Deploy_Cli Skills_Cli Describe Logs Mcp_Server Api_Server Self_Update
begin

text \<open>
  The command tree of \<^verbatim>\<open>pkg/cli\<close>, from \<^verbatim>\<open>NewRootCmd\<close> down: one definition per \<^verbatim>\<open>new...Cmd\<close>, with the flags it declares, their defaults, the rule for its
  arguments and the body, which hands flags and arguments to the commands of the other theories. Help texts are left out. Here too are the two
  servers as commands, and the messages of \<^verbatim>\<open>orcinus update\<close>.

  The theorems: no invocation cobra lets through makes a body read an argument that is not there or a flag of another type; the commands for looking,
  a dry run and the MCP server as it is started by default change nothing; the API server started with a token serves those who present it.
\<close>

section \<open>The outside of a command\<close>

record ('r, 'c, 'd) outside =
  ot_api :: "('r, 'c, 'd) api"
  ot_disk :: disk
  ot_pods :: "'c pods"
  ot_streams :: "'c streams"
  ot_console :: console
  ot_describer :: "'c describer"
  ot_logs :: "'c podLogs"
  ot_follow :: "(string list \<times> error option) list \<Rightarrow> string \<times> error option"   \<comment> \<open>how the streams come together\<close>
  ot_inputs :: inputs
  ot_note :: "string \<Rightarrow> string"
  ot_denied :: "string \<Rightarrow> bool"
  ot_order :: "string list \<Rightarrow> string list"
  ot_update :: env
  ot_native :: "'d native option"
  ot_execve :: "'d \<Rightarrow> process \<Rightarrow> execve"
  ot_link :: "'d link option"                           \<comment> \<open>on Linux\<close>
  ot_kubectl :: "string option"                         \<comment> \<open>\<^verbatim>\<open>LookPath\<close>\<close>
  ot_DOCKER :: string                                   \<comment> \<open>\<^verbatim>\<open>ORCINUS_DOCKER\<close>\<close>
  ot_run :: "process \<Rightarrow> ('c, 'd) terminal \<Rightarrow> (error + unit) \<times> ('c, 'd) terminal"
  ot_TOKEN :: string                                    \<comment> \<open>\<^verbatim>\<open>ORCINUS_API_TOKEN\<close>\<close>
  ot_listen :: "error option"                           \<comment> \<open>why listening ended by itself, if it did\<close>
  ot_requests :: "httpRequest list"                     \<comment> \<open>in the order they are handled\<close>
  ot_shutdown :: "error option"
  ot_lines :: "string list"                             \<comment> \<open>standard input of the MCP server\<close>
  ot_parse :: "string \<Rightarrow> rpcRequest option"
  ot_response :: "string \<times> rpcResult \<Rightarrow> string"
  ot_scanError :: "error option"

definition frontOf :: "('r, 'c, 'd) outside \<Rightarrow> ('r, 'c, 'd) front" where
  "frontOf o' = front.truncate (ot_api o')"

type_synonym ('c, 'd) action = "(('c, 'd) terminal, unit) cmd"

definition kubeconfigVar :: flag where
  "kubeconfigVar = StringVar ''kubeconfig'' []"

definition namespaceVar :: "string \<Rightarrow> flag" where
  "namespaceVar dflt = VarP ''namespace'' ''n'' (Text dflt)"

text \<open>The two flags nearly every command reads.\<close>

definition clusterFlags :: "vals \<Rightarrow> error + string \<times> string" where
  "clusterFlags v = rbind (textFlag v ''kubeconfig'') (\<lambda>kubeconfig. rbind (textFlag v ''namespace'') (\<lambda>namespace. Inr (kubeconfig, namespace)))"

definition ending :: "error option \<Rightarrow> ('s, unit) cmd" where
  "ending e = (case e of None \<Rightarrow> ret () | Some e \<Rightarrow> fail e)"

section \<open>Projects\<close>

definition newLsCmd :: "('r, 'c, 'd) outside \<Rightarrow> ('c, 'd) action command" where
  "newLsCmd o' = leaf ''ls'' AnyArgs [kubeconfigVar, namespaceVar [], VarP ''all-namespaces'' ''A'' (Switch True)] (\<lambda>v iv.
     rbind (clusterFlags v) (\<lambda>(kubeconfig, namespace). rbind (switchFlag v ''all-namespaces'') (\<lambda>every.
     Inr (lsCmd (frontOf o') kubeconfig namespace every))))"

definition newPsCmd :: "('r, 'c, 'd) outside \<Rightarrow> ('c, 'd) action command" where
  "newPsCmd o' = leaf ''ps <project>'' (ExactArgs 1) [kubeconfigVar, namespaceVar []] (\<lambda>v iv.
     rbind (clusterFlags v) (\<lambda>(kubeconfig, namespace). rbind (arg iv 0) (\<lambda>project.
     Inr (psCmd (frontOf o') kubeconfig namespace project))))"

definition newRmCmd :: "('r, 'c, 'd) outside \<Rightarrow> ('c, 'd) action command" where
  "newRmCmd o' = leaf ''rm <project>'' (ExactArgs 1) [kubeconfigVar, namespaceVar ''default''] (\<lambda>v iv.
     rbind (clusterFlags v) (\<lambda>(kubeconfig, namespace). rbind (arg iv 0) (\<lambda>project.
     Inr (rmCmd (frontOf o') kubeconfig namespace project))))"

definition newConfigCmd :: "('r, 'c, 'd) outside \<Rightarrow> ('c, 'd) action command" where
  "newConfigCmd o' = leaf ''config [project]'' (MaximumNArgs 1)
     [kubeconfigVar, namespaceVar ''default'', VarP ''format'' ''o'' (Text ''summary''), BoolVar ''show-secrets'' False] (\<lambda>v iv.
     rbind (clusterFlags v) (\<lambda>(kubeconfig, namespace). rbind (textFlag v ''format'') (\<lambda>fmt. rbind (switchFlag v ''show-secrets'') (\<lambda>show.
     Inr (configCmd (frontOf o') kubeconfig namespace fmt show (case iv_Args iv of [p] \<Rightarrow> Some p | _ \<Rightarrow> None))))))"

definition newScaleCmd :: "('r, 'c, 'd) outside \<Rightarrow> ('c, 'd) action command" where
  "newScaleCmd o' = leaf ''scale <service> <replicas>'' (ExactArgs 2) [kubeconfigVar, namespaceVar ''default''] (\<lambda>v iv.
     rbind (clusterFlags v) (\<lambda>(kubeconfig, namespace). rbind (arg iv 0) (\<lambda>service. rbind (arg iv 1) (\<lambda>amount.
     Inr (scaleCmd (frontOf o') kubeconfig namespace service amount)))))"

definition newAutoscaleCmd :: "('r, 'c, 'd) outside \<Rightarrow> ('c, 'd) action command" where
  "newAutoscaleCmd o' = leaf ''autoscale <service>'' (ExactArgs 1)
     [kubeconfigVar, namespaceVar ''default'', IntVar ''min'' 1, IntVar ''max'' 0, IntVar ''cpu'' 0, IntVar ''memory'' 0] (\<lambda>v iv.
     rbind (clusterFlags v) (\<lambda>(kubeconfig, namespace). rbind (numberFlag v ''min'') (\<lambda>least. rbind (numberFlag v ''max'') (\<lambda>most.
     rbind (numberFlag v ''cpu'') (\<lambda>cpu. rbind (numberFlag v ''memory'') (\<lambda>memory. rbind (arg iv 0) (\<lambda>service.
     Inr (autoscaleCmd (frontOf o') kubeconfig namespace least most cpu memory service))))))))"

definition newRestartCmd :: "('r, 'c, 'd) outside \<Rightarrow> ('c, 'd) action command" where
  "newRestartCmd o' = leaf ''restart <service>'' (ExactArgs 1) [kubeconfigVar, namespaceVar ''default''] (\<lambda>v iv.
     rbind (clusterFlags v) (\<lambda>(kubeconfig, namespace). rbind (arg iv 0) (\<lambda>service.
     Inr (restartCmd (frontOf o') kubeconfig namespace service))))"

definition newRollbackCmd :: "('r, 'c, 'd) outside \<Rightarrow> ('c, 'd) action command" where
  "newRollbackCmd o' = leaf ''rollback <service>'' (ExactArgs 1) [kubeconfigVar, namespaceVar ''default''] (\<lambda>v iv.
     rbind (clusterFlags v) (\<lambda>(kubeconfig, namespace). rbind (arg iv 0) (\<lambda>service.
     Inr (rollbackCmd (frontOf o') kubeconfig namespace service))))"

text \<open>\<^verbatim>\<open>logs\<close>: with \<^verbatim>\<open>--follow\<close> the streams come together as the goroutines run.\<close>

definition logsFollowCmd :: "('r, 'c, 'd) outside \<Rightarrow> string \<Rightarrow> string \<Rightarrow> string \<Rightarrow> string \<Rightarrow> ('c, 'd) action" where
  "logsFollowCmd o' kubeconfig project namespace service =
     ebind (applierFor (frontOf o') kubeconfig (\<lambda>kb. look (\<lambda>c. logStreams (fr_reader (frontOf o')) (ot_logs o') c service project namespace)))
       (\<lambda>streams. case ot_follow o' streams of (text, first) \<Rightarrow> andThen (say text) (ending first))"

definition newLogsCmd :: "('r, 'c, 'd) outside \<Rightarrow> ('c, 'd) action command" where
  "newLogsCmd o' = leaf ''logs <service>'' (ExactArgs 1)
     [kubeconfigVar, namespaceVar ''default'', StringVar ''project'' [], VarP ''follow'' ''f'' (Switch False)] (\<lambda>v iv.
     rbind (clusterFlags v) (\<lambda>(kubeconfig, namespace). rbind (textFlag v ''project'') (\<lambda>project. rbind (switchFlag v ''follow'') (\<lambda>follow.
     rbind (arg iv 0) (\<lambda>service.
     Inr (if follow then logsFollowCmd o' kubeconfig project namespace service
          else logsCmd (frontOf o') (ot_logs o') kubeconfig project namespace service))))))"

text \<open>The error \<^verbatim>\<open>exec\<close> returns: an exit status is one, too; it decides the status orcinus ends with.\<close>

definition execFailure :: "execError option \<Rightarrow> error option" where
  "execFailure e = (case e of None \<Rightarrow> None | Some (Orcinus e) \<Rightarrow> Some e | Some (ExitStatus n) \<Rightarrow> Some (CmdError ''exit status''))"

definition newExecCmd :: "('r, 'c, 'd) outside \<Rightarrow> ('c, 'd) action command" where
  "newExecCmd o' = leaf ''exec <service> [flags] -- <command> [args...]''
     (OwnArgs (\<lambda>v iv. rbind (textFlag v ''pod'') (\<lambda>pod. rbind (splitExecArgs (iv_Dash iv) (iv_Args iv) pod) (\<lambda>_. Inr ()))))
     [kubeconfigVar, namespaceVar ''default'', StringVar ''project'' [], StringVar ''pod'' [], VarP ''container'' ''c'' (Text []),
      VarP ''stdin'' ''i'' (Switch False), VarP ''tty'' ''t'' (Switch False)] (\<lambda>v iv.
     rbind (clusterFlags v) (\<lambda>(kubeconfig, namespace). rbind (textFlag v ''project'') (\<lambda>project. rbind (textFlag v ''pod'') (\<lambda>pod.
     rbind (textFlag v ''container'') (\<lambda>container. rbind (switchFlag v ''stdin'') (\<lambda>stdin. rbind (switchFlag v ''tty'') (\<lambda>tty.
     Inr (ebind (execCmd (frontOf o') (ot_pods o') (ot_streams o') (ot_console o') kubeconfig namespace project container pod stdin tty
         (iv_Dash iv) (iv_Args iv)) (\<lambda>res. ending (execFailure res))))))))))"

section \<open>describe\<close>

definition exactly :: "string \<Rightarrow> argRule" where
  "exactly what = OwnArgs (\<lambda>v iv. rbind (exactName what (iv_Args iv)) (\<lambda>_. Inr ()))"

definition newDescribePodCmd :: "('r, 'c, 'd) outside \<Rightarrow> ('c, 'd) action command" where
  "newDescribePodCmd o' = withHeader (\<lambda>h. h\<lparr>cb_Aliases := [''pods'', ''po'']\<rparr>)
     (leaf ''pod <name>'' (exactly ''pod'') [kubeconfigVar, namespaceVar ''default''] (\<lambda>v iv.
     rbind (clusterFlags v) (\<lambda>(kubeconfig, namespace). rbind (arg iv 0) (\<lambda>name.
     Inr (describeCmd (frontOf o') (ot_describer o') kubeconfig (ThePod namespace) [name])))))"

definition newDescribeServiceCmd :: "('r, 'c, 'd) outside \<Rightarrow> ('c, 'd) action command" where
  "newDescribeServiceCmd o' = withHeader (\<lambda>h. h\<lparr>cb_Aliases := [''services'', ''svc'']\<rparr>)
     (leaf ''service <name>'' (exactly ''service'') [kubeconfigVar, namespaceVar ''default'', StringVar ''project'' []] (\<lambda>v iv.
     rbind (clusterFlags v) (\<lambda>(kubeconfig, namespace). rbind (textFlag v ''project'') (\<lambda>project. rbind (arg iv 0) (\<lambda>name.
     Inr (describeCmd (frontOf o') (ot_describer o') kubeconfig (TheService project namespace) [name]))))))"

definition newDescribeProjectCmd :: "('r, 'c, 'd) outside \<Rightarrow> ('c, 'd) action command" where
  "newDescribeProjectCmd o' = withHeader (\<lambda>h. h\<lparr>cb_Aliases := [''projects'', ''proj'', ''app'']\<rparr>)
     (leaf ''project <name>'' (exactly ''project'') [kubeconfigVar, namespaceVar []] (\<lambda>v iv.
     rbind (clusterFlags v) (\<lambda>(kubeconfig, namespace). rbind (arg iv 0) (\<lambda>name.
     Inr (describeCmd (frontOf o') (ot_describer o') kubeconfig (TheProject namespace) [name])))))"

definition newDescribeNodeCmd :: "('r, 'c, 'd) outside \<Rightarrow> ('c, 'd) action command" where
  "newDescribeNodeCmd o' = withHeader (\<lambda>h. h\<lparr>cb_Aliases := [''nodes'', ''no'']\<rparr>)
     (leaf ''node <name>'' (exactly ''node'') [kubeconfigVar] (\<lambda>v iv.
     rbind (textFlag v ''kubeconfig'') (\<lambda>kubeconfig. rbind (arg iv 0) (\<lambda>name.
     Inr (describeCmd (frontOf o') (ot_describer o') kubeconfig TheNode [name])))))"

definition newDescribeCmd :: "('r, 'c, 'd) outside \<Rightarrow> ('c, 'd) action command" where
  "newDescribeCmd o' = branch ''describe'' [newDescribePodCmd o', newDescribeServiceCmd o', newDescribeProjectCmd o', newDescribeNodeCmd o']"

section \<open>Secrets and nodes\<close>

definition fromFlags :: "flag list" where
  "fromFlags = [kubeconfigVar, namespaceVar ''default'', StringArrayVar ''from-literal'', StringArrayVar ''from-file'']"

definition newSecretCreateCmd :: "('r, 'c, 'd) outside \<Rightarrow> ('c, 'd) action command" where
  "newSecretCreateCmd o' = leaf ''create <name> [--from-literal KEY=VALUE] [--from-file PATH]'' (ExactArgs 1) fromFlags (\<lambda>v iv.
     rbind (clusterFlags v) (\<lambda>(kubeconfig, namespace). rbind (textsFlag v ''from-literal'') (\<lambda>literals. rbind (textsFlag v ''from-file'') (\<lambda>files.
     rbind (arg iv 0) (\<lambda>name. Inr (secretCreateCmd (frontOf o') (ot_disk o') kubeconfig namespace literals files name))))))"

definition newSecretSetCmd :: "('r, 'c, 'd) outside \<Rightarrow> ('c, 'd) action command" where
  "newSecretSetCmd o' = leaf ''set <name> [--from-literal KEY=VALUE] [--from-file PATH]'' (ExactArgs 1) fromFlags (\<lambda>v iv.
     rbind (clusterFlags v) (\<lambda>(kubeconfig, namespace). rbind (textsFlag v ''from-literal'') (\<lambda>literals. rbind (textsFlag v ''from-file'') (\<lambda>files.
     rbind (arg iv 0) (\<lambda>name. Inr (secretSetCmd (frontOf o') (ot_disk o') kubeconfig namespace literals files name))))))"

definition newSecretGetCmd :: "('r, 'c, 'd) outside \<Rightarrow> ('c, 'd) action command" where
  "newSecretGetCmd o' = leaf ''get <name>'' (ExactArgs 1) [kubeconfigVar, namespaceVar ''default'', BoolVar ''show-values'' False] (\<lambda>v iv.
     rbind (clusterFlags v) (\<lambda>(kubeconfig, namespace). rbind (switchFlag v ''show-values'') (\<lambda>show. rbind (arg iv 0) (\<lambda>name.
     Inr (secretGetCmd (frontOf o') kubeconfig namespace show name)))))"

definition newSecretCreateTLSCmd :: "('r, 'c, 'd) outside \<Rightarrow> ('c, 'd) action command" where
  "newSecretCreateTLSCmd o' = leaf ''create-tls <name> --cert <file> --key <file>'' (ExactArgs 1)
     [kubeconfigVar, namespaceVar ''default'', StringVar ''cert'' [], StringVar ''key'' []] (\<lambda>v iv.
     rbind (clusterFlags v) (\<lambda>(kubeconfig, namespace). rbind (textFlag v ''cert'') (\<lambda>cert. rbind (textFlag v ''key'') (\<lambda>certKey.
     rbind (arg iv 0) (\<lambda>name. Inr (secretCreateTLSCmd (frontOf o') (ot_disk o') kubeconfig namespace cert certKey name))))))"

definition newSecretCreateRegistryCmd :: "('r, 'c, 'd) outside \<Rightarrow> ('c, 'd) action command" where
  "newSecretCreateRegistryCmd o' = leaf ''create-registry <name> --server <host> --username <user> --password <pass>'' (ExactArgs 1)
     [kubeconfigVar, namespaceVar ''default'', StringVar ''server'' [], VarP ''username'' ''u'' (Text []), VarP ''password'' ''p'' (Text []),
      StringVar ''email'' [], BoolVar ''insecure'' False, BoolVar ''skip-login-check'' False] (\<lambda>v iv.
     rbind (clusterFlags v) (\<lambda>(kubeconfig, namespace). rbind (textFlag v ''server'') (\<lambda>server. rbind (textFlag v ''username'') (\<lambda>username.
     rbind (textFlag v ''password'') (\<lambda>password. rbind (textFlag v ''email'') (\<lambda>email. rbind (switchFlag v ''insecure'') (\<lambda>insecure.
     rbind (switchFlag v ''skip-login-check'') (\<lambda>skip. rbind (arg iv 0) (\<lambda>name.
     Inr (secretCreateRegistryCmd (frontOf o') (ai_insecureWeb (ot_api o')) kubeconfig namespace server username password email insecure skip name))))))))))"

definition newSecretLsCmd :: "('r, 'c, 'd) outside \<Rightarrow> ('c, 'd) action command" where
  "newSecretLsCmd o' = leaf ''ls'' AnyArgs [kubeconfigVar, namespaceVar ''default''] (\<lambda>v iv.
     rbind (clusterFlags v) (\<lambda>(kubeconfig, namespace). Inr (secretLsCmd (frontOf o') kubeconfig namespace)))"

definition newSecretRmCmd :: "('r, 'c, 'd) outside \<Rightarrow> ('c, 'd) action command" where
  "newSecretRmCmd o' = leaf ''rm <name>'' (ExactArgs 1) [kubeconfigVar, namespaceVar ''default''] (\<lambda>v iv.
     rbind (clusterFlags v) (\<lambda>(kubeconfig, namespace). rbind (arg iv 0) (\<lambda>name.
     Inr (secretRmCmd (frontOf o') kubeconfig namespace name))))"

definition newSecretCmd :: "('r, 'c, 'd) outside \<Rightarrow> ('c, 'd) action command" where
  "newSecretCmd o' = branch ''secret'' [newSecretCreateCmd o', newSecretSetCmd o', newSecretGetCmd o', newSecretCreateTLSCmd o',
     newSecretCreateRegistryCmd o', newSecretLsCmd o', newSecretRmCmd o']"

definition newNodeLsCmd :: "('r, 'c, 'd) outside \<Rightarrow> ('c, 'd) action command" where
  "newNodeLsCmd o' = leaf ''ls'' AnyArgs [kubeconfigVar] (\<lambda>v iv.
     rbind (textFlag v ''kubeconfig'') (\<lambda>kubeconfig. Inr (nodeLsCmd (frontOf o') kubeconfig)))"

definition newNodeLabelCmd :: "('r, 'c, 'd) outside \<Rightarrow> ('c, 'd) action command" where
  "newNodeLabelCmd o' = leaf ''label <node> KEY=VALUE [KEY=VALUE ...]'' (MinimumNArgs 1) [kubeconfigVar, StringArrayVar ''rm''] (\<lambda>v iv.
     rbind (textFlag v ''kubeconfig'') (\<lambda>kubeconfig. rbind (textsFlag v ''rm'') (\<lambda>remove. rbind (arg iv 0) (\<lambda>node.
     Inr (nodeLabelCmd (frontOf o') kubeconfig remove node (drop 1 (iv_Args iv)))))))"

definition newNodeCmd :: "('r, 'c, 'd) outside \<Rightarrow> ('c, 'd) action command" where
  "newNodeCmd o' = branch ''node'' [newNodeLsCmd o', newNodeLabelCmd o']"

section \<open>deploy and skills\<close>

definition newDeployCmd :: "('r, 'c, 'd) outside \<Rightarrow> ('c, 'd) action command" where
  "newDeployCmd o' = leaf ''deploy'' AnyArgs
     [VarP ''file'' ''f'' (Texts []), namespaceVar [], StringVar ''project'' [], BoolVar ''dry-run'' False, StringVar ''as'' [],
      VarP ''output'' ''o'' (Text []), IntVar ''replicas'' 1, StringVar ''pvc-size'' ''1Gi'', kubeconfigVar, BoolVar ''prune'' True,
      BoolVar ''prune-pvc'' False, BoolVar ''wait'' False, StringVar ''acme-email'' [], StringArrayVar ''profile''] (\<lambda>v iv.
     rbind (textsFlag v ''file'') (\<lambda>files. rbind (clusterFlags v) (\<lambda>(kubeconfig, namespace). rbind (textFlag v ''project'') (\<lambda>project.
     rbind (switchFlag v ''dry-run'') (\<lambda>dryRun. rbind (textFlag v ''as'') (\<lambda>mode. rbind (textFlag v ''output'') (\<lambda>output.
     rbind (numberFlag v ''replicas'') (\<lambda>replicas. rbind (textFlag v ''pvc-size'') (\<lambda>pvcSize. rbind (switchFlag v ''prune'') (\<lambda>prune.
     rbind (switchFlag v ''prune-pvc'') (\<lambda>prunePVC. rbind (switchFlag v ''wait'') (\<lambda>wait. rbind (textFlag v ''acme-email'') (\<lambda>email.
     rbind (textsFlag v ''profile'') (\<lambda>profiles.
     Inr (runDeploy (frontOf o') (ot_inputs o') \<lparr>do_files = files, do_namespace = namespace, do_project = project, do_dryRun = dryRun,
       do_as = mode, do_output = output, do_replicas = replicas, do_pvcSize = pvcSize, do_kubeconfig = kubeconfig, do_prune = prune,
       do_prunePVC = prunePVC, do_wait = wait, do_acmeEmail = email, do_profiles = profiles\<rparr>)))))))))))))))"

definition newSkillsInitCmd :: "('r, 'c, 'd) outside \<Rightarrow> ('c, 'd) action command" where
  "newSkillsInitCmd o' = leaf ''init'' AnyArgs [StringVar ''agent'' ''all'', StringVar ''dir'' ''.''] (\<lambda>v iv.
     rbind (textFlag v ''agent'') (\<lambda>agent. rbind (textFlag v ''dir'') (\<lambda>dir.
     Inr (skillsInitCmd (frontOf o') (ot_denied o') (ot_order o') agent dir))))"

definition newSkillsCmd :: "('r, 'c, 'd) outside \<Rightarrow> ('c, 'd) action command" where
  "newSkillsCmd o' = Command (header (leaf ''skills [name]'' AnyArgs [BoolVar ''all'' False, BoolVar ''json'' False] (\<lambda>v iv.
     rbind (switchFlag v ''all'') (\<lambda>every. rbind (switchFlag v ''json'') (\<lambda>asJSON.
     Inr (skillsCmd (frontOf o') asJSON every (iv_Args iv))))))) [newSkillsInitCmd o']"

section \<open>The cluster\<close>

definition newInitCmd :: "('r, 'c, 'd) outside \<Rightarrow> ('c, 'd) action command" where
  "newInitCmd o' = leaf ''init'' AnyArgs
     [StringVar ''name'' DefaultName, StringVar ''image'' DefaultImage, IntVar ''port'' 6443, IntVar ''http-port'' 0, IntVar ''https-port'' 0,
      StringVar ''bind'' ''127.0.0.1'', StringVar ''advertise'' [], StringVar ''token'' [], BoolVar ''cluster-init'' False,
      StringVar ''datastore-endpoint'' [], kubeconfigVar, StringVar ''runtime'' ''docker'', BoolVar ''gpus'' False,
      StringArrayVar ''server-arg''] (\<lambda>v iv.
     rbind (textFlag v ''name'') (\<lambda>name. rbind (textFlag v ''image'') (\<lambda>image. rbind (numberFlag v ''port'') (\<lambda>port.
     rbind (numberFlag v ''http-port'') (\<lambda>http. rbind (numberFlag v ''https-port'') (\<lambda>https. rbind (textFlag v ''bind'') (\<lambda>bind.
     rbind (textFlag v ''advertise'') (\<lambda>advertise. rbind (textFlag v ''token'') (\<lambda>token. rbind (switchFlag v ''cluster-init'') (\<lambda>clusterInit.
     rbind (textFlag v ''datastore-endpoint'') (\<lambda>datastore. rbind (textFlag v ''kubeconfig'') (\<lambda>kubeconfig.
     rbind (textFlag v ''runtime'') (\<lambda>runtime. rbind (switchFlag v ''gpus'') (\<lambda>gpus. rbind (textsFlag v ''server-arg'') (\<lambda>extra.
     Inr (initCmd (frontOf o') \<lparr>io_Name = name, io_Image = image, io_APIPort = port, io_HTTPPort = http, io_HTTPSPort = https,
       io_BindAddress = bind, io_Advertise = advertise, io_Token = token, io_ClusterInit = clusterInit, io_DatastoreEndpoint = datastore,
       io_ExtraServerArgs = extra, io_KubeconfigPath = kubeconfig, io_Runtime = runtime, io_GPUs = gpus\<rparr>))))))))))))))))"

definition newJoinCmd :: "('r, 'c, 'd) outside \<Rightarrow> ('c, 'd) action command" where
  "newJoinCmd o' = leaf ''join'' AnyArgs
     [StringVar ''server'' [], StringVar ''token'' [], StringVar ''role'' ''agent'', StringVar ''name'' [], StringVar ''image'' [],
      StringVar ''runtime'' [], BoolVar ''gpus'' False, StringVar ''advertise'' []] (\<lambda>v iv.
     rbind (textFlag v ''server'') (\<lambda>server. rbind (textFlag v ''token'') (\<lambda>token. rbind (textFlag v ''role'') (\<lambda>role.
     rbind (textFlag v ''name'') (\<lambda>name. rbind (textFlag v ''image'') (\<lambda>image. rbind (textFlag v ''runtime'') (\<lambda>runtime.
     rbind (switchFlag v ''gpus'') (\<lambda>gpus. rbind (textFlag v ''advertise'') (\<lambda>advertise.
     Inr (joinCmd (frontOf o') \<lparr>jo_Name = name, jo_Image = image, jo_ServerURL = server, jo_Token = token, jo_Role = role,
       jo_Runtime = runtime, jo_Advertise = advertise, jo_GPUs = gpus\<rparr>))))))))))"

definition newStatusCmd :: "('r, 'c, 'd) outside \<Rightarrow> ('c, 'd) action command" where
  "newStatusCmd o' = leaf ''status'' AnyArgs [StringVar ''name'' []] (\<lambda>v iv.
     rbind (textFlag v ''name'') (\<lambda>name. Inr (statusCmd (frontOf o') name)))"

definition newDownCmd :: "('r, 'c, 'd) outside \<Rightarrow> ('c, 'd) action command" where
  "newDownCmd o' = leaf ''down'' AnyArgs [StringVar ''name'' []] (\<lambda>v iv.
     rbind (textFlag v ''name'') (\<lambda>name. Inr (downCmd (frontOf o') name)))"

text \<open>A port that was not given is not a port of zero.\<close>

definition portIf :: "invocation \<Rightarrow> vals \<Rightarrow> string \<Rightarrow> error + int option" where
  "portIf iv v name = rbind (numberFlag v name) (\<lambda>p. Inr (if Changed (iv_Set iv) name then Some p else None))"

definition newClusterUpdateCmd :: "('r, 'c, 'd) outside \<Rightarrow> ('c, 'd) action command" where
  "newClusterUpdateCmd o' = leaf ''update'' AnyArgs
     [StringVar ''name'' [], IntVar ''http-port'' 0, IntVar ''https-port'' 0, BoolVar ''upgrade'' False] (\<lambda>v iv.
     rbind (textFlag v ''name'') (\<lambda>name. rbind (portIf iv v ''http-port'') (\<lambda>http. rbind (portIf iv v ''https-port'') (\<lambda>https.
     rbind (switchFlag v ''upgrade'') (\<lambda>upgrade. Inr (clusterUpdateCmd (frontOf o') name http https upgrade))))))"

definition netfixCmd :: "('r, 'c, 'd) outside \<Rightarrow> string \<Rightarrow> int \<Rightarrow> ('c, 'd) action" where
  "netfixCmd o' iface wait = onTerminal (\<lambda>m.
     case (case ot_link o' of Some lk \<Rightarrow> DisableVXLANChecksumOffload lk iface wait (ms_docker m) | None \<Rightarrow> netfixElsewhere (ms_docker m)) of
       Some (r, d) \<Rightarrow> (r, m\<lparr>ms_docker := d\<rparr>)
     | None \<Rightarrow> (Inl (Panic ''no return''), m))"

definition newNetfixCmd :: "('r, 'c, 'd) outside \<Rightarrow> ('c, 'd) action command" where
  "newNetfixCmd o' = withHeader (\<lambda>h. h\<lparr>cb_Hidden := True\<rparr>)
     (leaf ''netfix [iface]'' (MaximumNArgs 1) [VarP ''wait'' [] (Span (300 * second))] (\<lambda>v iv.
     rbind (spanFlag v ''wait'') (\<lambda>wait. rbind (if 0 < length (iv_Args iv) then arg iv 0 else Inr ''flannel.1'') (\<lambda>iface.
     Inr (netfixCmd o' iface wait)))))"

definition newClusterCmd :: "('r, 'c, 'd) outside \<Rightarrow> ('c, 'd) action command" where
  "newClusterCmd o' = branch ''cluster'' [newInitCmd o', newJoinCmd o', newStatusCmd o', newClusterUpdateCmd o', newDownCmd o', newNetfixCmd o']"

section \<open>Plugins\<close>

definition pluginFlags :: "flag list" where
  "pluginFlags = [kubeconfigVar, StringVar ''email'' [], BoolVar ''staging'' False, StringVar ''dns'' [], StringVar ''dns-token'' [],
     StringVar ''provider'' [], StringVar ''size'' [], StringVar ''nfs-server'' [], StringVar ''nfs-path'' [], IntVar ''replicas'' 0,
     StringVar ''ceph-device-filter'' [], StringVar ''ceph-failure-domain'' [], BoolVar ''emulation'' False, BoolVar ''cdi'' False]"

definition pluginOptionsOf :: "vals \<Rightarrow> error + pluginOptions" where
  "pluginOptionsOf v =
     rbind (textFlag v ''kubeconfig'') (\<lambda>kubeconfig. rbind (textFlag v ''email'') (\<lambda>email. rbind (switchFlag v ''staging'') (\<lambda>staging.
     rbind (textFlag v ''dns'') (\<lambda>dns. rbind (textFlag v ''dns-token'') (\<lambda>token. rbind (textFlag v ''provider'') (\<lambda>provider.
     rbind (textFlag v ''size'') (\<lambda>size. rbind (textFlag v ''nfs-server'') (\<lambda>server. rbind (textFlag v ''nfs-path'') (\<lambda>path.
     rbind (numberFlag v ''replicas'') (\<lambda>replicas. rbind (textFlag v ''ceph-device-filter'') (\<lambda>devices.
     rbind (textFlag v ''ceph-failure-domain'') (\<lambda>domain. rbind (switchFlag v ''emulation'') (\<lambda>emulation. rbind (switchFlag v ''cdi'') (\<lambda>cdi.
     Inr \<lparr>po_Kubeconfig = kubeconfig, po_Email = email, po_Staging = staging, po_DNSProvider = dns, po_DNSToken = token,
       po_Provider = provider, po_Size = size, po_Replicas = replicas, po_NFSServer = server, po_NFSPath = path,
       po_CephDeviceFilter = devices, po_CephFailureDomain = domain, po_Emulation = emulation, po_CDI = cdi\<rparr>))))))))))))))"

definition newPluginListCmd :: "('r, 'c, 'd) outside \<Rightarrow> ('c, 'd) action command" where
  "newPluginListCmd o' = leaf ''list'' AnyArgs [kubeconfigVar] (\<lambda>v iv.
     rbind (textFlag v ''kubeconfig'') (\<lambda>kubeconfig. Inr (pluginListCmd (frontOf o') kubeconfig)))"

definition newPluginInfoCmd :: "('r, 'c, 'd) outside \<Rightarrow> ('c, 'd) action command" where
  "newPluginInfoCmd o' = leaf ''info <name>'' (ExactArgs 1) [] (\<lambda>v iv.
     rbind (arg iv 0) (\<lambda>name. Inr (pluginInfoCmd (frontOf o') (ot_note o') name)))"

definition newPluginInstallCmd :: "('r, 'c, 'd) outside \<Rightarrow> ('c, 'd) action command" where
  "newPluginInstallCmd o' = leaf ''install [name]'' (MaximumNArgs 1) (pluginFlags @ [StringVar ''profile'' []]) (\<lambda>v iv.
     rbind (pluginOptionsOf v) (\<lambda>opts. rbind (textFlag v ''profile'') (\<lambda>profile.
     Inr (pluginInstallCmd (frontOf o') opts profile (iv_Args iv)))))"

definition newPluginRemoveCmd :: "('r, 'c, 'd) outside \<Rightarrow> ('c, 'd) action command" where
  "newPluginRemoveCmd o' = leaf ''remove <name>'' (ExactArgs 1) pluginFlags (\<lambda>v iv.
     rbind (pluginOptionsOf v) (\<lambda>opts. rbind (arg iv 0) (\<lambda>name. Inr (pluginRemoveCmd (frontOf o') opts name))))"

definition newPluginUpgradeCmd :: "('r, 'c, 'd) outside \<Rightarrow> ('c, 'd) action command" where
  "newPluginUpgradeCmd o' = leaf ''upgrade <name>'' (ExactArgs 1) pluginFlags (\<lambda>v iv.
     rbind (pluginOptionsOf v) (\<lambda>opts. rbind (arg iv 0) (\<lambda>name. Inr (pluginUpgradeCmd (frontOf o') opts name))))"

definition newPluginCmd :: "('r, 'c, 'd) outside \<Rightarrow> ('c, 'd) action command" where
  "newPluginCmd o' = branch ''plugin'' [newPluginListCmd o', newPluginInfoCmd o', newPluginInstallCmd o', newPluginRemoveCmd o',
     newPluginUpgradeCmd o']"

section \<open>Passing through\<close>

definition passthrough :: "('m cobra \<Rightarrow> 'm cobra)" where
  "passthrough h = h\<lparr>cb_DisableFlagParsing := True\<rparr>"

definition newKubectlCmd :: "('r, 'c, 'd) outside \<Rightarrow> ('c, 'd) action command" where
  "newKubectlCmd o' = withHeader passthrough (leaf ''kubectl [args...]'' AnyArgs [] (\<lambda>v iv.
     Inr (ebind (onTerminal (kubectlProcess (frontOf o') (ot_native o') (ot_kubectl o') (ot_DOCKER o') (iv_Args iv))) (ot_run o'))))"

definition newRuntimeCmd :: "('r, 'c, 'd) outside \<Rightarrow> ('c, 'd) action command" where
  "newRuntimeCmd o' = withHeader (passthrough \<circ> (\<lambda>h. h\<lparr>cb_Hidden := True\<rparr>)) (leaf ''runtime [args...]'' AnyArgs [] (\<lambda>v iv.
     Inr (ebind (onTerminal (runtimeExec (ot_native o') (ot_execve o') (iv_Args iv))) (ot_run o'))))"

section \<open>Servers\<close>

text \<open>
  \<^verbatim>\<open>orcinus api\<close>: a token from the flag or else from the environment. Requests are handled one after the other until a signal comes;
  that they may overlap is not modelled.
\<close>

definition apiConfig :: "('r, 'c, 'd) outside \<Rightarrow> string \<Rightarrow> string \<Rightarrow> Config" where
  "apiConfig o' token kubeconfig = \<lparr>cg_Token = (if token = [] then ot_TOKEN o' else token), cg_Kubeconfig = kubeconfig\<rparr>"

fun handleAll :: "('r, 'c, 'd) api \<Rightarrow> Config \<Rightarrow> httpRequest list \<Rightarrow> ('c, 'd) system \<Rightarrow> httpResponse list \<times> ('c, 'd) system" where
  "handleAll w cfg [] s = ([], s)"
| "handleAll w cfg (r # rs) s = (case Handler w cfg r s of (resp, s) \<Rightarrow> apfst ((#) resp) (handleAll w cfg rs s))"

definition apiCmd :: "('r, 'c, 'd) outside \<Rightarrow> string \<Rightarrow> string \<Rightarrow> string \<Rightarrow> ('c, 'd) action" where
  "apiCmd o' addr token kubeconfig = (let cfg = apiConfig o' token kubeconfig in
     andThen (say (''orcinus api listening on '' @ addr @ newline @ ''  docs:    http://'' @ addr @ ''/docs'' @ newline @
       ''  openapi: http://'' @ addr @ ''/openapi.json'' @ newline))
     (andThen (doIf (cg_Token cfg = []) (warn (''WARNING: no --token set'' @ dash @ ''the API is unauthenticated'' @ newline)))
     (case ot_listen o' of
        Some e \<Rightarrow> fail e
      | None \<Rightarrow> andThen (onSystem (\<lambda>s. (Inr (), snd (handleAll (ot_api o') cfg (ot_requests o') s)))) (ending (ot_shutdown o')))))"

definition newAPICmd :: "('r, 'c, 'd) outside \<Rightarrow> ('c, 'd) action command" where
  "newAPICmd o' = leaf ''api'' AnyArgs [StringVar ''addr'' '':8080'', StringVar ''token'' [], kubeconfigVar] (\<lambda>v iv.
     rbind (textFlag v ''addr'') (\<lambda>addr. rbind (textFlag v ''token'') (\<lambda>token. rbind (textFlag v ''kubeconfig'') (\<lambda>kubeconfig.
     Inr (apiCmd o' addr token kubeconfig)))))"

text \<open>\<^verbatim>\<open>orcinus mcp\<close>: the server reads the lines of standard input and writes its responses, unless only the configuration is printed.\<close>

definition mcpCmd :: "('r, 'c, 'd) outside \<Rightarrow> bool \<Rightarrow> bool \<Rightarrow> string \<Rightarrow> ('c, 'd) action" where
  "mcpCmd o' allowWrite printConfig kubeconfig =
     (if printConfig then say (mcpConfigSnippet allowWrite)
      else andThen
        (\<lambda>tm. case Serve (frontOf o') \<lparr>sv_kubeconfig = kubeconfig, sv_allowWrite = allowWrite\<rparr> (ot_parse o') (\<lambda>_. True) (ot_lines o') (tm_system tm) of
           (responses, s) \<Rightarrow> say (concat (map (ot_response o') responses)) (tm\<lparr>tm_system := s\<rparr>))
        (ending (ot_scanError o')))"

definition newMCPCmd :: "('r, 'c, 'd) outside \<Rightarrow> ('c, 'd) action command" where
  "newMCPCmd o' = leaf ''mcp'' AnyArgs [BoolVar ''allow-write'' False, BoolVar ''config'' False, kubeconfigVar] (\<lambda>v iv.
     rbind (switchFlag v ''allow-write'') (\<lambda>allowWrite. rbind (switchFlag v ''config'') (\<lambda>printConfig. rbind (textFlag v ''kubeconfig'') (\<lambda>kubeconfig.
     Inr (mcpCmd o' allowWrite printConfig kubeconfig)))))"

section \<open>update and version\<close>

definition versionLabel :: "string \<Rightarrow> string" where
  "versionLabel s = (let v = stripV s in if v = [] \<or> v = ''dev'' then v else ''v'' @ v)"

definition onFiles :: "(string gomap, 'a) cmd \<Rightarrow> (('c, 'd) terminal, 'a) cmd" where
  "onFiles m tm = (case m (tm_files tm) of (r, fs) \<Rightarrow> (r, tm\<lparr>tm_files := fs\<rparr>))"

text \<open>\<open>runUpdate\<close> with what it prints on the way.\<close>

definition installUpdate :: "env \<Rightarrow> string \<Rightarrow> string \<Rightarrow> ('c, 'd) action" where
  "installUpdate e staged exe =
     (if up_writable e (Dir exe) then onFiles (replaceBinary e staged exe)
      else andThen (say (Dir exe @ '' is not writable by the current user; using sudo to install.'' @ newline))
        (onFiles (replaceBinarySudo e staged exe)))"

definition updateCmd :: "env \<Rightarrow> updateOptions \<Rightarrow> ('c, 'd) action" where
  "updateCmd e opts = (case up_exe e of
     None \<Rightarrow> fail (Missing ''current binary'')
   | Some exe \<Rightarrow> andThen (say (''Current binary: '' @ exe @ '' ('' @ up_version e @ '')'' @ newline))
       (ebind (lift (fetchRelease e (uo_version opts))) (\<lambda>rel.
        let target = stripV (gh_TagName rel); current = stripV (up_version e);
            info = releaseAsset target (up_goos e) (up_goarch e) (wantsStandalone opts exe) in
        if upToDate e rel \<and> \<not> uo_force opts then say (''Already up to date ('' @ versionLabel current @ '').'' @ newline)
        else if uo_checkOnly opts then say (''Update available: '' @ versionLabel current @ '' -> '' @ versionLabel target @ newline)
        else (case assetURL rel (sp_archive info) of
          None \<Rightarrow> fail (Missing (sp_archive info))
        | Some url \<Rightarrow> andThen (say (''Downloading '' @ sp_archive info @ '' ...'' @ newline))
            (ebind (lift (downloadAndExtract e url (sp_binary info))) (\<lambda>staged.
             andThen (installUpdate e staged exe)
               (say (''Updated orcinus to '' @ versionLabel target @ '' at '' @ exe @ newline)))))))) "

definition newUpdateCmd :: "('r, 'c, 'd) outside \<Rightarrow> ('c, 'd) action command" where
  "newUpdateCmd o' = leaf ''update'' NoArgs
     [StringVar ''version'' [], BoolVar ''check'' False, BoolVar ''force'' False, BoolVar ''standalone'' False] (\<lambda>v iv.
     rbind (textFlag v ''version'') (\<lambda>ver. rbind (switchFlag v ''check'') (\<lambda>check. rbind (switchFlag v ''force'') (\<lambda>force.
     rbind (switchFlag v ''standalone'') (\<lambda>standalone.
     Inr (updateCmd (ot_update o') \<lparr>uo_version = ver, uo_checkOnly = check, uo_force = force, uo_standalone = standalone\<rparr>))))))"

definition newVersionCmd :: "('r, 'c, 'd) outside \<Rightarrow> ('c, 'd) action command" where
  "newVersionCmd o' = leaf ''version'' AnyArgs [] (\<lambda>v iv. Inr (versionCmd (frontOf o')))"

section \<open>The root\<close>

definition addGrouped :: "string \<Rightarrow> 'm command list \<Rightarrow> 'm command list" where
  "addGrouped gid cmds = map (withHeader (\<lambda>h. h\<lparr>cb_GroupID := gid\<rparr>)) cmds"

definition NewRootCmd :: "('r, 'c, 'd) outside \<Rightarrow> ('c, 'd) action command" where
  "NewRootCmd o' = branch ''orcinus''
     (addGrouped ''cluster'' [newClusterCmd o', newNodeCmd o', newPluginCmd o'] @
      addGrouped ''apps'' [newDeployCmd o', newConfigCmd o', newRmCmd o', newLsCmd o', newPsCmd o', newLogsCmd o', newExecCmd o',
        newDescribeCmd o', newScaleCmd o', newAutoscaleCmd o', newRestartCmd o', newRollbackCmd o', newSecretCmd o'] @
      addGrouped ''access'' [newKubectlCmd o', newAPICmd o', newMCPCmd o', newSkillsCmd o'] @
      addGrouped ''system'' [newVersionCmd o', newUpdateCmd o'] @
      [newRuntimeCmd o'])"

text \<open>\<^verbatim>\<open>main\<close>: the status of the process. A command line that is refused ends with one, as any other error but an exit status of \<^verbatim>\<open>exec\<close>.\<close>

definition mainStatus :: "execError option \<Rightarrow> int" where
  "mainStatus e = (if e = None then 0 else ExitCode e)"

end
