(* ===== verification/Program.thy ===== *)
theory Program
  imports Commands
begin

text \<open>
  What holds of the whole command tree: no invocation cobra lets through panics on its way to the body of its command; the tree is well formed; the commands
  that look change nothing; \<^verbatim>\<open>update\<close> prints and does what \<open>runUpdate\<close> does; the servers as their commands start them.
\<close>

section \<open>No panic on the way to a body\<close>

lemma clusterFlags_defined:
  "typed flags given \<Longrightarrow> declares flags ''kubeconfig'' TextK \<Longrightarrow> declares flags ''namespace'' TextK \<Longrightarrow>
   defined (clusterFlags (valueOf flags given))"
  unfolding clusterFlags_def by (intro defined_rbind flags_defined defined_Inr) assumption+

lemma portIf_defined: "typed flags given \<Longrightarrow> declares flags n NumberK \<Longrightarrow> defined (portIf iv (valueOf flags given) n)"
  unfolding portIf_def by (intro defined_rbind flags_defined defined_Inr) assumption+

lemma declares_append: "declares fs n k \<Longrightarrow> declares (fs @ gs) n k"
proof (induction fs)
  case (Cons f fs)
  then show ?case by (cases "fg_Name f = n") (simp_all add: declares_def lookupFlag_def)
qed (simp add: declares_def lookupFlag_def)

lemma pluginOptionsOf_defined:
  assumes "typed (pluginFlags @ rest) given"
  shows "defined (pluginOptionsOf (valueOf (pluginFlags @ rest) given))"
  unfolding pluginOptionsOf_def
  by (intro defined_rbind flags_defined defined_Inr assms declares_append)
    (simp_all add: declares_def lookupFlag_def pluginFlags_def kubeconfigVar_def StringVar_def BoolVar_def IntVar_def VarP_def)

lemmas body_rules = defined_rbind flags_defined clusterFlags_defined portIf_defined defined_Inr arg_defined

lemmas flag_defs = declares_def lookupFlag_def kubeconfigVar_def namespaceVar_def StringVar_def BoolVar_def IntVar_def StringArrayVar_def
  VarP_def pluginFlags_def fromFlags_def

lemmas leaf_defs =
  newLsCmd_def newPsCmd_def newRmCmd_def newConfigCmd_def newScaleCmd_def newAutoscaleCmd_def newRestartCmd_def newRollbackCmd_def
  newLogsCmd_def newExecCmd_def newDeployCmd_def newSkillsInitCmd_def newSecretCreateCmd_def newSecretSetCmd_def newSecretGetCmd_def
  newSecretCreateTLSCmd_def newSecretCreateRegistryCmd_def newSecretLsCmd_def newSecretRmCmd_def newNodeLsCmd_def newNodeLabelCmd_def
  newInitCmd_def newJoinCmd_def newStatusCmd_def newDownCmd_def newClusterUpdateCmd_def newPluginListCmd_def newPluginInfoCmd_def
  newAPICmd_def newMCPCmd_def newUpdateCmd_def newVersionCmd_def newPluginInstallCmd_def newPluginRemoveCmd_def newPluginUpgradeCmd_def
  newDescribePodCmd_def newDescribeServiceCmd_def newDescribeProjectCmd_def newDescribeNodeCmd_def newNetfixCmd_def newKubectlCmd_def
  newRuntimeCmd_def

lemmas branch_defs = newClusterCmd_def newNodeCmd_def newPluginCmd_def newDescribeCmd_def newSecretCmd_def

lemma leaf_sound:
  "sound_body (leaf use rule flags run) \<longleftrightarrow>
   (\<forall>iv. typed flags (iv_Set iv) \<longrightarrow> checkArgs rule (valueOf flags (iv_Set iv)) iv = Inr () \<longrightarrow> defined (run (valueOf flags (iv_Set iv)) iv))"
  by (simp add: sound_body_def leaf_def valuesOf_def)

lemma leaf_soundI:
  "(\<And>iv. typed flags (iv_Set iv) \<Longrightarrow> checkArgs rule (valueOf flags (iv_Set iv)) iv = Inr () \<Longrightarrow> defined (run (valueOf flags (iv_Set iv)) iv)) \<Longrightarrow>
   sound_body (leaf use rule flags run)"
  by (simp add: leaf_sound)

lemma withHeader_sound:
  assumes "cb_Args (f (header c)) = cb_Args (header c)" "cb_Flags (f (header c)) = cb_Flags (header c)"
    "cb_RunE (f (header c)) = cb_RunE (header c)" and "sound_body c"
  shows "sound_body (withHeader f c)"
  using assms by (simp add: sound_body_def withHeader_def valuesOf_def)

lemma branch_sound: "sound_body (branch use subs)"
  by (simp add: sound_body_def branch_def)

lemma exactly_length: "checkArgs (exactly what) v iv = Inr () \<Longrightarrow> length (iv_Args iv) = 1"
  by (auto simp: exactly_def exactName_def split: list.splits)

text \<open>The commands without subcommands.\<close>

definition leafCmds :: "('r, 'c, 'd) outside \<Rightarrow> ('c, 'd) action command list" where
  "leafCmds o' = [newLsCmd o', newPsCmd o', newRmCmd o', newConfigCmd o', newScaleCmd o', newAutoscaleCmd o', newRestartCmd o',
     newRollbackCmd o', newLogsCmd o', newExecCmd o', newDeployCmd o', newSkillsInitCmd o', newSecretCreateCmd o', newSecretSetCmd o',
     newSecretGetCmd o', newSecretCreateTLSCmd o', newSecretCreateRegistryCmd o', newSecretLsCmd o', newSecretRmCmd o', newNodeLsCmd o',
     newNodeLabelCmd o', newInitCmd o', newJoinCmd o', newStatusCmd o', newDownCmd o', newClusterUpdateCmd o', newPluginListCmd o',
     newPluginInfoCmd o', newAPICmd o', newMCPCmd o', newUpdateCmd o', newVersionCmd o',
     newPluginInstallCmd o', newPluginRemoveCmd o', newPluginUpgradeCmd o',
     newDescribePodCmd o', newDescribeServiceCmd o', newDescribeProjectCmd o', newDescribeNodeCmd o',
     newNetfixCmd o', newKubectlCmd o', newRuntimeCmd o']"

lemma leaves_sound: "list_all sound_body (leafCmds o')"
proof -
  have plain: "typed pluginFlags given \<Longrightarrow> defined (pluginOptionsOf (valueOf pluginFlags given))" for given
    using pluginOptionsOf_defined [of "[]"] by simp
  show ?thesis
    unfolding leafCmds_def list.pred_inject leaf_defs
    by (intro conjI TrueI withHeader_sound leaf_soundI body_rules plain pluginOptionsOf_defined)
      (auto simp: leaf_def passthrough_def flag_defs dest!: exactly_length split: prod.split intro!: body_rules)
qed

lemma skills_sound: "sound_body (newSkillsCmd o')"
  unfolding sound_body_def newSkillsCmd_def leaf_def by (auto simp: valuesOf_def flag_defs intro!: body_rules)

lemma everywhere_simps:
  "everywhere P (leaf use rule flags run) \<longleftrightarrow> P (leaf use rule flags run)"
  "everywhere P (branch use subs) \<longleftrightarrow> P (branch use subs) \<and> list_all (everywhere P) subs"
  by (simp_all add: leaf_def branch_def list_all_iff)

lemma withHeader_parts [simp]: "header (withHeader f c) = f (header c)" "subcommands (withHeader f c) = subcommands c"
  by (simp_all add: withHeader_def)

lemma everywhere_withHeader:
  assumes "\<And>h. cb_Args (f h) = cb_Args h" "\<And>h. cb_Flags (f h) = cb_Flags h" "\<And>h. cb_RunE (f h) = cb_RunE h"
    and "everywhere sound_body c"
  shows "everywhere sound_body (withHeader f c)"
proof (cases c)
  case (Command h subs)
  then have "sound_body (withHeader f c)" using assms by (intro withHeader_sound) simp_all
  then show ?thesis using assms(4) Command by (simp add: withHeader_def)
qed

lemma addGrouped_sound: "list_all (everywhere sound_body) cs \<Longrightarrow> list_all (everywhere sound_body) (addGrouped gid cs)"
  by (auto simp: addGrouped_def list_all_iff intro!: everywhere_withHeader)

lemma single: "subcommands c = [] \<Longrightarrow> everywhere P c \<longleftrightarrow> P c"
  by (cases c) simp

lemma leaf_alone [simp]: "subcommands (leaf use rule flags run) = []"
  by (simp add: leaf_def)

lemma leaves_alone: "list_all (\<lambda>c. subcommands c = []) (leafCmds o')"
  by (simp add: leafCmds_def leaf_defs)

lemma tree_sound: "everywhere sound_body (NewRootCmd o')"
proof -
  note alone = leaves_alone [of o', unfolded leafCmds_def list.pred_inject]
    and leaves = leaves_sound [of o', unfolded leafCmds_def list.pred_inject]
  have skills: "everywhere sound_body (newSkillsCmd o')"
    using skills_sound [of o'] alone leaves by (simp add: newSkillsCmd_def single)
  show ?thesis
    unfolding NewRootCmd_def everywhere_simps list_all_append
    using alone leaves skills
    by (auto intro!: addGrouped_sound branch_sound
        simp: single everywhere_simps branch_defs)
qed

text \<open>
  C17: A command line that cobra accepts reaches the body it is for, for every command of the tree: with the number of arguments its rule asks for and
  flags of the declared types set in any order, the body never reads an argument that is not there (an index panic) nor a flag that is not
  declared, or not with that type.
\<close>

theorem commands_reach_bodies:
  assumes "commandAt (NewRootCmd o') path = Some c" and "cb_RunE (header c) \<noteq> None"
    and "typed (cb_Flags (header c)) (iv_Set iv)" and "checkArgs (cb_Args (header c)) (valuesOf c iv) iv = Inr ()"
  shows "\<exists>m. bodyOf c iv = Inr m"
proof -
  from assms(2) obtain run where run: "cb_RunE (header c) = Some run" by blast
  have "sound_body c" by (rule everywhere_at [OF tree_sound assms(1)])
  with run assms(3,4) show ?thesis by (simp add: sound_body_def bodyOf_def defined_def)
qed

section \<open>A well-formed tree\<close>

lemma node_ok_leaf: "node_ok (leaf use rule flags run) \<longleftrightarrow> flags_ok flags"
  by (simp add: node_ok_def leaf_def)

lemma node_ok_header:
  "cb_Flags (f (header c)) = cb_Flags (header c) \<Longrightarrow> cb_RunE (f (header c)) = cb_RunE (header c) \<Longrightarrow> node_ok (withHeader f c) = node_ok c"
  by (simp add: node_ok_def)

lemma leaves_ok: "list_all node_ok (leafCmds o')"
  by (simp add: leafCmds_def leaf_defs node_ok_header node_ok_leaf passthrough_def flags_ok_def flag_defs)

lemma words_simps:
  "words (leaf use rule flags run) = [takeWhile (\<lambda>x. x \<noteq> CHR '' '') use]"
  "words (branch use subs) = [takeWhile (\<lambda>x. x \<noteq> CHR '' '') use]"
  "words (withHeader f c) = takeWhile (\<lambda>x. x \<noteq> CHR '' '') (cb_Use (f (header c))) # cb_Aliases (f (header c))"
  by (simp_all add: words_def nameOf_def leaf_def branch_def)

lemma header_simps:
  "cb_Use (header (leaf use rule flags run)) = use" "cb_Aliases (header (leaf use rule flags run)) = []"
  "cb_Use (header (branch use subs)) = use" "cb_Aliases (header (branch use subs)) = []" "subcommands (branch use subs) = subs"
  by (simp_all add: leaf_def branch_def)

lemma node_ok_branch: "node_ok (branch use subs) \<longleftrightarrow> distinct (concat (map words subs)) \<and> subs \<noteq> []"
  by (simp add: node_ok_def branch_def flags_ok_def)

lemma addGrouped_ok: "list_all (everywhere node_ok) (addGrouped gid cs) \<longleftrightarrow> list_all (everywhere node_ok) cs"
proof -
  have "everywhere node_ok (withHeader (\<lambda>h. h\<lparr>cb_GroupID := gid\<rparr>) c) = everywhere node_ok c" for c :: "'a command"
    by (cases c) (simp add: withHeader_def node_ok_def)
  then show ?thesis by (simp add: addGrouped_def list_all_iff)
qed

text \<open>
  The tree can be registered: no command declares a flag or a shorthand twice, or one that collides with the help flag, and every word at
  every level names one command. So each command is reached by its name and by each of its aliases.
\<close>

lemma tree_ok: "everywhere node_ok (NewRootCmd o')"
proof -
  note alone = leaves_alone [of o', unfolded leafCmds_def list.pred_inject]
    and leaves = leaves_ok [of o', unfolded leafCmds_def list.pred_inject]
  have "node_ok (newSkillsCmd o')"
    by (simp add: node_ok_def newSkillsCmd_def newSkillsInitCmd_def leaf_def words_def nameOf_def flags_ok_def flag_defs)
  then have skills: "everywhere node_ok (newSkillsCmd o')"
    using alone leaves by (simp add: newSkillsCmd_def single)
  have parts: "everywhere node_ok (newClusterCmd o')" "everywhere node_ok (newNodeCmd o')" "everywhere node_ok (newPluginCmd o')"
    "everywhere node_ok (newDescribeCmd o')" "everywhere node_ok (newSecretCmd o')"
    using alone leaves
    by (simp_all add: branch_defs everywhere_simps single node_ok_branch leaf_defs words_simps header_simps passthrough_def)
  have words: "distinct (concat (map words (subcommands (NewRootCmd o'))))"
    by (simp add: NewRootCmd_def addGrouped_def branch_defs leaf_defs newSkillsCmd_def words_simps header_simps words_def nameOf_def
        passthrough_def leaf_def branch_def)
  then show ?thesis
    unfolding NewRootCmd_def everywhere_simps list_all_append addGrouped_ok node_ok_branch
    using alone leaves skills parts by (simp add: single header_simps addGrouped_def)
qed

lemma commandAt_append:
  "commandAt c (path @ ws) = (case commandAt c path of None \<Rightarrow> None | Some s \<Rightarrow> commandAt s ws)"
  by (induction path arbitrary: c) (auto split: option.splits)

text \<open>
  The command tree has no ambiguity: of every command that can be named, each subcommand answers to its name and to each of its aliases and the
  word leads to no other one; no flag and no shorthand is declared twice (which would end the program when the command is built), and
  none takes the place of \<^verbatim>\<open>--help\<close>.
\<close>

theorem commands_unambiguous:
  assumes "commandAt (NewRootCmd o') path = Some c" and "s \<in> set (subcommands c)"
  shows "(\<forall>w \<in> set (words s). commandAt (NewRootCmd o') (path @ [w]) = Some s) \<and> flags_ok (cb_Flags (header s)) \<and>
    (\<forall>t \<in> set (subcommands c). set (words s) \<inter> set (words t) \<noteq> {} \<longrightarrow> s = t)"
proof -
  have c: "node_ok c" by (rule everywhere_at [OF tree_ok assms(1)])
  have found: "find (answersTo w) (subcommands c) = Some t" if "t \<in> set (subcommands c)" "w \<in> set (words t)" for t w
    using find_distinct that c by (metis node_ok_def)
  have at: "commandAt (NewRootCmd o') (path @ [w]) = Some s" if "w \<in> set (words s)" for w
    using assms found [OF assms(2) that] by (simp add: commandAt_append)
  have "nameOf s \<in> set (words s)" by (simp add: words_def)
  from everywhere_at [OF tree_ok at [OF this]] have "flags_ok (cb_Flags (header s))" by (simp add: node_ok_def)
  moreover have "s = t" if "t \<in> set (subcommands c)" "w \<in> set (words s)" "w \<in> set (words t)" for t w
    using found [OF assms(2) that(2)] found [OF that(1,3)] by simp
  ultimately show ?thesis using at by blast
qed

section \<open>Commands that look\<close>

definition lookers :: "string list list" where
  "lookers = [[''ls''], [''ps''], [''logs''], [''config''], [''version''], [''skills''],
     [''describe'', ''pod''], [''describe'', ''service''], [''describe'', ''project''], [''describe'', ''node''],
     [''secret'', ''get''], [''secret'', ''ls''], [''node'', ''ls''], [''plugin'', ''list''], [''plugin'', ''info''], [''cluster'', ''status'']]"

text \<open>With the flags that were set, the command line only looks.\<close>

definition looks :: "string list \<Rightarrow> settings \<Rightarrow> bool" where
  "looks path given \<longleftrightarrow> path \<in> set lookers \<or> (path = [''mcp''] \<and> \<not> Changed given ''allow-write'') \<or>
     (path = [''deploy''] \<and> map_of (rev given) ''dry-run'' = Some (Switch True) \<and> \<not> Changed given ''output'') \<or>
     (path = [''update''] \<and> map_of (rev given) ''check'' = Some (Switch True))"

lemmas tree_defs = NewRootCmd_def addGrouped_def branch_defs newSkillsCmd_def

lemma bodyOf_simps:
  "bodyOf (leaf use rule flags run) iv = rbind (checkArgs rule (valueOf flags (iv_Set iv)) iv) (\<lambda>_. run (valueOf flags (iv_Set iv)) iv)"
  "bodyOf (withHeader (\<lambda>h. h\<lparr>cb_GroupID := gid\<rparr>) c) iv = bodyOf c iv"
  "bodyOf (withHeader (\<lambda>h. h\<lparr>cb_Aliases := as\<rparr>) c) iv = bodyOf c iv"
  "bodyOf (Command (header (leaf use rule flags run)) subs) iv = bodyOf (leaf use rule flags run) iv"
  by (simp_all add: bodyOf_def leaf_def valuesOf_def split: option.split)

lemmas tree_eval = tree_defs leaf_defs answersTo_def nameOf_def leaf_def branch_def withHeader_def passthrough_def

lemma at_simps:
  "commandAt (NewRootCmd o') [''ls''] = Some (withHeader (\<lambda>h. h\<lparr>cb_GroupID := ''apps''\<rparr>) (newLsCmd o'))"
  "commandAt (NewRootCmd o') [''ps''] = Some (withHeader (\<lambda>h. h\<lparr>cb_GroupID := ''apps''\<rparr>) (newPsCmd o'))"
  "commandAt (NewRootCmd o') [''logs''] = Some (withHeader (\<lambda>h. h\<lparr>cb_GroupID := ''apps''\<rparr>) (newLogsCmd o'))"
  "commandAt (NewRootCmd o') [''config''] = Some (withHeader (\<lambda>h. h\<lparr>cb_GroupID := ''apps''\<rparr>) (newConfigCmd o'))"
  "commandAt (NewRootCmd o') [''deploy''] = Some (withHeader (\<lambda>h. h\<lparr>cb_GroupID := ''apps''\<rparr>) (newDeployCmd o'))"
  "commandAt (NewRootCmd o') [''mcp''] = Some (withHeader (\<lambda>h. h\<lparr>cb_GroupID := ''access''\<rparr>) (newMCPCmd o'))"
  "commandAt (NewRootCmd o') [''skills''] = Some (withHeader (\<lambda>h. h\<lparr>cb_GroupID := ''access''\<rparr>) (newSkillsCmd o'))"
  "commandAt (NewRootCmd o') [''api''] = Some (withHeader (\<lambda>h. h\<lparr>cb_GroupID := ''access''\<rparr>) (newAPICmd o'))"
  "commandAt (NewRootCmd o') [''version''] = Some (withHeader (\<lambda>h. h\<lparr>cb_GroupID := ''system''\<rparr>) (newVersionCmd o'))"
  "commandAt (NewRootCmd o') [''update''] = Some (withHeader (\<lambda>h. h\<lparr>cb_GroupID := ''system''\<rparr>) (newUpdateCmd o'))"
  by (simp_all add: tree_eval)

lemma at_below:
  "commandAt (NewRootCmd o') [''describe'', ''pod''] = Some (newDescribePodCmd o')"
  "commandAt (NewRootCmd o') [''describe'', ''service''] = Some (newDescribeServiceCmd o')"
  "commandAt (NewRootCmd o') [''describe'', ''project''] = Some (newDescribeProjectCmd o')"
  "commandAt (NewRootCmd o') [''describe'', ''node''] = Some (newDescribeNodeCmd o')"
  "commandAt (NewRootCmd o') [''secret'', ''get''] = Some (newSecretGetCmd o')"
  "commandAt (NewRootCmd o') [''secret'', ''ls''] = Some (newSecretLsCmd o')"
  "commandAt (NewRootCmd o') [''node'', ''ls''] = Some (newNodeLsCmd o')"
  "commandAt (NewRootCmd o') [''plugin'', ''list''] = Some (newPluginListCmd o')"
  "commandAt (NewRootCmd o') [''plugin'', ''info''] = Some (newPluginInfoCmd o')"
  "commandAt (NewRootCmd o') [''cluster'', ''status''] = Some (newStatusCmd o')"
  by (simp_all add: tree_eval)

text \<open>What stays, command by command.\<close>

lemma secrets_keep:
  assumes "discovery_ok w view"
  shows "keeps (same_view (behind (seen view ct))) (secretGetCmd w kubeconfig namespace show name)"
    and "keeps (same_view (behind (seen view ct))) (secretLsCmd w kubeconfig namespace)"
  unfolding secretGetCmd_def secretLsCmd_def detailOf_def using assms
  by (auto intro!: viewed.keeps_rules keeps_intros keeps_look)

lemma logs_keep:
  assumes "discovery_ok (frontOf o') view"
  shows "keeps (same_view (behind (seen view ct))) (logsCmd (frontOf o') logs kubeconfig project namespace service)"
    and "keeps (same_view (behind (seen view ct))) (logsFollowCmd o' kubeconfig project namespace service)"
  unfolding logsCmd_def logsFollowCmd_def ending_def using assms
  by (auto intro!: viewed.keeps_rules keeps_intros keeps_look split: prod.split option.split)

lemma skills_keep: "keeps (same_view (behind view)) (skillsCmd w asJSON every args)"
  unfolding skillsCmd_def by (auto intro!: viewed.keeps_rules keeps_intros split: list.split option.split)

lemma mcp_keeps:
  assumes "discovery_ok (frontOf o') view" and "machine_ok (fr_site (frontOf o')) ct made"
  shows "keeps (same_view (behind (seen view ct))) (mcpCmd o' False printConfig kubeconfig)"
proof -
  let ?sv = "\<lparr>sv_kubeconfig = kubeconfig, sv_allowWrite = False\<rparr>"
  have "seen view ct (snd (Serve (frontOf o') ?sv parse written ls s)) = seen view ct s" for parse written ls s
    by (rule Serve_seen [OF assms, where sv = ?sv]) (simp, rule prod.collapse [symmetric])
  then have "keeps (same_view (behind (seen view ct))) (\<lambda>tm. case Serve (frontOf o') ?sv (ot_parse o') (\<lambda>_. True) (ot_lines o') (tm_system tm) of
      (responses, s) \<Rightarrow> say (concat (map (ot_response o') responses)) (tm\<lparr>tm_system := s\<rparr>))"
    by (auto simp: keeps_def same_view_def behind_def say_def split: prod.split) (metis snd_conv)
  then show ?thesis
    unfolding mcpCmd_def ending_def by (auto intro!: viewed.keeps_rules keeps_intros split: option.split)
qed

lemma update_keeps: "uo_checkOnly opts \<Longrightarrow> keeps (same_view (behind view)) (updateCmd e opts)"
  unfolding updateCmd_def Let_def by (auto intro!: viewed.keeps_rules keeps_intros split: option.split)

lemma deploy_keeps:
  assumes "do_dryRun opts" and "do_output opts = []"
  shows "keeps (same_view (behind view)) (runDeploy w inp opts)"
  using dryRun_keeps(1) [OF assms(1), of w inp] dryRun_keeps(2) [OF assms, of w inp]
  by (simp add: keeps_def same_view_def behind_def)

lemma set_switch:
  assumes "lookupFlag flags n = Some f" and "fg_Default f = Switch d" and "map_of (rev given) n = Some (Switch b)"
  shows "switchFlag (valueOf flags given) n = Inr b"
proof -
  have "Changed given n" using map_of_SomeD [OF assms(3)] by (force simp: Changed_def)
  then show ?thesis using assms by (simp add: switchFlag_def valueOf_def)
qed

lemma unset_flag:
  "lookupFlag flags n = Some f \<Longrightarrow> \<not> Changed given n \<Longrightarrow> valueOf flags given n = Some (fg_Default f)"
  by (simp add: valueOf_def)

text \<open>
  C6: The commands for looking only look, whatever their flags and arguments and also when they fail: they change neither the cluster, nor the record of
  plugins, nor the containers, nor a file. So do \<^verbatim>\<open>deploy --dry-run\<close> without \<^verbatim>\<open>-o\<close>, \<^verbatim>\<open>update --check\<close>, and the MCP server started without
  \<^verbatim>\<open>--allow-write\<close>, whatever it is sent.
\<close>

theorem looking_changes_nothing:
  assumes "discovery_ok (frontOf o') view" and "machine_ok (fr_site (frontOf o')) ct made"
    and "commandAt (NewRootCmd o') path = Some c" and "looks path (iv_Set iv)" and "bodyOf c iv = Inr m"
  shows "behind (seen view ct) (snd (m tm)) = behind (seen view ct) tm"
proof -
  note keep = listing_keeps [OF assms(1)] describeCmd_keeps [OF assms(1)] secrets_keep [OF assms(1)] logs_keep [OF assms(1)] skills_keep
    cluster_lookers [OF assms(1,2)] mcp_keeps [OF assms(1,2)] update_keeps deploy_keeps
  have "keeps (same_view (behind (seen view ct))) m"
    if "path \<in> set lookers"
    using that assms(3,5)
    by (auto simp: lookers_def at_simps at_below bodyOf_simps leaf_defs newSkillsCmd_def rbind_Inr_iff simp del: commandAt.simps intro!: keep split: if_splits)
  moreover have "keeps (same_view (behind (seen view ct))) m" if "path = [''mcp'']" "\<not> Changed (iv_Set iv) ''allow-write''"
  proof -
    have "lookupFlag [BoolVar ''allow-write'' False, BoolVar ''config'' False, kubeconfigVar] ''allow-write'' = Some (BoolVar ''allow-write'' False)"
      by (simp add: flag_defs)
    from unset_flag [OF this that(2)] show ?thesis using that(1) assms(3,5)
      by (auto simp: at_simps bodyOf_simps newMCPCmd_def rbind_Inr_iff switchFlag_def BoolVar_def VarP_def simp del: commandAt.simps intro!: keep)
  qed
  moreover have "keeps (same_view (behind (seen view ct))) m"
    if "path = [''update'']" "map_of (rev (iv_Set iv)) ''check'' = Some (Switch True)"
  proof -
    have "switchFlag (valueOf [StringVar ''version'' [], BoolVar ''check'' False, BoolVar ''force'' False, BoolVar ''standalone'' False] (iv_Set iv))
        ''check'' = Inr True"
      by (rule set_switch [OF _ _ that(2), where f = "BoolVar ''check'' False" and d = False]) (simp_all add: flag_defs)
    then show ?thesis using that(1) assms(3,5)
      by (auto simp: at_simps bodyOf_simps newUpdateCmd_def rbind_Inr_iff simp del: commandAt.simps intro!: keep)
  qed
  moreover have "keeps (same_view (behind (seen view ct))) m"
    if "path = [''deploy'']" "map_of (rev (iv_Set iv)) ''dry-run'' = Some (Switch True)" "\<not> Changed (iv_Set iv) ''output''"
  proof -
    let ?flags = "cb_Flags (header (newDeployCmd o'))"
    have dry: "switchFlag (valueOf ?flags (iv_Set iv)) ''dry-run'' = Inr True"
      by (rule set_switch [OF _ _ that(2), where f = "BoolVar ''dry-run'' False" and d = False]) (simp_all add: newDeployCmd_def leaf_def flag_defs)
    have out: "valueOf ?flags (iv_Set iv) ''output'' = Some (Text [])"
      using unset_flag [OF _ that(3), of ?flags "VarP ''output'' ''o'' (Text [])"] by (simp add: newDeployCmd_def leaf_def flag_defs)
    show ?thesis using that(1) assms(3,5) dry out
      by (auto simp: at_simps bodyOf_simps newDeployCmd_def leaf_def valuesOf_def rbind_Inr_iff textFlag_def bodyOf_def simp del: commandAt.simps intro!: keep)
  qed
  ultimately have "keeps (same_view (behind (seen view ct))) m" using assms(4) unfolding looks_def by blast
  then show ?thesis by (simp add: keeps_def same_view_def)
qed

section \<open>The API as a command\<close>

lemma handleAll_authorized:
  "snd (handleAll w cfg (filter (authorized cfg) rs) s) = snd (handleAll w cfg rs s) \<and>
   fst (handleAll w cfg (filter (authorized cfg) rs) s) = map snd (filter (\<lambda>(r, _). authorized cfg r) (zip rs (fst (handleAll w cfg rs s))))"
proof (induction rs arbitrary: s)
  case (Cons r rs)
  obtain resp s' where h: "Handler w cfg r s = (resp, s')" by (metis prod.collapse)
  have "s' = s" if "\<not> authorized cfg r" using Handler_refused [OF that h] by simp
  then show ?case using Cons.IH [of s'] h by auto
qed simp

text \<open>
  C16: \<^verbatim>\<open>orcinus api\<close> with a token, from \<^verbatim>\<open>--token\<close> or else from the environment, serves those who present it and no one else: a run is, in its result
  and in all it leaves behind, the run in which only the requests with the token were made. A request without it cannot even change what a
  later one with it does.
\<close>

theorem api_serves_token_holders:
  assumes "bodyOf (newAPICmd o') iv = Inr m" and "textFlag (valuesOf (newAPICmd o') iv) ''token'' = Inr given"
    and "t = (if given = [] then ot_TOKEN o' else given)" and "t \<noteq> []"
  shows "bodyOf (newAPICmd (o'\<lparr>ot_requests := filter (\<lambda>r. TrimPrefix (hx_Authorization r) ''Bearer '' = t) (ot_requests o')\<rparr>)) iv = Inr m"
proof -
  let ?o = "o'\<lparr>ot_requests := filter (\<lambda>r. TrimPrefix (hx_Authorization r) ''Bearer '' = t) (ot_requests o')\<rparr>"
  have "apiCmd ?o addr given kubeconfig = apiCmd o' addr given kubeconfig" for addr kubeconfig
  proof -
    let ?cfg = "apiConfig o' given kubeconfig"
    have cfg: "apiConfig ?o given kubeconfig = ?cfg" by (simp add: apiConfig_def)
    have "authorized ?cfg = (\<lambda>r. TrimPrefix (hx_Authorization r) ''Bearer '' = t)"
      using assms(3,4) by (auto simp: fun_eq_iff authorized_def apiConfig_def)
    then have "snd (handleAll (ot_api o') ?cfg (ot_requests ?o) s) = snd (handleAll (ot_api o') ?cfg (ot_requests o') s)" for s
      using handleAll_authorized [of "ot_api o'" ?cfg "ot_requests o'" s] by simp
    then show ?thesis by (cases "ot_listen o'") (simp_all add: apiCmd_def cfg Let_def)
  qed
  moreover have "valuesOf (newAPICmd ?o) iv = valuesOf (newAPICmd o') iv" by (simp add: valuesOf_def newAPICmd_def leaf_def)
  ultimately show ?thesis using assms(1,2)
    by (auto simp: bodyOf_def newAPICmd_def leaf_def rbind_Inr_iff)
qed

section \<open>The messages of an update\<close>

text \<open>What \<^verbatim>\<open>update\<close> does to files, and how it ends, is what \<open>runUpdate\<close> says; the rest is text.\<close>

lemma onFiles_run: "onFiles m tm = (r, tm') \<longleftrightarrow> (\<exists>fs. m (tm_files tm) = (r, fs) \<and> tm' = tm\<lparr>tm_files := fs\<rparr>)"
  by (auto simp: onFiles_def split: prod.splits)

lemma installUpdate_files:
  "installUpdate e staged exe tm = (r, tm') \<Longrightarrow>
   (if up_writable e (Dir exe) then replaceBinary e staged exe else replaceBinarySudo e staged exe) (tm_files tm) = (r, tm_files tm') \<and>
   tm_system tm' = tm_system tm"
  by (auto simp: installUpdate_def andThen_def ebind_def say_def onFiles_run split: if_splits)

lemma updateCmd_runs:
  assumes "updateCmd e opts tm = (r, tm')"
  shows "runUpdate e opts (tm_files tm) = (r, tm_files tm') \<and> tm_system tm' = tm_system tm"
proof (cases "up_exe e")
  case None
  then show ?thesis using assms by (simp add: updateCmd_def runUpdate_def)
next
  case (Some exe)
  show ?thesis
  proof (cases "fetchRelease e (uo_version opts)")
    case (Inl x)
    then show ?thesis using assms Some by (auto simp: updateCmd_def runUpdate_def andThen_def ebind_def say_def)
  next
    case (Inr rel)
    let ?info = "releaseAsset (stripV (gh_TagName rel)) (up_goos e) (up_goarch e) (wantsStandalone opts exe)"
    show ?thesis
    proof (cases "(upToDate e rel \<and> \<not> uo_force opts) \<or> uo_checkOnly opts \<or> assetURL rel (sp_archive ?info) = None")
      case True
      then show ?thesis using assms Some Inr
        by (auto simp: updateCmd_def runUpdate_def andThen_def ebind_def say_def Let_def split: if_splits)
    next
      case False
      then obtain url where url: "assetURL rel (sp_archive ?info) = Some url" by auto
      show ?thesis
      proof (cases "downloadAndExtract e url (sp_binary ?info)")
        case (Inl x)
        then show ?thesis using assms Some Inr False url
          by (auto simp: updateCmd_def runUpdate_def andThen_def ebind_def say_def Let_def)
      next
        case staged: (Inr staged)
        obtain r1 t1 where run: "installUpdate e staged exe (tm\<lparr>tm_out := tm_out tm @ ''Current binary: '' @ exe @ '' ('' @ up_version e @ '')'' @ newline @
            ''Downloading '' @ sp_archive ?info @ '' ...'' @ newline\<rparr>) = (r1, t1)" by force
        have "r = r1 \<and> tm_files tm' = tm_files t1 \<and> tm_system tm' = tm_system t1"
          using assms Some Inr False url staged run
          by (auto simp: updateCmd_def andThen_def ebind_def say_def Let_def split: sum.splits)
        then show ?thesis using installUpdate_files [OF run] Some Inr False url staged
          by (auto simp: runUpdate_def ebind_def Let_def)
      qed
    qed
  qed
qed

section \<open>A place to run\<close>

definition sample_outside :: "(unit, (gvr \<times> obj) list, (string \<times> string list) list) outside" where
  "sample_outside = \<lparr>ot_api = sample_api, ot_disk = sample_disk, ot_pods = \<lparr>pa_list = (\<lambda>_ _ _. Some []), pa_get = (\<lambda>_ _ _. NotFound)\<rparr>,
     ot_streams = (\<lambda>_ c. (None, c)), ot_console = \<lparr>co_isTerminal = False, co_raw = False\<rparr>,
     ot_describer = \<lparr>dr_pod = (\<lambda>_ _ _. None), dr_events = (\<lambda>_ _ _ _. None), dr_deployments = (\<lambda>_ _ _. None), dr_statefulsets = (\<lambda>_ _ _. None),
       dr_node = (\<lambda>_ _. None), dr_now = (\<lambda>_. 0), dr_format = (\<lambda>_. [])\<rparr>,
     ot_logs = (\<lambda>_ _ _. None), ot_follow = inTurn, ot_inputs = sample_inputs, ot_note = (\<lambda>_. []), ot_denied = (\<lambda>_. False), ot_order = id,
     ot_update = sample_env, ot_native = None, ot_execve = (\<lambda>_ _. Refused), ot_link = None, ot_kubectl = None, ot_DOCKER = [],
     ot_run = (\<lambda>_ tm. (Inr (), tm)), ot_TOKEN = ''s3cret'', ot_listen = None,
     ot_requests = [sample_request ''DELETE'' ''/api/v1/secrets/db''], ot_shutdown = None, ot_lines = [''x''],
     ot_parse = (\<lambda>_. Some (call_request ''deploy'')), ot_response = fst, ot_scanError = None\<rparr>"

definition sample_call :: "settings \<Rightarrow> string list \<Rightarrow> invocation" where
  "sample_call given args = \<lparr>iv_Set = given, iv_Args = args, iv_Dash = -1\<rparr>"

lemma sample_front_of: "frontOf sample_outside = sample_front"
  by (simp add: frontOf_def sample_outside_def sample_api_def front.extend_def front.truncate_def)

theorem commands_reach_bodies_witness:
  "\<exists>c m. commandAt (NewRootCmd sample_outside) [''ps''] = Some c \<and>
     bodyOf c (sample_call [(''namespace'', Text ''prod'')] [''shop'']) = Inr m \<and> m = psCmd sample_front [] ''prod'' ''shop''"
proof -
  let ?c = "withHeader (\<lambda>h. h\<lparr>cb_GroupID := ''apps''\<rparr>) (newPsCmd sample_outside)" and ?iv = "sample_call [(''namespace'', Text ''prod'')] [''shop'']"
  have "typed (cb_Flags (header ?c)) (iv_Set ?iv)" "checkArgs (cb_Args (header ?c)) (valuesOf ?c ?iv) ?iv = Inr ()"
    "cb_RunE (header ?c) \<noteq> None"
    by (simp_all add: newPsCmd_def leaf_def typed_def flag_defs sample_call_def)
  with commands_reach_bodies [OF at_simps(2)] obtain m where m: "bodyOf ?c ?iv = Inr m" by blast
  then have "m = psCmd sample_front [] ''prod'' ''shop''"
    by (simp add: bodyOf_simps newPsCmd_def rbind_Inr_iff clusterFlags_def textFlag_def valueOf_def Changed_def flag_defs sample_call_def arg_def
        sample_front_of)
  then show ?thesis using m at_simps(2) by blast
qed

theorem commands_unambiguous_witness:
  "commandAt (NewRootCmd sample_outside) [''describe'', ''po''] = Some (newDescribePodCmd sample_outside)"
proof -
  let ?c = "withHeader (\<lambda>h. h\<lparr>cb_GroupID := ''apps''\<rparr>) (newDescribeCmd sample_outside)"
  have at: "commandAt (NewRootCmd sample_outside) [''describe''] = Some ?c" by (simp add: tree_eval)
  have "newDescribePodCmd sample_outside \<in> set (subcommands ?c)" by (simp add: newDescribeCmd_def branch_def)
  from commands_unambiguous [OF at this] have
    "\<forall>w \<in> set (words (newDescribePodCmd sample_outside)). commandAt (NewRootCmd sample_outside) [''describe'', w] = Some (newDescribePodCmd sample_outside)"
    by simp
  moreover have "''po'' \<in> set (words (newDescribePodCmd sample_outside))" by (simp add: newDescribePodCmd_def words_simps header_simps)
  ultimately show ?thesis by blast
qed

theorem looking_changes_nothing_witness:
  "\<exists>m. bodyOf (newMCPCmd sample_outside) (sample_call [] []) = Inr m \<and>
     behind (seen id map_of) (snd (m sample_terminal)) = behind (seen id map_of) sample_terminal"
proof -
  let ?c = "withHeader (\<lambda>h. h\<lparr>cb_GroupID := ''access''\<rparr>) (newMCPCmd sample_outside)" and ?iv = "sample_call [] []"
  have "looks [''mcp''] (iv_Set ?iv)" by (simp add: looks_def Changed_def sample_call_def)
  moreover have "bodyOf ?c ?iv = Inr (mcpCmd sample_outside False False [])"
    by (simp add: bodyOf_simps newMCPCmd_def switchFlag_def textFlag_def valueOf_def Changed_def flag_defs sample_call_def)
  ultimately show ?thesis
    using looking_changes_nothing [where o' = sample_outside, unfolded sample_front_of, OF sample_front_ok at_simps(6)] bodyOf_simps(2) by metis
qed

theorem api_serves_token_holders_witness:
  "bodyOf (newAPICmd (sample_outside\<lparr>ot_requests := []\<rparr>)) (sample_call [(''addr'', Text '':80'')] []) =
   bodyOf (newAPICmd sample_outside) (sample_call [(''addr'', Text '':80'')] [])"
proof -
  let ?iv = "sample_call [(''addr'', Text '':80'')] []"
  have run: "bodyOf (newAPICmd sample_outside) ?iv = Inr (apiCmd sample_outside '':80'' [] [])"
    "textFlag (valuesOf (newAPICmd sample_outside) ?iv) ''token'' = Inr []"
    by (simp_all add: bodyOf_simps newAPICmd_def textFlag_def valuesOf_def valueOf_def Changed_def flag_defs sample_call_def leaf_def bodyOf_def)
  have "filter (\<lambda>r. TrimPrefix (hx_Authorization r) ''Bearer '' = ''s3cret'') (ot_requests sample_outside) = []"
    by (simp add: sample_outside_def sample_request_def TrimPrefix_def HasPrefix_def)
  with api_serves_token_holders [OF run, of "''s3cret''"] run(1) show ?thesis by (simp add: sample_outside_def)
qed

end
