(* ===== verification/Spec2Isabelle.thy ===== *)
theory Spec2Isabelle
  imports Engine Operations Native_Upgrade Self_Update Project_Cli Secret_Cli Deploy_Cli Skills_Cli Describe Logs Cluster_Cli Mcp_Server Api_Server Program
begin

text \<open>
  Orcinus runs compose files on Kubernetes: it converts compose and manifest documents to Kubernetes objects, applies them to a
  cluster, looks after what is deployed (scaling, rollbacks, secrets, plugins), runs the cluster itself in containers, and serves all
  that over HTTP and over the Model Context Protocol. This development models its own Go packages (\<^verbatim>\<open>src/pkg\<close>); the kompose fork
  (\<^verbatim>\<open>src/third_party/kompose\<close>) and the client libraries are parameters.

  \<^bold>\<open>How the parts fit.\<close> A source text is split and classified (\<^verbatim>\<open>pkg/detect\<close>), compose documents go through \<^verbatim>\<open>pkg/compose\<close>, which
  rewrites them for the fork and edits the objects it returns, manifests are decoded as they are; \<^verbatim>\<open>pkg/engine\<close> drives this, installs the
  plugins the objects need (\<^verbatim>\<open>pkg/plugin\<close>) and applies them (\<^verbatim>\<open>pkg/deploy\<close>). \<^verbatim>\<open>pkg/api\<close> and \<^verbatim>\<open>pkg/mcp\<close> are front ends to the engine, to
  \<^verbatim>\<open>pkg/deploy\<close>, to the plugins and to \<^verbatim>\<open>pkg/cluster\<close>, which keeps the node containers.

  \<^bold>\<open>Theories.\<close> Shared: \<open>Orcinus_Prelude\<close> (results, Go strings, maps and loops), \<open>Effects\<close> (commands on a state and what they keep),
  \<open>Tab_Writer\<close> (\<^verbatim>\<open>text/tabwriter\<close>, \<^verbatim>\<open>strconv.Quote\<close>), \<open>Go_Path\<close> (\<^verbatim>\<open>path/filepath\<close> and the host), \<open>Iface\<close> (\<^verbatim>\<open>interface{}\<close> values). Conversion, following \<^verbatim>\<open>compose/extensions.go\<close> and
  \<^verbatim>\<open>compose/compose.go\<close> from top to bottom: \<open>Compose_Ext\<close> (parsers of the extension keys), \<open>Env_Staging\<close> (env files copied for the
  fork), \<open>Inject_Labels\<close> (the rewriting of one document), \<open>Kube_Objects\<close> (objects, labels, order), \<open>Workload_Passes\<close>,
  \<open>Secrets_Pass\<close>, \<open>Ingress_Pass\<close>, \<open>Progressive\<close> (rollouts, autoscalers), \<open>Virtual_Machines\<close> (\<^verbatim>\<open>compose/vm.go\<close>), and \<open>Convert\<close>, which composes
  them. Engine: \<open>Detect\<close>, \<open>Plugin_Objects\<close> and \<open>Plugins\<close> (\<^verbatim>\<open>pkg/plugin\<close>), \<open>Cluster_Apply\<close> (\<^verbatim>\<open>deploy/apply.go\<close>), \<open>Engine\<close>. Operations on what
  runs: \<open>Operations\<close> (\<^verbatim>\<open>scale.go\<close>, \<^verbatim>\<open>rollback.go\<close>, \<^verbatim>\<open>restart.go\<close>, \<^verbatim>\<open>secret.go\<close>, \<^verbatim>\<open>registry.go\<close>), \<open>Views\<close> (\<^verbatim>\<open>list.go\<close>, \<^verbatim>\<open>pods.go\<close>, \<^verbatim>\<open>nodes.go\<close>),
  \<open>Project_Config\<close> (\<^verbatim>\<open>config.go\<close>, \<^verbatim>\<open>render.go\<close>). The cluster: \<open>Docker_Node\<close> (\<^verbatim>\<open>update.go\<close>, \<^verbatim>\<open>upgrade.go\<close>, \<^verbatim>\<open>gpu.go\<close>), \<open>Cluster_Life\<close>
  (\<^verbatim>\<open>cluster.go\<close>), and the standalone build, \<open>Native\<close> (\<^verbatim>\<open>standalone_run.go\<close>, \<^verbatim>\<open>runtime/embed.go\<close>) and \<open>Native_Upgrade\<close>
  (\<^verbatim>\<open>upgrade_standalone.go\<close>). Front ends: \<open>Front\<close> (what both servers share, and \<^verbatim>\<open>pkg/skills\<close>), \<open>Mcp_Server\<close>, \<open>Api_Server\<close>, and the commands of \<^verbatim>\<open>pkg/cli\<close>:
  \<open>Console\<close> (a terminal and its files), \<open>Project_Cli\<close> (\<^verbatim>\<open>ls\<close>, \<^verbatim>\<open>ps\<close>, \<^verbatim>\<open>node\<close>, \<^verbatim>\<open>scale\<close>, \<^verbatim>\<open>autoscale\<close>, \<^verbatim>\<open>restart\<close>, \<^verbatim>\<open>rollback\<close>, \<^verbatim>\<open>rm\<close>, \<^verbatim>\<open>config\<close>, \<^verbatim>\<open>version\<close>),
  \<open>Secret_Cli\<close> (\<^verbatim>\<open>secret.go\<close>), \<open>Deploy_Cli\<close> (\<^verbatim>\<open>deploy.go\<close>, and \<^verbatim>\<open>WriteDir\<close> of \<^verbatim>\<open>deploy/render.go\<close>), \<open>Skills_Cli\<close> (\<^verbatim>\<open>skills.go\<close>), \<open>Exec\<close> (\<^verbatim>\<open>exec.go\<close> with
  \<^verbatim>\<open>deploy/exec.go\<close>), \<open>Describe\<close> (\<^verbatim>\<open>describe.go\<close> with \<^verbatim>\<open>deploy/describe.go\<close>), \<open>Logs\<close> (\<^verbatim>\<open>logs.go\<close> with \<^verbatim>\<open>StreamServiceLogs\<close>), \<open>Cluster_Cli\<close> (the cluster and
  plugin commands and \<^verbatim>\<open>kubectl\<close>), \<open>Host_Calls\<close> (\<^verbatim>\<open>netfix_linux.go\<close>, \<^verbatim>\<open>Exec\<close> of \<^verbatim>\<open>runtime/embed.go\<close>) and \<open>Self_Update\<close> (\<^verbatim>\<open>update.go\<close>). \<open>Command_Tree\<close> has what they use of
  cobra, \<open>Commands\<close> the whole tree from \<^verbatim>\<open>NewRootCmd\<close> down with flags, defaults, argument rules and bodies, and \<open>Program\<close> what holds of all of it.

  \<^bold>\<open>Correspondence.\<close> A definition has the name of the Go function, method or type it models; a helper without a counterpart models the
  lines its caller gives it. Structs are records, enumerations datatypes, \<^verbatim>\<open>(T, error)\<close> is \<open>error + T\<close>, a map is an association list in
  iteration order, and integers are \<open>int\<close> with the conversions to 32 bits written out. Code that changes a cluster, a container or a file is a
  function on an abstract state \<open>'c\<close> or \<open>'d\<close>; what the client libraries answer is a record of functions on that state (\<open>kube\<close>, \<open>client\<close>,
  \<open>reader\<close>, \<open>shell\<close>), HTTP, YAML, JSON and quantities are functions, and what a theorem needs of them is a named hypothesis (\<open>kube_ok\<close>,
  \<open>docker_ok\<close>, \<open>native_ok\<close>, \<open>discovery_ok\<close>, \<open>client_ok\<close> and the like) that a store or a sample satisfies in its witness.

  \<^bold>\<open>Interfaces.\<close> The locales \<open>go_map\<close> (maps), \<open>frame\<close> (what sequences of commands keep), \<open>pod_pass\<close> (a conversion pass edits pod
  specifications only; six interpretations) and \<open>plugin_store\<close> (what an installation does to the record) are each interpreted on the
  definitions of the model.

  \<^bold>\<open>What the theorems show.\<close> Conversion: every object is owned by the project and ordered; no marked secret stays readable; the hints of a
  document are well formed and concern its own services; placement, mounts, TLS, rollouts, autoscalers and machines do what the
  compose keys mean. Engine: every document is used once, plugins are there before anything is applied. Cluster: pruning and removal touch
  only the project's own objects, and claims only on request; waiting tells the truth. Plugins: the record says what was
  installed, and never both GPU plugins. Nodes: a recreation or an upgrade ends with the new container or with the old one; a native upgrade leaves one process at most. Front ends: no token,
  no effect; reading requests read; a redacted export is independent of the secrets; both servers deploy alike. Commands: a dry run changes nothing,
  \<^verbatim>\<open>deploy\<close> is the engine's pipeline but for one check, hidden secret values stay hidden, \<^verbatim>\<open>exec\<close> reaches the pod that was meant, followed logs lose no line in any
  interleaving, the usage block of an agent file is replaced and not repeated. The program as a whole: every accepted command line reaches its body without a panic, the commands for looking change nothing,
  and the API serves those who hold the token as if no one else had called.

  \<^bold>\<open>Bounds.\<close> A polling loop takes the number of rounds its clock allows as an argument, so it ends; \<open>pollMapping\<close> is bounded by the 30
  polls of 2 s in 60 s, the waits by their timeout over the interval. Only the wait of \<^verbatim>\<open>netfix\<close> is a partial function, shown to return on any host whose clock moves. Loops over numbered names take the fuel \<open>length + 1\<close>, which a lemma
  shows is enough.

  \<^bold>\<open>Not modelled.\<close> How cobra reads a command line into flags and arguments (an invocation is what it yields), help texts, the streams of \<^verbatim>\<open>exec\<close> and
  raw mode, overlapping requests to the API server and its shutdown deadline, and what docker, k3s, kubectl and the API server of the cluster do: I/O and the code of others.
\<close>

section \<open>The two servers deploy alike\<close>

lemma arg_of_field: "fieldString a k = Some v \<Longrightarrow> argStr a k = v"
  by (auto simp: fieldString_def argStr_def split: option.splits iface.splits)

lemma flag_of_field: "fieldBool a k = Some b \<Longrightarrow> argBool a k = b"
  by (auto simp: fieldBool_def argBool_def split: option.splits iface.splits)

lemma option_of_field: "optionalBool a k = Some v \<Longrightarrow> as_bool (map_of a k) = v"
  by (auto simp: optionalBool_def split: option.splits iface.splits)

lemma need_Inr: "need x = Inr v \<longleftrightarrow> x = Some v"
  by (auto simp: need_def split: option.splits)

definition deployKeys :: "string list" where
  "deployKeys = [''source'', ''project'', ''namespace'', ''wait'', ''prune'', ''prunePVCs'']"

lemma known_keys: "set deployKeys \<subseteq> set deployFields"
  by (simp add: deployKeys_def deployFields_def)

lemma absent_key: "list_all (\<lambda>(k, _). k \<in> set ks) a \<Longrightarrow> k \<notin> set ks \<Longrightarrow> map_of a k = None"
  by (auto simp: list_all_iff map_of_eq_None_iff)

lemma parseDeployInput_tool:
  assumes "HasPrefix (hx_ContentType r) ''application/json''" and "hx_Body r = Some b" and "ai_decode w b = Some (JObj a)"
    and "deployFromJSON a = Inr dr" and "list_all (\<lambda>(k, _). k \<in> set deployKeys) a"
  shows "parseDeployInput w cfg r = Inr (argStr a ''source'',
    (baseRequest a)\<lparr>rq_Kubeconfig := cg_Kubeconfig cfg,
      rq_Prune := (case as_bool (map_of a ''prune'') of Some v \<Rightarrow> v | None \<Rightarrow> True), rq_PrunePVCs := argBool a ''prunePVCs'',
      rq_Wait := argBool a ''wait'', rq_Rounds := fr_rounds w, rq_AutoInstall := True\<rparr>)"
proof -
  have known: "list_all (\<lambda>(k, _). k \<in> set deployFields) a"
    using assms(5) known_keys by (auto simp: list_all_iff)
  have body: "readJSON w deployFields r = Inr a" using assms(2,3) known by (simp add: readJSON_def decodeStruct_def)
  note none = absent_key [OF assms(5)]
  have "map_of a ''mode'' = None" "map_of a ''replicas'' = None" "map_of a ''pvcSize'' = None" "map_of a ''acmeEmail'' = None"
    "map_of a ''profiles'' = None" by (simp_all add: none deployKeys_def)
  moreover have "fieldString a ''source'' = Some (dr_Source dr)" "fieldString a ''project'' = Some (dr_Project dr)"
    "fieldString a ''namespace'' = Some (dr_Namespace dr)" "optionalBool a ''prune'' = Some (dr_Prune dr)"
    "fieldBool a ''prunePVCs'' = Some (dr_PrunePVCs dr)" "fieldBool a ''wait'' = Some (dr_Wait dr)"
    "fieldString a ''mode'' = Some (dr_Mode dr)" "fieldInt int64_min int64_max a ''replicas'' = Some (dr_Replicas dr)"
    "fieldString a ''pvcSize'' = Some (dr_PVCSize dr)" "fieldString a ''acmeEmail'' = Some (dr_ACMEEmail dr)"
    "fieldStrings a ''profiles'' = Some (dr_Profiles dr)"
    using assms(4) by (auto simp: deployFromJSON_def rbind_Inr_iff need_Inr)
  moreover from this have "argStr a ''source'' = dr_Source dr" "argStr a ''project'' = dr_Project dr" "argStr a ''namespace'' = dr_Namespace dr"
    "as_bool (map_of a ''prune'') = dr_Prune dr" "argBool a ''prunePVCs'' = dr_PrunePVCs dr" "argBool a ''wait'' = dr_Wait dr"
    by (simp_all only: arg_of_field flag_of_field option_of_field)
  ultimately show ?thesis
    using assms(1,4) by (simp add: parseDeployInput_def body baseRequest_def orDefault_def fieldInt_def fieldStrings_def fieldString_def)
qed

text \<open>
  C40: the two servers deploy alike. A JSON body of the keys both know, sent to \<^verbatim>\<open>POST /api/v1/deploy\<close>, and the same object given to the tool
  \<^verbatim>\<open>deploy\<close> leave the same cluster, record of plugins and machine behind, and the first is answered with 200 exactly
  when the second succeeds.
\<close>

theorem deploy_agrees:
  assumes "HasPrefix (hx_ContentType r) ''application/json''" and "hx_Body r = Some b" and "ai_decode w b = Some (JObj a)"
    and "deployFromJSON a = Inr dr" and "list_all (\<lambda>(k, _). k \<in> set deployKeys) a"
    and "sv_kubeconfig sv = cg_Kubeconfig cfg"
  shows "snd (handleDeploy w cfg vs r s) = snd (deployTool (front.truncate w) sv a s) \<and>
    (fst (fst (handleDeploy w cfg vs r s)) = 200 \<longleftrightarrow> \<not> isl (fst (deployTool (front.truncate w) sv a s)))"
proof -
  have same: "world.truncate (front.truncate w) = world.truncate w" "fr_rounds (front.truncate w) = fr_rounds w"
    by (simp_all add: world.truncate_def front.truncate_def)
  show ?thesis
    using parseDeployInput_tool [OF assms(1-5), of cfg] assms(6)
    by (auto simp: handleDeploy_def onFail_def lift_def deployTool_def Let_def onManager_def deployed_def same reply_def failure_def
        writeErr_def split: prod.splits option.splits sum.splits error.splits)
qed

definition agreeing_api :: "(unit, (gvr \<times> obj) list, (string \<times> string list) list) api" where
  "agreeing_api = sample_api\<lparr>ai_decode := (\<lambda>_. Some (JObj [(''source'', JStr ''x'')]))\<rparr>"

theorem deploy_agrees_witness:
  "snd (handleDeploy agreeing_api \<lparr>cg_Token = [], cg_Kubeconfig = ''/k''\<rparr> []
     ((sample_request ''POST'' ''/api/v1/deploy'')\<lparr>hx_ContentType := ''application/json'', hx_Body := Some ''{}''\<rparr>) sample_system) =
   snd (deployTool (front.truncate agreeing_api) (sample_server True) [(''source'', JStr ''x'')] sample_system)"
proof -
  let ?r = "(sample_request ''POST'' ''/api/v1/deploy'')\<lparr>hx_ContentType := ''application/json'', hx_Body := Some ''{}''\<rparr>"
  let ?a = "[(''source'', JStr ''x'')]"
  have "HasPrefix (hx_ContentType ?r) ''application/json''" by (simp add: HasPrefix_def)
  moreover have "hx_Body ?r = Some ''{}''" by simp
  moreover have "ai_decode agreeing_api ''{}'' = Some (JObj ?a)" by (simp add: agreeing_api_def)
  moreover have "deployFromJSON ?a = Inr (projr (deployFromJSON ?a))"
    by (simp add: deployFromJSON_def need_def fieldString_def fieldInt_def fieldBool_def fieldStrings_def optionalBool_def)
  moreover have "list_all (\<lambda>(k, _). k \<in> set deployKeys) ?a" by (simp add: deployKeys_def)
  moreover have "sv_kubeconfig (sample_server True) = cg_Kubeconfig \<lparr>cg_Token = [], cg_Kubeconfig = ''/k''\<rparr>" by (simp add: sample_server_def)
  ultimately show ?thesis by (rule deploy_agrees [THEN conjunct1])
qed

end
